(* ===== verification/Prelude.thy ===== *)
theory Prelude imports Main Complex_Main "HOL-Library.Word" begin

text \<open>
  The vocabulary every component of the development shares: Python strings as sequences of code
  points, JSON-like Python values, dictionaries that keep insertion order, exceptions as values
  of a sum type, and a state-and-exception action for code with effects.  The collections
  \<open>result_simps\<close> and \<open>dict_simps\<close> gather the rewriting lemmas that component proofs use.
\<close>

named_theorems result_simps "rewriting of the error and effect combinators"
named_theorems dict_simps "rewriting of dictionary operations"
named_theorems eval_simps "definitions to unfold when a closed term is evaluated"

section \<open>Strings and bytes\<close>

text \<open>
  A Python string is a sequence of Unicode code points; \<open>len\<close> counts code points, and the
  length of the UTF-8 encoding is a different number.  \<open>lit\<close> embeds an ASCII literal.
\<close>

type_synonym pystr = "nat list"
type_synonym byte = "8 word"

definition lit :: "string \<Rightarrow> pystr" where
  "lit s = map of_char s"

declare lit_def [eval_simps]

lemma of_char_nat_inj: "inj (of_char :: char \<Rightarrow> nat)"
  by (rule inj_of_char)

lemma lit_eq_iff [simp]: "lit a = lit b \<longleftrightarrow> a = b"
  unfolding lit_def by (simp add: inj_map_eq_map [OF of_char_nat_inj])

lemma lit_Nil [simp]: "lit [] = []"
  by (simp add: lit_def)

lemma lit_eq_Nil [simp]: "lit s = [] \<longleftrightarrow> s = []" "[] = lit s \<longleftrightarrow> s = []"
  by (auto simp: lit_def)

lemma length_lit [simp]: "length (lit s) = length s"
  by (simp add: lit_def)

lemma lit_append: "lit (s @ t) = lit s @ lit t"
  by (simp add: lit_def)

lemma lit_append_eq_iff [simp]: "lit a @ x = lit a @ y \<longleftrightarrow> x = y"
  by simp

lemma lit_bound: "c \<in> set (lit s) \<Longrightarrow> c < 256"
  by (auto simp: lit_def)

section \<open>Python values\<close>

datatype pyfloat = Fin rat | Infinite bool | NaN

datatype pyval =
    VNone
  | VBool bool
  | VInt int
  | VFloat pyfloat
  | VStr pystr
  | VList "pyval list"
  | VDict "(pystr \<times> pyval) list"

type_synonym pydict = "(pystr \<times> pyval) list"

fun is_str :: "pyval \<Rightarrow> bool" where
  "is_str (VStr _) = True" | "is_str _ = False"

fun is_dict :: "pyval \<Rightarrow> bool" where
  "is_dict (VDict _) = True" | "is_dict _ = False"

fun is_list :: "pyval \<Rightarrow> bool" where
  "is_list (VList _) = True" | "is_list _ = False"

fun is_bool :: "pyval \<Rightarrow> bool" where
  "is_bool (VBool _) = True" | "is_bool _ = False"

text \<open>\<open>isinstance(x, int)\<close> is also true of a Boolean, since \<open>bool\<close> is a subclass of \<open>int\<close>.\<close>

fun is_int :: "pyval \<Rightarrow> bool" where
  "is_int (VInt _) = True" | "is_int (VBool _) = True" | "is_int _ = False"

fun int_of :: "pyval \<Rightarrow> int" where
  "int_of (VInt i) = i" | "int_of (VBool b) = (if b then 1 else 0)" | "int_of _ = 0"

fun str_of :: "pyval \<Rightarrow> pystr" where
  "str_of (VStr s) = s" | "str_of _ = []"

fun dict_of :: "pyval \<Rightarrow> pydict" where
  "dict_of (VDict d) = d" | "dict_of _ = []"

fun list_of :: "pyval \<Rightarrow> pyval list" where
  "list_of (VList xs) = xs" | "list_of _ = []"

lemma is_str_conv: "is_str v \<longleftrightarrow> (\<exists>s. v = VStr s)"
  by (cases v) auto

lemma is_dict_conv: "is_dict v \<longleftrightarrow> (\<exists>d. v = VDict d)"
  by (cases v) auto

lemma is_list_conv: "is_list v \<longleftrightarrow> (\<exists>xs. v = VList xs)"
  by (cases v) auto

text \<open>
  Equality \<open>==\<close> of Python values: numbers compare by value across \<open>bool\<close>, \<open>int\<close> and \<open>float\<close>,
  dictionaries compare without regard to order, and NaN differs from everything.
\<close>

fun num_of :: "pyval \<Rightarrow> pyfloat option" where
  "num_of (VBool b) = Some (Fin (if b then 1 else 0))"
| "num_of (VInt i) = Some (Fin (of_int i))"
| "num_of (VFloat f) = Some f"
| "num_of _ = None"

fun py_eq :: "pyval \<Rightarrow> pyval \<Rightarrow> bool"
  and py_eq_list :: "pyval list \<Rightarrow> pyval list \<Rightarrow> bool"
  and py_eq_dict :: "pydict \<Rightarrow> pydict \<Rightarrow> bool" where
  "py_eq (VList xs) v = (case v of VList ys \<Rightarrow> py_eq_list xs ys | _ \<Rightarrow> False)"
| "py_eq (VDict d) v =
     (case v of VDict e \<Rightarrow> length d = length e \<and> py_eq_dict d e | _ \<Rightarrow> False)"
| "py_eq (VStr s) v = (v = VStr s)"
| "py_eq VNone v = (v = VNone)"
| "py_eq (VBool b) v = (num_of v = Some (Fin (if b then 1 else 0)))"
| "py_eq (VInt i) v = (num_of v = Some (Fin (of_int i)))"
| "py_eq (VFloat f) v = (f \<noteq> NaN \<and> num_of v = Some f)"
| "py_eq_list [] ys = (ys = [])"
| "py_eq_list (x # xs) ys = (case ys of [] \<Rightarrow> False | y # zs \<Rightarrow> py_eq x y \<and> py_eq_list xs zs)"
| "py_eq_dict [] e = True"
| "py_eq_dict (p # d) e =
     ((case map_of e (fst p) of None \<Rightarrow> False | Some v \<Rightarrow> py_eq (snd p) v) \<and> py_eq_dict d e)"

text \<open>\<open>x == "literal"\<close> is equality, on either side.\<close>

lemma py_eq_VStr [simp]: "py_eq v (VStr s) \<longleftrightarrow> v = VStr s"
  by (cases v) auto

lemma py_eq_VNone [simp]: "py_eq v VNone \<longleftrightarrow> v = VNone"
  by (cases v) auto

lemma py_eq_VInt: "py_eq v (VInt i) \<longleftrightarrow> num_of v = Some (Fin (of_int i))"
  by (cases v) auto

section \<open>Dictionaries\<close>

text \<open>
  A dictionary is an association list with distinct keys, in insertion order.  Assignment keeps
  the position of an existing key and appends a new one, as Python's \<open>dict\<close> does.
\<close>

definition get_opt :: "pydict \<Rightarrow> string \<Rightarrow> pyval option" where
  "get_opt d k = map_of d (lit k)"

definition get_or :: "pydict \<Rightarrow> string \<Rightarrow> pyval \<Rightarrow> pyval" where
  "get_or d k dflt = (case map_of d (lit k) of None \<Rightarrow> dflt | Some v \<Rightarrow> v)"

definition get_key :: "pydict \<Rightarrow> string \<Rightarrow> pyval" where
  "get_key d k = get_or d k VNone"

definition has_key :: "pydict \<Rightarrow> string \<Rightarrow> bool" where
  "has_key d k \<longleftrightarrow> map_of d (lit k) \<noteq> None"

text \<open>\<open>x.get(k) if isinstance(x, Mapping) else None\<close>, the idiom the code uses to descend safely.\<close>

definition safe_get :: "pyval \<Rightarrow> string \<Rightarrow> pyval" where
  "safe_get v k = (case v of VDict d \<Rightarrow> get_key d k | _ \<Rightarrow> VNone)"

fun dict_set :: "(pystr \<times> 'v) list \<Rightarrow> pystr \<Rightarrow> 'v \<Rightarrow> (pystr \<times> 'v) list" where
  "dict_set [] k v = [(k, v)]"
| "dict_set (p # d) k v = (if fst p = k then (k, v) # d else p # dict_set d k v)"

text \<open>\<open>{**a, **b}\<close> and \<open>dict(pairs)\<close>: later bindings overwrite earlier ones.\<close>

definition dict_update :: "(pystr \<times> 'v) list \<Rightarrow> (pystr \<times> 'v) list \<Rightarrow> (pystr \<times> 'v) list" where
  "dict_update a b = foldl (\<lambda>d p. dict_set d (fst p) (snd p)) a b"

definition dict_del :: "(pystr \<times> 'v) list \<Rightarrow> pystr \<Rightarrow> (pystr \<times> 'v) list" where
  "dict_del d k = filter (\<lambda>p. fst p \<noteq> k) d"

definition keys :: "(pystr \<times> 'v) list \<Rightarrow> pystr set" where
  "keys d = set (map fst d)"

text \<open>Build a dictionary literal from ASCII keys.\<close>

definition mk :: "(string \<times> 'v) list \<Rightarrow> (pystr \<times> 'v) list" where
  "mk xs = map (\<lambda>p. (lit (fst p), snd p)) xs"

lemma mk_simps [simp, dict_simps]:
  "mk [] = []" "mk ((k, v) # xs) = (lit k, v) # mk xs"
  by (simp_all add: mk_def)

lemma keys_simps [simp, dict_simps]:
  "keys [] = {}" "keys (p # d) = insert (fst p) (keys d)"
  by (simp_all add: keys_def)

lemma map_of_dict_set [simp, dict_simps]: "map_of (dict_set d k v) = (map_of d)(k \<mapsto> v)"
  by (induction d) (auto simp: fun_eq_iff)

lemma keys_dict_set [simp, dict_simps]: "keys (dict_set d k v) = insert k (keys d)"
  by (induction d) auto

lemma map_fst_dict_set:
  "map fst (dict_set d k v) = (if k \<in> set (map fst d) then map fst d else map fst d @ [k])"
  by (induction d) auto

lemma distinct_dict_set:
  "distinct (map fst d) \<Longrightarrow> distinct (map fst (dict_set d k v))"
  by (simp add: map_fst_dict_set)

lemma dict_set_fresh: "k \<notin> set (map fst d) \<Longrightarrow> dict_set d k v = d @ [(k, v)]"
  by (induction d) auto

lemma dict_update_Nil [simp, dict_simps]: "dict_update a [] = a"
  by (simp add: dict_update_def)

lemma dict_update_Cons [simp, dict_simps]:
  "dict_update a (p # b) = dict_update (dict_set a (fst p) (snd p)) b"
  by (simp add: dict_update_def)

lemma map_of_dict_update:
  "map_of (dict_update a b) k = (case map_of (rev b) k of None \<Rightarrow> map_of a k | Some v \<Rightarrow> Some v)"
proof (induction b arbitrary: a)
  case Nil
  then show ?case by simp
next
  case (Cons p b)
  then show ?case
    by (cases p) (auto simp: map_add_def split: option.splits)
qed

lemma map_of_rev_distinct:
  assumes "distinct (map fst d)"
  shows "map_of (rev d) = map_of d"
proof (rule ext)
  fix k
  have d: "distinct (map fst (rev d))" using assms by (simp add: rev_map [symmetric])
  show "map_of (rev d) k = map_of d k"
  proof (cases "map_of d k")
    case None
    then have "map_of (rev d) k = None" by (simp add: map_of_eq_None_iff)
    with None show ?thesis by simp
  next
    case (Some v)
    then show ?thesis using d by (auto intro!: map_of_is_SomeI dest: map_of_SomeD)
  qed
qed

lemma map_of_update_Nil: "map_of (dict_update [] b) k = map_of (rev b) k"
  by (simp add: map_of_dict_update split: option.split)

lemma keys_dict_update: "keys (dict_update a b) = keys a \<union> keys b"
  by (induction b arbitrary: a) auto

lemma distinct_dict_update:
  "distinct (map fst a) \<Longrightarrow> distinct (map fst (dict_update a b))"
  by (induction b arbitrary: a) (auto intro: distinct_dict_set)

text \<open>Updating with fresh, distinct keys is appending.\<close>

lemma dict_update_fresh:
  "distinct (map fst b) \<Longrightarrow> set (map fst a) \<inter> set (map fst b) = {} \<Longrightarrow> dict_update a b = a @ b"
proof (induction b arbitrary: a)
  case Nil
  then show ?case by simp
next
  case (Cons p b)
  then have "dict_set a (fst p) (snd p) = a @ [p]"
    by (simp add: dict_set_fresh)
  with Cons show ?case by (auto simp: Cons.IH)
qed

lemma dict_update_distinct [simp]: "distinct (map fst b) \<Longrightarrow> dict_update [] b = b"
  by (simp add: dict_update_fresh)

lemma get_key_simps [simp, dict_simps]:
  "get_key [] k = VNone"
  "get_key ((lit j, v) # d) k = (if j = k then v else get_key d k)"
  by (auto simp: get_key_def get_or_def)

lemma get_or_simps [simp, dict_simps]:
  "get_or [] k x = x"
  "get_or ((lit j, v) # d) k x = (if j = k then v else get_or d k x)"
  by (auto simp: get_or_def)

lemma has_key_simps [simp, dict_simps]:
  "\<not> has_key [] k"
  "has_key ((lit j, v) # d) k \<longleftrightarrow> j = k \<or> has_key d k"
  by (auto simp: has_key_def)

lemma safe_get_simps [simp, dict_simps]:
  "safe_get (VDict d) k = get_key d k"
  "safe_get VNone k = VNone" "safe_get (VBool b) k = VNone" "safe_get (VInt i) k = VNone"
  "safe_get (VFloat f) k = VNone" "safe_get (VStr s) k = VNone" "safe_get (VList xs) k = VNone"
  by (simp_all add: safe_get_def)

section \<open>Exceptions\<close>

text \<open>
  The exceptions of the program; \<open>ServiceError\<close>, the error code of a failed call to an AWS
  service; and, as \<open>PyError\<close>, those of the language.  The code of an
  application error is one of a closed set of ASCII words, so it is a \<open>string\<close>.  An error of the
  qualification has the name of its class in front, as two classes extend \<open>QualificationError\<close>.
\<close>

datatype exn =
    HandoffError string int
  | ScreenPopConfigError string
  | ConfigurationError string
  | VapiProvisioningError string
  | VapiAmbiguousWriteError string pystr "int option"
  | SafeguardError string
  | QualificationError string string
  | DeploymentReviewError string
  | DirectHandoffContractError string
  | ServiceError string
  | PyError string

type_synonym 'a result = "exn + 'a"

definition rbind :: "'a result \<Rightarrow> ('a \<Rightarrow> 'b result) \<Rightarrow> 'b result" where
  "rbind m f = (case m of Inl e \<Rightarrow> Inl e | Inr x \<Rightarrow> f x)"

lemma rbind_simps [simp, result_simps]:
  "rbind (Inl e) f = Inl e" "rbind (Inr x) f = f x"
  by (simp_all add: rbind_def)

lemma rbind_eq_Inr [result_simps]:
  "rbind m f = Inr y \<longleftrightarrow> (\<exists>x. m = Inr x \<and> f x = Inr y)"
  by (cases m) auto

lemma rbind_eq_Inl [result_simps]:
  "rbind m f = Inl e \<longleftrightarrow> m = Inl e \<or> (\<exists>x. m = Inr x \<and> f x = Inl e)"
  by (cases m) auto

text \<open>A guard \<open>if b: raise e\<close> in front of the rest.\<close>

lemma guard_eq [result_simps]:
  "(if b then Inl e else r) = Inr y \<longleftrightarrow> \<not> b \<and> r = Inr y"
  "(if b then Inl e else r) = Inl x \<longleftrightarrow> b \<and> x = e \<or> \<not> b \<and> r = Inl x"
  by auto

lemma option_case_eq [result_simps]:
  "(case m of None \<Rightarrow> Inl e | Some x \<Rightarrow> f x) = Inr y \<longleftrightarrow> (\<exists>x. m = Some x \<and> f x = Inr y)"
  "(case m of None \<Rightarrow> Inl e | Some x \<Rightarrow> f x) = Inl z \<longleftrightarrow>
     m = None \<and> z = e \<or> (\<exists>x. m = Some x \<and> f x = Inl z)"
  by (auto split: option.splits)

lemma rbind_cong [fundef_cong]:
  "m = m' \<Longrightarrow> (\<And>x. m' = Inr x \<Longrightarrow> f x = g x) \<Longrightarrow> rbind m f = rbind m' g"
  by (cases m') auto

text \<open>
  A type test that raises: \<open>if not isinstance(v, T): raise e\<close>, and then the value at type \<open>T\<close>.
\<close>

definition expect_str :: "exn \<Rightarrow> pyval \<Rightarrow> pystr result" where
  "expect_str e v = (case v of VStr s \<Rightarrow> Inr s | _ \<Rightarrow> Inl e)"

definition expect_dict :: "exn \<Rightarrow> pyval \<Rightarrow> pydict result" where
  "expect_dict e v = (case v of VDict d \<Rightarrow> Inr d | _ \<Rightarrow> Inl e)"

definition expect_list :: "exn \<Rightarrow> pyval \<Rightarrow> pyval list result" where
  "expect_list e v = (case v of VList xs \<Rightarrow> Inr xs | _ \<Rightarrow> Inl e)"

definition expect_bool :: "exn \<Rightarrow> pyval \<Rightarrow> bool result" where
  "expect_bool e v = (case v of VBool b \<Rightarrow> Inr b | _ \<Rightarrow> Inl e)"

lemma expect_Inr [result_simps]:
  "expect_str e v = Inr s \<longleftrightarrow> v = VStr s" "expect_dict e v = Inr d \<longleftrightarrow> v = VDict d"
  "expect_list e v = Inr xs \<longleftrightarrow> v = VList xs" "expect_bool e v = Inr b \<longleftrightarrow> v = VBool b"
  by (auto simp: expect_str_def expect_dict_def expect_list_def expect_bool_def split: pyval.splits)

lemma expect_Inl [result_simps]:
  "expect_str e v = Inl x \<longleftrightarrow> \<not> is_str v \<and> x = e"
  "expect_dict e v = Inl x \<longleftrightarrow> \<not> is_dict v \<and> x = e"
  "expect_list e v = Inl x \<longleftrightarrow> \<not> is_list v \<and> x = e"
  "expect_bool e v = Inl x \<longleftrightarrow> \<not> is_bool v \<and> x = e"
  by (cases v; auto simp: expect_str_def expect_dict_def expect_list_def expect_bool_def)+

lemma expect_simps [simp]:
  "expect_str e (VStr s) = Inr s" "expect_dict e (VDict d) = Inr d"
  "expect_list e (VList xs) = Inr xs" "expect_bool e (VBool b) = Inr b"
  by (simp_all add: expect_str_def expect_dict_def expect_list_def expect_bool_def)

text \<open>
  \<open>try: m; except E: raise f(E)\<close>, with \<open>catch_as\<close> for a list of caught exceptions, and the value
  of an optional result or an exception.
\<close>

definition map_error :: "(exn \<Rightarrow> exn) \<Rightarrow> 'a result \<Rightarrow> 'a result" where
  "map_error f m = (case m of Inl e \<Rightarrow> Inl (f e) | Inr x \<Rightarrow> Inr x)"

definition catch_as :: "exn list \<Rightarrow> exn \<Rightarrow> exn \<Rightarrow> exn" where
  "catch_as es e' e = (if e \<in> set es then e' else e)"

definition some_or :: "exn \<Rightarrow> 'a option \<Rightarrow> 'a result" where
  "some_or e m = (case m of None \<Rightarrow> Inl e | Some x \<Rightarrow> Inr x)"

lemma map_error_simps [simp, result_simps]:
  "map_error f (Inr x) = Inr x" "map_error f (Inl e) = Inl (f e)"
  "map_error f m = Inr v \<longleftrightarrow> m = Inr v" "map_error f m = Inl z \<longleftrightarrow> (\<exists>e. m = Inl e \<and> z = f e)"
  by (cases m; auto simp: map_error_def)+

lemma some_or_simps [simp, result_simps]:
  "some_or e None = Inl e" "some_or e (Some x) = Inr x"
  "some_or e m = Inr x \<longleftrightarrow> m = Some x" "some_or e m = Inl z \<longleftrightarrow> m = None \<and> z = e"
  by (cases m; auto simp: some_or_def)+

text \<open>Evaluate left to right over a list and stop at the first exception.\<close>

fun rmap :: "('a \<Rightarrow> 'b result) \<Rightarrow> 'a list \<Rightarrow> 'b list result" where
  "rmap f [] = Inr []"
| "rmap f (x # xs) = rbind (f x) (\<lambda>y. rbind (rmap f xs) (\<lambda>ys. Inr (y # ys)))"

lemma rmap_cong [fundef_cong]:
  "xs = ys \<Longrightarrow> (\<And>x. x \<in> set ys \<Longrightarrow> f x = g x) \<Longrightarrow> rmap f xs = rmap g ys"
  by (induction ys arbitrary: xs) auto

lemma rmap_eq_Inr: "rmap f xs = Inr ys \<longleftrightarrow> list_all2 (\<lambda>x y. f x = Inr y) xs ys"
  by (induction xs arbitrary: ys) (auto simp: result_simps list_all2_Cons1)

lemma rmap_length: "rmap f xs = Inr ys \<Longrightarrow> length ys = length xs"
  by (auto simp: rmap_eq_Inr dest: list_all2_lengthD)

text \<open>\<open>{key: f(value) for key, value in d.items()}\<close>, stopping at the first exception.\<close>

definition dict_map :: "('a \<Rightarrow> 'b result) \<Rightarrow> (pystr \<times> 'a) list \<Rightarrow> (pystr \<times> 'b) list result" where
  "dict_map f d = rmap (\<lambda>p. rbind (f (snd p)) (\<lambda>y. Inr (fst p, y))) d"

lemma dict_map_cong [fundef_cong]:
  "d = e \<Longrightarrow> (\<And>p. p \<in> set e \<Longrightarrow> f (snd p) = g (snd p)) \<Longrightarrow> dict_map f d = dict_map g e"
  unfolding dict_map_def by (auto intro: rmap_cong)

lemma dict_map_simps [simp]:
  "dict_map f [] = Inr []"
  "dict_map f (p # d) = rbind (f (snd p)) (\<lambda>y. rbind (dict_map f d) (\<lambda>e. Inr ((fst p, y) # e)))"
  by (cases "f (snd p)"; simp add: dict_map_def)+

lemma dict_map_keys: "dict_map f d = Inr e \<Longrightarrow> map fst e = map fst d"
  by (induction d arbitrary: e) (auto simp: result_simps)

lemma dict_map_lookup:
  assumes "dict_map f d = Inr e"
  shows "map_of d k = None \<Longrightarrow> map_of e k = None"
    and "map_of d k = Some v \<Longrightarrow> \<exists>y. map_of e k = Some y \<and> f v = Inr y"
  using assms by (induction d arbitrary: e) (auto simp: result_simps split: if_splits)

lemma dict_map_ok: "(\<And>p. p \<in> set d \<Longrightarrow> \<exists>y. f (snd p) = Inr y) \<Longrightarrow> \<exists>e. dict_map f d = Inr e"
proof (induction d)
  case Nil
  then show ?case by simp
next
  case (Cons p d)
  then obtain y e where "f (snd p) = Inr y" "dict_map f d = Inr e" by fastforce
  then show ?case by simp
qed

lemma dict_map_member: "dict_map f d = Inr e \<Longrightarrow> p \<in> set d \<Longrightarrow> \<exists>y. f (snd p) = Inr y"
  by (induction d arbitrary: e) (auto simp: result_simps)

lemma dict_map_set:
  assumes "dict_map f d = Inr e" "f v = Inr y"
  shows "dict_map f (dict_set d k v) = Inr (dict_set e k y)"
  using assms by (induction d arbitrary: e) (auto simp: result_simps)

lemma dict_map_update:
  assumes "dict_map f d = Inr e" "dict_map f s = Inr t"
  shows "dict_map f (dict_update d s) = Inr (dict_update e t)"
  using assms by (induction s arbitrary: d e t) (auto simp: result_simps dict_map_set)

lemma dict_map_id: "(\<And>p. p \<in> set d \<Longrightarrow> f (snd p) = Inr (snd p)) \<Longrightarrow> dict_map f d = Inr d"
  by (induction d) auto

section \<open>Effects\<close>

text \<open>
  Code that calls a service threads a state \<open>'w\<close>: an action takes it and returns a result and
  the new state.  An exception keeps the state reached so far, as the effects before a
  \<open>raise\<close> have happened.
\<close>

type_synonym ('w, 'a) act = "'w \<Rightarrow> 'a result \<times> 'w"

definition aret :: "'a \<Rightarrow> ('w, 'a) act" where
  "aret x = (\<lambda>w. (Inr x, w))"

definition araise :: "exn \<Rightarrow> ('w, 'a) act" where
  "araise e = (\<lambda>w. (Inl e, w))"

definition alift :: "'a result \<Rightarrow> ('w, 'a) act" where
  "alift r = (\<lambda>w. (r, w))"

definition abind :: "('w, 'a) act \<Rightarrow> ('a \<Rightarrow> ('w, 'b) act) \<Rightarrow> ('w, 'b) act" where
  "abind m f = (\<lambda>w. case m w of (Inl e, w') \<Rightarrow> (Inl e, w') | (Inr x, w') \<Rightarrow> f x w')"

definition acatch :: "('w, 'a) act \<Rightarrow> (exn \<Rightarrow> ('w, 'a) act) \<Rightarrow> ('w, 'a) act" where
  "acatch m h = (\<lambda>w. case m w of (Inl e, w') \<Rightarrow> h e w' | (Inr x, w') \<Rightarrow> (Inr x, w'))"

lemma act_simps [simp, result_simps]:
  "aret x w = (Inr x, w)" "araise e w = (Inl e, w)" "alift r w = (r, w)"
  by (simp_all add: aret_def araise_def alift_def)

lemma abind_unit [simp, result_simps]:
  "abind (aret x) f = f x" "abind (araise e) g = araise e"
  "abind (alift (Inr x)) f = f x" "abind (alift (Inl e)) g = araise e"
  by (simp_all add: abind_def fun_eq_iff)

lemma abind_split [result_simps]:
  "abind m f w = (r, w'') \<longleftrightarrow>
     (\<exists>e w'. m w = (Inl e, w') \<and> r = Inl e \<and> w'' = w') \<or>
     (\<exists>x w'. m w = (Inr x, w') \<and> f x w' = (r, w''))"
  by (auto simp: abind_def split: prod.splits sum.splits)

lemma abind_ok: "m w = (Inr x, w') \<Longrightarrow> abind m f w = f x w'"
  by (simp add: abind_def)

lemma abind_err: "m w = (Inl e, w') \<Longrightarrow> abind m f w = (Inl e, w')"
  by (simp add: abind_def)

lemma acatch_ok: "m w = (Inr x, w') \<Longrightarrow> acatch m h w = (Inr x, w')"
  by (simp add: acatch_def)

lemma acatch_err: "m w = (Inl e, w') \<Longrightarrow> acatch m h w = h e w'"
  by (simp add: acatch_def)

text \<open>An action keeps a property of the state, whether it returns or raises.\<close>

definition keeps :: "('w \<Rightarrow> bool) \<Rightarrow> ('w, 'a) act \<Rightarrow> bool" where
  "keeps P m \<longleftrightarrow> (\<forall>w. P w \<longrightarrow> P (snd (m w)))"

lemma keepsI: "(\<And>w r w'. P w \<Longrightarrow> m w = (r, w') \<Longrightarrow> P w') \<Longrightarrow> keeps P m"
  unfolding keeps_def by (metis prod.collapse)

lemma keepsD: "keeps P m \<Longrightarrow> P w \<Longrightarrow> m w = (r, w') \<Longrightarrow> P w'"
  unfolding keeps_def by (metis snd_conv)

lemma keeps_basic [simp, intro]: "keeps P (aret x)" "keeps P (araise e)" "keeps P (alift r)"
  by (simp_all add: keeps_def)

lemma keeps_abind [intro]: "keeps P m \<Longrightarrow> (\<And>x. keeps P (f x)) \<Longrightarrow> keeps P (abind m f)"
  unfolding keeps_def abind_def by (auto split: prod.splits sum.splits)

lemma keeps_acatch [intro]: "keeps P m \<Longrightarrow> (\<And>e. keeps P (h e)) \<Longrightarrow> keeps P (acatch m h)"
  unfolding keeps_def acatch_def by (auto split: prod.splits sum.splits)

end
