(* ===== verification/Text.thy ===== *)
theory Text imports Prelude begin

text \<open>
  The part of Python's string library that the program uses, over code points: character
  classes, prefixes and suffixes, splitting and stripping, UTF-8 encoding and decoding, decimal
  conversion.  ASCII behaviour is written out.  Where Python consults the Unicode character
  database, a record \<open>pylib\<close> supplies the answer, and every theorem holds for all of them.
\<close>

section \<open>Character classes\<close>

definition is_upper :: "nat \<Rightarrow> bool" where "is_upper c \<longleftrightarrow> 65 \<le> c \<and> c \<le> 90"
definition is_lower :: "nat \<Rightarrow> bool" where "is_lower c \<longleftrightarrow> 97 \<le> c \<and> c \<le> 122"
definition is_digit :: "nat \<Rightarrow> bool" where "is_digit c \<longleftrightarrow> 48 \<le> c \<and> c \<le> 57"
definition is_ascii_alnum :: "nat \<Rightarrow> bool" where
  "is_ascii_alnum c \<longleftrightarrow> is_upper c \<or> is_lower c \<or> is_digit c"

text \<open>\<open>[A-Za-z0-9_-]\<close>, the alphabet of identifiers and of URL-safe Base64.\<close>

definition id_char :: "nat \<Rightarrow> bool" where
  "id_char c \<longleftrightarrow> is_ascii_alnum c \<or> c = 95 \<or> c = 45"

definition is_hex_lower :: "nat \<Rightarrow> bool" where
  "is_hex_lower c \<longleftrightarrow> is_digit c \<or> (97 \<le> c \<and> c \<le> 102)"

definition is_control :: "nat \<Rightarrow> bool" where "is_control c \<longleftrightarrow> c < 32"

definition is_ascii :: "pystr \<Rightarrow> bool" where "is_ascii s = list_all (\<lambda>c. c < 128) s"

lemmas char_class_defs = is_upper_def is_lower_def is_digit_def is_ascii_alnum_def id_char_def
  is_hex_lower_def is_control_def

text \<open>Python's \<open>str.isspace\<close> and the characters \<open>str.strip\<close> removes.\<close>

definition is_space :: "nat \<Rightarrow> bool" where
  "is_space c \<longleftrightarrow> (9 \<le> c \<and> c \<le> 13) \<or> (28 \<le> c \<and> c \<le> 32) \<or> c = 133 \<or> c = 160 \<or> c = 5760
     \<or> (8192 \<le> c \<and> c \<le> 8202) \<or> c = 8232 \<or> c = 8233 \<or> c = 8239 \<or> c = 8287 \<or> c = 12288"

text \<open>
  What the interpreter takes from outside the language: its Unicode tables, the validity of an
  IPv6 literal, and the time zone of the process, which gives the time of a local clock reading
  (in seconds since 1970) or raises.
\<close>

record pylib =
  uni_lower :: "pystr \<Rightarrow> pystr"
  uni_casefold :: "pystr \<Rightarrow> pystr"
  uni_alnum :: "nat \<Rightarrow> bool"
  uni_decimal :: "nat \<Rightarrow> nat option"
  uni_digit :: "nat \<Rightarrow> bool"
  uni_nfkc :: "pystr \<Rightarrow> pystr"
  ipv6_valid :: "pystr \<Rightarrow> bool"
  local_time :: "int \<Rightarrow> int result"

definition ascii_lower :: "nat \<Rightarrow> nat" where
  "ascii_lower c = (if is_upper c then c + 32 else c)"

definition py_lower :: "pylib \<Rightarrow> pystr \<Rightarrow> pystr" where
  "py_lower lib s = (if is_ascii s then map ascii_lower s else uni_lower lib s)"

definition py_casefold :: "pylib \<Rightarrow> pystr \<Rightarrow> pystr" where
  "py_casefold lib s = (if is_ascii s then map ascii_lower s else uni_casefold lib s)"

definition py_isalnum :: "pylib \<Rightarrow> pystr \<Rightarrow> bool" where
  "py_isalnum lib s \<longleftrightarrow>
     s \<noteq> [] \<and> list_all (\<lambda>c. if c < 128 then is_ascii_alnum c else uni_alnum lib c) s"

definition py_isdigit :: "pylib \<Rightarrow> pystr \<Rightarrow> bool" where
  "py_isdigit lib s \<longleftrightarrow>
     s \<noteq> [] \<and> list_all (\<lambda>c. if c < 128 then is_digit c else uni_digit lib c) s"

section \<open>Prefixes, suffixes, splitting, stripping\<close>

definition starts_with :: "pystr \<Rightarrow> pystr \<Rightarrow> bool" where
  "starts_with s p \<longleftrightarrow> take (length p) s = p"

definition ends_with :: "pystr \<Rightarrow> pystr \<Rightarrow> bool" where
  "ends_with s p \<longleftrightarrow> length p \<le> length s \<and> drop (length s - length p) s = p"

fun contains :: "pystr \<Rightarrow> pystr \<Rightarrow> bool" where
  "contains [] p = (p = [])"
| "contains (c # s) p = (starts_with (c # s) p \<or> contains s p)"

lemma starts_with_iff: "starts_with s p \<longleftrightarrow> (\<exists>t. s = p @ t)"
  by (auto simp: starts_with_def) (metis append_take_drop_id)

lemma ends_with_iff: "ends_with s p \<longleftrightarrow> (\<exists>t. s = t @ p)"
  by (auto simp: ends_with_def) (metis append_take_drop_id)

text \<open>\<open>s.split(c)\<close> for a one-character separator.\<close>

fun split_on :: "nat \<Rightarrow> pystr \<Rightarrow> pystr list" where
  "split_on x [] = [[]]"
| "split_on x (c # s) =
     (if c = x then [] # split_on x s
      else (case split_on x s of [] \<Rightarrow> [[c]] | p # ps \<Rightarrow> (c # p) # ps))"

lemma split_on_nonempty [simp]: "split_on x s \<noteq> []"
  by (cases "(x, s)" rule: split_on.cases) (auto split: list.splits)

lemma split_on_no_sep [simp]: "x \<notin> set s \<Longrightarrow> split_on x s = [s]"
  by (induction s) auto

lemma split_on_append: "x \<notin> set s \<Longrightarrow> split_on x (s @ x # t) = s # split_on x t"
  by (induction s) auto

fun join :: "pystr \<Rightarrow> pystr list \<Rightarrow> pystr" where
  "join sep [] = []"
| "join sep [p] = p"
| "join sep (p # q # ps) = p @ sep @ join sep (q # ps)"

lemma join_Cons: "join sep (p # ps) = p @ (if ps = [] then [] else sep @ join sep ps)"
  by (cases ps) auto

lemma join_split_on: "join [x] (split_on x s) = s"
proof (induction s)
  case Nil
  then show ?case by simp
next
  case (Cons c s)
  obtain p ps where ps: "split_on x s = p # ps"
    by (meson neq_Nil_conv split_on_nonempty)
  with Cons show ?case by (cases ps) auto
qed

lemma split_on_parts_no_sep: "p \<in> set (split_on x s) \<Longrightarrow> x \<notin> set p"
  by (induction s arbitrary: p) (auto split: if_splits list.splits)

definition before :: "nat \<Rightarrow> pystr \<Rightarrow> pystr" where
  "before x s = takeWhile (\<lambda>c. c \<noteq> x) s"

definition after :: "nat \<Rightarrow> pystr \<Rightarrow> pystr" where
  "after x s = drop 1 (dropWhile (\<lambda>c. c \<noteq> x) s)"

definition lstrip_if :: "(nat \<Rightarrow> bool) \<Rightarrow> pystr \<Rightarrow> pystr" where
  "lstrip_if f s = dropWhile f s"

definition rstrip_if :: "(nat \<Rightarrow> bool) \<Rightarrow> pystr \<Rightarrow> pystr" where
  "rstrip_if f s = rev (dropWhile f (rev s))"

definition strip_if :: "(nat \<Rightarrow> bool) \<Rightarrow> pystr \<Rightarrow> pystr" where
  "strip_if f s = lstrip_if f (rstrip_if f s)"

definition remove_char :: "nat \<Rightarrow> pystr \<Rightarrow> pystr" where
  "remove_char x s = filter (\<lambda>c. c \<noteq> x) s"

text \<open>\<open>value.replace("-", "").replace("_", "").isalnum()\<close>, the program's loose identifier check.\<close>

definition loose_identifier :: "pylib \<Rightarrow> pystr \<Rightarrow> bool" where
  "loose_identifier lib s = py_isalnum lib (remove_char 95 (remove_char 45 s))"

text \<open>\<open>re.fullmatch\<close> of one character class with a length range.\<close>

definition class_match :: "(nat \<Rightarrow> bool) \<Rightarrow> nat \<Rightarrow> nat \<Rightarrow> pystr \<Rightarrow> bool" where
  "class_match f lo hi s \<longleftrightarrow> lo \<le> length s \<and> length s \<le> hi \<and> list_all f s"

section \<open>Decimal notation\<close>

fun dec_nat :: "nat \<Rightarrow> pystr" where
  "dec_nat n = (if n < 10 then [48 + n] else dec_nat (n div 10) @ [48 + n mod 10])"

declare dec_nat.simps [simp del]

definition dec_int :: "int \<Rightarrow> pystr" where
  "dec_int i = (if i < 0 then 45 # dec_nat (nat (- i)) else dec_nat (nat i))"

definition digits_val :: "pystr \<Rightarrow> nat" where
  "digits_val s = foldl (\<lambda>a c. 10 * a + (c - 48)) 0 s"

lemma digits_val_snoc: "digits_val (s @ [c]) = 10 * digits_val s + (c - 48)"
  by (simp add: digits_val_def)

lemma digits_val_dec_nat [simp]: "digits_val (dec_nat n) = n"
proof (induction n rule: dec_nat.induct)
  case (1 n)
  show ?case
  proof (cases "n < 10")
    case True
    then show ?thesis by (subst dec_nat.simps) (simp add: digits_val_def)
  next
    case False
    with 1 show ?thesis by (subst dec_nat.simps) (simp add: digits_val_snoc)
  qed
qed

lemma dec_nat_digits: "list_all is_digit (dec_nat n)"
proof (induction n rule: dec_nat.induct)
  case (1 n)
  moreover have "is_digit (48 + k) \<longleftrightarrow> k < 10" for k
    by (auto simp: is_digit_def)
  ultimately show ?case by (subst dec_nat.simps) auto
qed

lemma dec_nat_nonempty [simp]: "dec_nat n \<noteq> []"
  by (subst dec_nat.simps) simp

lemma dec_nat_head: "hd (dec_nat n) = 48 \<longleftrightarrow> n = 0"
proof (induction n rule: dec_nat.induct)
  case (1 n)
  show ?case
  proof (cases "n < 10")
    case True
    then show ?thesis by (subst dec_nat.simps) simp
  next
    case False
    with 1 have "hd (dec_nat (n div 10)) \<noteq> 48" by simp
    with False show ?thesis by (subst dec_nat.simps) simp
  qed
qed

text \<open>
  \<open>int(text)\<close>: surrounding white space, a sign, digits of any script, single underscores between
  digits, and at most 4300 digits (the interpreter's limit).
\<close>

definition digit_value :: "pylib \<Rightarrow> nat \<Rightarrow> nat option" where
  "digit_value lib c = (if is_digit c then Some (c - 48) else if c < 128 then None
     else uni_decimal lib c)"

fun digit_run :: "pylib \<Rightarrow> bool \<Rightarrow> pystr \<Rightarrow> nat list option" where
  "digit_run lib ok [] = (if ok then Some [] else None)"
| "digit_run lib ok (c # s) =
     (if c = 95 then (if ok then digit_run lib False s else None)
      else case digit_value lib c of None \<Rightarrow> None
           | Some d \<Rightarrow> map_option (Cons d) (digit_run lib True s))"

definition parse_int :: "pylib \<Rightarrow> pystr \<Rightarrow> int option" where
  "parse_int lib s =
     (let t = strip_if is_space s;
          neg = (t \<noteq> [] \<and> hd t = 45);
          u = (if t \<noteq> [] \<and> (hd t = 45 \<or> hd t = 43) then tl t else t)
      in case digit_run lib False u of
           None \<Rightarrow> None
         | Some ds \<Rightarrow>
             if length ds > 4300 then None
             else (let v = int (foldl (\<lambda>a d. 10 * a + d) 0 ds) in Some (if neg then - v else v)))"

section \<open>UTF-8\<close>

definition is_surrogate :: "nat \<Rightarrow> bool" where
  "is_surrogate c \<longleftrightarrow> 55296 \<le> c \<and> c < 57344"

definition utf8_char :: "nat \<Rightarrow> nat list" where
  "utf8_char c =
     (if c < 128 then [c]
      else if c < 2048 then [192 + c div 64, 128 + c mod 64]
      else if c < 65536 then [224 + c div 4096, 128 + (c div 64) mod 64, 128 + c mod 64]
      else [240 + c div 262144, 128 + (c div 4096) mod 64, 128 + (c div 64) mod 64,
            128 + c mod 64])"

text \<open>\<open>s.encode("utf-8")\<close> raises on a lone surrogate.\<close>

definition utf8_encode :: "pystr \<Rightarrow> byte list result" where
  "utf8_encode s =
     (if list_ex is_surrogate s then Inl (PyError ''UnicodeEncodeError'')
      else Inr (map of_nat (concat (map utf8_char s))))"

text \<open>\<open>s.encode("ascii")\<close>.\<close>

definition ascii_encode :: "pystr \<Rightarrow> byte list result" where
  "ascii_encode s =
     (if is_ascii s then Inr (map of_nat s) else Inl (PyError ''UnicodeEncodeError''))"

definition utf8_len :: "pystr \<Rightarrow> nat" where
  "utf8_len s = length (concat (map utf8_char s))"

lemma utf8_char_len: "1 \<le> length (utf8_char c)" "length (utf8_char c) \<le> 4"
  by (auto simp: utf8_char_def)

lemma utf8_len_simps [simp]:
  "utf8_len [] = 0" "utf8_len (c # s) = length (utf8_char c) + utf8_len s"
  "utf8_len (s @ t) = utf8_len s + utf8_len t"
  by (simp_all add: utf8_len_def)

lemma length_le_utf8_len: "length s \<le> utf8_len s"
proof (induction s)
  case Nil
  then show ?case by simp
next
  case (Cons c s)
  then show ?case using utf8_char_len(1) [of c] by simp
qed

lemma utf8_len_le: "utf8_len s \<le> 4 * length s"
  by (induction s) (use utf8_char_len in \<open>auto intro!: add_mono\<close>)

lemma utf8_len_ascii: "is_ascii s \<Longrightarrow> utf8_len s = length s"
  by (induction s) (auto simp: is_ascii_def utf8_char_def)

lemma utf8_encode_length: "utf8_encode s = Inr bs \<Longrightarrow> length bs = utf8_len s"
  by (auto simp: utf8_encode_def utf8_len_def split: if_splits)

lemma utf8_encode_ascii: "is_ascii s \<Longrightarrow> utf8_encode s = Inr (map of_nat s)"
proof -
  assume a: "is_ascii s"
  then have "concat (map utf8_char s) = s"
    by (induction s) (auto simp: is_ascii_def utf8_char_def)
  moreover from a have "\<not> list_ex is_surrogate s"
    by (auto simp: is_ascii_def list_ex_iff list_all_iff is_surrogate_def)
  ultimately show ?thesis by (simp add: utf8_encode_def)
qed

definition continuation :: "nat \<Rightarrow> bool" where
  "continuation b \<longleftrightarrow> 128 \<le> b \<and> b < 192"

text \<open>
  Strict UTF-8 decoding, except that surrogates pass (the error handler \<open>json.loads\<close> uses).
\<close>

fun utf8_decode :: "nat list \<Rightarrow> pystr option" where
  "utf8_decode [] = Some []"
| "utf8_decode (a # s) =
     (if a < 128 then map_option (Cons a) (utf8_decode s)
      else if 194 \<le> a \<and> a < 224 then
        (case s of b # t \<Rightarrow>
           if continuation b
           then map_option (Cons ((a - 192) * 64 + (b - 128))) (utf8_decode t) else None
         | _ \<Rightarrow> None)
      else if 224 \<le> a \<and> a < 240 then
        (case s of b # c # t \<Rightarrow>
           (let v = (a - 224) * 4096 + (b - 128) * 64 + (c - 128) in
            if continuation b \<and> continuation c \<and> 2048 \<le> v
            then map_option (Cons v) (utf8_decode t) else None)
         | _ \<Rightarrow> None)
      else if 240 \<le> a \<and> a < 245 then
        (case s of b # c # d # t \<Rightarrow>
           (let v = (a - 240) * 262144 + (b - 128) * 4096 + (c - 128) * 64 + (d - 128) in
            if continuation b \<and> continuation c \<and> continuation d \<and> 65536 \<le> v \<and> v < 1114112
            then map_option (Cons v) (utf8_decode t) else None)
         | _ \<Rightarrow> None)
      else None)"

declare utf8_decode.simps(2) [simp del]

lemma utf8_decode_char:
  assumes "c < 1114112"
  shows "utf8_decode (utf8_char c @ s) = map_option (Cons c) (utf8_decode s)"
proof -
  consider "c < 128" | "128 \<le> c" "c < 2048" | "2048 \<le> c" "c < 65536" | "65536 \<le> c"
    by linarith
  then show ?thesis
  proof cases
    case 1
    then show ?thesis by (simp add: utf8_char_def utf8_decode.simps(2))
  next
    case 2
    then have "2 \<le> c div 64" "c div 64 < 32" by auto
    with 2 show ?thesis
      by (simp add: utf8_char_def utf8_decode.simps(2) continuation_def)
  next
    case 3
    have "c div 64 div 64 = c div 4096" by (simp add: div_mult2_eq [symmetric])
    then have "c div 4096 * 4096 + (c div 64) mod 64 * 64 + c mod 64 = c"
      using div_mult_mod_eq [of c 64] div_mult_mod_eq [of "c div 64" 64] by linarith
    moreover from 3 have "c div 4096 < 16" by auto
    ultimately show ?thesis using 3
      by (simp add: utf8_char_def utf8_decode.simps(2) continuation_def Let_def)
  next
    case 4
    have "c div 64 div 64 = c div 4096" "c div 4096 div 64 = c div 262144"
      by (simp_all add: div_mult2_eq [symmetric])
    then have
      "c div 262144 * 262144 + (c div 4096) mod 64 * 4096 + (c div 64) mod 64 * 64 + c mod 64 = c"
      using div_mult_mod_eq [of c 64] div_mult_mod_eq [of "c div 64" 64]
        div_mult_mod_eq [of "c div 4096" 64] by linarith
    moreover from assms have "c div 262144 < 5" by auto
    ultimately show ?thesis using 4 assms
      by (simp add: utf8_char_def utf8_decode.simps(2) continuation_def Let_def)
  qed
qed

lemma utf8_decode_encode:
  "list_all (\<lambda>c. c < 1114112) s \<Longrightarrow> utf8_decode (concat (map utf8_char s)) = Some s"
  by (induction s) (auto simp: utf8_decode_char)

text \<open>A \<open>pylib\<close> whose Unicode tables know ASCII only, with the clock at UTC, for concrete instances.\<close>

definition ascii_pylib :: pylib where
  "ascii_pylib = \<lparr>uni_lower = id, uni_casefold = id, uni_alnum = (\<lambda>_. False),
     uni_decimal = (\<lambda>_. None), uni_digit = (\<lambda>_. False), uni_nfkc = id,
     ipv6_valid = (\<lambda>_. False), local_time = Inr\<rparr>"

lemma length_dec_nat: "length (dec_nat n) \<le> Suc n"
proof (induction n rule: dec_nat.induct)
  case (1 n)
  show ?case
  proof (cases "n < 10")
    case True
    then show ?thesis by (subst dec_nat.simps) simp
  next
    case False
    with 1 have "length (dec_nat (n div 10)) \<le> Suc (n div 10)" by simp
    with False show ?thesis by (subst dec_nat.simps) simp
  qed
qed

lemma length_dec_nat_le: "n < 10 ^ k \<Longrightarrow> 1 \<le> k \<Longrightarrow> length (dec_nat n) \<le> k"
proof (induction k arbitrary: n)
  case 0
  then show ?case by simp
next
  case (Suc k)
  show ?case
  proof (cases "n < 10")
    case True
    then show ?thesis by (subst dec_nat.simps) simp
  next
    case False
    with Suc.prems have "n div 10 < 10 ^ k" "1 \<le> k" by (auto intro: ccontr simp: not_le)
    with Suc.IH have "length (dec_nat (n div 10)) \<le> k" by blast
    with False show ?thesis by (subst dec_nat.simps) simp
  qed
qed

lemma dec_nat_digit [simp]: "n < 10 \<Longrightarrow> dec_nat n = [48 + n]"
  by (subst dec_nat.simps) simp

declare char_class_defs [eval_simps] is_ascii_def [eval_simps] ascii_lower_def [eval_simps]
  py_casefold_def [eval_simps] py_lower_def [eval_simps] starts_with_def [eval_simps]
  ends_with_def [eval_simps] class_match_def [eval_simps] is_surrogate_def [eval_simps]
  utf8_char_def [eval_simps] ascii_pylib_def [eval_simps] remove_char_def [eval_simps]
  py_isalnum_def [eval_simps] loose_identifier_def [eval_simps] utf8_encode_def [eval_simps]
  is_space_def [eval_simps]

end
