(* ===== verification/Json.thy ===== *)
theory Json imports Text "HOL-Library.List_Lexorder" "HOL-Library.Log_Nat" begin

text \<open>
  Python's \<open>json\<close> module as the program uses it: \<open>json.dumps\<close> with its separators,
  \<open>ensure_ascii\<close> and \<open>sort_keys\<close>, and \<open>json.loads\<close> of text and of bytes, with the
  \<open>object_pairs_hook\<close> argument.  The parser follows the C scanner of CPython: it takes the
  remaining input and returns a value and what is left.  It runs on fuel; \<open>json_parse_enough\<close>
  shows the fuel given by \<open>json_loads\<close> is never exhausted, and \<open>json_loads_dumps\<close> is the
  round trip.  Not modelled: the interpreter's recursion limit on deeply nested documents.
\<close>

section \<open>Floating-point numbers\<close>

text \<open>A literal denotes the nearest IEEE double, ties to even.\<close>

definition pow2 :: "int \<Rightarrow> rat" where
  "pow2 e = (if 0 \<le> e then 2 ^ nat e else 1 / 2 ^ nat (- e))"

definition pow10 :: "int \<Rightarrow> rat" where
  "pow10 e = (if 0 \<le> e then 10 ^ nat e else 1 / 10 ^ nat (- e))"

definition round_half_even :: "rat \<Rightarrow> int" where
  "round_half_even x =
     (let f = \<lfloor>x\<rfloor>; d = x - of_int f in
      if d < 1 / 2 then f else if 1 / 2 < d then f + 1 else if even f then f else f + 1)"

definition nearest_double :: "rat \<Rightarrow> pyfloat" where
  "nearest_double r =
     (if r = 0 then Fin 0
      else (let a = \<bar>r\<bar>; (p, q) = quotient_of a;
                e0 = int (floorlog 2 (nat p)) - int (floorlog 2 (nat q)) - 53;
                e1 = (if pow2 53 \<le> a / pow2 e0 then e0 + 1 else e0);
                e = max e1 (- 1074);
                v = of_int (round_half_even (a / pow2 e)) * pow2 e
            in if pow2 1024 \<le> v then Infinite (0 < r) else Fin (if 0 < r then v else - v)))"

text \<open>\<open>repr\<close> of a double: the shortest decimal that reads back as the same number.\<close>

definition dec_exponent :: "rat \<Rightarrow> int" where
  "dec_exponent a =
     (if 1 \<le> a then int (length (dec_nat (nat \<lfloor>a\<rfloor>))) - 1
      else - int (length (dec_nat (nat (\<lceil>1 / a\<rceil> - 1)))))"

definition try_digits :: "rat \<Rightarrow> nat \<Rightarrow> nat option" where
  "try_digits a n =
     (let s = dec_exponent a - int n + 1; d = round_half_even (a / pow10 s)
      in if nearest_double (of_int d * pow10 s) = Fin a then Some (nat d) else None)"

definition shortest_digits :: "rat \<Rightarrow> pystr" where
  "shortest_digits a =
     (case List.map_filter (try_digits a) [1..<18] of
        [] \<Rightarrow> [] | d # _ \<Rightarrow> rstrip_if (\<lambda>c. c = 48) (dec_nat d))"

definition float_repr :: "pyfloat \<Rightarrow> pystr" where
  "float_repr f =
     (case f of
        NaN \<Rightarrow> lit ''NaN''
      | Infinite pos \<Rightarrow> lit (if pos then ''Infinity'' else ''-Infinity'')
      | Fin r \<Rightarrow>
          (let a = \<bar>r\<bar>; x = dec_exponent a; ds = shortest_digits a; n = length ds;
               sgn = (if r < 0 then [45] else []);
               body =
                 (if r = 0 then lit ''0.0''
                  else if 0 \<le> x \<and> x < 16 then
                    (let k = nat x + 1 in
                     take k ds @ replicate (k - n) 48 @ [46]
                       @ (if k < n then drop k ds else [48]))
                  else if - 4 \<le> x \<and> x < 0 then lit ''0.'' @ replicate (nat (- x) - 1) 48 @ ds
                  else take 1 ds @ (if 1 < n then 46 # drop 1 ds else [])
                    @ [101, if x < 0 then 45 else 43]
                    @ (if \<bar>x\<bar> < 10 then [48] else []) @ dec_nat (nat \<bar>x\<bar>))
           in sgn @ body))"

section \<open>Printing\<close>

definition hex_digit :: "nat \<Rightarrow> nat" where
  "hex_digit d = (if d < 10 then 48 + d else 87 + d)"

definition u_escape :: "nat \<Rightarrow> pystr" where
  "u_escape c = [92, 117, hex_digit (c div 4096 mod 16), hex_digit (c div 256 mod 16),
     hex_digit (c div 16 mod 16), hex_digit (c mod 16)]"

definition escape_char :: "bool \<Rightarrow> nat \<Rightarrow> pystr" where
  "escape_char ascii c =
     (if c = 34 then [92, 34] else if c = 92 then [92, 92]
      else if c = 10 then [92, 110] else if c = 13 then [92, 114] else if c = 9 then [92, 116]
      else if c = 12 then [92, 102] else if c = 8 then [92, 98]
      else if c < 32 then u_escape c
      else if ascii \<and> 126 < c then
        (if c < 65536 then u_escape c
         else u_escape (55296 + (c - 65536) div 1024) @ u_escape (56320 + (c - 65536) mod 1024))
      else [c])"

definition dump_str :: "bool \<Rightarrow> pystr \<Rightarrow> pystr" where
  "dump_str ascii s = 34 # concat (map (escape_char ascii) s) @ [34]"

record json_opts =
  item_sep :: pystr
  key_sep :: pystr
  ensure_ascii :: bool
  sort_keys :: bool

definition compact :: json_opts where
  "compact = \<lparr>item_sep = [44], key_sep = [58], ensure_ascii = True, sort_keys = False\<rparr>"

definition default_opts :: json_opts where
  "default_opts = \<lparr>item_sep = [44, 32], key_sep = [58, 32], ensure_ascii = True, sort_keys = False\<rparr>"

fun dump :: "json_opts \<Rightarrow> pyval \<Rightarrow> pystr" where
  "dump j VNone = lit ''null''"
| "dump j (VBool b) = lit (if b then ''true'' else ''false'')"
| "dump j (VInt i) = dec_int i"
| "dump j (VFloat f) = float_repr f"
| "dump j (VStr s) = dump_str (ensure_ascii j) s"
| "dump j (VList xs) = 91 # join (item_sep j) (map (dump j) xs) @ [93]"
| "dump j (VDict d) =
     123 # join (item_sep j)
       (map (\<lambda>p. dump_str (ensure_ascii j) (fst p) @ key_sep j @ dump j (snd p)) d) @ [125]"

fun sort_value :: "pyval \<Rightarrow> pyval" where
  "sort_value (VList xs) = VList (map sort_value xs)"
| "sort_value (VDict d) = VDict (sort_key fst (map (\<lambda>p. (fst p, sort_value (snd p))) d))"
| "sort_value v = v"

definition json_dumps :: "json_opts \<Rightarrow> pyval \<Rightarrow> pystr" where
  "json_dumps j v = dump j (if sort_keys j then sort_value v else v)"

section \<open>Scanning\<close>

definition json_ws :: "nat \<Rightarrow> bool" where
  "json_ws c \<longleftrightarrow> c = 32 \<or> c = 9 \<or> c = 10 \<or> c = 13"

definition skip_ws :: "pystr \<Rightarrow> pystr" where
  "skip_ws s = dropWhile json_ws s"

definition hex_val :: "nat \<Rightarrow> nat option" where
  "hex_val c = (if is_digit c then Some (c - 48)
     else if 97 \<le> c \<and> c \<le> 102 then Some (c - 87)
     else if 65 \<le> c \<and> c \<le> 70 then Some (c - 55) else None)"

definition hex4 :: "nat \<Rightarrow> nat \<Rightarrow> nat \<Rightarrow> nat \<Rightarrow> nat option" where
  "hex4 a b c d =
     (case (hex_val a, hex_val b, hex_val c, hex_val d) of
        (Some w, Some x, Some y, Some z) \<Rightarrow> Some (((w * 16 + x) * 16 + y) * 16 + z)
      | _ \<Rightarrow> None)"

definition simple_escape :: "nat \<Rightarrow> nat option" where
  "simple_escape e =
     (if e = 34 \<or> e = 92 \<or> e = 47 then Some e else if e = 98 then Some 8
      else if e = 102 then Some 12 else if e = 110 then Some 10 else if e = 114 then Some 13
      else if e = 116 then Some 9 else None)"

text \<open>The low half of a surrogate pair written as an escape, if the input starts with one.\<close>

definition low_escape :: "pystr \<Rightarrow> nat option" where
  "low_escape s =
     (case s of
        x # y # a # b # c # d # _ \<Rightarrow>
          if x = 92 \<and> y = 117 then
            (case hex4 a b c d of
               Some u \<Rightarrow> if 56320 \<le> u \<and> u < 57344 then Some u else None | None \<Rightarrow> None)
          else None
      | _ \<Rightarrow> None)"

text \<open>A string after its opening quote.\<close>

function scan_string :: "pystr \<Rightarrow> (pystr \<times> pystr) option" where
  "scan_string [] = None"
| "scan_string (c # s) =
     (if c = 34 then Some ([], s)
      else if c = 92 then
        (case s of
           [] \<Rightarrow> None
         | e # t \<Rightarrow>
             if e = 117 then
               (case t of
                  h1 # h2 # h3 # h4 # r \<Rightarrow>
                    (case hex4 h1 h2 h3 h4 of
                       None \<Rightarrow> None
                     | Some u \<Rightarrow>
                         if 55296 \<le> u \<and> u < 56320 \<and> low_escape r \<noteq> None
                         then map_option (apfst (Cons
                                (65536 + (u - 55296) * 1024 + (the (low_escape r) - 56320))))
                                (scan_string (drop 6 r))
                         else map_option (apfst (Cons u)) (scan_string r))
                | _ \<Rightarrow> None)
             else (case simple_escape e of
                     None \<Rightarrow> None
                   | Some x \<Rightarrow> map_option (apfst (Cons x)) (scan_string t)))
      else if c < 32 then None
      else map_option (apfst (Cons c)) (scan_string s))"
  by pat_completeness auto
termination by (relation "measure length") auto

declare scan_string.simps(2) [simp del]

definition json_error :: exn where "json_error = PyError ''JSONDecodeError''"
definition no_fuel :: exn where "no_fuel = PyError ''out of fuel''"

text \<open>Fraction and exponent of a number; each is taken only if at least one digit follows.\<close>

definition scan_frac :: "pystr \<Rightarrow> pystr \<times> pystr" where
  "scan_frac s =
     (if s \<noteq> [] \<and> hd s = 46 \<and> takeWhile is_digit (tl s) \<noteq> []
      then (takeWhile is_digit (tl s), dropWhile is_digit (tl s)) else ([], s))"

definition scan_exp :: "pystr \<Rightarrow> int option \<times> pystr" where
  "scan_exp s =
     (if s \<noteq> [] \<and> (hd s = 101 \<or> hd s = 69) then
        (let t = tl s; neg = (t \<noteq> [] \<and> hd t = 45);
             u = (if t \<noteq> [] \<and> (hd t = 45 \<or> hd t = 43) then tl t else t);
             ds = takeWhile is_digit u
         in if ds = [] then (None, s)
            else (Some (if neg then - int (digits_val ds) else int (digits_val ds)),
                  dropWhile is_digit u))
      else (None, s))"

definition int_part :: "pystr \<Rightarrow> pystr" where
  "int_part u = (if u \<noteq> [] \<and> hd u = 48 then [48] else takeWhile is_digit u)"

definition scan_number :: "pystr \<Rightarrow> (pyval \<times> pystr) result" where
  "scan_number s =
     (let neg = (s \<noteq> [] \<and> hd s = 45);
          u = (if neg then tl s else s);
          ip = int_part u;
          r = drop (length ip) u;
          (fp, r') = scan_frac r;
          (ex, r'') = scan_exp r'
      in if ip = [] then Inl json_error
         else if fp = [] \<and> ex = None then
           (if length ip > 4300 then Inl (PyError ''ValueError'')
            else Inr (VInt (if neg then - int (digits_val ip) else int (digits_val ip)), r''))
         else (let e = (case ex of None \<Rightarrow> 0 | Some e \<Rightarrow> e);
                   q = of_nat (digits_val (ip @ fp)) * pow10 (e - int (length fp))
               in Inr (VFloat (nearest_double (if neg then - q else q)), r'')))"

definition scan_word :: "pystr \<Rightarrow> (pyval \<times> pystr) result" where
  "scan_word s =
     (if starts_with s (lit ''null'') then Inr (VNone, drop 4 s)
      else if starts_with s (lit ''true'') then Inr (VBool True, drop 4 s)
      else if starts_with s (lit ''false'') then Inr (VBool False, drop 5 s)
      else if starts_with s (lit ''NaN'') then Inr (VFloat NaN, drop 3 s)
      else if starts_with s (lit ''Infinity'') then Inr (VFloat (Infinite True), drop 8 s)
      else if starts_with s (lit ''-Infinity'') then Inr (VFloat (Infinite False), drop 9 s)
      else scan_number s)"

type_synonym pairs_hook = "pydict \<Rightarrow> pyval result"

definition default_hook :: pairs_hook where
  "default_hook ps = Inr (VDict (dict_update [] ps))"

fun json_value :: "pairs_hook \<Rightarrow> nat \<Rightarrow> pystr \<Rightarrow> (pyval \<times> pystr) result"
  and json_elems :: "pairs_hook \<Rightarrow> nat \<Rightarrow> pystr \<Rightarrow> (pyval list \<times> pystr) result"
  and json_members :: "pairs_hook \<Rightarrow> nat \<Rightarrow> pystr \<Rightarrow> (pydict \<times> pystr) result" where
  "json_value h 0 s = Inl no_fuel"
| "json_value h (Suc n) s =
     (case s of
        [] \<Rightarrow> Inl json_error
      | c # t \<Rightarrow>
          if c = 34 then
            (case scan_string t of None \<Rightarrow> Inl json_error | Some (x, r) \<Rightarrow> Inr (VStr x, r))
          else if c = 123 then
            (let u = skip_ws t in
             if u \<noteq> [] \<and> hd u = 125 then rbind (h []) (\<lambda>v. Inr (v, tl u))
             else rbind (json_members h n u)
                    (\<lambda>pr. rbind (h (fst pr)) (\<lambda>v. Inr (v, snd pr))))
          else if c = 91 then
            (let u = skip_ws t in
             if u \<noteq> [] \<and> hd u = 93 then Inr (VList [], tl u)
             else rbind (json_elems h n u) (\<lambda>pr. Inr (VList (fst pr), snd pr)))
          else scan_word s)"
| "json_elems h 0 s = Inl no_fuel"
| "json_elems h (Suc n) s =
     rbind (json_value h n s) (\<lambda>pr.
       (let v = fst pr; r = skip_ws (snd pr) in
        if r \<noteq> [] \<and> hd r = 44 then
          rbind (json_elems h n (skip_ws (tl r))) (\<lambda>qr. Inr (v # fst qr, snd qr))
        else if r \<noteq> [] \<and> hd r = 93 then Inr ([v], tl r)
        else Inl json_error))"
| "json_members h 0 s = Inl no_fuel"
| "json_members h (Suc n) s =
     (if s \<noteq> [] \<and> hd s = 34 then
        (case scan_string (tl s) of
           None \<Rightarrow> Inl json_error
         | Some (k, r0) \<Rightarrow>
             (let r1 = skip_ws r0 in
              if r1 \<noteq> [] \<and> hd r1 = 58 then
                rbind (json_value h n (skip_ws (tl r1))) (\<lambda>pr.
                  (let v = fst pr; r = skip_ws (snd pr) in
                   if r \<noteq> [] \<and> hd r = 44 then
                     rbind (json_members h n (skip_ws (tl r)))
                       (\<lambda>qr. Inr ((k, v) # fst qr, snd qr))
                   else if r \<noteq> [] \<and> hd r = 125 then Inr ([(k, v)], tl r)
                   else Inl json_error))
              else Inl json_error))
      else Inl json_error)"

declare json_value.simps(2) [simp del] json_elems.simps(2) [simp del] json_members.simps(2) [simp del]

definition json_loads_hook :: "pairs_hook \<Rightarrow> pystr \<Rightarrow> pyval result" where
  "json_loads_hook h s =
     (if s \<noteq> [] \<and> hd s = 65279 then Inl json_error
      else rbind (json_value h (2 * length s + 1) (skip_ws s)) (\<lambda>pr.
        if skip_ws (snd pr) = [] then Inr (fst pr) else Inl json_error))"

definition json_loads :: "pystr \<Rightarrow> pyval result" where
  "json_loads = json_loads_hook default_hook"

text \<open>
  \<open>json.loads\<close> of bytes detects UTF-8, UTF-16 or UTF-32 from the byte-order mark or from the
  position of zero bytes, and decodes with surrogates passing.
\<close>

fun utf16_units :: "bool \<Rightarrow> nat list \<Rightarrow> nat list option" where
  "utf16_units be [] = Some []"
| "utf16_units be [a] = None"
| "utf16_units be (a # b # s) =
     map_option (Cons (if be then a * 256 + b else b * 256 + a)) (utf16_units be s)"

fun utf16_join :: "nat list \<Rightarrow> pystr" where
  "utf16_join (u # v # s) =
     (if 55296 \<le> u \<and> u < 56320 \<and> 56320 \<le> v \<and> v < 57344
      then (65536 + (u - 55296) * 1024 + (v - 56320)) # utf16_join s
      else u # utf16_join (v # s))"
| "utf16_join s = s"

fun utf32_decode :: "bool \<Rightarrow> nat list \<Rightarrow> pystr option" where
  "utf32_decode be [] = Some []"
| "utf32_decode be (a # b # c # d # s) =
     (let v = (if be then ((a * 256 + b) * 256 + c) * 256 + d
               else ((d * 256 + c) * 256 + b) * 256 + a)
      in if v < 1114112 then map_option (Cons v) (utf32_decode be s) else None)"
| "utf32_decode be _ = None"

datatype json_codec = Utf8 | Utf8Sig | Utf16Bom bool | Utf16 bool | Utf32Bom bool | Utf32 bool

definition detect_encoding :: "nat list \<Rightarrow> json_codec" where
  "detect_encoding b =
     (if take 4 b = [0, 0, 254, 255] then Utf32Bom True
      else if take 4 b = [255, 254, 0, 0] then Utf32Bom False
      else if take 2 b = [254, 255] then Utf16Bom True
      else if take 2 b = [255, 254] then Utf16Bom False
      else if take 3 b = [239, 187, 191] then Utf8Sig
      else if 4 \<le> length b then
        (if b ! 0 = 0 then (if b ! 1 \<noteq> 0 then Utf16 True else Utf32 True)
         else if b ! 1 = 0 then
           (if b ! 2 \<noteq> 0 \<or> b ! 3 \<noteq> 0 then Utf16 False else Utf32 False)
         else Utf8)
      else if length b = 2 then
        (if b ! 0 = 0 then Utf16 True else if b ! 1 = 0 then Utf16 False else Utf8)
      else Utf8)"

definition decode_json_bytes :: "nat list \<Rightarrow> pystr option" where
  "decode_json_bytes b =
     (case detect_encoding b of
        Utf8 \<Rightarrow> utf8_decode b
      | Utf8Sig \<Rightarrow> utf8_decode (drop 3 b)
      | Utf16Bom be \<Rightarrow> map_option utf16_join (utf16_units be (drop 2 b))
      | Utf16 be \<Rightarrow> map_option utf16_join (utf16_units be b)
      | Utf32Bom be \<Rightarrow> utf32_decode be (drop 4 b)
      | Utf32 be \<Rightarrow> utf32_decode be b)"

definition json_loads_bytes :: "byte list \<Rightarrow> pyval result" where
  "json_loads_bytes b =
     (case decode_json_bytes (map unat b) of
        None \<Rightarrow> Inl (PyError ''UnicodeDecodeError'')
      | Some s \<Rightarrow> rbind (json_value default_hook (2 * length s + 1) (skip_ws s)) (\<lambda>pr.
          if skip_ws (snd pr) = [] then Inr (fst pr) else Inl json_error))"

section \<open>Round trip\<close>

definition char_ok :: "bool \<Rightarrow> nat \<Rightarrow> bool" where
  "char_ok ascii c \<longleftrightarrow> c < 1114112 \<and> (ascii \<longrightarrow> \<not> is_surrogate c)"

lemma hex_val_digit [simp]: "d < 16 \<Longrightarrow> hex_val (hex_digit d) = Some d"
  by (auto simp: hex_val_def hex_digit_def is_digit_def)

lemma hex4_digits:
  assumes "c < 65536"
  shows "hex4 (hex_digit (c div 4096 mod 16)) (hex_digit (c div 256 mod 16))
           (hex_digit (c div 16 mod 16)) (hex_digit (c mod 16)) = Some c"
proof -
  have "c div 4096 < 16" using assms by auto
  moreover have "c div 16 div 16 = c div 256" "c div 256 div 16 = c div 4096"
    by (simp_all add: div_mult2_eq [symmetric])
  ultimately have
    "(((c div 4096 mod 16) * 16 + c div 256 mod 16) * 16 + c div 16 mod 16) * 16 + c mod 16 = c"
    using div_mult_mod_eq [of c 16] div_mult_mod_eq [of "c div 16" 16]
      div_mult_mod_eq [of "c div 256" 16] by simp
  then show ?thesis using \<open>c div 4096 < 16\<close> by (simp add: hex4_def)
qed

lemma hex4_digits':
  "c < 65536 \<Longrightarrow> hex4 (hex_digit (c div 4096)) (hex_digit (c div 256 mod 16))
     (hex_digit (c div 16 mod 16)) (hex_digit (c mod 16)) = Some c"
  using hex4_digits [of c] by simp

lemma scan_u_escape:
  assumes "c < 65536" "\<not> (55296 \<le> c \<and> c < 56320)"
  shows "scan_string (u_escape c @ t) = map_option (apfst (Cons c)) (scan_string t)"
  using assms by (auto simp: u_escape_def scan_string.simps(2) hex4_digits hex4_digits')

lemma low_escape_u: "56320 \<le> u \<Longrightarrow> u < 57344 \<Longrightarrow> low_escape (u_escape u @ t) = Some u"
  by (simp add: low_escape_def u_escape_def hex4_digits hex4_digits')

lemma scan_pair:
  assumes "65536 \<le> c" "c < 1114112"
  shows "scan_string (u_escape (55296 + (c - 65536) div 1024)
           @ u_escape (56320 + (c - 65536) mod 1024) @ t)
         = map_option (apfst (Cons c)) (scan_string t)"
proof -
  let ?h = "55296 + (c - 65536) div 1024" and ?l = "56320 + (c - 65536) mod 1024"
  have h: "?h < 56320" "?l < 57344" using assms by auto
  have join: "65536 + (?h - 55296) * 1024 + (?l - 56320) = c"
    using assms by simp
  have "scan_string (u_escape ?h @ u_escape ?l @ t) =
      map_option (apfst (Cons (65536 + (?h - 55296) * 1024 + (?l - 56320)))) (scan_string t)"
    using h low_escape_u [of ?l t]
    by (simp add: u_escape_def [of ?h] scan_string.simps(2) hex4_digits hex4_digits' del: add_diff_cancel_left')
      (simp add: u_escape_def)
  then show ?thesis by (simp only: join)
qed

lemma scan_escape_char:
  assumes "char_ok a c"
  shows "scan_string (escape_char a c @ t) = map_option (apfst (Cons c)) (scan_string t)"
proof (cases "c = 34 \<or> c = 92 \<or> c = 10 \<or> c = 13 \<or> c = 9 \<or> c = 12 \<or> c = 8")
  case True
  then show ?thesis
    by (auto simp: escape_char_def scan_string.simps(2) simple_escape_def)
next
  case False
  consider "c < 32" | "32 \<le> c" "\<not> (a \<and> 126 < c)" | "a" "126 < c" "c < 65536"
    | "a" "65536 \<le> c" by linarith
  then show ?thesis
  proof cases
    case 1
    with False scan_u_escape [of c t] show ?thesis by (simp add: escape_char_def)
  next
    case 2
    with False show ?thesis by (auto simp: escape_char_def scan_string.simps(2))
  next
    case 3
    with assms have "\<not> (55296 \<le> c \<and> c < 56320)"
      by (auto simp: char_ok_def is_surrogate_def)
    with 3 False scan_u_escape [of c t] show ?thesis by (simp add: escape_char_def)
  next
    case 4
    with assms False scan_pair [of c t] show ?thesis
      by (simp add: escape_char_def char_ok_def)
  qed
qed

lemma scan_dump_str:
  "list_all (char_ok a) s \<Longrightarrow> scan_string (concat (map (escape_char a) s) @ 34 # t) = Some (s, t)"
  by (induction s) (auto simp: scan_escape_char scan_string.simps(2))

text \<open>What may follow a number without changing how it is read.\<close>

definition number_end :: "pystr \<Rightarrow> bool" where
  "number_end r \<longleftrightarrow> r = [] \<or> hd r \<in> {44, 93, 125, 32}"

lemma takeWhile_digits:
  "list_all is_digit s \<Longrightarrow> r = [] \<or> \<not> is_digit (hd r) \<Longrightarrow> takeWhile is_digit (s @ r) = s"
  by (induction s) (cases r, auto)

lemma int_part_dec_nat:
  assumes "number_end r"
  shows "int_part (dec_nat n @ r) = dec_nat n"
proof (cases "n = 0")
  case True
  then show ?thesis by (simp add: int_part_def dec_nat.simps)
next
  case False
  have "r = [] \<or> \<not> is_digit (hd r)"
    using assms by (auto simp: number_end_def is_digit_def)
  with False show ?thesis
    using takeWhile_digits [OF dec_nat_digits] by (simp add: int_part_def dec_nat_head)
qed

lemma scan_frac_exp_end:
  "number_end r \<Longrightarrow> scan_frac r = ([], r)" "number_end r \<Longrightarrow> scan_exp r = (None, r)"
  by (auto simp: scan_frac_def scan_exp_def number_end_def)

lemma dec_nat_hd_digit: "is_digit (hd (dec_nat n))"
  using dec_nat_digits [of n] by (cases "dec_nat n") auto

lemma scan_number_dec_int:
  assumes "number_end r" "length (dec_nat (nat \<bar>i\<bar>)) \<le> 4300"
  shows "scan_number (dec_int i @ r) = Inr (VInt i, r)"
proof (cases "i < 0")
  case True
  with assms show ?thesis
    by (simp add: scan_number_def dec_int_def int_part_dec_nat scan_frac_exp_end Let_def)
next
  case False
  moreover have "hd (dec_nat n) \<noteq> 45" for n
    using dec_nat_hd_digit [of n] by (auto simp: is_digit_def)
  ultimately show ?thesis using assms
    by (simp add: scan_number_def dec_int_def int_part_dec_nat scan_frac_exp_end Let_def)
qed

lemma scan_word_dec_int:
  assumes "number_end r" "length (dec_nat (nat \<bar>i\<bar>)) \<le> 4300"
  shows "scan_word (dec_int i @ r) = Inr (VInt i, r)"
proof -
  obtain c t where d: "dec_nat (nat \<bar>i\<bar>) = c # t" by (meson dec_nat_nonempty neq_Nil_conv)
  then have c: "48 \<le> c" "c \<le> 57" using dec_nat_hd_digit [of "nat \<bar>i\<bar>"] by (auto simp: is_digit_def)
  have "scan_word (dec_int i @ r) = scan_number (dec_int i @ r)"
    using c d by (cases "i < 0") (auto simp: scan_word_def starts_with_def lit_def dec_int_def)
  with assms show ?thesis by (simp add: scan_number_dec_int)
qed

fun json_ok :: "bool \<Rightarrow> pyval \<Rightarrow> bool" where
  "json_ok a (VFloat f) = False"
| "json_ok a (VInt i) = (length (dec_nat (nat \<bar>i\<bar>)) \<le> 4300)"
| "json_ok a (VStr s) = list_all (char_ok a) s"
| "json_ok a (VList xs) = list_all (json_ok a) xs"
| "json_ok a (VDict d) = (distinct (map fst d) \<and>
     list_all (\<lambda>p. list_all (char_ok a) (fst p) \<and> json_ok a (snd p)) d)"
| "json_ok a v = True"

text \<open>Separators the program uses: a comma or a colon, optionally followed by spaces.\<close>

definition good_opts :: "json_opts \<Rightarrow> bool" where
  "good_opts j \<longleftrightarrow> (\<exists>n. item_sep j = 44 # replicate n 32) \<and> (\<exists>n. key_sep j = 58 # replicate n 32)"

lemma skip_ws_spaces [simp]: "skip_ws (replicate n 32 @ s) = skip_ws s"
  by (induction n) (auto simp: skip_ws_def json_ws_def)

lemma skip_ws_id: "s \<noteq> [] \<Longrightarrow> \<not> json_ws (hd s) \<Longrightarrow> skip_ws s = s"
  by (cases s) (auto simp: skip_ws_def)

lemma skip_ws_Cons [simp]: "\<not> json_ws c \<Longrightarrow> skip_ws (c # s) = c # s"
  by (simp add: skip_ws_def)

lemma dump_head: "json_ok a v \<Longrightarrow> dump j v \<noteq> [] \<and> hd (dump j v) \<notin> {32, 9, 10, 13, 93, 125, 44, 58, 65279}"
proof (cases v)
  case (VInt i)
  then show ?thesis using dec_nat_hd_digit [of "nat \<bar>i\<bar>"]
    by (cases "i < 0") (auto simp: dec_int_def is_digit_def)
qed (auto simp: lit_def dump_str_def)

lemma skip_ws_dump: "json_ok a v \<Longrightarrow> skip_ws (dump j v @ r) = dump j v @ r"
  using dump_head [of a v j] by (intro skip_ws_id) (auto simp: json_ws_def)

definition any_hook :: "pairs_hook \<Rightarrow> bool" where
  "any_hook h \<longleftrightarrow> (\<forall>ps. distinct (map fst ps) \<longrightarrow> h ps = Inr (VDict ps))"

lemma any_hook_default: "any_hook default_hook"
  by (simp add: any_hook_def default_hook_def)

abbreviation dump_pair :: "json_opts \<Rightarrow> pystr \<times> pyval \<Rightarrow> pystr" where
  "dump_pair j p \<equiv> dump_str (ensure_ascii j) (fst p) @ key_sep j @ dump j (snd p)"

lemma json_elems_join:
  assumes j: "good_opts j" and ok: "list_all (json_ok a) xs" and ne: "xs \<noteq> []"
    and IH: "\<And>x n r. x \<in> set xs \<Longrightarrow> 2 * length (dump j x) < n \<Longrightarrow> number_end r \<Longrightarrow>
               json_value h n (dump j x @ r) = Inr (x, r)"
    and fuel: "2 * length (join (item_sep j) (map (dump j) xs)) + 1 < n"
  shows "json_elems h n (join (item_sep j) (map (dump j) xs) @ 93 # r) = Inr (xs, r)"
  using ok ne IH fuel
proof (induction xs arbitrary: n)
  case Nil
  then show ?case by simp
next
  case (Cons x xs)
  obtain m where n: "n = Suc m" using Cons.prems(4) by (cases n) auto
  obtain k where k: "item_sep j = 44 # replicate k 32" using j by (auto simp: good_opts_def)
  show ?case
  proof (cases xs)
    case Nil
    with Cons.prems n have "json_value h m (dump j x @ 93 # r) = Inr (x, 93 # r)"
      by (intro Cons.prems(3)) (auto simp: number_end_def)
    with Nil n show ?thesis by (simp add: json_elems.simps(2) Let_def json_ws_def)
  next
    case (Cons y ys)
    let ?rest = "join (item_sep j) (map (dump j) xs) @ 93 # r"
    have "json_value h m (dump j x @ item_sep j @ ?rest) = Inr (x, item_sep j @ ?rest)"
      using Cons.prems Cons n k by (intro Cons.prems(3)) (auto simp: number_end_def)
    moreover have "json_elems h m ?rest = Inr (xs, r)"
      using Cons.prems Cons n k by (intro Cons.IH) auto
    moreover have "skip_ws (replicate k 32 @ ?rest) = ?rest"
      using Cons.prems(1) Cons skip_ws_dump [of a y j] by (simp add: join_Cons)
    ultimately show ?thesis using n Cons k
      by (simp add: json_elems.simps(2) Let_def json_ws_def)
  qed
qed

lemma scan_dump_pair:
  "list_all (char_ok (ensure_ascii j)) k \<Longrightarrow>
     scan_string (concat (map (escape_char (ensure_ascii j)) k) @ 34 # t) = Some (k, t)"
  by (rule scan_dump_str)

lemma json_members_join:
  assumes j: "good_opts j" and ne: "d \<noteq> []"
    and ok: "list_all (\<lambda>p. list_all (char_ok (ensure_ascii j)) (fst p)
               \<and> json_ok (ensure_ascii j) (snd p)) d"
    and IH: "\<And>p n r. p \<in> set d \<Longrightarrow> 2 * length (dump j (snd p)) < n \<Longrightarrow> number_end r \<Longrightarrow>
               json_value h n (dump j (snd p) @ r) = Inr (snd p, r)"
    and fuel: "2 * length (join (item_sep j) (map (dump_pair j) d)) + 1 < n"
  shows "json_members h n (join (item_sep j) (map (dump_pair j) d) @ 125 # r) = Inr (d, r)"
  using ne ok IH fuel
proof (induction d arbitrary: n)
  case Nil
  then show ?case by simp
next
  case (Cons p d)
  obtain m where n: "n = Suc m" using Cons.prems(4) by (cases n) auto
  obtain k where k: "item_sep j = 44 # replicate k 32" using j by (auto simp: good_opts_def)
  obtain l where l: "key_sep j = 58 # replicate l 32" using j by (auto simp: good_opts_def)
  obtain q v where p: "p = (q, v)" by (cases p)
  have q: "\<And>t. scan_string (concat (map (escape_char (ensure_ascii j)) q) @ 34 # t) = Some (q, t)"
    and v: "json_ok (ensure_ascii j) v"
    using Cons.prems(2) p by (auto intro: scan_dump_str)
  show ?case
  proof (cases d)
    case Nil
    with Cons.prems(3) [of p m "125 # r"] Cons.prems(4) n p
    have "json_value h m (dump j v @ 125 # r) = Inr (v, 125 # r)"
      by (auto simp: number_end_def)
    with Nil n p q v l show ?thesis
      by (simp add: json_members.simps(2) Let_def json_ws_def dump_str_def skip_ws_dump)
  next
    case (Cons y ys)
    let ?rest = "join (item_sep j) (map (dump_pair j) d) @ 125 # r"
    have "json_value h m (dump j v @ item_sep j @ ?rest) = Inr (v, item_sep j @ ?rest)"
      using Cons.prems(3) [of p m "item_sep j @ ?rest"] Cons.prems(4) Cons n k p
      by (auto simp: number_end_def)
    moreover have "json_members h m ?rest = Inr (d, r)"
      using Cons.prems Cons n k by (intro Cons.IH) auto
    moreover have "skip_ws (replicate k 32 @ ?rest) = ?rest"
      using Cons by (simp add: join_Cons dump_str_def json_ws_def)
    ultimately show ?thesis using n Cons k l p q v
      by (simp add: json_members.simps(2) Let_def json_ws_def dump_str_def skip_ws_dump)
  qed
qed

lemma json_value_dump:
  assumes j: "good_opts j" and h: "any_hook h"
  shows "json_ok (ensure_ascii j) v \<Longrightarrow> 2 * length (dump j v) < n \<Longrightarrow> number_end r \<Longrightarrow>
     json_value h n (dump j v @ r) = Inr (v, r)"
proof (induction v arbitrary: n r)
  case VNone
  then show ?case
    by (cases n) (auto simp: json_value.simps(2) scan_word_def starts_with_def lit_def)
next
  case (VBool b)
  then show ?case
    by (cases n) (auto simp: json_value.simps(2) scan_word_def starts_with_def lit_def)
next
  case (VInt i)
  then obtain m where n: "n = Suc m" by (cases n) auto
  have h: "hd (dump j (VInt i)) \<notin> {34, 123, 91}"
    using dec_nat_hd_digit [of "nat \<bar>i\<bar>"] by (cases "i < 0") (auto simp: dec_int_def is_digit_def)
  obtain c t where c: "dec_int i @ r = c # t" "c = hd (dec_int i)"
    by (cases "dec_int i") (auto simp: dec_int_def split: if_splits)
  have "json_value h n (dec_int i @ r) = scan_word (dec_int i @ r)"
    using h c n by (simp add: json_value.simps(2))
  with VInt show ?case by (simp add: scan_word_dec_int)
next
  case (VFloat f)
  then show ?case by simp
next
  case (VStr s)
  then show ?case
    by (cases n) (auto simp: json_value.simps(2) dump_str_def scan_dump_str)
next
  case (VList xs)
  then obtain m where n: "n = Suc m" by (cases n) auto
  show ?case
  proof (cases "xs = []")
    case True
    with n show ?thesis by (simp add: json_value.simps(2) json_ws_def Let_def)
  next
    case False
    let ?u = "join (item_sep j) (map (dump j) xs) @ 93 # r"
    have "json_elems h m ?u = Inr (xs, r)"
      using VList False n by (intro json_elems_join [OF j, where a = "ensure_ascii j"])
        (auto simp: list_all_iff)
    moreover have "skip_ws ?u = ?u \<and> ?u \<noteq> [] \<and> hd ?u \<noteq> 93"
      using VList.prems(1) False dump_head [of "ensure_ascii j" "hd xs" j]
      by (cases xs) (auto simp: join_Cons skip_ws_dump)
    ultimately show ?thesis using n
      by (simp add: json_value.simps(2) Let_def json_ws_def)
  qed
next
  case (VDict d)
  then obtain m where n: "n = Suc m" by (cases n) auto
  have d: "h d = Inr (VDict d)" using VDict.prems(1) h by (simp add: any_hook_def)
  show ?case
  proof (cases "d = []")
    case True
    with n d show ?thesis by (simp add: json_value.simps(2) json_ws_def Let_def)
  next
    case False
    let ?u = "join (item_sep j) (map (dump_pair j) d) @ 125 # r"
    have "json_members h m ?u = Inr (d, r)"
      using VDict False n by (intro json_members_join [OF j]) (auto simp: list_all_iff)
    moreover have "skip_ws ?u = ?u \<and> ?u \<noteq> [] \<and> hd ?u \<noteq> 125"
      using False by (cases d) (auto simp: join_Cons dump_str_def json_ws_def)
    ultimately show ?thesis using n d
      by (simp add: json_value.simps(2) Let_def json_ws_def)
  qed
qed

lemma json_loads_dumps:
  assumes "good_opts j" "any_hook h" "json_ok (ensure_ascii j) v" "\<not> sort_keys j"
  shows "json_loads_hook h (json_dumps j v) = Inr v"
proof -
  have "json_value h (2 * length (dump j v) + 1) (dump j v @ []) = Inr (v, [])"
    using assms by (intro json_value_dump) (auto simp: number_end_def)
  moreover have "skip_ws (dump j v) = dump j v"
    using skip_ws_dump [OF assms(3), of j "[]"] by simp
  moreover have "hd (dump j v) \<noteq> 65279" using dump_head [OF assms(3), of j] by simp
  ultimately show ?thesis using assms(4)
    by (simp add: json_loads_hook_def json_dumps_def skip_ws_def)
qed

section \<open>The fuel is enough\<close>

lemma scan_string_shorter: "scan_string s = Some (x, r) \<Longrightarrow> length r < length s"
proof (induction s arbitrary: x rule: length_induct)
  case (1 s)
  show ?case
  proof (cases s)
    case Nil
    with 1 show ?thesis by simp
  next
    case (Cons c t)
    have shorter: "scan_string u = Some (y, r) \<Longrightarrow> length u < length s \<Longrightarrow> length r < length s" for u y
      using 1(1) by (meson less_trans)
    show ?thesis using 1(2) Cons
      by (auto simp: scan_string.simps(2) split: if_splits list.splits option.splits
               dest!: shorter)
  qed
qed

lemma skip_ws_shorter: "length (skip_ws s) \<le> length s"
  by (simp add: skip_ws_def length_dropWhile_le)

lemma scan_frac_shorter: "scan_frac s = (f, r) \<Longrightarrow> length r \<le> length s"
  by (cases s) (auto simp: scan_frac_def length_dropWhile_le le_SucI split: if_splits)

lemma scan_exp_shorter: "scan_exp s = (f, r) \<Longrightarrow> length r \<le> length s"
  using length_dropWhile_le [of is_digit "tl s"] length_dropWhile_le [of is_digit "tl (tl s)"]
  by (cases s) (auto simp: scan_exp_def Let_def split: if_splits)

lemma scan_number_shorter: "scan_number s = Inr (v, r) \<Longrightarrow> length r < length s"
proof -
  assume a: "scan_number s = Inr (v, r)"
  define neg u where "neg = (s \<noteq> [] \<and> hd s = 45)" and "u = (if neg then tl s else s)"
  obtain fp r1 where f: "scan_frac (drop (length (int_part u)) u) = (fp, r1)" by fastforce
  obtain ex r2 where e: "scan_exp r1 = (ex, r2)" by fastforce
  have ip: "int_part u \<noteq> []" and "r = r2"
    using a f e by (auto simp: scan_number_def Let_def neg_def u_def split: if_splits)
  moreover have "length (drop (length (int_part u)) u) < length u"
    using ip by (cases u) (auto simp: int_part_def split: if_splits)
  ultimately show ?thesis
    using scan_frac_shorter [OF f] scan_exp_shorter [OF e] by (auto simp: u_def split: if_splits)
qed

lemma scan_word_shorter: "scan_word s = Inr (v, r) \<Longrightarrow> length r < length s"
  by (auto simp: scan_word_def starts_with_def split: if_splits dest: scan_number_shorter)
    (auto simp: lit_def dest!: arg_cong [where f = length])

lemma json_shorter:
  "json_value h n s = Inr (v, r) \<Longrightarrow> length r < length s"
  "json_elems h n s = Inr (vs, r) \<Longrightarrow> length r < length s"
  "json_members h n s = Inr (d, r) \<Longrightarrow> length r < length s"
proof (induction n arbitrary: s v vs d r)
  case 0
  { case 1 then show ?case by simp next case 2 then show ?case by simp
  next case 3 then show ?case by simp }
next
  case (Suc n)
  have ws: "length r < length u \<Longrightarrow> u = skip_ws t \<or> u = tl (skip_ws t) \<Longrightarrow> length r < length t"
    for r u t using skip_ws_shorter [of t] by (cases "skip_ws t") auto
  have tlw: "skip_ws t \<noteq> [] \<Longrightarrow> length (tl (skip_ws t)) < length t" for t
    using skip_ws_shorter [of t] by (cases "skip_ws t") auto
  { case 1
    then show ?case
      by (auto simp: json_value.simps(2) Let_def result_simps split: list.splits if_splits
            option.splits dest!: Suc.IH(2,3) scan_word_shorter scan_string_shorter
            dest: ws intro: less_SucI tlw)
  next
    case 2
    then obtain w r1 where v: "json_value h n s = Inr (w, r1)"
      by (auto simp: json_elems.simps(2) result_simps)
    have "length r < length r1"
      using 2 v tlw [of r1] skip_ws_shorter [of "tl (skip_ws r1)"]
      by (auto simp: json_elems.simps(2) Let_def result_simps split: if_splits
          dest!: Suc.IH(2))
    with Suc.IH(1) [OF v] show ?case by simp
  next
    case 3
    then obtain k r0 where k: "scan_string (tl s) = Some (k, r0)"
      by (auto simp: json_members.simps(2) split: if_splits option.splits)
    obtain w r1 where v: "json_value h n (skip_ws (tl (skip_ws r0))) = Inr (w, r1)"
      and r0: "skip_ws r0 \<noteq> []"
      using 3 k by (auto simp: json_members.simps(2) Let_def result_simps split: if_splits)
    have "length r < length r1"
      using 3 k v tlw [of r1] skip_ws_shorter [of "tl (skip_ws r1)"]
      by (auto simp: json_members.simps(2) Let_def result_simps split: if_splits
          dest!: Suc.IH(3))
    moreover have "length r1 < length r0"
      using Suc.IH(1) [OF v] skip_ws_shorter [of "tl (skip_ws r0)"] tlw [OF r0] by simp
    ultimately show ?case using scan_string_shorter [OF k] by simp }
qed

definition fuel_free :: "pairs_hook \<Rightarrow> bool" where
  "fuel_free h \<longleftrightarrow> (\<forall>ps. h ps \<noteq> Inl no_fuel)"

lemma scan_number_fuel: "scan_number s \<noteq> Inl no_fuel"
  by (auto simp: scan_number_def json_error_def no_fuel_def Let_def split: prod.splits)

lemma scan_word_fuel: "scan_word s \<noteq> Inl no_fuel"
  by (auto simp: scan_word_def scan_number_fuel)

lemma json_parse_enough:
  assumes h: "fuel_free h"
  shows "2 * length s < n \<Longrightarrow> json_value h n s \<noteq> Inl no_fuel"
    and "2 * length s + 1 < n \<Longrightarrow> json_elems h n s \<noteq> Inl no_fuel"
    and "2 * length s + 1 < n \<Longrightarrow> json_members h n s \<noteq> Inl no_fuel"
proof (induction n arbitrary: s)
  case 0
  { case 1 then show ?case by simp next case 2 then show ?case by simp
  next case 3 then show ?case by simp }
next
  case (Suc n)
  have err: "json_error \<noteq> no_fuel" by (simp add: json_error_def no_fuel_def)
  have tlw: "skip_ws t \<noteq> [] \<Longrightarrow> length (skip_ws (tl (skip_ws t))) < length t" for t
    using skip_ws_shorter [of t] skip_ws_shorter [of "tl (skip_ws t)"] by (cases "skip_ws t") auto
  { case 1
    show ?case
    proof (cases s)
      case Nil
      with err show ?thesis by (simp add: json_value.simps(2))
    next
      case (Cons c t)
      have "2 * length (skip_ws t) + 1 < n" using 1 Cons skip_ws_shorter [of t] by simp
      with Suc.IH(2,3) h err scan_word_fuel Cons show ?thesis
        by (auto simp: json_value.simps(2) Let_def result_simps fuel_free_def split: option.splits)
    qed
  next
    case 2
    have "json_elems h n (skip_ws (tl (skip_ws r))) \<noteq> Inl no_fuel"
      if "json_value h n s = Inr (v, r)" "skip_ws r \<noteq> []" for v r
      using json_shorter(1) [OF that(1)] tlw [OF that(2)] 2 by (intro Suc.IH(2)) simp
    with Suc.IH(1) [of s] 2 err show ?case
      by (auto simp: json_elems.simps(2) Let_def result_simps split: if_splits)
  next
    case 3
    have short: "length (skip_ws (tl (skip_ws r0))) < length s"
      if "scan_string (tl s) = Some (k, r0)" "skip_ws r0 \<noteq> []" for k r0
      using scan_string_shorter [OF that(1)] tlw [OF that(2)] by simp
    have "json_value h n (skip_ws (tl (skip_ws r0))) \<noteq> Inl no_fuel"
      if "scan_string (tl s) = Some (k, r0)" "skip_ws r0 \<noteq> []" for k r0
      using short [OF that] 3 by (intro Suc.IH(1)) simp
    moreover have "json_members h n (skip_ws (tl (skip_ws r))) \<noteq> Inl no_fuel"
      if "scan_string (tl s) = Some (k, r0)" "skip_ws r0 \<noteq> []"
        "json_value h n (skip_ws (tl (skip_ws r0))) = Inr (v, r)" "skip_ws r \<noteq> []" for k r0 v r
      using json_shorter(1) [OF that(3)] short [OF that(1,2)] tlw [OF that(4)] 3
      by (intro Suc.IH(3)) simp
    ultimately show ?case using err
      by (auto simp: json_members.simps(2) Let_def result_simps split: if_splits option.splits) }
qed

lemma json_loads_no_fuel: "fuel_free h \<Longrightarrow> json_loads_hook h s \<noteq> Inl no_fuel"
proof -
  assume h: "fuel_free h"
  have "json_value h (2 * length s + 1) (skip_ws s) \<noteq> Inl no_fuel"
    using skip_ws_shorter [of s] by (intro json_parse_enough(1) [OF h]) simp
  then show ?thesis
    by (auto simp: json_loads_hook_def result_simps json_error_def no_fuel_def)
qed

section \<open>The exceptions of the parser\<close>

lemma scan_word_error: "scan_word s = Inl e \<Longrightarrow> \<exists>n. e = PyError n"
  by (auto simp: scan_word_def scan_number_def json_error_def Let_def
      split: if_splits prod.splits)

lemma json_parse_error:
  "json_value h n s = Inl e \<Longrightarrow> (\<exists>x. e = PyError x) \<or> (\<exists>ps. h ps = Inl e)"
  "json_elems h n s = Inl e \<Longrightarrow> (\<exists>x. e = PyError x) \<or> (\<exists>ps. h ps = Inl e)"
  "json_members h n s = Inl e \<Longrightarrow> (\<exists>x. e = PyError x) \<or> (\<exists>ps. h ps = Inl e)"
proof (induction n arbitrary: s)
  case 0
  { case 1 then show ?case by (auto simp: no_fuel_def)
  next case 2 then show ?case by (auto simp: no_fuel_def)
  next case 3 then show ?case by (auto simp: no_fuel_def) }
next
  case (Suc n)
  { case 1
    then show ?case using Suc.IH(2,3) scan_word_error
      by (auto simp: json_value.simps(2) json_error_def Let_def result_simps
          split: list.splits option.splits if_splits)
  next
    case 2
    then show ?case using Suc.IH(1,2)
      by (auto simp: json_elems.simps(2) json_error_def Let_def result_simps split: if_splits)
  next
    case 3
    then show ?case using Suc.IH(1,3)
      by (auto simp: json_members.simps(2) json_error_def Let_def result_simps
          split: if_splits option.splits) }
qed

lemma json_loads_hook_error:
  "json_loads_hook h s = Inl e \<Longrightarrow> (\<exists>x. e = PyError x) \<or> (\<exists>ps. h ps = Inl e)"
  by (auto simp: json_loads_hook_def result_simps json_error_def split: if_splits
      dest: json_parse_error)

lemma json_loads_error: "json_loads s = Inl e \<Longrightarrow> \<exists>x. e = PyError x"
  by (auto simp: json_loads_def default_hook_def dest!: json_loads_hook_error)

lemma json_loads_bytes_error: "json_loads_bytes b = Inl e \<Longrightarrow> \<exists>x. e = PyError x"
  by (auto simp: json_loads_bytes_def result_simps json_error_def default_hook_def
      split: option.splits if_splits dest!: json_parse_error)

declare json_dumps_def [eval_simps] dump_str_def [eval_simps] escape_char_def [eval_simps]
  u_escape_def [eval_simps] hex_digit_def [eval_simps] compact_def [eval_simps]
  default_opts_def [eval_simps] dec_int_def [eval_simps]

section \<open>Printing in ASCII and reading bytes\<close>

definition printable :: "nat \<Rightarrow> bool" where
  "printable c \<longleftrightarrow> 32 \<le> c \<and> c < 128"

lemma printable_numeral [simp]:
  "printable (numeral n) \<longleftrightarrow> 32 \<le> (numeral n :: nat) \<and> (numeral n :: nat) < 128"
  by (simp add: printable_def)

lemma hex_digit_printable: "printable (hex_digit (n mod 16))"
proof -
  have "n mod 16 < 16" by simp
  then show ?thesis unfolding printable_def hex_digit_def by auto
qed

lemma escape_char_printable: "list_all printable (escape_char True c)"
proof -
  have "list_all printable (u_escape n)" for n
    by (simp add: u_escape_def hex_digit_printable)
  then show ?thesis by (simp add: escape_char_def) (simp add: printable_def)
qed

lemma dump_str_printable: "list_all printable (dump_str True s)"
  using escape_char_printable
  by (induction s) (auto simp: dump_str_def list_all_iff printable_def)

lemma join_all: "list_all P sep \<Longrightarrow> list_all (list_all P) ps \<Longrightarrow> list_all P (join sep ps)"
  by (induction sep ps rule: join.induct) auto

lemma dec_nat_printable: "list_all printable (dec_nat n)"
  using dec_nat_digits [of n] by (auto simp: list_all_iff printable_def is_digit_def)

lemma dump_printable:
  assumes "good_opts j" "ensure_ascii j"
  shows "json_ok True v \<Longrightarrow> list_all printable (dump j v)"
proof (induction v)
  case (VList xs)
  then have "list_all (list_all printable) (map (dump j) xs)" by (auto simp: list_all_iff)
  moreover have "list_all printable (item_sep j)"
    using assms by (auto simp: good_opts_def printable_def list_all_iff)
  ultimately have "list_all printable (join (item_sep j) (map (dump j) xs))" by (rule join_all [rotated])
  then show ?case by simp
next
  case (VDict d)
  have seps: "list_all printable (item_sep j)" "list_all printable (key_sep j)"
    using assms by (auto simp: good_opts_def printable_def list_all_iff)
  have "list_all printable (dump_str True (fst p) @ key_sep j @ dump j (snd p))" if "p \<in> set d" for p
    using VDict that seps dump_str_printable [of "fst p"] by (cases p) (auto simp: list_all_iff)
  then have "list_all printable (join (item_sep j)
      (map (\<lambda>p. dump_str True (fst p) @ key_sep j @ dump j (snd p)) d))"
    using seps by (intro join_all) (auto simp: list_all_iff)
  with assms show ?case by simp
next
  case (VBool b)
  show ?case by (simp add: lit_def printable_def)
next
  case (VInt i)
  then show ?case using dec_nat_printable by (simp add: dec_int_def)
qed (use assms dump_str_printable in \<open>auto simp: lit_def printable_def list_all_iff\<close>)

lemma utf8_decode_ascii: "is_ascii s \<Longrightarrow> utf8_decode s = Some s"
  by (induction s) (auto simp: is_ascii_def utf8_decode.simps(2))

lemma detect_printable: "list_all printable s \<Longrightarrow> detect_encoding s = Utf8"
proof (cases s)
  case (Cons a t)
  assume s: "list_all printable s"
  then have "0 < s ! i" if "i < length s" for i
    using that by (auto simp: list_all_length printable_def)
  then have "2 \<le> length s \<Longrightarrow> 0 < s ! 1" by simp
  moreover from s Cons have "32 \<le> a" "a < 128" by (auto simp: printable_def)
  ultimately show ?thesis using Cons unfolding detect_encoding_def by auto
qed (simp add: detect_encoding_def)

lemma unat_of_nat_ascii: "is_ascii s \<Longrightarrow> map unat (map (of_nat :: nat \<Rightarrow> byte) s) = s"
  by (induction s) (auto simp: is_ascii_def unat_of_nat)

lemma json_loads_bytes_dumps:
  assumes j: "good_opts j" "ensure_ascii j" "\<not> sort_keys j" and ok: "json_ok True v"
  shows "json_loads_bytes (map of_nat (json_dumps j v)) = Inr v"
proof -
  have p: "list_all printable (dump j v)" using dump_printable j ok by blast
  then have a: "is_ascii (dump j v)" by (auto simp: is_ascii_def list_all_iff printable_def)
  have "json_value default_hook (2 * length (dump j v) + 1) (dump j v @ []) = Inr (v, [])"
    using assms any_hook_default by (intro json_value_dump) (auto simp: number_end_def)
  moreover have "skip_ws (dump j v) = dump j v"
    using skip_ws_dump [OF ok, of j "[]"] by simp
  moreover have "decode_json_bytes (map unat (map (of_nat :: nat \<Rightarrow> byte) (dump j v))) = Some (dump j v)"
    unfolding unat_of_nat_ascii [OF a]
    by (simp add: decode_json_bytes_def detect_printable [OF p] utf8_decode_ascii [OF a])
  ultimately show ?thesis using j(3)
    by (simp add: json_loads_bytes_def json_dumps_def skip_ws_def del: map_map)
qed

end
