(* ===== verification/Digest.thy ===== *)
theory Digest imports Text begin

text \<open>
  The digests and encodings of Python's \<open>hashlib\<close>, \<open>hmac\<close> and \<open>base64\<close> that the program calls:
  SHA-256 on 32-bit words, HMAC-SHA256, lowercase hexadecimal, and Base64 with the standard and
  the URL-safe alphabet.  The lemmas give the lengths and alphabets the program relies on.
\<close>

unbundle bit_operations_syntax

section \<open>SHA-256\<close>

text \<open>The round constants and the initial state of the standard, in decimal.\<close>

definition sha_k :: "32 word list" where
  "sha_k = [
    1116352408, 1899447441, 3049323471, 3921009573, 961987163, 1508970993,
    2453635748, 2870763221, 3624381080, 310598401, 607225278, 1426881987,
    1925078388, 2162078206, 2614888103, 3248222580, 3835390401, 4022224774,
    264347078, 604807628, 770255983, 1249150122, 1555081692, 1996064986,
    2554220882, 2821834349, 2952996808, 3210313671, 3336571891, 3584528711,
    113926993, 338241895, 666307205, 773529912, 1294757372, 1396182291,
    1695183700, 1986661051, 2177026350, 2456956037, 2730485921, 2820302411,
    3259730800, 3345764771, 3516065817, 3600352804, 4094571909, 275423344,
    430227734, 506948616, 659060556, 883997877, 958139571, 1322822218,
    1537002063, 1747873779, 1955562222, 2024104815, 2227730452, 2361852424,
    2428436474, 2756734187, 3204031479, 3329325298]"

definition sha_init :: "32 word list" where
  "sha_init = [
    1779033703, 3144134277, 1013904242, 2773480762, 1359893119, 2600822924,
    528734635, 1541459225]"

definition rotr :: "nat \<Rightarrow> 32 word \<Rightarrow> 32 word" where
  "rotr n x = drop_bit n x OR push_bit (32 - n) x"

definition big_endian :: "nat \<Rightarrow> nat \<Rightarrow> byte list" where
  "big_endian n x = map (\<lambda>i. of_nat (x div 256 ^ (n - 1 - i))) [0..<n]"

definition sha_pad :: "byte list \<Rightarrow> byte list" where
  "sha_pad m =
     (let l = length m; z = (119 - l mod 64) mod 64
      in m @ [0x80] @ replicate z 0 @ big_endian 8 (8 * l))"

definition word_of_bytes :: "byte list \<Rightarrow> 32 word" where
  "word_of_bytes bs = foldl (\<lambda>w b. push_bit 8 w OR ucast b) 0 bs"

fun chunks :: "nat \<Rightarrow> nat \<Rightarrow> 'a list \<Rightarrow> 'a list list" where
  "chunks 0 k xs = []"
| "chunks (Suc n) k xs = take k xs # chunks n k (drop k xs)"

text \<open>The message schedule, newest word first.\<close>

fun schedule :: "nat \<Rightarrow> 32 word list \<Rightarrow> 32 word list" where
  "schedule 0 w = w"
| "schedule (Suc n) w =
     (let s0 = (let x = w ! 14 in rotr 7 x XOR rotr 18 x XOR drop_bit 3 x);
          s1 = (let x = w ! 1 in rotr 17 x XOR rotr 19 x XOR drop_bit 10 x)
      in schedule n ((w ! 15 + s0 + w ! 6 + s1) # w))"

fun sha_round :: "32 word list \<Rightarrow> 32 word \<times> 32 word \<Rightarrow> 32 word list" where
  "sha_round [a, b, c, d, e, f, g, h] (k, w) =
     (let s1 = rotr 6 e XOR rotr 11 e XOR rotr 25 e;
          ch = (e AND f) XOR (NOT e AND g);
          t1 = h + s1 + ch + k + w;
          s0 = rotr 2 a XOR rotr 13 a XOR rotr 22 a;
          maj = (a AND b) XOR (a AND c) XOR (b AND c)
      in [t1 + (s0 + maj), a, b, c, d + t1, e, f, g])"
| "sha_round s _ = s"

definition sha_block :: "32 word list \<Rightarrow> byte list \<Rightarrow> 32 word list" where
  "sha_block s blk =
     (let w = rev (schedule 48 (rev (map word_of_bytes (chunks 16 4 blk))))
      in map2 (+) s (foldl sha_round s (zip sha_k w)))"

definition sha256 :: "byte list \<Rightarrow> byte list" where
  "sha256 m =
     (let p = sha_pad m;
          s = foldl sha_block sha_init (chunks (length p div 64) 64 p)
      in concat (map (\<lambda>w. big_endian 4 (unat w)) s))"

lemma length_big_endian [simp]: "length (big_endian n x) = n"
  by (simp add: big_endian_def)

lemma length_sha_round: "length s = 8 \<Longrightarrow> length (sha_round s p) = 8"
  by (cases "(s, p)" rule: sha_round.cases) (auto simp: Let_def)

lemma length_foldl_rounds: "length s = 8 \<Longrightarrow> length (foldl sha_round s ps) = 8"
  by (induction ps arbitrary: s) (auto simp: length_sha_round)

lemma length_foldl_blocks: "length s = 8 \<Longrightarrow> length (foldl sha_block s bs) = 8"
  by (induction bs arbitrary: s) (auto simp: sha_block_def Let_def length_foldl_rounds)

lemma length_concat_const: "(\<And>x. x \<in> set xs \<Longrightarrow> length (f x) = k) \<Longrightarrow> length (concat (map f xs)) = k * length xs"
  by (induction xs) auto

lemma length_sha256 [simp]: "length (sha256 m) = 32"
proof -
  have "length sha_init = 8" by (simp add: sha_init_def)
  then show ?thesis
    by (simp add: sha256_def Let_def length_concat_const [where k = 4] length_foldl_blocks)
qed

section \<open>HMAC\<close>

definition hmac_sha256 :: "byte list \<Rightarrow> byte list \<Rightarrow> byte list" where
  "hmac_sha256 key m =
     (let k0 = (if 64 < length key then sha256 key else key);
          k = k0 @ replicate (64 - length k0) 0
      in sha256 (map (\<lambda>b. b XOR 0x5c) k @ sha256 (map (\<lambda>b. b XOR 0x36) k @ m)))"

lemma length_hmac [simp]: "length (hmac_sha256 k m) = 32"
  by (simp add: hmac_sha256_def Let_def)

section \<open>Hexadecimal\<close>

lemma unat_byte: "unat (b :: byte) < 256"
proof -
  have "unat b < 2 ^ LENGTH(8)" by (rule unsigned_less)
  then show ?thesis by simp
qed

definition hex_nibble :: "nat \<Rightarrow> nat" where
  "hex_nibble d = (if d < 10 then 48 + d else 87 + d)"

definition hexdigest :: "byte list \<Rightarrow> pystr" where
  "hexdigest bs = concat (map (\<lambda>b. [hex_nibble (unat b div 16), hex_nibble (unat b mod 16)]) bs)"

lemma length_hexdigest [simp]: "length (hexdigest bs) = 2 * length bs"
  by (simp add: hexdigest_def length_concat_const [where k = 2])

lemma hex_nibble_hex: "d < 16 \<Longrightarrow> is_hex_lower (hex_nibble d)"
  by (auto simp: is_hex_lower_def is_digit_def hex_nibble_def)

lemma hexdigest_hex: "list_all is_hex_lower (hexdigest bs)"
proof -
  have "unat (b :: byte) div 16 < 16" for b
    using unat_byte [of b] by (simp add: less_mult_imp_div_less)
  then show ?thesis by (auto simp: hexdigest_def list_all_iff hex_nibble_hex)
qed

section \<open>Base64\<close>

text \<open>The alphabet, with the two last symbols of the standard (\<open>+/\<close>) or URL-safe (\<open>-_\<close>) variant.\<close>

definition b64_char :: "bool \<Rightarrow> nat \<Rightarrow> nat" where
  "b64_char url v =
     (if v < 26 then 65 + v else if v < 52 then 71 + v else if v < 62 then v - 4
      else if v = 62 then (if url then 45 else 43) else (if url then 95 else 47))"

fun b64_encode :: "bool \<Rightarrow> nat list \<Rightarrow> pystr" where
  "b64_encode u [] = []"
| "b64_encode u [a] = [b64_char u (a div 4), b64_char u (a mod 4 * 16), 61, 61]"
| "b64_encode u [a, b] =
     [b64_char u (a div 4), b64_char u (a mod 4 * 16 + b div 16), b64_char u (b mod 16 * 4), 61]"
| "b64_encode u (a # b # c # s) =
     b64_char u (a div 4) # b64_char u (a mod 4 * 16 + b div 16)
       # b64_char u (b mod 16 * 4 + c div 64) # b64_char u (c mod 64) # b64_encode u s"

definition urlsafe_b64encode :: "byte list \<Rightarrow> pystr" where
  "urlsafe_b64encode bs = b64_encode True (map unat bs)"

lemma b64_char_id: "v < 64 \<Longrightarrow> id_char (b64_char True v)"
  by (auto simp: b64_char_def char_class_defs)

lemma b64_char_not_pad: "v < 64 \<Longrightarrow> b64_char u v \<noteq> 61"
  by (auto simp: b64_char_def)

text \<open>
  Decoding.  \<open>b64_data\<close> reads unpadded symbols; \<open>b64decode_strict\<close> is
  \<open>base64.b64decode(text, validate=True)\<close>, which wants exact padding and nothing outside the
  standard alphabet; \<open>urlsafe_b64decode_padded\<close> is the program's idiom
  \<open>urlsafe_b64decode(value + "=" * (-len(value) % 4))\<close> for a value inside the URL-safe alphabet.
\<close>

definition b64_val :: "bool \<Rightarrow> nat \<Rightarrow> nat option" where
  "b64_val url c =
     (if is_upper c then Some (c - 65) else if is_lower c then Some (c - 71)
      else if is_digit c then Some (c + 4)
      else if c = (if url then 45 else 43) then Some 62
      else if c = (if url then 95 else 47) then Some 63 else None)"

fun b64_data :: "bool \<Rightarrow> pystr \<Rightarrow> nat list option" where
  "b64_data u [] = Some []"
| "b64_data u [a] = None"
| "b64_data u [a, b] =
     (case (b64_val u a, b64_val u b) of
        (Some w, Some x) \<Rightarrow> Some [w * 4 + x div 16] | _ \<Rightarrow> None)"
| "b64_data u [a, b, c] =
     (case (b64_val u a, b64_val u b, b64_val u c) of
        (Some w, Some x, Some y) \<Rightarrow> Some [w * 4 + x div 16, x mod 16 * 16 + y div 4] | _ \<Rightarrow> None)"
| "b64_data u (a # b # c # d # s) =
     (case (b64_val u a, b64_val u b, b64_val u c, b64_val u d) of
        (Some w, Some x, Some y, Some z) \<Rightarrow>
          map_option (\<lambda>t. (w * 4 + x div 16) # (x mod 16 * 16 + y div 4) # (y mod 4 * 64 + z) # t)
            (b64_data u s)
      | _ \<Rightarrow> None)"

definition urlsafe_b64decode_padded :: "pystr \<Rightarrow> byte list option" where
  "urlsafe_b64decode_padded s = map_option (map of_nat) (b64_data True s)"

definition b64decode_strict :: "pystr \<Rightarrow> byte list option" where
  "b64decode_strict s =
     (let data = takeWhile (\<lambda>c. c \<noteq> 61) s; pad = dropWhile (\<lambda>c. c \<noteq> 61) s
      in if pad = replicate ((4 - length data mod 4) mod 4) 61
         then map_option (map of_nat) (b64_data False data) else None)"

lemma b64_val_char [simp]: "v < 64 \<Longrightarrow> b64_val u (b64_char u v) = Some v"
  by (auto simp: b64_val_def b64_char_def char_class_defs)

lemma b64_data_encode:
  "list_all (\<lambda>b. b < 256) bs \<Longrightarrow>
     b64_data u (takeWhile (\<lambda>c. c \<noteq> 61) (b64_encode u bs)) = Some bs"
proof (induction u bs rule: b64_encode.induct)
  case (4 u a b c s)
  then have "a div 4 < 64" "a mod 4 * 16 + b div 16 < 64" "b mod 16 * 4 + c div 64 < 64"
    "b div 16 < 16" "c div 64 < 4"
    by auto
  with 4 show ?case by (simp add: b64_char_not_pad)
next
  case (3 u a b)
  then have "a div 4 < 64" "a mod 4 * 16 + b div 16 < 64" "b div 16 < 16" by auto
  with 3 show ?case by (simp add: b64_char_not_pad)
next
  case (2 u a)
  then have "a div 4 < 64" by auto
  with 2 show ?case by (simp add: b64_char_not_pad)
qed simp

lemma b64_data_length: "b64_data u s = Some bs \<Longrightarrow> 4 * length bs \<le> 3 * length s"
  by (induction u s arbitrary: bs rule: b64_data.induct) (auto split: option.splits)

lemma b64decode_strict_length:
  "b64decode_strict s = Some bs \<Longrightarrow> 4 * length bs \<le> 3 * length s"
proof -
  assume "b64decode_strict s = Some bs"
  then obtain b where b: "b64_data False (takeWhile (\<lambda>c. c \<noteq> 61) s) = Some b" and "bs = map of_nat b"
    by (auto simp: b64decode_strict_def Let_def split: if_splits)
  moreover have "length (takeWhile (\<lambda>c. c \<noteq> 61) s) \<le> length s"
    by (rule length_takeWhile_le)
  ultimately show ?thesis using b64_data_length [OF b] by simp
qed

text \<open>Thirty-two bytes, padding stripped, are forty-three identifier characters.\<close>

lemma b64_encode_shape:
  "list_all (\<lambda>b. b < 256) bs \<Longrightarrow> length bs = 3 * n + 2 \<Longrightarrow>
     \<exists>t. b64_encode True bs = t @ [61] \<and> length t = 4 * n + 3 \<and> list_all id_char t"
proof (induction n arbitrary: bs)
  case 0
  then obtain a b where "bs = [a, b]" by (auto simp: numeral_eq_Suc length_Suc_conv)
  moreover from this 0 have "a div 4 < 64" "a mod 4 * 16 + b div 16 < 64" by auto
  ultimately show ?case by (simp add: b64_char_id)
next
  case (Suc n)
  then obtain a b c s where bs: "bs = a # b # c # s"
    by (auto simp: numeral_eq_Suc length_Suc_conv)
  with Suc obtain t where t: "b64_encode True s = t @ [61]" "length t = 4 * n + 3" "list_all id_char t"
    by auto
  from bs Suc.prems have "a div 4 < 64" "a mod 4 * 16 + b div 16 < 64" "b mod 16 * 4 + c div 64 < 64"
    by auto
  with bs t show ?case by (simp add: b64_char_id)
qed

lemma urlsafe_b64_32:
  assumes "length bs = 32"
  shows "class_match id_char 43 43 (rstrip_if (\<lambda>c. c = 61) (urlsafe_b64encode bs))"
proof -
  have "list_all (\<lambda>b. b < 256) (map unat bs)"
    using unat_byte by (auto simp: list_all_iff)
  then obtain t where t: "urlsafe_b64encode bs = t @ [61]" "length t = 43" "list_all id_char t"
    using b64_encode_shape [of "map unat bs" 10] assms by (auto simp: urlsafe_b64encode_def)
  obtain u x where "t = u @ [x]" using t(2) by (cases t rule: rev_cases) auto
  moreover from this t(3) have "x \<noteq> 61" by (auto simp: char_class_defs)
  ultimately have "rstrip_if (\<lambda>c. c = 61) (t @ [61]) = t"
    by (simp add: rstrip_if_def)
  with t show ?thesis by (simp add: class_match_def)
qed

section \<open>Encoding without padding\<close>

definition b64url :: "byte list \<Rightarrow> pystr" where
  "b64url bs = rstrip_if (\<lambda>c. c = 61) (urlsafe_b64encode bs)"

lemma b64_encode_pad:
  "list_all (\<lambda>b. b < 256) bs \<Longrightarrow>
     \<exists>t k. b64_encode u bs = t @ replicate k 61 \<and> 61 \<notin> set t \<and> (u \<longrightarrow> list_all id_char t)"
proof (induction u bs rule: b64_encode.induct)
  case (1 u)
  show ?case by (intro exI [of _ "[]"] exI [of _ 0]) simp
next
  case (2 u a)
  then have "a div 4 < 64" "a mod 4 * 16 < 64" by auto
  then show ?case using b64_char_not_pad [of _ u, symmetric]
    by (intro exI [of _ "take 2 (b64_encode u [a])"] exI [of _ 2])
      (auto simp: b64_char_id numeral_2_eq_2)
next
  case (3 u a b)
  then have "a div 4 < 64" "a mod 4 * 16 + b div 16 < 64" "b mod 16 * 4 < 64" by auto
  then show ?case using b64_char_not_pad [of _ u, symmetric]
    by (intro exI [of _ "take 3 (b64_encode u [a, b])"] exI [of _ 1])
      (auto simp: b64_char_id numeral_3_eq_3)
next
  case (4 u a b c s)
  then obtain t k where t: "b64_encode u s = t @ replicate k 61" "61 \<notin> set t" "u \<longrightarrow> list_all id_char t"
    by auto
  from 4 have "a div 4 < 64" "a mod 4 * 16 + b div 16 < 64" "b mod 16 * 4 + c div 64 < 64"
    "c mod 64 < 64"
    by auto
  with t show ?case using b64_char_not_pad [of _ u, symmetric]
    by (intro exI [of _ "[b64_char u (a div 4), b64_char u (a mod 4 * 16 + b div 16),
         b64_char u (b mod 16 * 4 + c div 64), b64_char u (c mod 64)] @ t"] exI [of _ k])
      (auto simp: b64_char_id)
qed

lemma rstrip_pad: "61 \<notin> set t \<Longrightarrow> rstrip_if (\<lambda>c. c = 61) (t @ replicate k 61) = t"
proof -
  assume t: "61 \<notin> set t"
  have "dropWhile (\<lambda>c. c = 61) (replicate k 61 @ rev t) = dropWhile (\<lambda>c. c = (61::nat)) (rev t)"
    by (induction k) auto
  moreover have "dropWhile (\<lambda>c. c = 61) (rev t) = rev t"
    using t by (cases "rev t") (auto simp: dropWhile_eq_self_iff)
  ultimately show ?thesis by (simp add: rstrip_if_def)
qed

lemma takeWhile_pad: "61 \<notin> set t \<Longrightarrow> takeWhile (\<lambda>c. c \<noteq> 61) (t @ replicate k 61) = (t :: pystr)"
  by (induction t) (auto simp: takeWhile_replicate)

lemma b64url_decode: "b64_data True (b64url bs) = Some (map unat bs)"
  and b64url_chars: "list_all id_char (b64url bs)"
proof -
  have all: "list_all (\<lambda>b. b < 256) (map unat bs)"
    using unat_byte by (auto simp: list_all_iff)
  from b64_encode_pad [OF this, of True] obtain t k
    where t: "urlsafe_b64encode bs = t @ replicate k 61" "61 \<notin> set t" "list_all id_char t"
    by (auto simp: urlsafe_b64encode_def)
  then have b: "b64url bs = t" by (simp add: b64url_def rstrip_pad)
  with t show "list_all id_char (b64url bs)" by simp
  show "b64_data True (b64url bs) = Some (map unat bs)"
    using b64_data_encode [OF all, of True] takeWhile_pad [OF t(2), of k] t(1) b
    by (simp add: urlsafe_b64encode_def)
qed

lemma b64url_decode_padded: "urlsafe_b64decode_padded (b64url bs) = Some bs"
  by (simp add: urlsafe_b64decode_padded_def b64url_decode comp_def)

lemma b64url_inj: "b64url a = b64url b \<Longrightarrow> a = b"
  by (metis b64url_decode_padded option.inject)

lemma b64_encode_length: "length (b64_encode u bs) \<le> 4 * length bs"
  by (induction u bs rule: b64_encode.induct) auto

lemma b64url_length: "length (b64url bs) \<le> 4 * length bs"
proof -
  have "length (b64url bs) \<le> length (urlsafe_b64encode bs)"
    using length_dropWhile_le [of _ "rev (urlsafe_b64encode bs)"]
    by (simp add: b64url_def rstrip_if_def)
  then show ?thesis using b64_encode_length [of True "map unat bs"]
    by (simp add: urlsafe_b64encode_def)
qed

lemma b64url_nonempty: "bs \<noteq> [] \<Longrightarrow> b64url bs \<noteq> []"
  using b64url_decode [of bs] by auto

text \<open>The strict decoder inverts the standard encoder.\<close>

lemma b64_encode_length_eq: "length (b64_encode u bs) = 4 * ((length bs + 2) div 3)"
proof (induction u bs rule: b64_encode.induct)
  case (4 u a b c s)
  have "(length (a # b # c # s) + 2) div 3 = Suc ((length s + 2) div 3)" by simp
  with 4 show ?case by simp
qed auto

lemma pad_count_eq: "k \<le> 2 \<Longrightarrow> n + k = 4 * q \<Longrightarrow> k = (4 - n mod 4) mod (4 :: nat)"
proof -
  assume k: "k \<le> 2" and n: "n + k = 4 * q"
  have m: "(a + 4 * r) mod 4 = a" if "a < 4" for a r :: nat using that by simp
  from k consider "k = 0" | "k = 1" | "k = 2" by linarith
  then show ?thesis
  proof cases
    case 1
    with n have "n = 0 + 4 * q" by simp
    with 1 m [of 0 q] show ?thesis by simp
  next
    case 2
    with n have "n = 3 + 4 * (q - 1)" by simp
    with 2 m [of 3 "q - 1"] show ?thesis by simp
  next
    case 3
    with n have "n = 2 + 4 * (q - 1)" by simp
    with 3 m [of 2 "q - 1"] show ?thesis by simp
  qed
qed

lemma b64_pad_count:
  "list_all (\<lambda>b. b < 256) bs \<Longrightarrow> length (dropWhile (\<lambda>c. c \<noteq> 61) (b64_encode u bs)) \<le> 2"
proof (induction u bs rule: b64_encode.induct)
  case (2 u a)
  then have "a div 4 < 64" "a mod 4 * 16 < 64" by auto
  then show ?case using b64_char_not_pad [of _ u] by simp
next
  case (3 u a b)
  then have "a div 4 < 64" "a mod 4 * 16 + b div 16 < 64" "b mod 16 * 4 < 64" by auto
  then show ?case using b64_char_not_pad [of _ u] by simp
next
  case (4 u a b c s)
  then have "a div 4 < 64" "a mod 4 * 16 + b div 16 < 64" "b mod 16 * 4 + c div 64 < 64"
    "c mod 64 < 64"
    by auto
  with 4 show ?case using b64_char_not_pad [of _ u] by simp
qed simp

lemma b64decode_strict_encode: "b64decode_strict (b64_encode False (map unat bs)) = Some bs"
proof -
  have all: "list_all (\<lambda>b. b < 256) (map unat bs)" using unat_byte by (auto simp: list_all_iff)
  let ?e = "b64_encode False (map unat bs)"
  obtain t k where t: "?e = t @ replicate k 61" "61 \<notin> set t"
    using b64_encode_pad [OF all] by blast
  then have tw: "takeWhile (\<lambda>c. c \<noteq> 61) ?e = t" by (simp add: takeWhile_pad)
  have "dropWhile (\<lambda>c. c \<noteq> 61) (t @ replicate k 61) = replicate k 61"
    using t(2) by (induction t) (auto simp: dropWhile_replicate)
  then have dw: "dropWhile (\<lambda>c. c \<noteq> 61) ?e = replicate k 61" using t(1) by simp
  then have "k \<le> 2" using b64_pad_count [OF all, of False] by simp
  moreover have "length t + k = 4 * ((length bs + 2) div 3)"
    using t(1) b64_encode_length_eq [of False "map unat bs"] by simp
  ultimately have "k = (4 - length t mod 4) mod 4" by (rule pad_count_eq)
  then show ?thesis using tw dw b64_data_encode [OF all, of False]
    by (simp add: b64decode_strict_def Let_def comp_def)
qed

end
