(* ===== verification/ScreenPop.thy ===== *)
theory ScreenPop imports Json Digest begin

text \<open>
  \<open>lambda/common/screen_pop.py\<close>: the customer-configurable screen-pop fields.  A configuration is
  parsed and validated (\<open>parse_fields\<close>), printed again (\<open>fields_json\<close>) and hashed
  (\<open>schema_hash\<close>); values are validated against it (\<open>validate_values\<close>), described to Vapi
  (\<open>vapi_parameters\<close>) and laid out for Amazon Connect (\<open>connect_rows\<close>).
\<close>

section \<open>Constants and fields\<close>

definition MAX_FIELDS :: nat where "MAX_FIELDS = 8"
definition MAX_CONFIG_BYTES :: nat where "MAX_CONFIG_BYTES = 4096"
definition MAX_CONTEXT_BYTES :: nat where "MAX_CONTEXT_BYTES = 8192"
definition MAX_TOTAL_VALUE_CHARACTERS :: int where "MAX_TOTAL_VALUE_CHARACTERS = 8192"

text \<open>\<open>KEY_PATTERN = ^[a-z][a-z0-9_]{0,39}$\<close> under \<open>fullmatch\<close>.\<close>

definition key_pattern :: "pystr \<Rightarrow> bool" where
  "key_pattern s \<longleftrightarrow> s \<noteq> [] \<and> length s \<le> 40 \<and> is_lower (hd s) \<and>
     list_all (\<lambda>c. is_lower c \<or> is_digit c \<or> c = 95) (tl s)"

definition RESERVED_KEYS :: "pystr list" where
  "RESERVED_KEYS = map lit
     [''correlation_id'', ''schema_version'', ''vapi_call_reference'', ''vapi_call_fingerprint'',
      ''content_hash'', ''created_at'', ''updated_at'', ''expires_at'', ''handoff_status'',
      ''bridgefu_call_id'', ''attachment_expires_at'', ''screen_pop_schema_hash'',
      ''context_available'']"

record screen_pop_field =
  field_key :: pystr
  field_label :: pystr
  field_description :: pystr
  field_type :: pystr
  field_max_length :: int
  field_required :: bool
  field_choices :: "pystr list"

definition text_field :: "string \<Rightarrow> string \<Rightarrow> string \<Rightarrow> int \<Rightarrow> screen_pop_field" where
  "text_field k l d m = \<lparr>field_key = lit k, field_label = lit l, field_description = lit d,
     field_type = lit ''text'', field_max_length = m, field_required = True, field_choices = []\<rparr>"

definition DEFAULT_FIELDS :: "screen_pop_field list" where
  "DEFAULT_FIELDS =
     [text_field ''customer_name'' ''Customer'' ''Caller's name for the agent.'' 256,
      text_field ''issue_summary'' ''Issue'' ''Short summary of why the caller needs an agent.'' 1024,
      text_field ''intent'' ''Intent'' ''Short routing or support intent.'' 128,
      text_field ''verification_status'' ''Verification''
        ''Display-only summary of verification already completed.'' 128]"

section \<open>Printing a configuration\<close>

definition field_value :: "screen_pop_field \<Rightarrow> pyval" where
  "field_value f = VDict (mk
     ([(''key'', VStr (field_key f)),
       (''label'', VStr (field_label f)),
       (''description'', VStr (field_description f)),
       (''type'', VStr (field_type f)),
       (''max_length'', VInt (field_max_length f)),
       (''required'', VBool (field_required f))]
      @ (if field_type f = lit ''choice''
         then [(''choices'', VList (map VStr (field_choices f)))] else [])))"

definition fields_opts :: json_opts where
  "fields_opts = compact\<lparr>ensure_ascii := False\<rparr>"

definition fields_json :: "screen_pop_field list \<Rightarrow> pystr" where
  "fields_json fs = json_dumps fields_opts (VList (map field_value fs))"

definition default_fields_json :: pystr where
  "default_fields_json = fields_json DEFAULT_FIELDS"

definition schema_hash :: "screen_pop_field list \<Rightarrow> pystr result" where
  "schema_hash fs = rbind (utf8_encode (fields_json fs)) (\<lambda>bs. Inr (hexdigest (sha256 bs)))"

section \<open>Parsing a configuration\<close>

definition plain_text :: "pyval \<Rightarrow> string \<Rightarrow> nat \<Rightarrow> pystr result" where
  "plain_text v name maximum =
     (case v of
        VStr s \<Rightarrow>
          if s = [] \<or> maximum < length s then Inl (ScreenPopConfigError (''invalid_'' @ name))
          else if list_ex is_control s \<or> 60 \<in> set s \<or> 62 \<in> set s
          then Inl (ScreenPopConfigError (''invalid_'' @ name))
          else Inr s
      | _ \<Rightarrow> Inl (ScreenPopConfigError (''invalid_'' @ name)))"

definition ITEM_KEYS :: "pystr list" where
  "ITEM_KEYS = map lit [''key'', ''label'', ''description'', ''max_length'', ''required'', ''type'', ''choices'']"

fun parse_choices :: "pystr list \<Rightarrow> pyval list \<Rightarrow> pystr list result" where
  "parse_choices seen [] = Inr []"
| "parse_choices seen (c # cs) =
     rbind (plain_text c ''screen_pop_field_choice'' 128) (\<lambda>s.
       if s \<in> set seen then Inl (ScreenPopConfigError ''screen_pop_field_choices_invalid'')
       else rbind (parse_choices (s # seen) cs) (\<lambda>ss. Inr (s # ss)))"

text \<open>The length limit and the choices of one item, by its type.\<close>

definition parse_limits :: "pydict \<Rightarrow> pyval \<Rightarrow> (int \<times> pystr list) result" where
  "parse_limits item ty =
     (if py_eq ty (VStr (lit ''text'')) then
        (case get_key item ''max_length'' of
           VInt m \<Rightarrow>
             if \<not> (1 \<le> m \<and> m \<le> 1024) \<or> has_key item ''choices''
             then Inl (ScreenPopConfigError ''screen_pop_field_length_invalid'')
             else Inr (m, [])
         | _ \<Rightarrow> Inl (ScreenPopConfigError ''screen_pop_field_length_invalid''))
      else
        rbind (expect_list (ScreenPopConfigError ''screen_pop_field_choices_invalid'')
          (get_key item ''choices'')) (\<lambda>raw.
        if \<not> (2 \<le> length raw \<and> length raw \<le> 20) \<or> has_key item ''max_length''
        then Inl (ScreenPopConfigError ''screen_pop_field_choices_invalid'')
        else rbind (parse_choices [] raw) (\<lambda>cs. Inr (int (Max (set (map length cs))), cs))))"

definition parse_field ::
    "pylib \<Rightarrow> pystr list \<Rightarrow> pystr list \<Rightarrow> pyval \<Rightarrow> screen_pop_field result" where
  "parse_field lib seen_keys seen_labels v =
     rbind (expect_dict (ScreenPopConfigError ''screen_pop_fields_invalid'') v) (\<lambda>item.
     if \<not> keys item \<subseteq> set ITEM_KEYS then Inl (ScreenPopConfigError ''screen_pop_fields_invalid'')
     else
     rbind (expect_str (ScreenPopConfigError ''screen_pop_field_key_invalid'')
       (get_key item ''key'')) (\<lambda>k.
     if \<not> key_pattern k \<or> k \<in> set RESERVED_KEYS \<or> k \<in> set seen_keys
     then Inl (ScreenPopConfigError ''screen_pop_field_key_invalid'')
     else
     rbind (plain_text (get_key item ''label'') ''screen_pop_field_label'' 64) (\<lambda>l.
     if py_casefold lib l \<in> set seen_labels
     then Inl (ScreenPopConfigError ''screen_pop_field_label_invalid'')
     else
     rbind (plain_text (get_key item ''description'') ''screen_pop_field_description'' 256) (\<lambda>d.
     let ty = get_or item ''type'' (VStr (lit ''text'')) in
     if \<not> (py_eq ty (VStr (lit ''text'')) \<or> py_eq ty (VStr (lit ''choice'')))
     then Inl (ScreenPopConfigError ''screen_pop_field_type_invalid'')
     else
     rbind (parse_limits item ty) (\<lambda>bnd.
     rbind (expect_bool (ScreenPopConfigError ''screen_pop_field_required_invalid'')
       (get_or item ''required'' (VBool True))) (\<lambda>r.
     Inr \<lparr>field_key = k, field_label = l, field_description = d, field_type = str_of ty,
       field_max_length = fst bnd, field_required = r, field_choices = snd bnd\<rparr>))))))"

fun parse_items ::
    "pylib \<Rightarrow> pystr list \<Rightarrow> pystr list \<Rightarrow> pyval list \<Rightarrow> screen_pop_field list result" where
  "parse_items lib ks ls [] = Inr []"
| "parse_items lib ks ls (v # vs) =
     rbind (parse_field lib ks ls v) (\<lambda>f.
     rbind (parse_items lib (field_key f # ks) (py_casefold lib (field_label f) # ls) vs) (\<lambda>fs.
     Inr (f # fs)))"

definition decode_fields :: "pyval \<Rightarrow> pyval result" where
  "decode_fields v =
     (case v of
        VStr s \<Rightarrow>
          if s = [] then Inl (ScreenPopConfigError ''screen_pop_fields_invalid'')
          else rbind (utf8_encode s) (\<lambda>bs.
            if MAX_CONFIG_BYTES < length bs
            then Inl (ScreenPopConfigError ''screen_pop_fields_invalid'')
            else (case json_loads s of
                    Inr d \<Rightarrow> Inr d
                  | Inl e \<Rightarrow>
                      if e = json_error then Inl (ScreenPopConfigError ''screen_pop_fields_invalid'')
                      else Inl e))
      | _ \<Rightarrow> Inr v)"

definition parse_fields :: "pylib \<Rightarrow> pyval \<Rightarrow> screen_pop_field list result" where
  "parse_fields lib v =
     rbind (decode_fields v) (\<lambda>d.
     rbind (expect_list (ScreenPopConfigError ''screen_pop_fields_invalid'') d) (\<lambda>items.
     if \<not> (1 \<le> length items \<and> length items \<le> MAX_FIELDS)
     then Inl (ScreenPopConfigError ''screen_pop_fields_invalid'')
     else
     rbind (parse_items lib [] [] items) (\<lambda>fs.
     if MAX_TOTAL_VALUE_CHARACTERS < sum_list (map field_max_length fs)
     then Inl (ScreenPopConfigError ''screen_pop_fields_too_large'')
     else Inr fs)))"

section \<open>Values\<close>

type_synonym strdict = "(pystr \<times> pystr) list"

definition strvals :: "strdict \<Rightarrow> pydict" where
  "strvals d = map (\<lambda>p. (fst p, VStr (snd p))) d"

definition values_opts :: json_opts where
  "values_opts = default_opts\<lparr>ensure_ascii := False\<rparr>"

definition check_value :: "screen_pop_field \<Rightarrow> pyval \<Rightarrow> pystr result" where
  "check_value f v =
     (case v of
        VStr s \<Rightarrow>
          if field_max_length f < int (length s) then Inl (ScreenPopConfigError ''screen_pop_value_invalid'')
          else if field_type f = lit ''choice'' \<and> s \<notin> set (field_choices f) \<and>
                  \<not> (s = [] \<and> \<not> field_required f)
          then Inl (ScreenPopConfigError ''screen_pop_value_invalid'')
          else if list_ex (\<lambda>c. is_control c \<and> c \<noteq> 9) s
          then Inl (ScreenPopConfigError ''screen_pop_value_invalid'')
          else Inr s
      | _ \<Rightarrow> Inl (ScreenPopConfigError ''screen_pop_value_invalid''))"

fun check_values :: "pydict \<Rightarrow> strdict \<Rightarrow> screen_pop_field list \<Rightarrow> strdict result" where
  "check_values raw acc [] = Inr acc"
| "check_values raw acc (f # fs) =
     rbind (check_value f (case map_of raw (field_key f) of None \<Rightarrow> VStr [] | Some v \<Rightarrow> v)) (\<lambda>s.
     check_values raw (dict_set acc (field_key f) s) fs)"

definition validate_values :: "pyval \<Rightarrow> screen_pop_field list \<Rightarrow> strdict result" where
  "validate_values v fs =
     rbind (expect_dict (ScreenPopConfigError ''screen_pop_values_invalid'') v) (\<lambda>raw.
     if \<not> keys raw \<subseteq> set (map field_key fs) \<or>
        \<not> set (map field_key (filter field_required fs)) \<subseteq> keys raw
     then Inl (ScreenPopConfigError ''screen_pop_values_invalid'')
     else
     rbind (check_values raw [] fs) (\<lambda>vals.
     rbind (utf8_encode (json_dumps values_opts (VDict (strvals vals)))) (\<lambda>bs.
     if MAX_CONTEXT_BYTES < length bs
     then Inl (ScreenPopConfigError ''screen_pop_values_too_large'')
     else Inr vals)))"

section \<open>Renderings\<close>

definition vapi_property :: "screen_pop_field \<Rightarrow> pyval" where
  "vapi_property f = VDict (mk
     ([(''type'', VStr (lit ''string'')), (''description'', VStr (field_description f))]
      @ (if field_type f = lit ''choice''
         then [(''enum'', VList (map VStr (field_choices f)))]
         else [(''maxLength'', VInt (field_max_length f))])))"

definition vapi_parameters :: "screen_pop_field list \<Rightarrow> pyval" where
  "vapi_parameters fs = VDict (mk
     [(''type'', VStr (lit ''object'')),
      (''additionalProperties'', VBool False),
      (''required'', VList (map (\<lambda>f. VStr (field_key f)) (filter field_required fs))),
      (''properties'', VDict (dict_update [] (map (\<lambda>f. (field_key f, vapi_property f)) fs)))])"

definition row_key :: "string \<Rightarrow> nat \<Rightarrow> pystr" where
  "row_key name i = lit name @ dec_nat i"

definition connect_row :: "screen_pop_field list \<Rightarrow> strdict option \<Rightarrow> nat \<Rightarrow> strdict" where
  "connect_row fs vals i =
     (if i \<le> length fs then
        (let f = fs ! (i - 1) in
         [(row_key ''screen_pop_label_'' i, field_label f),
          (row_key ''screen_pop_value_'' i,
            (case vals of None \<Rightarrow> []
             | Some d \<Rightarrow> (case map_of d (field_key f) of None \<Rightarrow> [] | Some s \<Rightarrow> s))),
          (row_key ''screen_pop_key_'' i, field_key f)])
      else
        [(row_key ''screen_pop_label_'' i, []), (row_key ''screen_pop_value_'' i, []),
         (row_key ''screen_pop_key_'' i, [])])"

definition connect_rows :: "screen_pop_field list \<Rightarrow> strdict option \<Rightarrow> strdict" where
  "connect_rows fs vals = concat (map (connect_row fs vals) [1..<Suc MAX_FIELDS])"

section \<open>What a parsed configuration satisfies\<close>

definition plain :: "nat \<Rightarrow> pystr \<Rightarrow> bool" where
  "plain n s \<longleftrightarrow> s \<noteq> [] \<and> length s \<le> n \<and> \<not> list_ex is_control s \<and> 60 \<notin> set s \<and> 62 \<notin> set s"

definition wf_field :: "screen_pop_field \<Rightarrow> bool" where
  "wf_field f \<longleftrightarrow>
     key_pattern (field_key f) \<and> field_key f \<notin> set RESERVED_KEYS \<and>
     plain 64 (field_label f) \<and> plain 256 (field_description f) \<and>
     (field_type f = lit ''text'' \<and> field_choices f = [] \<and>
        1 \<le> field_max_length f \<and> field_max_length f \<le> 1024 \<or>
      field_type f = lit ''choice'' \<and> 2 \<le> length (field_choices f) \<and>
        length (field_choices f) \<le> 20 \<and> distinct (field_choices f) \<and>
        list_all (plain 128) (field_choices f) \<and>
        field_max_length f = int (Max (set (map length (field_choices f)))))"

definition wf_fields :: "pylib \<Rightarrow> screen_pop_field list \<Rightarrow> bool" where
  "wf_fields lib fs \<longleftrightarrow>
     1 \<le> length fs \<and> length fs \<le> MAX_FIELDS \<and> distinct (map field_key fs) \<and>
     distinct (map (\<lambda>f. py_casefold lib (field_label f)) fs) \<and> list_all wf_field fs"

lemma plain_text_iff: "plain_text v name n = Inr s \<longleftrightarrow> v = VStr s \<and> plain n s"
  by (auto simp: plain_text_def plain_def split: pyval.splits)

lemma parse_choices_iff:
  "parse_choices seen cs = Inr ss \<longleftrightarrow>
     cs = map VStr ss \<and> list_all (plain 128) ss \<and> distinct ss \<and> set ss \<inter> set seen = {}"
proof (induction seen cs arbitrary: ss rule: parse_choices.induct)
  case (1 seen)
  then show ?case by auto
next
  case (2 seen c cs)
  show ?case
  proof (cases ss)
    case Nil
    then show ?thesis by (auto simp: result_simps)
  next
    case (Cons s ts)
    show ?thesis
    proof (cases "s \<in> set seen")
      case True
      with Cons show ?thesis by (auto simp: result_simps)
    next
      case False
      have "parse_choices seen (c # cs) = Inr ss \<longleftrightarrow>
          plain_text c ''screen_pop_field_choice'' 128 = Inr s \<and>
          parse_choices (s # seen) cs = Inr ts"
        using Cons False by (auto simp: result_simps)
      also have "\<dots> \<longleftrightarrow> c = VStr s \<and> plain 128 s \<and> parse_choices (s # seen) cs = Inr ts"
        by (simp add: plain_text_iff)
      finally show ?thesis using Cons False "2.IH" [of s ts] by (auto simp: plain_text_iff)
    qed
  qed
qed

lemma Max_length_bound:
  assumes "list_all (plain 128) cs" "cs \<noteq> []"
  shows "1 \<le> Max (set (map length cs))" "Max (set (map length cs)) \<le> 128"
proof -
  have b: "1 \<le> length c \<and> length c \<le> 128" if "c \<in> set cs" for c
    using assms(1) that by (auto simp: list_all_iff plain_def Suc_le_eq)
  show "Max (set (map length cs)) \<le> 128" using assms(2) b by (simp add: Max_le_iff)
  obtain c where c: "c \<in> set cs" using assms(2) by (cases cs) auto
  then have "length c \<le> Max (set (map length cs))" by (intro Max_ge) auto
  with b [OF c] show "1 \<le> Max (set (map length cs))" by simp
qed

lemma wf_field_max_length: "wf_field f \<Longrightarrow> 1 \<le> field_max_length f \<and> field_max_length f \<le> 1024"
  using Max_length_bound [of "field_choices f"]
  by (cases "field_choices f = []") (auto simp: wf_field_def)

lemma parse_limits_text:
  "parse_limits item (VStr (lit ''text'')) = Inr bnd \<longleftrightarrow>
     get_key item ''max_length'' = VInt (fst bnd) \<and> snd bnd = [] \<and>
     1 \<le> fst bnd \<and> fst bnd \<le> 1024 \<and> \<not> has_key item ''choices''"
  by (cases bnd) (auto simp: parse_limits_def split: pyval.splits)

lemma parse_limits_choice:
  "parse_limits item (VStr (lit ''choice'')) = Inr bnd \<longleftrightarrow>
     (\<exists>cs. get_key item ''choices'' = VList (map VStr cs) \<and> snd bnd = cs \<and>
       fst bnd = int (Max (set (map length cs))) \<and> 2 \<le> length cs \<and> length cs \<le> 20 \<and>
       distinct cs \<and> list_all (plain 128) cs \<and> \<not> has_key item ''max_length'')"
  by (cases bnd; cases "get_key item ''choices''")
    (auto simp: parse_limits_def result_simps parse_choices_iff expect_list_def)

lemma parse_field_wf:
  "parse_field lib ks ls v = Inr f \<Longrightarrow>
     wf_field f \<and> field_key f \<notin> set ks \<and> py_casefold lib (field_label f) \<notin> set ls"
  unfolding parse_field_def Let_def
  by (auto simp: result_simps plain_text_iff wf_field_def parse_limits_text parse_limits_choice
      split: if_splits)

lemma parse_items_wf:
  "parse_items lib ks ls vs = Inr fs \<Longrightarrow>
     list_all wf_field fs \<and> length fs = length vs \<and>
     distinct (map field_key fs) \<and> set (map field_key fs) \<inter> set ks = {} \<and>
     distinct (map (\<lambda>f. py_casefold lib (field_label f)) fs) \<and>
     set (map (\<lambda>f. py_casefold lib (field_label f)) fs) \<inter> set ls = {}"
proof (induction lib ks ls vs arbitrary: fs rule: parse_items.induct)
  case (1 lib ks ls)
  then show ?case by simp
next
  case (2 lib ks ls v vs)
  from "2.prems" obtain f gs where f: "parse_field lib ks ls v = Inr f"
    and gs: "parse_items lib (field_key f # ks) (py_casefold lib (field_label f) # ls) vs = Inr gs"
    and "fs = f # gs" by (auto simp: result_simps)
  with parse_field_wf [OF f] "2.IH" [OF f gs] show ?case by auto
qed

lemma wf_fields_total:
  assumes "wf_fields lib fs"
  shows "sum_list (map field_max_length fs) \<le> MAX_TOTAL_VALUE_CHARACTERS"
proof -
  have "sum_list (map field_max_length fs) \<le> 1024 * int (length fs)" if "list_all wf_field fs" for fs
    using that wf_field_max_length by (induction fs) (fastforce simp: algebra_simps)+
  with assms show ?thesis
    by (fastforce simp: wf_fields_def MAX_FIELDS_def MAX_TOTAL_VALUE_CHARACTERS_def)
qed

lemma parse_items_wf_fields:
  assumes "parse_items lib [] [] items = Inr fs" "1 \<le> length items" "length items \<le> MAX_FIELDS"
  shows "wf_fields lib fs"
  using parse_items_wf [OF assms(1)] assms by (simp add: wf_fields_def)

section \<open>Reading back a printed configuration\<close>

definition text_only :: "screen_pop_field list \<Rightarrow> bool" where
  "text_only fs \<longleftrightarrow> list_all (\<lambda>f. field_type f = lit ''text'') fs"

definition valid_points :: "screen_pop_field list \<Rightarrow> bool" where
  "valid_points fs \<longleftrightarrow> list_all (\<lambda>f. list_all (\<lambda>s. list_all (\<lambda>c. c < 1114112) s)
     (field_key f # field_label f # field_description f # field_choices f)) fs"

lemma good_fields_opts: "good_opts fields_opts" "\<not> sort_keys fields_opts" "\<not> ensure_ascii fields_opts"
proof -
  have "44 # [] = 44 # replicate 0 (32::nat)" "58 # [] = 58 # replicate 0 (32::nat)" by simp_all
  then show "good_opts fields_opts" unfolding good_opts_def fields_opts_def compact_def
    by (auto intro: exI [of _ 0])
qed (simp_all add: fields_opts_def compact_def)

lemma char_ok_False [simp]: "char_ok False c \<longleftrightarrow> c < 1114112"
  by (simp add: char_ok_def)

lemma lit_points [simp]: "list_all (char_ok False) (lit s)"
  using lit_bound by (fastforce simp: list_all_iff)

lemma field_value_ok:
  assumes "wf_field f" "valid_points [f]"
  shows "json_ok False (field_value f)"
proof -
  have "nat \<bar>field_max_length f\<bar> \<le> 1024"
    using wf_field_max_length [OF assms(1)] by (auto simp: nat_le_iff)
  then have "length (dec_nat (nat \<bar>field_max_length f\<bar>)) \<le> 4300"
    using length_dec_nat [of "nat \<bar>field_max_length f\<bar>"] by linarith
  with assms lit_points show ?thesis
    by (auto simp: field_value_def valid_points_def mk_def list_all_iff wf_field_def)
qed

lemma fields_json_reads_back:
  assumes "list_all wf_field fs" "valid_points fs"
  shows "json_loads (fields_json fs) = Inr (VList (map field_value fs))"
proof -
  have "json_ok False (VList (map field_value fs))"
    using assms field_value_ok by (auto simp: list_all_iff valid_points_def)
  then show ?thesis
    unfolding json_loads_def fields_json_def
    using good_fields_opts by (intro json_loads_dumps any_hook_default) auto
qed

lemma parse_field_value_text:
  assumes "wf_field f" "field_type f = lit ''text''"
    "field_key f \<notin> set ks" "py_casefold lib (field_label f) \<notin> set ls"
  shows "parse_field lib ks ls (field_value f) = Inr f"
proof -
  have "parse_limits (mk [(''key'', VStr (field_key f)), (''label'', VStr (field_label f)),
      (''description'', VStr (field_description f)), (''type'', VStr (field_type f)),
      (''max_length'', VInt (field_max_length f)), (''required'', VBool (field_required f))])
    (VStr (lit ''text'')) = Inr (field_max_length f, [])"
    using assms wf_field_max_length [of f] by (simp add: parse_limits_text)
  with assms show ?thesis
    by (auto simp: parse_field_def field_value_def Let_def wf_field_def ITEM_KEYS_def
        plain_text_def plain_def)
qed

lemma parse_items_text:
  assumes "list_all wf_field fs" "text_only fs"
    "distinct (map field_key fs)" "set (map field_key fs) \<inter> set ks = {}"
    "distinct (map (\<lambda>f. py_casefold lib (field_label f)) fs)"
    "set (map (\<lambda>f. py_casefold lib (field_label f)) fs) \<inter> set ls = {}"
  shows "parse_items lib ks ls (map field_value fs) = Inr fs"
  using assms
proof (induction fs arbitrary: ks ls)
  case Nil
  then show ?case by simp
next
  case (Cons f fs)
  then show ?case by (simp add: text_only_def parse_field_value_text)
qed

lemma parse_limits_choice_value:
  "field_type f = lit ''choice'' \<Longrightarrow> length (field_choices f) \<ge> 2 \<Longrightarrow>
     parse_field lib ks ls (field_value f) \<noteq> Inr g"
  by (auto simp: parse_field_def field_value_def Let_def parse_limits_choice result_simps)

section \<open>Values\<close>

definition value_ok :: "screen_pop_field \<Rightarrow> pystr \<Rightarrow> bool" where
  "value_ok f s \<longleftrightarrow> int (length s) \<le> field_max_length f \<and>
     (field_type f = lit ''choice'' \<longrightarrow> s \<in> set (field_choices f) \<or> s = [] \<and> \<not> field_required f) \<and>
     list_all (\<lambda>c. 32 \<le> c \<or> c = 9) s"

definition raw_value :: "pydict \<Rightarrow> screen_pop_field \<Rightarrow> pyval" where
  "raw_value raw f = (case map_of raw (field_key f) of None \<Rightarrow> VStr [] | Some v \<Rightarrow> v)"

lemma no_control_iff: "\<not> list_ex (\<lambda>c. is_control c \<and> c \<noteq> 9) s \<longleftrightarrow> list_all (\<lambda>c. 32 \<le> c \<or> c = 9) s"
  by (induction s) (auto simp: is_control_def)

lemma check_value_iff: "check_value f v = Inr s \<longleftrightarrow> v = VStr s \<and> value_ok f s"
  by (cases v) (auto simp: check_value_def value_ok_def result_simps no_control_iff not_less)

text \<open>The loop builds the dictionary field by field, in the order of the configuration.\<close>

lemma check_values_iff:
  assumes "distinct (map field_key fs)" "set (map field_key fs) \<inter> set (map fst acc) = {}"
  shows "check_values raw acc fs = Inr vals \<longleftrightarrow>
    (\<exists>ss. vals = acc @ zip (map field_key fs) ss \<and> length ss = length fs \<and>
       list_all2 (\<lambda>f s. raw_value raw f = VStr s \<and> value_ok f s) fs ss)"
  using assms
proof (induction raw acc fs rule: check_values.induct)
  case (1 raw acc)
  then show ?case by auto
next
  case (2 raw acc f fs)
  show ?case
  proof (cases "check_value f (raw_value raw f)")
    case (Inl e)
    then show ?thesis by (auto simp: list_all2_Cons1 raw_value_def [symmetric] check_value_iff
          dest: check_value_iff [THEN iffD2, OF conjI])
  next
    case (Inr s)
    then have s: "raw_value raw f = VStr s" "value_ok f s" by (simp_all add: check_value_iff)
    have "check_values raw acc (f # fs) = check_values raw (acc @ [(field_key f, s)]) fs"
      using Inr "2.prems" by (simp add: raw_value_def dict_set_fresh)
    also have "\<dots> = Inr vals \<longleftrightarrow> (\<exists>ss. vals = (acc @ [(field_key f, s)]) @ zip (map field_key fs) ss \<and>
        length ss = length fs \<and> list_all2 (\<lambda>f s. raw_value raw f = VStr s \<and> value_ok f s) fs ss)"
      using "2.IH" [of s] Inr "2.prems" by (auto simp: raw_value_def dict_set_fresh)
    also have "\<dots> \<longleftrightarrow> (\<exists>ss. vals = acc @ zip (map field_key (f # fs)) ss \<and>
        length ss = length (f # fs) \<and>
        list_all2 (\<lambda>f s. raw_value raw f = VStr s \<and> value_ok f s) (f # fs) ss)"
      using s by (auto simp: list_all2_Cons1 length_Suc_conv intro: exI [of _ "s # _"])
    finally show ?thesis .
  qed
qed

definition context_bytes :: "strdict \<Rightarrow> byte list result" where
  "context_bytes vals = utf8_encode (json_dumps values_opts (VDict (strvals vals)))"

lemma validate_values_iff:
  assumes "distinct (map field_key fs)"
  shows "validate_values v fs = Inr vals \<longleftrightarrow>
    (\<exists>raw ss bs. v = VDict raw \<and> keys raw \<subseteq> set (map field_key fs) \<and>
       set (map field_key (filter field_required fs)) \<subseteq> keys raw \<and>
       vals = zip (map field_key fs) ss \<and> length ss = length fs \<and>
       list_all2 (\<lambda>f s. raw_value raw f = VStr s \<and> value_ok f s) fs ss \<and>
       context_bytes vals = Inr bs \<and> length bs \<le> MAX_CONTEXT_BYTES)"
  using check_values_iff [OF assms, of "[]"]
  by (auto simp: validate_values_def result_simps context_bytes_def not_less)

lemma map_of_strvals: "map_of (strvals d) k = map_option VStr (map_of d k)"
  by (induction d) (auto simp: strvals_def)

lemma keys_strvals [simp]: "keys (strvals d) = keys d"
  by (simp add: strvals_def keys_def image_image)

lemma keys_dom: "keys d = dom (map_of d)"
  by (simp add: keys_def dom_map_of_conv_image_fst)

text \<open>Validation reads its argument only through lookup.\<close>

lemma validate_values_cong:
  assumes "map_of raw = map_of raw'"
  shows "validate_values (VDict raw) fs = validate_values (VDict raw') fs"
proof -
  have "check_values raw acc gs = check_values raw' acc gs" for acc gs
    using assms by (induction gs arbitrary: acc) auto
  then show ?thesis using assms by (simp add: validate_values_def keys_dom)
qed

lemma validated_lookup:
  assumes "distinct (map field_key fs)" "validate_values v fs = Inr vals"
  shows "map fst vals = map field_key fs"
    and "f \<in> set fs \<Longrightarrow> \<exists>s. map_of vals (field_key f) = Some s \<and> value_ok f s"
proof -
  from assms obtain raw ss where z: "vals = zip (map field_key fs) ss" "length ss = length fs"
    and all: "list_all2 (\<lambda>f s. raw_value raw f = VStr s \<and> value_ok f s) fs ss"
    by (auto simp: validate_values_iff)
  from z show "map fst vals = map field_key fs" by simp
  show "\<exists>s. map_of vals (field_key f) = Some s \<and> value_ok f s" if "f \<in> set fs"
  proof -
    from that obtain i where i: "i < length fs" "f = fs ! i" by (auto simp: in_set_conv_nth)
    with assms(1) z have "map_of vals (field_key f) = Some (ss ! i)"
      using map_of_zip_nth [of "map field_key fs" ss i] by simp
    with all i show ?thesis by (auto simp: list_all2_conv_all_nth)
  qed
qed

lemma validate_values_again:
  assumes d: "distinct (map field_key fs)" and v: "validate_values v fs = Inr vals"
  shows "validate_values (VDict (strvals vals)) fs = Inr vals"
proof -
  from assms obtain raw ss bs where z: "vals = zip (map field_key fs) ss" "length ss = length fs"
    and all: "list_all2 (\<lambda>f s. raw_value raw f = VStr s \<and> value_ok f s) fs ss"
    and bs: "context_bytes vals = Inr bs" "length bs \<le> MAX_CONTEXT_BYTES"
    by (auto simp: validate_values_iff)
  have "list_all2 (\<lambda>f s. raw_value (strvals vals) f = VStr s \<and> value_ok f s) fs ss"
    unfolding list_all2_conv_all_nth
  proof (intro conjI allI impI)
    fix i assume i: "i < length fs"
    with d z have "map_of vals (field_key (fs ! i)) = Some (ss ! i)"
      using map_of_zip_nth [of "map field_key fs" ss i] by simp
    then show "raw_value (strvals vals) (fs ! i) = VStr (ss ! i)"
      by (simp add: raw_value_def map_of_strvals)
    from all i show "value_ok (fs ! i) (ss ! i)" by (auto simp: list_all2_conv_all_nth)
  qed (use z in simp)
  moreover have "keys vals = set (map field_key fs)" using z by (simp add: keys_def)
  ultimately show ?thesis
    using z bs by (auto simp: validate_values_iff [OF d])
qed

lemma connect_row_keys:
  "map fst (connect_row fs vals i) =
     [row_key ''screen_pop_label_'' i, row_key ''screen_pop_value_'' i, row_key ''screen_pop_key_'' i]"
  by (simp add: connect_row_def Let_def)

lemma connect_rows_keys:
  "map fst (connect_rows fs vals) =
     concat (map (\<lambda>i. [row_key ''screen_pop_label_'' i, row_key ''screen_pop_value_'' i,
       row_key ''screen_pop_key_'' i]) [1..<9])"
  by (simp add: connect_rows_def MAX_FIELDS_def map_concat connect_row_keys comp_def)

lemma lit_snoc_eq_iff [simp]: "lit a @ [c] = lit b @ [d] \<longleftrightarrow> a = b \<and> c = d"
  by simp

lemma connect_rows_distinct: "distinct (map fst (connect_rows fs vals))"
  unfolding connect_rows_keys by (simp add: upt_rec row_key_def)

lemma connect_rows_value:
  assumes "i < length fs" "length fs \<le> MAX_FIELDS"
  shows "map_of (connect_rows fs (Some d)) (row_key ''screen_pop_value_'' (Suc i)) =
     Some (case map_of d (field_key (fs ! i)) of None \<Rightarrow> [] | Some s \<Rightarrow> s)"
proof -
  have "(row_key ''screen_pop_value_'' (Suc i),
      case map_of d (field_key (fs ! i)) of None \<Rightarrow> [] | Some s \<Rightarrow> s)
      \<in> set (connect_row fs (Some d) (Suc i))"
    using assms by (simp add: connect_row_def Let_def)
  moreover have "Suc i \<in> set [1..<Suc MAX_FIELDS]" using assms by (simp del: upt_Suc)
  then have "set (connect_row fs (Some d) (Suc i)) \<subseteq> set (connect_rows fs (Some d))"
    unfolding connect_rows_def by (auto simp del: upt_Suc intro!: bexI [of _ "Suc i"])
  ultimately show ?thesis
    using connect_rows_distinct by (blast intro: map_of_is_SomeI)
qed

section \<open>Instances\<close>

definition demo_fields :: "screen_pop_field list" where
  "demo_fields = [text_field ''intent'' ''Intent'' ''Routing intent.'' 128]"

definition demo_choice_fields :: "screen_pop_field list" where
  "demo_choice_fields =
     [\<lparr>field_key = lit ''team'', field_label = lit ''Team'', field_description = lit ''Team to route to.'',
       field_type = lit ''choice'', field_max_length = 7, field_required = True,
       field_choices = [lit ''sales'', lit ''support'']\<rparr>]"

definition demo_values :: strdict where
  "demo_values = [(lit ''intent'', lit ''billing'')]"

lemmas field_eval = wf_fields_def wf_field_def plain_def key_pattern_def RESERVED_KEYS_def
  MAX_FIELDS_def demo_fields_def demo_choice_fields_def text_field_def text_only_def
  valid_points_def demo_values_def

lemma wf_demo_fields: "wf_fields ascii_pylib demo_fields"
  by (simp add: field_eval eval_simps)

lemma wf_demo_choice_fields: "wf_fields ascii_pylib demo_choice_fields"
  by (simp add: field_eval eval_simps)

lemma demo_choice_valid: "valid_points demo_choice_fields" "\<not> text_only demo_choice_fields"
  by (simp_all add: field_eval eval_simps)

lemma demo_text_only: "text_only demo_fields" "valid_points demo_fields"
  by (simp_all add: field_eval eval_simps)

lemma demo_fields_bytes: "\<exists>bs. utf8_encode (fields_json demo_fields) = Inr bs \<and> length bs \<le> MAX_CONFIG_BYTES"
  by (simp add: field_eval eval_simps fields_json_def field_value_def fields_opts_def
      MAX_CONFIG_BYTES_def dec_nat.simps)

lemma demo_parses: "parse_fields ascii_pylib (VList (map field_value demo_fields)) = Inr demo_fields"
proof -
  have "parse_items ascii_pylib [] [] (map field_value demo_fields) = Inr demo_fields"
    using wf_demo_fields by (intro parse_items_text) (auto simp: demo_text_only wf_fields_def)
  then show ?thesis using wf_fields_total [OF wf_demo_fields]
    by (simp add: parse_fields_def decode_fields_def field_eval)
qed

lemma demo_validates: "validate_values (VDict (strvals demo_values)) demo_fields = Inr demo_values"
  by (simp add: field_eval eval_simps validate_values_def strvals_def check_value_def
      values_opts_def MAX_CONTEXT_BYTES_def)

section \<open>Properties\<close>

text \<open>
  C1.  Every configuration \<open>parse_fields\<close> accepts is well-formed: one to eight fields with
  distinct, unreserved keys matching the key pattern, labels distinct up to case folding, bounded
  plain-text labels and descriptions, lengths from 1 to 1024, and choice lists of 2 to 20
  distinct plain choices whose longest member is the field's length limit.
\<close>

theorem parse_fields_well_formed:
  assumes "parse_fields lib v = Inr fs"
  shows "wf_fields lib fs"
  using assms parse_items_wf_fields
  by (auto simp: parse_fields_def result_simps split: if_splits)

theorem parse_fields_well_formed_witness:
  "wf_fields ascii_pylib demo_fields"
  using parse_fields_well_formed [OF demo_parses] .

text \<open>
  The configuration error \<open>screen_pop_fields_too_large\<close> can never be raised: eight fields
  of at most 1024 characters reach the limit of 8192 and do not pass it.
\<close>

theorem parse_fields_never_too_large:
  "parse_fields lib v \<noteq> Inl (ScreenPopConfigError ''screen_pop_fields_too_large'')"
proof
  assume a: "parse_fields lib v = Inl (ScreenPopConfigError ''screen_pop_fields_too_large'')"
  have plain: "plain_text x n k \<noteq> Inl (ScreenPopConfigError ''screen_pop_fields_too_large'')"
    if "n \<in> {''screen_pop_field_label'', ''screen_pop_field_description'', ''screen_pop_field_choice''}"
    for x n k using that by (auto simp: plain_text_def split: pyval.splits)
  have choices: "parse_choices ls cs \<noteq> Inl (ScreenPopConfigError ''screen_pop_fields_too_large'')" for ls cs
    by (induction ls cs rule: parse_choices.induct) (auto simp: result_simps plain)
  have "parse_field lib ks ls x \<noteq> Inl (ScreenPopConfigError ''screen_pop_fields_too_large'')" for ks ls x
    by (auto simp: parse_field_def parse_limits_def result_simps plain choices Let_def
        split: pyval.splits)
  then have items: "parse_items lib ks ls xs \<noteq> Inl (ScreenPopConfigError ''screen_pop_fields_too_large'')"
    for ks ls xs by (induction lib ks ls xs rule: parse_items.induct) (auto simp: result_simps)
  have "decode_fields v \<noteq> Inl (ScreenPopConfigError ''screen_pop_fields_too_large'')"
    by (auto simp: decode_fields_def result_simps utf8_encode_def
        split: pyval.splits sum.splits if_splits dest!: json_loads_error)
  with a items obtain xs fs where "parse_items lib [] [] xs = Inr fs"
    and "1 \<le> length xs" "length xs \<le> MAX_FIELDS"
    and "MAX_TOTAL_VALUE_CHARACTERS < sum_list (map field_max_length fs)"
    by (auto simp: parse_fields_def result_simps split: if_splits)
  with wf_fields_total [OF parse_items_wf_fields] show False by fastforce
qed




text \<open>
  C3.  The same is false for a configuration with a choice field: \<open>fields_json\<close> prints both
  \<open>max_length\<close> and \<open>choices\<close>, a combination \<open>parse_fields\<close> rejects, so the printed form of a
  configuration with choices never parses.
\<close>

theorem fields_json_choice_never_parses:
  assumes "wf_fields lib fs" "valid_points fs" "\<not> text_only fs"
  shows "parse_fields lib (VStr (fields_json fs)) \<noteq> Inr gs"
proof
  assume p: "parse_fields lib (VStr (fields_json fs)) = Inr gs"
  have wf: "list_all wf_field fs" using assms(1) by (simp add: wf_fields_def)
  from p fields_json_reads_back [OF wf assms(2)]
  have "parse_items lib [] [] (map field_value fs) = Inr gs"
    by (auto simp: parse_fields_def decode_fields_def result_simps split: if_splits)
  moreover have "parse_items lib ks ls (map field_value hs) \<noteq> Inr gs"
    if "list_all wf_field hs" "\<not> text_only hs" for hs ks ls gs
    using that
  proof (induction hs arbitrary: ks ls gs)
    case Nil
    then show ?case by (simp add: text_only_def)
  next
    case (Cons h hs)
    then show ?case using parse_limits_choice_value [of h lib ks ls]
      by (auto simp: result_simps text_only_def wf_field_def)
  qed
  ultimately show False using wf assms(3) by blast
qed

theorem fields_json_choice_never_parses_witness:
  "parse_fields ascii_pylib (VStr (fields_json demo_choice_fields)) \<noteq> Inr demo_choice_fields"
  using fields_json_choice_never_parses [OF wf_demo_choice_fields demo_choice_valid] .

text \<open>
  C4.  Validated values are exactly one string per configured field, in configuration order; each
  is within its field's length, is one of the choices of a choice field (or empty, if the field is
  optional), and holds no control character but tab; and the whole serialises to at most 8192
  bytes.  Input keys outside the configuration are refused and required ones must be present.
\<close>

theorem validate_values_sound:
  assumes "wf_fields lib fs" and "validate_values v fs = Inr vals"
  shows "map fst vals = map field_key fs \<and>
    (\<forall>f\<in>set fs. \<exists>s. map_of vals (field_key f) = Some s \<and> value_ok f s) \<and>
    (\<exists>bs. context_bytes vals = Inr bs \<and> length bs \<le> MAX_CONTEXT_BYTES) \<and>
    (\<exists>raw. v = VDict raw \<and> keys raw \<subseteq> set (map field_key fs) \<and>
       set (map field_key (filter field_required fs)) \<subseteq> keys raw)"
proof -
  have d: "distinct (map field_key fs)" using assms(1) by (simp add: wf_fields_def)
  show ?thesis
    using validated_lookup [OF d assms(2)] assms(2) unfolding validate_values_iff [OF d] by auto
qed

theorem validate_values_sound_witness:
  "map fst demo_values = map field_key demo_fields"
  using validate_values_sound [OF wf_demo_fields demo_validates] by blast

text \<open>
  Validation is idempotent, and reads its argument only through lookup: values that passed it
  once pass again with the same result, in whatever order a store returns their keys.
\<close>

theorem validate_values_stable:
  assumes "wf_fields lib fs" and "validate_values v fs = Inr vals"
    and "map_of stored = map_of (strvals vals)"
  shows "validate_values (VDict stored) fs = Inr vals"
  using assms validate_values_again [of fs v vals] validate_values_cong [of stored "strvals vals" fs]
  by (simp add: wf_fields_def)

theorem validate_values_stable_witness:
  "validate_values (VDict (strvals demo_values)) demo_fields = Inr demo_values"
  using validate_values_stable [OF wf_demo_fields demo_validates refl] .

text \<open>
  The rows for Amazon Connect always have the same twenty-four distinct keys, whatever the
  configuration and the values, and row \<open>i + 1\<close> carries the value of the \<open>i\<close>-th field.
\<close>

theorem connect_rows_shape:
  assumes "length fs \<le> MAX_FIELDS"
  shows "map fst (connect_rows fs vals) = map fst (connect_rows gs wals) \<and>
    distinct (map fst (connect_rows fs vals)) \<and> length (connect_rows fs vals) = 24 \<and>
    (\<forall>i<length fs. map_of (connect_rows fs (Some d)) (row_key ''screen_pop_value_'' (Suc i)) =
        Some (case map_of d (field_key (fs ! i)) of None \<Rightarrow> [] | Some s \<Rightarrow> s))"
proof (intro conjI allI impI)
  show "map fst (connect_rows fs vals) = map fst (connect_rows gs wals)"
    by (simp only: connect_rows_keys)
  show "distinct (map fst (connect_rows fs vals))" by (rule connect_rows_distinct)
  have "length (map fst (connect_rows fs vals)) = 24"
    unfolding connect_rows_keys by (simp add: upt_rec)
  then show "length (connect_rows fs vals) = 24" by simp
qed (use assms in \<open>simp add: connect_rows_value\<close>)

theorem connect_rows_shape_witness:
  "map_of (connect_rows demo_fields (Some demo_values)) (row_key ''screen_pop_value_'' (Suc 0)) =
     Some (lit ''billing'')"
  using connect_rows_shape [of demo_fields None demo_fields None demo_values]
  by (simp add: field_eval)

end
