(* ===== verification/Url.thy ===== *)
theory Url imports Text begin

text \<open>
  \<open>urllib.parse.urlsplit\<close> and the attributes of its result that the program inspects:
  \<open>scheme\<close>, \<open>path\<close>, \<open>query\<close>, \<open>fragment\<close>, \<open>username\<close>, \<open>password\<close>, \<open>hostname\<close>, \<open>port\<close>.
  \<open>None\<close> stands for the \<open>ValueError\<close> of a malformed network location.  The two checks that need
  Unicode normalisation and IPv6 parsing take their answer from \<open>pylib\<close>.
\<close>

record url =
  scheme :: pystr
  netloc :: pystr
  path :: pystr
  query :: pystr
  fragment :: pystr

definition scheme_char :: "nat \<Rightarrow> bool" where
  "scheme_char c \<longleftrightarrow> is_ascii_alnum c \<or> c = 43 \<or> c = 45 \<or> c = 46"

text \<open>Leading control characters and spaces are removed; tab, CR and LF are removed everywhere.\<close>

definition clean_url :: "pystr \<Rightarrow> pystr" where
  "clean_url s = filter (\<lambda>c. c \<noteq> 9 \<and> c \<noteq> 10 \<and> c \<noteq> 13) (lstrip_if (\<lambda>c. c \<le> 32) s)"

definition split_scheme :: "pystr \<Rightarrow> pystr \<times> pystr" where
  "split_scheme s =
     (let p = before 58 s in
      if p \<noteq> s \<and> p \<noteq> [] \<and> (is_upper (hd p) \<or> is_lower (hd p)) \<and> list_all scheme_char p
      then (map ascii_lower p, after 58 s) else ([], s))"

definition split_netloc :: "pystr \<Rightarrow> pystr \<times> pystr" where
  "split_netloc s =
     (if take 2 s = [47, 47]
      then (takeWhile (\<lambda>c. c \<notin> {47, 63, 35}) (drop 2 s), dropWhile (\<lambda>c. c \<notin> {47, 63, 35}) (drop 2 s))
      else ([], s))"

text \<open>Brackets must pair up and enclose an IP literal; NFKC must not produce a delimiter.\<close>

definition netloc_ok :: "pylib \<Rightarrow> pystr \<Rightarrow> bool" where
  "netloc_ok lib n \<longleftrightarrow>
     ((91 \<in> set n) = (93 \<in> set n)) \<and>
     (91 \<in> set n \<longrightarrow> ipv6_valid lib n) \<and>
     (is_ascii n \<or>
       (let m = filter (\<lambda>c. c \<notin> {64, 58, 35, 63}) n; k = uni_nfkc lib m
        in m = k \<or> set k \<inter> {47, 63, 35, 64, 58} = {}))"

definition urlsplit :: "pylib \<Rightarrow> pystr \<Rightarrow> url option" where
  "urlsplit lib s =
     (let (sch, r1) = split_scheme (clean_url s);
          (net, r2) = split_netloc r1;
          frag = (if 35 \<in> set r2 then after 35 r2 else []);
          r3 = before 35 r2;
          qry = (if 63 \<in> set r3 then after 63 r3 else []);
          r4 = before 63 r3
      in if netloc_ok lib net
         then Some \<lparr>scheme = sch, netloc = net, path = r4, query = qry, fragment = frag\<rparr>
         else None)"

text \<open>User information is what precedes the last \<open>@\<close> of the network location.\<close>

definition host_part :: "pystr \<Rightarrow> pystr" where
  "host_part n = rev (before 64 (rev n))"

definition userinfo :: "pystr \<Rightarrow> pystr option" where
  "userinfo n = (if 64 \<in> set n then Some (rev (after 64 (rev n))) else None)"

definition username :: "url \<Rightarrow> pystr option" where
  "username u = map_option (before 58) (userinfo (netloc u))"

definition password :: "url \<Rightarrow> pystr option" where
  "password u =
     (case userinfo (netloc u) of
        None \<Rightarrow> None | Some i \<Rightarrow> if 58 \<in> set i then Some (after 58 i) else None)"

definition split_port :: "pystr \<Rightarrow> pystr \<times> pystr option" where
  "split_port h =
     (if 91 \<in> set h then
        (let b = after 91 h; rest = after 93 b
         in (before 93 b, if 58 \<in> set rest then Some (after 58 rest) else None))
      else (before 58 h, if 58 \<in> set h then Some (after 58 h) else None))"

text \<open>
  \<open>parsed.hostname or ""\<close>: the host in lower case, without brackets and port.  A zone
  identifier after a percent sign keeps its case.
\<close>

definition hostname :: "pylib \<Rightarrow> url \<Rightarrow> pystr" where
  "hostname lib u =
     (let h = fst (split_port (host_part (netloc u)))
      in py_lower lib (before 37 h) @ dropWhile (\<lambda>c. c \<noteq> 37) h)"

text \<open>\<open>parsed.port\<close>: \<open>Inl\<close> is the \<open>ValueError\<close> of a port that is not a number up to 65535.\<close>

definition port :: "pylib \<Rightarrow> url \<Rightarrow> nat option result" where
  "port lib u =
     (case snd (split_port (host_part (netloc u))) of
        None \<Rightarrow> Inr None
      | Some p \<Rightarrow>
          if p = [] then Inr None
          else if list_all is_digit p \<and> digits_val p \<le> 65535 then Inr (Some (digits_val p))
          else Inl (PyError ''ValueError''))"

definition no_userinfo :: "url \<Rightarrow> bool" where
  "no_userinfo u \<longleftrightarrow> (username u = None \<or> username u = Some []) \<and>
     (password u = None \<or> password u = Some [])"

lemma urlsplit_Some_netloc:
  "urlsplit lib s = Some u \<Longrightarrow> list_all (\<lambda>c. c \<notin> {47, 63, 35}) (netloc u)"
  by (auto simp: urlsplit_def Let_def split_netloc_def list_all_iff
      split: prod.splits if_splits dest: set_takeWhileD)

lemma urlsplit_path_no_query:
  "urlsplit lib s = Some u \<Longrightarrow> 63 \<notin> set (path u) \<and> 35 \<notin> set (path u)"
  by (auto simp: urlsplit_def Let_def before_def split: prod.splits if_splits dest!: set_takeWhileD)

end
