(* ===== verification/Handoff.thy ===== *)
theory Handoff imports ScreenPop Url begin

text \<open>
  The parts of \<open>lambda/common/bridgefu_handoff.py\<close> that call no service: validation of Vapi
  events and tool arguments, the identity binding, correlation identifiers, the qualification
  token, HTTP requests and responses.
\<close>

section \<open>Constants and identifiers\<close>

definition CORRELATION_VERSION :: string where "CORRELATION_VERSION = ''bf1''"
definition CORRELATION_HEADER :: string where "CORRELATION_HEADER = ''X-Correlation-Id''"

definition PREPARE_TOOL_NAMES :: "pystr list" where
  "PREPARE_TOOL_NAMES = map lit
     [''prepare_handoff'', ''prepare_bridgefu_amazon_connect_transfer'',
      ''bridgefu_transfer_to_amazon_connect'']"

definition DIRECT_BROWSER_TOOL_NAME :: pystr where
  "DIRECT_BROWSER_TOOL_NAME = lit ''bridgefu_direct_handoff''"

definition DIRECT_HANDOFF_ISSUER :: string where
  "DIRECT_HANDOFF_ISSUER = ''bridgefu-vapi-awsconnect-qualification''"

definition DIRECT_HANDOFF_AUDIENCE :: string where
  "DIRECT_HANDOFF_AUDIENCE = ''bridgefu-direct-handoff''"

definition DISPLAY_FIELDS :: "string list" where
  "DISPLAY_FIELDS = [''customer_name'', ''issue_summary'', ''intent'', ''verification_status'']"

definition RETURN_FIELDS :: "string list" where
  "RETURN_FIELDS = DISPLAY_FIELDS @ [''vapi_call_reference'']"

definition FIELD_LIMITS :: "string \<Rightarrow> nat option" where
  "FIELD_LIMITS = map_of
     [(''customer_name'', 256), (''issue_summary'', 1024), (''intent'', 128),
      (''verification_status'', 128)]"

definition MAX_BODY_BYTES :: nat where "MAX_BODY_BYTES = 256 * 1024"

definition is_identifier :: "pystr \<Rightarrow> bool" where
  "is_identifier s \<longleftrightarrow> class_match id_char 1 128 s"

definition is_correlation :: "pystr \<Rightarrow> bool" where
  "is_correlation s \<longleftrightarrow> starts_with s (lit ''bf1_'') \<and> class_match id_char 43 43 (drop 4 s)"

definition bounded_identifier :: "pyval \<Rightarrow> string \<Rightarrow> pystr result" where
  "bounded_identifier v name =
     rbind (expect_str (HandoffError (''invalid_'' @ name) 400) v) (\<lambda>s.
     if is_identifier s then Inr s else Inl (HandoffError (''invalid_'' @ name) 400))"

definition bounded_display :: "pyval \<Rightarrow> string \<Rightarrow> pystr result" where
  "bounded_display v name =
     rbind (expect_str (HandoffError (''invalid_'' @ name) 400) v) (\<lambda>s.
     rbind (utf8_encode s) (\<lambda>bs.
     (case FIELD_LIMITS name of
        None \<Rightarrow> Inl (PyError ''KeyError'')
      | Some n \<Rightarrow>
          if n < length bs \<or> list_ex (\<lambda>c. is_control c \<and> c \<noteq> 9) s
          then Inl (HandoffError (''invalid_'' @ name) 400)
          else Inr s)))"

section \<open>Events and identities\<close>

record vapi_identity =
  org_id :: pystr
  vapi_call :: pystr

definition event_message :: "pydict \<Rightarrow> string \<Rightarrow> pydict result" where
  "event_message event ty =
     rbind (expect_dict (HandoffError ''invalid_vapi_event'' 400) (get_key event ''message'')) (\<lambda>m.
     if py_eq (get_key m ''type'') (VStr (lit ty)) then Inr m
     else Inl (HandoffError ''invalid_vapi_event'' 400))"

definition vapi_identity_of :: "pydict \<Rightarrow> vapi_identity result" where
  "vapi_identity_of m =
     rbind (expect_dict (HandoffError ''invalid_vapi_call'' 400) (get_key m ''call'')) (\<lambda>c.
     rbind (bounded_identifier (get_key c ''orgId'') ''vapi_org_id'') (\<lambda>org.
     rbind (bounded_identifier (get_key c ''id'') ''vapi_call_id'') (\<lambda>cid.
     Inr \<lparr>org_id = org, vapi_call = cid\<rparr>)))"

definition verify_vapi_binding :: "pydict \<Rightarrow> pyval \<Rightarrow> unit result" where
  "verify_vapi_binding event binding =
     (let invalid = HandoffError ''vapi_identity_binding_invalid'' 500 in
      if py_eq binding (VDict (mk [(''status'', VStr (lit ''unbound''))])) then Inl invalid
      else rbind (expect_dict invalid binding) (\<lambda>b.
      if keys b \<noteq> set (map lit [''status'', ''organization_id'', ''assistant_id'']) \<or>
         \<not> py_eq (get_key b ''status'') (VStr (lit ''bound''))
      then Inl invalid
      else
      rbind (bounded_identifier (get_key b ''organization_id'') ''vapi_org_id'') (\<lambda>org.
      rbind (bounded_identifier (get_key b ''assistant_id'') ''vapi_assistant_id'') (\<lambda>asst.
      let m = get_key event ''message'';
          call = safe_get m ''call'';
          assistant = safe_get m ''assistant'';
          direct = safe_get call ''assistantId'';
          actual = (if direct = VNone \<and> is_dict assistant then safe_get assistant ''id'' else direct)
      in if \<not> py_eq (safe_get call ''orgId'') (VStr org) \<or> \<not> py_eq actual (VStr asst)
         then Inl (HandoffError ''vapi_identity_mismatch'' 403)
         else Inr ()))))"

section \<open>Derived identifiers\<close>

text \<open>The material both digests are computed over, for a given prefix.\<close>

definition identity_material :: "string \<Rightarrow> pystr \<Rightarrow> vapi_identity \<Rightarrow> pystr" where
  "identity_material tag dep i =
     lit tag @ lit ''|'' @ dep @ lit ''|'' @ org_id i @ lit ''|'' @ vapi_call i"

definition derive_correlation_id :: "byte list \<Rightarrow> pystr \<Rightarrow> vapi_identity \<Rightarrow> pystr result" where
  "derive_correlation_id key dep i =
     (if length key < 32 then Inl (HandoffError ''invalid_correlation_key'' 500)
      else
      rbind (bounded_identifier (VStr dep) ''deployment_id'') (\<lambda>dep.
      rbind (utf8_encode (identity_material ''bridgefu'' dep i)) (\<lambda>material.
      let encoded = rstrip_if (\<lambda>c. c = 61) (urlsafe_b64encode (hmac_sha256 key material));
          cid = lit CORRELATION_VERSION @ lit ''_'' @ encoded
      in if is_correlation cid then Inr cid
         else Inl (HandoffError ''correlation_derivation_failed'' 500))))"

definition call_fingerprint :: "pystr \<Rightarrow> vapi_identity \<Rightarrow> pystr result" where
  "call_fingerprint dep i =
     rbind (utf8_encode (identity_material ''bridgefu-call'' dep i)) (\<lambda>material.
     Inr (hexdigest (sha256 material)))"

definition content_opts :: json_opts where
  "content_opts = compact\<lparr>ensure_ascii := False, sort_keys := True\<rparr>"

definition content_hash :: "strdict \<Rightarrow> pystr result" where
  "content_hash vals =
     rbind (utf8_encode (json_dumps content_opts (VDict (strvals vals)))) (\<lambda>bs.
     Inr (hexdigest (sha256 bs)))"

section \<open>Tool calls\<close>

definition unique_object :: pairs_hook where
  "unique_object ps =
     (if distinct (map fst ps) then Inr (VDict ps)
      else Inl (HandoffError ''invalid_tool_arguments'' 400))"

definition tool_arguments :: "pyval \<Rightarrow> pydict result" where
  "tool_arguments v =
     (let invalid = HandoffError ''invalid_tool_arguments'' 400 in
      case v of
        VDict d \<Rightarrow> Inr d
      | VStr s \<Rightarrow>
          rbind (utf8_encode s) (\<lambda>bs.
          if MAX_CONTEXT_BYTES < length bs then Inl invalid
          else
          rbind (map_error (catch_as [json_error] invalid) (json_loads_hook unique_object s))
            (expect_dict invalid))
      | _ \<Rightarrow> Inl invalid)"

text \<open>
  The one tool call of a message, with the name, \<open>arguments\<close> and \<open>parameters\<close> of its function,
  in either of the two shapes Vapi sends; \<open>_tool_call\<close> and \<open>_direct_tool_call\<close> share this code.
\<close>

record tool_request =
  request_call :: pydict
  request_name :: pyval
  request_arguments :: pyval
  request_parameters :: pyval

definition single_call :: "pydict \<Rightarrow> pydict result" where
  "single_call m =
     (case get_key m ''toolCallList'' of
        VList [VDict c] \<Rightarrow> Inr c
      | _ \<Rightarrow> Inl (HandoffError ''invalid_tool_call'' 400))"

definition tool_function :: "pydict \<Rightarrow> tool_request result" where
  "tool_function c =
     (case get_key c ''function'' of
        VNone \<Rightarrow> Inr \<lparr>request_call = c, request_name = get_key c ''name'',
          request_arguments = get_key c ''arguments'', request_parameters = get_key c ''parameters''\<rparr>
      | VDict f \<Rightarrow>
          if list_ex (has_key c) [''name'', ''arguments'', ''parameters'']
          then Inl (HandoffError ''conflicting_tool_arguments'' 400)
          else if \<not> (get_key c ''type'' = VNone \<or> py_eq (get_key c ''type'') (VStr (lit ''function'')))
          then Inl (HandoffError ''invalid_tool_call'' 400)
          else Inr \<lparr>request_call = c, request_name = get_key f ''name'',
            request_arguments = get_key f ''arguments'', request_parameters = get_key f ''parameters''\<rparr>
      | _ \<Rightarrow> Inl (HandoffError ''invalid_tool_call'' 400))"

text \<open>The identifier of the call and its decoded arguments, which must not conflict.\<close>

definition request_values :: "tool_request \<Rightarrow> (pystr \<times> pydict) result" where
  "request_values r =
     rbind (bounded_identifier (get_key (request_call r) ''id'') ''tool_call_id'') (\<lambda>tid.
     let a = request_arguments r; p = request_parameters r in
     if a \<noteq> VNone \<and> p \<noteq> VNone \<and> \<not> py_eq a p
     then Inl (HandoffError ''conflicting_tool_arguments'' 400)
     else rbind (tool_arguments (if a \<noteq> VNone then a else p)) (\<lambda>vals. Inr (tid, vals)))"

text \<open>\<open>except ScreenPopConfigError as error: raise HandoffError(str(error))\<close>.\<close>

definition screen_pop_error :: "exn \<Rightarrow> exn" where
  "screen_pop_error e = (case e of ScreenPopConfigError c \<Rightarrow> HandoffError c 400 | _ \<Rightarrow> e)"

definition handoff_values :: "pydict \<Rightarrow> screen_pop_field list \<Rightarrow> strdict result" where
  "handoff_values d fs =
     map_error screen_pop_error (validate_values (VDict d) fs)"

definition tool_call :: "pydict \<Rightarrow> screen_pop_field list option \<Rightarrow> (pystr \<times> pydict) result" where
  "tool_call m conf =
     rbind (single_call m) (\<lambda>c.
     rbind (tool_function c) (\<lambda>r.
     if \<not> list_ex (\<lambda>n. py_eq (request_name r) (VStr n)) PREPARE_TOOL_NAMES
     then Inl (HandoffError ''invalid_tool_name'' 400)
     else
     rbind (request_values r) (\<lambda>tv.
     case conf of
       None \<Rightarrow>
         if keys (snd tv) \<noteq> set (map lit DISPLAY_FIELDS)
         then Inl (HandoffError ''invalid_tool_arguments'' 400) else Inr tv
     | Some fs \<Rightarrow> rbind (handoff_values (snd tv) fs) (\<lambda>vals. Inr (fst tv, strvals vals)))))"

definition token_char :: "nat \<Rightarrow> bool" where
  "token_char c \<longleftrightarrow> id_char c \<or> c = 46"

definition direct_tool_call ::
    "pydict \<Rightarrow> screen_pop_field list \<Rightarrow> (pystr \<times> pystr \<times> strdict) result" where
  "direct_tool_call m fs =
     rbind (single_call m) (\<lambda>c.
     rbind (tool_function c) (\<lambda>r.
     if \<not> py_eq (request_name r) (VStr DIRECT_BROWSER_TOOL_NAME)
     then Inl (HandoffError ''invalid_tool_name'' 400)
     else
     rbind (request_values r) (\<lambda>tv.
     let bad = HandoffError ''invalid_direct_handoff_token'' 401 in
     rbind (expect_str bad (get_key (snd tv) ''handoff_token'')) (\<lambda>token.
     if \<not> class_match token_char 1 4096 token then Inl bad
     else
     rbind (handoff_values (dict_del (snd tv) (lit ''handoff_token'')) fs) (\<lambda>vals.
     Inr (fst tv, token, vals))))))"

definition tool_name :: "pydict \<Rightarrow> pystr result" where
  "tool_name event =
     rbind (event_message event ''tool-calls'') (\<lambda>m.
     rbind (single_call m) (\<lambda>c.
     let f = get_key c ''function'';
         name = (if is_dict f then safe_get f ''name'' else get_key c ''name'')
     in if list_ex (\<lambda>n. py_eq name (VStr n)) PREPARE_TOOL_NAMES then Inr (str_of name)
        else Inl (HandoffError ''invalid_tool_name'' 400)))"

section \<open>The qualification token\<close>

definition token_error :: exn where
  "token_error = HandoffError ''invalid_direct_handoff_token'' 401"

definition token_decode :: "pystr \<Rightarrow> byte list result" where
  "token_decode s =
     (if s = [] \<or> \<not> list_all id_char s then Inl token_error
      else some_or token_error (urlsafe_b64decode_padded s))"

text \<open>\<open>except (UnicodeDecodeError, json.JSONDecodeError)\<close>.\<close>

definition JSON_ERRORS :: "exn list" where
  "JSON_ERRORS = [json_error, PyError ''UnicodeDecodeError'']"

definition token_json :: "pystr \<Rightarrow> pyval result" where
  "token_json s =
     rbind (token_decode s) (\<lambda>bs.
     map_error (catch_as JSON_ERRORS token_error) (json_loads_bytes bs))"

definition CLAIM_KEYS :: "pystr set" where
  "CLAIM_KEYS = set (map lit [''aud'', ''exp'', ''iat'', ''iss'', ''jti'', ''sub''])"

definition claims_ok :: "pyval \<Rightarrow> int \<Rightarrow> bool" where
  "claims_ok claims now \<longleftrightarrow>
     (case claims of
        VDict c \<Rightarrow>
          keys c = CLAIM_KEYS \<and>
          py_eq (get_key c ''iss'') (VStr (lit DIRECT_HANDOFF_ISSUER)) \<and>
          py_eq (get_key c ''aud'') (VStr (lit DIRECT_HANDOFF_AUDIENCE)) \<and>
          is_int (get_key c ''iat'') \<and> is_int (get_key c ''exp'') \<and>
          \<not> now + 5 < int_of (get_key c ''iat'') \<and>
          \<not> int_of (get_key c ''exp'') < now - 5 \<and>
          \<not> int_of (get_key c ''exp'') \<le> int_of (get_key c ''iat'') \<and>
          \<not> 7200 < int_of (get_key c ''exp'') - int_of (get_key c ''iat'')
      | _ \<Rightarrow> False)"

definition three_parts :: "exn \<Rightarrow> pystr \<Rightarrow> (pystr \<times> pystr \<times> pystr) result" where
  "three_parts e token =
     (case split_on 46 token of [h, c, s] \<Rightarrow> Inr (h, c, s) | _ \<Rightarrow> Inl e)"

definition verify_direct_handoff_token ::
    "pystr \<Rightarrow> byte list \<Rightarrow> int \<Rightarrow> (pystr \<times> pystr) result" where
  "verify_direct_handoff_token token key now =
     (if \<not> (32 \<le> length key \<and> length key \<le> 4096)
      then Inl (HandoffError ''invalid_direct_handoff_key'' 500)
      else
      rbind (three_parts token_error token) (\<lambda>(h, c, s).
      rbind (ascii_encode (h @ lit ''.'' @ c)) (\<lambda>input.
      rbind (token_decode s) (\<lambda>signature.
      if hmac_sha256 key input \<noteq> signature then Inl token_error
      else
      rbind (token_json h) (\<lambda>header.
      rbind (token_json c) (\<lambda>claims.
      if \<not> py_eq header (VDict (mk [(''alg'', VStr (lit ''HS256'')), (''typ'', VStr (lit ''JWT''))]))
         \<or> \<not> claims_ok claims now
      then Inl token_error
      else
      rbind (bounded_identifier (safe_get claims ''sub'') ''direct_session_id'') (\<lambda>sub.
      rbind (bounded_identifier (safe_get claims ''jti'') ''direct_token_id'') (\<lambda>jti.
      Inr (sub, jti)))))))))"

section \<open>Vapi responses and the control URL\<close>

definition tool_result :: "pystr \<Rightarrow> pystr \<Rightarrow> pyval" where
  "tool_result tid text = VDict (mk
     [(''results'', VList [VDict (mk [(''toolCallId'', VStr tid), (''result'', VStr text)])])])"

record prepared_handoff =
  prepared_correlation :: pystr
  prepared_tool_call :: pystr
  prepared_replayed :: bool

definition prepare_vapi_response :: "prepared_handoff \<Rightarrow> pyval" where
  "prepare_vapi_response p = tool_result (prepared_tool_call p) (lit ''prepared'')"

definition direct_transfer_response :: "prepared_handoff \<Rightarrow> pyval" where
  "direct_transfer_response p = tool_result (prepared_tool_call p) (lit ''transfer_started'')"

definition vapi_control_url :: "pylib \<Rightarrow> pydict \<Rightarrow> pystr result" where
  "vapi_control_url lib event =
     rbind (event_message event ''tool-calls'') (\<lambda>m.
     let bad = HandoffError ''vapi_control_url_invalid'' 400 in
     rbind (expect_str bad (safe_get (safe_get (get_key m ''call'') ''monitor'') ''controlUrl'')) (\<lambda>v.
     if 2048 < length v then Inl bad
     else
     (case urlsplit lib v of
        None \<Rightarrow> Inl (PyError ''ValueError'')
      | Some u \<Rightarrow>
          let host = hostname lib u in
          if scheme u \<noteq> lit ''https'' \<or> \<not> no_userinfo u \<or> query u \<noteq> [] \<or> fragment u \<noteq> [] \<or>
             \<not> (host = lit ''api.vapi.ai'' \<or> ends_with host (lit ''.vapi.ai'')) \<or>
             \<not> starts_with (path u) (lit ''/'') \<or> contains (path u) (lit ''..'')
          then Inl bad else Inr v)))"

section \<open>Requests and responses\<close>

definition connect_correlation_id :: "pydict \<Rightarrow> pystr option" where
  "connect_correlation_id event =
     (case safe_get (safe_get (safe_get (get_key event ''Details'') ''ContactData'') ''Attributes'')
        ''correlation_id'' of
        VStr s \<Rightarrow> if is_correlation s then Some s else None
      | _ \<Rightarrow> None)"

text \<open>
  The scan of the headers for the one \<open>authorization\<close>; \<open>presented\<close> is the value found so far.
\<close>

fun find_bearer :: "pylib \<Rightarrow> pystr option \<Rightarrow> pydict \<Rightarrow> pystr option result" where
  "find_bearer lib presented [] = Inr presented"
| "find_bearer lib presented ((name, v) # hs) =
     (if py_lower lib name = lit ''authorization'' then
        (if presented \<noteq> None \<or> \<not> is_str v then Inl (HandoffError ''unauthorized'' 401)
         else find_bearer lib (Some (str_of v)) hs)
      else find_bearer lib presented hs)"

text \<open>\<open>hmac.compare_digest\<close> of strings raises \<open>TypeError\<close> unless both are ASCII.\<close>

definition compare_digest :: "pystr \<Rightarrow> pystr \<Rightarrow> bool result" where
  "compare_digest a b =
     (if is_ascii a \<and> is_ascii b then Inr (a = b) else Inl (PyError ''TypeError''))"

definition verify_bearer :: "pylib \<Rightarrow> pydict \<Rightarrow> pystr \<Rightarrow> unit result" where
  "verify_bearer lib headers expected =
     (if length expected < 32 then Inl (HandoffError ''authentication_unavailable'' 500)
      else
      rbind (find_bearer lib None headers) (\<lambda>presented.
      case presented of
        None \<Rightarrow> Inl (HandoffError ''unauthorized'' 401)
      | Some p \<Rightarrow>
          if \<not> starts_with p (lit ''Bearer '') then Inl (HandoffError ''unauthorized'' 401)
          else rbind (compare_digest (drop 7 p) expected) (\<lambda>ok.
            if ok then Inr () else Inl (HandoffError ''unauthorized'' 401))))"

definition content_type :: "pylib \<Rightarrow> pydict \<Rightarrow> pyval" where
  "content_type lib headers =
     (case find (\<lambda>p. py_lower lib (fst p) = lit ''content-type'') headers of
        None \<Rightarrow> VNone | Some p \<Rightarrow> snd p)"

definition is_json_type :: "pylib \<Rightarrow> pyval \<Rightarrow> bool" where
  "is_json_type lib v \<longleftrightarrow>
     is_str v \<and> py_lower lib (strip_if is_space (before 59 (str_of v))) = lit ''application/json''"

definition raw_body :: "pystr \<Rightarrow> bool \<Rightarrow> byte list result" where
  "raw_body body encoded =
     (if encoded then some_or (HandoffError ''invalid_http_request'' 400) (b64decode_strict body)
      else map_error (\<lambda>_. HandoffError ''invalid_http_request'' 400) (utf8_encode body))"

definition decode_http_json :: "pylib \<Rightarrow> pydict \<Rightarrow> (pydict \<times> pydict) result" where
  "decode_http_json lib event =
     (let invalid = HandoffError ''invalid_http_request'' 400 in
      rbind (expect_dict invalid (get_key event ''headers'')) (\<lambda>headers.
      rbind (expect_str invalid (get_key event ''body'')) (\<lambda>body.
      rbind (expect_bool invalid (get_or event ''isBase64Encoded'' (VBool False))) (\<lambda>encoded.
      if (if encoded then (MAX_BODY_BYTES + 2) div 3 * 4 else MAX_BODY_BYTES) < length body
      then Inl (HandoffError ''request_too_large'' 413)
      else
      rbind (raw_body body encoded) (\<lambda>raw.
      if MAX_BODY_BYTES < length raw then Inl (HandoffError ''request_too_large'' 413)
      else if \<not> is_json_type lib (content_type lib headers)
      then Inl (HandoffError ''unsupported_content_type'' 415)
      else
      rbind (map_error (catch_as JSON_ERRORS (HandoffError ''invalid_json'' 400)) (json_loads_bytes raw)) (\<lambda>v.
      rbind (expect_dict (HandoffError ''invalid_json'' 400) v) (\<lambda>d. Inr (d, headers))))))))"

record http_reply =
  status_code :: int
  response_headers :: strdict
  response_body :: pystr
  response_base64 :: bool

definition http_response :: "int \<Rightarrow> pyval \<Rightarrow> http_reply" where
  "http_response code payload =
     \<lparr>status_code = code,
      response_headers = mk
        [(''content-type'', lit ''application/json''), (''cache-control'', lit ''no-store''),
         (''x-content-type-options'', lit ''nosniff'')],
      response_body = json_dumps compact payload, response_base64 = False\<rparr>"

definition error_response :: "string \<Rightarrow> int \<Rightarrow> http_reply" where
  "error_response code status =
     http_response status (VDict (mk [(''error'', VStr (lit code))]))"

section \<open>Identifiers and digests\<close>

lemma bounded_identifier_iff:
  "bounded_identifier v name = Inr s \<longleftrightarrow> v = VStr s \<and> is_identifier s"
  by (auto simp: bounded_identifier_def result_simps split: if_splits)

lemma bounded_identifier_error:
  "bounded_identifier v name = Inl e \<Longrightarrow> e = HandoffError (''invalid_'' @ name) 400"
  by (auto simp: bounded_identifier_def result_simps split: if_splits)

lemma identifier_chars: "is_identifier s \<Longrightarrow> c \<in> set s \<Longrightarrow> id_char c"
  by (auto simp: is_identifier_def class_match_def list_all_iff)

lemma id_char_ascii: "id_char c \<Longrightarrow> c < 128 \<and> c \<noteq> 124 \<and> c \<noteq> 46"
  by (auto simp: char_class_defs)

lemma identifier_ascii: "is_identifier s \<Longrightarrow> is_ascii s"
  using identifier_chars id_char_ascii by (fastforce simp: is_ascii_def list_all_iff)

lemma is_ascii_append [simp]: "is_ascii (s @ t) \<longleftrightarrow> is_ascii s \<and> is_ascii t"
  by (simp add: is_ascii_def)

lemma correlation_ascii: "is_correlation s \<Longrightarrow> is_ascii s"
proof -
  assume c: "is_correlation s"
  then have "is_ascii (drop 4 s)" using id_char_ascii
    by (fastforce simp: is_correlation_def class_match_def is_ascii_def list_all_iff)
  moreover have "take 4 s = lit ''bf1_''" using c by (simp add: is_correlation_def starts_with_def eval_nat_numeral)
  moreover have "is_ascii (lit ''bf1_'')" by (simp add: is_ascii_def lit_def)
  ultimately show ?thesis using append_take_drop_id [of 4 s] is_ascii_append by metis
qed

definition good_identity :: "pystr \<Rightarrow> vapi_identity \<Rightarrow> bool" where
  "good_identity dep i \<longleftrightarrow> is_identifier dep \<and> is_identifier (org_id i) \<and> is_identifier (vapi_call i)"

lemma vapi_identity_good:
  "vapi_identity_of m = Inr i \<Longrightarrow> is_identifier (org_id i) \<and> is_identifier (vapi_call i)"
  by (auto simp: vapi_identity_of_def result_simps bounded_identifier_iff)

lemma identity_material_ascii:
  "good_identity dep i \<Longrightarrow> is_ascii (lit tag) \<Longrightarrow> is_ascii (identity_material tag dep i)"
  by (simp add: identity_material_def good_identity_def identifier_ascii) (simp add: is_ascii_def lit_def)

text \<open>The bar cannot occur in an identifier, so the material determines its three parts.\<close>

lemma bar_split:
  assumes "124 \<notin> set a" "124 \<notin> set b" "a @ 124 # s = b @ 124 # t"
  shows "a = b \<and> s = (t :: pystr)"
proof -
  have "split_on 124 (a @ 124 # s) = a # split_on 124 s" "split_on 124 (b @ 124 # t) = b # split_on 124 t"
    using assms(1,2) by (simp_all add: split_on_append)
  with assms(3) have "a # split_on 124 s = b # split_on 124 t" by metis
  with assms(3) show ?thesis by simp
qed

lemma identity_material_inj:
  assumes "good_identity dep i" "good_identity dep' i'"
    and "identity_material tag dep i = identity_material tag dep' i'"
  shows "dep = dep' \<and> i = i'"
proof -
  have bar: "124 \<notin> set s" if "is_identifier s" for s
    using identifier_chars [OF that] id_char_ascii by blast
  have "dep @ 124 # org_id i @ 124 # vapi_call i = dep' @ 124 # org_id i' @ 124 # vapi_call i'"
    using assms(3) by (simp add: identity_material_def lit_def)
  from bar_split [OF _ _ this] bar assms have d: "dep = dep'"
    and r: "org_id i @ 124 # vapi_call i = org_id i' @ 124 # vapi_call i'"
    by (auto simp: good_identity_def)
  from bar_split [OF _ _ r] bar assms have "org_id i = org_id i'" "vapi_call i = vapi_call i'"
    by (auto simp: good_identity_def)
  with d show ?thesis by simp
qed

lemma map_of_nat_ascii_inj:
  assumes "is_ascii s" "is_ascii t" "map (of_nat :: nat \<Rightarrow> byte) s = map of_nat t"
  shows "s = t"
proof -
  have "map unat (map (of_nat :: nat \<Rightarrow> byte) u) = u" if "is_ascii u" for u
    using that by (induction u) (auto simp: is_ascii_def unat_of_nat)
  from this [OF assms(1)] this [OF assms(2)] assms(3) show ?thesis by metis
qed

definition identity_digest :: "byte list \<Rightarrow> pystr \<Rightarrow> vapi_identity \<Rightarrow> byte list" where
  "identity_digest key dep i = hmac_sha256 key (map of_nat (identity_material ''bridgefu'' dep i))"

lemma derive_correlation_id_eq:
  assumes "good_identity dep i" "32 \<le> length key"
  shows "derive_correlation_id key dep i =
      Inr (lit ''bf1_'' @ b64url (identity_digest key dep i))"
proof -
  have "is_ascii (lit ''bridgefu'')" by (simp add: is_ascii_def lit_def)
  from utf8_encode_ascii [OF identity_material_ascii [OF assms(1) this]]
  have u: "utf8_encode (identity_material ''bridgefu'' dep i) = Inr (map of_nat (identity_material ''bridgefu'' dep i))" .
  have c: "is_correlation (lit ''bf1_'' @ b64url (identity_digest key dep i))"
    using urlsafe_b64_32 [of "identity_digest key dep i"]
    by (simp add: is_correlation_def starts_with_def identity_digest_def b64url_def)
  have e: "lit ''bf1'' @ lit ''_'' @ x = lit ''bf1_'' @ x" for x by (simp add: lit_def)
  from u c assms show ?thesis
    by (simp add: e derive_correlation_id_def bounded_identifier_def good_identity_def
        identity_digest_def CORRELATION_VERSION_def Let_def b64url_def)
qed

lemma derive_correlation_id_matches: "derive_correlation_id key dep i = Inr c \<Longrightarrow> is_correlation c"
  by (auto simp: derive_correlation_id_def result_simps Let_def split: if_splits)

lemma call_fingerprint_eq:
  assumes "good_identity dep i"
  shows "call_fingerprint dep i =
    Inr (hexdigest (sha256 (map of_nat (identity_material ''bridgefu-call'' dep i))))"
proof -
  have "is_ascii (lit ''bridgefu-call'')" by (simp add: is_ascii_def lit_def)
  from utf8_encode_ascii [OF identity_material_ascii [OF assms this]]
  show ?thesis by (simp add: call_fingerprint_def)
qed

lemma correlation_collision:
  assumes "good_identity dep i" "good_identity dep' i'" "32 \<le> length key"
  shows "derive_correlation_id key dep i = derive_correlation_id key dep' i' \<longleftrightarrow>
    identity_digest key dep i = identity_digest key dep' i'"
  using assms b64url_inj by (auto simp: derive_correlation_id_eq)

lemma identity_bytes_inj:
  assumes "good_identity dep i" "good_identity dep' i'"
    and eq: "map (of_nat :: nat \<Rightarrow> byte) (identity_material ''bridgefu'' dep i) =
      map of_nat (identity_material ''bridgefu'' dep' i')"
  shows "dep = dep' \<and> i = i'"
proof -
  have b: "is_ascii (lit ''bridgefu'')" by (simp add: is_ascii_def lit_def)
  from map_of_nat_ascii_inj [OF identity_material_ascii [OF assms(1) b]
      identity_material_ascii [OF assms(2) b] eq]
  show ?thesis by (rule identity_material_inj [OF assms(1,2)])
qed

section \<open>Headers and bodies\<close>

definition auth_headers :: "pylib \<Rightarrow> pydict \<Rightarrow> pydict" where
  "auth_headers lib hs = filter (\<lambda>p. py_lower lib (fst p) = lit ''authorization'') hs"

lemma find_bearer_iff:
  "find_bearer lib pr hs = Inr q \<longleftrightarrow>
     auth_headers lib hs = [] \<and> q = pr \<or>
     pr = None \<and> (\<exists>n s. auth_headers lib hs = [(n, VStr s)] \<and> q = Some s)"
proof (induction lib pr hs rule: find_bearer.induct)
  case (1 lib presented)
  then show ?case by (auto simp: auth_headers_def)
next
  case (2 lib presented name v hs)
  then show ?case by (cases v) (auto simp: auth_headers_def)
qed

lemma json_value_unique:
  assumes "json_value unique_object n s = Inr (VDict d, r)"
  shows "distinct (map fst d)"
proof -
  have u: "unique_object ps = Inr v \<Longrightarrow> v = VDict d \<Longrightarrow> distinct (map fst d)" for ps v
    by (auto simp: unique_object_def split: if_splits)
  have w: "scan_word x \<noteq> Inr (VDict d, y)" for x y
    by (auto simp: scan_word_def scan_number_def Let_def split: if_splits prod.splits option.splits)
  show ?thesis
    using assms by (cases n) (auto simp: json_value.simps(2) Let_def result_simps w
        split: list.splits if_splits option.splits dest: u)
qed

lemma unique_hook: "any_hook unique_object"
  by (simp add: any_hook_def unique_object_def)

lemma json_text_ascii:
  assumes "json_ok True v"
  shows "is_ascii (json_dumps compact v)"
  using dump_printable [of compact v] assms
  by (auto simp: good_opts_def compact_def json_dumps_def is_ascii_def list_all_iff printable_def
      intro: exI [of _ 0])

lemma good_compact: "good_opts compact" "ensure_ascii compact" "\<not> sort_keys compact"
  by (auto simp: good_opts_def compact_def intro: exI [of _ 0])

lemma json_type_ok: "is_json_type lib (VStr (lit ''application/json''))"
  by (simp add: is_json_type_def eval_simps before_def strip_if_def rstrip_if_def lstrip_if_def)

section \<open>Instances\<close>

definition demo_identity :: vapi_identity where
  "demo_identity = \<lparr>org_id = lit ''org-1'', vapi_call = lit ''call-1''\<rparr>"

definition demo_deployment :: pystr where "demo_deployment = lit ''dep-1''"

definition demo_secret :: "byte list" where "demo_secret = replicate 32 7"

definition demo_event :: pydict where
  "demo_event = mk
     [(''message'', VDict (mk
        [(''type'', VStr (lit ''tool-calls'')),
         (''call'', VDict (mk [(''orgId'', VStr (lit ''org-1'')), (''id'', VStr (lit ''call-1'')),
            (''assistantId'', VStr (lit ''asst-1''))])),
         (''toolCallList'', VList [VDict (mk
            [(''id'', VStr (lit ''tool-1'')), (''name'', VStr (lit ''prepare_handoff'')),
             (''parameters'', VDict (mk [(''intent'', VStr (lit ''billing''))]))])])]))]"

definition demo_message :: pydict where
  "demo_message = dict_of (get_key demo_event ''message'')"

definition demo_binding :: pyval where
  "demo_binding = VDict (mk [(''status'', VStr (lit ''bound'')),
     (''organization_id'', VStr (lit ''org-1'')), (''assistant_id'', VStr (lit ''asst-1''))])"

definition bound_to :: "pystr \<Rightarrow> pystr \<Rightarrow> pyval" where
  "bound_to org asst = VDict (mk [(''status'', VStr (lit ''bound'')),
     (''organization_id'', VStr org), (''assistant_id'', VStr asst)])"

lemmas demo_event_defs = demo_event_def demo_message_def demo_identity_def

lemma demo_good: "good_identity demo_deployment demo_identity"
  by (simp add: good_identity_def demo_deployment_def demo_identity_def is_identifier_def eval_simps)

lemma demo_identity_of: "vapi_identity_of demo_message = Inr demo_identity"
  by (simp add: vapi_identity_of_def demo_event_defs bounded_identifier_def is_identifier_def
      eval_simps get_key_def get_or_def)

lemma demo_secret_length [simp]: "length demo_secret = 32"
  by (simp add: demo_secret_def)

lemma demo_tool_call:
  "tool_call demo_message (Some demo_fields) = Inr (lit ''tool-1'', strvals demo_values)"
proof -
  have "single_call demo_message = Inr (mk
            [(''id'', VStr (lit ''tool-1'')), (''name'', VStr (lit ''prepare_handoff'')),
             (''parameters'', VDict (strvals demo_values))])"
    by (simp add: demo_event_defs single_call_def demo_values_def strvals_def)
  moreover have "bounded_identifier (VStr (lit ''tool-1'')) ''tool_call_id'' = Inr (lit ''tool-1'')"
    by (simp add: bounded_identifier_def is_identifier_def eval_simps)
  ultimately show ?thesis
    by (simp add: tool_call_def tool_function_def PREPARE_TOOL_NAMES_def request_values_def Let_def
        tool_arguments_def handoff_values_def demo_validates)
qed

section \<open>Properties\<close>

text \<open>
  For a call Vapi identifies, a valid deployment identifier and a key of at least 32 bytes,
  deriving the correlation identifier always succeeds and the result has the public format; the
  error \<open>correlation_derivation_failed\<close> is never raised, whatever the arguments.
\<close>

theorem correlation_id_total:
  assumes "vapi_identity_of m = Inr i" "is_identifier dep" "32 \<le> length key"
  shows "(\<exists>c. derive_correlation_id key dep i = Inr c \<and> is_correlation c) \<and>
    derive_correlation_id k d j \<noteq> Inl (HandoffError ''correlation_derivation_failed'' 500)"
proof
  have "good_identity dep i" using assms vapi_identity_good by (simp add: good_identity_def)
  then show "\<exists>c. derive_correlation_id key dep i = Inr c \<and> is_correlation c"
    using derive_correlation_id_eq [OF _ assms(3)] derive_correlation_id_matches by blast
  have "is_correlation (lit CORRELATION_VERSION @ lit ''_'' @ b64url (hmac_sha256 k x))" for x
    using urlsafe_b64_32 [of "hmac_sha256 k x"]
    by (simp add: is_correlation_def starts_with_def lit_def CORRELATION_VERSION_def b64url_def)
  then show "derive_correlation_id k d j \<noteq> Inl (HandoffError ''correlation_derivation_failed'' 500)"
    by (auto simp: derive_correlation_id_def result_simps Let_def b64url_def utf8_encode_def
        split: if_splits dest!: bounded_identifier_error)
qed

theorem correlation_id_total_witness:
  "\<exists>c. derive_correlation_id demo_secret demo_deployment demo_identity = Inr c \<and> is_correlation c"
  using correlation_id_total [OF demo_identity_of, of demo_deployment demo_secret] demo_good
  by (simp add: good_identity_def)

text \<open>
  C10.  Correlation identifiers separate calls: two different (deployment, organisation, call)
  triples are hashed as different messages, whatever their identifiers, and get the same
  correlation identifier exactly when HMAC-SHA-256 collides on those two messages.
\<close>

theorem correlation_ids_separate_calls:
  assumes "good_identity dep i" "good_identity dep' i'" "dep \<noteq> dep' \<or> i \<noteq> i'" "32 \<le> length key"
    and "m = map of_nat (identity_material ''bridgefu'' dep i)"
    and "m' = map of_nat (identity_material ''bridgefu'' dep' i')"
  shows "m \<noteq> m' \<and> (derive_correlation_id key dep i = derive_correlation_id key dep' i' \<longleftrightarrow>
    hmac_sha256 key m = hmac_sha256 key m')"
  using correlation_collision [OF assms(1,2,4)] identity_bytes_inj [OF assms(1,2)] assms(3)
  by (auto simp: identity_digest_def assms(5,6))

theorem correlation_ids_separate_calls_witness:
  "map (of_nat :: nat \<Rightarrow> byte) (identity_material ''bridgefu'' demo_deployment demo_identity) \<noteq>
    map of_nat (identity_material ''bridgefu'' (lit ''dep-2'') demo_identity)"
proof -
  have "good_identity (lit ''dep-2'') demo_identity"
    using demo_good by (simp add: good_identity_def is_identifier_def eval_simps)
  moreover have "demo_deployment \<noteq> lit ''dep-2''" by (simp add: demo_deployment_def)
  ultimately show ?thesis
    using correlation_ids_separate_calls [OF demo_good _ _ _ refl refl, of "lit ''dep-2''" demo_identity demo_secret]
    by simp
qed

text \<open>
  Bearer authentication accepts exactly the requests with one \<open>Authorization\<close> header, in any
  letter case, whose value is \<open>Bearer\<close>, a space and the configured secret; a second such header,
  a missing one or any other value is refused.
\<close>

theorem verify_bearer_exact:
  assumes "32 \<le> length expected" "is_ascii expected"
  shows "verify_bearer lib headers expected = Inr () \<longleftrightarrow>
    (\<exists>n. auth_headers lib headers = [(n, VStr (lit ''Bearer '' @ expected))])"
proof -
  have prefix: "starts_with p (lit ''Bearer '') \<and> is_ascii (drop 7 p) \<and> drop 7 p = expected \<longleftrightarrow>
      p = lit ''Bearer '' @ expected" for p
    using assms(2) by (auto simp: starts_with_iff)
  show ?thesis
  proof (cases "\<exists>n s. auth_headers lib headers = [(n, VStr s)]")
    case True
    then obtain n s where h: "auth_headers lib headers = [(n, VStr s)]" by blast
    then have "find_bearer lib None headers = Inr (Some s)" by (simp add: find_bearer_iff)
    then have "verify_bearer lib headers expected = Inr () \<longleftrightarrow> s = lit ''Bearer '' @ expected"
      using assms prefix [of s] by (auto simp: verify_bearer_def compare_digest_def)
    with h show ?thesis by auto
  next
    case False
    then have "find_bearer lib None headers \<noteq> Inr (Some s)" for s by (auto simp: find_bearer_iff)
    then have "verify_bearer lib headers expected \<noteq> Inr ()"
      by (auto simp: verify_bearer_def result_simps split: option.splits)
    with False show ?thesis by blast
  qed
qed

theorem verify_bearer_exact_witness:
  "verify_bearer ascii_pylib [(lit ''AUTHORIZATION'', VStr (lit ''Bearer '' @ replicate 32 97))]
     (replicate 32 97) = Inr ()"
  using verify_bearer_exact [of "replicate 32 97" ascii_pylib
      "[(lit ''AUTHORIZATION'', VStr (lit ''Bearer '' @ replicate 32 97))]"]
  by (simp add: auth_headers_def eval_simps list_all_iff)

text \<open>
  Tool arguments mean the same in both forms Vapi sends them: a JSON object and its text
  (compact or spaced, ASCII or not, within 8192 bytes) decode to the same dictionary.  No
  arguments sent as text ever decode to a dictionary with a repeated key.
\<close>

theorem tool_arguments_two_forms:
  assumes "good_opts j" "\<not> sort_keys j" "json_ok (ensure_ascii j) (VDict d)"
    and "utf8_encode (json_dumps j (VDict d)) = Inr bs" "length bs \<le> MAX_CONTEXT_BYTES"
  shows "tool_arguments (VStr (json_dumps j (VDict d))) = tool_arguments (VDict d) \<and>
    (\<forall>s e. tool_arguments (VStr s) = Inr e \<longrightarrow> distinct (map fst e))"
proof (intro conjI allI impI)
  show "tool_arguments (VStr (json_dumps j (VDict d))) = tool_arguments (VDict d)"
    using json_loads_dumps [OF assms(1) unique_hook assms(3,2)] assms(4,5)
    by (simp add: tool_arguments_def Let_def)
  show "distinct (map fst e)" if "tool_arguments (VStr s) = Inr e" for s e
    using that by (auto simp: tool_arguments_def Let_def result_simps json_loads_hook_def
        split: if_splits dest!: json_value_unique)
qed

theorem tool_arguments_two_forms_witness:
  "tool_arguments (VStr (json_dumps compact (VDict (mk [(''a'', VBool True)])))) =
     Inr (mk [(''a'', VBool True)])"
proof -
  have ok: "json_ok (ensure_ascii compact) (VDict (mk [(''a'', VBool True)]))"
    by (simp add: compact_def lit_def char_ok_def is_surrogate_def)
  have "utf8_encode (json_dumps compact (VDict (mk [(''a'', VBool True)]))) =
      Inr (map of_nat (json_dumps compact (VDict (mk [(''a'', VBool True)]))))"
    using json_text_ascii ok by (intro utf8_encode_ascii) (simp add: compact_def)
  moreover have "length (json_dumps compact (VDict (mk [(''a'', VBool True)]))) \<le> MAX_CONTEXT_BYTES"
    by (simp add: json_dumps_def compact_def dump_str_def escape_char_def lit_def MAX_CONTEXT_BYTES_def)
  ultimately show ?thesis
    using tool_arguments_two_forms [OF good_compact(1,3) ok] by (simp add: tool_arguments_def)
qed

text \<open>
  A JSON request body survives the HTTP layer: the text of a dictionary within 256 KiB,
  sent as it is or in Base64, with the JSON content type, decodes to that dictionary.
\<close>

theorem http_json_roundtrip:
  assumes "json_ok True (VDict d)" "length (json_dumps compact (VDict d)) \<le> MAX_BODY_BYTES"
    and "is_json_type lib (content_type lib headers)"
    and "text = json_dumps compact (VDict d)"
    and "encoded = b64_encode False (map unat (map of_nat text :: byte list))"
  shows "decode_http_json lib (mk [(''headers'', VDict headers), (''body'', VStr text)]) = Inr (d, headers) \<and>
    decode_http_json lib (mk [(''headers'', VDict headers), (''body'', VStr encoded),
      (''isBase64Encoded'', VBool True)]) = Inr (d, headers)"
proof
  note js = json_loads_bytes_dumps [OF good_compact assms(1)]
  show "decode_http_json lib (mk [(''headers'', VDict headers), (''body'', VStr text)]) = Inr (d, headers)"
    using assms(2,3) js utf8_encode_ascii [OF json_text_ascii [OF assms(1)]]
    by (simp add: decode_http_json_def raw_body_def assms(4))
  have "length encoded \<le> (MAX_BODY_BYTES + 2) div 3 * 4"
    using assms(2) by (simp add: assms(4,5) b64_encode_length_eq div_le_mono)
  moreover have "b64decode_strict encoded = Some (map of_nat text)"
    unfolding assms(5) by (rule b64decode_strict_encode)
  ultimately show "decode_http_json lib (mk [(''headers'', VDict headers), (''body'', VStr encoded),
      (''isBase64Encoded'', VBool True)]) = Inr (d, headers)"
    using assms(2,3) js by (simp add: decode_http_json_def raw_body_def assms(4))
qed

theorem http_json_roundtrip_witness:
  "decode_http_json ascii_pylib
     (mk [(''headers'', VDict (mk [(''content-type'', VStr (lit ''application/json''))])),
       (''body'', VStr (json_dumps compact (VDict [])))]) =
   Inr ([], mk [(''content-type'', VStr (lit ''application/json''))])"
proof -
  have "content_type ascii_pylib (mk [(''content-type'', VStr (lit ''application/json''))]) =
      VStr (lit ''application/json'')"
    by (simp add: content_type_def eval_simps)
  then show ?thesis
    using http_json_roundtrip [of "[]" ascii_pylib "mk [(''content-type'', VStr (lit ''application/json''))]",
        OF _ _ _ refl refl] json_type_ok [of ascii_pylib]
    by (simp add: json_dumps_def MAX_BODY_BYTES_def)
qed

text \<open>
  C11.  The identity binding admits exactly the events of the bound organisation and assistant: the
  call carries the organisation, and the assistant is named by the call or, only when the call
  names none, by the message's assistant.  The unbound state admits no event.
\<close>

theorem binding_exact:
  assumes "is_identifier org" "is_identifier asst"
    and "m = get_key event ''message''" "call = safe_get m ''call''"
  shows "(verify_vapi_binding event (bound_to org asst) = Inr () \<longleftrightarrow>
      safe_get call ''orgId'' = VStr org \<and>
      (safe_get call ''assistantId'' = VStr asst \<or>
       safe_get call ''assistantId'' = VNone \<and> safe_get (safe_get m ''assistant'') ''id'' = VStr asst)) \<and>
    verify_vapi_binding event (VDict (mk [(''status'', VStr (lit ''unbound''))])) \<noteq> Inr ()"
proof
  have "\<not> is_dict x \<Longrightarrow> safe_get x k = VNone" for x k by (cases x) auto
  then show "verify_vapi_binding event (bound_to org asst) = Inr () \<longleftrightarrow>
      safe_get call ''orgId'' = VStr org \<and>
      (safe_get call ''assistantId'' = VStr asst \<or>
       safe_get call ''assistantId'' = VNone \<and> safe_get (safe_get m ''assistant'') ''id'' = VStr asst)"
    using assms by (auto simp: verify_vapi_binding_def bound_to_def Let_def bounded_identifier_def guard_eq)
  show "verify_vapi_binding event (VDict (mk [(''status'', VStr (lit ''unbound''))])) \<noteq> Inr ()"
    by (simp add: verify_vapi_binding_def Let_def)
qed

theorem binding_exact_witness:
  "verify_vapi_binding demo_event (bound_to (lit ''org-1'') (lit ''asst-1'')) = Inr ()"
  using binding_exact [of "lit ''org-1''" "lit ''asst-1''", OF _ _ refl refl, of demo_event]
  by (simp add: is_identifier_def eval_simps demo_event_def get_key_def get_or_def)

end
