(* ===== verification/WebToken.thy ===== *)
theory WebToken imports Handoff begin

text \<open>
  \<open>qualification/bridgefu_web_handoff.py\<close>, its signed handoff token: the qualification controller
  issues it, checks it itself, and the direct-handoff Lambda checks it again with its own copy of
  the code (\<open>verify_direct_handoff_token\<close> of \<open>lambda/common/bridgefu_handoff.py\<close>).  The lemmas
  show that an issued token passes both checks while it lives, that the two checks agree, and
  that an accepted token carries a valid signature and lives at most two hours.
\<close>

definition contract_error :: "string \<Rightarrow> exn" where
  "contract_error m = DirectHandoffContractError m"

definition is_token :: "pystr \<Rightarrow> bool" where
  "is_token s \<longleftrightarrow> class_match token_char 1 4096 s"

definition decode_b64url :: "pystr \<Rightarrow> byte list result" where
  "decode_b64url s =
     (if s = [] \<or> \<not> list_all id_char s
      then Inl (contract_error ''direct handoff token encoding is invalid'')
      else some_or (contract_error ''direct handoff token encoding is invalid'') (urlsafe_b64decode_padded s))"

definition token_header :: pyval where
  "token_header = VDict (mk [(''alg'', VStr (lit ''HS256'')), (''typ'', VStr (lit ''JWT''))])"

definition token_claims :: "pystr \<Rightarrow> pystr \<Rightarrow> int \<Rightarrow> int \<Rightarrow> pyval" where
  "token_claims session_id token_id iat expiry = VDict (mk
     [(''aud'', VStr (lit DIRECT_HANDOFF_AUDIENCE)), (''exp'', VInt expiry), (''iat'', VInt iat),
      (''iss'', VStr (lit DIRECT_HANDOFF_ISSUER)), (''jti'', VStr token_id), (''sub'', VStr session_id)])"

definition sorted_compact :: json_opts where
  "sorted_compact = compact\<lparr>sort_keys := True\<rparr>"

definition token_part :: "pyval \<Rightarrow> pystr result" where
  "token_part v = rbind (ascii_encode (json_dumps sorted_compact v)) (\<lambda>bs. Inr (b64url bs))"

definition issue_handoff_token ::
    "pystr \<Rightarrow> pystr \<Rightarrow> pystr \<Rightarrow> int \<Rightarrow> int \<Rightarrow> pystr result" where
  "issue_handoff_token signing_key session_id token_id now lifetime =
     (if \<not> (32 \<le> length signing_key \<and> length signing_key \<le> 4096)
      then Inl (contract_error ''direct handoff signing key is invalid'')
      else if \<not> is_identifier session_id \<or> \<not> is_identifier token_id
      then Inl (contract_error ''direct handoff identity is invalid'')
      else if \<not> (60 \<le> lifetime \<and> lifetime \<le> 7200)
      then Inl (contract_error ''direct handoff lifetime is invalid'')
      else if now \<le> 0 then Inl (contract_error ''direct handoff issued-at is invalid'')
      else
      rbind (token_part token_header) (\<lambda>h.
      rbind (token_part (token_claims session_id token_id now (now + lifetime))) (\<lambda>c.
      rbind (ascii_encode (h @ lit ''.'' @ c)) (\<lambda>input.
      rbind (utf8_encode signing_key) (\<lambda>key.
      let token = h @ lit ''.'' @ c @ lit ''.'' @ b64url (hmac_sha256 key input)
      in if is_token token then Inr token
         else Inl (contract_error ''direct handoff token is invalid''))))))"

text \<open>
  \<open>set(claims) == {...}\<close> before the type of \<open>claims\<close> is known: a list or a string is iterated too,
  a list of containers cannot be hashed and a number cannot be iterated.
\<close>

definition claim_set_ok :: "pyval \<Rightarrow> bool result" where
  "claim_set_ok v =
     (case v of
        VDict d \<Rightarrow> Inr (keys d = CLAIM_KEYS)
      | VList xs \<Rightarrow>
          if list_ex (\<lambda>x. is_list x \<or> is_dict x) xs then Inl (PyError ''TypeError'')
          else Inr (set xs = VStr ` CLAIM_KEYS)
      | VStr s \<Rightarrow> Inr False
      | _ \<Rightarrow> Inl (PyError ''TypeError''))"

definition web_claims_ok :: "pydict \<Rightarrow> int \<Rightarrow> bool" where
  "web_claims_ok c now \<longleftrightarrow>
     py_eq (get_key c ''iss'') (VStr (lit DIRECT_HANDOFF_ISSUER)) \<and>
     py_eq (get_key c ''aud'') (VStr (lit DIRECT_HANDOFF_AUDIENCE)) \<and>
     is_int (get_key c ''iat'') \<and> is_int (get_key c ''exp'') \<and>
     \<not> now + 5 < int_of (get_key c ''iat'') \<and>
     \<not> int_of (get_key c ''exp'') < now - 5 \<and>
     \<not> int_of (get_key c ''exp'') \<le> int_of (get_key c ''iat'') \<and>
     \<not> 7200 < int_of (get_key c ''exp'') - int_of (get_key c ''iat'') \<and>
     is_str (get_key c ''sub'') \<and> is_identifier (str_of (get_key c ''sub'')) \<and>
     is_str (get_key c ''jti'') \<and> is_identifier (str_of (get_key c ''jti''))"

definition web_token_json :: "pystr \<Rightarrow> pyval result" where
  "web_token_json s =
     rbind (decode_b64url s) (\<lambda>bs.
     map_error (catch_as JSON_ERRORS (contract_error ''direct handoff token is invalid''))
       (json_loads_bytes bs))"

definition web_claims :: "pyval \<Rightarrow> int \<Rightarrow> (pystr \<times> pystr) result" where
  "web_claims claims now =
     (let bad = contract_error ''direct handoff claims are invalid'' in
      rbind (claim_set_ok claims) (\<lambda>ok.
      if \<not> ok then Inl bad
      else
      rbind (expect_dict (PyError ''AttributeError'') claims) (\<lambda>cd.
      if \<not> web_claims_ok cd now then Inl bad
      else Inr (str_of (get_key cd ''sub''), str_of (get_key cd ''jti'')))))"

definition verify_handoff_token ::
    "pystr \<Rightarrow> pystr \<Rightarrow> int \<Rightarrow> (pystr \<times> pystr) result" where
  "verify_handoff_token token signing_key now =
     (if \<not> is_token token then Inl (contract_error ''direct handoff token is invalid'')
      else if \<not> (32 \<le> length signing_key \<and> length signing_key \<le> 4096)
      then Inl (contract_error ''direct handoff signing key is invalid'')
      else
      rbind (three_parts (contract_error ''direct handoff token is invalid'') token) (\<lambda>(h, c, s).
      rbind (ascii_encode (h @ lit ''.'' @ c)) (\<lambda>input.
      rbind (utf8_encode signing_key) (\<lambda>key.
      rbind (decode_b64url s) (\<lambda>signature.
      if hmac_sha256 key input \<noteq> signature
      then Inl (contract_error ''direct handoff token signature is invalid'')
      else
      rbind (web_token_json h) (\<lambda>header.
      rbind (web_token_json c) (\<lambda>claims.
      if \<not> py_eq header token_header
      then Inl (contract_error ''direct handoff claims are invalid'')
      else web_claims claims now)))))))"

section \<open>The two checks agree\<close>

lemma token_decode_iff:
  "token_decode s = Inr bs \<longleftrightarrow> s \<noteq> [] \<and> list_all id_char s \<and> urlsafe_b64decode_padded s = Some bs"
  by (auto simp: token_decode_def)

lemma decode_b64url_iff: "decode_b64url s = Inr bs \<longleftrightarrow> token_decode s = Inr bs"
  by (auto simp: token_decode_iff decode_b64url_def)

lemma three_parts_iff: "three_parts e token = Inr (h, c, s) \<longleftrightarrow> split_on 46 token = [h, c, s]"
  by (auto simp: three_parts_def split: list.splits)

lemma token_json_iff: "token_json s = Inr v \<longleftrightarrow> (\<exists>bs. token_decode s = Inr bs \<and> json_loads_bytes bs = Inr v)"
  by (auto simp: token_json_def result_simps)

lemma web_token_json_iff: "web_token_json s = Inr v \<longleftrightarrow> token_json s = Inr v"
  by (auto simp: web_token_json_def token_json_iff result_simps decode_b64url_iff)

definition claim_ids :: "pyval \<Rightarrow> int \<Rightarrow> (pystr \<times> pystr) \<Rightarrow> bool" where
  "claim_ids claims now r \<longleftrightarrow> claims_ok claims now \<and>
     safe_get claims ''sub'' = VStr (fst r) \<and> is_identifier (fst r) \<and>
     safe_get claims ''jti'' = VStr (snd r) \<and> is_identifier (snd r)"

text \<open>What a token that passes the Lambda's check is.\<close>

lemma verify_direct_iff:
  "verify_direct_handoff_token token key now = Inr r \<longleftrightarrow>
     32 \<le> length key \<and> length key \<le> 4096 \<and>
     (\<exists>h c s input claims. split_on 46 token = [h, c, s] \<and> ascii_encode (h @ lit ''.'' @ c) = Inr input \<and>
        token_decode s = Inr (hmac_sha256 key input) \<and>
        (\<exists>header. token_json h = Inr header \<and> py_eq header token_header) \<and>
        token_json c = Inr claims \<and> claim_ids claims now r)"
  unfolding verify_direct_handoff_token_def token_header_def
  by (cases r) (auto simp: result_simps three_parts_iff bounded_identifier_iff claim_ids_def)

lemma web_claims_iff: "web_claims v now = Inr r \<longleftrightarrow> claim_ids v now r"
  by (cases v; cases r)
    (auto simp: web_claims_def result_simps Let_def claim_set_ok_def claim_ids_def claims_ok_def
      web_claims_ok_def is_str_conv split: if_splits)

lemma verify_web_iff:
  "verify_handoff_token token sk now = Inr r \<longleftrightarrow>
     is_token token \<and> 32 \<le> length sk \<and> length sk \<le> 4096 \<and>
     (\<exists>key h c s input claims. utf8_encode sk = Inr key \<and>
        split_on 46 token = [h, c, s] \<and> ascii_encode (h @ lit ''.'' @ c) = Inr input \<and>
        token_decode s = Inr (hmac_sha256 key input) \<and>
        (\<exists>header. token_json h = Inr header \<and> py_eq header token_header) \<and>
        token_json c = Inr claims \<and> claim_ids claims now r)"
  unfolding verify_handoff_token_def
  by (auto simp: result_simps three_parts_iff decode_b64url_iff web_token_json_iff web_claims_iff)

section \<open>Issuing\<close>

lemma dump_sort_keys: "dump (sort_keys_update f j) v = dump j v"
proof (induction v)
  case (VDict d)
  then have "dump (sort_keys_update f j) (snd p) = dump j (snd p)" if "p \<in> set d" for p
    using that by (cases p) auto
  then show ?case by (simp cong: map_cong)
next
  case (VList xs)
  then show ?case by (simp cong: map_cong)
qed simp_all

lemma token_part_ok:
  assumes "sort_value v = v" "json_ok True v"
  shows "token_part v = Inr (b64url (map of_nat (json_dumps compact v)))"
    and "token_json (b64url (map of_nat (json_dumps compact v))) = Inr v"
proof -
  have "json_dumps sorted_compact v = json_dumps compact v"
    using assms(1) dump_sort_keys [of _ compact]
    by (simp add: json_dumps_def sorted_compact_def good_compact)
  moreover have "is_ascii (json_dumps compact v)"
    using dump_printable [OF good_compact(1,2) assms(2)]
    by (auto simp: json_dumps_def good_compact is_ascii_def list_all_iff printable_def)
  ultimately show "token_part v = Inr (b64url (map of_nat (json_dumps compact v)))"
    by (simp add: token_part_def ascii_encode_def)
  have "json_dumps compact v \<noteq> []"
    using dump_head [OF assms(2), of compact] by (simp add: json_dumps_def good_compact)
  then have "token_decode (b64url (map of_nat (json_dumps compact v))) = Inr (map of_nat (json_dumps compact v))"
    by (simp add: token_decode_iff b64url_chars b64url_decode_padded b64url_nonempty)
  then show "token_json (b64url (map of_nat (json_dumps compact v))) = Inr v"
    using json_loads_bytes_dumps [OF good_compact assms(2)] by (simp add: token_json_iff)
qed

lemma token_header_ok: "sort_value token_header = token_header" "json_ok True token_header"
  by (simp_all add: token_header_def lit_def char_ok_def is_surrogate_def)

lemma small_int_ok:
  assumes "0 \<le> i" "i < 2 ^ 63"
  shows "json_ok True (VInt i)"
proof -
  from assms have "nat i < 10 ^ 19" by (simp add: nat_less_iff)
  then have "length (dec_nat (nat i)) \<le> 19" using length_dec_nat_le [of "nat i" 19] by simp
  with assms show ?thesis by simp
qed

lemma identifier_json_ok:
  assumes "is_identifier s"
  shows "list_all (char_ok True) s"
proof -
  have "c < 128" if "c \<in> set s" for c
    using identifier_chars [OF assms that] id_char_ascii by blast
  then show ?thesis by (fastforce simp: list_all_iff char_ok_def is_surrogate_def)
qed

lemma lit_json_ok: "list_all (char_ok True) (lit s)"
  using lit_bound [of _ s] by (fastforce simp: list_all_iff char_ok_def is_surrogate_def)

lemma token_claims_ok:
  assumes "is_identifier sid" "is_identifier tid" "0 \<le> iat" "iat < 2 ^ 63" "0 \<le> expiry" "expiry < 2 ^ 63"
  shows "json_ok True (token_claims sid tid iat expiry)"
  using assms identifier_json_ok small_int_ok by (simp add: token_claims_def lit_json_ok)

lemma token_claims_sorted: "sort_value (token_claims sid tid iat expiry) = token_claims sid tid iat expiry"
  by (simp add: token_claims_def lit_def)

lemma ascii_b64url: "ascii_encode (b64url a @ lit ''.'' @ b64url b) = Inr (map of_nat (b64url a @ lit ''.'' @ b64url b))"
proof -
  have "is_ascii (b64url x)" for x
    using b64url_chars [of x] id_char_ascii by (auto simp: is_ascii_def list_all_iff)
  moreover have "is_ascii (lit ''.'')" by (simp add: is_ascii_def lit_def)
  ultimately show ?thesis by (simp add: ascii_encode_def)
qed

lemma split_token: "split_on 46 (b64url a @ lit ''.'' @ b64url b @ lit ''.'' @ b64url c) = [b64url a, b64url b, b64url c]"
proof -
  have "46 \<notin> set (b64url x)" for x
    using b64url_chars [of x] id_char_ascii by (auto simp: list_all_iff)
  then show ?thesis by (simp add: lit_def split_on_append)
qed

lemma claims_ids_token:
  assumes "is_identifier sid" "is_identifier tid" "60 \<le> life" "life \<le> 7200"
    and "now - 5 \<le> t" "t \<le> now + life + 5"
  shows "claim_ids (token_claims sid tid now (now + life)) t (sid, tid)"
  using assms
  by (simp add: claim_ids_def claims_ok_def token_claims_def CLAIM_KEYS_def insert_commute)

text \<open>The token the issuing code returns, written out.\<close>

definition issued_token :: "byte list \<Rightarrow> pystr \<Rightarrow> pystr \<Rightarrow> int \<Rightarrow> int \<Rightarrow> pystr" where
  "issued_token key sid tid iat expiry =
     (let h = b64url (map of_nat (json_dumps compact token_header));
          c = b64url (map of_nat (json_dumps compact (token_claims sid tid iat expiry)))
      in h @ lit ''.'' @ c @ lit ''.'' @ b64url (hmac_sha256 key (map of_nat (h @ lit ''.'' @ c))))"

lemma issued_token_checks:
  assumes ids: "is_identifier sid" "is_identifier tid" and life: "60 \<le> life" "life \<le> 7200"
    and now: "0 < now" "now + life < 2 ^ 63"
    and key: "32 \<le> length key" "length key \<le> 4096" and t: "now - 5 \<le> t" "t \<le> now + life + 5"
  shows "verify_direct_handoff_token (issued_token key sid tid now (now + life)) key t = Inr (sid, tid)"
proof -
  define h where "h = b64url (map of_nat (json_dumps compact token_header))"
  define c where "c = b64url (map of_nat (json_dumps compact (token_claims sid tid now (now + life))))"
  define s where "s = b64url (hmac_sha256 key (map of_nat (h @ lit ''.'' @ c)))"
  have "json_ok True (token_claims sid tid now (now + life))"
    using ids life now by (intro token_claims_ok) auto
  then have c: "token_json c = Inr (token_claims sid tid now (now + life))"
    unfolding c_def by (intro token_part_ok token_claims_sorted)
  have h: "token_json h = Inr token_header"
    unfolding h_def by (intro token_part_ok token_header_ok)
  have "hmac_sha256 key m \<noteq> []" for m
    by (metis length_hmac list.size(3) zero_neq_numeral)
  then have s: "token_decode s = Inr (hmac_sha256 key (map of_nat (h @ lit ''.'' @ c)))"
    by (simp add: s_def token_decode_iff b64url_chars b64url_decode_padded b64url_nonempty)
  have a: "ascii_encode (h @ lit ''.'' @ c) = Inr (map of_nat (h @ lit ''.'' @ c))"
    unfolding h_def c_def by (rule ascii_b64url)
  have "split_on 46 (h @ lit ''.'' @ c @ lit ''.'' @ s) = [h, c, s]"
    unfolding h_def c_def s_def by (rule split_token)
  moreover have "py_eq token_header token_header" by (simp add: token_header_def)
  moreover have "issued_token key sid tid now (now + life) = h @ lit ''.'' @ c @ lit ''.'' @ s"
    by (simp add: issued_token_def h_def c_def s_def Let_def)
  ultimately show ?thesis
    using key a s h c claims_ids_token [OF ids life t] unfolding verify_direct_iff by metis
qed

lemma identifier_dump: "is_identifier s \<Longrightarrow> dump_str True s = 34 # s @ [34]"
proof -
  assume s: "is_identifier s"
  have "escape_char True c = [c]" if "c \<in> set s" for c
    using identifier_chars [OF s that] by (auto simp: escape_char_def char_class_defs)
  then have "map (escape_char True) s = map (\<lambda>c. [c]) s" by simp
  then have "concat (map (escape_char True) s) = s"
    by (simp only: concat_map_singleton list.map_ident)
  then show ?thesis by (simp add: dump_str_def)
qed

lemma plain_lit_dump: "list_all (\<lambda>c. 34 < c \<and> c < 127 \<and> c \<noteq> 92) s \<Longrightarrow> length (dump_str True s) = length s + 2"
  by (induction s) (auto simp: dump_str_def escape_char_def)

lemma token_claims_length:
  assumes "is_identifier sid" "is_identifier tid" "0 \<le> iat" "iat < 2 ^ 63" "0 \<le> expiry" "expiry < 2 ^ 63"
  shows "length (json_dumps compact (token_claims sid tid iat expiry)) \<le> 480"
proof -
  have dec: "length (dec_int i) \<le> 19" if "0 \<le> i" "i < 2 ^ 63" for i
    using that length_dec_nat_le [of "nat i" 19] by (simp add: dec_int_def nat_less_iff)
  have id: "length sid \<le> 128" "length tid \<le> 128"
    using assms by (simp_all add: is_identifier_def class_match_def)
  note lens = dec [OF assms(3,4)] dec [OF assms(5,6)] id
  have "length (json_dumps compact (token_claims sid tid iat expiry)) =
      length (dec_int iat) + length (dec_int expiry) + length sid + length tid + 112"
    using assms by (simp add: json_dumps_def compact_def token_claims_def identifier_dump
        plain_lit_dump lit_def DIRECT_HANDOFF_AUDIENCE_def DIRECT_HANDOFF_ISSUER_def)
  then show ?thesis using lens by simp
qed

lemma token_header_length: "length (json_dumps compact token_header) = 27"
  by (simp add: json_dumps_def compact_def token_header_def plain_lit_dump lit_def)

lemma issued_token_is_token:
  assumes "is_identifier sid" "is_identifier tid" "0 \<le> iat" "iat < 2 ^ 63" "0 \<le> expiry" "expiry < 2 ^ 63"
  shows "is_token (issued_token key sid tid iat expiry)"
proof -
  define h where "h = b64url (map of_nat (json_dumps compact token_header))"
  define c where "c = b64url (map of_nat (json_dumps compact (token_claims sid tid iat expiry)))"
  define s where "s = b64url (hmac_sha256 key (map of_nat (h @ lit ''.'' @ c)))"
  have e: "issued_token key sid tid iat expiry = h @ lit ''.'' @ c @ lit ''.'' @ s"
    by (simp add: issued_token_def h_def c_def s_def Let_def)
  have "list_all token_char (b64url x)" for x
    using b64url_chars [of x] by (auto simp: list_all_iff token_char_def)
  then have "list_all token_char h" "list_all token_char c" "list_all token_char s"
    by (simp_all add: h_def c_def s_def)
  then have "list_all token_char (h @ lit ''.'' @ c @ lit ''.'' @ s)"
    by (simp add: lit_def token_char_def)
  moreover have "length h \<le> 108"
    using b64url_length [of "map of_nat (json_dumps compact token_header)"]
    by (simp add: h_def token_header_length)
  moreover have "length c \<le> 1920"
    using b64url_length [of "map of_nat (json_dumps compact (token_claims sid tid iat expiry))"]
      token_claims_length [OF assms] by (simp add: c_def)
  moreover have "length s \<le> 128"
    using b64url_length [of "hmac_sha256 key (map of_nat (h @ lit ''.'' @ c))"] by (simp add: s_def)
  ultimately show ?thesis unfolding e by (simp add: is_token_def class_match_def)
qed

lemma issue_handoff_token_eq:
  assumes "32 \<le> length sk" "length sk \<le> 4096" "utf8_encode sk = Inr key"
    and "is_identifier sid" "is_identifier tid" "60 \<le> life" "life \<le> 7200"
    and "0 < now" "now + life < 2 ^ 63"
  shows "issue_handoff_token sk sid tid now life = Inr (issued_token key sid tid now (now + life))"
proof -
  have now: "0 \<le> now" "now < 2 ^ 63" "0 \<le> now + life" using assms by auto
  have h: "token_part token_header = Inr (b64url (map of_nat (json_dumps compact token_header)))"
    by (intro token_part_ok token_header_ok)
  have c: "token_part (token_claims sid tid now (now + life)) =
      Inr (b64url (map of_nat (json_dumps compact (token_claims sid tid now (now + life)))))"
    using assms now by (intro token_part_ok token_claims_sorted token_claims_ok) auto
  have t: "is_token (issued_token key sid tid now (now + life))"
    using assms now by (intro issued_token_is_token) auto
  then show ?thesis using assms
    by (simp add: issue_handoff_token_def h c ascii_b64url issued_token_def Let_def)
qed

section \<open>An instance\<close>

definition demo_key :: pystr where
  "demo_key = replicate 32 107"

lemma demo_key_bytes: "utf8_encode demo_key = Inr (replicate 32 107)"
proof -
  have "is_ascii demo_key" by (simp add: demo_key_def is_ascii_def list_all_iff)
  from utf8_encode_ascii [OF this] show ?thesis by (simp add: demo_key_def map_replicate_const)
qed

definition demo_session :: pystr where "demo_session = lit ''session-1''"
definition demo_token_id :: pystr where "demo_token_id = lit ''token-1''"

lemma demo_token_ids: "is_identifier demo_session" "is_identifier demo_token_id"
  by (simp_all add: demo_session_def demo_token_id_def is_identifier_def eval_simps)

lemma demo_token_checks:
  assumes "995 \<le> t" "t \<le> 4605"
  shows "verify_direct_handoff_token (issued_token (replicate 32 107) demo_session demo_token_id 1000 4600)
    (replicate 32 107) t = Inr (demo_session, demo_token_id)"
  using issued_token_checks [OF demo_token_ids, of 3600 1000 "replicate 32 107" t] assms by simp

section \<open>Properties\<close>

text \<open>
  C12.  Issuing and checking agree across the two programs.  For a key of 32 to 4096 characters
  (and bytes), valid identifiers, a lifetime of 60 to 7200 seconds and a positive clock, issuing
  succeeds, and until five seconds after its expiry both the controller's check and the Lambda's
  accept the token and return the session and token identifiers it was issued for.
\<close>

theorem issued_tokens_verify:
  assumes "32 \<le> length sk" "length sk \<le> 4096" "utf8_encode sk = Inr key" "length key \<le> 4096"
    and "is_identifier sid" "is_identifier tid" "60 \<le> life" "life \<le> 7200"
    and "0 < now" "now + life < 2 ^ 63" "now - 5 \<le> t" "t \<le> now + life + 5"
  shows "\<exists>token. issue_handoff_token sk sid tid now life = Inr token \<and>
    verify_direct_handoff_token token key t = Inr (sid, tid) \<and>
    verify_handoff_token token sk t = Inr (sid, tid)"
proof (intro exI conjI)
  let ?t = "issued_token key sid tid now (now + life)"
  show "issue_handoff_token sk sid tid now life = Inr ?t"
    using assms by (intro issue_handoff_token_eq) auto
  have "32 \<le> length key"
    using assms(1) utf8_encode_length [OF assms(3)] length_le_utf8_len [of sk] by simp
  with assms show d: "verify_direct_handoff_token ?t key t = Inr (sid, tid)"
    by (intro issued_token_checks) auto
  have "is_token ?t" using assms by (intro issued_token_is_token) auto
  with d show "verify_handoff_token ?t sk t = Inr (sid, tid)"
    using assms(1-3) unfolding verify_direct_iff verify_web_iff by blast
qed

theorem issued_tokens_verify_witness:
  "\<exists>token. issue_handoff_token demo_key demo_session demo_token_id 1000 3600 = Inr token \<and>
    verify_direct_handoff_token token (replicate 32 107) 2000 = Inr (demo_session, demo_token_id) \<and>
    verify_handoff_token token demo_key 2000 = Inr (demo_session, demo_token_id)"
  by (rule issued_tokens_verify) (simp_all add: demo_key_bytes demo_token_ids, simp_all add: demo_key_def)

text \<open>
  C13.  How the two implementations of the check compare, for any token and any signing key.  They accept
  the same tokens with the same identifiers, but for two differences: the controller's check refuses a
  token of more than 4096 characters or with characters of no token, and a key of fewer than 32
  characters; the Lambda's refuses a key of more than 4096 bytes.
\<close>

theorem token_checks_agree:
  assumes "utf8_encode sk = Inr key"
  shows "verify_handoff_token token sk now = Inr r \<and> length key \<le> 4096 \<longleftrightarrow>
    verify_direct_handoff_token token key now = Inr r \<and> is_token token \<and> 32 \<le> length sk"
proof -
  have "length sk \<le> length key"
    using utf8_encode_length [OF assms] length_le_utf8_len [of sk] by simp
  then show ?thesis using assms unfolding verify_direct_iff verify_web_iff by auto
qed

theorem token_checks_agree_witness:
  "verify_handoff_token (issued_token (replicate 32 107) demo_session demo_token_id 1000 4600) demo_key 2000 =
     Inr (demo_session, demo_token_id)"
proof -
  have "is_token (issued_token (replicate 32 107) demo_session demo_token_id 1000 4600)"
    using demo_token_ids by (intro issued_token_is_token) auto
  moreover have "32 \<le> length demo_key" by (simp add: demo_key_def)
  ultimately show ?thesis using demo_token_checks [of 2000] token_checks_agree [OF demo_key_bytes] by auto
qed

text \<open>
  C14.  A token is good for at most two hours, give or take the clock skew: two times at which the
  Lambda accepts it are at most 7210 seconds apart, and both yield the same identifiers.  Each
  time it carries the HMAC of its first two parts under the key.
\<close>

theorem accepted_tokens_expire:
  assumes "verify_direct_handoff_token token key t1 = Inr r1"
    and "verify_direct_handoff_token token key t2 = Inr r2"
  shows "\<bar>t1 - t2\<bar> \<le> 7210 \<and> r1 = r2 \<and>
    (\<exists>h c s. split_on 46 token = [h, c, s] \<and>
       token_decode s = Inr (hmac_sha256 key (map of_nat (h @ lit ''.'' @ c))))"
proof -
  from assms(1) obtain h c s input claims where p: "split_on 46 token = [h, c, s]"
    "ascii_encode (h @ lit ''.'' @ c) = Inr input" "token_decode s = Inr (hmac_sha256 key input)"
    "token_json c = Inr claims" "claim_ids claims t1 r1"
    unfolding verify_direct_iff by blast
  with assms(2) have "claim_ids claims t2 r2" unfolding verify_direct_iff by auto
  with p(5) have "\<bar>t1 - t2\<bar> \<le> 7210" "r1 = r2"
    by (auto simp: claim_ids_def claims_ok_def prod_eq_iff split: pyval.splits)
  moreover have "input = map of_nat (h @ lit ''.'' @ c)"
    using p(2) by (auto simp: ascii_encode_def split: if_splits)
  ultimately show ?thesis using p by simp
qed

theorem accepted_tokens_expire_witness:
  "\<exists>h c s. split_on 46 (issued_token (replicate 32 107) demo_session demo_token_id 1000 4600) = [h, c, s] \<and>
     token_decode s = Inr (hmac_sha256 (replicate 32 107) (map of_nat (h @ lit ''.'' @ c)))"
  using accepted_tokens_expire [OF demo_token_checks [of 2000] demo_token_checks [of 2001]] by simp

end
