(* ===== verification/Store.thy ===== *)
theory Store imports Handoff begin

text \<open>
  \<open>DynamoHandoffStore\<close> of \<open>lambda/common/aws_runtime.py\<close> and the protocol \<open>HandoffStore\<close> of
  \<open>bridgefu_handoff.py\<close> it implements.  The DynamoDB client is code the repository does not hold:
  it is a record of operations, and the locale \<open>dynamo_table\<close> states what its documentation
  promises.  The locale \<open>handoff_store\<close> is the contract of the protocol over decoded rows; the
  store fulfils it over every client that fulfils \<open>dynamo_table\<close>.
\<close>

section \<open>The client\<close>

text \<open>
  A \<open>ConditionExpression\<close> by its syntax tree, with the names and values its placeholders stand for.
\<close>

datatype condition =
    Absent string
  | Equals string pyval
  | Greater string pyval
  | OneOf string "pyval list"
  | Both condition condition
  | Either condition condition

text \<open>
  The calls, by table name and hash key: \<open>get_item\<close> takes the projection and returns
  \<open>response.get("Item")\<close>; \<open>update_item\<close> takes the assignments of its \<open>SET\<close> expression and whether
  \<open>ReturnValues\<close> is \<open>ALL_NEW\<close>, and returns \<open>response.get("Attributes")\<close>.
\<close>

record 'w dynamo =
  get_item :: "pystr \<Rightarrow> pystr \<Rightarrow> string list \<Rightarrow> ('w, pyval) act"
  put_item :: "pystr \<Rightarrow> pydict \<Rightarrow> condition \<Rightarrow> ('w, unit) act"
  update_item :: "pystr \<Rightarrow> pystr \<Rightarrow> pydict \<Rightarrow> condition \<Rightarrow> bool \<Rightarrow> ('w, pyval) act"

definition wire_str :: "pystr \<Rightarrow> pyval" where
  "wire_str s = VDict [(lit ''S'', VStr s)]"

definition wire_int :: "int \<Rightarrow> pyval" where
  "wire_int i = VDict [(lit ''N'', VStr (dec_int i))]"

definition conditional_failure :: "exn \<Rightarrow> bool" where
  "conditional_failure e \<longleftrightarrow> e = ServiceError ''ConditionalCheckFailedException''"

section \<open>Encoding of values\<close>

fun decode_value :: "pylib \<Rightarrow> nat \<Rightarrow> pyval \<Rightarrow> pyval result" where
  "decode_value lib depth (VDict [(kind, raw)]) =
     (let invalid = HandoffError ''handoff_store_invalid'' 500 in
      if 2 < depth then Inl invalid
      else if kind = lit ''S'' \<and> is_str raw then Inr raw
      else if kind = lit ''N'' \<and> is_str raw then
        rbind (some_or invalid (parse_int lib (str_of raw))) (\<lambda>i. Inr (VInt i))
      else if kind = lit ''M'' then
        (case raw of
           VDict m \<Rightarrow>
             if m = [] \<or> [] \<in> keys m then Inl invalid
             else rbind (dict_map (decode_value lib (Suc depth)) m) (\<lambda>d. Inr (VDict d))
         | _ \<Rightarrow> Inl invalid)
      else Inl invalid)"
| "decode_value lib depth _ = Inl (HandoffError ''handoff_store_invalid'' 500)"

definition decode_item :: "pylib \<Rightarrow> pydict \<Rightarrow> pydict result" where
  "decode_item lib it = dict_map (decode_value lib 0) it"

fun encode_value :: "nat \<Rightarrow> pyval \<Rightarrow> pyval result" where
  "encode_value depth v =
     (let invalid = HandoffError ''handoff_store_invalid'' 500 in
      if 2 < depth \<or> is_bool v then Inl invalid
      else (case v of
              VInt i \<Rightarrow> Inr (wire_int i)
            | VStr s \<Rightarrow> Inr (wire_str s)
            | VDict m \<Rightarrow>
                if m = [] \<or> [] \<in> keys m then Inl invalid
                else rbind (dict_map (encode_value (Suc depth)) m) (\<lambda>d. Inr (VDict [(lit ''M'', VDict d)]))
            | _ \<Rightarrow> Inl invalid))"

declare encode_value.simps [simp del]

definition encode_item :: "pydict \<Rightarrow> pydict result" where
  "encode_item d = dict_map (encode_value 0) d"

section \<open>The store\<close>

definition PROJECTION :: "string list" where
  "PROJECTION =
     [''schema_version'', ''correlation_id'', ''customer_name'', ''issue_summary'', ''intent'',
      ''verification_status'', ''vapi_call_reference'', ''vapi_call_fingerprint'',
      ''content_hash'', ''created_at'', ''updated_at'', ''expires_at'', ''handoff_status'',
      ''bridgefu_call_id'', ''attachment_expires_at'', ''screen_pop_values'',
      ''screen_pop_schema_hash'', ''direct_token_id'', ''direct_leg_id'', ''direct_route_id'',
      ''direct_idempotency_key'']"

definition dynamo_get :: "pylib \<Rightarrow> 'w dynamo \<Rightarrow> pystr \<Rightarrow> pystr \<Rightarrow> ('w, pydict option) act" where
  "dynamo_get lib db tn cid =
     abind (get_item db tn cid PROJECTION) (\<lambda>v.
     case v of
       VDict it \<Rightarrow> alift (rbind (decode_item lib it) (\<lambda>d. Inr (Some d)))
     | _ \<Rightarrow> aret None)"

text \<open>\<open>str(record["correlation_id"])\<close>; the table's hash key is a string, so other types never get here.\<close>

definition record_id :: "pydict \<Rightarrow> pystr result" where
  "record_id d =
     rbind (some_or (PyError ''KeyError'') (get_opt d ''correlation_id''))
       (expect_str (PyError ''TypeError''))"

definition status_in :: "pydict \<Rightarrow> string list \<Rightarrow> bool" where
  "status_in d ss \<longleftrightarrow> list_ex (\<lambda>s. py_eq (get_key d ''handoff_status'') (VStr (lit s))) ss"

definition exact_replay :: "pydict option \<Rightarrow> pydict \<Rightarrow> bool" where
  "exact_replay existing d \<longleftrightarrow>
     (case existing of
        None \<Rightarrow> False
      | Some e \<Rightarrow>
          py_eq (get_key e ''schema_version'') (get_key d ''schema_version'') \<and>
          py_eq (get_key e ''vapi_call_fingerprint'') (get_key d ''vapi_call_fingerprint'') \<and>
          py_eq (get_key e ''content_hash'') (get_key d ''content_hash'') \<and>
          status_in e [''PREPARED'', ''RESERVED''])"

definition dynamo_put_prepared :: "pylib \<Rightarrow> 'w dynamo \<Rightarrow> pystr \<Rightarrow> pydict \<Rightarrow> ('w, pystr) act" where
  "dynamo_put_prepared lib db tn d =
     abind
       (acatch
         (abind (alift (encode_item d)) (\<lambda>it.
          abind (put_item db tn it (Absent ''correlation_id'')) (\<lambda>_. aret True)))
         (\<lambda>e. if conditional_failure e then aret False else araise e))
       (\<lambda>created.
         if created then aret (lit ''created'')
         else
         abind (alift (record_id d)) (\<lambda>cid.
         abind (dynamo_get lib db tn cid) (\<lambda>existing.
         if exact_replay existing d then aret (lit ''replayed'')
         else araise (HandoffError ''handoff_replay_conflict'' 409))))"

text \<open>\<open>except Exception as error: if _conditional_failure(error): raise e\<close>.\<close>

definition on_conflict :: "exn \<Rightarrow> ('w, 'a) act \<Rightarrow> ('w, 'a) act" where
  "on_conflict e m = acatch m (\<lambda>x. araise (if conditional_failure x then e else x))"

definition dynamo_mark_reserved ::
    "'w dynamo \<Rightarrow> pystr \<Rightarrow> pystr \<Rightarrow> int \<Rightarrow> pystr \<Rightarrow> int \<Rightarrow> ('w, unit) act" where
  "dynamo_mark_reserved db tn cid updated call expiry =
     on_conflict (HandoffError ''handoff_state_conflict'' 409)
       (abind (update_item db tn cid
          (mk [(''handoff_status'', wire_str (lit ''RESERVED'')), (''updated_at'', wire_int updated),
               (''bridgefu_call_id'', wire_str call), (''attachment_expires_at'', wire_int expiry)])
          (OneOf ''handoff_status'' [wire_str (lit ''PREPARED''), wire_str (lit ''RESERVED'')]) False)
        (\<lambda>_. aret ()))"

definition direct_identity_hash :: "vapi_identity \<Rightarrow> pystr result" where
  "direct_identity_hash i =
     rbind (ascii_encode (lit ''direct-vapi|'' @ org_id i @ lit ''|'' @ vapi_call i)) (\<lambda>bs.
     Inr (hexdigest (sha256 bs)))"

definition direct_condition :: "pystr \<Rightarrow> int \<Rightarrow> pystr \<Rightarrow> pystr \<Rightarrow> condition" where
  "direct_condition token updated content ident =
     Both (Equals ''direct_token_id'' (wire_str token))
    (Both (Greater ''expires_at'' (wire_int updated))
    (Both (OneOf ''handoff_status''
             [wire_str (lit ''MAPPED''), wire_str (lit ''PREPARED''), wire_str (lit ''RESERVED'')])
    (Both (Either (Absent ''content_hash'') (Equals ''content_hash'' (wire_str content)))
          (Either (Absent ''vapi_call_fingerprint'')
                  (Equals ''vapi_call_fingerprint'' (wire_str ident))))))"

definition direct_binding :: "pydict \<Rightarrow> pydict" where
  "direct_binding d = mk
     [(''call_id'', get_key d ''bridgefu_call_id''), (''leg_id'', get_key d ''direct_leg_id''),
      (''route_id'', get_key d ''direct_route_id''),
      (''idempotency_key'', get_key d ''direct_idempotency_key'')]"

definition dynamo_prepare_direct ::
    "pylib \<Rightarrow> 'w dynamo \<Rightarrow> pystr \<Rightarrow> pystr \<Rightarrow> pystr \<Rightarrow> vapi_identity \<Rightarrow> strdict \<Rightarrow> int \<Rightarrow>
     ('w, pydict) act" where
  "dynamo_prepare_direct lib db tn session token ident vals updated =
     abind (alift (content_hash vals)) (\<lambda>content.
     abind (alift (direct_identity_hash ident)) (\<lambda>idh.
     abind (on_conflict (HandoffError ''direct_handoff_conflict'' 409)
       (abind (alift (encode_value 0 (VDict (strvals vals)))) (\<lambda>wire.
        update_item db tn session
          (mk [(''handoff_status'', wire_str (lit ''PREPARED'')), (''updated_at'', wire_int updated),
               (''screen_pop_values'', wire), (''content_hash'', wire_str content),
               (''vapi_call_fingerprint'', wire_str idh)])
          (direct_condition token updated content idh) True))) (\<lambda>attributes.
     abind (alift (case attributes of VDict it \<Rightarrow> decode_item lib it | _ \<Rightarrow> Inr [])) (\<lambda>d.
     let expected = direct_binding d in
     if list_ex (\<lambda>p. \<not> is_str (snd p) \<or> \<not> loose_identifier lib (str_of (snd p))) expected
     then araise (HandoffError ''direct_handoff_binding_invalid'' 500)
     else aret expected))))"

definition dynamo_mark_direct_started :: "'w dynamo \<Rightarrow> pystr \<Rightarrow> pystr \<Rightarrow> int \<Rightarrow> ('w, unit) act" where
  "dynamo_mark_direct_started db tn session updated =
     on_conflict (HandoffError ''direct_handoff_conflict'' 409)
       (abind (update_item db tn session
          (mk [(''handoff_status'', wire_str (lit ''RESERVED'')), (''updated_at'', wire_int updated)])
          (OneOf ''handoff_status'' [wire_str (lit ''PREPARED''), wire_str (lit ''RESERVED'')]) False)
        (\<lambda>_. aret ()))"

text \<open>The constructor's check of the table name.\<close>

definition dynamo_table_name :: "pyval \<Rightarrow> pystr result" where
  "dynamo_table_name v =
     rbind (expect_str (HandoffError ''handoff_store_invalid'' 500) v) (\<lambda>s.
     if s = [] then Inl (HandoffError ''handoff_store_invalid'' 500) else Inr s)"

section \<open>What the client promises\<close>

text \<open>
  Two values are the same up to the order in which their dictionaries list their keys; a service
  returns a stored map in an order of its own.
\<close>

inductive same :: "pyval \<Rightarrow> pyval \<Rightarrow> bool" where
  same_atom: "\<not> is_dict v \<Longrightarrow> same v v"
| same_dict: "distinct (map fst e) \<Longrightarrow> (\<And>k. rel_option same (map_of d k) (map_of e k)) \<Longrightarrow>
    same (VDict d) (VDict e)"
  monos option.rel_mono

inductive_cases same_dictE: "same (VDict d) w"
inductive_simps same_str [simp]: "same (VStr s) w"
inductive_simps same_int [simp]: "same (VInt i) w"

definition wire_number :: "pyval \<Rightarrow> int option" where
  "wire_number v =
     (case v of VDict [(k, VStr s)] \<Rightarrow> if k = lit ''N'' then parse_int ascii_pylib s else None
      | _ \<Rightarrow> None)"

fun holds :: "pydict option \<Rightarrow> condition \<Rightarrow> bool" where
  "holds it (Absent a) = (Option.bind it (\<lambda>d. get_opt d a) = None)"
| "holds it (Equals a v) = (Option.bind it (\<lambda>d. get_opt d a) = Some v)"
| "holds it (Greater a v) =
     (case Option.bind (Option.bind it (\<lambda>d. get_opt d a)) wire_number of
        None \<Rightarrow> False
      | Some i \<Rightarrow> (case wire_number v of None \<Rightarrow> False | Some j \<Rightarrow> j < i))"
| "holds it (OneOf a vs) =
     (case Option.bind it (\<lambda>d. get_opt d a) of None \<Rightarrow> False | Some v \<Rightarrow> v \<in> set vs)"
| "holds it (Both c d) = (holds it c \<and> holds it d)"
| "holds it (Either c d) = (holds it c \<or> holds it d)"

definition project :: "string list \<Rightarrow> pydict \<Rightarrow> pydict" where
  "project ps d = filter (\<lambda>p. fst p \<in> set (map lit ps)) d"

text \<open>The item an update leaves: the old one, or a new one that holds only the key, with the assignments.\<close>

definition updated_item :: "pydict option \<Rightarrow> pystr \<Rightarrow> pydict \<Rightarrow> pydict" where
  "updated_item it k sets =
     dict_update (case it of None \<Rightarrow> [(lit ''correlation_id'', wire_str k)] | Some d \<Rightarrow> d) sets"

text \<open>
  \<open>items w t k\<close> is the item of table \<open>t\<close> with hash key \<open>k\<close>.  A write whose condition fails raises
  the conditional failure and writes nothing; a write that fails otherwise may have happened or
  not.  While the service is \<open>up\<close>, no call fails except by its condition.
\<close>

locale dynamo_table =
  fixes db :: "'w dynamo"
    and items :: "'w \<Rightarrow> pystr \<Rightarrow> pystr \<Rightarrow> pydict option"
    and up :: "'w \<Rightarrow> bool"
  assumes get_law: "get_item db t k proj w = (r, w') \<Longrightarrow> items w' = items w \<and>
      (\<forall>v. r = Inr v \<longrightarrow> (case items w t k of None \<Rightarrow> v = VNone
         | Some it \<Rightarrow> same (VDict (project proj it)) v))"
    and put_law: "put_item db t it c w = (u, w') \<Longrightarrow> get_key it ''correlation_id'' = wire_str k \<Longrightarrow>
      (u = Inr () \<and> holds (items w t k) c \<and>
         items w' = (items w)(t := (items w t)(k \<mapsto> it))) \<or>
      (\<exists>e. u = Inl e \<and> conditional_failure e \<and> \<not> holds (items w t k) c \<and> items w' = items w) \<or>
      (\<exists>e. u = Inl e \<and> \<not> conditional_failure e \<and> \<not> up w \<and> (items w' = items w \<or>
         holds (items w t k) c \<and> items w' = (items w)(t := (items w t)(k \<mapsto> it))))"
    and update_law: "update_item db t k sets c new w = (r, w') \<Longrightarrow>
      (\<exists>v. r = Inr v \<and> holds (items w t k) c \<and>
         items w' = (items w)(t := (items w t)(k \<mapsto> updated_item (items w t k) k sets)) \<and>
         (if new then same (VDict (updated_item (items w t k) k sets)) v else v = VNone)) \<or>
      (\<exists>e. r = Inl e \<and> conditional_failure e \<and> \<not> holds (items w t k) c \<and> items w' = items w) \<or>
      (\<exists>e. r = Inl e \<and> \<not> conditional_failure e \<and> \<not> up w \<and> (items w' = items w \<or>
         holds (items w t k) c \<and>
         items w' = (items w)(t := (items w t)(k \<mapsto> updated_item (items w t k) k sets))))"
    and client_errors: "get_item db t k proj w = (Inl e, w') \<or> put_item db t it c w = (Inl e, w') \<or>
        update_item db t k sets c new w = (Inl e, w') \<Longrightarrow> \<forall>code status. e \<noteq> HandoffError code status"
    and get_up: "up w \<Longrightarrow> get_item db t k proj w = (r, w') \<Longrightarrow> (\<exists>v. r = Inr v) \<and> up w'"
    and put_up: "up w \<Longrightarrow> put_item db t it c w = (u, w') \<Longrightarrow> up w'"
    and update_up: "up w \<Longrightarrow> update_item db t k sets c new w = (r, w') \<Longrightarrow> up w'"
begin

end

section \<open>Decoding inverts encoding\<close>

lemma encode_value_cases:
  "encode_value n v = Inr w \<longleftrightarrow> n \<le> 2 \<and>
     ((\<exists>i. v = VInt i \<and> w = wire_int i) \<or> (\<exists>s. v = VStr s \<and> w = wire_str s) \<or>
      (\<exists>m d. v = VDict m \<and> m \<noteq> [] \<and> [] \<notin> keys m \<and> dict_map (encode_value (Suc n)) m = Inr d \<and>
         w = VDict [(lit ''M'', VDict d)]))"
  by (subst encode_value.simps) (cases v; auto simp: Let_def result_simps guard_eq)

lemma digit_run_digits:
  "list_all is_digit s \<Longrightarrow> s \<noteq> [] \<or> ok \<Longrightarrow> digit_run lib ok s = Some (map (\<lambda>c. c - 48) s)"
  by (induction s arbitrary: ok) (auto simp: digit_value_def is_digit_def)

lemma strip_digits:
  assumes "list_all (\<lambda>c. \<not> is_space c) s"
  shows "strip_if is_space s = s"
proof -
  have "dropWhile is_space t = t" if "list_all (\<lambda>c. \<not> is_space c) t" for t
    using that by (cases t) auto
  from this [OF assms] this [of "rev s"] assms show ?thesis
    by (simp add: strip_if_def lstrip_if_def rstrip_if_def list_all_iff)
qed

lemma foldl_digits: "foldl (\<lambda>a d. 10 * a + d) a (map (\<lambda>c. c - 48) s) = foldl (\<lambda>a c. 10 * a + (c - 48)) a s"
  by (induction s arbitrary: a) auto

text \<open>\<open>int(str(i))\<close> is \<open>i\<close>, up to the interpreter's limit of 4300 digits.\<close>

lemma parse_int_dec_int:
  assumes "length (dec_nat (nat \<bar>i\<bar>)) \<le> 4300"
  shows "parse_int lib (dec_int i) = Some i"
proof -
  have d: "list_all is_digit (dec_nat n)" for n by (rule dec_nat_digits)
  then have run: "digit_run lib False (dec_nat n) = Some (map (\<lambda>c. c - 48) (dec_nat n))" for n
    by (intro digit_run_digits) auto
  have val: "foldl (\<lambda>a d. 10 * a + d) 0 (map (\<lambda>c. c - 48) (dec_nat n)) = n" for n
    using digits_val_dec_nat [of n] unfolding foldl_digits digits_val_def by simp
  have ns: "list_all (\<lambda>c. \<not> is_space c) (dec_nat n)" for n
    using d [of n] by (auto simp: list_all_iff is_digit_def is_space_def)
  then have st: "strip_if is_space (dec_nat n) = dec_nat n"
    "strip_if is_space (45 # dec_nat n) = 45 # dec_nat n" for n
    by (auto intro!: strip_digits simp: is_space_def)
  have hd: "hd (dec_nat n) \<noteq> 45 \<and> hd (dec_nat n) \<noteq> 43" for n
    using dec_nat_hd_digit [of n] by (auto simp: is_digit_def)
  show ?thesis
  proof (cases "i < 0")
    case True
    then show ?thesis using assms run val st by (simp add: parse_int_def dec_int_def Let_def)
  next
    case False
    then show ?thesis using assms run val st hd by (simp add: parse_int_def dec_int_def Let_def)
  qed
qed

fun storable :: "pyval \<Rightarrow> bool" where
  "storable (VInt i) = (length (dec_nat (nat \<bar>i\<bar>)) \<le> 4300)"
| "storable (VDict d) = list_all (\<lambda>p. storable (snd p)) d"
| "storable _ = True"

lemma decode_wire [simp]:
  "n \<le> 2 \<Longrightarrow> decode_value lib n (wire_str s) = Inr (VStr s)"
  "n \<le> 2 \<Longrightarrow> storable (VInt i) \<Longrightarrow> decode_value lib n (wire_int i) = Inr (VInt i)"
  by (simp_all add: wire_str_def wire_int_def parse_int_dec_int Let_def)

lemma dict_map_inverse:
  assumes "dict_map f d = Inr e" "\<And>p w. p \<in> set d \<Longrightarrow> f (snd p) = Inr w \<Longrightarrow> g w = Inr (snd p)"
  shows "dict_map g e = Inr d"
  using assms
proof (induction d arbitrary: e)
  case (Cons p d)
  then obtain w e' where w: "f (snd p) = Inr w" "dict_map f d = Inr e'" "e = (fst p, w) # e'"
    by (auto simp: result_simps)
  have "g w = Inr (snd p)" using Cons.prems(2) [of p] w(1) by simp
  moreover have "dict_map g e' = Inr d" using Cons.IH [OF w(2)] Cons.prems(2) by simp
  ultimately show ?case using w(3) by simp
qed simp

lemma dict_map_Nil_iff: "dict_map f d = Inr e \<Longrightarrow> e = [] \<longleftrightarrow> d = []"
  by (cases d) (auto simp: result_simps)

lemma keys_dict_map: "dict_map f d = Inr e \<Longrightarrow> keys e = keys d"
  using dict_map_keys [of f d e] by (simp add: keys_def)

lemma decode_encode:
  "encode_value n v = Inr w \<Longrightarrow> storable v \<Longrightarrow> decode_value lib n w = Inr v"
proof (induction n v arbitrary: w rule: encode_value.induct)
  case (1 n v)
  from "1.prems"(1) consider i where "v = VInt i" "w = wire_int i"
    | s where "v = VStr s" "w = wire_str s"
    | m d where "v = VDict m" "m \<noteq> []" "[] \<notin> keys m" "dict_map (encode_value (Suc n)) m = Inr d"
      "w = VDict [(lit ''M'', VDict d)]"
    by (auto simp: encode_value_cases)
  then show ?case
  proof cases
    case 3
    have n: "n \<le> 2" using "1.prems"(1) by (simp add: encode_value_cases)
    have "dict_map (decode_value lib (Suc n)) d = Inr m"
      using 3(4)
    proof (rule dict_map_inverse)
      fix p x assume p: "p \<in> set m" "encode_value (Suc n) (snd p) = Inr x"
      moreover have "storable (snd p)" using "1.prems"(2) p(1) 3(1) by (auto simp: list_all_iff)
      ultimately show "decode_value lib (Suc n) x = Inr (snd p)"
        using "1.IH" [of _ m p x] n 3 by (auto simp: not_less)
    qed
    moreover have "d \<noteq> []" "keys d = keys m"
      using 3 by (auto simp: dict_map_Nil_iff keys_dict_map)
    ultimately show ?thesis using n 3 by (simp add: Let_def)
  qed (use "1.prems" in \<open>auto simp: encode_value_cases\<close>)
qed

lemma decode_encode_item:
  "encode_item d = Inr it \<Longrightarrow> storable (VDict d) \<Longrightarrow> decode_item lib it = Inr d"
  unfolding encode_item_def decode_item_def
  by (erule dict_map_inverse) (auto simp: list_all_iff intro: decode_encode)

text \<open>Decoding respects the order-free equality.\<close>

lemma same_dict_iff:
  "same (VDict d) w \<longleftrightarrow>
     (\<exists>e. w = VDict e \<and> distinct (map fst e) \<and> (\<forall>k. rel_option same (map_of d k) (map_of e k)))"
  by (auto elim: same_dictE intro: same_dict)

lemma same_lookup:
  assumes "same (VDict d) (VDict e)"
  shows "map_of d k = None \<longleftrightarrow> map_of e k = None"
    and "map_of e k = Some w \<Longrightarrow> \<exists>v. map_of d k = Some v \<and> same v w"
    and "map_of d k = Some v \<Longrightarrow> \<exists>w. map_of e k = Some w \<and> same v w"
proof -
  have r: "rel_option same (map_of d k) (map_of e k)" using assms by (simp add: same_dict_iff)
  then show "map_of d k = None \<longleftrightarrow> map_of e k = None" by (cases "map_of d k"; cases "map_of e k") auto
  show "map_of e k = Some w \<Longrightarrow> \<exists>v. map_of d k = Some v \<and> same v w"
    using r by (cases "map_of d k") auto
  show "map_of d k = Some v \<Longrightarrow> \<exists>w. map_of e k = Some w \<and> same v w"
    using r by (cases "map_of e k") auto
qed

lemma same_keys:
  assumes "same (VDict d) (VDict e)"
  shows "keys e = keys d"
proof -
  have "map_of d k = None \<longleftrightarrow> map_of e k = None" for k using same_lookup(1) [OF assms] .
  then show ?thesis unfolding keys_dom dom_def by simp
qed

lemma keys_empty [simp]: "keys d = {} \<longleftrightarrow> d = []" "{} = keys d \<longleftrightarrow> d = []"
  by (auto simp: keys_def)

lemma dict_map_same:
  assumes m: "same (VDict m) (VDict m')" and d: "dict_map f m = Inr d"
    and f: "\<And>p w x. p \<in> set m \<Longrightarrow> same (snd p) w \<Longrightarrow> f (snd p) = Inr x \<Longrightarrow> \<exists>y. f w = Inr y \<and> same x y"
  shows "\<exists>d'. dict_map f m' = Inr d' \<and> same (VDict d) (VDict d')"
proof -
  have dist: "distinct (map fst m')" using m by (simp add: same_dict_iff)
  have step: "\<exists>v x y. map_of m k = Some v \<and> f v = Inr x \<and> f w = Inr y \<and> same x y"
    if "map_of m' k = Some w" for k w
  proof -
    obtain v where v: "map_of m k = Some v" "same v w" using same_lookup(2) [OF m \<open>map_of m' k = Some w\<close>] by blast
    then have "(k, v) \<in> set m" by (simp add: map_of_SomeD)
    moreover obtain x where "f v = Inr x" using dict_map_lookup(2) [OF d v(1)] by blast
    ultimately show ?thesis using f [of "(k, v)" w x] v by auto
  qed
  have "\<exists>y. f (snd p) = Inr y" if "p \<in> set m'" for p
    using step [of "fst p" "snd p"] that dist by (cases p) auto
  then obtain d' where d': "dict_map f m' = Inr d'" using dict_map_ok by metis
  have "rel_option same (map_of d k) (map_of d' k)" for k
  proof (cases "map_of m' k")
    case None
    then show ?thesis using same_lookup(1) [OF m, of k] dict_map_lookup(1) [OF d] dict_map_lookup(1) [OF d'] by simp
  next
    case (Some w)
    then obtain v x y where "map_of m k = Some v" "f v = Inr x" "f w = Inr y" "same x y" using step by blast
    then show ?thesis using dict_map_lookup(2) [OF d, of k v] dict_map_lookup(2) [OF d' Some] by auto
  qed
  moreover have "distinct (map fst d')" using dist dict_map_keys [OF d'] by simp
  ultimately show ?thesis using d' by (auto simp: same_dict_iff)
qed

lemma same_single:
  assumes "same (VDict [(k, raw)]) w"
  shows "\<exists>raw'. w = VDict [(k, raw')] \<and> same raw raw'"
proof -
  from assms obtain e where e: "w = VDict e" "distinct (map fst e)" and
    r: "rel_option same (map_of [(k, raw)] j) (map_of e j)" for j
    by (auto simp: same_dict_iff)
  from r [of k] obtain raw' where raw: "map_of e k = Some raw'" "same raw raw'"
    by (cases "map_of e k") auto
  have "fst p = k" if "p \<in> set e" for p
  proof (rule ccontr)
    assume "fst p \<noteq> k"
    then have "map_of e (fst p) = None" using r [of "fst p"] by (simp split: option.splits)
    with that show False by (simp add: map_of_eq_None_iff)
  qed
  with e(2) raw(1) have "e = [(k, raw')]"
    by (cases e; cases "tl e") (auto split: if_splits)
  with e raw show ?thesis by simp
qed

lemma decode_same:
  "decode_value lib n v = Inr x \<Longrightarrow> same v w \<Longrightarrow> \<exists>y. decode_value lib n w = Inr y \<and> same x y"
proof (induction lib n v arbitrary: x w rule: decode_value.induct)
  case (1 lib n kind raw)
  obtain raw' where w: "w = VDict [(kind, raw')]" "same raw raw'"
    using same_single [OF "1.prems"(2)] by blast
  show ?case
  proof (cases "is_str raw")
    case True
    then show ?thesis using "1.prems"(1) w
      by (cases raw) (auto simp: Let_def result_simps split: if_splits intro: same.intros)
  next
    case False
    then obtain m d where m: "raw = VDict m" "kind = lit ''M''" "\<not> 2 < n" "m \<noteq> []" "[] \<notin> keys m"
      "dict_map (decode_value lib (Suc n)) m = Inr d" "x = VDict d"
      using "1.prems"(1) by (auto simp: Let_def result_simps guard_eq split: if_splits pyval.splits)
    from w(2) m(1) obtain m' where m': "raw' = VDict m'" by (auto simp: same_dict_iff)
    have "\<exists>d'. dict_map (decode_value lib (Suc n)) m' = Inr d' \<and> same (VDict d) (VDict d')"
      using w(2) m m' "1.IH" by (intro dict_map_same [of m m' "decode_value lib (Suc n)" d]) auto
    moreover have "keys m' = keys m" "m' \<noteq> []"
      using w(2) m m' same_keys [of m m'] by auto
    ultimately show ?thesis using m m' w by (auto simp: Let_def)
  qed
qed simp_all

section \<open>The contract of the protocol\<close>

record 'w handoff_store =
  put_prepared :: "pydict \<Rightarrow> ('w, pystr) act"
  get_record :: "pystr \<Rightarrow> ('w, pydict option) act"
  mark_reserved :: "pystr \<Rightarrow> int \<Rightarrow> pystr \<Rightarrow> int \<Rightarrow> ('w, unit) act"

definition dynamo_store :: "pylib \<Rightarrow> 'w dynamo \<Rightarrow> pystr \<Rightarrow> 'w handoff_store" where
  "dynamo_store lib db tn =
     \<lparr>put_prepared = dynamo_put_prepared lib db tn, get_record = dynamo_get lib db tn,
      mark_reserved = dynamo_mark_reserved db tn\<rparr>"

text \<open>A row as read agrees with the row as stored on every attribute the projection names.\<close>

definition agrees :: "pydict \<Rightarrow> pydict \<Rightarrow> bool" where
  "agrees d e \<longleftrightarrow> (\<forall>a\<in>set PROJECTION. rel_option same (get_opt d a) (get_opt e a))"

definition reserved_row :: "pydict \<Rightarrow> int \<Rightarrow> pystr \<Rightarrow> int \<Rightarrow> pydict" where
  "reserved_row d updated call expiry =
     dict_update d (mk [(''handoff_status'', VStr (lit ''RESERVED'')), (''updated_at'', VInt updated),
       (''bridgefu_call_id'', VStr call), (''attachment_expires_at'', VInt expiry)])"

definition reservable :: "pydict option \<Rightarrow> bool" where
  "reservable r \<longleftrightarrow> (\<exists>d. r = Some d \<and> status_in d [''PREPARED'', ''RESERVED''])"

text \<open>A record the store can hold: it encodes, decodes again, and its identifying attributes are scalars.\<close>

definition record_ok :: "pydict \<Rightarrow> bool" where
  "record_ok d \<longleftrightarrow> storable (VDict d) \<and> (\<exists>it. encode_item d = Inr it) \<and>
     list_all (\<lambda>a. \<not> is_dict (get_key d a))
       [''schema_version'', ''vapi_call_fingerprint'', ''content_hash'', ''handoff_status'']"

abbreviation replay_conflict :: exn where
  "replay_conflict \<equiv> HandoffError ''handoff_replay_conflict'' 409"

abbreviation state_conflict :: exn where
  "state_conflict \<equiv> HandoffError ''handoff_state_conflict'' 409"

locale handoff_store =
  fixes st :: "'w handoff_store"
    and row :: "'w \<Rightarrow> pystr \<Rightarrow> pydict option"
    and inv :: "'w \<Rightarrow> bool"
    and up :: "'w \<Rightarrow> bool"
  assumes get_spec: "inv w \<Longrightarrow> get_record st c w = (x, w') \<Longrightarrow>
      inv w' \<and> row w' = row w \<and> (\<forall>d. x = Inr d \<longrightarrow> rel_option agrees (row w c) d)"
    and put_spec: "inv w \<Longrightarrow> record_ok d \<Longrightarrow> get_key d ''correlation_id'' = VStr c \<Longrightarrow>
      put_prepared st d w = (r, w') \<Longrightarrow> inv w' \<and>
      (r = Inr (lit ''created'') \<and> row w c = None \<and> row w' = (row w)(c \<mapsto> d) \<or>
       r = Inr (lit ''replayed'') \<and> row w' = row w \<and> exact_replay (row w c) d \<or>
       r = Inl replay_conflict \<and> row w' = row w \<and> row w c \<noteq> None \<and> \<not> exact_replay (row w c) d \<or>
       (\<exists>e. r = Inl e \<and> \<not> up w \<and> (row w' = row w \<or> row w c = None \<and> row w' = (row w)(c \<mapsto> d))))"
    and mark_spec: "inv w \<Longrightarrow> storable (VInt n) \<Longrightarrow> storable (VInt m) \<Longrightarrow>
      mark_reserved st c n call m w = (u, w') \<Longrightarrow> inv w' \<and>
      (u = Inr () \<and> reservable (row w c) \<and>
         row w' = (row w)(c \<mapsto> reserved_row (the (row w c)) n call m) \<or>
       u = Inl state_conflict \<and> row w' = row w \<and> \<not> reservable (row w c) \<or>
       (\<exists>e. u = Inl e \<and> \<not> up w \<and> (row w' = row w \<or> reservable (row w c) \<and>
         row w' = (row w)(c \<mapsto> reserved_row (the (row w c)) n call m))))"
    and get_alive: "inv w \<Longrightarrow> up w \<Longrightarrow> get_record st c w = (x, w') \<Longrightarrow> (\<exists>d. x = Inr d) \<and> up w'"
    and put_alive: "up w \<Longrightarrow> put_prepared st d w = (r, w') \<Longrightarrow> up w'"
    and mark_alive: "up w \<Longrightarrow> mark_reserved st c n call m w = (u, w') \<Longrightarrow> up w'"
begin

end

section \<open>The DynamoDB store fulfils it\<close>

lemma dict_map_filter:
  "dict_map f d = Inr e \<Longrightarrow>
     dict_map f (filter (\<lambda>p. P (fst p)) d) = Inr (filter (\<lambda>p. P (fst p)) e)"
  by (induction d arbitrary: e) (auto simp: result_simps)

lemma decode_project: "decode_item lib it = Inr d \<Longrightarrow> decode_item lib (project ps it) = Inr (project ps d)"
  unfolding decode_item_def project_def by (rule dict_map_filter)

lemma map_of_filter_key: "P k \<Longrightarrow> map_of (filter (\<lambda>p. P (fst p)) d) k = map_of d k"
  by (induction d) auto

lemma get_opt_project: "a \<in> set ps \<Longrightarrow> get_opt (project ps d) a = get_opt d a"
  unfolding get_opt_def project_def by (rule map_of_filter_key) auto

lemma decode_item_same:
  assumes "same (VDict it) (VDict it')" "decode_item lib it = Inr d"
  shows "\<exists>d'. decode_item lib it' = Inr d' \<and> same (VDict d) (VDict d')"
  using assms unfolding decode_item_def by (rule dict_map_same) (auto intro: decode_same)

lemma decode_is_str: "decode_value lib n v = Inr (VStr s) \<Longrightarrow> v = wire_str s"
  by (cases "(lib, n, v)" rule: decode_value.cases)
    (auto simp: Let_def result_simps wire_str_def is_str_conv split: if_splits pyval.splits)

lemma decode_attr:
  assumes "decode_item lib it = Inr d"
  shows "get_opt it a = Some (wire_str s) \<longleftrightarrow> get_opt d a = Some (VStr s)"
    and "get_opt it a = None \<longleftrightarrow> get_opt d a = None"
proof -
  note look = dict_map_lookup [OF assms [unfolded decode_item_def], of "lit a"]
  show "get_opt it a = Some (wire_str s) \<longleftrightarrow> get_opt d a = Some (VStr s)"
    using look decode_is_str unfolding get_opt_def
    by (cases "map_of it (lit a)") (fastforce simp: result_simps)+
  show "get_opt it a = None \<longleftrightarrow> get_opt d a = None"
    using look unfolding get_opt_def by (cases "map_of it (lit a)") auto
qed

definition store_row ::
    "pylib \<Rightarrow> ('w \<Rightarrow> pystr \<Rightarrow> pystr \<Rightarrow> pydict option) \<Rightarrow> pystr \<Rightarrow> 'w \<Rightarrow> pystr \<Rightarrow> pydict option" where
  "store_row lib items tn w c =
     map_option (\<lambda>it. case decode_item lib it of Inr d \<Rightarrow> d | Inl _ \<Rightarrow> []) (items w tn c)"

text \<open>Every item decodes, and holds its key.\<close>

definition store_inv ::
    "pylib \<Rightarrow> ('w \<Rightarrow> pystr \<Rightarrow> pystr \<Rightarrow> pydict option) \<Rightarrow> pystr \<Rightarrow> 'w \<Rightarrow> bool" where
  "store_inv lib items tn w \<longleftrightarrow> (\<forall>c it. items w tn c = Some it \<longrightarrow>
     (\<exists>d. decode_item lib it = Inr d \<and> get_opt d ''correlation_id'' = Some (VStr c)))"

lemma store_row_Some:
  assumes "store_inv lib items tn w"
  shows "store_row lib items tn w c = Some d \<longleftrightarrow> (\<exists>it. items w tn c = Some it \<and> decode_item lib it = Inr d)"
proof (cases "items w tn c")
  case (Some it)
  with assms obtain e where "decode_item lib it = Inr e" unfolding store_inv_def by blast
  with Some show ?thesis by (auto simp: store_row_def)
qed (simp add: store_row_def)

lemma store_row_None: "store_row lib items tn w c = None \<longleftrightarrow> items w tn c = None"
  by (simp add: store_row_def)

lemma store_row_update:
  assumes "items w' = (items w)(tn := (items w tn)(c \<mapsto> it))" "decode_item lib it = Inr d"
  shows "store_row lib items tn w' = (store_row lib items tn w)(c \<mapsto> d)"
    and "store_inv lib items tn w \<Longrightarrow> get_opt d ''correlation_id'' = Some (VStr c) \<Longrightarrow>
      store_inv lib items tn w'"
  using assms by (auto simp: store_row_def store_inv_def fun_eq_iff)

lemma store_row_same:
  assumes "items w' = items w"
  shows "store_row lib items tn w' = store_row lib items tn w"
    and "store_inv lib items tn w' = store_inv lib items tn w"
  using assms by (simp_all add: store_row_def store_inv_def fun_eq_iff)

lemma holds_absent:
  assumes "store_inv lib items tn w"
  shows "holds (items w tn c) (Absent ''correlation_id'') \<longleftrightarrow> store_row lib items tn w c = None"
proof (cases "items w tn c")
  case (Some it)
  with assms obtain d where "decode_item lib it = Inr d" "get_opt d ''correlation_id'' = Some (VStr c)"
    unfolding store_inv_def by blast
  then have "get_opt it ''correlation_id'' = Some (wire_str c)" by (simp add: decode_attr(1))
  with Some show ?thesis by (simp add: store_row_def)
qed (simp add: store_row_def)

lemma status_in_iff:
  "status_in d ss \<longleftrightarrow> (\<exists>s\<in>set ss. get_opt d ''handoff_status'' = Some (VStr (lit s)))"
  by (auto simp: status_in_def list_ex_iff get_key_def get_or_def get_opt_def split: option.splits)

lemma holds_status:
  assumes "store_inv lib items tn w"
  shows "holds (items w tn c) (OneOf ''handoff_status'' (map (\<lambda>s. wire_str (lit s)) ss)) \<longleftrightarrow>
    (\<exists>d. store_row lib items tn w c = Some d \<and> status_in d ss)"
proof (cases "items w tn c")
  case (Some it)
  with assms obtain d where d: "decode_item lib it = Inr d" unfolding store_inv_def by blast
  have "holds (Some it) (OneOf ''handoff_status'' (map (\<lambda>s. wire_str (lit s)) ss)) \<longleftrightarrow>
      (\<exists>s\<in>set ss. get_opt it ''handoff_status'' = Some (wire_str (lit s)))"
    by (auto split: option.splits)
  also have "\<dots> \<longleftrightarrow> status_in d ss"
    unfolding status_in_iff decode_attr(1) [OF d] ..
  finally show ?thesis using Some d by (simp add: store_row_def)
qed (simp add: store_row_def)

lemma decode_updated:
  assumes "decode_item lib it = Inr d" "decode_item lib sets = Inr e"
  shows "decode_item lib (updated_item (Some it) c sets) = Inr (dict_update d e)"
  using assms unfolding decode_item_def updated_item_def by (simp add: dict_map_update)

lemma agreed_scalar:
  assumes "agrees d e" "a \<in> set PROJECTION" "\<not> is_dict v"
  shows "py_eq (get_key e a) v \<longleftrightarrow> py_eq (get_key d a) v"
proof -
  have r: "rel_option same (get_opt d a) (get_opt e a)" using assms by (simp add: agrees_def)
  have "py_eq x v \<longleftrightarrow> py_eq y v" if "same x y" for x y
    using that assms(3) by cases (auto split: pyval.splits)
  with r show ?thesis
    by (cases "get_opt d a"; cases "get_opt e a") (auto simp: get_key_def get_or_def get_opt_def)
qed

lemma exact_replay_agrees:
  assumes "record_ok d" "agrees x y"
  shows "exact_replay (Some x) d \<longleftrightarrow> exact_replay (Some y) d"
proof -
  have "py_eq (get_key y a) v = py_eq (get_key x a) v"
    if "a \<in> set [''schema_version'', ''vapi_call_fingerprint'', ''content_hash'', ''handoff_status'']"
      "\<not> is_dict v" for a v
    using agreed_scalar [OF assms(2) _ that(2)] that(1) by (auto simp: PROJECTION_def)
  from this this [of "''handoff_status''" "VStr _"] assms(1) show ?thesis
    by (simp add: exact_replay_def record_ok_def status_in_def)
qed

lemma dynamo_get_eq:
  assumes "get_item db tn c PROJECTION w = (r, v)"
  shows "dynamo_get lib db tn c w =
    ((case r of Inl e \<Rightarrow> Inl e
      | Inr y \<Rightarrow> (case y of VDict it \<Rightarrow> rbind (decode_item lib it) (\<lambda>d. Inr (Some d)) | _ \<Rightarrow> Inr None)), v)"
  unfolding dynamo_get_def abind_def assms by (cases r) (auto split: pyval.split)

lemma put_prepared_eq:
  assumes "encode_item d = Inr it" "record_id d = Inr c"
    and "put_item db tn it (Absent ''correlation_id'') w = (u, v)" "dynamo_get lib db tn c v = (x, v')"
  shows "dynamo_put_prepared lib db tn d w =
    (case u of Inr _ \<Rightarrow> (Inr (lit ''created''), v)
     | Inl e \<Rightarrow> if conditional_failure e
         then ((case x of Inl e' \<Rightarrow> Inl e'
                | Inr ex \<Rightarrow> if exact_replay ex d then Inr (lit ''replayed'') else Inl replay_conflict), v')
         else (Inl e, v))"
  unfolding dynamo_put_prepared_def abind_def acatch_def
  by (cases u; cases x) (simp_all add: assms)

lemma on_conflict_update:
  assumes "m w = (r, v)"
  shows "on_conflict e (abind m (\<lambda>_. aret ())) w =
    ((case r of Inr _ \<Rightarrow> Inr () | Inl x \<Rightarrow> Inl (if conditional_failure x then e else x)), v)"
  unfolding on_conflict_def acatch_def abind_def assms by (cases r) auto

lemma decode_reserved:
  assumes "storable (VInt n)" "storable (VInt m)"
  shows "decode_item lib
     (mk [(''handoff_status'', wire_str (lit ''RESERVED'')), (''updated_at'', wire_int n),
          (''bridgefu_call_id'', wire_str call), (''attachment_expires_at'', wire_int m)]) =
     Inr (mk [(''handoff_status'', VStr (lit ''RESERVED'')), (''updated_at'', VInt n),
          (''bridgefu_call_id'', VStr call), (''attachment_expires_at'', VInt m)])"
  using assms by (simp add: decode_item_def del: storable.simps)

definition status_condition :: "string list \<Rightarrow> condition" where
  "status_condition ss = OneOf ''handoff_status'' (map (\<lambda>s. wire_str (lit s)) ss)"

lemma status_conditions:
  "OneOf ''handoff_status'' [wire_str (lit ''PREPARED''), wire_str (lit ''RESERVED'')] =
     status_condition [''PREPARED'', ''RESERVED'']"
  by (simp add: status_condition_def)

context dynamo_table begin

lemma read_item:
  assumes inv: "store_inv lib items tn w" and g: "get_item db tn c PROJECTION w = (Inr v, w')"
  shows "(store_row lib items tn w c = None \<and> v = VNone) \<or>
    (\<exists>d it e. store_row lib items tn w c = Some d \<and> v = VDict it \<and> decode_item lib it = Inr e \<and> agrees d e)"
proof (cases "items w tn c")
  case None
  with get_law [OF g] show ?thesis by (simp add: store_row_def)
next
  case (Some it)
  with inv obtain d where d: "decode_item lib it = Inr d" unfolding store_inv_def by blast
  have sm: "same (VDict (project PROJECTION it)) v" using get_law [OF g] Some by simp
  then obtain it' where it': "v = VDict it'" unfolding same_dict_iff by blast
  obtain e where e: "decode_item lib it' = Inr e" "same (VDict (project PROJECTION d)) (VDict e)"
    using decode_item_same [OF sm [unfolded it'] decode_project [OF d]] by blast
  have "rel_option same (get_opt (project PROJECTION d) a) (get_opt e a)" for a
    using e(2) unfolding same_dict_iff get_opt_def by blast
  then have "agrees d e" using get_opt_project [of _ PROJECTION d] by (metis agrees_def)
  moreover have "store_row lib items tn w c = Some d" using Some d by (simp add: store_row_def)
  ultimately show ?thesis using it' e(1) by blast
qed

lemma get_refines:
  assumes inv: "store_inv lib items tn w" and g: "dynamo_get lib db tn c w = (x, w')"
  shows "store_inv lib items tn w' \<and> store_row lib items tn w' = store_row lib items tn w \<and>
      (\<forall>d. x = Inr d \<longrightarrow> rel_option agrees (store_row lib items tn w c) d) \<and>
      (up w \<longrightarrow> (\<exists>d. x = Inr d) \<and> up w') \<and>
      (\<forall>e. x = Inl e \<longrightarrow> \<not> up w)"
proof -
  obtain r v where call: "get_item db tn c PROJECTION w = (r, v)" by fastforce
  have i: "items v = items w" using get_law [OF call] by blast
  have alive: "up w \<Longrightarrow> (\<exists>y. r = Inr y) \<and> up v" using get_up call by blast
  have eq: "x = (case r of Inl e \<Rightarrow> Inl e
      | Inr y \<Rightarrow> (case y of VDict it \<Rightarrow> rbind (decode_item lib it) (\<lambda>d. Inr (Some d)) | _ \<Rightarrow> Inr None))"
    and w': "w' = v"
    using g unfolding dynamo_get_eq [OF call] by auto
  have same: "store_inv lib items tn w'" "store_row lib items tn w' = store_row lib items tn w"
    using store_row_same [of items v w, OF i] inv w' by simp_all
  show ?thesis
  proof (cases r)
    case (Inl e)
    with eq alive same show ?thesis by auto
  next
    case (Inr y)
    from read_item [OF inv call [unfolded Inr]] show ?thesis
    proof
      assume "store_row lib items tn w c = None \<and> y = VNone"
      then show ?thesis using eq Inr same alive w' by simp
    next
      assume "\<exists>d it e. store_row lib items tn w c = Some d \<and> y = VDict it \<and>
        decode_item lib it = Inr e \<and> agrees d e"
      then obtain d it e where d: "store_row lib items tn w c = Some d" "y = VDict it"
        "decode_item lib it = Inr e" "agrees d e" by blast
      then have "x = Inr (Some e)" using eq Inr by simp
      with d same alive Inr w' show ?thesis by simp
    qed
  qed
qed

lemma put_refines:
  assumes inv: "store_inv lib items tn w" and ok: "record_ok d"
    and key: "get_key d ''correlation_id'' = VStr c"
    and p: "dynamo_put_prepared lib db tn d w = (r, w')"
  shows "store_inv lib items tn w' \<and>
      (r = Inr (lit ''created'') \<and> store_row lib items tn w c = None \<and>
         store_row lib items tn w' = (store_row lib items tn w)(c \<mapsto> d) \<or>
       r = Inr (lit ''replayed'') \<and> store_row lib items tn w' = store_row lib items tn w \<and>
         exact_replay (store_row lib items tn w c) d \<or>
       r = Inl replay_conflict \<and> store_row lib items tn w' = store_row lib items tn w \<and>
         store_row lib items tn w c \<noteq> None \<and> \<not> exact_replay (store_row lib items tn w c) d \<or>
       (\<exists>e. r = Inl e \<and> \<not> up w \<and> (store_row lib items tn w' = store_row lib items tn w \<or>
         store_row lib items tn w c = None \<and>
         store_row lib items tn w' = (store_row lib items tn w)(c \<mapsto> d))))"
proof -
  obtain it where it: "encode_item d = Inr it" using ok by (auto simp: record_ok_def)
  have st: "storable (VDict d)" using ok by (simp add: record_ok_def)
  have dec: "decode_item lib it = Inr d" by (rule decode_encode_item [OF it st])
  have key': "get_opt d ''correlation_id'' = Some (VStr c)"
    using key by (auto simp: get_key_def get_or_def get_opt_def split: option.splits)
  have wkey: "get_key it ''correlation_id'' = wire_str c"
    using decode_attr(1) [OF dec, THEN iffD2, OF key'] by (simp add: get_key_def get_or_def get_opt_def)
  have rid: "record_id d = Inr c" using key' by (simp add: record_id_def)
  obtain u v where call: "put_item db tn it (Absent ''correlation_id'') w = (u, v)" by fastforce
  have law: "(u = Inr () \<and> store_row lib items tn w c = None \<and> items v = (items w)(tn := (items w tn)(c \<mapsto> it))) \<or>
    (\<exists>e. u = Inl e \<and> conditional_failure e \<and> store_row lib items tn w c \<noteq> None \<and> items v = items w) \<or>
    (\<exists>e. u = Inl e \<and> \<not> conditional_failure e \<and> \<not> up w \<and> (items v = items w \<or>
      store_row lib items tn w c = None \<and> items v = (items w)(tn := (items w tn)(c \<mapsto> it))))"
    using put_law [OF call wkey] unfolding holds_absent [OF inv] .
  obtain x v' where get: "dynamo_get lib db tn c v = (x, v')" by fastforce
  note eq = p [unfolded put_prepared_eq [OF it rid call get]]
  have upd: "store_row lib items tn v = (store_row lib items tn w)(c \<mapsto> d)" "store_inv lib items tn v"
    if "items v = (items w)(tn := (items w tn)(c \<mapsto> it))"
    using store_row_update [OF that dec] inv key' by auto
  from law show ?thesis
  proof (elim disjE)
    assume "u = Inr () \<and> store_row lib items tn w c = None \<and> items v = (items w)(tn := (items w tn)(c \<mapsto> it))"
    moreover from this have "r = Inr (lit ''created'')" "w' = v" using eq by auto
    ultimately show ?thesis using upd by blast
  next
    assume f: "\<exists>e. u = Inl e \<and> conditional_failure e \<and> store_row lib items tn w c \<noteq> None \<and> items v = items w"
    have same: "store_row lib items tn v = store_row lib items tn w" "store_inv lib items tn v"
      using store_row_same [of items v w] f inv by auto
    note g = get_refines [OF same(2) get]
    have p': "(r, w') = ((case x of Inl e' \<Rightarrow> Inl e'
        | Inr ex \<Rightarrow> if exact_replay ex d then Inr (lit ''replayed'') else Inl replay_conflict), v')"
      using eq f by auto
    have up: "up w \<Longrightarrow> up v" using put_up call by blast
    show ?thesis
    proof (cases x)
      case (Inl e)
      with p' g up same show ?thesis by auto
    next
      case (Inr ex)
      have rel: "rel_option agrees (store_row lib items tn w c) ex" using g Inr same by simp
      have "exact_replay (store_row lib items tn w c) d \<longleftrightarrow> exact_replay ex d"
        using rel exact_replay_agrees [OF ok] by (cases ex; cases "store_row lib items tn w c") auto
      with p' Inr g same f show ?thesis by (auto split: if_splits)
    qed
  next
    assume f: "\<exists>e. u = Inl e \<and> \<not> conditional_failure e \<and> \<not> up w \<and> (items v = items w \<or>
      store_row lib items tn w c = None \<and> items v = (items w)(tn := (items w tn)(c \<mapsto> it)))"
    then have "w' = v" "\<exists>e. r = Inl e"
      using eq by auto
    moreover from f upd inv have "store_inv lib items tn v \<and>
      (store_row lib items tn v = store_row lib items tn w \<or> store_row lib items tn w c = None \<and>
        store_row lib items tn v = (store_row lib items tn w)(c \<mapsto> d))"
      by (metis store_row_same)
    ultimately show ?thesis using f by blast
  qed
qed

lemma update_refines:
  assumes inv: "store_inv lib items tn w" and call: "update_item db tn c sets cond new w = (r, v)"
    and sets: "decode_item lib sets = Inr e" "lit ''correlation_id'' \<notin> keys sets"
    and ex: "holds (items w tn c) cond \<Longrightarrow> store_row lib items tn w c \<noteq> None"
    and next_row: "d = dict_update (the (store_row lib items tn w c)) e"
  shows "store_inv lib items tn v \<and>
     ((\<exists>y. r = Inr y \<and> holds (items w tn c) cond \<and>
         store_row lib items tn v = (store_row lib items tn w)(c \<mapsto> d) \<and>
         (new \<longrightarrow> (\<exists>it f. y = VDict it \<and> decode_item lib it = Inr f \<and> same (VDict d) (VDict f)))) \<or>
      (\<exists>x. r = Inl x \<and> conditional_failure x \<and> \<not> holds (items w tn c) cond \<and>
         store_row lib items tn v = store_row lib items tn w) \<or>
      (\<exists>x. r = Inl x \<and> \<not> conditional_failure x \<and> \<not> up w \<and>
         (store_row lib items tn v = store_row lib items tn w \<or>
          holds (items w tn c) cond \<and>
          store_row lib items tn v = (store_row lib items tn w)(c \<mapsto> d))))"
proof -
  let ?new = "updated_item (items w tn c) c sets"
  have keep: "store_inv lib items tn v \<and> store_row lib items tn v = store_row lib items tn w"
    if "items v = items w"
    using store_row_same [of items v w, OF that] inv by simp
  have wrote: "store_inv lib items tn v \<and> store_row lib items tn v = (store_row lib items tn w)(c \<mapsto> d) \<and>
      decode_item lib ?new = Inr d"
    if h: "holds (items w tn c) cond" and i: "items v = (items w)(tn := (items w tn)(c \<mapsto> ?new))"
  proof -
    from ex [OF h] obtain it d0 where it: "items w tn c = Some it" "decode_item lib it = Inr d0"
      "store_row lib items tn w c = Some d0"
      using inv by (auto simp: store_row_Some)
    have dec: "decode_item lib ?new = Inr d"
      using decode_updated [OF it(2) sets(1)] it next_row by simp
    have "map_of (rev e) (lit ''correlation_id'') = None"
      using sets keys_dict_map [OF sets(1) [unfolded decode_item_def]]
      by (auto simp: map_of_eq_None_iff keys_def)
    then have "get_opt d ''correlation_id'' = get_opt d0 ''correlation_id''"
      using next_row it by (simp add: get_opt_def map_of_dict_update)
    moreover have "get_opt d0 ''correlation_id'' = Some (VStr c)"
      using inv it unfolding store_inv_def by fastforce
    ultimately show ?thesis using store_row_update [of items v w tn c, OF i dec] inv dec by simp
  qed
  from update_law [OF call] show ?thesis
  proof (elim disjE)
    assume "\<exists>y. r = Inr y \<and> holds (items w tn c) cond \<and>
      items v = (items w)(tn := (items w tn)(c \<mapsto> ?new)) \<and> (if new then same (VDict ?new) y else y = VNone)"
    then obtain y where y: "r = Inr y" "holds (items w tn c) cond"
      "items v = (items w)(tn := (items w tn)(c \<mapsto> ?new))" "new \<longrightarrow> same (VDict ?new) y"
      by auto
    note wr = wrote [OF y(2,3)]
    have "\<exists>it f. y = VDict it \<and> decode_item lib it = Inr f \<and> same (VDict d) (VDict f)" if "new"
    proof -
      from y(4) that obtain it where "y = VDict it" unfolding same_dict_iff by blast
      with y(4) that wr decode_item_same show ?thesis by blast
    qed
    with y wr show ?thesis by blast
  qed (use keep wrote in blast)+
qed

lemma reservable_holds:
  assumes "store_inv lib items tn w"
  shows "holds (items w tn c) (status_condition [''PREPARED'', ''RESERVED'']) \<longleftrightarrow>
    reservable (store_row lib items tn w c)"
  using holds_status [OF assms, of c "[''PREPARED'', ''RESERVED'']"]
  unfolding status_condition_def reservable_def .

lemma mark_refines:
  assumes inv: "store_inv lib items tn w" and ints: "storable (VInt n)" "storable (VInt m)"
    and g: "dynamo_mark_reserved db tn c n call m w = (u, v)"
  shows "store_inv lib items tn v \<and>
      (u = Inr () \<and> reservable (store_row lib items tn w c) \<and> store_row lib items tn v =
         (store_row lib items tn w)(c \<mapsto> reserved_row (the (store_row lib items tn w c)) n call m) \<or>
       u = Inl state_conflict \<and> store_row lib items tn v = store_row lib items tn w \<and>
         \<not> reservable (store_row lib items tn w c) \<or>
       (\<exists>e. u = Inl e \<and> \<not> up w \<and> (store_row lib items tn v = store_row lib items tn w \<or>
         reservable (store_row lib items tn w c) \<and> store_row lib items tn v =
           (store_row lib items tn w)(c \<mapsto> reserved_row (the (store_row lib items tn w c)) n call m))))"
proof -
  let ?sets = "mk [(''handoff_status'', wire_str (lit ''RESERVED'')), (''updated_at'', wire_int n),
          (''bridgefu_call_id'', wire_str call), (''attachment_expires_at'', wire_int m)]"
  let ?c = "status_condition [''PREPARED'', ''RESERVED'']"
  obtain r v' where call: "update_item db tn c ?sets ?c False w = (r, v')" by fastforce
  have eq: "u = (case r of Inr _ \<Rightarrow> Inr () | Inl x \<Rightarrow> Inl (if conditional_failure x then state_conflict else x))"
    "v = v'"
    using g on_conflict_update [of "update_item db tn c ?sets ?c False", OF call, of state_conflict]
    unfolding dynamo_mark_reserved_def status_conditions by simp_all
  have "lit ''correlation_id'' \<notin> keys ?sets" by simp
  moreover have "store_row lib items tn w c \<noteq> None" if "holds (items w tn c) ?c"
    using that unfolding reservable_holds [OF inv] reservable_def by auto
  ultimately have "store_inv lib items tn v' \<and>
     ((\<exists>y. r = Inr y \<and> reservable (store_row lib items tn w c) \<and> store_row lib items tn v' =
         (store_row lib items tn w)(c \<mapsto> reserved_row (the (store_row lib items tn w c)) n call m)) \<or>
      (\<exists>x. r = Inl x \<and> conditional_failure x \<and> \<not> reservable (store_row lib items tn w c) \<and>
         store_row lib items tn v' = store_row lib items tn w) \<or>
      (\<exists>x. r = Inl x \<and> \<not> conditional_failure x \<and> \<not> up w \<and>
         (store_row lib items tn v' = store_row lib items tn w \<or>
          reservable (store_row lib items tn w c) \<and> store_row lib items tn v' =
           (store_row lib items tn w)(c \<mapsto> reserved_row (the (store_row lib items tn w c)) n call m))))"
    using update_refines [OF inv call decode_reserved [OF ints] _ _ refl]
    unfolding reservable_holds [OF inv] reserved_row_def by blast
  then show ?thesis unfolding eq by auto
qed

lemma keeps_up_get: "keeps up (dynamo_get lib db tn c)"
  unfolding dynamo_get_def
  by (intro keeps_abind keepsI) (use get_up in blast, auto split: pyval.splits)

lemma keeps_up_put: "keeps up (dynamo_put_prepared lib db tn d)"
proof -
  have "keeps up (put_item db tn it c)" for it c by (rule keepsI) (use put_up in blast)
  then show ?thesis
    unfolding dynamo_put_prepared_def
    by (intro keeps_abind keeps_acatch) (auto intro!: keeps_abind keeps_up_get split: if_splits)
qed

lemma keeps_up_update: "keeps up (on_conflict e (abind (update_item db tn c sets cond new) (\<lambda>_. aret ())))"
proof -
  have "keeps up (update_item db tn c sets cond new)" by (rule keepsI) (use update_up in blast)
  then show ?thesis unfolding on_conflict_def by (intro keeps_abind keeps_acatch keeps_basic)
qed

lemma keeps_up_mark: "keeps up (dynamo_mark_reserved db tn c n call m)"
  unfolding dynamo_mark_reserved_def by (rule keeps_up_update)

end

lemma dynamo_store_simps:
  "put_prepared (dynamo_store lib db tn) = dynamo_put_prepared lib db tn"
  "get_record (dynamo_store lib db tn) = dynamo_get lib db tn"
  "mark_reserved (dynamo_store lib db tn) = dynamo_mark_reserved db tn"
  by (simp_all add: dynamo_store_def)

text \<open>The contract follows from the client's promises.\<close>

sublocale dynamo_table \<subseteq> dyn: handoff_store
  "dynamo_store lib db tn" "store_row lib items tn" "store_inv lib items tn" up
  for lib tn
proof (unfold_locales, unfold dynamo_store_simps, goal_cases)
  case (1 w c x w')
  then show ?case using get_refines by blast
next
  case (2 w d c r w')
  then show ?case by (rule put_refines)
next
  case (3 w n m c call u w')
  then show ?case by (rule mark_refines)
next
  case (4 w c x w')
  then show ?case using get_refines by blast
next
  case (5 w d r w')
  then show ?case using keepsD [OF keeps_up_put] by blast
next
  case (6 w c n call m u w')
  then show ?case using keepsD [OF keeps_up_mark] by blast
qed

context dynamo_table begin

lemma store_refines:
  "handoff_store (dynamo_store lib db tn) (store_row lib items tn) (store_inv lib items tn) up"
  by (rule dyn.handoff_store_axioms)

end

section \<open>A table in memory\<close>

text \<open>A concrete client that keeps its promises: tables as functions, maps returned without repeats.\<close>

type_synonym mem = "pystr \<Rightarrow> pystr \<Rightarrow> pydict option"

fun dedup :: "(pystr \<times> 'v) list \<Rightarrow> (pystr \<times> 'v) list" where
  "dedup [] = []"
| "dedup (p # d) = p # filter (\<lambda>q. fst q \<noteq> fst p) (dedup d)"

fun norm_value :: "pyval \<Rightarrow> pyval" where
  "norm_value (VDict d) = VDict (dedup (map (\<lambda>p. (fst p, norm_value (snd p))) d))"
| "norm_value v = v"

definition mem_get :: "pystr \<Rightarrow> pystr \<Rightarrow> string list \<Rightarrow> (mem, pyval) act" where
  "mem_get t k proj w =
     (Inr (case w t k of None \<Rightarrow> VNone | Some it \<Rightarrow> norm_value (VDict (project proj it))), w)"

definition wire_key :: "pyval \<Rightarrow> pystr option" where
  "wire_key v = (case v of VDict [(s, VStr k)] \<Rightarrow> if s = lit ''S'' then Some k else None | _ \<Rightarrow> None)"

definition mem_put :: "pystr \<Rightarrow> pydict \<Rightarrow> condition \<Rightarrow> (mem, unit) act" where
  "mem_put t it c w =
     (case wire_key (get_key it ''correlation_id'') of
        None \<Rightarrow> (Inl (ServiceError ''ValidationException''), w)
      | Some k \<Rightarrow>
          if holds (w t k) c then (Inr (), w(t := (w t)(k \<mapsto> it)))
          else (Inl (ServiceError ''ConditionalCheckFailedException''), w))"

definition mem_update :: "pystr \<Rightarrow> pystr \<Rightarrow> pydict \<Rightarrow> condition \<Rightarrow> bool \<Rightarrow> (mem, pyval) act" where
  "mem_update t k sets c new w =
     (if holds (w t k) c
      then (let it = updated_item (w t k) k sets
            in (Inr (if new then norm_value (VDict it) else VNone), w(t := (w t)(k \<mapsto> it))))
      else (Inl (ServiceError ''ConditionalCheckFailedException''), w))"

definition mem_client :: "mem dynamo" where
  "mem_client = \<lparr>get_item = mem_get, put_item = mem_put, update_item = mem_update\<rparr>"

lemma dedup_lookup: "map_of (dedup d) k = map_of d k"
proof (induction d)
  case (Cons p d)
  have "map_of (filter (\<lambda>q. fst q \<noteq> fst p) e) k = map_of e k" if "k \<noteq> fst p" for e :: "(pystr \<times> 'a) list"
    using that by (induction e) auto
  with Cons show ?case by (cases p) auto
qed simp

lemma dedup_distinct: "distinct (map fst (dedup d))"
proof (induction d)
  case (Cons p d)
  then show ?case by (auto simp: distinct_map intro: inj_on_subset)
qed simp

lemma map_of_map_norm:
  "map_of (map (\<lambda>p. (fst p, f (snd p))) d) k = map_option f (map_of d k)"
  by (induction d) auto

lemma same_norm: "same v (norm_value v)"
proof (induction v)
  case (VDict d)
  have "rel_option same (map_of d k) (map_of (dedup (map (\<lambda>p. (fst p, norm_value (snd p))) d)) k)" for k
    unfolding dedup_lookup map_of_map_norm
    using VDict by (cases "map_of d k") (auto dest!: map_of_SomeD)
  then show ?case using dedup_distinct by (simp add: same_dict_iff)
qed (auto intro: same_atom)

lemma wire_key_str [simp]: "wire_key (wire_str k) = Some k"
  by (simp add: wire_key_def wire_str_def)

interpretation mem: dynamo_table mem_client "\<lambda>w. w" "\<lambda>_. True"
proof (unfold_locales, goal_cases)
  case (1 t k proj w r w')
  then show ?case using same_norm by (auto simp del: norm_value.simps simp: mem_client_def mem_get_def split: option.splits)
next
  case (2 t it c w u w' k)
  then show ?case
    by (auto simp: mem_client_def mem_put_def conditional_failure_def split: if_splits)
next
  case (3 t k sets c new w r w')
  then show ?case using same_norm
    by (auto simp del: norm_value.simps
        simp: mem_client_def mem_update_def conditional_failure_def Let_def split: if_splits)
next
  case (4 t k proj w e w' it c sets new)
  then show ?case
    by (auto simp: mem_client_def mem_get_def mem_put_def mem_update_def Let_def
        split: option.splits if_splits)
next
  case (5 w t k proj r w')
  then show ?case by (auto simp: mem_client_def mem_get_def)
qed auto

end
