(* ===== verification/Flow.thy ===== *)
theory Flow imports Store begin

text \<open>
  The handoff itself (\<open>lambda/common/bridgefu_handoff.py\<close>): \<open>prepare_handoff\<close> stores the context of
  a call, \<open>transfer_destination\<close> reserves a SIP destination for it, \<open>connect_lookup\<close> returns the
  context to Amazon Connect, and \<open>direct_browser_handoff\<close> replaces a leg of a browser call.  They
  run over any store that fulfils the contract \<open>handoff_store\<close>; reserving and replacing are
  parameters, as they are in the code.
\<close>

section \<open>Preparing\<close>

definition SCHEMA_VERSION :: int where "SCHEMA_VERSION = 1"

definition size_opts :: json_opts where
  "size_opts = default_opts\<lparr>ensure_ascii := False, sort_keys := True\<rparr>"

text \<open>The context fields of a call: the four display fields, or the configured values.\<close>

definition display_field :: "pydict \<Rightarrow> string \<Rightarrow> (pystr \<times> pystr) result" where
  "display_field arguments name =
     rbind (bounded_display (get_key arguments name) name) (\<lambda>s. Inr (lit name, s))"

definition context_fields ::
    "pydict \<Rightarrow> screen_pop_field list option \<Rightarrow> vapi_identity \<Rightarrow> strdict result" where
  "context_fields arguments conf i =
     rbind (case conf of
              None \<Rightarrow> rmap (display_field arguments) DISPLAY_FIELDS
            | Some _ \<Rightarrow> Inr (map (\<lambda>p. (fst p, str_of (snd p))) arguments)) (\<lambda>fs.
     Inr (dict_set fs (lit ''vapi_call_reference'') (vapi_call i)))"

definition fits_context :: "strdict \<Rightarrow> unit result" where
  "fits_context fs =
     rbind (utf8_encode (json_dumps size_opts (VDict (strvals fs)))) (\<lambda>bs.
     if MAX_CONTEXT_BYTES < length bs then Inl (HandoffError ''context_too_large'' 400) else Inr ())"

text \<open>The entries a configuration adds to the record.\<close>

definition schema_entries :: "strdict \<Rightarrow> screen_pop_field list option \<Rightarrow> pydict result" where
  "schema_entries fs conf =
     (case conf of
        None \<Rightarrow> Inr []
      | Some cf \<Rightarrow>
          rbind (schema_hash cf) (\<lambda>h.
          Inr (mk [(''screen_pop_values'', VDict (strvals (dict_del fs (lit ''vapi_call_reference'')))),
                   (''screen_pop_schema_hash'', VStr h)])))"

definition handoff_record ::
    "pystr \<Rightarrow> strdict \<Rightarrow> screen_pop_field list option \<Rightarrow> pystr \<Rightarrow> vapi_identity \<Rightarrow> int \<Rightarrow> int \<Rightarrow>
     pydict result" where
  "handoff_record cid fs conf dep i now ttl =
     rbind (schema_entries fs conf) (\<lambda>extra.
     rbind (call_fingerprint dep i) (\<lambda>fp.
     rbind (content_hash fs) (\<lambda>ch.
     Inr (dict_update []
       (mk [(''schema_version'', VInt (if conf = None then SCHEMA_VERSION else 2)),
            (''correlation_id'', VStr cid)]
        @ strvals fs @ extra @
        mk [(''vapi_call_fingerprint'', VStr fp), (''content_hash'', VStr ch),
            (''created_at'', VInt now), (''updated_at'', VInt now),
            (''expires_at'', VInt (now + ttl)), (''handoff_status'', VStr (lit ''PREPARED''))])))))"

text \<open>Everything \<open>prepare_handoff\<close> does before it calls the store.\<close>

record prepared_record =
  pr_tool_call :: pystr
  pr_correlation :: pystr
  pr_record :: pydict

definition prepare_record ::
    "pydict \<Rightarrow> byte list \<Rightarrow> pystr \<Rightarrow> int \<Rightarrow> int \<Rightarrow> screen_pop_field list option \<Rightarrow>
     prepared_record result" where
  "prepare_record event key dep ttl now conf =
     rbind (event_message event ''tool-calls'') (\<lambda>m.
     rbind (vapi_identity_of m) (\<lambda>i.
     rbind (tool_call m conf) (\<lambda>ta.
     rbind (context_fields (snd ta) conf i) (\<lambda>fs.
     rbind (fits_context fs) (\<lambda>_.
     if \<not> (300 \<le> ttl \<and> ttl \<le> 604800) then Inl (HandoffError ''invalid_context_ttl'' 500)
     else
     rbind (derive_correlation_id key dep i) (\<lambda>cid.
     rbind (handoff_record cid fs conf dep i now ttl) (\<lambda>d.
     Inr \<lparr>pr_tool_call = fst ta, pr_correlation = cid, pr_record = d\<rparr>)))))))"

definition prepare_handoff ::
    "'w handoff_store \<Rightarrow> pydict \<Rightarrow> byte list \<Rightarrow> pystr \<Rightarrow> int \<Rightarrow> int \<Rightarrow>
     screen_pop_field list option \<Rightarrow> ('w, prepared_handoff) act" where
  "prepare_handoff st event key dep ttl now conf =
     abind (alift (prepare_record event key dep ttl now conf)) (\<lambda>p.
     abind (put_prepared st (pr_record p)) (\<lambda>disposition.
     if disposition \<noteq> lit ''created'' \<and> disposition \<noteq> lit ''replayed''
     then araise (HandoffError ''handoff_store_invalid'' 500)
     else aret \<lparr>prepared_correlation = pr_correlation p, prepared_tool_call = pr_tool_call p,
       prepared_replayed = (disposition = lit ''replayed'')\<rparr>))"

section \<open>Transferring\<close>

record sip_reservation =
  sip_uri :: pystr
  sip_call :: pystr
  sip_expires :: int

text \<open>The checks of the stored row.\<close>

definition check_prepared :: "pydict option \<Rightarrow> pystr \<Rightarrow> int \<Rightarrow> unit result" where
  "check_prepared r fp now =
     (case r of
        None \<Rightarrow> Inl (HandoffError ''handoff_not_prepared'' 409)
      | Some d \<Rightarrow>
          if \<not> py_eq (get_key d ''vapi_call_fingerprint'') (VStr fp)
          then Inl (HandoffError ''handoff_identity_conflict'' 409)
          else if \<not> is_int (get_key d ''expires_at'') \<or> int_of (get_key d ''expires_at'') \<le> now
          then Inl (HandoffError ''handoff_expired'' 409)
          else if \<not> status_in d [''PREPARED'', ''RESERVED'']
          then Inl (HandoffError ''handoff_not_prepared'' 409)
          else Inr ())"

definition idempotency_key :: "pystr \<Rightarrow> pystr result" where
  "idempotency_key cid =
     rbind (ascii_encode cid) (\<lambda>bs. Inr (lit ''vapi-transfer-'' @ take 48 (hexdigest (sha256 bs))))"

definition SIP_SECURITIES :: "pystr list" where
  "SIP_SECURITIES = map lit [''sips_optional_srtp'', ''sips_srtp'', ''sip_rtp'']"

text \<open>The destination given to Vapi, by the security mode.\<close>

definition destination_uri :: "pystr \<Rightarrow> pystr \<Rightarrow> pystr result" where
  "destination_uri security uri =
     (let bad = HandoffError ''bridgefu_destination_invalid'' 502 in
      if security \<notin> set SIP_SECURITIES then Inl bad
      else if security \<noteq> lit ''sip_rtp'' then
        (if \<not> starts_with uri (lit ''sips:'') \<or> \<not> ends_with uri (lit '';transport=tls'') then Inl bad
         else if security = lit ''sips_optional_srtp'' then Inr (lit ''sip:'' @ drop 5 uri)
         else Inr uri)
      else if \<not> starts_with uri (lit ''sip:'') then Inl bad
      else Inr uri)"

definition transfer_message :: pystr where
  "transfer_message =
     lit ''Okay, connecting you to a support specialist now. Please stay on the line.''"

definition destination_response :: "pystr \<Rightarrow> pystr \<Rightarrow> pyval" where
  "destination_response uri cid = VDict (mk
     [(''destination'', VDict (mk
        [(''type'', VStr (lit ''sip'')), (''sipUri'', VStr uri),
         (''sipHeaders'', VDict (mk [(CORRELATION_HEADER, VStr cid)])),
         (''transferPlan'', VDict (mk
            [(''mode'', VStr (lit ''blind-transfer'')), (''sipVerb'', VStr (lit ''dial''))])),
         (''message'', VStr transfer_message)]))])"

definition transfer_destination ::
    "'w handoff_store \<Rightarrow> (pystr \<Rightarrow> pystr \<Rightarrow> ('w, sip_reservation) act) \<Rightarrow> pydict \<Rightarrow> byte list \<Rightarrow>
     pystr \<Rightarrow> pystr \<Rightarrow> int \<Rightarrow> ('w, pyval) act" where
  "transfer_destination st reserve event key dep security now =
     abind (alift (event_message event ''transfer-destination-request'')) (\<lambda>m.
     abind (alift (vapi_identity_of m)) (\<lambda>i.
     abind (alift (derive_correlation_id key dep i)) (\<lambda>cid.
     abind (get_record st cid) (\<lambda>r.
     abind (if r = None then araise (HandoffError ''handoff_not_prepared'' 409)
            else alift (call_fingerprint dep i)) (\<lambda>fp.
     abind (alift (check_prepared r fp now)) (\<lambda>_.
     abind (alift (idempotency_key cid)) (\<lambda>ikey.
     abind (reserve cid ikey) (\<lambda>res.
     abind (alift (destination_uri security (sip_uri res))) (\<lambda>uri.
     abind (alift (bounded_identifier (VStr (sip_call res)) ''bridgefu_call_id'')) (\<lambda>call.
     if sip_expires res \<le> now then araise (HandoffError ''bridgefu_destination_expired'' 502)
     else
     abind (mark_reserved st cid now (sip_call res) (sip_expires res)) (\<lambda>_.
     aret (destination_response uri cid))))))))))))"

section \<open>Looking up\<close>

definition lookup_unavailable :: "screen_pop_field list option \<Rightarrow> strdict" where
  "lookup_unavailable conf =
     (case conf of
        Some fs \<Rightarrow> dict_update []
          (mk [(''context_available'', lit ''false''), (''vapi_call_reference'', []),
               (''routing_value'', [])] @ connect_rows fs None)
      | None \<Rightarrow> dict_update []
          (mk ([(''context_available'', lit ''false''), (''routing_value'', [])]
               @ map (\<lambda>f. (f, [])) RETURN_FIELDS)))"

definition lookup_usable :: "pydict option \<Rightarrow> int \<Rightarrow> bool" where
  "lookup_usable r now \<longleftrightarrow>
     (case r of
        None \<Rightarrow> False
      | Some d \<Rightarrow> is_int (get_key d ''expires_at'') \<and> \<not> int_of (get_key d ''expires_at'') \<le> now \<and>
          status_in d [''PREPARED'', ''RESERVED'', ''CONSUMED''])"

text \<open>Whether the row holds values of the current configuration (schema version 2).\<close>

definition is_schema_v2 :: "pydict \<Rightarrow> pystr \<Rightarrow> bool" where
  "is_schema_v2 d h \<longleftrightarrow>
     py_eq (get_key d ''schema_version'') (VInt 2) \<and>
     py_eq (get_key d ''screen_pop_schema_hash'') (VStr h) \<and>
     is_dict (get_key d ''screen_pop_values'')"

text \<open>
  \<open>record.get("schema_version") == 2\<close> is evaluated first, and the schema is hashed only if it holds.
\<close>

definition schema_v2 :: "pydict \<Rightarrow> screen_pop_field list \<Rightarrow> bool result" where
  "schema_v2 d fs =
     (if \<not> py_eq (get_key d ''schema_version'') (VInt 2) then Inr False
      else rbind (schema_hash fs) (\<lambda>h. Inr (is_schema_v2 d h)))"

text \<open>The values to validate: those of the row, or the four historical ones; \<open>None\<close> for neither.\<close>

definition lookup_values :: "pydict \<Rightarrow> screen_pop_field list \<Rightarrow> bool \<Rightarrow> pyval option" where
  "lookup_values d fs v2 =
     (if v2 then Some (get_key d ''screen_pop_values'')
      else if map field_key fs \<noteq> map lit DISPLAY_FIELDS then None
      else Some (VDict (mk (map (\<lambda>f. (f, get_or d f (VStr []))) DISPLAY_FIELDS))))"

text \<open>
  The routing value: empty without a routing key, else the validated value of the routing field,
  which must be a choice field of a current row; \<open>None\<close> where the code returns unavailable.
\<close>

definition lookup_routing ::
    "screen_pop_field list \<Rightarrow> pystr option \<Rightarrow> bool \<Rightarrow> strdict \<Rightarrow> pystr option result" where
  "lookup_routing fs routing v2 validated =
     (case routing of
        None \<Rightarrow> Inr (Some [])
      | Some k \<Rightarrow>
          if k = [] then Inr (Some [])
          else (case find (\<lambda>f. field_key f = k) fs of
                  None \<Rightarrow> Inr None
                | Some f \<Rightarrow>
                    if \<not> v2 \<or> field_type f \<noteq> lit ''choice'' then Inr None
                    else rbind (some_or (PyError ''KeyError'') (map_of validated k)) (\<lambda>s. Inr (Some s))))"

definition lookup_configured ::
    "pydict \<Rightarrow> screen_pop_field list \<Rightarrow> pystr option \<Rightarrow> strdict result" where
  "lookup_configured d fs routing =
     rbind (schema_v2 d fs) (\<lambda>v2.
     case lookup_values d fs v2 of
       None \<Rightarrow> Inr (lookup_unavailable (Some fs))
     | Some vals \<Rightarrow>
         (case validate_values vals fs of
            Inl (ScreenPopConfigError c) \<Rightarrow> Inr (lookup_unavailable (Some fs))
          | Inl e \<Rightarrow> Inl e
          | Inr validated \<Rightarrow>
              (case get_or d ''vapi_call_reference'' (VStr []) of
                 VStr ref \<Rightarrow>
                   rbind (utf8_encode ref) (\<lambda>bs.
                   if 128 < length bs then Inr (lookup_unavailable (Some fs))
                   else
                   rbind (lookup_routing fs routing v2 validated) (\<lambda>ro.
                   case ro of
                     None \<Rightarrow> Inr (lookup_unavailable (Some fs))
                   | Some value \<Rightarrow> Inr (dict_update []
                       (mk [(''context_available'', lit ''true''), (''vapi_call_reference'', ref),
                            (''routing_value'', value)] @ connect_rows fs (Some validated)))))
               | _ \<Rightarrow> Inr (lookup_unavailable (Some fs)))))"

text \<open>The released form without a configuration: the loop over \<open>RETURN_FIELDS\<close>; \<open>None\<close> is unavailable.\<close>

fun lookup_plain :: "pydict \<Rightarrow> strdict \<Rightarrow> string list \<Rightarrow> strdict option result" where
  "lookup_plain d acc [] = Inr (Some acc)"
| "lookup_plain d acc (f # fs) =
     (case get_or d f (VStr []) of
        VStr s \<Rightarrow>
          rbind (utf8_encode s) (\<lambda>bs.
          if max (case FIELD_LIMITS f of None \<Rightarrow> 256 | Some n \<Rightarrow> n) 1 < length bs then Inr None
          else lookup_plain d (dict_set acc (lit f) s) fs)
      | _ \<Rightarrow> Inr None)"

definition connect_lookup ::
    "'w handoff_store \<Rightarrow> pydict \<Rightarrow> int \<Rightarrow> screen_pop_field list option \<Rightarrow> pystr option \<Rightarrow>
     ('w, strdict) act" where
  "connect_lookup st event now conf routing =
     (case connect_correlation_id event of
        None \<Rightarrow> aret (lookup_unavailable conf)
      | Some cid \<Rightarrow>
          abind (get_record st cid) (\<lambda>r.
          if \<not> lookup_usable r now then aret (lookup_unavailable conf)
          else (case conf of
                  Some fs \<Rightarrow> alift (lookup_configured (the r) fs routing)
                | None \<Rightarrow>
                    abind (alift (lookup_plain (the r)
                      (mk [(''context_available'', lit ''true''), (''routing_value'', [])]) RETURN_FIELDS))
                      (\<lambda>o'. aret (case o' of None \<Rightarrow> lookup_unavailable conf | Some d \<Rightarrow> d)))))"

section \<open>The direct browser handoff\<close>

record 'w direct_store =
  prepare_direct :: "pystr \<Rightarrow> pystr \<Rightarrow> vapi_identity \<Rightarrow> strdict \<Rightarrow> int \<Rightarrow> ('w, pydict) act"
  mark_direct_started :: "pystr \<Rightarrow> int \<Rightarrow> ('w, unit) act"

definition direct_dynamo_store :: "pylib \<Rightarrow> 'w dynamo \<Rightarrow> pystr \<Rightarrow> 'w direct_store" where
  "direct_dynamo_store lib db tn =
     \<lparr>prepare_direct = dynamo_prepare_direct lib db tn,
      mark_direct_started = dynamo_mark_direct_started db tn\<rparr>"

definition DIRECT_KEYS :: "pystr set" where
  "DIRECT_KEYS = set (map lit [''call_id'', ''leg_id'', ''route_id'', ''idempotency_key''])"

definition direct_browser_handoff ::
    "'w direct_store \<Rightarrow> (pystr \<Rightarrow> pystr \<Rightarrow> pystr \<Rightarrow> pystr \<Rightarrow> ('w, unit) act) \<Rightarrow> pydict \<Rightarrow> pyval \<Rightarrow>
     byte list \<Rightarrow> screen_pop_field list \<Rightarrow> int \<Rightarrow> ('w, pyval) act" where
  "direct_browser_handoff st replace event binding key fs now =
     abind (alift (verify_vapi_binding event binding)) (\<lambda>_.
     abind (alift (event_message event ''tool-calls'')) (\<lambda>m.
     abind (alift (vapi_identity_of m)) (\<lambda>i.
     abind (alift (direct_tool_call m fs)) (\<lambda>(tid, token, vals).
     abind (alift (verify_direct_handoff_token token key now)) (\<lambda>(session, token_id).
     abind (prepare_direct st session token_id i vals now) (\<lambda>prepared.
     if keys prepared \<noteq> DIRECT_KEYS
     then araise (HandoffError ''direct_handoff_binding_invalid'' 500)
     else
     abind (alift (bounded_identifier (get_key prepared ''call_id'') ''bridgefu_call_id'')) (\<lambda>call.
     abind (alift (bounded_identifier (get_key prepared ''leg_id'') ''bridgefu_leg_id'')) (\<lambda>leg.
     abind (alift (bounded_identifier (get_key prepared ''route_id'') ''bridgefu_route_id'')) (\<lambda>route.
     abind (alift (bounded_identifier (get_key prepared ''idempotency_key'') ''bridgefu_idempotency_key'')) (\<lambda>ikey.
     abind (replace call leg route ikey) (\<lambda>_.
     abind (mark_direct_started st session now) (\<lambda>_.
     aret (tool_result tid (json_dumps (compact\<lparr>sort_keys := True\<rparr>)
       (VDict (mk [(''accepted'', VBool True), (''spoken'', VStr [])]))))))))))))))))"

end
