(* ===== verification/DirectStore.thy ===== *)
theory DirectStore imports Flow begin

text \<open>
  The writes of a direct browser handoff to the table of handoffs, as a contract over its rows: one row
  is written, which holds the token of the session, and its content hash and call fingerprint are written
  once.  The DynamoDB store of \<open>lambda/common/aws_runtime.py\<close> fulfils it.
\<close>

section \<open>The contract\<close>

definition direct_row :: "pydict \<Rightarrow> int \<Rightarrow> strdict \<Rightarrow> pystr \<Rightarrow> pystr \<Rightarrow> pydict" where
  "direct_row d n vals content idh =
     dict_update d (mk [(''handoff_status'', VStr (lit ''PREPARED'')), (''updated_at'', VInt n),
       (''screen_pop_values'', VDict (strvals vals)), (''content_hash'', VStr content),
       (''vapi_call_fingerprint'', VStr idh)])"

definition started_row :: "pydict \<Rightarrow> int \<Rightarrow> pydict" where
  "started_row d n = dict_update d (mk [(''handoff_status'', VStr (lit ''RESERVED'')), (''updated_at'', VInt n)])"

text \<open>An attribute that is absent or holds the value already.\<close>

definition once :: "pydict \<Rightarrow> string \<Rightarrow> pystr \<Rightarrow> bool" where
  "once d a v \<longleftrightarrow> get_opt d a = None \<or> get_opt d a = Some (VStr v)"

definition direct_admits :: "pydict \<Rightarrow> pystr \<Rightarrow> pystr \<Rightarrow> pystr \<Rightarrow> bool" where
  "direct_admits d token content idh \<longleftrightarrow>
     get_opt d ''direct_token_id'' = Some (VStr token) \<and> status_in d [''MAPPED'', ''PREPARED'', ''RESERVED''] \<and>
     once d ''content_hash'' content \<and> once d ''vapi_call_fingerprint'' idh"

locale direct_table =
  fixes ds :: "'w direct_store"
    and row :: "'w \<Rightarrow> pystr \<Rightarrow> pydict option"
    and inv :: "'w \<Rightarrow> bool"
    and up :: "'w \<Rightarrow> bool"
  assumes direct_spec: "inv w \<Longrightarrow> storable (VInt n) \<Longrightarrow> prepare_direct ds c token i vals n w = (r, w') \<Longrightarrow>
      inv w' \<and> (row w' = row w \<and> (\<exists>e. r = Inl e) \<or>
        (\<exists>d content idh. row w c = Some d \<and> content_hash vals = Inr content \<and> direct_identity_hash i = Inr idh \<and>
           direct_admits d token content idh \<and> row w' = (row w)(c \<mapsto> direct_row d n vals content idh)))"
    and started_spec: "inv w \<Longrightarrow> storable (VInt n) \<Longrightarrow> mark_direct_started ds c n w = (u, w') \<Longrightarrow>
      inv w' \<and> (row w' = row w \<or>
        (\<exists>d. row w c = Some d \<and> status_in d [''PREPARED'', ''RESERVED''] \<and> row w' = (row w)(c \<mapsto> started_row d n)))"
    and direct_alive: "up w \<Longrightarrow> prepare_direct ds c token i vals n w = (r, w') \<Longrightarrow> up w'"
    and started_alive: "up w \<Longrightarrow> mark_direct_started ds c n w = (u, w') \<Longrightarrow> up w'"
begin

end

section \<open>The DynamoDB store fulfils it\<close>

lemma encoded_strings:
  assumes "encode_value 0 (VDict (strvals vals)) = Inr x"
  shows "decode_value lib 0 x = Inr (VDict (strvals vals))"
  using assms by (rule decode_encode) (simp add: strvals_def list_all_iff)

lemma decode_direct:
  assumes "storable (VInt n)" "encode_value 0 (VDict (strvals vals)) = Inr x"
  shows "decode_item lib
     (mk [(''handoff_status'', wire_str (lit ''PREPARED'')), (''updated_at'', wire_int n), (''screen_pop_values'', x),
          (''content_hash'', wire_str content), (''vapi_call_fingerprint'', wire_str idh)]) =
     Inr (mk [(''handoff_status'', VStr (lit ''PREPARED'')), (''updated_at'', VInt n),
       (''screen_pop_values'', VDict (strvals vals)), (''content_hash'', VStr content),
       (''vapi_call_fingerprint'', VStr idh)])"
  using assms encoded_strings [OF assms(2)] by (simp add: decode_item_def del: storable.simps)

lemma decode_started:
  assumes "storable (VInt n)"
  shows "decode_item lib (mk [(''handoff_status'', wire_str (lit ''RESERVED'')), (''updated_at'', wire_int n)]) =
     Inr (mk [(''handoff_status'', VStr (lit ''RESERVED'')), (''updated_at'', VInt n)])"
  using assms by (simp add: decode_item_def del: storable.simps)

lemma holds_direct:
  assumes inv: "store_inv lib items tn w" and h: "holds (items w tn c) (direct_condition token n content idh)"
  shows "\<exists>d. store_row lib items tn w c = Some d \<and> direct_admits d token content idh"
proof -
  from h obtain it where it: "items w tn c = Some it" and h': "holds (Some it) (direct_condition token n content idh)"
    by (cases "items w tn c") (auto simp: direct_condition_def)
  from inv it obtain d where d: "decode_item lib it = Inr d" "store_row lib items tn w c = Some d"
    by (auto simp: store_inv_def store_row_def)
  have "holds (items w tn c) (OneOf ''handoff_status'' (map (\<lambda>s. wire_str (lit s)) [''MAPPED'', ''PREPARED'', ''RESERVED'']))"
    using h' it by (simp add: direct_condition_def)
  then have "status_in d [''MAPPED'', ''PREPARED'', ''RESERVED'']"
    using d(2) unfolding holds_status [OF inv] by simp
  moreover have "get_opt d ''direct_token_id'' = Some (VStr token)" "once d ''content_hash'' content"
      "once d ''vapi_call_fingerprint'' idh"
    using h' by (auto simp: direct_condition_def once_def decode_attr [OF d(1)])
  ultimately show ?thesis using d(2) by (auto simp: direct_admits_def)
qed

context dynamo_table begin

lemma started_refines:
  assumes inv: "store_inv lib items tn w" and n: "storable (VInt n)"
    and call: "dynamo_mark_direct_started db tn c n w = (u, v)"
  shows "store_inv lib items tn v \<and> (store_row lib items tn v = store_row lib items tn w \<or>
    (\<exists>d. store_row lib items tn w c = Some d \<and> status_in d [''PREPARED'', ''RESERVED''] \<and>
       store_row lib items tn v = (store_row lib items tn w)(c \<mapsto> started_row d n)))"
proof -
  let ?sets = "mk [(''handoff_status'', wire_str (lit ''RESERVED'')), (''updated_at'', wire_int n)]"
  let ?c = "status_condition [''PREPARED'', ''RESERVED'']"
  obtain r v' where upd: "update_item db tn c ?sets ?c False w = (r, v')" by fastforce
  have "v = v'"
    using call on_conflict_update [of "update_item db tn c ?sets ?c False", OF upd, of "HandoffError ''direct_handoff_conflict'' 409"]
    unfolding dynamo_mark_direct_started_def status_conditions by simp
  moreover have "lit ''correlation_id'' \<notin> keys ?sets" by simp
  moreover have "store_row lib items tn w c \<noteq> None" if "holds (items w tn c) ?c"
    using that unfolding reservable_holds [OF inv] reservable_def by auto
  ultimately show ?thesis
    using update_refines [OF inv upd decode_started [OF n] _ _ refl]
    unfolding reservable_holds [OF inv] reservable_def started_row_def by auto
qed

text \<open>A preparation, cut where it writes.\<close>

lemma direct_cut:
  assumes "dynamo_prepare_direct lib db tn c token i vals n w = (r, v)"
  shows "v = w \<and> (\<exists>e. r = Inl e) \<or>
    (\<exists>content idh x y. content_hash vals = Inr content \<and> direct_identity_hash i = Inr idh \<and>
       encode_value 0 (VDict (strvals vals)) = Inr x \<and>
       update_item db tn c
          (mk [(''handoff_status'', wire_str (lit ''PREPARED'')), (''updated_at'', wire_int n), (''screen_pop_values'', x),
               (''content_hash'', wire_str content), (''vapi_call_fingerprint'', wire_str idh)])
          (direct_condition token n content idh) True w = (y, v) \<and> (\<forall>e. y = Inl e \<longrightarrow> (\<exists>e. r = Inl e)))"
proof (cases "content_hash vals")
  case (Inl e)
  with assms show ?thesis by (auto simp: dynamo_prepare_direct_def)
next
  case content: (Inr content)
  show ?thesis
  proof (cases "direct_identity_hash i")
    case (Inl e)
    with assms content show ?thesis by (auto simp: dynamo_prepare_direct_def)
  next
    case idh: (Inr idh)
    show ?thesis
    proof (cases "encode_value 0 (VDict (strvals vals))")
      case (Inl e)
      with assms content idh show ?thesis
        by (auto simp: dynamo_prepare_direct_def on_conflict_def acatch_def abind_def araise_def split: if_split_asm)
    next
      case (Inr x)
      let ?m = "update_item db tn c
          (mk [(''handoff_status'', wire_str (lit ''PREPARED'')), (''updated_at'', wire_int n), (''screen_pop_values'', x),
               (''content_hash'', wire_str content), (''vapi_call_fingerprint'', wire_str idh)])
          (direct_condition token n content idh) True"
      obtain y v' where y: "?m w = (y, v')" by fastforce
      have "v = v' \<and> (\<forall>e. y = Inl e \<longrightarrow> (\<exists>e. r = Inl e))"
        using assms content idh Inr y
        by (cases y) (auto simp: dynamo_prepare_direct_def on_conflict_def acatch_def abind_def araise_def alift_def aret_def
            Let_def split: if_split_asm sum.split_asm)
      with content idh Inr y show ?thesis by blast
    qed
  qed
qed

lemma direct_refines:
  assumes inv: "store_inv lib items tn w" and n: "storable (VInt n)"
    and call: "dynamo_prepare_direct lib db tn c token i vals n w = (r, v)"
  shows "store_inv lib items tn v \<and> (store_row lib items tn v = store_row lib items tn w \<and> (\<exists>e. r = Inl e) \<or>
    (\<exists>d content idh. store_row lib items tn w c = Some d \<and> content_hash vals = Inr content \<and> direct_identity_hash i = Inr idh \<and>
       direct_admits d token content idh \<and>
       store_row lib items tn v = (store_row lib items tn w)(c \<mapsto> direct_row d n vals content idh)))"
  using direct_cut [OF call]
proof (elim disjE exE conjE)
  fix content idh x y
  assume h: "content_hash vals = Inr content" "direct_identity_hash i = Inr idh"
    "encode_value 0 (VDict (strvals vals)) = Inr x" "\<forall>e. y = Inl e \<longrightarrow> (\<exists>e. r = Inl e)"
    and upd: "update_item db tn c
          (mk [(''handoff_status'', wire_str (lit ''PREPARED'')), (''updated_at'', wire_int n), (''screen_pop_values'', x),
               (''content_hash'', wire_str content), (''vapi_call_fingerprint'', wire_str idh)])
          (direct_condition token n content idh) True w = (y, v)" (is "update_item db tn c ?sets ?c True w = _")
  have ex: "store_row lib items tn w c \<noteq> None" if "holds (items w tn c) ?c"
    using holds_direct [OF inv that] by auto
  have key: "lit ''correlation_id'' \<notin> keys ?sets" by simp
  note u = update_refines [OF inv upd decode_direct [OF n h(3)] key ex refl, folded direct_row_def]
  show ?thesis
  proof (cases "store_row lib items tn v = store_row lib items tn w \<and> (\<exists>e. r = Inl e)")
    case True
    with u show ?thesis by blast
  next
    case False
    with u h(4) have "holds (items w tn c) ?c" "store_row lib items tn v = (store_row lib items tn w)(c \<mapsto>
        direct_row (the (store_row lib items tn w c)) n vals content idh)" by auto
    with holds_direct [OF inv] u h show ?thesis by fastforce
  qed
qed (use inv in simp)

lemma keeps_up_direct: "keeps up (dynamo_prepare_direct lib db tn c token i vals n)"
proof -
  have "keeps up (update_item db tn c sets cond new)" for sets cond new by (rule keepsI) (use update_up in blast)
  then show ?thesis
    unfolding dynamo_prepare_direct_def on_conflict_def Let_def
    by (intro keeps_abind keeps_acatch) (auto intro!: keeps_abind)
qed

lemma keeps_up_started: "keeps up (dynamo_mark_direct_started db tn c n)"
  unfolding dynamo_mark_direct_started_def by (rule keeps_up_update)

end

lemma direct_dynamo_simps:
  "prepare_direct (direct_dynamo_store lib db tn) = dynamo_prepare_direct lib db tn"
  "mark_direct_started (direct_dynamo_store lib db tn) = dynamo_mark_direct_started db tn"
  by (simp_all add: direct_dynamo_store_def)

sublocale dynamo_table \<subseteq> direct: direct_table
  "direct_dynamo_store lib db tn" "store_row lib items tn" "store_inv lib items tn" up
  for lib tn
proof (unfold_locales, unfold direct_dynamo_simps, goal_cases)
  case (1 w n c token i vals r w')
  then show ?case by (rule direct_refines)
next
  case (2 w n c u w')
  then show ?case by (rule started_refines)
next
  case (3 w c token i vals n r w')
  then show ?case using keepsD [OF keeps_up_direct] by blast
next
  case (4 w c n u w')
  then show ?case using keepsD [OF keeps_up_started] by blast
qed

end
