(* ===== verification/Ledger.thy ===== *)
theory Ledger imports DirectStore begin

text \<open>
  What the handoff does to the stored rows: the record \<open>prepare_handoff\<close> builds is one the store
  can hold, a lookup returns it, replays and transfers act on it as a ledger whose entries are
  written once and only move from \<open>PREPARED\<close> to \<open>RESERVED\<close>.  The lemmas are proved once over the
  contract \<open>handoff_store\<close> and stated for the DynamoDB store.
\<close>

section \<open>The record a call stores\<close>

lemma map_of_strvals_rev: "map_of (rev (strvals d)) k = None \<longleftrightarrow> k \<notin> keys d"
  by (simp add: map_of_eq_None_iff strvals_def keys_def image_image)

lemma keys_context_fields:
  assumes "context_fields arguments conf i = Inr fs"
  shows "keys fs = insert (lit ''vapi_call_reference'')
    (case conf of None \<Rightarrow> set (map lit DISPLAY_FIELDS) | Some _ \<Rightarrow> keys arguments)"
proof (cases conf)
  case None
  with assms obtain ps where ps: "rmap (display_field arguments) DISPLAY_FIELDS = Inr ps"
    "fs = dict_set ps (lit ''vapi_call_reference'') (vapi_call i)"
    by (auto simp: context_fields_def result_simps)
  have "list_all2 (\<lambda>f p. fst p = lit f) DISPLAY_FIELDS ps"
    using ps(1) unfolding rmap_eq_Inr
    by (rule list_all2_mono) (auto simp: display_field_def result_simps)
  then have "map fst ps = map lit DISPLAY_FIELDS"
    by (auto simp: list_all2_conv_all_nth intro: nth_equalityI)
  then have "keys ps = set (map lit DISPLAY_FIELDS)" by (simp only: keys_def)
  with None ps(2) show ?thesis by simp
next
  case (Some cf)
  have "keys (map (\<lambda>p. (fst p, str_of (snd p))) arguments) = keys arguments"
    by (simp add: keys_def image_image)
  with Some assms show ?thesis by (auto simp: context_fields_def)
qed

definition record_parts ::
    "pystr \<Rightarrow> strdict \<Rightarrow> screen_pop_field list option \<Rightarrow> pydict \<Rightarrow> pystr \<Rightarrow> pystr \<Rightarrow> int \<Rightarrow> int \<Rightarrow> pydict" where
  "record_parts cid fs conf extra fp ch now ttl =
     mk [(''schema_version'', VInt (if conf = None then SCHEMA_VERSION else 2)),
         (''correlation_id'', VStr cid)] @ strvals fs @ extra @
     mk [(''vapi_call_fingerprint'', VStr fp), (''content_hash'', VStr ch),
         (''created_at'', VInt now), (''updated_at'', VInt now),
         (''expires_at'', VInt (now + ttl)), (''handoff_status'', VStr (lit ''PREPARED''))]"

lemma handoff_record_iff:
  "handoff_record cid fs conf dep i now ttl = Inr d \<longleftrightarrow>
     (\<exists>extra fp ch. schema_entries fs conf = Inr extra \<and> call_fingerprint dep i = Inr fp \<and>
        content_hash fs = Inr ch \<and> d = dict_update [] (record_parts cid fs conf extra fp ch now ttl))"
  unfolding handoff_record_def record_parts_def [symmetric] by (auto simp: result_simps)

definition fresh_keys :: "strdict \<Rightarrow> bool" where
  "fresh_keys fs \<longleftrightarrow> lit ''schema_version'' \<notin> keys fs \<and> lit ''correlation_id'' \<notin> keys fs"

text \<open>What the record holds, attribute by attribute.\<close>

lemma record_lookup:
  assumes r: "handoff_record cid fs conf dep i now ttl = Inr d" and f: "fresh_keys fs"
  shows "get_opt d ''correlation_id'' = Some (VStr cid)"
    and "get_opt d ''schema_version'' = Some (VInt (if conf = None then 1 else 2))"
    and "call_fingerprint dep i = Inr fp \<Longrightarrow> get_opt d ''vapi_call_fingerprint'' = Some (VStr fp)"
    and "content_hash fs = Inr ch \<Longrightarrow> get_opt d ''content_hash'' = Some (VStr ch)"
    and "get_opt d ''expires_at'' = Some (VInt (now + ttl))"
    and "get_opt d ''handoff_status'' = Some (VStr (lit ''PREPARED''))"
    and "conf = Some cf \<Longrightarrow> get_opt d ''screen_pop_values'' =
      Some (VDict (strvals (dict_del fs (lit ''vapi_call_reference''))))"
    and "conf = Some cf \<Longrightarrow> schema_hash cf = Inr h \<Longrightarrow> get_opt d ''screen_pop_schema_hash'' = Some (VStr h)"
    and "distinct (map fst fs) \<Longrightarrow> map_of fs (lit ''vapi_call_reference'') = Some s \<Longrightarrow>
      get_opt d ''vapi_call_reference'' = Some (VStr s)"
proof -
  from r obtain extra fp' ch' where e: "schema_entries fs conf = Inr extra"
    "call_fingerprint dep i = Inr fp'" "content_hash fs = Inr ch'"
    "d = dict_update [] (record_parts cid fs conf extra fp' ch' now ttl)"
    unfolding handoff_record_iff by blast
  have ex: "extra = [] \<and> conf = None \<or> (\<exists>cf h. conf = Some cf \<and> schema_hash cf = Inr h \<and>
      extra = mk [(''screen_pop_values'', VDict (strvals (dict_del fs (lit ''vapi_call_reference'')))),
         (''screen_pop_schema_hash'', VStr h)])"
    using e(1) by (cases conf) (auto simp: schema_entries_def result_simps)
  have none: "map_of (rev (strvals fs)) (lit ''schema_version'') = None"
    "map_of (rev (strvals fs)) (lit ''correlation_id'') = None"
    using f by (simp_all add: map_of_strvals_rev fresh_keys_def)
  have look0: "get_opt d a = map_of (rev (record_parts cid fs conf extra fp' ch' now ttl)) (lit a)" for a
    by (simp only: e(4) get_opt_def map_of_update_Nil)
  note look = look0 record_parts_def map_add_def none SCHEMA_VERSION_def
  show "get_opt d ''correlation_id'' = Some (VStr cid)"
    "get_opt d ''schema_version'' = Some (VInt (if conf = None then 1 else 2))"
    using ex by (auto simp: look)
  show "call_fingerprint dep i = Inr fp \<Longrightarrow> get_opt d ''vapi_call_fingerprint'' = Some (VStr fp)"
    "content_hash fs = Inr ch \<Longrightarrow> get_opt d ''content_hash'' = Some (VStr ch)"
    "get_opt d ''expires_at'' = Some (VInt (now + ttl))"
    "get_opt d ''handoff_status'' = Some (VStr (lit ''PREPARED''))"
    using e(2,3) by (simp_all add: look)
  show "conf = Some cf \<Longrightarrow> get_opt d ''screen_pop_values'' =
      Some (VDict (strvals (dict_del fs (lit ''vapi_call_reference''))))"
    "conf = Some cf \<Longrightarrow> schema_hash cf = Inr h \<Longrightarrow> get_opt d ''screen_pop_schema_hash'' = Some (VStr h)"
    using ex by (auto simp: look)
  assume fs: "distinct (map fst fs)" "map_of fs (lit ''vapi_call_reference'') = Some s"
  then have "map_of (rev (strvals fs)) (lit ''vapi_call_reference'') = Some (VStr s)"
    by (simp add: map_of_rev_distinct strvals_def comp_def map_of_strvals [unfolded strvals_def])
  then show "get_opt d ''vapi_call_reference'' = Some (VStr s)"
    using ex by (auto simp: look)
qed

section \<open>Its shape\<close>

definition field_names :: "screen_pop_field list option \<Rightarrow> pystr list" where
  "field_names conf = (case conf of None \<Rightarrow> map lit DISPLAY_FIELDS | Some fs \<Rightarrow> map field_key fs)"

definition wf_conf :: "pylib \<Rightarrow> screen_pop_field list option \<Rightarrow> bool" where
  "wf_conf lib conf \<longleftrightarrow> (\<forall>fs. conf = Some fs \<longrightarrow> wf_fields lib fs)"

lemma field_names_fresh:
  assumes "wf_conf lib conf"
  shows "distinct (field_names conf)" "set (field_names conf) \<inter> set RESERVED_KEYS = {}"
    "field_names conf \<noteq> []" "[] \<notin> set (field_names conf)"
proof -
  have "distinct (field_names conf) \<and> set (field_names conf) \<inter> set RESERVED_KEYS = {} \<and>
      field_names conf \<noteq> [] \<and> [] \<notin> set (field_names conf)"
  proof (cases conf)
    case None
    then show ?thesis by (simp add: field_names_def DISPLAY_FIELDS_def RESERVED_KEYS_def)
  next
    case (Some fs)
    with assms show ?thesis
      by (auto simp: field_names_def wf_conf_def wf_fields_def wf_field_def list_all_iff key_pattern_def)
  qed
  then show "distinct (field_names conf)" "set (field_names conf) \<inter> set RESERVED_KEYS = {}"
    "field_names conf \<noteq> []" "[] \<notin> set (field_names conf)" by blast+
qed

definition call_reference :: "vapi_identity \<Rightarrow> pystr \<times> pystr" where
  "call_reference i = (lit ''vapi_call_reference'', vapi_call i)"

text \<open>The context is the values of the fields in order, and the reference to the call.\<close>

lemma context_fields_shape:
  assumes t: "tool_call m conf = Inr (tid, args)" and wf: "wf_conf lib conf"
    and c: "context_fields args conf i = Inr fs"
  shows "\<exists>vals. fs = vals @ [call_reference i] \<and> map fst vals = field_names conf \<and>
    (\<forall>cf. conf = Some cf \<longrightarrow> args = strvals vals \<and> validate_values (VDict (strvals vals)) cf = Inr vals)"
proof -
  note fresh = field_names_fresh [OF wf]
  have app: "dict_set vals (lit ''vapi_call_reference'') (vapi_call i) = vals @ [call_reference i]"
    if "map fst vals = field_names conf" for vals
    unfolding call_reference_def
    by (rule dict_set_fresh) (use fresh(2) that in \<open>auto simp: RESERVED_KEYS_def\<close>)
  show ?thesis
  proof (cases conf)
    case None
    with c obtain ps where ps: "rmap (display_field args) DISPLAY_FIELDS = Inr ps"
      "fs = dict_set ps (lit ''vapi_call_reference'') (vapi_call i)"
      by (auto simp: context_fields_def result_simps)
    have "list_all2 (\<lambda>f p. fst p = lit f) DISPLAY_FIELDS ps"
      using ps(1) unfolding rmap_eq_Inr
      by (rule list_all2_mono) (auto simp: display_field_def result_simps)
    then have "map fst ps = field_names conf" using None
      by (auto simp: list_all2_conv_all_nth field_names_def intro: nth_equalityI)
    with app ps None show ?thesis by auto
  next
    case (Some cf)
    with wf have d: "distinct (map field_key cf)" by (simp add: wf_conf_def wf_fields_def)
    from t Some obtain vals v where v: "args = strvals vals" "validate_values v cf = Inr vals"
      by (auto simp: tool_call_def handoff_values_def result_simps)
    have "map (\<lambda>p. (fst p, str_of (snd p))) args = vals"
      unfolding v strvals_def by (simp add: comp_def)
    with c Some have "fs = dict_set vals (lit ''vapi_call_reference'') (vapi_call i)"
      by (simp add: context_fields_def)
    moreover have "map fst vals = field_names conf"
      using validated_lookup(1) [OF d v(2)] Some by (simp add: field_names_def)
    ultimately show ?thesis using app validate_values_again [OF d v(2)] Some v(1) by auto
  qed
qed

lemma fresh_names:
  assumes "wf_conf lib conf" "map fst vals = field_names conf"
  shows "fresh_keys (vals @ [call_reference i])"
    and "distinct (map fst (vals @ [call_reference i]))"
    and "map_of (vals @ [call_reference i]) (lit ''vapi_call_reference'') = Some (vapi_call i)"
    and "dict_del (vals @ [call_reference i]) (lit ''vapi_call_reference'') = vals"
proof -
  note fresh = field_names_fresh [OF assms(1)]
  have no: "lit ''vapi_call_reference'' \<notin> fst ` set vals" "lit ''schema_version'' \<notin> fst ` set vals"
    "lit ''correlation_id'' \<notin> fst ` set vals" "distinct (map fst vals)"
    using fresh assms(2) by (auto simp: RESERVED_KEYS_def simp flip: set_map)
  then show "fresh_keys (vals @ [call_reference i])"
    "distinct (map fst (vals @ [call_reference i]))"
    by (auto simp: fresh_keys_def keys_def call_reference_def)
  show "map_of (vals @ [call_reference i]) (lit ''vapi_call_reference'') = Some (vapi_call i)"
  proof -
    have "map_of vals (lit ''vapi_call_reference'') = None"
      unfolding map_of_eq_None_iff by (rule no(1))
    then show ?thesis by (simp add: call_reference_def map_add_def)
  qed
  show "dict_del (vals @ [call_reference i]) (lit ''vapi_call_reference'') = vals"
    using no(1) by (force simp: dict_del_def call_reference_def filter_id_conv)
qed

text \<open>What a successful preparation has read from the event, and the record it makes of it.\<close>

definition storable_time :: "int \<Rightarrow> int \<Rightarrow> bool" where
  "storable_time now ttl \<longleftrightarrow> storable (VInt now) \<and> storable (VInt (now + ttl))"

definition prepared_from ::
    "pydict \<Rightarrow> byte list \<Rightarrow> pystr \<Rightarrow> int \<Rightarrow> int \<Rightarrow> screen_pop_field list option \<Rightarrow> prepared_record \<Rightarrow>
     vapi_identity \<Rightarrow> strdict \<Rightarrow> pystr \<Rightarrow> pystr \<Rightarrow> bool" where
  "prepared_from event key dep ttl now conf p i vals fp ch \<longleftrightarrow>
     (\<exists>m args. event_message event ''tool-calls'' = Inr m \<and> vapi_identity_of m = Inr i \<and>
        tool_call m conf = Inr (pr_tool_call p, args) \<and> (conf \<noteq> None \<longrightarrow> args = strvals vals)) \<and>
     300 \<le> ttl \<and> ttl \<le> 604800 \<and>
     map fst vals = field_names conf \<and>
     (\<forall>cf. conf = Some cf \<longrightarrow> validate_values (VDict (strvals vals)) cf = Inr vals) \<and>
     derive_correlation_id key dep i = Inr (pr_correlation p) \<and> call_fingerprint dep i = Inr fp \<and>
     content_hash (vals @ [call_reference i]) = Inr ch \<and>
     handoff_record (pr_correlation p) (vals @ [call_reference i]) conf dep i now ttl = Inr (pr_record p)"

lemma prepare_record_from:
  assumes "prepare_record event key dep ttl now conf = Inr p" "wf_conf lib conf"
  shows "\<exists>i vals fp ch. prepared_from event key dep ttl now conf p i vals fp ch"
proof -
  from assms(1) obtain m i ta fs where e: "event_message event ''tool-calls'' = Inr m"
    "vapi_identity_of m = Inr i" "tool_call m conf = Inr ta" "context_fields (snd ta) conf i = Inr fs"
    "300 \<le> ttl" "ttl \<le> 604800" "derive_correlation_id key dep i = Inr (pr_correlation p)"
    "handoff_record (pr_correlation p) fs conf dep i now ttl = Inr (pr_record p)" "pr_tool_call p = fst ta"
    by (auto simp: prepare_record_def result_simps)
  then have t: "tool_call m conf = Inr (pr_tool_call p, snd ta)" by simp
  obtain vals where "fs = vals @ [call_reference i]" "map fst vals = field_names conf"
    "\<forall>cf. conf = Some cf \<longrightarrow> snd ta = strvals vals \<and> validate_values (VDict (strvals vals)) cf = Inr vals"
    using context_fields_shape [OF t assms(2) e(4)] by auto
  moreover from e(8) obtain fp ch where "call_fingerprint dep i = Inr fp" "content_hash fs = Inr ch"
    by (auto simp: handoff_record_iff)
  ultimately have "prepared_from event key dep ttl now conf p i vals fp ch"
    using e t unfolding prepared_from_def by blast
  then show ?thesis by blast
qed

lemma prepared_lookup:
  assumes "prepared_from event key dep ttl now conf p i vals fp ch" "wf_conf lib conf"
  shows "get_opt (pr_record p) ''correlation_id'' = Some (VStr (pr_correlation p))"
    and "get_opt (pr_record p) ''schema_version'' = Some (VInt (if conf = None then 1 else 2))"
    and "get_opt (pr_record p) ''vapi_call_fingerprint'' = Some (VStr fp)"
    and "get_opt (pr_record p) ''content_hash'' = Some (VStr ch)"
    and "get_opt (pr_record p) ''expires_at'' = Some (VInt (now + ttl))"
    and "get_opt (pr_record p) ''handoff_status'' = Some (VStr (lit ''PREPARED''))"
    and "conf = Some cf \<Longrightarrow> get_opt (pr_record p) ''screen_pop_values'' = Some (VDict (strvals vals))"
    and "conf = Some cf \<Longrightarrow> schema_hash cf = Inr h \<Longrightarrow>
      get_opt (pr_record p) ''screen_pop_schema_hash'' = Some (VStr h)"
    and "get_opt (pr_record p) ''vapi_call_reference'' = Some (VStr (vapi_call i))"
proof -
  note f = assms(1) [unfolded prepared_from_def]
  have names: "map fst vals = field_names conf" using f by blast
  note n = fresh_names [OF assms(2) names]
  note look = record_lookup [OF _ n(1)]
  have r: "handoff_record (pr_correlation p) (vals @ [call_reference i]) conf dep i now ttl = Inr (pr_record p)"
    using f by blast
  show "get_opt (pr_record p) ''correlation_id'' = Some (VStr (pr_correlation p))"
    "get_opt (pr_record p) ''schema_version'' = Some (VInt (if conf = None then 1 else 2))"
    "get_opt (pr_record p) ''expires_at'' = Some (VInt (now + ttl))"
    "get_opt (pr_record p) ''handoff_status'' = Some (VStr (lit ''PREPARED''))"
    using look [OF r] by blast+
  show "get_opt (pr_record p) ''vapi_call_fingerprint'' = Some (VStr fp)"
    "get_opt (pr_record p) ''content_hash'' = Some (VStr ch)"
    using look(3,4) [OF r] f by blast+
  show "conf = Some cf \<Longrightarrow> get_opt (pr_record p) ''screen_pop_values'' = Some (VDict (strvals vals))"
    "conf = Some cf \<Longrightarrow> schema_hash cf = Inr h \<Longrightarrow>
      get_opt (pr_record p) ''screen_pop_schema_hash'' = Some (VStr h)"
    using look(7,8) [OF r] unfolding n(4) by blast+
  show "get_opt (pr_record p) ''vapi_call_reference'' = Some (VStr (vapi_call i))"
    using look(9) [OF r n(2,3)] .
qed

text \<open>The store can hold it.\<close>

lemma dict_set_values: "snd ` set (dict_set d k v) \<subseteq> insert v (snd ` set d)"
  by (induction d) auto

lemma dict_update_values: "snd ` set (dict_update a b) \<subseteq> snd ` set a \<union> snd ` set b"
proof (induction b arbitrary: a)
  case (Cons p b)
  have "snd ` set (dict_update a (p # b)) \<subseteq> snd ` set (dict_set a (fst p) (snd p)) \<union> snd ` set b"
    using Cons.IH by simp
  also have "\<dots> \<subseteq> insert (snd p) (snd ` set a) \<union> snd ` set b"
    by (intro Un_mono dict_set_values subset_refl)
  finally show ?case by auto
qed simp

lemma encode_simps:
  "encode_value 0 (VStr s) = Inr (wire_str s)" "encode_value 0 (VInt j) = Inr (wire_int j)"
  "encode_value (Suc 0) (VStr s) = Inr (wire_str s)"
  by (subst encode_value.simps, simp)+

lemma encode_strvals:
  assumes "vals \<noteq> []" "[] \<notin> keys vals"
  shows "\<exists>w. encode_value 0 (VDict (strvals vals)) = Inr w"
proof -
  have "\<exists>y. encode_value (Suc 0) (snd p) = Inr y" if "p \<in> set (strvals vals)" for p
    using that by (auto simp: strvals_def encode_simps)
  then obtain d where "dict_map (encode_value (Suc 0)) (strvals vals) = Inr d"
    using dict_map_ok by blast
  moreover have "strvals vals \<noteq> []" using assms(1) by (simp add: strvals_def)
  ultimately show ?thesis using assms(2) by (subst encode_value.simps) auto
qed

lemma get_key_opt: "get_opt d a = Some v \<Longrightarrow> get_key d a = v"
  by (simp add: get_opt_def get_key_def get_or_def)

lemma prepared_record_ok:
  assumes p: "prepared_from event key dep ttl now conf p i vals fp ch" and wf: "wf_conf lib conf"
    and time: "storable_time now ttl"
  shows "record_ok (pr_record p)"
proof -
  note f = p [unfolded prepared_from_def] and fresh = field_names_fresh [OF wf]
  have names: "map fst vals = field_names conf" using f by blast
  have vals: "vals \<noteq> []" "[] \<notin> keys vals"
    using fresh names by (auto simp: keys_def simp flip: set_map)
  have del: "dict_del (vals @ [call_reference i]) (lit ''vapi_call_reference'') = vals"
    using fresh_names(4) [OF wf names] .
  have each: "storable v \<and> (\<exists>w. encode_value 0 v = Inr w)" if "v \<in> snd ` set (pr_record p)" for v
  proof -
    have r: "handoff_record (pr_correlation p) (vals @ [call_reference i]) conf dep i now ttl = Inr (pr_record p)"
      using f by blast
    then obtain extra fp' ch' where e: "schema_entries (vals @ [call_reference i]) conf = Inr extra"
      "pr_record p =
         dict_update [] (record_parts (pr_correlation p) (vals @ [call_reference i]) conf extra fp' ch' now ttl)"
      unfolding handoff_record_iff by blast
    have ex: "v = VDict (strvals vals) \<or> (\<exists>s. v = VStr s)" if "v \<in> snd ` set extra" for v
      using e(1) that del by (auto simp: schema_entries_def result_simps split: option.splits)
    let ?parts = "record_parts (pr_correlation p) (vals @ [call_reference i]) conf extra fp' ch' now ttl"
    have "snd ` set (pr_record p) \<subseteq> snd ` set ?parts"
      using dict_update_values [of "[]" ?parts] unfolding e(2) [symmetric] by simp
    with that have "v \<in> snd ` set ?parts" by blast
    then have "v \<in> {VInt (if conf = None then SCHEMA_VERSION else 2), VInt now, VInt (now + ttl)} \<or>
        (\<exists>s. v = VStr s) \<or> v = VDict (strvals vals)"
      using ex by (auto simp: record_parts_def strvals_def)
    then show ?thesis
    proof (elim disjE)
      assume "v \<in> {VInt (if conf = None then SCHEMA_VERSION else 2), VInt now, VInt (now + ttl)}"
      moreover have "storable (VInt (if conf = None then SCHEMA_VERSION else 2))"
        by (simp add: SCHEMA_VERSION_def)
      ultimately show ?thesis using time unfolding storable_time_def by (auto simp only: encode_simps)
    next
      assume "\<exists>s. v = VStr s"
      then show ?thesis by (auto simp: encode_simps)
    next
      assume "v = VDict (strvals vals)"
      then show ?thesis using encode_strvals [OF vals] by (auto simp: list_all_iff strvals_def)
    qed
  qed
  have "storable (VDict (pr_record p))" using each by (auto simp: list_all_iff)
  moreover have "\<exists>it. encode_item (pr_record p) = Inr it"
    unfolding encode_item_def using each by (intro dict_map_ok) auto
  ultimately show ?thesis
    using prepared_lookup(2,3,4,6) [OF p wf, THEN get_key_opt] by (simp add: record_ok_def)
qed

section \<open>The operations over the contract\<close>

text \<open>
  Code that runs between two calls of the store and does not touch the table: the reservation of a
  destination is one, whose expiry is a time the table can hold.
\<close>

definition outside ::
    "('w \<Rightarrow> pystr \<Rightarrow> pydict option) \<Rightarrow> ('w \<Rightarrow> bool) \<Rightarrow> ('w \<Rightarrow> bool) \<Rightarrow> ('w, 'a) act \<Rightarrow> bool" where
  "outside row good up m \<longleftrightarrow>
     (\<forall>w r w'. m w = (r, w') \<longrightarrow> row w' = row w \<and> (good w \<longrightarrow> good w') \<and> (up w \<longrightarrow> up w'))"

definition quiet_reserve ::
    "('w \<Rightarrow> pystr \<Rightarrow> pydict option) \<Rightarrow> ('w \<Rightarrow> bool) \<Rightarrow> ('w \<Rightarrow> bool) \<Rightarrow>
     (pystr \<Rightarrow> pystr \<Rightarrow> ('w, sip_reservation) act) \<Rightarrow> bool" where
  "quiet_reserve row good up reserve \<longleftrightarrow>
     (\<forall>c k. outside row good up (reserve c k) \<and>
        (\<forall>w res w'. reserve c k w = (Inr res, w') \<longrightarrow> storable (VInt (sip_expires res))))"

text \<open>A transfer, cut where it calls the store and where it calls the route service.\<close>

definition transfer_call :: "pydict \<Rightarrow> byte list \<Rightarrow> pystr \<Rightarrow> (vapi_identity \<times> pystr) result" where
  "transfer_call event key dep =
     rbind (event_message event ''transfer-destination-request'') (\<lambda>m.
     rbind (vapi_identity_of m) (\<lambda>i.
     rbind (derive_correlation_id key dep i) (\<lambda>cid. Inr (i, cid))))"

definition transfer_admit ::
    "pydict option \<Rightarrow> pystr \<Rightarrow> vapi_identity \<Rightarrow> pystr \<Rightarrow> int \<Rightarrow> pystr result" where
  "transfer_admit r dep i cid now =
     (if r = None then Inl (HandoffError ''handoff_not_prepared'' 409)
      else rbind (call_fingerprint dep i) (\<lambda>fp.
           rbind (check_prepared r fp now) (\<lambda>_. idempotency_key cid)))"

definition transfer_uri :: "pystr \<Rightarrow> sip_reservation \<Rightarrow> int \<Rightarrow> pystr result" where
  "transfer_uri security res now =
     rbind (destination_uri security (sip_uri res)) (\<lambda>uri.
     rbind (bounded_identifier (VStr (sip_call res)) ''bridgefu_call_id'') (\<lambda>_.
     if sip_expires res \<le> now then Inl (HandoffError ''bridgefu_destination_expired'' 502) else Inr uri))"

definition transfer_rest ::
    "'w handoff_store \<Rightarrow> (pystr \<Rightarrow> pystr \<Rightarrow> ('w, sip_reservation) act) \<Rightarrow> pystr \<Rightarrow> pystr \<Rightarrow> pystr \<Rightarrow>
     int \<Rightarrow> ('w, pyval) act" where
  "transfer_rest st reserve cid ikey security now =
     abind (reserve cid ikey) (\<lambda>res.
     abind (alift (transfer_uri security res now)) (\<lambda>uri.
     abind (mark_reserved st cid now (sip_call res) (sip_expires res)) (\<lambda>_.
     aret (destination_response uri cid))))"

lemma transfer_eq:
  "transfer_destination st reserve event key dep security now w =
     (case transfer_call event key dep of
        Inl e \<Rightarrow> (Inl e, w)
      | Inr (i, cid) \<Rightarrow>
          (case get_record st cid w of
             (Inl e, v) \<Rightarrow> (Inl e, v)
           | (Inr r, v) \<Rightarrow>
               (case transfer_admit r dep i cid now of
                  Inl e \<Rightarrow> (Inl e, v)
                | Inr ikey \<Rightarrow> transfer_rest st reserve cid ikey security now v)))"
proof -
  have tail: "abind (alift (destination_uri security (sip_uri res))) (\<lambda>uri.
       abind (alift (bounded_identifier (VStr (sip_call res)) ''bridgefu_call_id'')) (\<lambda>call.
       if sip_expires res \<le> now then araise (HandoffError ''bridgefu_destination_expired'' 502)
       else m uri)) = abind (alift (transfer_uri security res now)) m" for res m
    by (cases "destination_uri security (sip_uri res)";
        cases "bounded_identifier (VStr (sip_call res)) ''bridgefu_call_id''")
      (auto simp: transfer_uri_def)
  show ?thesis
    unfolding transfer_destination_def tail transfer_rest_def [symmetric]
    by (cases "event_message event ''transfer-destination-request''"; simp add: transfer_call_def)
      (auto simp: transfer_admit_def abind_def split: sum.splits prod.splits)
qed

text \<open>What a transfer and a lookup read from a row is the same on the row as read.\<close>

lemma agrees_key:
  assumes "agrees d e" "a \<in> set PROJECTION"
  shows "same (get_key d a) (get_key e a)"
proof -
  have "rel_option same (get_opt d a) (get_opt e a)" using assms by (simp add: agrees_def)
  then show ?thesis
    by (cases "get_opt d a"; cases "get_opt e a") (auto simp: get_key_def get_or_def get_opt_def same_atom)
qed

lemma same_kind: "same x y \<Longrightarrow> is_int y = is_int x \<and> int_of y = int_of x \<and> is_dict y = is_dict x"
  by (erule same.cases) auto

lemma agrees_status:
  assumes "agrees d e"
  shows "status_in e ss = status_in d ss"
proof -
  have "get_key e ''handoff_status'' = VStr s \<longleftrightarrow> get_key d ''handoff_status'' = VStr s" for s
    using agreed_scalar [OF assms, of "''handoff_status''" "VStr s"] by (simp add: PROJECTION_def)
  then show ?thesis by (simp add: status_in_def)
qed

lemma agrees_expiry:
  "agrees d e \<Longrightarrow> is_int (get_key e ''expires_at'') = is_int (get_key d ''expires_at'') \<and>
     int_of (get_key e ''expires_at'') = int_of (get_key d ''expires_at'')"
  using agrees_key [of d e "''expires_at''", THEN same_kind] by (simp add: PROJECTION_def)

lemma check_prepared_agrees:
  "rel_option agrees r s \<Longrightarrow> check_prepared s fp now = check_prepared r fp now"
  using agreed_scalar [of _ _ "''vapi_call_fingerprint''" "VStr fp"]
  by (cases r; cases s)
    (auto simp: check_prepared_def agrees_expiry agrees_status PROJECTION_def)

lemma transfer_admit_agrees:
  "rel_option agrees r s \<Longrightarrow> transfer_admit s dep i cid now = transfer_admit r dep i cid now"
  using check_prepared_agrees [of r s] by (cases r; cases s) (simp_all add: transfer_admit_def)

lemma lookup_usable_agrees: "rel_option agrees r s \<Longrightarrow> lookup_usable s now = lookup_usable r now"
  by (cases r; cases s) (auto simp: lookup_usable_def agrees_expiry agrees_status)

lemma check_prepared_reservable: "check_prepared r fp now = Inr () \<Longrightarrow> reservable r"
  by (auto simp: check_prepared_def reservable_def split: option.splits if_splits)

lemma transfer_admit_checked:
  "transfer_admit r dep i cid now = Inr k \<longleftrightarrow>
     (\<exists>d fp. r = Some d \<and> call_fingerprint dep i = Inr fp \<and> check_prepared r fp now = Inr () \<and>
        idempotency_key cid = Inr k)"
  by (cases r) (auto simp: transfer_admit_def result_simps)

context handoff_store begin

lemma prepare_cases:
  assumes inv: "inv w" and wf: "wf_conf lib conf" and time: "storable_time now ttl"
    and call: "prepare_handoff st event key dep ttl now conf w = (r, w')"
  shows "inv w' \<and> (up w \<longrightarrow> up w') \<and>
    ((\<exists>e. prepare_record event key dep ttl now conf = Inl e \<and> r = Inl e \<and> w' = w) \<or>
     (\<exists>p i vals fp ch. prepare_record event key dep ttl now conf = Inr p \<and>
        prepared_from event key dep ttl now conf p i vals fp ch \<and>
        (r = Inr \<lparr>prepared_correlation = pr_correlation p, prepared_tool_call = pr_tool_call p,
             prepared_replayed = False\<rparr> \<and> row w (pr_correlation p) = None \<and>
           row w' = (row w)(pr_correlation p \<mapsto> pr_record p) \<or>
         r = Inr \<lparr>prepared_correlation = pr_correlation p, prepared_tool_call = pr_tool_call p,
             prepared_replayed = True\<rparr> \<and> row w' = row w \<and>
           exact_replay (row w (pr_correlation p)) (pr_record p) \<or>
         r = Inl replay_conflict \<and> row w' = row w \<and> row w (pr_correlation p) \<noteq> None \<and>
           \<not> exact_replay (row w (pr_correlation p)) (pr_record p) \<or>
         (\<exists>e. r = Inl e \<and> \<not> up w \<and> (row w' = row w \<or> row w (pr_correlation p) = None \<and>
            row w' = (row w)(pr_correlation p \<mapsto> pr_record p))))))"
proof (cases "prepare_record event key dep ttl now conf")
  case (Inl e)
  then show ?thesis using call inv by (simp add: prepare_handoff_def)
next
  case (Inr p)
  obtain i vals fp ch where p: "prepared_from event key dep ttl now conf p i vals fp ch"
    using prepare_record_from [OF Inr wf] by blast
  obtain x v where put: "put_prepared st (pr_record p) w = (x, v)" by fastforce
  have eq: "(r, w') = (case x of Inl e \<Rightarrow> Inl e
      | Inr s \<Rightarrow> if s \<noteq> lit ''created'' \<and> s \<noteq> lit ''replayed''
          then Inl (HandoffError ''handoff_store_invalid'' 500)
          else Inr \<lparr>prepared_correlation = pr_correlation p, prepared_tool_call = pr_tool_call p,
            prepared_replayed = (s = lit ''replayed'')\<rparr>, v)"
    using call by (cases x) (auto simp: prepare_handoff_def Inr abind_def put split: if_splits)
  have key: "get_key (pr_record p) ''correlation_id'' = VStr (pr_correlation p)"
    using prepared_lookup(1) [OF p wf] by (rule get_key_opt)
  note spec = put_spec [OF inv prepared_record_ok [OF p wf time] key put]
  have alive: "up w \<longrightarrow> up v" using put_alive put by blast
  have ne: "lit ''created'' \<noteq> lit ''replayed''" by simp
  show ?thesis
    using spec alive eq Inr p ne by (elim conjE disjE exE) (simp_all, blast+)
qed

lemma rest_cases:
  assumes inv: "inv w" and q: "quiet_reserve row inv up reserve" and now: "storable (VInt now)"
    and adm: "reservable (row w cid)"
    and call: "transfer_rest st reserve cid ikey security now w = (r, w')"
  shows "inv w' \<and> (up w \<longrightarrow> up w') \<and>
    ((\<exists>res v uri. reserve cid ikey w = (Inr res, v) \<and> transfer_uri security res now = Inr uri \<and>
        r = Inr (destination_response uri cid) \<and>
        row w' = (row w)(cid \<mapsto> reserved_row (the (row w cid)) now (sip_call res) (sip_expires res))) \<or>
     (\<exists>e. r = Inl e \<and> (row w' = row w \<or> \<not> up w \<and>
        (\<exists>call expiry. row w' = (row w)(cid \<mapsto> reserved_row (the (row w cid)) now call expiry)))))"
proof -
  obtain x v where res: "reserve cid ikey w = (x, v)" by fastforce
  have out: "row v = row w" "inv v" "up w \<longrightarrow> up v"
    using q res inv unfolding quiet_reserve_def outside_def by blast+
  show ?thesis
  proof (cases x)
    case (Inl e)
    then show ?thesis using call out by (auto simp: transfer_rest_def abind_def res)
  next
    case (Inr rv)
    show ?thesis
    proof (cases "transfer_uri security rv now")
      case (Inl e)
      then show ?thesis using call out Inr by (auto simp: transfer_rest_def abind_def res)
    next
      case uri: (Inr uri)
      obtain u v' where mark: "mark_reserved st cid now (sip_call rv) (sip_expires rv) v = (u, v')" by fastforce
      have exp: "storable (VInt (sip_expires rv))"
        using q res Inr unfolding quiet_reserve_def by blast
      note m = mark_spec [OF out(2) now exp mark] and alive = mark_alive [OF _ mark]
      have "w' = v'" "r = (case u of Inl e \<Rightarrow> Inl e | Inr _ \<Rightarrow> Inr (destination_response uri cid))"
        using call Inr uri mark by (cases u; simp add: transfer_rest_def abind_def res)+
      then show ?thesis
        using m alive out res Inr uri adm by (elim conjE disjE exE) (simp_all, blast+)
    qed
  qed
qed

lemma transfer_cases:
  assumes inv: "inv w" and q: "quiet_reserve row inv up reserve" and now: "storable (VInt now)"
    and call: "transfer_destination st reserve event key dep security now w = (r, w')"
  shows "inv w' \<and> (up w \<longrightarrow> up w') \<and>
    ((\<exists>i cid k res v v' uri. transfer_call event key dep = Inr (i, cid) \<and>
        transfer_admit (row w cid) dep i cid now = Inr k \<and> reserve cid k v = (Inr res, v') \<and>
        transfer_uri security res now = Inr uri \<and> r = Inr (destination_response uri cid) \<and>
        row w' = (row w)(cid \<mapsto> reserved_row (the (row w cid)) now (sip_call res) (sip_expires res))) \<or>
     (\<exists>e. r = Inl e \<and> (row w' = row w \<or> \<not> up w \<and>
        (\<exists>cid call expiry. reservable (row w cid) \<and>
           row w' = (row w)(cid \<mapsto> reserved_row (the (row w cid)) now call expiry)))))"
proof (cases "transfer_call event key dep")
  case (Inl e)
  then show ?thesis using call inv by (auto simp: transfer_eq)
next
  case (Inr ic)
  obtain i cid where ic: "ic = (i, cid)" by fastforce
  obtain x v where get: "get_record st cid w = (x, v)" by fastforce
  note g = get_spec [OF inv get]
  have alive: "up w \<longrightarrow> up v" using get_alive [OF inv _ get] by blast
  show ?thesis
  proof (cases x)
    case (Inl e)
    then show ?thesis using call g alive Inr ic get by (auto simp: transfer_eq)
  next
    case x: (Inr d)
    then have adm: "transfer_admit d dep i cid now = transfer_admit (row w cid) dep i cid now"
      using g transfer_admit_agrees by blast
    show ?thesis
    proof (cases "transfer_admit (row w cid) dep i cid now")
      case (Inl e)
      then show ?thesis using call g alive Inr ic get x adm by (auto simp: transfer_eq)
    next
      case k: (Inr k)
      then have "reservable (row v cid)"
        using g check_prepared_reservable unfolding transfer_admit_checked by auto
      moreover have "transfer_rest st reserve cid k security now v = (r, w')"
        using call Inr ic get x adm k by (simp add: transfer_eq)
      ultimately show ?thesis
        using rest_cases [OF _ q now, of v cid k security r w'] g alive Inr ic k
        by (elim conjE disjE exE) (auto 0 4)
    qed
  qed
qed

end

section \<open>Lookups\<close>

text \<open>The answer to a lookup, given the row as read.\<close>

definition lookup_answer ::
    "pydict option \<Rightarrow> int \<Rightarrow> screen_pop_field list option \<Rightarrow> pystr option \<Rightarrow> strdict result" where
  "lookup_answer r now conf routing =
     (if \<not> lookup_usable r now then Inr (lookup_unavailable conf)
      else (case conf of
              Some fs \<Rightarrow> lookup_configured (the r) fs routing
            | None \<Rightarrow>
                rbind (lookup_plain (the r) (mk [(''context_available'', lit ''true''), (''routing_value'', [])])
                  RETURN_FIELDS) (\<lambda>o'. Inr (case o' of None \<Rightarrow> lookup_unavailable conf | Some d \<Rightarrow> d))))"

lemma lookup_eq:
  "connect_lookup st event now conf routing w =
     (case connect_correlation_id event of
        None \<Rightarrow> (Inr (lookup_unavailable conf), w)
      | Some cid \<Rightarrow>
          (case get_record st cid w of
             (Inl e, v) \<Rightarrow> (Inl e, v)
           | (Inr r, v) \<Rightarrow> (lookup_answer r now conf routing, v)))"
  by (auto simp: connect_lookup_def lookup_answer_def abind_def rbind_def
      split: option.splits prod.splits sum.splits)

text \<open>The shape of an answer: the keys are always the same, in the same order.\<close>

lemma map_fst_update:
  "map fst a = map fst a' \<Longrightarrow> map fst b = map fst b' \<Longrightarrow>
     map fst (dict_update a b) = map fst (dict_update a' b')"
proof (induction b arbitrary: a a' b')
  case (Cons p b)
  then obtain q c where q: "b' = q # c" "fst q = fst p" "map fst b = map fst c" by (cases b') auto
  have "map fst (dict_set a (fst p) (snd p)) = map fst (dict_set a' (fst q) (snd q))"
    using Cons.prems(1) q(2) by (simp add: map_fst_dict_set)
  from Cons.IH [OF this q(3)] show ?case using q(1) by simp
qed simp

lemma lookup_plain_shape:
  "lookup_plain d acc fs = Inr (Some r) \<Longrightarrow>
     map fst r = map fst (dict_update acc (map (\<lambda>f. (lit f, [])) fs)) \<and>
     (k \<notin> set (map lit fs) \<longrightarrow> map_of r k = map_of acc k)"
proof (induction fs arbitrary: acc)
  case (Cons f fs)
  then obtain s bs where s: "get_or d f (VStr []) = VStr s" "utf8_encode s = Inr bs"
    "lookup_plain d (dict_set acc (lit f) s) fs = Inr (Some r)"
    by (auto simp: result_simps split: pyval.splits if_splits)
  have "map fst (dict_update (dict_set acc (lit f) s) (map (\<lambda>f. (lit f, [])) fs)) =
      map fst (dict_update (dict_set acc (lit f) []) (map (\<lambda>f. (lit f, [])) fs))"
    by (rule map_fst_update) (simp_all add: map_fst_dict_set)
  with Cons.IH [OF s(3)] show ?case by auto
qed simp

definition available :: "strdict \<Rightarrow> bool" where
  "available d \<longleftrightarrow> map_of d (lit ''context_available'') = Some (lit ''true'')"

lemma connect_rows_no_flag: "lit ''context_available'' \<notin> keys (connect_rows fs v)"
  unfolding keys_def connect_rows_keys by (simp add: upt_rec row_key_def lit_def)

text \<open>The answer with the values of a configuration.\<close>

definition lookup_result :: "screen_pop_field list \<Rightarrow> pystr \<Rightarrow> pystr \<Rightarrow> strdict \<Rightarrow> strdict" where
  "lookup_result fs reference routing vals = dict_update []
     (mk [(''context_available'', lit ''true''), (''vapi_call_reference'', reference),
          (''routing_value'', routing)] @ connect_rows fs (Some vals))"

lemma configured_cases:
  assumes "lookup_configured d fs routing = Inr r"
  shows "r = lookup_unavailable (Some fs) \<or>
    (\<exists>v2 vals v s x. schema_v2 d fs = Inr v2 \<and> lookup_values d fs v2 = Some vals \<and>
       validate_values vals fs = Inr v \<and> get_or d ''vapi_call_reference'' (VStr []) = VStr s \<and>
       lookup_routing fs routing v2 v = Inr (Some x) \<and> r = lookup_result fs s x v)"
proof -
  from assms obtain v2 where v2: "schema_v2 d fs = Inr v2"
    unfolding lookup_configured_def rbind_eq_Inr by blast
  note step = assms [unfolded lookup_configured_def v2 rbind_simps]
  show ?thesis
  proof (cases "lookup_values d fs v2")
    case None
    with step show ?thesis by simp
  next
    case (Some vals)
    show ?thesis
    proof (cases "validate_values vals fs")
      case (Inl e)
      with step Some show ?thesis by (cases e) simp_all
    next
      case (Inr v)
      show ?thesis
      proof (cases "get_or d ''vapi_call_reference'' (VStr [])")
        case (VStr s)
        have "r = lookup_unavailable (Some fs) \<or>
            (\<exists>x. lookup_routing fs routing v2 v = Inr (Some x) \<and> r = lookup_result fs s x v)"
          using step Some Inr VStr
          by (cases "utf8_encode s"; cases "lookup_routing fs routing v2 v")
            (auto simp: lookup_result_def split: if_splits option.splits)
        with v2 Some Inr VStr show ?thesis by blast
      qed (use step Some Inr in simp_all)
    qed
  qed
qed

lemma available_result: "available (lookup_result fs s x v)"
proof -
  have "map_of (rev (connect_rows fs (Some v))) (lit ''context_available'') = None"
    using connect_rows_no_flag by (simp add: map_of_eq_None_iff keys_def)
  then show ?thesis
    by (simp only: lookup_result_def available_def map_of_update_Nil) (simp add: map_add_def)
qed

lemma configured_shape:
  assumes "lookup_configured d fs routing = Inr r"
  shows "map fst r = map fst (lookup_unavailable (Some fs)) \<and>
    (r = lookup_unavailable (Some fs) \<or> available r)"
proof -
  from configured_cases [OF assms] consider "r = lookup_unavailable (Some fs)"
    | s x v where "r = lookup_result fs s x v"
    by blast
  then show ?thesis
  proof cases
    case 2
    have "available r" unfolding 2 by (rule available_result)
    moreover have "map fst r = map fst (lookup_unavailable (Some fs))"
      unfolding 2 lookup_result_def lookup_unavailable_def option.case
      by (rule map_fst_update) (simp_all add: connect_rows_keys)
    ultimately show ?thesis by simp
  qed simp
qed

lemma answer_shape:
  assumes "lookup_answer r now conf routing = Inr d"
  shows "map fst d = map fst (lookup_unavailable conf) \<and> (d = lookup_unavailable conf \<or> available d)"
proof (cases conf)
  case (Some fs)
  with assms configured_shape show ?thesis by (auto simp: lookup_answer_def split: if_splits)
next
  case None
  with assms consider "d = lookup_unavailable None"
    | "lookup_plain (the r) (mk [(''context_available'', lit ''true''), (''routing_value'', [])])
         RETURN_FIELDS = Inr (Some d)"
    by (auto simp: lookup_answer_def result_simps split: if_splits option.splits)
  then show ?thesis
  proof cases
    case 2
    from lookup_plain_shape [OF this, of "lit ''context_available''"]
    show ?thesis using None
      by (simp add: available_def lookup_unavailable_def RETURN_FIELDS_def DISPLAY_FIELDS_def)
  qed (use None in simp)
qed

section \<open>Entries\<close>

text \<open>
  How an entry may change: the context and the identity stay, and its status only moves to
  \<open>RESERVED\<close>.
\<close>

definition MUTABLE :: "string set" where
  "MUTABLE = {''handoff_status'', ''updated_at'', ''bridgefu_call_id'', ''attachment_expires_at''}"

definition row_evolves :: "pydict \<Rightarrow> pydict \<Rightarrow> bool" where
  "row_evolves d d' \<longleftrightarrow>
     (\<forall>a. a \<notin> MUTABLE \<longrightarrow> get_opt d' a = get_opt d a) \<and>
     (get_opt d' ''handoff_status'' = get_opt d ''handoff_status'' \<or>
      status_in d [''PREPARED'', ''RESERVED''] \<and>
        get_opt d' ''handoff_status'' = Some (VStr (lit ''RESERVED'')))"

lemma row_evolves_refl [simp]: "row_evolves d d"
  by (simp add: row_evolves_def)

lemma row_evolves_trans: "row_evolves d e \<Longrightarrow> row_evolves e f \<Longrightarrow> row_evolves d f"
  by (auto simp: row_evolves_def status_in_iff)

lemma reserved_evolves: "status_in d [''PREPARED'', ''RESERVED''] \<Longrightarrow> row_evolves d (reserved_row d n call m)"
  by (auto simp: row_evolves_def reserved_row_def get_opt_def MUTABLE_def)

lemma agrees_opt:
  assumes "agrees d e" "a \<in> set PROJECTION"
  shows "get_opt d a = Some (VStr s) \<Longrightarrow> get_opt e a = Some (VStr s)"
    and "get_opt d a = Some (VInt j) \<Longrightarrow> get_opt e a = Some (VInt j)"
    and "get_opt d a = Some (VDict (strvals vals)) \<Longrightarrow>
      \<exists>m. get_opt e a = Some (VDict m) \<and> map_of m = map_of (strvals vals)"
proof -
  have r: "rel_option same (get_opt d a) (get_opt e a)" using assms by (simp add: agrees_def)
  show "get_opt e a = Some (VStr s)" if "get_opt d a = Some (VStr s)"
    using r that by (cases "get_opt e a") auto
  show "get_opt e a = Some (VInt j)" if "get_opt d a = Some (VInt j)"
    using r that by (cases "get_opt e a") auto
  show "\<exists>m. get_opt e a = Some (VDict m) \<and> map_of m = map_of (strvals vals)"
    if "get_opt d a = Some (VDict (strvals vals))"
  proof -
    from r that obtain m where m: "get_opt e a = Some (VDict m)"
      "\<forall>k. rel_option same (map_of (strvals vals) k) (map_of m k)"
      by (cases "get_opt e a") (auto simp: same_dict_iff)
    have "map_of m k = map_of (strvals vals) k" for k
      using m(2) [rule_format, of k] by (cases "map_of vals k"; cases "map_of m k") (auto simp: map_of_strvals)
    with m show ?thesis by blast
  qed
qed

text \<open>A prepared entry that has evolved still answers with its context until it expires.\<close>

lemma evolved_opt:
  assumes "row_evolves d d'" "agrees d' e" "a \<in> set PROJECTION" "a \<notin> MUTABLE"
  shows "get_opt d a = Some (VStr s) \<Longrightarrow> get_opt e a = Some (VStr s)"
    and "get_opt d a = Some (VInt j) \<Longrightarrow> get_opt e a = Some (VInt j)"
    and "get_opt d a = Some (VDict (strvals vals)) \<Longrightarrow>
      \<exists>m. get_opt e a = Some (VDict m) \<and> map_of m = map_of (strvals vals)"
  using agrees_opt [OF assms(2,3)] assms(1,4) unfolding row_evolves_def by auto

lemma evolved_answer:
  assumes p: "prepared_from event key dep ttl now (Some fs) p i vals fp ch" and wf: "wf_fields lib fs"
    and ev: "row_evolves (pr_record p) d" and ag: "agrees d e" and t: "t < now + ttl"
  shows "lookup_answer (Some e) t (Some fs) None = Inr (lookup_result fs (vapi_call i) [] vals)"
proof -
  have wfc: "wf_conf lib (Some fs)" using wf by (simp add: wf_conf_def)
  note row = prepared_lookup [OF p wfc] and f = p [unfolded prepared_from_def]
  note opt = evolved_opt [OF ev ag]
  have proj: "a \<in> set PROJECTION" "a \<notin> MUTABLE"
    if "a \<in> {''expires_at'', ''schema_version'', ''screen_pop_schema_hash'', ''screen_pop_values'',
      ''vapi_call_reference''}" for a
    using that by (auto simp: PROJECTION_def MUTABLE_def)
  have exp: "get_key e ''expires_at'' = VInt (now + ttl)"
    and ver: "get_key e ''schema_version'' = VInt 2"
    and ref: "get_opt e ''vapi_call_reference'' = Some (VStr (vapi_call i))"
    using opt(2) [OF proj row(5)] opt(2) [OF proj row(2)] opt(1) [OF proj row(9)]
    by (auto intro: get_key_opt)
  obtain h where h: "schema_hash fs = Inr h"
    using f by (auto simp: handoff_record_iff schema_entries_def result_simps)
  have sh: "get_key e ''screen_pop_schema_hash'' = VStr h"
    using opt(1) [OF proj row(8) [OF refl h]] by (auto intro: get_key_opt)
  obtain m where m: "get_key e ''screen_pop_values'' = VDict m" "map_of m = map_of (strvals vals)"
    using opt(3) [OF proj row(7) [OF refl]] by (auto intro: get_key_opt)
  have "status_in d [''PREPARED'', ''RESERVED'']"
    using ev row(6) by (auto simp: row_evolves_def status_in_iff)
  then have st: "status_in e [''PREPARED'', ''RESERVED'']" by (simp only: agrees_status [OF ag])
  then have us: "lookup_usable (Some e) t"
    using exp t by (auto simp: lookup_usable_def status_in_iff)
  have v2: "schema_v2 e fs = Inr True"
    using ver h sh m(1) by (simp add: schema_v2_def is_schema_v2_def)
  have vals: "validate_values (VDict m) fs = Inr vals"
    using f validate_values_cong [OF m(2)] by simp
  have id: "is_identifier (vapi_call i)" using f vapi_identity_good by blast
  then have "length (vapi_call i) \<le> 128" by (simp add: is_identifier_def class_match_def)
  then have u: "\<exists>bs. utf8_encode (vapi_call i) = Inr bs \<and> length bs \<le> 128"
    using utf8_encode_ascii [OF identifier_ascii [OF id]] by simp
  have g: "get_or e ''vapi_call_reference'' (VStr []) = VStr (vapi_call i)"
    using ref by (simp add: get_or_def get_opt_def)
  have lv: "lookup_values e fs True = Some (VDict m)" using m(1) by (simp add: lookup_values_def)
  from u show ?thesis
    using us by (auto simp: lookup_answer_def lookup_configured_def v2 lv vals g lookup_routing_def
        lookup_result_def)
qed

section \<open>The ledger\<close>

text \<open>
  Any sequence of the three operations of a call for one deployment, whatever the events, the times and
  the results: an operation that raises is a step too.  \<open>table_step\<close> below adds the other writers of
  the table.
\<close>

inductive ledger_step ::
    "pylib \<Rightarrow> 'w handoff_store \<Rightarrow> (pystr \<Rightarrow> pystr \<Rightarrow> ('w, sip_reservation) act) \<Rightarrow> byte list \<Rightarrow> pystr \<Rightarrow>
     'w \<Rightarrow> 'w \<Rightarrow> bool"
  for lib :: pylib and st :: "'w handoff_store"
    and reserve :: "pystr \<Rightarrow> pystr \<Rightarrow> ('w, sip_reservation) act"
    and key :: "byte list" and dep :: pystr
  where
    prepare_step: "prepare_handoff st event key dep ttl now conf w = (r, w') \<Longrightarrow>
      wf_conf lib conf \<Longrightarrow> storable_time now ttl \<Longrightarrow> ledger_step lib st reserve key dep w w'"
  | transfer_step: "transfer_destination st reserve event key dep security now w = (r, w') \<Longrightarrow>
      storable (VInt now) \<Longrightarrow> ledger_step lib st reserve key dep w w'"
  | lookup_step: "connect_lookup st event now conf routing w = (r, w') \<Longrightarrow>
      ledger_step lib st reserve key dep w w'"

context handoff_store begin

lemma lookup_cases:
  assumes inv: "inv w" and call: "connect_lookup st event now conf routing w = (r, w')"
  shows "inv w' \<and> row w' = row w \<and> (up w \<longrightarrow> up w') \<and>
    (connect_correlation_id event = None \<and> r = Inr (lookup_unavailable conf) \<or>
     (\<exists>cid x. connect_correlation_id event = Some cid \<and> rel_option agrees (row w cid) x \<and>
        r = lookup_answer x now conf routing) \<or>
     (\<exists>e. r = Inl e \<and> \<not> up w))"
proof (cases "connect_correlation_id event")
  case None
  then show ?thesis using call inv by (simp add: lookup_eq)
next
  case (Some cid)
  obtain x v where get: "get_record st cid w = (x, v)" by fastforce
  note g = get_spec [OF inv get] and alive = get_alive [OF inv _ get]
  have "(r, w') = ((case x of Inl e \<Rightarrow> Inl e | Inr y \<Rightarrow> lookup_answer y now conf routing), v)"
    using call Some get by (cases x) (simp_all add: lookup_eq)
  with g alive Some show ?thesis by (cases x) auto
qed

lemma step_evolves:
  assumes "ledger_step lib st reserve key dep w w'" "quiet_reserve row inv up reserve" "inv w"
  shows "inv w' \<and> (up w \<longrightarrow> up w') \<and> (\<forall>c d. row w c = Some d \<longrightarrow> (\<exists>d'. row w' c = Some d' \<and> row_evolves d d'))"
  using assms
proof cases
  case (prepare_step event ttl now conf r)
  from prepare_cases [OF assms(3) prepare_step(2,3,1)] show ?thesis
    by (elim conjE disjE exE) (auto intro: row_evolves_refl)
next
  case (transfer_step event security now r)
  have put: "\<exists>d'. ((row w)(cid \<mapsto> reserved_row (the (row w cid)) n call m)) c = Some d' \<and> row_evolves d d'"
    if "reservable (row w cid)" "row w c = Some d" for cid n call m c d
    using that reserved_evolves by (auto simp: reservable_def)
  have adm: "reservable (row w cid)" if "transfer_admit (row w cid) dep i cid now = Inr k" for cid i k
    using that check_prepared_reservable unfolding transfer_admit_checked by auto
  from transfer_cases [OF assms(3,2) transfer_step(2,1)] show ?thesis
    by (elim conjE disjE exE) (simp_all del: fun_upd_apply add: put adm)
next
  case (lookup_step event now conf routing r)
  from lookup_cases [OF assms(3) lookup_step(1)] show ?thesis by simp
qed

lemma steps_evolve:
  assumes "(ledger_step lib st reserve key dep)\<^sup>*\<^sup>* w w'" "quiet_reserve row inv up reserve" "inv w"
  shows "inv w' \<and> (up w \<longrightarrow> up w') \<and> (\<forall>c d. row w c = Some d \<longrightarrow> (\<exists>d'. row w' c = Some d' \<and> row_evolves d d'))"
  using assms(1)
proof induction
  case base
  then show ?case using assms(3) by simp
next
  case (step v w')
  then show ?case using step_evolves [OF step.hyps(2) assms(2)] by (blast intro: row_evolves_trans)
qed

lemma context_kept:
  assumes start: "up w" "inv w" and conf: "wf_fields lib fs" "storable_time now ttl"
    and reserve: "quiet_reserve row inv up reserve"
    and prepared: "prepare_handoff st event key dep ttl now (Some fs) w = (Inr p, w1)"
      "\<not> prepared_replayed p"
    and steps: "(ledger_step lib st reserve key dep)\<^sup>*\<^sup>* w1 w2"
    and query: "connect_correlation_id q = Some (prepared_correlation p)" "t < now + ttl"
  shows "\<exists>m i tid vals. event_message event ''tool-calls'' = Inr m \<and> vapi_identity_of m = Inr i \<and>
    tool_call m (Some fs) = Inr (tid, strvals vals) \<and>
    fst (connect_lookup st q t (Some fs) None w2) = Inr (lookup_result fs (vapi_call i) [] vals)"
proof -
  have wf: "wf_conf lib (Some fs)" using conf(1) by (simp add: wf_conf_def)
  from prepare_cases [OF start(2) wf conf(2) prepared(1)] start(1) prepared(2)
  obtain pr i vals fp ch where pr: "prepared_from event key dep ttl now (Some fs) pr i vals fp ch"
    "prepared_correlation p = pr_correlation pr" "inv w1" "up w1"
    "row w1 (pr_correlation pr) = Some (pr_record pr)"
    by auto
  from steps_evolve [OF steps reserve pr(3)] pr(4,5)
  obtain d where d: "inv w2" "up w2" "row w2 (pr_correlation pr) = Some d" "row_evolves (pr_record pr) d"
    by blast
  obtain r w3 where look: "connect_lookup st q t (Some fs) None w2 = (r, w3)" by fastforce
  from lookup_cases [OF d(1) look] d(2,3) query(1) pr(2)
  obtain e where "agrees d e" "r = lookup_answer (Some e) t (Some fs) None"
    by (auto simp: option_rel_Some1)
  with evolved_answer [OF pr(1) conf(1) d(4) _ query(2)] look pr(1) show ?thesis
    unfolding prepared_from_def by auto
qed

lemma transfer_functional:
  assumes start: "up w" "inv w" and now: "storable (VInt now)"
    and service: "\<And>c k res. rs c k = Inr res \<Longrightarrow> storable (VInt (sip_expires res))"
    and run: "transfer_destination st (\<lambda>c k. alift (rs c k)) event key dep security now w = (r, w')"
  shows "let plan = rbind (transfer_call event key dep) (\<lambda>(i, cid).
        rbind (transfer_admit (row w cid) dep i cid now) (\<lambda>k.
        rbind (rs cid k) (\<lambda>res. rbind (transfer_uri security res now) (\<lambda>uri.
        Inr (cid, res, uri)))))
    in case plan of
         Inl e \<Rightarrow> r = Inl e \<and> row w' = row w
       | Inr (cid, res, uri) \<Rightarrow> r = Inr (destination_response uri cid) \<and>
           row w' = (row w)(cid \<mapsto> reserved_row (the (row w cid)) now (sip_call res) (sip_expires res))"
proof (cases "transfer_call event key dep")
  case (Inl e)
  with run show ?thesis by (simp add: transfer_eq)
next
  case (Inr ic)
  obtain i cid where ic: "ic = (i, cid)" by fastforce
  obtain x v where get: "get_record st cid w = (x, v)" by fastforce
  from get_alive [OF start(2,1) get] obtain d where d: "x = Inr d" "up v" by blast
  from get_spec [OF start(2) get] d have g: "inv v" "row v = row w" "rel_option agrees (row w cid) d" by auto
  note adm = transfer_admit_agrees [OF g(3), of dep i cid now]
  show ?thesis
  proof (cases "transfer_admit (row w cid) dep i cid now")
    case e: (Inl e)
    with run Inr ic get d g adm show ?thesis by (simp add: transfer_eq)
  next
    case k: (Inr k)
    then have res: "reservable (row v cid)"
      using g check_prepared_reservable unfolding transfer_admit_checked by auto
    have rest: "transfer_rest st (\<lambda>c k. alift (rs c k)) cid k security now v = (r, w')"
      using run Inr ic get d adm k by (simp add: transfer_eq)
    show ?thesis
    proof (cases "rbind (rs cid k) (\<lambda>res. rbind (transfer_uri security res now) (\<lambda>uri. Inr (res, uri)))")
      case (Inl e)
      with rest have "r = Inl e \<and> row w' = row w"
        using g by (cases "rs cid k") (auto simp: transfer_rest_def result_simps)
      with Inl Inr ic k show ?thesis by (auto simp: result_simps)
    next
      case pair: (Inr q)
      then obtain rv uri where q: "rs cid k = Inr rv" "transfer_uri security rv now = Inr uri"
        by (auto simp: result_simps)
      obtain u v' where mark: "mark_reserved st cid now (sip_call rv) (sip_expires rv) v = (u, v')" by fastforce
      from mark_spec [OF g(1) now service [OF q(1)] mark] d(2) res g(2)
      have "u = Inr ()" "row v' = (row w)(cid \<mapsto> reserved_row (the (row w cid)) now (sip_call rv) (sip_expires rv))"
        by auto
      with rest q mark Inr ic k show ?thesis by (simp add: transfer_rest_def abind_def)
    qed
  qed
qed

end

section \<open>All writers of the table\<close>

text \<open>
  The direct browser handoff rewrites the entry of its session, and the service removes entries whose time
  to live is over: \<open>expires_at\<close> is the attribute the table names for that.
\<close>

definition quiet_replace ::
    "('w \<Rightarrow> pystr \<Rightarrow> pydict option) \<Rightarrow> ('w \<Rightarrow> bool) \<Rightarrow> ('w \<Rightarrow> bool) \<Rightarrow>
     (pystr \<Rightarrow> pystr \<Rightarrow> pystr \<Rightarrow> pystr \<Rightarrow> ('w, unit) act) \<Rightarrow> bool" where
  "quiet_replace row good up replace \<longleftrightarrow> (\<forall>call leg route k. outside row good up (replace call leg route k))"

definition ttl_removal ::
    "('w \<Rightarrow> pystr \<Rightarrow> pydict option) \<Rightarrow> ('w \<Rightarrow> bool) \<Rightarrow> ('w \<Rightarrow> bool) \<Rightarrow> int \<Rightarrow> 'w \<Rightarrow> 'w \<Rightarrow> bool" where
  "ttl_removal row good up t w w' \<longleftrightarrow>
     (\<exists>c d e. row w c = Some d \<and> get_opt d ''expires_at'' = Some (VInt e) \<and> e \<le> t \<and> row w' = (row w)(c := None)) \<and>
     (good w \<longrightarrow> good w') \<and> (up w \<longrightarrow> up w')"

inductive table_step ::
    "pylib \<Rightarrow> 'w handoff_store \<Rightarrow> 'w direct_store \<Rightarrow> (pystr \<Rightarrow> pystr \<Rightarrow> ('w, sip_reservation) act) \<Rightarrow>
     (pystr \<Rightarrow> pystr \<Rightarrow> pystr \<Rightarrow> pystr \<Rightarrow> ('w, unit) act) \<Rightarrow> ('w \<Rightarrow> 'w \<Rightarrow> bool) \<Rightarrow> byte list \<Rightarrow> pystr \<Rightarrow>
     'w \<Rightarrow> 'w \<Rightarrow> bool"
  for lib :: pylib and st :: "'w handoff_store" and ds :: "'w direct_store"
    and reserve :: "pystr \<Rightarrow> pystr \<Rightarrow> ('w, sip_reservation) act"
    and replace :: "pystr \<Rightarrow> pystr \<Rightarrow> pystr \<Rightarrow> pystr \<Rightarrow> ('w, unit) act"
    and removal :: "'w \<Rightarrow> 'w \<Rightarrow> bool" and key :: "byte list" and dep :: pystr
  where
    call_step: "ledger_step lib st reserve key dep w w' \<Longrightarrow> table_step lib st ds reserve replace removal key dep w w'"
  | direct_step: "direct_browser_handoff ds replace event binding dkey fs now w = (r, w') \<Longrightarrow>
      storable (VInt now) \<Longrightarrow> table_step lib st ds reserve replace removal key dep w w'"
  | removal_step: "removal w w' \<Longrightarrow> table_step lib st ds reserve replace removal key dep w w'"

text \<open>
  How the entry of a browser session may change: besides the attributes above only its values, its content
  hash and its call fingerprint are written, the two hashes once, and values that are written have the
  content hash of the entry.
\<close>

definition session_evolves :: "pydict \<Rightarrow> pydict \<Rightarrow> bool" where
  "session_evolves d d' \<longleftrightarrow>
     (\<forall>a. a \<notin> MUTABLE \<union> {''screen_pop_values'', ''content_hash'', ''vapi_call_fingerprint''} \<longrightarrow>
        get_opt d' a = get_opt d a) \<and>
     (\<forall>a. a \<in> {''content_hash'', ''vapi_call_fingerprint''} \<longrightarrow> get_opt d a \<noteq> None \<longrightarrow> get_opt d' a = get_opt d a) \<and>
     (get_opt d' ''screen_pop_values'' = get_opt d ''screen_pop_values'' \<or>
      (\<exists>vals h. get_opt d' ''screen_pop_values'' = Some (VDict (strvals vals)) \<and> content_hash vals = Inr h \<and>
         get_opt d' ''content_hash'' = Some (VStr h))) \<and>
     (get_opt d' ''handoff_status'' = get_opt d ''handoff_status'' \<or>
      status_in d [''MAPPED'', ''PREPARED'', ''RESERVED''] \<and> status_in d' [''PREPARED'', ''RESERVED''])"

definition entry_evolves :: "pydict \<Rightarrow> pydict \<Rightarrow> bool" where
  "entry_evolves d d' \<longleftrightarrow>
     (if get_opt d ''direct_token_id'' = None then row_evolves d d' else session_evolves d d')"

lemma row_session_evolves: "row_evolves d d' \<Longrightarrow> session_evolves d d'"
  by (auto simp: row_evolves_def session_evolves_def MUTABLE_def status_in_iff)

lemma entry_evolves_row: "row_evolves d d' \<Longrightarrow> entry_evolves d d'"
  by (simp add: entry_evolves_def row_session_evolves)

lemma entry_evolves_token: "entry_evolves d d' \<Longrightarrow> get_opt d' ''direct_token_id'' = get_opt d ''direct_token_id''"
  by (auto simp: entry_evolves_def row_evolves_def session_evolves_def MUTABLE_def split: if_splits)

lemma entry_evolves_expiry: "entry_evolves d d' \<Longrightarrow> get_opt d' ''expires_at'' = get_opt d ''expires_at''"
  by (auto simp: entry_evolves_def row_evolves_def session_evolves_def MUTABLE_def split: if_splits)

lemma status_widen: "status_in d [''PREPARED'', ''RESERVED''] \<Longrightarrow> status_in d [''MAPPED'', ''PREPARED'', ''RESERVED'']"
  by (auto simp: status_in_def)

lemma status_eq: "get_opt d' ''handoff_status'' = get_opt d ''handoff_status'' \<Longrightarrow> status_in d' ss = status_in d ss"
  by (simp add: status_in_iff)

lemma session_evolves_trans:
  assumes "session_evolves d e" "session_evolves e f"
  shows "session_evolves d f"
proof -
  note de = assms(1) [unfolded session_evolves_def] and ef = assms(2) [unfolded session_evolves_def]
  have "get_opt f a = get_opt d a"
    if "a \<notin> MUTABLE \<union> {''screen_pop_values'', ''content_hash'', ''vapi_call_fingerprint''}" for a
    using de ef that by simp
  moreover have "get_opt f a = get_opt d a" if "a \<in> {''content_hash'', ''vapi_call_fingerprint''}" "get_opt d a \<noteq> None" for a
    using de ef that by metis
  moreover have "get_opt f ''screen_pop_values'' = get_opt d ''screen_pop_values'' \<or>
      (\<exists>vals h. get_opt f ''screen_pop_values'' = Some (VDict (strvals vals)) \<and> content_hash vals = Inr h \<and>
         get_opt f ''content_hash'' = Some (VStr h))"
    using de ef by (metis insertI1 option.distinct(1))
  moreover have "get_opt f ''handoff_status'' = get_opt d ''handoff_status'' \<or>
      status_in d [''MAPPED'', ''PREPARED'', ''RESERVED''] \<and> status_in f [''PREPARED'', ''RESERVED'']"
    using de ef status_eq [of e d] status_eq [of f e] by metis
  ultimately show ?thesis unfolding session_evolves_def by blast
qed

lemma entry_evolves_trans: "entry_evolves d e \<Longrightarrow> entry_evolves e f \<Longrightarrow> entry_evolves d f"
  using entry_evolves_token [of d e] row_evolves_trans [of d e f] session_evolves_trans [of d e f]
  by (auto simp: entry_evolves_def split: if_splits)

lemma direct_row_evolves:
  assumes "direct_admits d token content idh" "content_hash vals = Inr content"
  shows "entry_evolves d (direct_row d n vals content idh)"
proof -
  have get: "get_opt (direct_row d n vals content idh) a =
      (if a = ''handoff_status'' then Some (VStr (lit ''PREPARED'')) else if a = ''updated_at'' then Some (VInt n)
       else if a = ''screen_pop_values'' then Some (VDict (strvals vals)) else if a = ''content_hash'' then Some (VStr content)
       else if a = ''vapi_call_fingerprint'' then Some (VStr idh) else get_opt d a)" for a
    by (auto simp: direct_row_def get_opt_def)
  from assms show ?thesis
    by (auto simp: entry_evolves_def session_evolves_def direct_admits_def once_def get MUTABLE_def status_in_iff)
qed

lemma started_row_evolves:
  assumes "get_opt d ''direct_token_id'' \<noteq> None" "status_in d [''PREPARED'', ''RESERVED'']"
  shows "entry_evolves d (started_row d n)"
proof -
  have get: "get_opt (started_row d n) a = (if a = ''handoff_status'' then Some (VStr (lit ''RESERVED''))
       else if a = ''updated_at'' then Some (VInt n) else get_opt d a)" for a
    by (auto simp: started_row_def get_opt_def)
  from assms status_widen show ?thesis
    by (auto simp: entry_evolves_def session_evolves_def get MUTABLE_def status_in_iff)
qed

text \<open>Tables along which every entry evolves.\<close>

definition evolved :: "(pystr \<Rightarrow> pydict option) \<Rightarrow> (pystr \<Rightarrow> pydict option) \<Rightarrow> bool" where
  "evolved t t' \<longleftrightarrow> (\<forall>c d. t c = Some d \<longrightarrow> (\<exists>d'. t' c = Some d' \<and> entry_evolves d d'))"

lemma evolved_refl [simp]: "evolved t t"
  by (auto simp: evolved_def intro: entry_evolves_row)

lemma evolved_trans: "evolved t u \<Longrightarrow> evolved u v \<Longrightarrow> evolved t v"
  unfolding evolved_def by (meson entry_evolves_trans)

lemma evolved_update: "t c = Some d \<Longrightarrow> entry_evolves d d' \<Longrightarrow> evolved t (t(c \<mapsto> d'))"
  by (auto simp: evolved_def intro: entry_evolves_row)

text \<open>A direct handoff, cut where it first calls the store.\<close>

definition direct_call ::
    "pydict \<Rightarrow> pyval \<Rightarrow> byte list \<Rightarrow> screen_pop_field list \<Rightarrow> int \<Rightarrow>
     (pystr \<times> pystr \<times> pystr \<times> vapi_identity \<times> strdict) result" where
  "direct_call event binding key fs now =
     rbind (verify_vapi_binding event binding) (\<lambda>_.
     rbind (event_message event ''tool-calls'') (\<lambda>m.
     rbind (vapi_identity_of m) (\<lambda>i.
     rbind (direct_tool_call m fs) (\<lambda>(tid, token, vals).
     rbind (verify_direct_handoff_token token key now) (\<lambda>(session, token_id).
     Inr (tid, session, token_id, i, vals))))))"

definition direct_rest ::
    "'w direct_store \<Rightarrow> (pystr \<Rightarrow> pystr \<Rightarrow> pystr \<Rightarrow> pystr \<Rightarrow> ('w, unit) act) \<Rightarrow> pystr \<Rightarrow> pystr \<Rightarrow> int \<Rightarrow> pydict \<Rightarrow> ('w, pyval) act" where
  "direct_rest ds replace tid session now prepared =
     (if keys prepared \<noteq> DIRECT_KEYS
     then araise (HandoffError ''direct_handoff_binding_invalid'' 500)
     else
     abind (alift (bounded_identifier (get_key prepared ''call_id'') ''bridgefu_call_id'')) (\<lambda>call.
     abind (alift (bounded_identifier (get_key prepared ''leg_id'') ''bridgefu_leg_id'')) (\<lambda>leg.
     abind (alift (bounded_identifier (get_key prepared ''route_id'') ''bridgefu_route_id'')) (\<lambda>route.
     abind (alift (bounded_identifier (get_key prepared ''idempotency_key'') ''bridgefu_idempotency_key'')) (\<lambda>ikey.
     abind (replace call leg route ikey) (\<lambda>_.
     abind (mark_direct_started ds session now) (\<lambda>_.
     aret (tool_result tid (json_dumps (compact\<lparr>sort_keys := True\<rparr>)
       (VDict (mk [(''accepted'', VBool True), (''spoken'', VStr [])])))))))))))"

lemma direct_eq:
  "direct_browser_handoff ds replace event binding key fs now w =
     (case direct_call event binding key fs now of
        Inl e \<Rightarrow> (Inl e, w)
      | Inr (tid, session, token_id, i, vals) \<Rightarrow>
          abind (prepare_direct ds session token_id i vals now) (direct_rest ds replace tid session now) w)"
  unfolding direct_browser_handoff_def direct_rest_def [symmetric] direct_call_def
  by (cases "verify_vapi_binding event binding"; simp; cases "event_message event ''tool-calls''"; simp;
      cases "vapi_identity_of (projr (event_message event ''tool-calls''))"; simp;
      cases "direct_tool_call (projr (event_message event ''tool-calls'')) fs"; simp add: case_prod_beta;
      cases "verify_direct_handoff_token (fst (snd (projr (direct_tool_call (projr (event_message event ''tool-calls'')) fs)))) key now";
      simp add: case_prod_beta)

text \<open>An operation that keeps the session's token where it is, and lets every entry evolve.\<close>

definition session_safe ::
    "('w \<Rightarrow> pystr \<Rightarrow> pydict option) \<Rightarrow> ('w \<Rightarrow> bool) \<Rightarrow> ('w \<Rightarrow> bool) \<Rightarrow> pystr \<Rightarrow> ('w, 'a) act \<Rightarrow> bool" where
  "session_safe row good up c m \<longleftrightarrow>
     (\<forall>w r w'. good w \<longrightarrow> (\<exists>d. row w c = Some d \<and> get_opt d ''direct_token_id'' \<noteq> None) \<longrightarrow> m w = (r, w') \<longrightarrow>
        good w' \<and> (up w \<longrightarrow> up w') \<and> evolved (row w) (row w'))"

lemma evolved_session:
  assumes "evolved t t'" "\<exists>d. t c = Some d \<and> get_opt d ''direct_token_id'' \<noteq> None"
  shows "\<exists>d. t' c = Some d \<and> get_opt d ''direct_token_id'' \<noteq> None"
  using assms entry_evolves_token unfolding evolved_def by metis

lemma session_safe_basic: "session_safe row good up c (aret x)" "session_safe row good up c (araise e)"
    "session_safe row good up c (alift r)"
  by (auto simp: session_safe_def aret_def araise_def alift_def split: sum.splits)

lemma session_safe_bind:
  assumes m: "session_safe row good up c m" and f: "\<And>x. session_safe row good up c (f x)"
  shows "session_safe row good up c (abind m f)"
  unfolding session_safe_def
proof (intro allI impI)
  fix w r w' assume g: "good w" and s: "\<exists>d. row w c = Some d \<and> get_opt d ''direct_token_id'' \<noteq> None"
    and call: "abind m f w = (r, w')"
  obtain x v where mv: "m w = (x, v)" by fastforce
  have v: "good v \<and> (up w \<longrightarrow> up v) \<and> evolved (row w) (row v)" using m g s mv unfolding session_safe_def by blast
  show "good w' \<and> (up w \<longrightarrow> up w') \<and> evolved (row w) (row w')"
  proof (cases x)
    case (Inl e)
    with call mv v show ?thesis by (simp add: abind_def)
  next
    case (Inr y)
    with call mv have "f y v = (r, w')" by (simp add: abind_def)
    then have "good w' \<and> (up v \<longrightarrow> up w') \<and> evolved (row v) (row w')"
      using f v evolved_session [of "row w" "row v" c] s unfolding session_safe_def by blast
    with v show ?thesis by (blast intro: evolved_trans)
  qed
qed

lemma session_safe_outside: "outside row good up m \<Longrightarrow> session_safe row good up c m"
  unfolding outside_def session_safe_def by (metis evolved_refl)

locale ledger_table = handoff_store st row inv up + direct_table ds row inv up
  for st :: "'w handoff_store" and ds :: "'w direct_store"
    and row :: "'w \<Rightarrow> pystr \<Rightarrow> pydict option" and inv :: "'w \<Rightarrow> bool" and up :: "'w \<Rightarrow> bool"
begin

lemma started_safe: "storable (VInt n) \<Longrightarrow> session_safe row inv up c (mark_direct_started ds c n)"
  unfolding session_safe_def
proof (intro allI impI)
  fix w r w' assume n: "storable (VInt n)" and g: "inv w"
    and s: "\<exists>d. row w c = Some d \<and> get_opt d ''direct_token_id'' \<noteq> None" and call: "mark_direct_started ds c n w = (r, w')"
  from started_spec [OF g n call] s have "inv w' \<and> evolved (row w) (row w')"
    by (auto intro!: evolved_update started_row_evolves)
  with started_alive [OF _ call] show "inv w' \<and> (up w \<longrightarrow> up w') \<and> evolved (row w) (row w')" by blast
qed

lemma rest_safe:
  assumes "quiet_replace row inv up replace" "storable (VInt now)"
  shows "session_safe row inv up session (direct_rest ds replace tid session now prepared)"
proof -
  have "session_safe row inv up session (replace call leg route k)" for call leg route k
    using assms(1) session_safe_outside unfolding quiet_replace_def by blast
  then show ?thesis unfolding direct_rest_def
    by (auto intro!: session_safe_bind session_safe_basic started_safe [OF assms(2)] simp del: storable.simps)
qed

lemma direct_evolves:
  assumes inv: "inv w" and q: "quiet_replace row inv up replace" and now: "storable (VInt now)"
    and call: "direct_browser_handoff ds replace event binding key fs now w = (r, w')"
  shows "inv w' \<and> (up w \<longrightarrow> up w') \<and> evolved (row w) (row w')"
proof (cases "direct_call event binding key fs now")
  case (Inl e)
  with call inv show ?thesis by (simp add: direct_eq)
next
  case (Inr c)
  obtain tid session token_id i vals where c: "c = (tid, session, token_id, i, vals)" by (cases c) auto
  obtain x v where p: "prepare_direct ds session token_id i vals now w = (x, v)" by fastforce
  have run: "(case x of Inl e \<Rightarrow> (Inl e, v) | Inr y \<Rightarrow> direct_rest ds replace tid session now y v) = (r, w')"
    using call Inr c p by (cases x) (simp_all add: direct_eq abind_def)
  have alive: "up w \<longrightarrow> up v" using direct_alive p by blast
  from direct_spec [OF inv now p] have v: "inv v" by blast
  from direct_spec [OF inv now p] consider "row v = row w" "\<exists>e. x = Inl e"
    | d content idh where "row w session = Some d" "content_hash vals = Inr content" "direct_admits d token_id content idh"
      "row v = (row w)(session \<mapsto> direct_row d now vals content idh)" by blast
  then show ?thesis
  proof cases
    case 1
    with run v alive show ?thesis by auto
  next
    case 2
    note grow = direct_row_evolves [OF 2(3,2), of now]
    have ev: "evolved (row w) (row v)" unfolding 2(4) using 2(1) grow by (rule evolved_update)
    have tok: "\<exists>e. row v session = Some e \<and> get_opt e ''direct_token_id'' \<noteq> None"
      using 2(3,4) entry_evolves_token [OF grow] by (simp add: direct_admits_def)
    show ?thesis
    proof (cases x)
      case (Inl e)
      with run v alive ev show ?thesis by auto
    next
      case (Inr y)
      with run have "direct_rest ds replace tid session now y v = (r, w')" by simp
      with rest_safe [OF q now] v tok have "inv w' \<and> (up v \<longrightarrow> up w') \<and> evolved (row v) (row w')"
        unfolding session_safe_def by blast
      with alive ev show ?thesis by (blast intro: evolved_trans)
    qed
  qed
qed

text \<open>Along all steps: an entry that has not expired at the horizon of the removals stays and evolves.\<close>

definition stays :: "int \<Rightarrow> 'w \<Rightarrow> 'w \<Rightarrow> bool" where
  "stays t w w' \<longleftrightarrow> (\<forall>c d. row w c = Some d \<longrightarrow> (\<forall>e. get_opt d ''expires_at'' = Some (VInt e) \<longrightarrow> t < e) \<longrightarrow>
     (\<exists>d'. row w' c = Some d' \<and> entry_evolves d d'))"

lemma stays_trans: "stays t u v \<Longrightarrow> stays t v w \<Longrightarrow> stays t u w"
  unfolding stays_def
proof (intro allI impI)
  fix c d
  assume uv: "\<forall>c d. row u c = Some d \<longrightarrow> (\<forall>e. get_opt d ''expires_at'' = Some (VInt e) \<longrightarrow> t < e) \<longrightarrow>
      (\<exists>d'. row v c = Some d' \<and> entry_evolves d d')"
    and vw: "\<forall>c d. row v c = Some d \<longrightarrow> (\<forall>e. get_opt d ''expires_at'' = Some (VInt e) \<longrightarrow> t < e) \<longrightarrow>
      (\<exists>d'. row w c = Some d' \<and> entry_evolves d d')"
    and d: "row u c = Some d" "\<forall>e. get_opt d ''expires_at'' = Some (VInt e) \<longrightarrow> t < e"
  from uv d obtain d' where d': "row v c = Some d'" "entry_evolves d d'" by blast
  from d(2) have "\<forall>e. get_opt d' ''expires_at'' = Some (VInt e) \<longrightarrow> t < e" by (simp add: entry_evolves_expiry [OF d'(2)])
  with vw d'(1) obtain f where "row w c = Some f" "entry_evolves d' f" by blast
  with d'(2) show "\<exists>d'. row w c = Some d' \<and> entry_evolves d d'" using entry_evolves_trans by blast
qed

lemma stays_evolved: "evolved (row w) (row w') \<Longrightarrow> stays t w w'"
  unfolding evolved_def stays_def by blast

lemma table_step_stays:
  assumes "table_step lib st ds reserve replace (ttl_removal row inv up t) key dep w w'"
    and q: "quiet_reserve row inv up reserve" "quiet_replace row inv up replace" and inv: "inv w"
  shows "inv w' \<and> stays t w w'"
  using assms(1)
proof cases
  case call_step
  from step_evolves [OF this q(1) inv] have "inv w' \<and> evolved (row w) (row w')"
    using entry_evolves_row unfolding evolved_def by blast
  then show ?thesis by (blast intro: stays_evolved)
next
  case (direct_step event binding dkey fs now r)
  from direct_evolves [OF inv q(2) direct_step(2,1)] show ?thesis by (blast intro: stays_evolved)
next
  case removal_step
  then obtain c d e where r: "row w c = Some d" "get_opt d ''expires_at'' = Some (VInt e)" "e \<le> t"
    "row w' = (row w)(c := None)" "inv w'" unfolding ttl_removal_def using inv by blast
  then show ?thesis by (fastforce simp: stays_def intro: entry_evolves_row)
qed

lemma table_steps_stay:
  assumes "(table_step lib st ds reserve replace (ttl_removal row inv up t) key dep)\<^sup>*\<^sup>* w w'"
    and q: "quiet_reserve row inv up reserve" "quiet_replace row inv up replace" and inv: "inv w"
  shows "inv w' \<and> stays t w w'"
  using assms(1)
proof induction
  case base
  then show ?case using inv by (auto simp: stays_def intro: entry_evolves_row)
next
  case (step v w')
  then show ?case using table_step_stays [OF step.hyps(2) q] by (blast intro: stays_trans)
qed

lemma entry_stays:
  assumes "(table_step lib st ds reserve replace (ttl_removal row inv up t) key dep)\<^sup>*\<^sup>* w w'"
    and "quiet_reserve row inv up reserve" "quiet_replace row inv up replace" "inv w"
    and "row w c = Some d" "\<And>e. get_opt d ''expires_at'' = Some (VInt e) \<Longrightarrow> t < e"
  shows "\<exists>d'. row w' c = Some d' \<and> entry_evolves d d'"
  using table_steps_stay [OF assms(1-4)] assms(5,6) unfolding stays_def by blast

end

sublocale dynamo_table \<subseteq> ledger: ledger_table
  "dynamo_store lib db tn" "direct_dynamo_store lib db tn" "store_row lib items tn" "store_inv lib items tn" up
  for lib tn
  by unfold_locales

context dynamo_table begin

lemma ledger_refines:
  "ledger_table (dynamo_store lib db tn) (direct_dynamo_store lib db tn) (store_row lib items tn) (store_inv lib items tn) up"
  by (rule ledger.ledger_table_axioms)

end

section \<open>Instances\<close>

definition demo_table :: pystr where "demo_table = lit ''handoffs''"

definition demo_world :: mem where "demo_world = (\<lambda>_ _. None)"

definition demo_query :: "pystr \<Rightarrow> pydict" where
  "demo_query cid = mk [(''Details'', VDict (mk [(''ContactData'', VDict (mk
     [(''Attributes'', VDict (mk [(''correlation_id'', VStr cid)]))]))]))]"

abbreviation demo_store :: "mem handoff_store" where
  "demo_store \<equiv> dynamo_store ascii_pylib mem_client demo_table"

abbreviation demo_row :: "mem \<Rightarrow> pystr \<Rightarrow> pydict option" where
  "demo_row \<equiv> store_row ascii_pylib (\<lambda>w. w) demo_table"

abbreviation demo_inv :: "mem \<Rightarrow> bool" where
  "demo_inv \<equiv> store_inv ascii_pylib (\<lambda>w. w) demo_table"

lemma demo_inv_empty: "demo_inv demo_world" "demo_row demo_world c = None"
  by (simp_all add: store_inv_def store_row_def demo_world_def)

lemma demo_query_id: "is_correlation cid \<Longrightarrow> connect_correlation_id (demo_query cid) = Some cid"
  by (simp add: connect_correlation_id_def demo_query_def)

lemma demo_event_message: "event_message demo_event ''tool-calls'' = Inr demo_message"
  by (simp add: event_message_def demo_event_defs)

definition demo_context :: strdict where "demo_context = demo_values @ [call_reference demo_identity]"

lemma demo_context_fields: "context_fields (strvals demo_values) (Some demo_fields) demo_identity = Inr demo_context"
  by (simp add: context_fields_def demo_context_def demo_values_def strvals_def call_reference_def
      demo_identity_def)

lemma demo_fits: "fits_context demo_context = Inr ()" "\<exists>ch. content_hash demo_context = Inr ch"
  by (simp_all add: fits_context_def content_hash_def demo_context_def demo_values_def call_reference_def
      demo_identity_def strvals_def size_opts_def content_opts_def MAX_CONTEXT_BYTES_def eval_simps)

lemma demo_prepare_record:
  "\<exists>p. prepare_record demo_event demo_secret demo_deployment 3600 1000 (Some demo_fields) = Inr p"
proof -
  obtain ch where ch: "content_hash demo_context = Inr ch" using demo_fits(2) by blast
  obtain h where h: "schema_hash demo_fields = Inr h"
    using demo_fields_bytes by (auto simp: schema_hash_def)
  show ?thesis
    using derive_correlation_id_eq [OF demo_good, of demo_secret] call_fingerprint_eq [OF demo_good]
    by (simp add: prepare_record_def demo_event_message demo_identity_of demo_tool_call
        demo_context_fields demo_fits handoff_record_def schema_entries_def ch h)
qed

lemma demo_prepares:
  "\<exists>p w. prepare_handoff demo_store demo_event demo_secret demo_deployment 3600 1000 (Some demo_fields)
       demo_world = (Inr p, w) \<and> \<not> prepared_replayed p \<and> is_correlation (prepared_correlation p)"
proof -
  obtain r w where call: "prepare_handoff demo_store demo_event demo_secret demo_deployment 3600 1000
      (Some demo_fields) demo_world = (r, w)" by fastforce
  have "wf_conf ascii_pylib (Some demo_fields)" "storable_time 1000 3600"
    by (simp_all add: wf_conf_def wf_demo_fields storable_time_def dec_nat.simps)
  from mem.dyn.prepare_cases [OF demo_inv_empty(1) this call] demo_inv_empty(2) demo_prepare_record
  obtain p i vals fp ch where "r = Inr \<lparr>prepared_correlation = pr_correlation p,
      prepared_tool_call = pr_tool_call p, prepared_replayed = False\<rparr>"
    "prepared_from demo_event demo_secret demo_deployment 3600 1000 (Some demo_fields) p i vals fp ch"
    by (auto simp: exact_replay_def)
  with call derive_correlation_id_matches show ?thesis by (auto simp: prepared_from_def)
qed

lemma demo_times: "wf_conf ascii_pylib (Some demo_fields)" "storable_time 1000 3600"
  by (simp_all add: wf_conf_def wf_demo_fields storable_time_def dec_nat.simps)

lemma demo_quiet:
  "quiet_reserve demo_row demo_inv (\<lambda>_. True) (\<lambda>_ _. araise (ServiceError ''unreachable''))"
  by (simp add: quiet_reserve_def outside_def)

definition demo_transfer :: pydict where
  "demo_transfer = mk
     [(''message'', VDict (mk
        [(''type'', VStr (lit ''transfer-destination-request'')),
         (''call'', VDict (mk [(''orgId'', VStr (lit ''org-1'')), (''id'', VStr (lit ''call-1''))]))]))]"

definition demo_reservation :: sip_reservation where
  "demo_reservation = \<lparr>sip_uri = lit ''sip:desk@example.org'', sip_call = lit ''call-9'', sip_expires = 2060\<rparr>"

lemma demo_transfer_call:
  "derive_correlation_id demo_secret demo_deployment demo_identity = Inr cid \<Longrightarrow>
     transfer_call demo_transfer demo_secret demo_deployment = Inr (demo_identity, cid)"
proof -
  have "event_message demo_transfer ''transfer-destination-request'' = Inr (mk
        [(''type'', VStr (lit ''transfer-destination-request'')),
         (''call'', VDict (mk [(''orgId'', VStr (lit ''org-1'')), (''id'', VStr (lit ''call-1''))]))])"
    by (simp add: event_message_def demo_transfer_def)
  moreover have "vapi_identity_of (mk
        [(''type'', VStr (lit ''transfer-destination-request'')),
         (''call'', VDict (mk [(''orgId'', VStr (lit ''org-1'')), (''id'', VStr (lit ''call-1''))]))]) =
      Inr demo_identity"
    by (simp add: vapi_identity_of_def demo_identity_def bounded_identifier_def is_identifier_def eval_simps
        get_key_def get_or_def)
  ultimately show "derive_correlation_id demo_secret demo_deployment demo_identity = Inr cid \<Longrightarrow>
      transfer_call demo_transfer demo_secret demo_deployment = Inr (demo_identity, cid)"
    by (simp add: transfer_call_def)
qed

lemma demo_transfer_uri:
  "transfer_uri (lit ''sip_rtp'') demo_reservation 2000 = Inr (sip_uri demo_reservation)"
  by (simp add: transfer_uri_def destination_uri_def demo_reservation_def SIP_SECURITIES_def Let_def
      starts_with_def bounded_identifier_def is_identifier_def eval_simps)

lemma demo_admits:
  assumes "prepared_from demo_event demo_secret demo_deployment 3600 1000 (Some demo_fields) p i vals fp ch"
  shows "\<exists>k. transfer_admit (Some (pr_record p)) demo_deployment demo_identity (pr_correlation p) 2000 = Inr k"
    and "transfer_call demo_transfer demo_secret demo_deployment = Inr (demo_identity, pr_correlation p)"
proof -
  note l = prepared_lookup(3,5,6) [OF assms demo_times(1), THEN get_key_opt]
  have i: "i = demo_identity" "derive_correlation_id demo_secret demo_deployment i = Inr (pr_correlation p)"
    "call_fingerprint demo_deployment i = Inr fp"
    using assms demo_identity_of demo_event_message by (auto simp: prepared_from_def)
  then show "transfer_call demo_transfer demo_secret demo_deployment = Inr (demo_identity, pr_correlation p)"
    using demo_transfer_call by simp
  have "is_ascii (pr_correlation p)" using derive_correlation_id_matches [OF i(2)] by (rule correlation_ascii)
  then have "\<exists>k. idempotency_key (pr_correlation p) = Inr k"
    by (simp add: idempotency_key_def ascii_encode_def)
  then show "\<exists>k. transfer_admit (Some (pr_record p)) demo_deployment demo_identity (pr_correlation p) 2000 = Inr k"
    using l i by (auto simp: transfer_admit_def check_prepared_def status_in_def)
qed

lemma demo_lookup:
  "\<exists>p w d w'. prepare_handoff demo_store demo_event demo_secret demo_deployment 3600 1000 (Some demo_fields)
       demo_world = (Inr p, w) \<and> demo_inv w \<and> is_correlation (prepared_correlation p) \<and>
     connect_lookup demo_store (demo_query (prepared_correlation p)) 2000 (Some demo_fields) None w = (Inr d, w') \<and>
     available d"
proof -
  from demo_prepares obtain p w where p: "prepare_handoff demo_store demo_event demo_secret
      demo_deployment 3600 1000 (Some demo_fields) demo_world = (Inr p, w)"
    "\<not> prepared_replayed p" "is_correlation (prepared_correlation p)" by blast
  have i: "demo_inv w" using mem.dyn.prepare_cases [OF demo_inv_empty(1) demo_times p(1)] by blast
  obtain r w' where look: "connect_lookup demo_store (demo_query (prepared_correlation p)) 2000
      (Some demo_fields) None w = (r, w')" by fastforce
  from mem.dyn.context_kept [OF _ demo_inv_empty(1) wf_demo_fields demo_times(2) demo_quiet p(1,2)
      rtranclp.rtrancl_refl demo_query_id [OF p(3)], of 2000] look
  obtain x vals where "r = Inr (lookup_result demo_fields x [] vals)" by auto
  with available_result p(1,3) i look show ?thesis by blast
qed

section \<open>Properties\<close>

text \<open>
  C5.  The context reaches the agent.  When \<open>prepare_handoff\<close> has stored the context of a call, every
  lookup of its correlation identifier before it expires returns exactly the validated values of
  the tool call and the reference to the call, whatever preparations, transfers and lookups of
  this deployment happened in between, in any order and with any outcome.
\<close>

theorem context_survives:
  assumes client: "dynamo_table db items up" and start: "up w" "store_inv lib items tn w"
    and conf: "wf_fields lib fs" "storable_time now ttl"
    and reserve: "quiet_reserve (store_row lib items tn) (store_inv lib items tn) up reserve"
    and prepared: "prepare_handoff (dynamo_store lib db tn) event key dep ttl now (Some fs) w = (Inr p, w1)"
      "\<not> prepared_replayed p"
    and steps: "(ledger_step lib (dynamo_store lib db tn) reserve key dep)\<^sup>*\<^sup>* w1 w2"
    and query: "connect_correlation_id q = Some (prepared_correlation p)" "t < now + ttl"
  shows "\<exists>m i tid vals. event_message event ''tool-calls'' = Inr m \<and> vapi_identity_of m = Inr i \<and>
    tool_call m (Some fs) = Inr (tid, strvals vals) \<and>
    fst (connect_lookup (dynamo_store lib db tn) q t (Some fs) None w2) =
      Inr (lookup_result fs (vapi_call i) [] vals)"
  using handoff_store.context_kept [OF dynamo_table.store_refines [OF client] start conf reserve prepared
      steps query] .

theorem context_survives_witness:
  "\<exists>p w (i :: vapi_identity) vals. prepare_handoff demo_store demo_event demo_secret demo_deployment 3600 1000
       (Some demo_fields) demo_world = (Inr p, w) \<and>
     fst (connect_lookup demo_store (demo_query (prepared_correlation p)) 2000 (Some demo_fields) None w) =
       Inr (lookup_result demo_fields (vapi_call i) [] vals)"
proof -
  from demo_prepares obtain p w where p: "prepare_handoff demo_store demo_event demo_secret
      demo_deployment 3600 1000 (Some demo_fields) demo_world = (Inr p, w)"
    "\<not> prepared_replayed p" "is_correlation (prepared_correlation p)" by blast
  from context_survives [OF mem.dynamo_table_axioms _ demo_inv_empty(1) wf_demo_fields demo_times(2)
      demo_quiet p(1,2) rtranclp.rtrancl_refl demo_query_id [OF p(3)], of 2000] p(1)
  show ?thesis by auto
qed

text \<open>
  C8.  The first context wins.  After a successful preparation, a second one for the same
  correlation identifier changes nothing in the table: it is answered as a replay if its schema
  version, call fingerprint and content hash are those of the first, and refused otherwise.
\<close>

theorem first_context_wins:
  assumes client: "dynamo_table db items up" and start: "up w" "store_inv lib items tn w"
    and conf: "wf_conf lib c1" "wf_conf lib c2" "storable_time n1 ttl1" "storable_time n2 ttl2"
    and records: "prepare_record e1 key dep ttl1 n1 c1 = Inr p1" "prepare_record e2 key dep ttl2 n2 c2 = Inr p2"
      "pr_correlation p2 = pr_correlation p1"
    and first: "prepare_handoff (dynamo_store lib db tn) e1 key dep ttl1 n1 c1 w = (Inr r1, w1)"
    and second: "prepare_handoff (dynamo_store lib db tn) e2 key dep ttl2 n2 c2 w1 = (r2, w2)"
  shows "store_row lib items tn w2 = store_row lib items tn w1 \<and>
    r2 = (if exact_replay (Some (pr_record p1)) (pr_record p2)
          then Inr \<lparr>prepared_correlation = pr_correlation p1, prepared_tool_call = pr_tool_call p2,
            prepared_replayed = True\<rparr>
          else Inl replay_conflict)"
proof -
  note store = dynamo_table.store_refines [OF client, of lib tn]
  from prepare_record_from [OF records(1) conf(1)] obtain i1 v1 f1 h1
    where p1: "prepared_from e1 key dep ttl1 n1 c1 p1 i1 v1 f1 h1" by blast
  from prepare_record_from [OF records(2) conf(2)] obtain i2 v2 f2 h2
    where p2: "prepared_from e2 key dep ttl2 n2 c2 p2 i2 v2 f2 h2" by blast
  note l1 = prepared_lookup(2-4,6) [OF p1 conf(1)] and l2 = prepared_lookup(2-4) [OF p2 conf(2)]
  from handoff_store.prepare_cases [OF store start(2) conf(1,3) first] start(1) records(1)
  have w1: "store_inv lib items tn w1" "up w1"
    and row: "store_row lib items tn w1 (pr_correlation p1) = Some (pr_record p1) \<or>
      exact_replay (store_row lib items tn w1 (pr_correlation p1)) (pr_record p1)"
    by auto
  have trans: "exact_replay (store_row lib items tn w1 (pr_correlation p1)) (pr_record p2) \<longleftrightarrow>
      exact_replay (Some (pr_record p1)) (pr_record p2)"
    using row l1 [THEN get_key_opt] l2 [THEN get_key_opt]
    by (auto simp: exact_replay_def status_in_def py_eq_VInt split: option.splits)
  from handoff_store.prepare_cases [OF store w1(1) conf(2,4) second] w1(2) records(2,3) trans row
  show ?thesis by (auto simp: exact_replay_def split: option.splits)
qed

theorem first_context_wins_witness:
  "\<exists>p w. prepare_handoff demo_store demo_event demo_secret demo_deployment 3600 1000
       (Some demo_fields) demo_world = (Inr p, w) \<and>
     (\<exists>r w'. prepare_handoff demo_store demo_event demo_secret demo_deployment 3600 1000
        (Some demo_fields) w = (r, w') \<and> demo_row w' = demo_row w)"
proof -
  from demo_prepares obtain p w where p: "prepare_handoff demo_store demo_event demo_secret
      demo_deployment 3600 1000 (Some demo_fields) demo_world = (Inr p, w)" by blast
  obtain r w' where second: "prepare_handoff demo_store demo_event demo_secret demo_deployment 3600 1000
      (Some demo_fields) w = (r, w')" by fastforce
  obtain pr where pr: "prepare_record demo_event demo_secret demo_deployment 3600 1000 (Some demo_fields) = Inr pr"
    using demo_prepare_record by blast
  from first_context_wins [OF mem.dynamo_table_axioms _ demo_inv_empty(1) demo_times(1,1,2,2) pr pr refl p second]
  show ?thesis using p second by auto
qed

text \<open>
  C6.  The table of handoffs is a ledger.  Along every sequence of preparations, transfers, lookups and
  direct browser handoffs, also of failing ones and while the service is down, with removals of expired
  entries by the service in between: an entry whose expiry is later than every removal stays.  It keeps
  its context, fingerprint, content hash and expiry, and its status only ever moves from \<open>PREPARED\<close> to
  \<open>RESERVED\<close>; the entry of a browser session, which names a token, keeps that too, has its content hash
  and call fingerprint written once, takes only values with that content hash, and its status moves from
  \<open>MAPPED\<close> to \<open>PREPARED\<close> and \<open>RESERVED\<close> and never back to \<open>MAPPED\<close>.
\<close>

theorem ledger_append_only:
  assumes client: "dynamo_table db items up" and start: "store_inv lib items tn w"
    and reserve: "quiet_reserve (store_row lib items tn) (store_inv lib items tn) up reserve"
    and replace: "quiet_replace (store_row lib items tn) (store_inv lib items tn) up replace"
    and steps: "(table_step lib (dynamo_store lib db tn) (direct_dynamo_store lib db tn) reserve replace
      (ttl_removal (store_row lib items tn) (store_inv lib items tn) up t) key dep)\<^sup>*\<^sup>* w w'"
    and entry: "store_row lib items tn w c = Some d" "\<And>e. get_opt d ''expires_at'' = Some (VInt e) \<Longrightarrow> t < e"
  shows "\<exists>d'. store_row lib items tn w' c = Some d' \<and> entry_evolves d d'"
  by (rule ledger_table.entry_stays [OF dynamo_table.ledger_refines [OF client] steps reserve replace start entry])

theorem ledger_append_only_witness:
  "\<exists>p w w' d d'. prepare_handoff demo_store demo_event demo_secret demo_deployment 3600 1000
       (Some demo_fields) demo_world = (Inr p, w) \<and>
     table_step ascii_pylib demo_store (direct_dynamo_store ascii_pylib mem_client demo_table)
       (\<lambda>_ _. araise (ServiceError ''unreachable'')) (\<lambda>_ _ _ _. aret ())
       (ttl_removal demo_row demo_inv (\<lambda>_. True) 2000) demo_secret demo_deployment w w' \<and>
     demo_row w (prepared_correlation p) = Some d \<and> demo_row w' (prepared_correlation p) = Some d' \<and>
     entry_evolves d d'"
proof -
  from demo_prepares obtain p w where p: "prepare_handoff demo_store demo_event demo_secret
      demo_deployment 3600 1000 (Some demo_fields) demo_world = (Inr p, w)" "\<not> prepared_replayed p" by blast
  obtain r w' where second: "prepare_handoff demo_store demo_event demo_secret demo_deployment 3600 1000
      (Some demo_fields) w = (r, w')" by fastforce
  from mem.dyn.prepare_cases [OF demo_inv_empty(1) demo_times p(1)] p(2)
  obtain pr i vals fp ch where pr: "prepared_from demo_event demo_secret demo_deployment 3600 1000 (Some demo_fields) pr i vals fp ch"
    and d: "demo_inv w" "demo_row w (prepared_correlation p) = Some (pr_record pr)" by auto
  have live: "2000 < e" if "get_opt (pr_record pr) ''expires_at'' = Some (VInt e)" for e
    using that prepared_lookup(5) [OF pr demo_times(1)] by simp
  have step: "table_step ascii_pylib demo_store (direct_dynamo_store ascii_pylib mem_client demo_table)
       (\<lambda>_ _. araise (ServiceError ''unreachable'')) (\<lambda>_ _ _ _. aret ())
       (ttl_removal demo_row demo_inv (\<lambda>_. True) 2000) demo_secret demo_deployment w w'"
    by (rule call_step [OF prepare_step [OF second demo_times]])
  have quiet: "quiet_replace demo_row demo_inv (\<lambda>_. True) (\<lambda>_ _ _ _. aret ())"
    by (simp add: quiet_replace_def outside_def aret_def)
  from ledger_append_only [OF mem.dynamo_table_axioms d(1) demo_quiet quiet r_into_rtranclp [where r = "table_step _ _ _ _ _ _ _ _", OF step] d(2) live]
  show ?thesis using p step d by blast
qed

text \<open>
  C7.  A transfer does what its contract says.  Over a table that is up, and a route service that
  answers \<open>rs\<close>, its outcome is a function of the stored entry: the service is asked only for an
  entry of this call that has not expired and is \<open>PREPARED\<close> or \<open>RESERVED\<close>, the destination is
  returned only if the reservation is acceptable, and exactly then the entry becomes \<open>RESERVED\<close>
  with the reserved call and its expiry; otherwise the table is unchanged.
\<close>

theorem transfer_refines:
  assumes client: "dynamo_table db items up" and start: "up w" "store_inv lib items tn w"
    and now: "storable (VInt now)"
    and service: "\<And>c k res. rs c k = Inr res \<Longrightarrow> storable (VInt (sip_expires res))"
    and run: "transfer_destination (dynamo_store lib db tn) (\<lambda>c k. alift (rs c k)) event key dep security now w
      = (r, w')"
  shows "let row = store_row lib items tn;
      plan = rbind (transfer_call event key dep) (\<lambda>(i, cid).
        rbind (transfer_admit (row w cid) dep i cid now) (\<lambda>k.
        rbind (rs cid k) (\<lambda>res. rbind (transfer_uri security res now) (\<lambda>uri.
        Inr (cid, res, uri)))))
    in case plan of
         Inl e \<Rightarrow> r = Inl e \<and> row w' = row w
       | Inr (cid, res, uri) \<Rightarrow> r = Inr (destination_response uri cid) \<and>
           row w' = (row w)(cid \<mapsto> reserved_row (the (row w cid)) now (sip_call res) (sip_expires res))"
  unfolding Let_def
  using handoff_store.transfer_functional [where rs = rs,
      OF dynamo_table.store_refines [OF client] start now service run, unfolded Let_def] .

theorem transfer_refines_witness:
  "\<exists>p w w'. prepare_handoff demo_store demo_event demo_secret demo_deployment 3600 1000
       (Some demo_fields) demo_world = (Inr p, w) \<and>
     transfer_destination demo_store (\<lambda>_ _. alift (Inr demo_reservation)) demo_transfer demo_secret
       demo_deployment (lit ''sip_rtp'') 2000 w =
       (Inr (destination_response (sip_uri demo_reservation) (prepared_correlation p)), w')"
proof -
  from demo_prepares obtain p w where p: "prepare_handoff demo_store demo_event demo_secret
      demo_deployment 3600 1000 (Some demo_fields) demo_world = (Inr p, w)" "\<not> prepared_replayed p" by blast
  from mem.dyn.prepare_cases [OF demo_inv_empty(1) demo_times p(1)] p(2)
  obtain pr i vals fp ch where pr: "demo_inv w" "demo_row w (pr_correlation pr) = Some (pr_record pr)"
    "prepared_correlation p = pr_correlation pr"
    "prepared_from demo_event demo_secret demo_deployment 3600 1000 (Some demo_fields) pr i vals fp ch"
    by auto
  obtain r w' where run: "transfer_destination demo_store (\<lambda>_ _. alift (Inr demo_reservation)) demo_transfer
      demo_secret demo_deployment (lit ''sip_rtp'') 2000 w = (r, w')" by fastforce
  have times: "storable (VInt 2000)" "storable (VInt (sip_expires demo_reservation))"
    by (simp_all add: dec_nat.simps demo_reservation_def)
  have "r = Inr (destination_response (sip_uri demo_reservation) (pr_correlation pr))"
    using transfer_refines [where rs = "\<lambda>_ _. Inr demo_reservation",
        OF mem.dynamo_table_axioms _ pr(1) times(1) _ run] demo_admits [OF pr(4)] pr(2) demo_transfer_uri times(2)
    by (auto simp: Let_def)
  with p run pr(3) show ?thesis by auto
qed

text \<open>
  A lookup fails open.  Every answer to Amazon Connect has the same keys in the same order,
  those of the unavailable answer of the configuration, and is that answer or says that the
  context is available.
\<close>

theorem lookup_fails_open:
  assumes "connect_lookup st event now conf routing w = (Inr d, w')"
  shows "map fst d = map fst (lookup_unavailable conf) \<and> (d = lookup_unavailable conf \<or> available d)"
  using assms answer_shape unfolding lookup_eq by (auto split: option.splits prod.splits sum.splits)

theorem lookup_fails_open_witness:
  "map fst (lookup_unavailable (Some demo_fields)) = map fst (lookup_unavailable (Some demo_fields)) \<and>
     fst (connect_lookup demo_store [] 0 (Some demo_fields) None demo_world) =
       Inr (lookup_unavailable (Some demo_fields))"
proof -
  have "connect_lookup demo_store [] 0 (Some demo_fields) None demo_world =
      (Inr (lookup_unavailable (Some demo_fields)), demo_world)"
    by (simp add: lookup_eq connect_correlation_id_def)
  with lookup_fails_open [OF this] show ?thesis by simp
qed

text \<open>
  C9.  A lookup discloses live entries only: an answer that says the context is available rests on
  an entry stored under the identifier of the contact, whose expiry is an integer in the future
  and whose status is \<open>PREPARED\<close>, \<open>RESERVED\<close> or \<open>CONSUMED\<close>.
\<close>

theorem lookup_discloses_live_only:
  assumes client: "dynamo_table db items up" and start: "store_inv lib items tn w"
    and answer: "connect_lookup (dynamo_store lib db tn) event now conf routing w = (Inr d, w')" "available d"
  shows "\<exists>cid e. connect_correlation_id event = Some cid \<and> store_row lib items tn w cid = Some e \<and>
    is_int (get_key e ''expires_at'') \<and> now < int_of (get_key e ''expires_at'') \<and>
    status_in e [''PREPARED'', ''RESERVED'', ''CONSUMED'']"
proof -
  have no: "\<not> available (lookup_unavailable conf)"
  proof (cases conf)
    case (Some fs)
    have "map_of (rev (connect_rows fs None)) (lit ''context_available'') = None"
      using connect_rows_no_flag by (simp add: map_of_eq_None_iff keys_def)
    then show ?thesis unfolding Some available_def lookup_unavailable_def option.case map_of_update_Nil
      by (simp add: map_add_def)
  qed (simp add: available_def lookup_unavailable_def RETURN_FIELDS_def DISPLAY_FIELDS_def)
  from handoff_store.lookup_cases [OF dynamo_table.store_refines [OF client] start answer(1)] answer(2) no
  obtain cid x where x: "connect_correlation_id event = Some cid"
    "rel_option agrees (store_row lib items tn w cid) x" "Inr d = lookup_answer x now conf routing"
    by auto
  then have "lookup_usable x now" using answer(2) no by (auto simp: lookup_answer_def split: if_splits)
  with x lookup_usable_agrees [OF x(2)] show ?thesis
    by (auto simp: lookup_usable_def split: option.splits)
qed

theorem lookup_discloses_live_only_witness:
  "\<exists>p w e. prepare_handoff demo_store demo_event demo_secret demo_deployment 3600 1000
       (Some demo_fields) demo_world = (Inr p, w) \<and>
     demo_row w (prepared_correlation p) = Some e \<and> 2000 < int_of (get_key e ''expires_at'')"
proof -
  from demo_lookup obtain p w d w' where d: "prepare_handoff demo_store demo_event demo_secret
      demo_deployment 3600 1000 (Some demo_fields) demo_world = (Inr p, w)" "demo_inv w"
    "is_correlation (prepared_correlation p)" "connect_lookup demo_store
      (demo_query (prepared_correlation p)) 2000 (Some demo_fields) None w = (Inr d, w')" "available d"
    by blast
  from lookup_discloses_live_only [OF mem.dynamo_table_axioms d(2,4,5)] demo_query_id [OF d(3)] d(1)
  show ?thesis by auto
qed

end
