(* ===== verification/Clock.thy ===== *)
theory Clock imports Json begin

text \<open>
  Dates and times as the code uses them: \<open>datetime.fromisoformat\<close>, with the grammar CPython 3.13
  accepts, and \<open>timestamp()\<close>.  The scanner of the interpreter works on the UTF-8 bytes of the
  string, and so do the definitions here.
\<close>

section \<open>The calendar\<close>

definition is_leap :: "nat \<Rightarrow> bool" where
  "is_leap y \<longleftrightarrow> y mod 4 = 0 \<and> (y mod 100 \<noteq> 0 \<or> y mod 400 = 0)"

definition month_days :: "nat \<Rightarrow> nat \<Rightarrow> nat" where
  "month_days y m =
     (if m = 2 then (if is_leap y then 29 else 28) else if m \<in> {4, 6, 9, 11} then 30 else 31)"

text \<open>The proleptic Gregorian ordinal: day 1 is the first of January of the year 1.\<close>

definition ordinal :: "nat \<Rightarrow> nat \<Rightarrow> nat \<Rightarrow> nat" where
  "ordinal y m d =
     (let p = y - 1
      in p * 365 + p div 4 - p div 100 + p div 400 + sum_list (map (month_days y) [1..<m]) + d)"

definition valid_date :: "nat \<Rightarrow> nat \<Rightarrow> nat \<Rightarrow> bool" where
  "valid_date y m d \<longleftrightarrow> 1 \<le> y \<and> y \<le> 9999 \<and> 1 \<le> m \<and> m \<le> 12 \<and> 1 \<le> d \<and> d \<le> month_days y m"

definition EPOCH :: nat where "EPOCH = 719163"

text \<open>The ordinal of a day of an ISO week, within the years of the calendar.\<close>

definition week_ordinal :: "nat \<Rightarrow> nat \<Rightarrow> nat \<Rightarrow> nat option" where
  "week_ordinal y w d =
     (let first = ordinal y 1 1 mod 7;
          monday = int (ordinal y 1 1) - (int (ordinal y 1 1) + 6) mod 7;
          week1 = (if 3 < (ordinal y 1 1 + 6) mod 7 then monday + 7 else monday);
          long = (first = 4 \<or> first = 3 \<and> is_leap y);
          n = week1 + int ((w - 1) * 7 + (d - 1))
      in if 1 \<le> y \<and> y \<le> 9999 \<and> (1 \<le> w \<and> w < 53 \<or> w = 53 \<and> long) \<and> 1 \<le> d \<and> d \<le> 7 \<and>
            1 \<le> n \<and> n \<le> int (ordinal 9999 12 31)
         then Some (nat n) else None)"

section \<open>Scanning\<close>

definition digits :: "nat \<Rightarrow> nat list \<Rightarrow> (nat \<times> nat list) option" where
  "digits n s =
     (if n \<le> length s \<and> list_all is_digit (take n s) then Some (digits_val (take n s), drop n s) else None)"

text \<open>Where the date ends.\<close>

definition date_end :: "nat list \<Rightarrow> nat option" where
  "date_end s =
     (if length s = 7 then Some 7
      else if s ! 4 = 45 then
        (if s ! 5 = 87 then
           (if 8 < length s \<and> s ! 8 = 45
            then (if length s = 9 then None
                  else if 10 < length s \<and> is_digit (s ! 10) then Some 8 else Some 10)
            else Some 8)
         else Some 10)
      else if s ! 4 = 87 then
        (let n = 7 + length (takeWhile is_digit (drop 7 s))
         in if n < 9 then Some n else if even n then Some 7 else Some 8)
      else Some 8)"

text \<open>The ordinal of the date in the first \<open>n\<close> bytes.\<close>

definition scan_date :: "nat list \<Rightarrow> nat \<Rightarrow> nat option" where
  "scan_date s n =
     (case digits 4 s of
        None \<Rightarrow> None
      | Some (y, r) \<Rightarrow>
          (let sep = (r \<noteq> [] \<and> hd r = 45); r1 = (if sep then tl r else r);
               dash = (\<lambda>t. if sep then (if t \<noteq> [] \<and> hd t = 45 then Some (tl t) else None) else Some t)
           in if r1 \<noteq> [] \<and> hd r1 = 87 then
                (case digits 2 (tl r1) of
                   None \<Rightarrow> None
                 | Some (w, r2) \<Rightarrow>
                     if length s - length r2 < n then
                       (case Option.bind (dash r2) (digits 1) of
                          None \<Rightarrow> None
                        | Some (d, _) \<Rightarrow> week_ordinal y w d)
                     else week_ordinal y w 1)
              else
                (case digits 2 r1 of
                   None \<Rightarrow> None
                 | Some (m, r2) \<Rightarrow>
                     (case Option.bind (dash r2) (digits 2) of
                        None \<Rightarrow> None
                      | Some (d, r3) \<Rightarrow>
                          if length s - length r3 = n \<and> valid_date y m d then Some (ordinal y m d)
                          else None))))"

text \<open>
  Hours, minutes, seconds and microseconds, and whether something follows; \<open>following\<close> is the byte
  behind the text, 0 at the end of the string.
\<close>

definition scan_fraction :: "nat \<Rightarrow> nat list \<Rightarrow> (nat \<times> bool) option" where
  "scan_fraction following s =
     (let k = min 6 (length s)
      in case digits k s of
           None \<Rightarrow> None
         | Some (v, r) \<Rightarrow> Some (v * 10 ^ (6 - k), hd (dropWhile is_digit r @ [following]) \<noteq> 0))"

fun scan_hms :: "nat \<Rightarrow> nat \<Rightarrow> bool \<Rightarrow> nat list \<Rightarrow> nat list \<Rightarrow> (nat list \<times> nat \<times> bool) option" where
  "scan_hms following 0 sep acc s = map_option (\<lambda>(f, extra). (acc, f, extra)) (scan_fraction following s)"
| "scan_hms following (Suc left) sep acc s =
     (case digits 2 s of
        None \<Rightarrow> None
      | Some (v, r) \<Rightarrow>
          (let c = hd (r @ [following]); sep' = (if acc = [] then c = 58 else sep); acc' = acc @ [v] in
           if length r \<le> 1 then Some (acc', 0, c \<noteq> 0)
           else if sep' \<and> c = 58 then
             (if left = 0 then None else scan_hms following left sep' acc' (tl r))
           else if c = 46 \<or> c = 44 then
             (if left \<noteq> 0 then None
              else map_option (\<lambda>(f, extra). (acc', f, extra)) (scan_fraction following (tl r)))
           else if \<not> sep' then scan_hms following left sep' acc' r
           else None))"

text \<open>Seconds and microseconds of a component list; absent components are zero.\<close>

definition hms_seconds :: "nat list \<Rightarrow> nat" where
  "hms_seconds v = 3600 * (v ! 0) + 60 * (if 1 < length v then v ! 1 else 0) + (if 2 < length v then v ! 2 else 0)"

definition hms_valid :: "nat list \<Rightarrow> bool" where
  "hms_valid v \<longleftrightarrow> v ! 0 \<le> 23 \<and> (1 < length v \<longrightarrow> v ! 1 \<le> 59) \<and> (2 < length v \<longrightarrow> v ! 2 \<le> 59)"

text \<open>
  The time of day: seconds, microseconds, and the offset in microseconds of an aware time; an
  offset of zero seconds is UTC, and offsets are less than a day.
\<close>

definition is_zone :: "nat \<Rightarrow> bool" where
  "is_zone c \<longleftrightarrow> c = 43 \<or> c = 45 \<or> c = 90"

definition scan_time :: "nat list \<Rightarrow> (nat \<times> nat \<times> int option) option" where
  "scan_time s =
     (let t = takeWhile (\<lambda>c. \<not> is_zone c) s; z = dropWhile (\<lambda>c. \<not> is_zone c) s
      in case scan_hms (hd (z @ [0])) 3 True [] t of
           None \<Rightarrow> None
         | Some (v, us, extra) \<Rightarrow>
             if \<not> hms_valid v then None
             else if z = [] then (if extra then None else Some (hms_seconds v, us, None))
             else if z = [90] then Some (hms_seconds v, us, Some 0)
             else (case scan_hms 0 3 True [] (tl z) of
                     None \<Rightarrow> None
                   | Some (zv, zus, zextra) \<Rightarrow>
                       (let off = (if hms_seconds zv = 0 then 0 else int (hms_seconds zv) * 1000000 + int zus)
                        in if zextra \<or> 86400 * 1000000 \<le> off then None
                           else Some (hms_seconds v, us, Some (if hd z = 45 then - off else off)))))"

section \<open>Time stamps\<close>

text \<open>
  A lone surrogate may stand where the separator can be; anywhere else it is an error.  The result
  is the clock reading in microseconds since 1970 and the offset of an aware time.
\<close>

definition separator_fixed :: "pystr \<Rightarrow> pystr" where
  "separator_fixed s =
     (case find (\<lambda>i. i < length s \<and> is_surrogate (s ! i)) [7, 8, 10] of
        None \<Rightarrow> s
      | Some i \<Rightarrow> s[i := 84])"

definition fromisoformat :: "pystr \<Rightarrow> (int \<times> int option) option" where
  "fromisoformat str =
     (let u = separator_fixed str; s = concat (map utf8_char u) in
      if length str < 7 \<or> list_ex is_surrogate u then None
      else case date_end s of
        None \<Rightarrow> None
      | Some n \<Rightarrow>
          (case scan_date s n of
             None \<Rightarrow> None
           | Some day \<Rightarrow>
               (let midnight = (int day - int EPOCH) * 86400 * 1000000;
                    rest = drop n s;
                    skip = (if rest = [] then 0 else if hd rest < 128 then 1
                            else if 224 \<le> hd rest \<and> hd rest < 240 then 3
                            else if 240 \<le> hd rest then 4 else 2)
                in if rest = [] then Some (midnight, None)
                   else case scan_time (drop skip rest) of
                     None \<Rightarrow> None
                   | Some (sec, us, off) \<Rightarrow> Some (midnight + int sec * 1000000 + int us, off))))"

text \<open>\<open>timestamp()\<close> in seconds, a double; a naive time is a reading of the process's clock.\<close>

definition timestamp :: "pylib \<Rightarrow> int \<times> int option \<Rightarrow> pyfloat result" where
  "timestamp lib t =
     (case snd t of
        Some off \<Rightarrow> Inr (nearest_double (of_int (fst t - off) / 1000000))
      | None \<Rightarrow>
          rbind (local_time lib (fst t div 1000000)) (\<lambda>sec.
          Inr (case nearest_double (of_int (fst t mod 1000000) / 1000000) of
                 Fin f \<Rightarrow> nearest_double (of_int sec + f)
               | x \<Rightarrow> x)))"

definition truncate_float :: "pyfloat \<Rightarrow> int" where
  "truncate_float x = (case x of Fin r \<Rightarrow> (if 0 \<le> r then \<lfloor>r\<rfloor> else \<lceil>r\<rceil>) | _ \<Rightarrow> 0)"

text \<open>\<open>datetime.fromisoformat(text.replace("Z", "+00:00")).timestamp()\<close>, as the code writes it.\<close>

definition zulu_replaced :: "pystr \<Rightarrow> pystr" where
  "zulu_replaced s = concat (map (\<lambda>c. if c = 90 then lit ''+00:00'' else [c]) s)"

definition iso_timestamp :: "pylib \<Rightarrow> pystr \<Rightarrow> pyfloat result" where
  "iso_timestamp lib s =
     rbind (some_or (PyError ''ValueError'') (fromisoformat (zulu_replaced s))) (timestamp lib)"

text \<open>Whole seconds are exact.\<close>

lemma round_half_even_int: "round_half_even (of_int n) = n"
  by (simp add: round_half_even_def Let_def)

lemma nearest_double_int:
  assumes n: "0 < n" "n < 2 ^ 53"
  shows "nearest_double (of_int n) = Fin (of_int n)"
proof -
  have q: "quotient_of (of_int n :: rat) = (n, 1)" by simp
  let ?l = "floorlog 2 (nat n)"
  have "?l \<le> 53"
    using n by (simp add: floorlog_leI)
  moreover have l1: "floorlog 2 (nat 1) = 1" by (simp add: compute_floorlog)
  moreover have "1 \<le> ?l" using n by (simp add: compute_floorlog)
  ultimately have e: "int ?l - 1 - 53 \<le> - 1" "- 53 \<le> int ?l - 1 - 53" by auto
  define e0 where "e0 = int ?l - int (floorlog 2 (nat 1)) - 53"
  define e1 where "e1 = (if pow2 53 \<le> (of_int n :: rat) / pow2 e0 then e0 + 1 else e0)"
  have e1: "max e1 (- 1074) = e1" "e1 \<le> 0"
    using e l1 by (auto simp: e1_def e0_def)
  have scaled: "(of_int n :: rat) / pow2 e1 = of_int (n * 2 ^ nat (- e1))"
    using e1 by (cases "e1 = 0") (auto simp: pow2_def)
  have v: "of_int (n * 2 ^ nat (- e1)) * pow2 e1 = (of_int n :: rat)"
    using e1 by (cases "e1 = 0") (auto simp: pow2_def)
  have "(of_int n :: rat) < 2 ^ 53" using n by (metis of_int_less_iff of_int_numeral of_int_power)
  also have "(2 :: rat) ^ 53 \<le> pow2 1024" unfolding pow2_def by simp
  finally have big: "\<not> pow2 1024 \<le> (of_int n :: rat)" by simp
  have "nearest_double (of_int n) =
      (let v = of_int (round_half_even (of_int n / pow2 (max e1 (- 1074)))) * pow2 (max e1 (- 1074))
       in if pow2 1024 \<le> v then Infinite True else Fin v)"
    using n by (simp add: nearest_double_def q e0_def e1_def Let_def)
  with big show ?thesis by (simp add: e1 scaled round_half_even_int v del: of_int_mult of_int_power)
qed

end
