(* ===== verification/Runtime.thy ===== *)
theory Runtime imports Flow Clock begin

text \<open>
  The rest of \<open>lambda/common/aws_runtime.py\<close>: secrets with their cache, the log records, and the
  client of the route service.  Secrets Manager and the HTTP opener are code the repository does
  not hold and are parameters; an exception of a subclass of \<open>OSError\<close> is \<open>PyError ''OSError''\<close>.
\<close>

section \<open>Log records\<close>

definition SAFE_EVENTS :: "pystr list" where
  "SAFE_EVENTS = map lit
     [''prepare_handoff'', ''transfer_destination'', ''connect_lookup'',
      ''direct_browser_handoff'', ''vapi_provisioner'']"

definition SAFE_RESULTS :: "pystr list" where
  "SAFE_RESULTS = map lit
     [''created'', ''replayed'', ''reserved'', ''available'', ''unavailable'',
      ''create_success'', ''update_success'', ''delete_success'', ''delete_retained'',
      ''direct_started'', ''vapi_identity_binding_invalid'', ''vapi_identity_mismatch'',
      ''provisioning_failed'', ''authentication_unavailable'',
      ''bridgefu_configuration_invalid'', ''bridgefu_destination_expired'',
      ''bridgefu_destination_invalid'', ''bridgefu_reservation_failed'',
      ''bridgefu_reservation_http_400'', ''bridgefu_reservation_http_401'',
      ''bridgefu_reservation_http_403'', ''bridgefu_reservation_http_404'',
      ''bridgefu_reservation_http_408'', ''bridgefu_reservation_http_409'',
      ''bridgefu_reservation_http_422'', ''bridgefu_reservation_http_425'',
      ''bridgefu_reservation_http_429'', ''bridgefu_reservation_http_5xx'',
      ''bridgefu_reservation_unavailable'', ''bridgefu_response_invalid'',
      ''bridgefu_replacement_failed'', ''bridgefu_replacement_http_400'',
      ''bridgefu_replacement_http_401'', ''bridgefu_replacement_http_403'',
      ''bridgefu_replacement_http_404'', ''bridgefu_replacement_http_408'',
      ''bridgefu_replacement_http_409'', ''bridgefu_replacement_http_422'',
      ''bridgefu_replacement_http_425'', ''bridgefu_replacement_http_429'',
      ''bridgefu_replacement_http_5xx'', ''bridgefu_replacement_invalid'',
      ''bridgefu_replacement_unavailable'', ''conflicting_tool_arguments'',
      ''context_too_large'', ''correlation_derivation_failed'', ''handoff_expired'',
      ''handoff_identity_conflict'', ''handoff_not_prepared'', ''handoff_replay_conflict'',
      ''handoff_state_conflict'', ''handoff_store_invalid'',
      ''direct_handoff_binding_invalid'', ''direct_handoff_conflict'',
      ''invalid_direct_handoff_key'', ''invalid_direct_handoff_token'',
      ''invalid_context_ttl'', ''invalid_correlation_key'', ''invalid_http_request'',
      ''invalid_json'', ''invalid_tool_arguments'', ''invalid_tool_call'',
      ''invalid_tool_name'', ''invalid_vapi_call'', ''invalid_vapi_event'',
      ''request_too_large'', ''secret_configuration_invalid'', ''unauthorized'',
      ''unsupported_content_type'', ''internal_error'']"

text \<open>Arithmetic on doubles rounds the exact result; \<open>round(x, 3)\<close> rounds to a decimal first.\<close>

definition float_rat :: "pyfloat \<Rightarrow> rat" where
  "float_rat x = (case x of Fin r \<Rightarrow> r | _ \<Rightarrow> 0)"

definition round3 :: "rat \<Rightarrow> pyfloat" where
  "round3 x = nearest_double (of_int (round_half_even (x * 1000)) / 1000)"

text \<open>The duration in milliseconds between two readings of the monotonic clock, clamped.\<close>

definition duration :: "rat \<Rightarrow> rat \<Rightarrow> rat" where
  "duration started finished =
     max 0 (min 120000 (float_rat (nearest_double (float_rat (nearest_double (finished - started)) * 1000))))"

definition safe_event :: "pystr \<Rightarrow> pystr" where
  "safe_event e = (if e \<in> set SAFE_EVENTS then e else lit ''internal'')"

definition safe_result :: "pystr \<Rightarrow> pystr" where
  "safe_result r = (if r \<in> set SAFE_RESULTS then r else lit ''internal_error'')"

definition operation_record :: "pystr \<Rightarrow> pystr \<Rightarrow> rat \<Rightarrow> rat \<Rightarrow> rat \<Rightarrow> pyval" where
  "operation_record event result started finished wall = VDict (mk
     [(''_aws'', VDict (mk
        [(''Timestamp'', VInt (truncate_float (nearest_double (wall * 1000)))),
         (''CloudWatchMetrics'', VList [VDict (mk
            [(''Namespace'', VStr (lit ''Bridgefu/Recipe'')),
             (''Dimensions'', VList [VList [VStr (lit ''operation''), VStr (lit ''result'')]]),
             (''Metrics'', VList
                [VDict (mk [(''Name'', VStr (lit ''Requests'')), (''Unit'', VStr (lit ''Count''))]),
                 VDict (mk [(''Name'', VStr (lit ''Duration'')), (''Unit'', VStr (lit ''Milliseconds''))])])])])])),
      (''event'', VStr (safe_event event)), (''operation'', VStr (safe_event event)),
      (''result'', VStr (safe_result result)), (''Requests'', VInt 1),
      (''Duration'', VFloat (round3 (duration started finished)))])"

definition log_opts :: json_opts where "log_opts = compact\<lparr>sort_keys := True\<rparr>"

text \<open>What \<open>emit_operation\<close> prints.\<close>

definition emit_operation :: "pystr \<Rightarrow> pystr \<Rightarrow> rat \<Rightarrow> rat \<Rightarrow> rat \<Rightarrow> pystr" where
  "emit_operation event result started finished wall =
     json_dumps log_opts (operation_record event result started finished wall)"

text \<open>What \<open>emit_correlation_evidence\<close> prints, if anything.\<close>

definition emit_correlation_evidence :: "pystr \<Rightarrow> pystr \<Rightarrow> pystr \<Rightarrow> pystr option" where
  "emit_correlation_evidence operation result cid =
     (if operation \<notin> set SAFE_EVENTS \<or> result \<notin> set SAFE_RESULTS \<or> \<not> is_correlation cid then None
      else Some (json_dumps log_opts (VDict (mk
        [(''event'', VStr (lit ''bridgefu_correlation_evidence'')), (''operation'', VStr operation),
         (''result'', VStr result),
         (''correlation_fingerprint'', VStr (take 12 (hexdigest (sha256 (map of_nat cid)))))]))))"

section \<open>Secrets\<close>

definition SECRET_CACHE_TTL_SECONDS :: rat where "SECRET_CACHE_TTL_SECONDS = 300"

type_synonym secret_cache = "pystr \<Rightarrow> (pystr \<times> rat) option"

definition secret_invalid :: exn where
  "secret_invalid = HandoffError ''secret_configuration_invalid'' 500"

definition cached_secret :: "secret_cache \<Rightarrow> pystr \<Rightarrow> rat \<Rightarrow> nat \<Rightarrow> pystr option" where
  "cached_secret cache arn current minimum =
     (case cache arn of
        None \<Rightarrow> None
      | Some (v, t) \<Rightarrow>
          if current - t < SECRET_CACHE_TTL_SECONDS \<and> minimum \<le> length v then Some v else None)"

text \<open>
  \<open>fetch\<close> is \<open>get_secret_value\<close> and its \<open>SecretString\<close>; the state is the cache with the world.
\<close>

definition load_secret ::
    "(pystr \<Rightarrow> ('w, pyval) act) \<Rightarrow> pystr \<Rightarrow> rat \<Rightarrow> bool \<Rightarrow> nat \<Rightarrow> (secret_cache \<times> 'w, pystr) act" where
  "load_secret fetch arn current use_cache minimum = (\<lambda>(cache, w).
     if \<not> starts_with arn (lit ''arn:'') \<or> \<not> (1 \<le> minimum \<and> minimum \<le> 65536)
     then (Inl secret_invalid, (cache, w))
     else case (if use_cache then cached_secret cache arn current minimum else None) of
       Some v \<Rightarrow> (Inr v, (cache, w))
     | None \<Rightarrow>
         (case fetch arn w of
            (Inl e, w') \<Rightarrow> (Inl e, (cache, w'))
          | (Inr v, w') \<Rightarrow>
              if \<not> is_str v \<or> length (str_of v) < minimum then (Inl secret_invalid, (cache, w'))
              else (Inr (str_of v),
                    (if use_cache then cache(arn \<mapsto> (str_of v, current)) else cache, w'))))"

end
