(* ===== verification/Route.thy ===== *)
theory Route imports Runtime Url begin

text \<open>
  \<open>BridgefuRouteClient\<close> of \<open>lambda/common/aws_runtime.py\<close>: the checks of its constructor, the
  reservation of a SIP destination and the replacement of a call leg with its retries.  The HTTP
  opener and \<open>time.sleep\<close> are a record of actions on the world.
\<close>

section \<open>Requests\<close>

record http_request =
  req_method :: string
  req_url :: pystr
  req_headers :: "(string \<times> pystr) list"
  req_body :: "byte list"

text \<open>
  What opening a request gives: a response with its status and the body \<open>read\<close> yields, or an
  \<open>HTTPError\<close> with its code and body; reading a body may raise.  All other failures are raised by
  the action itself.
\<close>

datatype http_result = Answer int "byte list result" | HttpError int "byte list result"

record 'w web =
  open_url :: "http_request \<Rightarrow> ('w, http_result) act"
  pause :: "rat \<Rightarrow> ('w, unit) act"

definition NETWORK_ERRORS :: "exn list" where
  "NETWORK_ERRORS = [PyError ''URLError'', PyError ''TimeoutError'', PyError ''OSError'']"

text \<open>\<open>urllib.parse.quote(text, safe="")\<close>.\<close>

definition unreserved :: "nat \<Rightarrow> bool" where
  "unreserved c \<longleftrightarrow> is_ascii_alnum c \<or> c \<in> {95, 46, 45, 126}"

definition quote_byte :: "byte \<Rightarrow> pystr" where
  "quote_byte b =
     (if unreserved (unat b) then [unat b]
      else (let h = (\<lambda>n. if n < 10 then 48 + n else 55 + n)
            in [37, h (unat b div 16), h (unat b mod 16)]))"

definition quote_all :: "pystr \<Rightarrow> pystr result" where
  "quote_all s = rbind (utf8_encode s) (\<lambda>bs. Inr (concat (map quote_byte bs)))"

text \<open>Subscription \<open>value["key"]\<close> of a JSON value by a string.\<close>

definition subscript :: "pyval \<Rightarrow> string \<Rightarrow> pyval result" where
  "subscript v k =
     (case v of VDict d \<Rightarrow> some_or (PyError ''KeyError'') (get_opt d k) | _ \<Rightarrow> Inl (PyError ''TypeError''))"

section \<open>Errors of the service\<close>

definition BRIDGEFU_EXACT_HTTP_STATUSES :: "int list" where
  "BRIDGEFU_EXACT_HTTP_STATUSES = [400, 401, 403, 404, 408, 409, 422, 425, 429]"

definition BRIDGEFU_RETRYABLE_HTTP_STATUSES :: "int list" where
  "BRIDGEFU_RETRYABLE_HTTP_STATUSES = [408, 425, 429]"

definition BRIDGEFU_CONFLICT_RETRY_DELAYS_SECONDS :: "rat list" where
  "BRIDGEFU_CONFLICT_RETRY_DELAYS_SECONDS = [17 / 100, 53 / 100, 111 / 100, 203 / 100]"

definition dec_string :: "int \<Rightarrow> string" where
  "dec_string i = map char_of (dec_int i)"

definition bridgefu_http_error :: "string \<Rightarrow> int \<Rightarrow> exn" where
  "bridgefu_http_error operation status =
     (if operation \<notin> {''reservation'', ''replacement''} then HandoffError ''internal_error'' 500
      else HandoffError
        (''bridgefu_'' @ operation @
          (if status \<in> set BRIDGEFU_EXACT_HTTP_STATUSES then ''_http_'' @ dec_string status
           else if 500 \<le> status \<and> status \<le> 599 then ''_http_5xx'' else ''_failed''))
        (if status \<in> set BRIDGEFU_RETRYABLE_HTTP_STATUSES \<or> 500 \<le> status \<and> status \<le> 599
         then 503 else 502))"

text \<open>
  The error code in the body of an error: \<open>None\<close> unless it is one of the two known codes.  The
  test of membership in a set raises for a value that has no hash.
\<close>

definition bridgefu_error_code :: "byte list result \<Rightarrow> pystr option result" where
  "bridgefu_error_code body =
     (case body of
        Inl e \<Rightarrow> if e \<in> {PyError ''OSError'', PyError ''ValueError''} then Inr None else Inl e
      | Inr bs \<Rightarrow>
          if 4096 < length (take 4097 bs) then Inr None
          else (case json_loads_bytes (take 4097 bs) of
                  Inl e \<Rightarrow> if e \<in> set JSON_ERRORS then Inr None else Inl e
                | Inr payload \<Rightarrow>
                    (case safe_get (safe_get payload ''error'') ''code'' of
                       VList _ \<Rightarrow> Inl (PyError ''TypeError'')
                     | VDict _ \<Rightarrow> Inl (PyError ''TypeError'')
                     | VStr s \<Rightarrow>
                         Inr (if s \<in> {lit ''call_conflict'', lit ''invalid_transition''} then Some s else None)
                     | _ \<Rightarrow> Inr None)))"

section \<open>The client\<close>

record route_client =
  client_base :: pystr
  client_route :: pystr
  client_bearer :: pystr

definition configuration_invalid :: exn where
  "configuration_invalid = HandoffError ''bridgefu_configuration_invalid'' 500"

text \<open>\<open>control\.bft-[a-z0-9-]{4,20}\.bridgefu\.internal\<close>\<close>

definition private_hostname :: "pystr \<Rightarrow> bool" where
  "private_hostname h \<longleftrightarrow>
     (let p = lit ''control.bft-''; q = lit ''.bridgefu.internal'';
          m = take (length h - length p - length q) (drop (length p) h)
      in h = p @ m @ q \<and> 4 \<le> length m \<and> length m \<le> 20 \<and>
         list_all (\<lambda>c. is_lower c \<or> is_digit c \<or> c = 45) m)"

definition route_client_init ::
    "pylib \<Rightarrow> pystr \<Rightarrow> pystr \<Rightarrow> pystr \<Rightarrow> pystr option \<Rightarrow> route_client result" where
  "route_client_init lib base route bearer private =
     rbind (some_or (PyError ''ValueError'') (urlsplit lib base)) (\<lambda>u.
     rbind (if scheme u = lit ''https'' then rbind (port lib u) (\<lambda>p. Inr (p = None \<or> p = Some 443))
            else Inr False) (\<lambda>secure.
     rbind (if scheme u = lit ''http'' \<and> (\<exists>h. private = Some h \<and> hostname lib u = h \<and> h \<noteq> [])
            then rbind (port lib u) (\<lambda>p. Inr (p = Some 443 \<and> private_hostname (the private)))
            else Inr False) (\<lambda>private_origin.
     if \<not> (secure \<or> private_origin) \<or> hostname lib u = [] \<or> \<not> no_userinfo u then Inl configuration_invalid
     else if query u \<noteq> [] \<or> fragment u \<noteq> [] then Inl configuration_invalid
     else if path u \<notin> {[], lit ''/''} then Inl configuration_invalid
     else if route = [] \<or> \<not> loose_identifier lib route then Inl configuration_invalid
     else if length bearer < 32 then Inl configuration_invalid
     else Inr \<lparr>client_base = rstrip_if (\<lambda>c. c = 47) base, client_route = route, client_bearer = bearer\<rparr>)))"

definition client_headers :: "route_client \<Rightarrow> pystr \<Rightarrow> string \<Rightarrow> (string \<times> pystr) list" where
  "client_headers rc ikey agent =
     [(''authorization'', lit ''Bearer '' @ client_bearer rc), (''content-type'', lit ''application/json''),
      (''idempotency-key'', ikey), (''user-agent'', lit agent)]"

section \<open>Reserving\<close>

definition response_invalid :: exn where
  "response_invalid = HandoffError ''bridgefu_response_invalid'' 502"

definition reserve_request :: "route_client \<Rightarrow> pystr \<Rightarrow> pystr \<Rightarrow> http_request result" where
  "reserve_request rc cid ikey =
     rbind (quote_all (client_route rc)) (\<lambda>q.
     rbind (utf8_encode (json_dumps compact (VDict (mk
       [(''ingress'', VStr (lit ''sip'')),
        (''context'', VDict (mk [(''correlation_id'', VStr cid), (''metadata'', VDict [])]))])))) (\<lambda>body.
     Inr \<lparr>req_method = ''POST'', req_url = client_base rc @ lit ''/v1/routes/'' @ q @ lit ''/calls'',
          req_headers = client_headers rc ikey ''bridgefu-recipe-handoff/1'', req_body = body\<rparr>))"

text \<open>One exchange: the first 16385 bytes of a response with the expected status.\<close>

definition exchange :: "'w web \<Rightarrow> http_request \<Rightarrow> int \<Rightarrow> exn \<Rightarrow> ('w, http_result) act" where
  "exchange io req status failed =
     abind (open_url io req) (\<lambda>r.
     case r of
       Answer st body \<Rightarrow>
         if st \<noteq> status then araise failed
         else alift (rbind body (\<lambda>bs. Inr (Answer st (Inr (take 16385 bs)))))
     | HttpError code body \<Rightarrow> aret (HttpError code body))"

definition body_of :: "http_result \<Rightarrow> byte list" where
  "body_of r = (case r of Answer _ (Inr bs) \<Rightarrow> bs | _ \<Rightarrow> [])"

definition parse_reservation :: "pylib \<Rightarrow> byte list \<Rightarrow> sip_reservation result" where
  "parse_reservation lib raw =
     (if 16384 < length raw then Inl response_invalid
      else
      rbind (map_error (catch_as [PyError ''KeyError'', PyError ''TypeError'', json_error] response_invalid)
        (rbind (json_loads_bytes raw) (\<lambda>payload.
         rbind (subscript payload ''attachment'') (\<lambda>attachment.
         rbind (subscript attachment ''uri'') (\<lambda>uri.
         rbind (subscript attachment ''expires_at'') (\<lambda>expires.
         rbind (subscript payload ''call_id'') (\<lambda>call.
         Inr (uri, expires, call)))))))) (\<lambda>(uri, expires, call).
      if \<not> is_str uri \<or> \<not> is_str call \<or> \<not> is_str expires then Inl response_invalid
      else
      rbind (map_error (catch_as [PyError ''ValueError''] response_invalid)
        (iso_timestamp lib (str_of expires))) (\<lambda>t.
      Inr \<lparr>sip_uri = str_of uri, sip_call = str_of call, sip_expires = truncate_float t\<rparr>)))"

definition unavailable :: "string \<Rightarrow> exn" where
  "unavailable operation = HandoffError (''bridgefu_'' @ operation @ ''_unavailable'') 503"

definition route_reserve ::
    "pylib \<Rightarrow> 'w web \<Rightarrow> route_client \<Rightarrow> pystr \<Rightarrow> pystr \<Rightarrow> ('w, sip_reservation) act" where
  "route_reserve lib io rc cid ikey =
     abind (alift (reserve_request rc cid ikey)) (\<lambda>req.
     abind (acatch (exchange io req 201 (HandoffError ''bridgefu_reservation_failed'' 502))
       (\<lambda>e. araise (catch_as NETWORK_ERRORS (unavailable ''reservation'') e))) (\<lambda>r.
     case r of
       HttpError code _ \<Rightarrow> araise (bridgefu_http_error ''reservation'' code)
     | Answer _ _ \<Rightarrow> alift (parse_reservation lib (body_of r))))"

section \<open>Replacing\<close>

definition is_hex :: "nat \<Rightarrow> bool" where
  "is_hex c \<longleftrightarrow> is_digit c \<or> (65 \<le> c \<and> c \<le> 70) \<or> (97 \<le> c \<and> c \<le> 102)"

text \<open>\<open>UUID\<close>: five groups of hexadecimal digits.\<close>

definition is_uuid :: "pystr \<Rightarrow> bool" where
  "is_uuid s \<longleftrightarrow> map length (split_on 45 s) = [8, 4, 4, 4, 12] \<and> list_all (list_all is_hex) (split_on 45 s)"

definition replace_request :: "route_client \<Rightarrow> pystr \<Rightarrow> pystr \<Rightarrow> pystr \<Rightarrow> pystr \<Rightarrow> http_request result" where
  "replace_request rc call leg route ikey =
     rbind (quote_all call) (\<lambda>c.
     rbind (quote_all leg) (\<lambda>l.
     rbind (utf8_encode (json_dumps compact (VDict (mk [(''route_id'', VStr route)])))) (\<lambda>body.
     Inr \<lparr>req_method = ''POST'',
          req_url = client_base rc @ lit ''/v1/calls/'' @ c @ lit ''/legs/'' @ l @ lit ''/replace'',
          req_headers = client_headers rc ikey ''bridgefu-recipe-direct-handoff/1'', req_body = body\<rparr>)))"

text \<open>
  The loop over the attempts, by the delays still to come: only an HTTP 409 with the code
  \<open>call_conflict\<close> is retried.
\<close>

fun replace_loop :: "'w web \<Rightarrow> http_request \<Rightarrow> rat list \<Rightarrow> ('w, byte list) act" where
  "replace_loop io req delays =
     abind (acatch (exchange io req 202 (HandoffError ''bridgefu_replacement_failed'' 502))
       (\<lambda>e. araise (catch_as NETWORK_ERRORS (unavailable ''replacement'') e))) (\<lambda>r.
     case r of
       Answer _ _ \<Rightarrow> aret (body_of r)
     | HttpError code body \<Rightarrow>
         abind (alift (bridgefu_error_code body)) (\<lambda>upstream.
         case delays of
           [] \<Rightarrow> araise (bridgefu_http_error ''replacement'' code)
         | d # ds \<Rightarrow>
             if code = 409 \<and> upstream = Some (lit ''call_conflict'')
             then abind (pause io d) (\<lambda>_. replace_loop io req ds)
             else araise (bridgefu_http_error ''replacement'' code)))"

declare replace_loop.simps [simp del]

definition check_replacement :: "byte list \<Rightarrow> pystr \<Rightarrow> unit result" where
  "check_replacement raw call =
     (if 16384 < length raw then Inl response_invalid
      else rbind (map_error (catch_as [json_error] response_invalid) (json_loads_bytes raw)) (\<lambda>payload.
      if \<not> is_dict payload \<or> \<not> py_eq (safe_get payload ''call_id'') (VStr call)
      then Inl response_invalid else Inr ()))"

definition route_replace ::
    "pylib \<Rightarrow> 'w web \<Rightarrow> route_client \<Rightarrow> pystr \<Rightarrow> pystr \<Rightarrow> pystr \<Rightarrow> pystr \<Rightarrow> ('w, unit) act" where
  "route_replace lib io rc call leg route ikey =
     (if \<not> loose_identifier lib route \<or> \<not> loose_identifier lib ikey \<or> \<not> is_uuid call \<or> \<not> is_uuid leg \<or>
         route \<noteq> client_route rc
      then araise (HandoffError ''bridgefu_replacement_invalid'' 500)
      else
      abind (alift (replace_request rc call leg route ikey)) (\<lambda>req.
      abind (replace_loop io req BRIDGEFU_CONFLICT_RETRY_DELAYS_SECONDS) (\<lambda>raw.
      alift (check_replacement raw call))))"

section \<open>The origin of a request\<close>

lemma takeWhile_stop: "t = [] \<or> \<not> P (hd t) \<Longrightarrow> takeWhile P (x @ t) = takeWhile P x"
  by (induction x) (cases t; auto)+

lemma dropWhile_append_keep: "dropWhile P x \<noteq> [] \<Longrightarrow> dropWhile P (x @ t) = dropWhile P x @ t"
  by (induction x) auto

definition visible :: "pystr \<Rightarrow> bool" where
  "visible t \<longleftrightarrow> list_all (\<lambda>c. 32 < c) t"

lemma clean_url_append:
  assumes "clean_url x \<noteq> []" "visible t"
  shows "clean_url (x @ t) = clean_url x @ t"
proof -
  have "dropWhile (\<lambda>c. c \<le> 32) x \<noteq> []" using assms(1) by (metis clean_url_def filter.simps(1) lstrip_if_def)
  moreover have "filter (\<lambda>c. c \<noteq> 9 \<and> c \<noteq> 10 \<and> c \<noteq> 13) t = t"
    using assms(2) by (auto simp: visible_def list_all_iff filter_id_conv)
  ultimately show ?thesis by (simp add: clean_url_def lstrip_if_def dropWhile_append_keep)
qed

lemma clean_url_visible: "visible t \<Longrightarrow> clean_url t = t"
proof -
  assume v: "visible t"
  then have "dropWhile (\<lambda>c. c \<le> 32) t = t" by (cases t) (auto simp: visible_def)
  then show ?thesis using v by (auto simp: clean_url_def lstrip_if_def visible_def list_all_iff filter_id_conv)
qed

lemma split_scheme_append:
  assumes "split_scheme (b @ s) = (sch, r1)" "sch \<noteq> []" "58 \<notin> set s"
  shows "\<exists>r. r1 = r @ s \<and> split_scheme (b @ t) = (sch, r @ t)"
proof -
  have colon: "58 \<in> set b"
  proof (rule ccontr)
    assume "58 \<notin> set b"
    with assms(3) have "before 58 (b @ s) = b @ s" by (auto simp: before_def takeWhile_eq_all_conv)
    with assms(1,2) show False by (simp add: split_scheme_def)
  qed
  then obtain p r where b: "b = p @ 58 # r" "58 \<notin> set p" by (meson split_list_first)
  then have "before 58 (b @ u) = p" "after 58 (b @ u) = r @ u" for u
    by (simp_all add: before_def after_def takeWhile_append dropWhile_append)
  with assms(1,2) b show ?thesis by (auto simp: split_scheme_def Let_def split: if_splits)
qed

lemma urlsplit_origin:
  assumes "urlsplit lib s = Some u"
  shows "\<exists>r1 r2. split_scheme (clean_url s) = (scheme u, r1) \<and> split_netloc r1 = (netloc u, r2) \<and>
    netloc_ok lib (netloc u)"
proof -
  obtain sch r1 where sc: "split_scheme (clean_url s) = (sch, r1)" by fastforce
  obtain n r2 where nl: "split_netloc r1 = (n, r2)" by fastforce
  from assms have "scheme u = sch \<and> netloc u = n \<and> netloc_ok lib n"
    by (auto simp: urlsplit_def Let_def sc nl split: if_split_asm)
  with sc nl show ?thesis by simp
qed

lemma urlsplit_from_origin:
  assumes "split_scheme (clean_url s) = (sch, r1)" "split_netloc r1 = (n, r2)" "netloc_ok lib n"
  shows "\<exists>v. urlsplit lib s = Some v \<and> scheme v = sch \<and> netloc v = n"
  using assms by (auto simp: urlsplit_def Let_def)

text \<open>Appending a path to a base that has a network location keeps the origin.\<close>

lemma urlsplit_same_origin:
  assumes u: "urlsplit lib (x @ s) = Some u" and origin: "scheme u \<noteq> []" "netloc u \<noteq> []"
    and s: "s = replicate k 47" and t: "visible t" "hd t = 47" "t \<noteq> []"
  shows "\<exists>v. urlsplit lib (x @ t) = Some v \<and> scheme v = scheme u \<and> netloc v = netloc u"
proof -
  have vs: "visible s" "58 \<notin> set s" by (simp_all add: s visible_def list_all_iff)
  have x: "clean_url x \<noteq> []"
  proof
    assume e: "clean_url x = []"
    have "dropWhile (\<lambda>c. c \<le> 32) (x @ s) = (if dropWhile (\<lambda>c. c \<le> 32) x = [] then s else dropWhile (\<lambda>c. c \<le> 32) x @ s)"
    proof (cases "dropWhile (\<lambda>c. c \<le> 32) x = []")
      case True
      then have "dropWhile (\<lambda>c. c \<le> 32) (x @ s) = dropWhile (\<lambda>c. c \<le> 32) s" by (simp add: dropWhile_append)
      also have "\<dots> = s" using vs(1) by (cases s) (auto simp: visible_def)
      finally show ?thesis using True by simp
    qed (simp add: dropWhile_append_keep)
    then have "clean_url (x @ s) = s"
      using e vs(1) by (auto simp: clean_url_def lstrip_if_def visible_def list_all_iff filter_id_conv)
    then have "fst (split_scheme (clean_url (x @ s))) = []"
      using vs(2) by (auto simp: split_scheme_def before_def takeWhile_eq_all_conv)
    with urlsplit_origin [OF u] origin(1) show False by auto
  qed
  have b: "clean_url (x @ s) = clean_url x @ s" "clean_url (x @ t) = clean_url x @ t"
    using clean_url_append [OF x] vs t by simp_all
  obtain r1 where r1: "split_scheme (clean_url x @ s) = (scheme u, r1)"
    using urlsplit_origin [OF u] b by auto
  from split_scheme_append [OF r1 origin(1) vs(2)] obtain r
    where r: "r1 = r @ s" "split_scheme (clean_url x @ t) = (scheme u, r @ t)" by blast
  obtain n r2 where n: "split_netloc (r @ s) = (n, r2)" "netloc u = n" "netloc_ok lib n"
    using urlsplit_origin [OF u] b r1 r(1) by auto
  have two: "take 2 (r @ s) = [47, 47]" using n origin(2) by (auto simp: split_netloc_def split: if_splits)
  have "\<exists>y. r = 47 # 47 # y"
  proof (rule ccontr)
    assume no: "\<nexists>y. r = 47 # 47 # y"
    then have "set (drop 2 (r @ s)) \<subseteq> {47}"
      using two s by (cases r; cases "tl r") (auto simp: take_Cons' split: if_splits dest: in_set_dropD)
    then have "drop 2 (r @ s) = [] \<or> hd (drop 2 (r @ s)) \<in> {47}"
      using hd_in_set by blast
    then have "takeWhile (\<lambda>c. c \<notin> {47, 63, 35}) (drop 2 (r @ s)) = []"
      by (cases "drop 2 (r @ s)") auto
    with n two origin(2) show False by (simp add: split_netloc_def)
  qed
  then obtain y where y: "r = 47 # 47 # y" by blast
  have "s = [] \<or> hd s = 47" using s by (cases k) auto
  then have "n = takeWhile (\<lambda>c. c \<notin> {47, 63, 35}) y"
    using n(1) y by (auto simp: split_netloc_def takeWhile_stop)
  moreover have "takeWhile (\<lambda>c. c \<notin> {47, 63, 35}) (y @ t) = takeWhile (\<lambda>c. c \<notin> {47, 63, 35}) y"
    using t by (intro takeWhile_stop) auto
  ultimately have "\<exists>r3. split_netloc (r @ t) = (n, r3)" using y by (simp add: split_netloc_def)
  then show ?thesis using b(2) r(2) n(2,3) urlsplit_from_origin by metis
qed

lemma quote_byte_visible: "visible (quote_byte b)"
  by (auto simp: quote_byte_def visible_def unreserved_def char_class_defs Let_def)

lemma quote_all_visible: "quote_all s = Inr q \<Longrightarrow> visible q"
  using quote_byte_visible by (auto simp: quote_all_def result_simps visible_def list_all_iff)

lemma visible_simps [simp]: "visible (s @ t) \<longleftrightarrow> visible s \<and> visible t" "visible []"
  "visible (c # s) \<longleftrightarrow> 32 < c \<and> visible s"
  by (simp_all add: visible_def)

lemma strip_slashes: "\<exists>k. s = rstrip_if (\<lambda>c. c = 47) s @ replicate k 47"
proof -
  have "\<exists>k. t = replicate k 47 @ dropWhile (\<lambda>c. c = 47) t" for t :: pystr
  proof (induction t)
    case (Cons c t)
    then obtain k where "t = replicate k 47 @ dropWhile (\<lambda>c. c = 47) t" by blast
    then show ?case by (cases "c = 47") (auto intro: exI [of _ "Suc k"] exI [of _ 0])
  qed simp
  then obtain k where "rev s = replicate k 47 @ dropWhile (\<lambda>c. c = 47) (rev s)" by blast
  then have "s = rev (dropWhile (\<lambda>c. c = 47) (rev s)) @ replicate k 47"
    by (metis rev_append rev_replicate rev_rev_ident)
  then show ?thesis by (auto simp: rstrip_if_def)
qed

lemma hostname_netloc: "hostname lib u \<noteq> [] \<Longrightarrow> netloc u \<noteq> []"
  by (auto simp: hostname_def host_part_def split_port_def before_def py_lower_def is_ascii_def)

text \<open>The validated origin: HTTPS on its port, or the private control host.\<close>

definition origin_ok :: "pylib \<Rightarrow> pystr option \<Rightarrow> url \<Rightarrow> bool" where
  "origin_ok lib private u \<longleftrightarrow>
     (scheme u = lit ''https'' \<and> port lib u \<in> {Inr None, Inr (Some 443)} \<or>
      scheme u = lit ''http'' \<and> port lib u = Inr (Some 443) \<and> private_hostname (hostname lib u) \<and>
        private = Some (hostname lib u)) \<and>
     hostname lib u \<noteq> [] \<and> no_userinfo u"

lemma init_origin:
  assumes "route_client_init lib base route bearer private = Inr rc"
  shows "\<exists>u. urlsplit lib base = Some u \<and> origin_ok lib private u \<and>
    client_base rc = rstrip_if (\<lambda>c. c = 47) base \<and> client_bearer rc = bearer \<and> 32 \<le> length bearer"
proof -
  from assms obtain u a b where u: "urlsplit lib base = Some u"
    "(if scheme u = lit ''https'' then rbind (port lib u) (\<lambda>p. Inr (p = None \<or> p = Some 443))
            else Inr False) = Inr a"
    "(if scheme u = lit ''http'' \<and> (\<exists>h. private = Some h \<and> hostname lib u = h \<and> h \<noteq> [])
            then rbind (port lib u) (\<lambda>p. Inr (p = Some 443 \<and> private_hostname (the private)))
            else Inr False) = Inr b"
    and rest: "a \<or> b" "hostname lib u \<noteq> []" "no_userinfo u" "32 \<le> length bearer"
      "rc = \<lparr>client_base = rstrip_if (\<lambda>c. c = 47) base, client_route = route, client_bearer = bearer\<rparr>"
    unfolding route_client_init_def rbind_eq_Inr some_or_simps guard_eq by fastforce
  have "origin_ok lib private u"
    using u(2,3) rest(1-3) by (auto simp: origin_ok_def result_simps split: if_split_asm)
  with u(1) rest show ?thesis by auto
qed

lemma origin_ok_same:
  "scheme v = scheme u \<Longrightarrow> netloc v = netloc u \<Longrightarrow> origin_ok lib private v = origin_ok lib private u"
  by (simp add: origin_ok_def port_def hostname_def no_userinfo_def username_def password_def)

lemma client_url_origin:
  assumes rc: "route_client_init lib base route bearer private = Inr rc" and t: "visible t"
  shows "\<exists>b u. urlsplit lib base = Some b \<and> urlsplit lib (client_base rc @ lit ''/v1/'' @ t) = Some u \<and>
    scheme u = scheme b \<and> netloc u = netloc b \<and> origin_ok lib private u"
proof -
  from init_origin [OF rc] obtain u where u: "urlsplit lib base = Some u" "origin_ok lib private u"
    "client_base rc = rstrip_if (\<lambda>c. c = 47) base" by blast
  obtain k where k: "base = client_base rc @ replicate k 47" using strip_slashes [of base] u(3) by metis
  have "visible (lit ''/v1/'' @ t)" "hd (lit ''/v1/'' @ t) = 47" "lit ''/v1/'' @ t \<noteq> []"
    using t by (simp_all add: lit_def)
  moreover have "scheme u \<noteq> []" "netloc u \<noteq> []"
    using u(2) hostname_netloc by (auto simp: origin_ok_def)
  ultimately obtain v where "urlsplit lib (client_base rc @ lit ''/v1/'' @ t) = Some v"
    "scheme v = scheme u" "netloc v = netloc u"
    using urlsplit_same_origin [of lib "client_base rc" "replicate k 47" u k "lit ''/v1/'' @ t"] u(1) k
    by metis
  with u(1,2) origin_ok_same show ?thesis by metis
qed

section \<open>Counting requests\<close>

text \<open>A world that counts the requests opened and the seconds slept, beside any other world.\<close>

definition counted :: "'w web \<Rightarrow> (nat \<times> rat \<times> 'w) web" where
  "counted io =
     \<lparr>open_url = (\<lambda>req (n, t, w). case open_url io req w of (r, w') \<Rightarrow> (r, (Suc n, t, w'))),
      pause = (\<lambda>d (n, t, w). case pause io d w of (r, w') \<Rightarrow> (r, (n, t + d, w')))\<rparr>"

definition call_conflict :: "http_result \<Rightarrow> bool" where
  "call_conflict r \<longleftrightarrow>
     (\<exists>body. r = HttpError 409 body \<and> bridgefu_error_code body = Inr (Some (lit ''call_conflict'')))"

lemma counted_exchange:
  assumes "exchange (counted io) req status failed (n, t, w) = (r, n', t', w')"
  shows "n' = Suc n \<and> t' = t \<and> (\<forall>code body. r = Inr (HttpError code body) \<longrightarrow>
    (\<exists>w1. open_url io req w = (Inr (HttpError code body), w1)))"
proof -
  obtain x w1 where x: "open_url io req w = (x, w1)" by fastforce
  show ?thesis
    using assms by (cases x) (auto simp: exchange_def counted_def abind_def x result_simps
        split: http_result.splits if_splits)
qed

lemma loop_stops:
  assumes "exchange io req 202 (HandoffError ''bridgefu_replacement_failed'' 502) s = (x, s1)"
    and "delays = [] \<or> \<not> (\<exists>a. x = Inr a \<and> call_conflict a)"
  shows "snd (replace_loop io req delays s) = s1"
proof (cases x)
  case (Inl e)
  with assms(1) show ?thesis by (subst replace_loop.simps) (simp add: abind_def acatch_def)
next
  case (Inr a)
  show ?thesis
  proof (cases a)
    case (Answer st body)
    with assms(1) Inr show ?thesis by (subst replace_loop.simps) (simp add: abind_def acatch_def)
  next
    case (HttpError code body)
    with assms Inr show ?thesis
      by (subst replace_loop.simps)
        (auto simp: abind_def acatch_def call_conflict_def split: sum.split list.split)
  qed
qed

lemma loop_retries:
  assumes "exchange io req 202 (HandoffError ''bridgefu_replacement_failed'' 502) s = (Inr a, s1)"
    and "call_conflict a"
  shows "replace_loop io req (d # ds) s =
    (case pause io d s1 of (Inl e, s2) \<Rightarrow> (Inl e, s2) | (Inr _, s2) \<Rightarrow> replace_loop io req ds s2)"
  using assms by (subst replace_loop.simps) (auto simp: abind_def acatch_def call_conflict_def)

lemma counted_loop:
  assumes "list_all (\<lambda>d. 0 \<le> d) delays"
    and "replace_loop (counted io) req delays (n, t, w) = (r, n', t', w')"
  shows "n < n' \<and> n' \<le> n + Suc (length delays) \<and> t \<le> t' \<and> t' \<le> t + sum_list delays \<and>
    (Suc n < n' \<longrightarrow> (\<exists>a w1. open_url io req w = (Inr a, w1) \<and> call_conflict a))"
  using assms
proof (induction delays arbitrary: n t w)
  case Nil
  obtain x n1 t1 w1 where x: "exchange (counted io) req 202 (HandoffError ''bridgefu_replacement_failed'' 502)
      (n, t, w) = (x, n1, t1, w1)" by (metis prod_cases4)
  have "(n', t', w') = (n1, t1, w1)" using loop_stops [OF x, of "[]"] Nil.prems(2) by simp
  with counted_exchange [OF x] show ?case by simp
next
  case (Cons d ds)
  obtain x n1 t1 w1 where x: "exchange (counted io) req 202 (HandoffError ''bridgefu_replacement_failed'' 502)
      (n, t, w) = (x, n1, t1, w1)" by (metis prod_cases4)
  note c = counted_exchange [OF x]
  have nn: "0 \<le> d" "list_all (\<lambda>d. 0 \<le> d) ds" "0 \<le> sum_list ds"
    using Cons.prems(1) by (auto simp: list_all_iff intro: sum_list_nonneg)
  show ?case
  proof (cases "\<exists>a. x = Inr a \<and> call_conflict a")
    case True
    then obtain a where a: "x = Inr a" "call_conflict a" by blast
    then obtain w0 where first: "open_url io req w = (Inr a, w0)"
      using c unfolding call_conflict_def by blast
    obtain p w2 where p: "pause io d w1 = (p, w2)" by fastforce
    have step: "(r, n', t', w') =
        (case p of Inl e \<Rightarrow> (Inl e, n1, t1 + d, w2) | Inr _ \<Rightarrow> replace_loop (counted io) req ds (n1, t1 + d, w2))"
      using loop_retries [OF x [unfolded a(1)] a(2), of d ds] Cons.prems(2) p
      by (simp add: counted_def split: sum.splits)
    show ?thesis
    proof (cases p)
      case (Inl e)
      with step c nn show ?thesis by simp
    next
      case (Inr u)
      with step have "replace_loop (counted io) req ds (n1, t1 + d, w2) = (r, n', t', w')" by simp
      from Cons.IH [OF nn(2) this] c first a(2) nn show ?thesis by auto
    qed
  next
    case False
    then have "(n', t', w') = (n1, t1, w1)" using loop_stops [OF x, of "d # ds"] Cons.prems(2) by simp
    with c nn show ?thesis by simp
  qed
qed

section \<open>Instances\<close>

definition demo_client :: route_client where
  "demo_client = \<lparr>client_base = lit ''https://control.example.org'', client_route = lit ''route-1'',
     client_bearer = replicate 32 107\<rparr>"

lemma demo_client_init:
  "route_client_init ascii_pylib (lit ''https://control.example.org/'') (lit ''route-1'') (replicate 32 107) None =
     Inr demo_client"
  by (simp add: route_client_init_def urlsplit_def Let_def clean_url_def lstrip_if_def split_scheme_def
      before_def after_def split_netloc_def netloc_ok_def scheme_char_def port_def host_part_def
      split_port_def hostname_def no_userinfo_def username_def password_def userinfo_def
      loose_identifier_def remove_char_def py_isalnum_def rstrip_if_def demo_client_def eval_simps)

lemma demo_base_url:
  "urlsplit ascii_pylib (lit ''https://control.example.org/'') =
     Some \<lparr>scheme = lit ''https'', netloc = lit ''control.example.org'', path = [47], query = [], fragment = []\<rparr>"
  by (simp add: urlsplit_def Let_def clean_url_def lstrip_if_def split_scheme_def before_def after_def split_netloc_def
      netloc_ok_def scheme_char_def eval_simps)

definition demo_uuid :: pystr where "demo_uuid = lit ''0a0a0a0a-0b0b-0c0c-0d0d-0e0e0e0e0e0e''"

definition conflict_body :: "byte list" where
  "conflict_body = map of_nat (lit ''{\"error\":{\"code\":\"call_conflict\"}}'')"

text \<open>A service that always answers with a conflict.\<close>

definition conflict_web :: "unit web" where
  "conflict_web = \<lparr>open_url = (\<lambda>_. aret (HttpError 409 (Inr conflict_body))), pause = (\<lambda>_. aret ())\<rparr>"

section \<open>Properties\<close>

text \<open>
  C15.  The bearer token stays at the configured origin.  Every request of a client its constructor
  accepted, to reserve or to replace, is sent to the configured base URL, less its trailing slashes, with
  a path under \<open>/v1/\<close> appended; it splits to the scheme and the network location of the base URL, and
  these are an HTTPS origin on port 443, or the configured private control host, with a host and without
  user information.
\<close>

theorem requests_stay_on_origin:
  assumes "route_client_init lib base route bearer private = Inr rc"
    and "reserve_request rc cid ikey = Inr req \<or> replace_request rc call leg target ikey = Inr req"
  shows "\<exists>b u t. urlsplit lib base = Some b \<and> urlsplit lib (req_url req) = Some u \<and>
    req_url req = rstrip_if (\<lambda>c. c = 47) base @ lit ''/v1/'' @ t \<and>
    scheme u = scheme b \<and> netloc u = netloc b \<and> origin_ok lib private u \<and>
    (''authorization'', lit ''Bearer '' @ bearer) \<in> set (req_headers req)"
proof -
  obtain t where t: "visible t" "req_url req = client_base rc @ lit ''/v1/'' @ t"
    using assms(2)
  proof
    assume "reserve_request rc cid ikey = Inr req"
    then obtain q where q: "quote_all (client_route rc) = Inr q"
      "req_url req = client_base rc @ lit ''/v1/routes/'' @ q @ lit ''/calls''"
      by (auto simp: reserve_request_def result_simps)
    have "visible (lit ''routes/'' @ q @ lit ''/calls'')" using quote_all_visible [OF q(1)] by (simp add: lit_def)
    with that [of "lit ''routes/'' @ q @ lit ''/calls''"] q(2) show ?thesis by (simp add: lit_def)
  next
    assume "replace_request rc call leg target ikey = Inr req"
    then obtain c l where q: "quote_all call = Inr c" "quote_all leg = Inr l"
      "req_url req = client_base rc @ lit ''/v1/calls/'' @ c @ lit ''/legs/'' @ l @ lit ''/replace''"
      by (auto simp: replace_request_def result_simps)
    have "visible (lit ''calls/'' @ c @ lit ''/legs/'' @ l @ lit ''/replace'')"
      using quote_all_visible [OF q(1)] quote_all_visible [OF q(2)] by (simp add: lit_def)
    with that [of "lit ''calls/'' @ c @ lit ''/legs/'' @ l @ lit ''/replace''"] q(3) show ?thesis by (simp add: lit_def)
  qed
  have c: "client_bearer rc = bearer" "client_base rc = rstrip_if (\<lambda>c. c = 47) base"
    using init_origin [OF assms(1)] by blast+
  with assms(2) have "(''authorization'', lit ''Bearer '' @ bearer) \<in> set (req_headers req)"
    by (auto simp: reserve_request_def replace_request_def client_headers_def result_simps)
  with client_url_origin [OF assms(1) t(1)] t(2) c(2) show ?thesis by auto
qed

theorem requests_stay_on_origin_witness:
  "\<exists>req u. reserve_request demo_client (lit ''bf1_x'') (lit ''key-1'') = Inr req \<and>
     urlsplit ascii_pylib (req_url req) = Some u \<and> origin_ok ascii_pylib None u \<and>
     scheme u = lit ''https'' \<and> netloc u = lit ''control.example.org''"
proof -
  have "\<exists>q. quote_all (lit ''route-1'') = Inr q"
    by (simp add: quote_all_def eval_simps)
  moreover have "\<exists>b. utf8_encode (json_dumps compact (VDict (mk
       [(''ingress'', VStr (lit ''sip'')),
        (''context'', VDict (mk [(''correlation_id'', VStr (lit ''bf1_x'')), (''metadata'', VDict [])]))]))) = Inr b"
    by (simp add: compact_def eval_simps)
  ultimately obtain req where "reserve_request demo_client (lit ''bf1_x'') (lit ''key-1'') = Inr req"
    by (auto simp: reserve_request_def demo_client_def)
  with requests_stay_on_origin [OF demo_client_init, of "lit ''bf1_x''" "lit ''key-1''" req] demo_base_url
  show ?thesis by auto
qed

text \<open>
  Replacing a leg ends within bounds: at most five requests and 3.84 seconds of waiting, and
  it sends a second request only after the first was answered by HTTP 409 with the code
  \<open>call_conflict\<close>.
\<close>

theorem replacement_bounded:
  assumes "route_replace lib (counted io) rc call leg route ikey (n, t, w) = (r, n', t', w')"
  shows "n' \<le> n + 5 \<and> t' \<le> t + 384 / 100 \<and>
    (Suc n < n' \<longrightarrow> (\<exists>req a w1. replace_request rc call leg route ikey = Inr req \<and>
       open_url io req w = (Inr a, w1) \<and> call_conflict a))"
proof (cases "replace_request rc call leg route ikey")
  case (Inl e)
  with assms show ?thesis by (auto simp: route_replace_def split: if_splits)
next
  case (Inr req)
  let ?ds = BRIDGEFU_CONFLICT_RETRY_DELAYS_SECONDS
  obtain x n1 t1 w1 where x: "replace_loop (counted io) req ?ds (n, t, w) = (x, n1, t1, w1)"
    by (metis prod_cases4)
  have "list_all (\<lambda>d. 0 \<le> d) ?ds" "length ?ds = 4" "sum_list ?ds = 384 / 100"
    by (simp_all add: BRIDGEFU_CONFLICT_RETRY_DELAYS_SECONDS_def)
  moreover have "(n', t', w') = (n, t, w) \<or> (n', t', w') = (n1, t1, w1)"
    using assms Inr x by (cases x) (auto simp: route_replace_def abind_def split: if_splits)
  ultimately show ?thesis using counted_loop [OF _ x] Inr by auto
qed

theorem replacement_bounded_witness:
  "\<exists>r n t w. route_replace ascii_pylib (counted conflict_web) demo_client demo_uuid demo_uuid (lit ''route-1'')
     (lit ''key-1'') (0, 0, ()) = (r, n, t, w) \<and> n \<le> 5 \<and> t \<le> 384 / 100"
proof -
  obtain r n t w where run: "route_replace ascii_pylib (counted conflict_web) demo_client demo_uuid demo_uuid
      (lit ''route-1'') (lit ''key-1'') (0, 0, ()) = (r, n, t, w)" by (metis prod_cases4)
  from replacement_bounded [OF run] run show ?thesis by auto
qed

text \<open>
  Every HTTP status of the route service becomes one of the loggable results, answered to Vapi
  as 503 exactly if a retry makes sense (408, 425, 429 and the server errors) and as 502 otherwise.
\<close>

theorem http_errors_are_safe:
  assumes "operation \<in> {''reservation'', ''replacement''}"
  shows "\<exists>code. bridgefu_http_error operation status =
      HandoffError code (if status \<in> {408, 425, 429} \<or> 500 \<le> status \<and> status \<le> 599 then 503 else 502) \<and>
    lit code \<in> set SAFE_RESULTS"
proof -
  have dec: "dec_string 400 = ''400''" "dec_string 401 = ''401''" "dec_string 403 = ''403''"
    "dec_string 404 = ''404''" "dec_string 408 = ''408''" "dec_string 409 = ''409''"
    "dec_string 422 = ''422''" "dec_string 425 = ''425''" "dec_string 429 = ''429''"
    by (simp_all add: dec_string_def dec_int_def dec_nat.simps char_of_eq_iff take_bit_eq_mod)
  show ?thesis
  proof (cases "status \<in> set BRIDGEFU_EXACT_HTTP_STATUSES")
    case True
    then have "status \<in> {400, 401, 403, 404, 408, 409, 422, 425, 429}"
      by (simp add: BRIDGEFU_EXACT_HTTP_STATUSES_def)
    with assms show ?thesis
      by (elim insertE) (simp_all add: bridgefu_http_error_def BRIDGEFU_EXACT_HTTP_STATUSES_def
          BRIDGEFU_RETRYABLE_HTTP_STATUSES_def SAFE_RESULTS_def dec)
  next
    case False
    with assms show ?thesis
      by (elim insertE) (auto simp: bridgefu_http_error_def BRIDGEFU_RETRYABLE_HTTP_STATUSES_def SAFE_RESULTS_def)
  qed
qed

theorem http_errors_are_safe_witness:
  "\<exists>code. bridgefu_http_error ''replacement'' 503 = HandoffError code 503 \<and> lit code \<in> set SAFE_RESULTS"
  using http_errors_are_safe [of "''replacement''" 503] by simp

text \<open>
  C16.  A secret is never stale: a value \<open>load_secret\<close> returns was fetched in this call, or comes
  from the cache where it was put less than 300 seconds before; with the cache bypassed it was
  fetched in this call and the cache is left alone.  It has the minimum length, and no other entry
  of the cache changes.
\<close>

theorem secrets_are_fresh:
  assumes "load_secret fetch arn current use_cache minimum (cache, w) = (Inr v, cache', w')"
  shows "minimum \<le> length v \<and> (\<forall>a. a \<noteq> arn \<longrightarrow> cache' a = cache a) \<and>
    (fst (fetch arn w) = Inr (VStr v) \<and> cache' = (if use_cache then cache(arn \<mapsto> (v, current)) else cache) \<or>
     use_cache \<and> w' = w \<and> cache' = cache \<and> (\<exists>t. cache arn = Some (v, t) \<and> current - t < 300))"
proof (cases "if use_cache then cached_secret cache arn current minimum else None")
  case (Some u)
  then show ?thesis using assms
    by (auto simp: load_secret_def cached_secret_def SECRET_CACHE_TTL_SECONDS_def
        split: if_split_asm option.split_asm)
next
  case None
  then show ?thesis using assms
    by (auto simp: load_secret_def is_str_conv split: if_split_asm sum.split_asm prod.split_asm)
qed

theorem secrets_are_fresh_witness:
  "\<exists>cache. load_secret (\<lambda>_. aret (VStr (replicate 32 107))) (lit ''arn:x'') 5 True 32 (Map.empty, ()) =
       (Inr (replicate 32 107), cache, ()) \<and>
     load_secret (\<lambda>_. araise (ServiceError ''down'')) (lit ''arn:x'') 300 True 32 (cache, ()) =
       (Inr (replicate 32 107), cache, ()) \<and> (\<exists>t. cache (lit ''arn:x'') = Some (replicate 32 107, t) \<and> 300 - t < 300)"
proof -
  let ?cache = "[lit ''arn:x'' \<mapsto> (replicate 32 107, 5 :: rat)]"
  have arn: "starts_with (lit ''arn:x'') (lit ''arn:'')" by (simp add: starts_with_def lit_def)
  have first: "load_secret (\<lambda>_. aret (VStr (replicate 32 107))) (lit ''arn:x'') 5 True 32 (Map.empty, ()) =
      (Inr (replicate 32 107), ?cache, ())"
    using arn by (simp add: load_secret_def cached_secret_def)
  have second: "load_secret (\<lambda>_. araise (ServiceError ''down'')) (lit ''arn:x'') 300 True 32 (?cache, ()) =
      (Inr (replicate 32 107), ?cache, ())"
    using arn by (simp add: load_secret_def cached_secret_def SECRET_CACHE_TTL_SECONDS_def)
  from secrets_are_fresh [OF second] first second show ?thesis by auto
qed

end
