(* ===== verification/Handlers.thy ===== *)
theory Handlers imports Route Ledger begin

text \<open>
  The entry points of the three Lambda functions: \<open>lambda/prepare_handoff/handler.py\<close>,
  \<open>lambda/transfer_destination/handler.py\<close> and \<open>lambda/connect_lookup/handler.py\<close>.  An invocation
  sees the environment, one moment of the clocks, the services, and the state a warm function
  keeps: the cache of secrets, the route clients it has built, and what it has printed.
\<close>

section \<open>State and services\<close>

record 'w lambda_state =
  st_secrets :: secret_cache
  st_route :: "route_client option"
  st_direct :: "route_client option"
  st_printed :: "pystr list"
  st_world :: 'w

text \<open>
  \<open>sv_invoke\<close> is the synchronous \<open>invoke\<close> of a function: \<open>FunctionError\<close> and the payload.
\<close>

record 'w services =
  sv_fetch :: "pystr \<Rightarrow> ('w, pyval) act"
  sv_table :: "'w dynamo"
  sv_web :: "'w web"
  sv_invoke :: "pystr \<Rightarrow> byte list \<Rightarrow> ('w, pyval \<times> byte list) act"

text \<open>
  The time of an invocation: \<open>time.monotonic()\<close> at its start and end, and \<open>time.time()\<close>.  The
  code reads the clocks several times; an invocation is taken to happen at one moment.
\<close>

record moment =
  at_start :: rat
  at_finish :: rat
  at_wall :: rat

definition at_now :: "moment \<Rightarrow> int" where "at_now mo = \<lfloor>at_wall mo\<rfloor>"

type_synonym environ = "string \<Rightarrow> pystr option"

definition on_world :: "('w, 'a) act \<Rightarrow> ('w lambda_state, 'a) act" where
  "on_world m = (\<lambda>s. case m (st_world s) of (r, w) \<Rightarrow> (r, s\<lparr>st_world := w\<rparr>))"

definition env_get :: "environ \<Rightarrow> string \<Rightarrow> pystr result" where
  "env_get env k = some_or (PyError ''KeyError'') (env k)"

definition env_or :: "environ \<Rightarrow> string \<Rightarrow> string \<Rightarrow> pystr" where
  "env_or env k dflt = (case env k of None \<Rightarrow> lit dflt | Some v \<Rightarrow> v)"

text \<open>\<open>load_secret(os.environ[name], ...)\<close>\<close>

definition secret ::
    "'w services \<Rightarrow> environ \<Rightarrow> moment \<Rightarrow> string \<Rightarrow> bool \<Rightarrow> nat \<Rightarrow> ('w lambda_state, pystr) act" where
  "secret sv env mo name use_cache minimum =
     abind (alift (env_get env name)) (\<lambda>arn s.
     case load_secret (sv_fetch sv) arn (at_start mo) use_cache minimum (st_secrets s, st_world s) of
       (r, cache, w) \<Rightarrow> (r, s\<lparr>st_secrets := cache, st_world := w\<rparr>))"

definition table_name :: "environ \<Rightarrow> pystr result" where
  "table_name env = rbind (env_get env ''HANDOFF_TABLE_NAME'') (\<lambda>n. dynamo_table_name (VStr n))"

text \<open>What an invocation answers, and the result it logs.\<close>

definition outcome :: "('a \<times> pystr) result \<Rightarrow> (http_reply \<Rightarrow> 'a) \<Rightarrow> 'a \<times> pystr" where
  "outcome r wrap =
     (case r of
        Inr p \<Rightarrow> p
      | Inl (HandoffError code status) \<Rightarrow> (wrap (error_response code status), lit code)
      | Inl _ \<Rightarrow> (wrap (error_response ''internal_error'' 500), lit ''internal_error''))"

definition print_operation :: "string \<Rightarrow> pystr \<Rightarrow> moment \<Rightarrow> 'w lambda_state \<Rightarrow> 'w lambda_state" where
  "print_operation event result mo s =
     s\<lparr>st_printed := st_printed s @ [emit_operation (lit event) result (at_start mo) (at_finish mo) (at_wall mo)]\<rparr>"

section \<open>Preparing a handoff\<close>

definition TEMPLATE_PREPARE_TOOL_NAME :: pystr where
  "TEMPLATE_PREPARE_TOOL_NAME = lit ''prepare_bridgefu_amazon_connect_transfer''"

definition DIRECT_TRANSFER_TOOL_NAME :: pystr where
  "DIRECT_TRANSFER_TOOL_NAME = lit ''bridgefu_transfer_to_amazon_connect''"

definition reservation_failed :: exn where
  "reservation_failed = HandoffError ''bridgefu_reservation_failed'' 502"

definition truthy :: "pyval \<Rightarrow> bool" where
  "truthy v \<longleftrightarrow> v \<notin> {VNone, VBool False, VInt 0, VFloat (Fin 0), VStr [], VList [], VDict []}"

definition payload_call :: "pydict \<Rightarrow> pyval result" where
  "payload_call payload =
     rbind (subscript (VDict payload) ''message'') (\<lambda>m. subscript m ''call'')"

definition internal_request :: "pyval \<Rightarrow> byte list result" where
  "internal_request call =
     rbind (subscript call ''id'') (\<lambda>cid.
     rbind (subscript call ''orgId'') (\<lambda>org.
     utf8_encode (json_dumps compact (VDict (mk [(''bridgefuInternalReserveV1'', VDict (mk
       [(''call'', VDict (mk [(''id'', cid), (''orgId'', org),
          (''assistantId'', safe_get call ''assistantId'')]))]))])))))"

definition internal_destination :: "byte list \<Rightarrow> pydict result" where
  "internal_destination raw =
     (if 65536 < length raw then Inl reservation_failed
      else
      rbind (map_error (catch_as JSON_ERRORS reservation_failed) (json_loads_bytes raw)) (\<lambda>decoded.
      expect_dict reservation_failed (safe_get decoded ''destination'')))"

definition reserve_through :: "'w services \<Rightarrow> environ \<Rightarrow> pydict \<Rightarrow> ('w, pydict) act" where
  "reserve_through sv env payload =
     abind (alift (payload_call payload)) (\<lambda>call.
     abind (alift (env_get env ''TRANSFER_FUNCTION_NAME'')) (\<lambda>function.
     abind (alift (internal_request call)) (\<lambda>body.
     abind (sv_invoke sv function body) (\<lambda>(failure, raw).
     if truthy failure then araise reservation_failed
     else alift (internal_destination (take 65537 raw))))))"

definition vapi_control :: "string \<Rightarrow> exn" where
  "vapi_control what = HandoffError (''vapi_control_'' @ what) 502"

definition start_vapi_transfer :: "'w services \<Rightarrow> pystr \<Rightarrow> pydict \<Rightarrow> ('w, unit) act" where
  "start_vapi_transfer sv control_url destination =
     abind (alift (utf8_encode (json_dumps compact (VDict (mk
       [(''type'', VStr (lit ''transfer'')), (''destination'', VDict destination)]))))) (\<lambda>body.
     abind (acatch
       (abind (open_url (sv_web sv)
          \<lparr>req_method = ''POST'', req_url = control_url,
           req_headers = [(''content-type'', lit ''application/json''), (''accept'', lit ''application/json''),
             (''user-agent'', lit ''bridgefu-vapi-handoff/1'')],
           req_body = body\<rparr>) (\<lambda>r.
        case r of
          Answer status b \<Rightarrow> alift (rbind b (\<lambda>_. Inr r))
        | HttpError _ _ \<Rightarrow> aret r))
       (\<lambda>e. araise (catch_as NETWORK_ERRORS (vapi_control ''unavailable'') e))) (\<lambda>r.
     case r of
       HttpError code _ \<Rightarrow>
         araise (vapi_control (if code \<in> {401, 403} then ''unauthorized'' else ''failed''))
     | Answer status _ \<Rightarrow>
         if status < 200 \<or> 300 \<le> status then araise (vapi_control ''failed'') else aret ()))"

text \<open>The authentication both public endpoints begin with, and the body they read.\<close>

definition authenticated ::
    "pylib \<Rightarrow> 'w services \<Rightarrow> environ \<Rightarrow> moment \<Rightarrow> pydict \<Rightarrow> ('w lambda_state, pydict) act" where
  "authenticated lib sv env mo event =
     abind (alift (decode_http_json lib event)) (\<lambda>(payload, headers).
     abind (secret sv env mo ''VAPI_WEBHOOK_SECRET_ARN'' True 32) (\<lambda>bearer.
     abind (alift (verify_bearer lib headers bearer)) (\<lambda>_. aret payload)))"

definition prepare_fields :: "pylib \<Rightarrow> environ \<Rightarrow> pystr \<Rightarrow> screen_pop_field list option result" where
  "prepare_fields lib env name =
     (if name \<in> {TEMPLATE_PREPARE_TOOL_NAME, DIRECT_TRANSFER_TOOL_NAME}
      then rbind (env_get env ''SCREEN_POP_FIELDS_JSON'') (\<lambda>c.
           rbind (parse_fields lib (VStr c)) (\<lambda>fs. Inr (Some fs)))
      else Inr None)"

definition prepare_bound ::
    "'w services \<Rightarrow> environ \<Rightarrow> moment \<Rightarrow> pydict \<Rightarrow> ('w lambda_state, unit) act" where
  "prepare_bound sv env mo payload =
     abind (secret sv env mo ''VAPI_IDENTITY_BINDING_ARN'' True 32) (\<lambda>b.
     alift (rbind (json_loads b) (verify_vapi_binding payload)))"

definition prepare_effects ::
    "pylib \<Rightarrow> 'w services \<Rightarrow> environ \<Rightarrow> moment \<Rightarrow> pydict \<Rightarrow> ('w lambda_state, http_reply \<times> pystr) act" where
  "prepare_effects lib sv env mo payload =
     abind (alift (tool_name payload)) (\<lambda>name.
     abind (alift (prepare_fields lib env name)) (\<lambda>fields.
     abind (alift (if name = DIRECT_TRANSFER_TOOL_NAME then vapi_control_url lib payload else Inr [])) (\<lambda>url.
     abind (alift (table_name env)) (\<lambda>tn.
     abind (secret sv env mo ''CORRELATION_KEY_SECRET_ARN'' True 32) (\<lambda>k.
     abind (alift (utf8_encode k)) (\<lambda>key.
     abind (alift (env_get env ''DEPLOYMENT_ID'')) (\<lambda>dep.
     abind (alift (some_or (PyError ''ValueError'') (parse_int lib (env_or env ''CONTEXT_TTL_SECONDS'' ''3600'')))) (\<lambda>ttl.
     abind (on_world (prepare_handoff (dynamo_store lib (sv_table sv) tn) payload key dep ttl (at_now mo) fields)) (\<lambda>p.
     if name = DIRECT_TRANSFER_TOOL_NAME then
       abind (on_world (reserve_through sv env payload)) (\<lambda>destination.
       abind (on_world (start_vapi_transfer sv url destination)) (\<lambda>_.
       aret (http_response 200 (direct_transfer_response p),
             lit (if prepared_replayed p then ''transfer_replayed'' else ''transfer_started''))))
     else
       aret (http_response 200 (prepare_vapi_response p),
             lit (if prepared_replayed p then ''replayed'' else ''created'')))))))))))"

definition prepare_body ::
    "pylib \<Rightarrow> 'w services \<Rightarrow> environ \<Rightarrow> moment \<Rightarrow> pydict \<Rightarrow> ('w lambda_state, http_reply \<times> pystr) act" where
  "prepare_body lib sv env mo event =
     abind (authenticated lib sv env mo event) (\<lambda>payload.
     abind (prepare_bound sv env mo payload) (\<lambda>_.
     prepare_effects lib sv env mo payload))"

definition prepare_lambda ::
    "pylib \<Rightarrow> 'w services \<Rightarrow> environ \<Rightarrow> moment \<Rightarrow> pydict \<Rightarrow> 'w lambda_state \<Rightarrow> http_reply \<times> 'w lambda_state" where
  "prepare_lambda lib sv env mo event s =
     (case prepare_body lib sv env mo event s of
        (r, s') \<Rightarrow> (case outcome r id of
           (reply, result) \<Rightarrow> (reply, print_operation ''prepare_handoff'' result mo s')))"

section \<open>Choosing a destination\<close>

text \<open>The client of the route service, built once; without SIP security over TLS the control host is private.\<close>

definition private_host :: "environ \<Rightarrow> bool \<Rightarrow> pystr \<Rightarrow> pystr option" where
  "private_host env insecure dep =
     (if insecure then Some (lit ''control.'' @ dep @ lit ''.bridgefu.internal'') else None)"

definition build_client ::
    "pylib \<Rightarrow> 'w services \<Rightarrow> environ \<Rightarrow> moment \<Rightarrow> string \<Rightarrow> bool \<Rightarrow> ('w lambda_state, route_client) act" where
  "build_client lib sv env mo route insecure =
     abind (alift (env_get env ''DEPLOYMENT_ID'')) (\<lambda>dep.
     abind (alift (env_get env ''BRIDGEFU_CONTROL_BASE_URL'')) (\<lambda>base.
     abind (alift (env_get env route)) (\<lambda>rid.
     abind (secret sv env mo ''BRIDGEFU_API_BEARER_SECRET_ARN'' True 32) (\<lambda>bearer.
     alift (route_client_init lib base rid bearer (private_host env insecure dep))))))"

definition bridgefu_client ::
    "pylib \<Rightarrow> 'w services \<Rightarrow> environ \<Rightarrow> moment \<Rightarrow> ('w lambda_state, route_client) act" where
  "bridgefu_client lib sv env mo s =
     (case st_route s of
        Some rc \<Rightarrow> (Inr rc, s)
      | None \<Rightarrow>
          abind (build_client lib sv env mo ''BRIDGEFU_ROUTE_ID''
              (env_or env ''SIP_SECURITY'' ''sips_optional_srtp'' = lit ''sip_rtp''))
            (\<lambda>rc s'. (Inr rc, s'\<lparr>st_route := Some rc\<rparr>)) s)"

definition direct_client ::
    "pylib \<Rightarrow> 'w services \<Rightarrow> environ \<Rightarrow> moment \<Rightarrow> ('w lambda_state, route_client) act" where
  "direct_client lib sv env mo s =
     (case st_direct s of
        Some rc \<Rightarrow> (Inr rc, s)
      | None \<Rightarrow>
          abind (build_client lib sv env mo ''DIRECT_HANDOFF_ROUTE_ID'' (env ''SIP_SECURITY'' = Some (lit ''sip_rtp'')))
            (\<lambda>rc s'. (Inr rc, s'\<lparr>st_direct := Some rc\<rparr>)) s)"

datatype lambda_output = Payload pyval | Reply http_reply

definition is_direct :: "pydict \<Rightarrow> bool" where
  "is_direct event \<longleftrightarrow> get_key event ''routeKey'' = VStr (lit ''POST /v1/direct-handoff'')"

definition internal_payload :: "pyval \<Rightarrow> pydict result" where
  "internal_payload v =
     (case v of
        VDict d \<Rightarrow>
          if keys d \<noteq> {lit ''call''} then Inl (HandoffError ''internal_reservation_invalid'' 400)
          else Inr (mk [(''message'', VDict (mk
             [(''type'', VStr (lit ''transfer-destination-request'')), (''call'', get_key d ''call'')]))])
      | _ \<Rightarrow> Inl (HandoffError ''internal_reservation_invalid'' 400))"

definition transfer_payload ::
    "pylib \<Rightarrow> 'w services \<Rightarrow> environ \<Rightarrow> moment \<Rightarrow> pydict \<Rightarrow> ('w lambda_state, pydict) act" where
  "transfer_payload lib sv env mo event =
     (let internal = get_key event ''bridgefuInternalReserveV1'' in
      if internal \<noteq> VNone \<and> is_direct event then araise (HandoffError ''invalid_http_request'' 400)
      else if internal \<noteq> VNone then alift (internal_payload internal)
      else authenticated lib sv env mo event)"

definition bound ::
    "'w services \<Rightarrow> environ \<Rightarrow> moment \<Rightarrow> pydict \<Rightarrow> pydict \<Rightarrow> ('w lambda_state, pyval) act" where
  "bound sv env mo event payload =
     abind (secret sv env mo ''VAPI_IDENTITY_BINDING_ARN'' (\<not> is_direct event) 1) (\<lambda>b.
     abind (alift (json_loads b)) (\<lambda>binding.
     if is_direct event \<and> py_eq binding (VDict (mk [(''status'', VStr (lit ''unbound''))]))
     then araise (HandoffError ''vapi_identity_binding_invalid'' 500)
     else abind (alift (verify_vapi_binding payload binding)) (\<lambda>_. aret binding)))"

definition direct_handoff ::
    "pylib \<Rightarrow> 'w services \<Rightarrow> environ \<Rightarrow> moment \<Rightarrow> pydict \<Rightarrow> pyval \<Rightarrow> ('w lambda_state, pyval) act" where
  "direct_handoff lib sv env mo payload binding =
     abind (secret sv env mo ''DIRECT_HANDOFF_SIGNING_KEY_SECRET_ARN'' True 32) (\<lambda>k.
     abind (alift (utf8_encode k)) (\<lambda>key.
     abind (alift (table_name env)) (\<lambda>tn.
     abind (alift (rbind (env_get env ''SCREEN_POP_FIELDS_JSON'') (\<lambda>c.
       rbind (json_loads c) (parse_fields lib)))) (\<lambda>fields.
     abind (direct_client lib sv env mo) (\<lambda>rc.
     on_world (direct_browser_handoff (direct_dynamo_store lib (sv_table sv) tn)
       (route_replace lib (sv_web sv) rc) payload binding key fields (at_now mo)))))))"

definition plain_transfer ::
    "pylib \<Rightarrow> 'w services \<Rightarrow> environ \<Rightarrow> moment \<Rightarrow> pydict \<Rightarrow> ('w lambda_state, pyval) act" where
  "plain_transfer lib sv env mo payload =
     abind (alift (table_name env)) (\<lambda>tn.
     abind (secret sv env mo ''CORRELATION_KEY_SECRET_ARN'' True 32) (\<lambda>k.
     abind (alift (utf8_encode k)) (\<lambda>key.
     abind (alift (env_get env ''DEPLOYMENT_ID'')) (\<lambda>dep.
     abind (bridgefu_client lib sv env mo) (\<lambda>rc.
     on_world (transfer_destination (dynamo_store lib (sv_table sv) tn)
       (route_reserve lib (sv_web sv) rc) payload key dep
       (env_or env ''SIP_SECURITY'' ''sips_optional_srtp'') (at_now mo)))))))"

definition transfer_body ::
    "pylib \<Rightarrow> 'w services \<Rightarrow> environ \<Rightarrow> moment \<Rightarrow> pydict \<Rightarrow> ('w lambda_state, lambda_output \<times> pystr) act" where
  "transfer_body lib sv env mo event =
     abind (transfer_payload lib sv env mo event) (\<lambda>payload.
     abind (bound sv env mo event payload) (\<lambda>binding.
     abind (if is_direct event then direct_handoff lib sv env mo payload binding
            else plain_transfer lib sv env mo payload) (\<lambda>response.
     aret (if get_key event ''bridgefuInternalReserveV1'' \<noteq> VNone then Payload response
           else Reply (http_response 200 response),
           lit (if is_direct event then ''direct_started'' else ''reserved'')))))"

definition transfer_lambda ::
    "pylib \<Rightarrow> 'w services \<Rightarrow> environ \<Rightarrow> moment \<Rightarrow> pydict \<Rightarrow> 'w lambda_state \<Rightarrow> lambda_output \<times> 'w lambda_state" where
  "transfer_lambda lib sv env mo event s =
     (case transfer_body lib sv env mo event s of
        (r, s') \<Rightarrow> (case outcome r Reply of
           (reply, result) \<Rightarrow> (reply, print_operation
             (if is_direct event then ''direct_browser_handoff'' else ''transfer_destination'') result mo s')))"

section \<open>Looking up\<close>

definition configured_fields :: "pylib \<Rightarrow> environ \<Rightarrow> screen_pop_field list option result" where
  "configured_fields lib env =
     (case env ''SCREEN_POP_FIELDS_JSON'' of
        None \<Rightarrow> Inr None
      | Some c \<Rightarrow> if c = [] then Inr None
                  else rbind (parse_fields lib (VStr c)) (\<lambda>fs. Inr (Some fs)))"

text \<open>\<open>_unavailable()\<close>, which parses the configuration again and builds the same two forms.\<close>

definition lambda_unavailable :: "pylib \<Rightarrow> environ \<Rightarrow> strdict result" where
  "lambda_unavailable lib env =
     rbind (configured_fields lib env) (\<lambda>conf. Inr (lookup_unavailable conf))"

definition routing_field :: "environ \<Rightarrow> pystr option" where
  "routing_field env =
     (case env ''ROUTING_FIELD_KEY'' of None \<Rightarrow> None | Some k \<Rightarrow> if k = [] then None else Some k)"

definition lookup_body ::
    "pylib \<Rightarrow> 'w services \<Rightarrow> environ \<Rightarrow> moment \<Rightarrow> pydict \<Rightarrow> ('w lambda_state, strdict) act" where
  "lookup_body lib sv env mo event =
     abind (alift (table_name env)) (\<lambda>tn.
     abind (alift (configured_fields lib env)) (\<lambda>conf.
     on_world (connect_lookup (dynamo_store lib (sv_table sv) tn) event (at_now mo) conf (routing_field env))))"

definition lookup_lambda ::
    "pylib \<Rightarrow> 'w services \<Rightarrow> environ \<Rightarrow> moment \<Rightarrow> pydict \<Rightarrow> ('w lambda_state, strdict) act" where
  "lookup_lambda lib sv env mo event s =
     (case lookup_body lib sv env mo event s of
        (r, s') \<Rightarrow>
          (let result = (case r of
                 Inr d \<Rightarrow> lit (if map_of d (lit ''context_available'') = Some (lit ''true'')
                               then ''available'' else ''unavailable'')
               | Inl _ \<Rightarrow> lit ''internal_error'')
           in case (case r of Inr d \<Rightarrow> Inr d | Inl _ \<Rightarrow> lambda_unavailable lib env) of
                Inl e \<Rightarrow> (Inl e, s')
              | Inr d \<Rightarrow>
                  (let s1 = print_operation ''connect_lookup'' result mo s';
                       evidence = (case connect_correlation_id event of
                         None \<Rightarrow> None
                       | Some cid \<Rightarrow> emit_correlation_evidence (lit ''connect_lookup'') result cid)
                   in (Inr d, s1\<lparr>st_printed := st_printed s1 @ (case evidence of None \<Rightarrow> [] | Some l \<Rightarrow> [l])\<rparr>))))"

section \<open>What an invocation may change\<close>

text \<open>Until a step fails, everything before it has succeeded and kept the state.\<close>

lemma abind_changed:
  assumes "abind m f s = (r, s')" "keeps P m" "P s" "\<not> P s'"
  shows "\<exists>x s1. m s = (Inr x, s1) \<and> P s1 \<and> f x s1 = (r, s')"
proof -
  obtain y s1 where m: "m s = (y, s1)" by fastforce
  have "P s1" using keepsD [OF assms(2,3) m] .
  with assms m show ?thesis by (cases y) (auto simp: abind_def)
qed

text \<open>The secrets service does not touch what \<open>v\<close> observes of the world.\<close>

definition secrets_apart :: "('w \<Rightarrow> 'v) \<Rightarrow> 'w services \<Rightarrow> bool" where
  "secrets_apart v sv \<longleftrightarrow> (\<forall>arn w. v (snd (sv_fetch sv arn w)) = v w)"

abbreviation observes :: "('w \<Rightarrow> 'v) \<Rightarrow> 'v \<Rightarrow> 'w lambda_state \<Rightarrow> bool" where
  "observes v x \<equiv> \<lambda>s. v (st_world s) = x"

lemma secret_keeps:
  assumes "secrets_apart v sv"
  shows "keeps (observes v x) (secret sv env mo name c n)"
proof (rule keepsI)
  fix s r s'
  assume o: "observes v x s" and run: "secret sv env mo name c n s = (r, s')"
  have same: "v (snd (snd (load_secret (sv_fetch sv) arn t c n (cache, w)))) = v w" for arn t cache w
  proof -
    have "v (snd (sv_fetch sv arn w)) = v w" using assms by (simp add: secrets_apart_def)
    then show ?thesis by (auto simp: load_secret_def split: option.split prod.split sum.split)
  qed
  show "observes v x s'"
  proof (cases "env_get env name")
    case (Inl e)
    with run o show ?thesis by (simp add: secret_def)
  next
    case (Inr arn)
    with run o same [of arn "at_start mo" "st_secrets s" "st_world s"] show ?thesis
      by (auto simp: secret_def split: prod.splits)
  qed
qed

lemma authenticated_keeps:
  "secrets_apart v sv \<Longrightarrow> keeps (observes v x) (authenticated lib sv env mo event)"
  unfolding authenticated_def
  by (intro keeps_abind) (auto intro!: keeps_abind secret_keeps split: prod.split)

lemma prepare_bound_keeps: "secrets_apart v sv \<Longrightarrow> keeps (observes v x) (prepare_bound sv env mo payload)"
  unfolding prepare_bound_def by (intro keeps_abind secret_keeps keeps_basic)

lemma bound_keeps: "secrets_apart v sv \<Longrightarrow> keeps (observes v x) (bound sv env mo event payload)"
  unfolding bound_def by (intro keeps_abind secret_keeps) (auto intro!: keeps_abind)

lemma transfer_payload_keeps:
  "secrets_apart v sv \<Longrightarrow> keeps (observes v x) (transfer_payload lib sv env mo event)"
  unfolding transfer_payload_def by (auto simp: Let_def authenticated_keeps)

text \<open>A request whose bearer token is the webhook secret.\<close>

definition bears_secret ::
    "pylib \<Rightarrow> 'w services \<Rightarrow> environ \<Rightarrow> moment \<Rightarrow> pydict \<Rightarrow> 'w lambda_state \<Rightarrow> pydict \<Rightarrow> bool" where
  "bears_secret lib sv env mo event s payload \<longleftrightarrow>
     (\<exists>headers bearer. decode_http_json lib event = Inr (payload, headers) \<and>
        fst (secret sv env mo ''VAPI_WEBHOOK_SECRET_ARN'' True 32 s) = Inr bearer \<and>
        verify_bearer lib headers bearer = Inr ())"

lemma authenticated_success:
  assumes "authenticated lib sv env mo event s = (Inr payload, s')"
  shows "bears_secret lib sv env mo event s payload"
proof (cases "decode_http_json lib event")
  case (Inl e)
  with assms show ?thesis by (simp add: authenticated_def)
next
  case (Inr ph)
  obtain p h where ph: "ph = (p, h)" by fastforce
  obtain x s1 where sec: "secret sv env mo ''VAPI_WEBHOOK_SECRET_ARN'' True 32 s = (x, s1)" by fastforce
  show ?thesis
  proof (cases x)
    case (Inl e)
    with assms Inr ph sec show ?thesis by (simp add: authenticated_def abind_def)
  next
    case bearer: (Inr b)
    with assms Inr ph sec show ?thesis
      by (cases "verify_bearer lib h b") (auto simp: authenticated_def abind_def bears_secret_def)
  qed
qed

text \<open>The binding the function reads, and its test against the payload.\<close>

definition binding_admits ::
    "'w services \<Rightarrow> environ \<Rightarrow> moment \<Rightarrow> bool \<Rightarrow> nat \<Rightarrow> 'w lambda_state \<Rightarrow> pydict \<Rightarrow> bool" where
  "binding_admits sv env mo use_cache minimum s payload \<longleftrightarrow>
     (\<exists>text binding. fst (secret sv env mo ''VAPI_IDENTITY_BINDING_ARN'' use_cache minimum s) = Inr text \<and>
        json_loads text = Inr binding \<and> verify_vapi_binding payload binding = Inr ())"

lemma prepare_bound_success:
  assumes "prepare_bound sv env mo payload s = (Inr u, s')"
  shows "binding_admits sv env mo True 32 s payload"
proof -
  obtain x s1 where sec: "secret sv env mo ''VAPI_IDENTITY_BINDING_ARN'' True 32 s = (x, s1)" by fastforce
  with assms show ?thesis
    by (cases x) (auto simp: prepare_bound_def abind_def binding_admits_def result_simps)
qed

lemma bound_success:
  assumes "bound sv env mo event payload s = (Inr u, s')"
  shows "binding_admits sv env mo (\<not> is_direct event) 1 s payload"
proof -
  obtain x s1 where sec: "secret sv env mo ''VAPI_IDENTITY_BINDING_ARN'' (\<not> is_direct event) 1 s = (x, s1)"
    by fastforce
  show ?thesis
  proof (cases x)
    case (Inl e)
    with assms sec show ?thesis by (simp add: bound_def abind_def)
  next
    case (Inr t)
    with assms sec show ?thesis
      by (cases "json_loads t"; cases "verify_vapi_binding payload (projr (json_loads t))")
        (auto simp: bound_def abind_def binding_admits_def split: if_splits)
  qed
qed

lemma print_world [simp]: "st_world (print_operation e r mo s) = st_world s"
  by (simp add: print_operation_def)

section \<open>Properties\<close>

text \<open>
  C17.  Without authorisation the prepare function has no effects.  Whatever one observes of the
  world apart from reading secrets - the table of handoffs, the requests to the route service and
  to Vapi - an invocation leaves it as it is unless the event is an HTTP JSON request, its bearer
  token is the webhook secret, and the call is of the organisation and assistant in the identity
  binding.
\<close>

theorem prepare_needs_authorisation:
  assumes "secrets_apart v sv"
    and "\<not> (\<exists>payload. bears_secret lib sv env mo event s payload \<and>
      binding_admits sv env mo True 32 (snd (authenticated lib sv env mo event s)) payload)"
  shows "v (st_world (snd (prepare_lambda lib sv env mo event s))) = v (st_world s)"
proof (rule ccontr)
  assume changed: "\<not> ?thesis"
  obtain r s' where body: "prepare_body lib sv env mo event s = (r, s')" by fastforce
  let ?P = "observes v (v (st_world s))"
  have c: "\<not> ?P s'" using changed body by (auto simp: prepare_lambda_def split: prod.splits)
  from abind_changed [OF body [unfolded prepare_body_def] authenticated_keeps [OF assms(1)] refl c]
  obtain payload s1 where 1: "authenticated lib sv env mo event s = (Inr payload, s1)" "?P s1"
    "abind (prepare_bound sv env mo payload) (\<lambda>_. prepare_effects lib sv env mo payload) s1 = (r, s')"
    by blast
  from abind_changed [OF 1(3) prepare_bound_keeps [OF assms(1)] 1(2) c]
  obtain s2 where "prepare_bound sv env mo payload s1 = (Inr (), s2)" by auto
  with 1(1) assms(2) authenticated_success prepare_bound_success show False by (metis snd_conv)
qed

definition demo_services :: "mem services" where
  "demo_services = \<lparr>sv_fetch = (\<lambda>_. aret (VStr (replicate 32 107))), sv_table = mem_client,
     sv_web = \<lparr>open_url = (\<lambda>_. araise (PyError ''URLError'')), pause = (\<lambda>_. aret ())\<rparr>,
     sv_invoke = (\<lambda>_ _. araise (ServiceError ''down''))\<rparr>"

definition demo_state :: "mem lambda_state" where
  "demo_state = \<lparr>st_secrets = Map.empty, st_route = None, st_direct = None, st_printed = [],
     st_world = demo_world\<rparr>"

definition demo_moment :: moment where
  "demo_moment = \<lparr>at_start = 1, at_finish = 2, at_wall = 1000\<rparr>"

lemma demo_apart: "secrets_apart (\<lambda>w. w) demo_services"
  by (simp add: secrets_apart_def demo_services_def)

theorem prepare_needs_authorisation_witness:
  "st_world (snd (prepare_lambda ascii_pylib demo_services Map.empty demo_moment [] demo_state)) = demo_world"
proof -
  have "\<not> bears_secret ascii_pylib demo_services Map.empty demo_moment [] demo_state payload" for payload
    by (simp add: bears_secret_def decode_http_json_def Let_def expect_dict_def)
  with prepare_needs_authorisation [OF demo_apart, of ascii_pylib Map.empty demo_moment "[]" demo_state]
  show ?thesis by (simp add: demo_state_def)
qed

text \<open>
  The same for the transfer function and its three kinds of event.  An HTTP request needs the
  webhook secret; an internal reservation, sent by the prepare function, does not; each needs a
  call of the bound assistant; and a direct handoff reads the binding past the cache, so that the
  assistant of an earlier qualification is never taken for the current one.
\<close>

theorem transfer_needs_authorisation:
  assumes "secrets_apart v sv"
    and "\<not> (\<exists>payload.
      (bears_secret lib sv env mo event s payload \<or>
       \<not> is_direct event \<and> internal_payload (get_key event ''bridgefuInternalReserveV1'') = Inr payload) \<and>
      binding_admits sv env mo (\<not> is_direct event) 1 (snd (transfer_payload lib sv env mo event s)) payload)"
  shows "v (st_world (snd (transfer_lambda lib sv env mo event s))) = v (st_world s)"
proof (rule ccontr)
  assume changed: "\<not> ?thesis"
  obtain r s' where body: "transfer_body lib sv env mo event s = (r, s')" by fastforce
  let ?P = "observes v (v (st_world s))"
  have c: "\<not> ?P s'" using changed body by (auto simp: transfer_lambda_def split: prod.splits)
  from abind_changed [OF body [unfolded transfer_body_def] transfer_payload_keeps [OF assms(1)] refl c]
  obtain payload s1 where 1: "transfer_payload lib sv env mo event s = (Inr payload, s1)" "?P s1"
    "abind (bound sv env mo event payload) (\<lambda>binding.
       abind (if is_direct event then direct_handoff lib sv env mo payload binding
              else plain_transfer lib sv env mo payload) (\<lambda>response.
       aret (if get_key event ''bridgefuInternalReserveV1'' \<noteq> VNone then Payload response
             else Reply (http_response 200 response),
             lit (if is_direct event then ''direct_started'' else ''reserved'')))) s1 = (r, s')"
    by blast
  from abind_changed [OF 1(3) bound_keeps [OF assms(1)] 1(2) c]
  obtain u s2 where "bound sv env mo event payload s1 = (Inr u, s2)" by blast
  then have b: "binding_admits sv env mo (\<not> is_direct event) 1 (snd (transfer_payload lib sv env mo event s)) payload"
    using bound_success 1(1) by (metis snd_conv)
  have "bears_secret lib sv env mo event s payload \<or>
      \<not> is_direct event \<and> internal_payload (get_key event ''bridgefuInternalReserveV1'') = Inr payload"
    using 1(1) by (auto simp: transfer_payload_def Let_def split: if_split_asm intro: authenticated_success)
  with b assms(2) show False by blast
qed

theorem transfer_needs_authorisation_witness:
  "st_world (snd (transfer_lambda ascii_pylib demo_services Map.empty demo_moment [] demo_state)) = demo_world"
proof -
  have "\<not> bears_secret ascii_pylib demo_services Map.empty demo_moment [] demo_state payload"
    "internal_payload (get_key [] ''bridgefuInternalReserveV1'') \<noteq> Inr payload" for payload
    by (simp_all add: bears_secret_def decode_http_json_def Let_def expect_dict_def internal_payload_def)
  with transfer_needs_authorisation [OF demo_apart, of ascii_pylib Map.empty demo_moment "[]" demo_state]
  show ?thesis by (simp add: demo_state_def)
qed

text \<open>
  The lookup function raises only on its own configuration.  An invocation for Amazon Connect
  that does not answer has a field configuration in the environment that does not parse, and then
  raises that error, whatever the contact, the table and the service did; every other failure is
  answered as unavailable.
\<close>

theorem lookup_raises_only_on_configuration:
  assumes "lookup_lambda lib sv env mo event s = (Inl e, s')"
  shows "\<exists>c. env ''SCREEN_POP_FIELDS_JSON'' = Some c \<and> c \<noteq> [] \<and> parse_fields lib (VStr c) = Inl e"
proof -
  obtain r s1 where "lookup_body lib sv env mo event s = (r, s1)" by fastforce
  with assms have "lambda_unavailable lib env = Inl e"
    by (auto simp: lookup_lambda_def Let_def split: sum.splits)
  then show ?thesis
    by (auto simp: lambda_unavailable_def configured_fields_def result_simps split: option.splits if_splits)
qed

theorem lookup_raises_only_on_configuration_witness:
  "\<exists>e s'. lookup_lambda ascii_pylib demo_services [''SCREEN_POP_FIELDS_JSON'' \<mapsto> lit ''x''] demo_moment [] demo_state
     = (Inl e, s') \<and> parse_fields ascii_pylib (VStr (lit ''x'')) = Inl e"
proof -
  let ?env = "[''SCREEN_POP_FIELDS_JSON'' \<mapsto> lit ''x'']"
  have "json_value default_hook (Suc 2) (lit ''x'') = Inl json_error"
    by (subst json_value.simps(2)) (simp add: eval_simps scan_word_def scan_number_def int_part_def)
  then have "json_loads (lit ''x'') = Inl json_error"
    by (simp add: json_loads_def json_loads_hook_def eval_simps result_simps skip_ws_def json_ws_def
        numeral_3_eq_3 numeral_2_eq_2)
  then obtain e where e: "parse_fields ascii_pylib (VStr (lit ''x'')) = Inl e"
    by (simp add: parse_fields_def decode_fields_def MAX_CONFIG_BYTES_def eval_simps result_simps)
  have "lambda_unavailable ascii_pylib ?env = Inl e"
    using e by (simp add: lambda_unavailable_def configured_fields_def)
  moreover have "\<exists>x. lookup_body ascii_pylib demo_services ?env demo_moment [] demo_state = (Inl x, demo_state)"
    by (simp add: lookup_body_def table_name_def env_get_def)
  ultimately obtain s' where run:
    "lookup_lambda ascii_pylib demo_services ?env demo_moment [] demo_state = (Inl e, s')"
    by (auto simp: lookup_lambda_def)
  from lookup_raises_only_on_configuration [OF run] run show ?thesis by auto
qed

end
