(* ===== verification/DirectWeb.thy ===== *)
theory DirectWeb imports WebToken Route begin

text \<open>
  The rest of \<open>qualification/bridgefu_web_handoff.py\<close>: the route request of the browser leg, the
  binding read from the route response, and the disposable Vapi tool and assistant that the
  qualification creates, recognises as its own and deletes.  The lemmas show that exactly the
  execution that built a tool or an assistant owns it, whatever the service adds to it, and that
  the order of the legs in a route response does not matter.
\<close>

definition DIRECT_TOOL_NAME :: pystr where "DIRECT_TOOL_NAME = lit ''bridgefu_direct_handoff''"

definition DIRECT_PROMPT_MARKER :: pystr where
  "DIRECT_PROMPT_MARKER = lit ''bridgefu-direct-browser-handoff@1''"

definition DIRECT_ASSISTANT_OWNER :: pystr where
  "DIRECT_ASSISTANT_OWNER = lit ''bridgefu-direct-web-qualification@1''"

definition is_sha256 :: "pystr \<Rightarrow> bool" where
  "is_sha256 s \<longleftrightarrow> class_match is_hex_lower 64 64 s"

text \<open>\<open>value in (a, b, ...)\<close> compares with \<open>==\<close>.\<close>

definition py_in :: "pyval \<Rightarrow> pyval list \<Rightarrow> bool" where
  "py_in v vs \<longleftrightarrow> list_ex (py_eq v) vs"

section \<open>The browser route\<close>

record route_binding =
  binding_tenant :: pystr
  binding_call :: pystr
  binding_source :: pystr
  binding_destination :: pystr
  binding_attachment :: pydict

definition browser_input :: "route_binding \<Rightarrow> pyval" where
  "browser_input b = VDict (mk
     [(''schema_version'', VInt 1), (''route_attachment'', VDict (binding_attachment b)),
      (''route_binding'', VDict (mk
        [(''tenantId'', VStr (binding_tenant b)), (''callId'', VStr (binding_call b)),
         (''legId'', VStr (binding_source b))]))])"

definition route_request :: "pystr \<Rightarrow> pystr \<Rightarrow> pyval result" where
  "route_request correlation token =
     (if \<not> is_correlation correlation then Inl (contract_error ''direct route correlation is invalid'')
      else if \<not> is_token token then Inl (contract_error ''direct route handoff token is invalid'')
      else Inr (VDict (mk
        [(''ingress'', VStr (lit ''webrtc'')),
         (''context'', VDict (mk
           [(''correlation_id'', VStr correlation),
            (''metadata'', VDict (mk [(''handoff_token'', VStr token)]))]))])))"

text \<open>
  \<open>str(v)\<close> of a JSON value; a list or a dictionary prints between brackets, and the text
  is then neither a URL with a scheme nor a date, which is all the code asks.
\<close>

definition py_str :: "pyval \<Rightarrow> pystr" where
  "py_str v =
     (case v of
        VStr s \<Rightarrow> s
      | VNone \<Rightarrow> lit ''None''
      | VBool b \<Rightarrow> lit (if b then ''True'' else ''False'')
      | VInt i \<Rightarrow> dec_int i
      | VFloat NaN \<Rightarrow> lit ''nan''
      | VFloat (Infinite p) \<Rightarrow> lit (if p then ''inf'' else ''-inf'')
      | VFloat f \<Rightarrow> float_repr f
      | VList _ \<Rightarrow> lit ''[]''
      | VDict _ \<Rightarrow> lit ''{}'')"

definition ATTACHMENT_KEYS :: "pystr set" where
  "ATTACHMENT_KEYS = lit ` {''type'', ''signaling_uri'', ''token'', ''signaling_credential'',
     ''subprotocols'', ''ice_servers'', ''expires_at''}"

definition is_attach_token :: "pystr \<Rightarrow> bool" where
  "is_attach_token s \<longleftrightarrow> class_match id_char 43 43 s"

definition is_signaling_token :: "pystr \<Rightarrow> bool" where
  "is_signaling_token s \<longleftrightarrow> starts_with s (lit ''bfs1.'') \<and> class_match token_char 1 4091 (drop 5 s)"

definition subprotocols :: "pystr \<Rightarrow> pystr \<Rightarrow> pyval" where
  "subprotocols credential token = VList
     [VStr (lit ''rvoip.webrtc.v1''), VStr (lit ''token.'' @ credential),
      VStr (lit ''bridgefu.attach.'' @ token)]"

definition attachment_shape :: "pydict \<Rightarrow> bool" where
  "attachment_shape a \<longleftrightarrow>
     (let token = get_key a ''token''; credential = get_key a ''signaling_credential'';
          ctoken = safe_get credential ''token''
      in keys a = ATTACHMENT_KEYS \<and> get_key a ''type'' = VStr (lit ''webrtc'') \<and>
         is_str token \<and> is_attach_token (str_of token) \<and>
         is_dict credential \<and> keys (dict_of credential) = lit ` {''usage'', ''token'', ''expires_at''} \<and>
         safe_get credential ''usage'' = VStr (lit ''bridgefu-webrtc-signaling'') \<and>
         is_str ctoken \<and> is_signaling_token (str_of ctoken) \<and>
         py_eq (safe_get credential ''expires_at'') (get_key a ''expires_at'') \<and>
         py_eq (get_key a ''subprotocols'') (subprotocols (str_of ctoken) (str_of token)) \<and>
         is_list (get_key a ''ice_servers''))"

definition expiry_positive :: "pyfloat \<Rightarrow> bool" where
  "expiry_positive x = (case x of Fin r \<Rightarrow> 0 < r | Infinite p \<Rightarrow> p | NaN \<Rightarrow> True)"

definition validate_attachment :: "pylib \<Rightarrow> pydict \<Rightarrow> unit result" where
  "validate_attachment lib a =
     (if \<not> attachment_shape a then Inl (contract_error ''direct route attachment is invalid'')
      else
      rbind (some_or (PyError ''ValueError'') (urlsplit lib (py_str (get_or a ''signaling_uri'' (VStr []))))) (\<lambda>u.
      if scheme u \<noteq> lit ''wss'' \<or> hostname lib u = [] \<or> \<not> no_userinfo u \<or> query u \<noteq> [] \<or> fragment u \<noteq> []
      then Inl (contract_error ''direct route signaling URI is invalid'')
      else
      rbind (map_error (catch_as [PyError ''ValueError''] (contract_error ''direct route expiry is invalid''))
        (iso_timestamp lib (py_str (get_key a ''expires_at'')))) (\<lambda>t.
      if \<not> expiry_positive t then Inl (contract_error ''direct route expiry is invalid'') else Inr ())))"

definition leg_is :: "string \<Rightarrow> string \<Rightarrow> pyval \<Rightarrow> bool" where
  "leg_is direction kind leg \<longleftrightarrow> is_dict leg \<and>
     safe_get leg ''direction'' = VStr (lit direction) \<and> safe_get leg ''kind'' = VStr (lit kind)"

definition is_uuid_value :: "pyval \<Rightarrow> bool" where
  "is_uuid_value v \<longleftrightarrow> is_str v \<and> is_uuid (str_of v)"

definition route_legs :: "pyval list \<Rightarrow> (pystr \<times> pystr) result" where
  "route_legs legs =
     (case (filter (leg_is ''inbound'' ''webrtc'') legs, filter (leg_is ''outbound'' ''sip'') legs) of
        ([i], [k]) \<Rightarrow>
          if is_uuid_value (safe_get i ''leg_id'') \<and> is_uuid_value (safe_get k ''leg_id'')
          then Inr (str_of (safe_get i ''leg_id''), str_of (safe_get k ''leg_id''))
          else Inl (contract_error ''direct route leg identity is invalid'')
      | _ \<Rightarrow> Inl (contract_error ''direct route legs are ambiguous''))"

definition parse_route_response :: "pylib \<Rightarrow> pyval \<Rightarrow> pystr \<Rightarrow> route_binding result" where
  "parse_route_response lib v expected =
     (let bad = contract_error ''direct route response is invalid'' in
      rbind (expect_dict bad v) (\<lambda>d.
      if \<not> is_identifier expected then Inl bad
      else if get_key d ''route_id'' \<noteq> VStr expected then Inl (contract_error ''direct route identity changed'')
      else
      let tenant = get_key d ''tenant_id''; call = get_key d ''call_id''; legs = get_key d ''legs'';
          attachment = get_key d ''attachment''
      in if \<not> is_str tenant \<or> \<not> is_identifier (str_of tenant) \<or> \<not> is_uuid_value call \<or>
            \<not> is_list legs \<or> length (list_of legs) \<noteq> 2 \<or> \<not> is_dict attachment
         then Inl bad
         else
         rbind (route_legs (list_of legs)) (\<lambda>(source, destination).
         rbind (validate_attachment lib (dict_of attachment)) (\<lambda>_.
         Inr \<lparr>binding_tenant = str_of tenant, binding_call = str_of call, binding_source = source,
              binding_destination = destination, binding_attachment = dict_of attachment\<rparr>))))"

section \<open>The disposable tool\<close>

definition secure_endpoint :: "pylib \<Rightarrow> url \<Rightarrow> bool" where
  "secure_endpoint lib u \<longleftrightarrow> scheme u = lit ''https'' \<and> hostname lib u \<noteq> [] \<and> no_userinfo u \<and>
     query u = [] \<and> fragment u = []"

definition direct_tool_document :: "pystr \<Rightarrow> pystr \<Rightarrow> pydict \<Rightarrow> pydict" where
  "direct_tool_document endpoint credential parameters = mk
     [(''type'', VStr (lit ''function'')),
      (''function'', VDict (mk
        [(''name'', VStr DIRECT_TOOL_NAME),
         (''description'', VStr (lit ''Store the configured screen-pop context and securely replace this Bridgefu assistant leg with Amazon Connect.'')),
         (''parameters'', VDict parameters)])),
      (''server'', VDict (mk
        [(''url'', VStr endpoint), (''credentialId'', VStr credential), (''timeoutSeconds'', VInt 10)])),
      (''parameters'', VList [VDict (mk
        [(''key'', VStr (lit ''handoff_token'')), (''value'', VStr (lit ''{{ bridgefu_handoff_token }}''))])])]"

definition direct_tool_payload ::
    "pylib \<Rightarrow> pystr \<Rightarrow> pystr \<Rightarrow> pyval \<Rightarrow> pystr \<Rightarrow> pydict result" where
  "direct_tool_payload lib endpoint credential schema execution =
     rbind (some_or (PyError ''ValueError'') (urlsplit lib endpoint)) (\<lambda>u.
     if \<not> secure_endpoint lib u \<or> \<not> is_identifier credential \<or> \<not> is_dict schema \<or>
        safe_get schema ''type'' \<noteq> VStr (lit ''object'') \<or>
        safe_get schema ''additionalProperties'' \<noteq> VBool False \<or> \<not> is_identifier execution
     then Inl (contract_error ''direct Vapi tool configuration is invalid'')
     else
     rbind (json_loads (json_dumps default_opts schema)) (\<lambda>v.
     rbind (expect_dict (PyError ''AttributeError'') v) (\<lambda>parameters.
     if \<not> is_dict (get_key parameters ''properties'') \<or>
        has_key (dict_of (get_key parameters ''properties'')) ''handoff_token''
     then Inl (contract_error ''direct Vapi field schema is invalid'')
     else Inr (direct_tool_document endpoint credential parameters))))"

definition direct_tool_owned :: "pydict \<Rightarrow> pystr \<Rightarrow> pystr \<Rightarrow> pystr \<Rightarrow> bool" where
  "direct_tool_owned d execution endpoint credential \<longleftrightarrow>
     (let f = get_key d ''function''; server = get_key d ''server'' in
      is_identifier execution \<and> is_identifier credential \<and>
      get_key d ''type'' = VStr (lit ''function'') \<and>
      is_dict f \<and> safe_get f ''name'' = VStr DIRECT_TOOL_NAME \<and>
      is_dict server \<and> safe_get server ''url'' = VStr endpoint \<and>
      safe_get server ''credentialId'' = VStr credential)"

section \<open>The disposable assistant\<close>

definition model_text :: "pystr \<Rightarrow> bool" where
  "model_text s \<longleftrightarrow> 1 \<le> length s \<and> length s \<le> 128 \<and> \<not> list_ex (\<lambda>c. c < 32 \<or> c = 127) s"

definition prompt_marker :: pystr where
  "prompt_marker = lit ''['' @ DIRECT_PROMPT_MARKER @ lit '']''"

definition direct_prompt :: pystr where
  "direct_prompt = prompt_marker @ lit '' This is a disposable Bridgefu release-qualification assistant. Call bridgefu_direct_handoff exactly once when the caller asks for a human. For every tool argument, use the single value permitted by that argument's schema; do not copy, infer, or paraphrase caller speech. The trusted static bridgefu_handoff_token is supplied by the tool configuration. Never ask for, repeat, invent, or modify the token, a route, a URI, a call ID, or a leg ID.''"

definition assistant_model :: "pystr \<Rightarrow> pystr \<Rightarrow> pydict" where
  "assistant_model tool model = mk
     [(''provider'', VStr (lit ''openai'')), (''model'', VStr model), (''temperature'', VInt 0),
      (''messages'', VList [VDict (mk [(''role'', VStr (lit ''system'')), (''content'', VStr direct_prompt)])]),
      (''toolIds'', VList [VStr tool])]"

definition assistant_document :: "pystr \<Rightarrow> pystr \<Rightarrow> pystr \<Rightarrow> pystr \<Rightarrow> pydict" where
  "assistant_document execution tool model voice = mk
     [(''name'', VStr (lit ''BFQ direct '' @ execution)),
      (''firstMessageMode'', VStr (lit ''assistant-waits-for-user'')),
      (''model'', VDict (assistant_model tool model)),
      (''voice'', VDict (mk [(''provider'', VStr (lit ''vapi'')), (''voiceId'', VStr voice)])),
      (''transcriber'', VDict (mk [(''provider'', VStr (lit ''deepgram'')), (''model'', VStr (lit ''nova-3'')),
         (''language'', VStr (lit ''en''))])),
      (''artifactPlan'', VDict (mk [(''recordingEnabled'', VBool False)])),
      (''maxDurationSeconds'', VInt 300),
      (''metadata'', VDict (mk [(''bridgefu_qualification'', VStr execution),
         (''bridgefu_owner'', VStr DIRECT_ASSISTANT_OWNER)]))]"

definition direct_assistant_payload ::
    "pystr \<Rightarrow> pystr \<Rightarrow> pystr \<Rightarrow> pystr \<Rightarrow> (pydict \<times> pystr) result" where
  "direct_assistant_payload execution tool model voice =
     (if \<not> is_identifier execution \<or> \<not> is_identifier tool \<or> \<not> model_text model \<or> \<not> model_text voice
      then Inl (contract_error ''direct Vapi assistant configuration is invalid'')
      else
      rbind (utf8_encode direct_prompt) (\<lambda>bs.
      Inr (assistant_document execution tool model voice, hexdigest (sha256 bs))))"

text \<open>
  \<open>direct_assistant_owned\<close>, one definition per object of the assistant.  A key that must be
  absent or empty is compared with \<open>in (None, ...)\<close>.
\<close>

definition ALLOWED_TOP_LEVEL :: "pystr set" where
  "ALLOWED_TOP_LEVEL = lit ` {''id'', ''orgId'', ''createdAt'', ''updatedAt'', ''latestVersion'',
     ''isServerUrlSecretSet'', ''analysisPlan'', ''name'', ''firstMessageMode'', ''model'', ''voice'',
     ''transcriber'', ''artifactPlan'', ''maxDurationSeconds'', ''metadata'', ''server'', ''serverUrl'',
     ''serverMessages'', ''hooks'', ''credentialIds''}"

definition disabled_plan :: pyval where
  "disabled_plan = VDict (mk
     [(''summaryPlan'', VDict (mk [(''enabled'', VBool False)])),
      (''successEvaluationPlan'', VDict (mk [(''enabled'', VBool False)]))])"

definition service_fields_ok :: "pydict \<Rightarrow> bool" where
  "service_fields_ok d \<longleftrightarrow>
     keys d \<subseteq> ALLOWED_TOP_LEVEL \<and>
     (py_in (get_key d ''latestVersion'') [VNone, VStr []] \<or>
      is_str (get_key d ''latestVersion'') \<and> is_identifier (str_of (get_key d ''latestVersion''))) \<and>
     py_in (get_key d ''isServerUrlSecretSet'') [VNone, VBool False] \<and>
     py_in (get_key d ''analysisPlan'') [VNone, disabled_plan]"

definition owner_ok :: "pydict \<Rightarrow> pystr \<Rightarrow> bool" where
  "owner_ok d execution \<longleftrightarrow>
     (let m = get_key d ''metadata'' in
      get_key d ''name'' = VStr (lit ''BFQ direct '' @ execution) \<and>
      get_key d ''firstMessageMode'' = VStr (lit ''assistant-waits-for-user'') \<and>
      is_dict m \<and> keys (dict_of m) = lit ` {''bridgefu_qualification'', ''bridgefu_owner''} \<and>
      safe_get m ''bridgefu_qualification'' = VStr execution \<and>
      safe_get m ''bridgefu_owner'' = VStr DIRECT_ASSISTANT_OWNER)"

definition model_ok :: "pyval \<Rightarrow> pystr \<Rightarrow> pystr \<Rightarrow> bool" where
  "model_ok m tool model \<longleftrightarrow>
     is_dict m \<and>
     keys (dict_of m) \<subseteq> lit ` {''provider'', ''model'', ''temperature'', ''messages'', ''toolIds'', ''tools'',
       ''knowledgeBase'', ''knowledgeBaseId''} \<and>
     safe_get m ''provider'' = VStr (lit ''openai'') \<and> safe_get m ''model'' = VStr model \<and>
     py_eq (safe_get m ''temperature'') (VInt 0) \<and>
     py_eq (safe_get m ''toolIds'') (VList [VStr tool]) \<and>
     py_in (safe_get m ''tools'') [VNone, VList []] \<and>
     safe_get m ''knowledgeBase'' = VNone \<and> safe_get m ''knowledgeBaseId'' = VNone"

definition prompt_of :: "pyval \<Rightarrow> pyval" where
  "prompt_of m =
     (case safe_get m ''messages'' of VList [VDict x] \<Rightarrow> get_key x ''content'' | _ \<Rightarrow> VNone)"

definition no_callbacks :: "pydict \<Rightarrow> bool" where
  "no_callbacks d \<longleftrightarrow>
     get_key d ''server'' = VNone \<and> get_key d ''serverUrl'' = VNone \<and>
     py_in (get_key d ''serverMessages'') [VNone, VList []] \<and>
     py_in (get_key d ''hooks'') [VNone, VList []] \<and>
     py_in (get_key d ''credentialIds'') [VNone, VList []]"

definition voice_ok :: "pyval \<Rightarrow> pystr \<Rightarrow> bool" where
  "voice_ok v voice \<longleftrightarrow>
     is_dict v \<and> keys (dict_of v) \<subseteq> lit ` {''provider'', ''voiceId'', ''fallbackPlan''} \<and>
     safe_get v ''provider'' = VStr (lit ''vapi'') \<and> safe_get v ''voiceId'' = VStr voice \<and>
     py_in (safe_get v ''fallbackPlan'') [VNone, VDict [], VList []]"

definition transcriber_ok :: "pyval \<Rightarrow> bool" where
  "transcriber_ok t \<longleftrightarrow>
     is_dict t \<and>
     keys (dict_of t) \<subseteq> lit ` {''provider'', ''model'', ''language'', ''smartFormat'', ''fallbackPlan''} \<and>
     safe_get t ''provider'' = VStr (lit ''deepgram'') \<and> safe_get t ''model'' = VStr (lit ''nova-3'') \<and>
     safe_get t ''language'' = VStr (lit ''en'') \<and>
     py_in (safe_get t ''smartFormat'') [VNone, VBool True] \<and>
     py_in (safe_get t ''fallbackPlan'')
       [VNone, VDict (mk [(''autoFallback'', VDict (mk [(''enabled'', VBool True)]))])]"

definition artifact_ok :: "pyval \<Rightarrow> bool" where
  "artifact_ok a \<longleftrightarrow>
     is_dict a \<and> keys (dict_of a) \<subseteq> lit ` {''recordingEnabled'', ''loggingEnabled''} \<and>
     safe_get a ''recordingEnabled'' = VBool False \<and>
     py_in (safe_get a ''loggingEnabled'') [VNone, VBool False]"

definition direct_assistant_owned ::
    "pydict \<Rightarrow> pystr \<Rightarrow> pystr \<Rightarrow> pystr \<Rightarrow> pystr \<Rightarrow> pystr \<Rightarrow> bool result" where
  "direct_assistant_owned d execution tool prompt_sha256 model voice =
     (let prompt = prompt_of (get_key d ''model'') in
      if \<not> is_identifier execution \<or> \<not> is_identifier tool \<or> \<not> is_sha256 prompt_sha256 then Inr False
      else if \<not> (service_fields_ok d \<and> owner_ok d execution \<and> model_ok (get_key d ''model'') tool model \<and>
                 is_str prompt \<and> contains (str_of prompt) prompt_marker)
      then Inr False
      else
      rbind (utf8_encode (str_of prompt)) (\<lambda>bs.
      Inr (hexdigest (sha256 bs) = prompt_sha256 \<and> no_callbacks d \<and>
           voice_ok (get_key d ''voice'') voice \<and> transcriber_ok (get_key d ''transcriber'') \<and>
           artifact_ok (get_key d ''artifactPlan'') \<and>
           py_eq (get_key d ''maxDurationSeconds'') (VInt 300))))"

section \<open>Ownership\<close>

text \<open>
  A document as the service returns it: every key that was sent, with its value, and possibly
  keys of its own, in any order.
\<close>

definition served :: "string set \<Rightarrow> pydict \<Rightarrow> pydict \<Rightarrow> bool" where
  "served own d d' \<longleftrightarrow>
     (\<forall>k \<in> keys d. map_of d' k = map_of d k) \<and> keys d' \<subseteq> keys d \<union> lit ` own"

lemma served_key: "served own d d' \<Longrightarrow> lit k \<in> keys d \<Longrightarrow> get_key d' k = get_key d k"
  by (simp add: served_def get_key_def get_or_def)

lemma served_absent:
  assumes "served own d d'" "lit k \<notin> keys d" "k \<notin> own"
  shows "get_key d' k = VNone"
proof -
  have "lit k \<notin> keys d'" using assms by (auto simp: served_def)
  then have "map_of d' (lit k) = None" by (simp add: keys_def map_of_eq_None_iff)
  then show ?thesis by (simp add: get_key_def get_or_def)
qed

lemma hexdigest_sha256: "is_sha256 (hexdigest (sha256 bs))"
  by (simp add: is_sha256_def class_match_def hexdigest_hex)

lemma contains_prefix [simp]: "contains (p @ s) p"
  by (cases "p @ s") (auto simp: starts_with_iff, metis)

lemma py_in_VNone [simp]: "py_in VNone (VNone # vs)"
  by (simp add: py_in_def)

abbreviation SERVICE_KEYS :: "string set" where
  "SERVICE_KEYS \<equiv> {''id'', ''orgId'', ''createdAt'', ''updatedAt''}"

lemma served_assistant:
  assumes "served SERVICE_KEYS (assistant_document e t m v) d'"
  shows "service_fields_ok d'" "no_callbacks d'"
    "owner_ok d' e' \<longleftrightarrow> e' = e"
    "get_key d' ''model'' = VDict (assistant_model t m)"
    "voice_ok (get_key d' ''voice'') v' \<longleftrightarrow> v' = v"
    "transcriber_ok (get_key d' ''transcriber'')"
    "artifact_ok (get_key d' ''artifactPlan'')"
    "py_eq (get_key d' ''maxDurationSeconds'') (VInt 300)"
proof -
  note key = served_key [OF assms] and absent = served_absent [OF assms]
  have "keys d' \<subseteq> ALLOWED_TOP_LEVEL"
    using assms by (auto simp: served_def assistant_document_def ALLOWED_TOP_LEVEL_def)
  then show "service_fields_ok d'"
    by (simp add: service_fields_ok_def absent assistant_document_def)
  show "no_callbacks d'"
    by (simp add: no_callbacks_def absent assistant_document_def)
  show "owner_ok d' e' \<longleftrightarrow> e' = e"
    by (auto simp: owner_ok_def key assistant_document_def)
  show "get_key d' ''model'' = VDict (assistant_model t m)"
    "voice_ok (get_key d' ''voice'') v' \<longleftrightarrow> v' = v"
    "transcriber_ok (get_key d' ''transcriber'')"
    "artifact_ok (get_key d' ''artifactPlan'')"
    "py_eq (get_key d' ''maxDurationSeconds'') (VInt 300)"
    by (auto simp: key assistant_document_def voice_ok_def transcriber_ok_def artifact_ok_def)
qed

lemma built_model:
  "model_ok (VDict (assistant_model t m)) t' m' \<longleftrightarrow> t' = t \<and> m' = m"
  "prompt_of (VDict (assistant_model t m)) = VStr direct_prompt"
  by (auto simp: model_ok_def assistant_model_def prompt_of_def)

text \<open>
  C18.  A disposable assistant is owned by exactly the execution that built it: the document that
  \<open>direct_assistant_payload\<close> returns, with whatever identity and time stamps the service adds and in
  whatever order it returns the keys, passes \<open>direct_assistant_owned\<close> for the same execution, tool,
  prompt digest, model and voice, and for no others.
\<close>

theorem assistant_owned_by_its_execution:
  assumes "direct_assistant_payload execution tool model voice = Inr (d, digest)"
    and "served SERVICE_KEYS d d'"
  shows "direct_assistant_owned d' e t h m v =
    Inr (e = execution \<and> t = tool \<and> h = digest \<and> m = model \<and> v = voice)"
proof -
  from assms(1) obtain bs where ok: "is_identifier execution" "is_identifier tool"
    and bs: "utf8_encode direct_prompt = Inr bs" and d: "d = assistant_document execution tool model voice"
    and digest: "digest = hexdigest (sha256 bs)"
    by (auto simp: direct_assistant_payload_def result_simps split: if_split_asm)
  have "contains direct_prompt prompt_marker" by (simp add: direct_prompt_def)
  with ok bs digest hexdigest_sha256 [of bs] show ?thesis
    using served_assistant [OF assms(2) [unfolded d]]
    by (auto simp: direct_assistant_owned_def Let_def built_model)
qed

theorem assistant_owned_by_its_execution_witness:
  "\<exists>d digest.
     direct_assistant_payload (lit ''e1'') (lit ''t1'') (lit ''m'') (lit ''v'') = Inr (d, digest) \<and>
     direct_assistant_owned ((lit ''id'', VStr (lit ''a1'')) # d) (lit ''e1'') (lit ''t1'') digest (lit ''m'') (lit ''v'') = Inr True \<and>
     direct_assistant_owned ((lit ''id'', VStr (lit ''a1'')) # d) (lit ''e2'') (lit ''t1'') digest (lit ''m'') (lit ''v'') = Inr False"
proof -
  have "is_ascii direct_prompt"
    by (simp add: direct_prompt_def prompt_marker_def DIRECT_PROMPT_MARKER_def is_ascii_def lit_def)
  then obtain bs where bs: "utf8_encode direct_prompt = Inr bs" by (auto simp: utf8_encode_ascii)
  let ?d = "assistant_document (lit ''e1'') (lit ''t1'') (lit ''m'') (lit ''v'')"
  have run: "direct_assistant_payload (lit ''e1'') (lit ''t1'') (lit ''m'') (lit ''v'') =
      Inr (?d, hexdigest (sha256 bs))"
    by (simp add: direct_assistant_payload_def bs)
      (simp add: is_identifier_def model_text_def eval_simps)
  have "served SERVICE_KEYS ?d ((lit ''id'', VStr (lit ''a1'')) # ?d)"
    by (auto simp: served_def assistant_document_def)
  from assistant_owned_by_its_execution [OF run this] run show ?thesis by auto
qed

definition demo_schema :: pyval where
  "demo_schema = VDict (mk [(''type'', VStr (lit ''object'')), (''properties'', VDict []),
     (''additionalProperties'', VBool False)])"

lemma demo_schema_loads: "json_loads (json_dumps default_opts demo_schema) = Inr demo_schema"
proof -
  have "json_ok (ensure_ascii default_opts) demo_schema"
    by (simp add: demo_schema_def char_ok_def eval_simps)
  moreover have "good_opts default_opts" "any_hook default_hook" "\<not> sort_keys default_opts"
    by (auto simp: good_opts_def any_hook_def default_hook_def eval_simps intro: exI [of _ 1] exI [of _ 0])
  ultimately show ?thesis unfolding json_loads_def by (intro json_loads_dumps)
qed

text \<open>
  The same for the disposable tool: the document that \<open>direct_tool_payload\<close> builds, as the
  service returns it, is owned exactly under its own endpoint and credential.
\<close>

theorem tool_owned_by_its_stack:
  assumes "direct_tool_payload lib endpoint credential schema execution = Inr d"
    and "served SERVICE_KEYS d d'"
  shows "direct_tool_owned d' e url c \<longleftrightarrow> is_identifier e \<and> url = endpoint \<and> c = credential"
proof -
  from assms(1) obtain parameters where d: "d = direct_tool_document endpoint credential parameters"
    and "is_identifier credential"
    by (auto simp: direct_tool_payload_def result_simps split: if_split_asm)
  then show ?thesis
    using served_key [OF assms(2)] by (auto simp: direct_tool_owned_def direct_tool_document_def)
qed

theorem tool_owned_by_its_stack_witness:
  "\<exists>d. direct_tool_payload ascii_pylib (lit ''https://a.example/x'') (lit ''c1'') demo_schema (lit ''e1'') = Inr d \<and>
     direct_tool_owned d (lit ''e9'') (lit ''https://a.example/x'') (lit ''c1'') \<and>
     \<not> direct_tool_owned d (lit ''e1'') (lit ''https://b.example/x'') (lit ''c1'')"
proof -
  let ?u = "\<lparr>scheme = lit ''https'', netloc = lit ''a.example'', path = lit ''/x'', query = [], fragment = []\<rparr>"
  have ids: "is_identifier (lit ''c1'')" "is_identifier (lit ''e1'')" "is_identifier (lit ''e9'')"
    by (simp_all add: is_identifier_def eval_simps)
  have "urlsplit ascii_pylib (lit ''https://a.example/x'') = Some ?u"
    by (simp add: urlsplit_def clean_url_def split_scheme_def split_netloc_def netloc_ok_def before_def after_def
        scheme_char_def lstrip_if_def ascii_lower_def Let_def eval_simps)
  moreover have "secure_endpoint ascii_pylib ?u"
    by (simp add: secure_endpoint_def no_userinfo_def username_def password_def userinfo_def hostname_def
        split_port_def host_part_def before_def py_lower_def ascii_lower_def eval_simps)
  ultimately have run: "direct_tool_payload ascii_pylib (lit ''https://a.example/x'') (lit ''c1'') demo_schema (lit ''e1'') =
      Inr (direct_tool_document (lit ''https://a.example/x'') (lit ''c1'') (dict_of demo_schema))"
    by (simp add: direct_tool_payload_def demo_schema_loads ids) (simp add: demo_schema_def)
  have "served SERVICE_KEYS d d" for d by (auto simp: served_def)
  from tool_owned_by_its_stack [OF run this] run ids show ?thesis by simp
qed

section \<open>The legs of a route response\<close>

lemma route_legs_sound:
  assumes "route_legs legs = Inr (source, destination)" "length legs = 2"
  shows "\<exists>i k. (legs = [i, k] \<or> legs = [k, i]) \<and>
    leg_is ''inbound'' ''webrtc'' i \<and> safe_get i ''leg_id'' = VStr source \<and> is_uuid source \<and>
    leg_is ''outbound'' ''sip'' k \<and> safe_get k ''leg_id'' = VStr destination \<and> is_uuid destination"
proof -
  obtain a b where legs: "legs = [a, b]" using assms(2) by (auto simp: length_Suc_conv numeral_2_eq_2)
  show ?thesis using assms(1) unfolding legs
    by (auto simp: route_legs_def leg_is_def is_uuid_value_def is_str_conv split: if_splits)
qed

lemma get_key_dict_set: "get_key (dict_set d (lit j) v) k = (if j = k then v else get_key d k)"
  by (simp add: get_key_def get_or_def)

lemma route_legs_swap: "route_legs [a, b] = route_legs [b, a]"
  by (auto simp: route_legs_def leg_is_def)

text \<open>
  A binding read from a route response names the two legs by their roles: the response has
  exactly one inbound browser leg and one outbound SIP leg, both with well-formed identifiers, the
  source is the first and the destination the second, and the same binding is read when the service
  lists them in the other order.
\<close>

theorem route_binding_names_both_legs:
  assumes "parse_route_response lib (VDict d) route = Inr b"
  shows "\<exists>i k. (get_key d ''legs'' = VList [i, k] \<or> get_key d ''legs'' = VList [k, i]) \<and>
    leg_is ''inbound'' ''webrtc'' i \<and> safe_get i ''leg_id'' = VStr (binding_source b) \<and> is_uuid (binding_source b) \<and>
    leg_is ''outbound'' ''sip'' k \<and> safe_get k ''leg_id'' = VStr (binding_destination b) \<and>
    is_uuid (binding_destination b) \<and>
    (\<forall>order \<in> {[i, k], [k, i]}.
      parse_route_response lib (VDict (dict_set d (lit ''legs'') (VList order))) route = Inr b)"
proof -
  from assms obtain legs where legs: "get_key d ''legs'' = VList legs" "length legs = 2"
      "route_legs legs = Inr (binding_source b, binding_destination b)"
    by (auto simp: parse_route_response_def Let_def result_simps is_list_conv split: if_split_asm prod.splits)
  have other: "parse_route_response lib (VDict (dict_set d (lit ''legs'') (VList order))) route = Inr b"
    if "route_legs order = route_legs legs" "length order = 2" for order
    using assms by (simp add: parse_route_response_def Let_def get_key_dict_set that legs cong: if_cong)
  from route_legs_sound [OF legs(3,2)] legs route_legs_swap other show ?thesis by (elim exE) (intro exI conjI; auto)
qed

definition demo_route_uuid :: "nat \<Rightarrow> pystr" where
  "demo_route_uuid c = replicate 8 c @ [45] @ replicate 4 c @ [45] @ replicate 4 c @ [45] @ replicate 4 c @ [45]
     @ replicate 12 c"

definition demo_attachment :: pydict where
  "demo_attachment = mk
     [(''type'', VStr (lit ''webrtc'')), (''signaling_uri'', VStr (lit ''wss://a.example/s'')),
      (''token'', VStr (replicate 43 97)),
      (''signaling_credential'', VDict (mk
        [(''usage'', VStr (lit ''bridgefu-webrtc-signaling'')), (''token'', VStr (lit ''bfs1.x'')),
         (''expires_at'', VStr (lit ''19700102''))])),
      (''subprotocols'', subprotocols (lit ''bfs1.x'') (replicate 43 97)),
      (''ice_servers'', VList []), (''expires_at'', VStr (lit ''19700102''))]"

definition demo_leg :: "string \<Rightarrow> string \<Rightarrow> nat \<Rightarrow> pyval" where
  "demo_leg direction kind c = VDict (mk
     [(''direction'', VStr (lit direction)), (''kind'', VStr (lit kind)), (''leg_id'', VStr (demo_route_uuid c))])"

definition demo_route_response :: pydict where
  "demo_route_response = mk
     [(''route_id'', VStr (lit ''r1'')), (''tenant_id'', VStr (lit ''t1'')), (''call_id'', VStr (demo_route_uuid 97)),
      (''legs'', VList [demo_leg ''outbound'' ''sip'' 99, demo_leg ''inbound'' ''webrtc'' 98]),
      (''attachment'', VDict demo_attachment)]"

lemma demo_uuids: "is_uuid (demo_route_uuid 97)" "is_uuid (demo_route_uuid 98)" "is_uuid (demo_route_uuid 99)"
  by (simp_all add: is_uuid_def demo_route_uuid_def is_hex_def is_digit_def numeral_eq_Suc)

lemma demo_attachment_valid: "validate_attachment ascii_pylib demo_attachment = Inr ()"
proof -
  let ?u = "\<lparr>scheme = lit ''wss'', netloc = lit ''a.example'', path = lit ''/s'', query = [], fragment = []\<rparr>"
  have "is_attach_token (replicate 43 97)" "is_signaling_token (lit ''bfs1.x'')"
    by (simp_all add: is_attach_token_def is_signaling_token_def class_match_def id_char_def token_char_def
        list_all_iff eval_simps)
  then have shape: "attachment_shape demo_attachment"
    by (simp add: attachment_shape_def demo_attachment_def Let_def ATTACHMENT_KEYS_def subprotocols_def insert_commute)
  have u: "urlsplit ascii_pylib (lit ''wss://a.example/s'') = Some ?u"
    by (simp add: urlsplit_def clean_url_def split_scheme_def split_netloc_def netloc_ok_def before_def after_def
        scheme_char_def lstrip_if_def ascii_lower_def Let_def eval_simps)
  have host: "hostname ascii_pylib ?u \<noteq> []" "no_userinfo ?u"
    by (simp_all add: no_userinfo_def username_def password_def userinfo_def hostname_def
        split_port_def host_part_def before_def py_lower_def ascii_lower_def eval_simps)
  have "fromisoformat (zulu_replaced (lit ''19700102'')) = Some (86400000000, None)"
    by (simp add: zulu_replaced_def fromisoformat_def separator_fixed_def is_surrogate_def date_end_def
        scan_date_def digits_def valid_date_def month_days_def is_leap_def ordinal_def EPOCH_def nth_Cons'
        digits_val_def Let_def eval_simps)
  then have "iso_timestamp ascii_pylib (lit ''19700102'') = Inr (Fin 86400)"
    using nearest_double_int [of 86400] by (simp add: iso_timestamp_def timestamp_def nearest_double_def [of 0] ascii_pylib_def)
  with shape u host show ?thesis
    by (simp add: validate_attachment_def) (simp add: demo_attachment_def py_str_def u expiry_positive_def)
qed

theorem route_binding_names_both_legs_witness:
  "\<exists>b. parse_route_response ascii_pylib (VDict demo_route_response) (lit ''r1'') = Inr b \<and>
     binding_source b = demo_route_uuid 98 \<and> binding_destination b = demo_route_uuid 99"
proof -
  have ids: "is_identifier (lit ''r1'')" "is_identifier (lit ''t1'')"
    by (simp_all add: is_identifier_def eval_simps)
  have "route_legs [demo_leg ''outbound'' ''sip'' 99, demo_leg ''inbound'' ''webrtc'' 98] =
      Inr (demo_route_uuid 98, demo_route_uuid 99)"
    using demo_uuids by (simp add: route_legs_def leg_is_def demo_leg_def is_uuid_value_def)
  then obtain b where run: "parse_route_response ascii_pylib (VDict demo_route_response) (lit ''r1'') = Inr b"
    using demo_uuids ids demo_attachment_valid
    by (simp add: parse_route_response_def demo_route_response_def is_uuid_value_def)
  from route_binding_names_both_legs [OF this] run show ?thesis
    by (auto simp: demo_route_response_def demo_leg_def leg_is_def)
qed

end
