(* ===== verification/Vapi.thy ===== *)
theory Vapi imports Route begin

text \<open>
  The Vapi client of \<open>lambda/common/vapi_provisioning.py\<close>: \<open>VapiHttpClient\<close>, its bounded requests
  with retries for reads only, and the reconciliation of writes that may have committed.  The HTTP
  opener, the timeout callback, \<open>sleep\<close> and \<open>print\<close> are a record of actions on the world.
\<close>

section \<open>float() of a text\<close>

definition c_space :: "nat \<Rightarrow> bool" where
  "c_space c \<longleftrightarrow> (9 \<le> c \<and> c \<le> 13) \<or> c = 32"

text \<open>Unicode digits and spaces become ASCII ones; anything else is not part of a number.\<close>

definition number_ascii :: "pylib \<Rightarrow> pystr \<Rightarrow> pystr" where
  "number_ascii lib s =
     (if is_ascii s then s
      else map (\<lambda>c. if c < 127 then c else if is_space c then 32
                    else case uni_decimal lib c of Some d \<Rightarrow> 48 + d | None \<Rightarrow> 63) s)"

text \<open>Underscores may stand between two digits only.\<close>

fun without_underscores :: "bool \<Rightarrow> pystr \<Rightarrow> pystr option" where
  "without_underscores after_digit [] = Some []"
| "without_underscores after_digit (c # s) =
     (if c = 95 then (if after_digit \<and> s \<noteq> [] \<and> is_digit (hd s) then without_underscores False s else None)
      else map_option (Cons c) (without_underscores (is_digit c) s))"

definition decimal_rat :: "pystr \<Rightarrow> rat option" where
  "decimal_rat s =
     (let ip = takeWhile is_digit s; r = dropWhile is_digit s;
          fp = (if r \<noteq> [] \<and> hd r = 46 then takeWhile is_digit (tl r) else []);
          r2 = (if r \<noteq> [] \<and> hd r = 46 then dropWhile is_digit (tl r) else r);
          e = (if r2 \<noteq> [] then tl r2 else []);
          neg = (e \<noteq> [] \<and> hd e = 45);
          ds = (if e \<noteq> [] \<and> (hd e = 45 \<or> hd e = 43) then tl e else e);
          x = (if neg then - int (digits_val ds) else int (digits_val ds))
      in if ip @ fp = [] then None
         else if r2 = [] then Some (of_nat (digits_val (ip @ fp)) * pow10 (- int (length fp)))
         else if hd r2 \<in> {69, 101} \<and> ds \<noteq> [] \<and> list_all is_digit ds
         then Some (of_nat (digits_val (ip @ fp)) * pow10 (x - int (length fp)))
         else None)"

definition py_float :: "pylib \<Rightarrow> pystr \<Rightarrow> pyfloat option" where
  "py_float lib s =
     (case without_underscores False (strip_if c_space (number_ascii lib s)) of
        None \<Rightarrow> None
      | Some t \<Rightarrow>
          (let neg = (t \<noteq> [] \<and> hd t = 45);
               u = (if t \<noteq> [] \<and> (hd t = 45 \<or> hd t = 43) then tl t else t);
               word = map ascii_lower u
           in if word \<in> {lit ''inf'', lit ''infinity''} then Some (Infinite (\<not> neg))
              else if word = lit ''nan'' then Some NaN
              else map_option (\<lambda>q. nearest_double (if neg then - q else q)) (decimal_rat u)))"

text \<open>
  \<open>float()\<close> of a number, which overflows on a large integer, and the check that it is finite,
  positive and at most a bound.
\<close>

definition number_float :: "pyval \<Rightarrow> pyfloat result" where
  "number_float v =
     (case v of
        VFloat f \<Rightarrow> Inr f
      | _ \<Rightarrow> (case nearest_double (of_int (int_of v)) of
                Infinite _ \<Rightarrow> Inl (PyError ''OverflowError'')
              | f \<Rightarrow> Inr f))"

definition positive_number :: "rat \<Rightarrow> exn \<Rightarrow> pyval \<Rightarrow> rat result" where
  "positive_number maximum e v =
     (if is_bool v \<or> num_of v = None then Inl e
      else rbind (number_float v) (\<lambda>f.
        case f of
          Fin r \<Rightarrow> if 0 < r \<and> r \<le> maximum then Inr r else Inl e
        | _ \<Rightarrow> Inl e))"

section \<open>Constants and diagnostics\<close>

definition vapi_error :: "string \<Rightarrow> exn" where
  "vapi_error m = VapiProvisioningError m"

definition MAX_REQUEST_TIMEOUT_SECONDS :: rat where "MAX_REQUEST_TIMEOUT_SECONDS = 15"
definition DEFAULT_READ_RETRIES :: int where "DEFAULT_READ_RETRIES = 3"
definition MAX_READ_RETRIES :: int where "MAX_READ_RETRIES = 6"
definition MAX_RECONCILIATION_READS :: nat where "MAX_RECONCILIATION_READS = 3"
definition DEFAULT_MAX_RETRY_AFTER_SECONDS :: rat where "DEFAULT_MAX_RETRY_AFTER_SECONDS = 5"
definition MAX_RETRY_AFTER_SECONDS :: rat where "MAX_RETRY_AFTER_SECONDS = 30"

definition RECONCILIATION_DELAYS_SECONDS :: "rat list" where
  "RECONCILIATION_DELAYS_SECONDS = [1 / 4, 1 / 2, 1]"

definition VAPI_API_BASE_URLS :: "pystr list" where
  "VAPI_API_BASE_URLS = [lit ''https://api.vapi.ai'']"

definition RETRIABLE_HTTP_STATUS_CODES :: "int list" where
  "RETRIABLE_HTTP_STATUS_CODES = [429, 500, 502, 503, 504]"

definition NON_RETRIABLE_HTTP_STATUS_CODES :: "int list" where
  "NON_RETRIABLE_HTTP_STATUS_CODES = [400, 401, 403, 404, 409, 422]"

definition VAPI_RESOURCES :: "pystr list" where
  "VAPI_RESOURCES = [lit ''assistant'', lit ''credential'', lit ''tool'']"

definition opt_int :: "int option \<Rightarrow> pyval" where
  "opt_int x = (case x of None \<Rightarrow> VNone | Some i \<Rightarrow> VInt i)"

definition one_of :: "pystr list \<Rightarrow> string \<Rightarrow> pystr \<Rightarrow> pystr" where
  "one_of xs other s = (if s \<in> set xs then s else lit other)"

definition request_diagnostic :: "string \<Rightarrow> pystr \<Rightarrow> int option \<Rightarrow> nat \<Rightarrow> string \<Rightarrow> pystr" where
  "request_diagnostic operation resource status attempt outcome =
     json_dumps log_opts (VDict (mk
       [(''event'', VStr (lit ''vapi_api_request'')),
        (''operation'', VStr (one_of (map lit [''GET'', ''POST'', ''PATCH'', ''DELETE'']) ''UNKNOWN'' (lit operation))),
        (''resource'', VStr (one_of VAPI_RESOURCES ''unknown'' resource)),
        (''http_status'', opt_int status), (''attempt'', VInt (int attempt)),
        (''result'', VStr (one_of (map lit [''success'', ''retrying'', ''ambiguous'', ''rejected'', ''missing''])
            ''rejected'' (lit outcome))),
        (''redacted'', VBool True)]))"

definition reconciliation_diagnostic :: "string \<Rightarrow> nat \<Rightarrow> nat \<Rightarrow> pystr" where
  "reconciliation_diagnostic resource attempt count =
     json_dumps log_opts (VDict (mk
       [(''event'', VStr (lit ''vapi_api_reconciliation'')),
        (''resource'', VStr (one_of VAPI_RESOURCES ''unknown'' (lit resource))),
        (''attempt'', VInt (int attempt)),
        (''owner_equivalent_matches'',
           VStr (lit (if count = 0 then ''zero'' else if count = 1 then ''one'' else ''multiple''))),
        (''redacted'', VBool True)]))"

section \<open>The interface\<close>

text \<open>The protocol \<open>VapiApi\<close>, as actions on a world.\<close>

record 'w vapi_api =
  api_list :: "string \<Rightarrow> ('w, pydict list) act"
  api_get :: "string \<Rightarrow> pystr \<Rightarrow> ('w, pydict option) act"
  api_create :: "string \<Rightarrow> pydict \<Rightarrow> ('w, pydict) act"
  api_update :: "string \<Rightarrow> pystr \<Rightarrow> pydict \<Rightarrow> ('w, pydict) act"
  api_delete :: "string \<Rightarrow> pystr \<Rightarrow> ('w, unit) act"

text \<open>
  What the client needs of the host: the opener, with a timeout, gives the result of the request and
  its \<open>Retry-After\<close> header; the optional timeout callback; \<open>sleep\<close> and \<open>print\<close>.
\<close>

record 'w vapi_io =
  vapi_send :: "http_request \<Rightarrow> rat \<Rightarrow> ('w, http_result \<times> pystr option) act"
  vapi_timeout :: "('w, pyval) act option"
  vapi_sleep :: "rat \<Rightarrow> ('w, unit) act"
  vapi_print :: "pystr \<Rightarrow> 'w \<Rightarrow> 'w"

definition emit_line :: "(pystr \<Rightarrow> 'w \<Rightarrow> 'w) \<Rightarrow> pystr \<Rightarrow> ('w, unit) act" where
  "emit_line pr line = (\<lambda>w. (Inr (), pr line w))"

record vapi_client =
  vapi_key :: pystr
  vapi_base :: pystr
  vapi_read_retries :: nat
  vapi_max_retry_after :: rat

definition vapi_client_init :: "pylib \<Rightarrow> pyval \<Rightarrow> pystr \<Rightarrow> pyval \<Rightarrow> pyval \<Rightarrow> vapi_client result" where
  "vapi_client_init lib key base retries max_retry =
     (if \<not> is_str key \<or> length (str_of key) < 24 then Inl (vapi_error ''vapi_api_key_invalid'')
      else
      rbind (some_or (PyError ''ValueError'') (urlsplit lib base)) (\<lambda>u.
      if scheme u \<noteq> lit ''https'' \<or> hostname lib u = [] \<or> \<not> no_userinfo u \<or> query u \<noteq> [] \<or> fragment u \<noteq> [] \<or>
         rstrip_if (\<lambda>c. c = 47) base \<notin> set VAPI_API_BASE_URLS
      then Inl (vapi_error ''vapi_base_url_invalid'')
      else if \<not> is_int retries \<or> \<not> (0 \<le> int_of retries \<and> int_of retries \<le> MAX_READ_RETRIES)
      then Inl (vapi_error ''vapi_retry_budget_invalid'')
      else
      rbind (positive_number MAX_RETRY_AFTER_SECONDS (vapi_error ''vapi_retry_after_bound_invalid'') max_retry) (\<lambda>m.
      Inr \<lparr>vapi_key = str_of key, vapi_base = rstrip_if (\<lambda>c. c = 47) base,
           vapi_read_retries = nat (int_of retries), vapi_max_retry_after = m\<rparr>)))"

section \<open>Requests\<close>

definition resource_from_path :: "pystr \<Rightarrow> pystr" where
  "resource_from_path target = before 47 (strip_if (\<lambda>c. c = 47) (before 63 target))"

definition bounded_delay :: "rat \<Rightarrow> pyfloat \<Rightarrow> rat" where
  "bounded_delay maximum x =
     (case x of Fin r \<Rightarrow> min maximum (max 0 r) | Infinite p \<Rightarrow> if p then maximum else 0 | NaN \<Rightarrow> 0)"

definition retry_after_seconds :: "pylib \<Rightarrow> vapi_client \<Rightarrow> pystr option \<Rightarrow> nat \<Rightarrow> rat" where
  "retry_after_seconds lib c header attempt =
     bounded_delay (vapi_max_retry_after c)
       (case Option.bind header (py_float lib) of Some x \<Rightarrow> x | None \<Rightarrow> Fin (2 ^ (attempt - 1)))"

definition timeout_seconds :: "'w vapi_io \<Rightarrow> ('w, rat) act" where
  "timeout_seconds io =
     (case vapi_timeout io of
        None \<Rightarrow> aret MAX_REQUEST_TIMEOUT_SECONDS
      | Some f \<Rightarrow> abind f (\<lambda>v.
          alift (positive_number MAX_REQUEST_TIMEOUT_SECONDS (vapi_error ''vapi_request_timeout_invalid'') v)))"

text \<open>What one attempt meets: a response and the bytes read from it, an HTTP error, or no answer.\<close>

datatype opened = Opened int "byte list" | Refused int "pystr option" | Unreachable

definition vapi_open :: "'w vapi_io \<Rightarrow> http_request \<Rightarrow> ('w, opened) act" where
  "vapi_open io req =
     acatch
       (abind (timeout_seconds io) (\<lambda>t.
        abind (vapi_send io req t) (\<lambda>(r, header).
        case r of
          Answer st body \<Rightarrow> abind (alift body) (\<lambda>bs. aret (Opened st (take 1048577 bs)))
        | HttpError code _ \<Rightarrow> aret (Refused code header))))
       (\<lambda>e. if e \<in> set NETWORK_ERRORS then aret Unreachable else araise e)"

definition http_rejected :: "int \<Rightarrow> exn" where
  "http_rejected code = vapi_error
     (if code \<in> set NON_RETRIABLE_HTTP_STATUS_CODES then ''vapi_http_'' @ dec_string code else ''vapi_http_error'')"

text \<open>
  The loop over the attempts, by the number still allowed after this one; \<open>None\<close> is a resource
  reported missing.
\<close>

fun vapi_attempts ::
    "pylib \<Rightarrow> 'w vapi_io \<Rightarrow> vapi_client \<Rightarrow> http_request \<Rightarrow> pystr \<Rightarrow> bool \<Rightarrow> nat \<Rightarrow> nat \<Rightarrow>
     ('w, (int \<times> byte list) option) act" where
  "vapi_attempts lib io c req resource allow_missing left attempt =
     (let reading = (req_method req = ''GET'');
          say = (\<lambda>status outcome. emit_line (vapi_print io)
            (request_diagnostic (req_method req) resource status attempt outcome))
      in abind (vapi_open io req) (\<lambda>o'.
         case o' of
           Opened st raw \<Rightarrow> abind (say (Some st) ''success'') (\<lambda>_. aret (Some (st, raw)))
         | Refused code header \<Rightarrow>
             if allow_missing \<and> code = 404 then abind (say (Some 404) ''missing'') (\<lambda>_. aret None)
             else (case (left, reading \<and> code \<in> set RETRIABLE_HTTP_STATUS_CODES) of
               (Suc n, True) \<Rightarrow>
                 abind (say (Some code) ''retrying'') (\<lambda>_.
                 abind (vapi_sleep io (retry_after_seconds lib c header attempt)) (\<lambda>_.
                 vapi_attempts lib io c req resource allow_missing n (Suc attempt)))
             | _ \<Rightarrow>
                 if \<not> reading \<and> code \<in> set RETRIABLE_HTTP_STATUS_CODES
                 then abind (say (Some code) ''ambiguous'') (\<lambda>_.
                   araise (VapiAmbiguousWriteError (req_method req) resource (Some code)))
                 else abind (say (Some code) ''rejected'') (\<lambda>_. araise (http_rejected code)))
         | Unreachable \<Rightarrow>
             (case (left, reading) of
               (Suc n, True) \<Rightarrow>
                 abind (say None ''retrying'') (\<lambda>_.
                 abind (vapi_sleep io (min (vapi_max_retry_after c) (2 ^ (attempt - 1)))) (\<lambda>_.
                 vapi_attempts lib io c req resource allow_missing n (Suc attempt)))
             | _ \<Rightarrow>
                 if \<not> reading
                 then abind (say None ''ambiguous'') (\<lambda>_.
                   araise (VapiAmbiguousWriteError (req_method req) resource None))
                 else abind (say None ''rejected'') (\<lambda>_. araise (vapi_error ''vapi_transport_unavailable'')))))"

declare vapi_attempts.simps [simp del]

definition vapi_headers :: "vapi_client \<Rightarrow> bool \<Rightarrow> (string \<times> pystr) list" where
  "vapi_headers c with_body =
     [(''authorization'', lit ''Bearer '' @ vapi_key c), (''accept'', lit ''application/json''),
      (''user-agent'', lit ''bridgefu-cloudformation/1'')] @
     (if with_body then [(''content-type'', lit ''application/json'')] else [])"

definition build_request :: "vapi_client \<Rightarrow> string \<Rightarrow> pystr \<Rightarrow> pydict option \<Rightarrow> http_request result" where
  "build_request c meth target payload =
     (if \<not> starts_with target (lit ''/'') \<or> contains target (lit ''..'') then Inl (vapi_error ''vapi_path_invalid'')
      else
      rbind (case payload of None \<Rightarrow> Inr [] | Some d \<Rightarrow> utf8_encode (json_dumps compact (VDict d))) (\<lambda>body.
      if 131072 < length body then Inl (vapi_error ''vapi_request_too_large'')
      else Inr \<lparr>req_method = meth, req_url = vapi_base c @ target,
                req_headers = vapi_headers c (payload \<noteq> None), req_body = body\<rparr>))"

definition read_response :: "(int \<times> byte list) option \<Rightarrow> pyval result" where
  "read_response r =
     (case r of
        None \<Rightarrow> Inr VNone
      | Some (st, raw) \<Rightarrow>
          if st < 200 \<or> 300 \<le> st then Inl (vapi_error ''vapi_request_failed'')
          else if 1048576 < length raw then Inl (vapi_error ''vapi_response_too_large'')
          else if raw = [] then Inr VNone
          else map_error (catch_as JSON_ERRORS (vapi_error ''vapi_response_invalid'')) (json_loads_bytes raw))"

definition vapi_request ::
    "pylib \<Rightarrow> 'w vapi_io \<Rightarrow> vapi_client \<Rightarrow> string \<Rightarrow> pystr \<Rightarrow> pydict option \<Rightarrow> bool \<Rightarrow> ('w, pyval) act" where
  "vapi_request lib io c meth target payload allow_missing =
     abind (alift (build_request c meth target payload)) (\<lambda>req.
     abind (vapi_attempts lib io c req (resource_from_path target) allow_missing
       (if meth = ''GET'' then vapi_read_retries c else 0) 1) (\<lambda>r.
     alift (read_response r)))"

section \<open>Resources over HTTP\<close>

definition is_resource_id :: "pystr \<Rightarrow> bool" where
  "is_resource_id s \<longleftrightarrow> class_match id_char 1 128 s"

definition resource_id :: "pyval \<Rightarrow> pystr result" where
  "resource_id v =
     (if is_str v \<and> is_resource_id (str_of v) then Inr (str_of v)
      else Inl (vapi_error ''vapi_resource_id_invalid''))"

definition response_invalid_error :: exn where
  "response_invalid_error = vapi_error ''vapi_response_invalid''"

definition http_list :: "pylib \<Rightarrow> 'w vapi_io \<Rightarrow> vapi_client \<Rightarrow> string \<Rightarrow> ('w, pydict list) act" where
  "http_list lib io c resource =
     abind (vapi_request lib io c ''GET'' (lit (''/'' @ resource @ ''?limit=1000'')) None False) (\<lambda>v.
     let items = (if is_list v then v else safe_get v ''results'') in
     if \<not> is_list items then araise response_invalid_error
     else if 1000 \<le> length (list_of items) \<or> \<not> list_all is_dict (list_of items) then araise response_invalid_error
     else aret (map dict_of (list_of items)))"

definition item_path :: "string \<Rightarrow> pystr \<Rightarrow> pystr" where
  "item_path resource rid = lit (''/'' @ resource @ ''/'') @ rid"

definition http_get :: "pylib \<Rightarrow> 'w vapi_io \<Rightarrow> vapi_client \<Rightarrow> string \<Rightarrow> pystr \<Rightarrow> ('w, pydict option) act" where
  "http_get lib io c resource rid =
     abind (alift (resource_id (VStr rid))) (\<lambda>rid.
     abind (vapi_request lib io c ''GET'' (item_path resource rid) None True) (\<lambda>v.
     case v of VNone \<Rightarrow> aret None | VDict d \<Rightarrow> aret (Some d) | _ \<Rightarrow> araise response_invalid_error))"

text \<open>A write whose response is not an object may have committed.\<close>

definition expect_written :: "'w vapi_io \<Rightarrow> string \<Rightarrow> string \<Rightarrow> pyval \<Rightarrow> ('w, pydict) act" where
  "expect_written io operation resource v =
     (case v of
        VDict d \<Rightarrow> aret d
      | _ \<Rightarrow>
          abind (emit_line (vapi_print io) (request_diagnostic operation (lit resource) (Some 200) 1 ''ambiguous'')) (\<lambda>_.
          araise (VapiAmbiguousWriteError operation (lit resource) (Some 200))))"

definition http_create :: "pylib \<Rightarrow> 'w vapi_io \<Rightarrow> vapi_client \<Rightarrow> string \<Rightarrow> pydict \<Rightarrow> ('w, pydict) act" where
  "http_create lib io c resource payload =
     abind (vapi_request lib io c ''POST'' (lit (''/'' @ resource)) (Some payload) False)
       (expect_written io ''POST'' resource)"

fun is_ambiguous :: "exn \<Rightarrow> bool" where
  "is_ambiguous (VapiAmbiguousWriteError _ _ _) = True"
| "is_ambiguous _ = False"

text \<open>\<open>try: m; except VapiAmbiguousWriteError: h\<close>, where \<open>raise\<close> in \<open>h\<close> raises the error again.\<close>

definition on_ambiguous :: "('w, 'a) act \<Rightarrow> (exn \<Rightarrow> ('w, 'a) act) \<Rightarrow> ('w, 'a) act" where
  "on_ambiguous m h = acatch m (\<lambda>e. if is_ambiguous e then h e else araise e)"

text \<open>
  \<open>_desired_payload_present\<close>: every key that was sent is there with its value; only the bearer token
  of a credential may be absent.
\<close>

definition TOKEN_PATH :: "pystr list" where
  "TOKEN_PATH = [lit ''authenticationPlan'', lit ''token'']"

fun desired_present :: "pyval \<Rightarrow> pyval \<Rightarrow> pystr list \<Rightarrow> bool"
  and desired_items :: "pydict \<Rightarrow> pydict \<Rightarrow> pystr list \<Rightarrow> bool" where
  "desired_present actual (VDict d) here = (case actual of VDict a \<Rightarrow> desired_items a d here | _ \<Rightarrow> False)"
| "desired_present actual (VList xs) here = (is_list actual \<and> py_eq actual (VList xs))"
| "desired_present actual v here = py_eq actual v"
| "desired_items a [] here = True"
| "desired_items a (p # d) here =
     ((case map_of a (fst p) of
         None \<Rightarrow> here @ [fst p] = TOKEN_PATH
       | Some x \<Rightarrow> desired_present x (snd p) (here @ [fst p])) \<and> desired_items a d here)"

definition took_effect :: "pydict option \<Rightarrow> pydict \<Rightarrow> bool" where
  "took_effect current payload =
     (case current of None \<Rightarrow> False | Some d \<Rightarrow> desired_present (VDict d) (VDict payload) [])"

definition http_update ::
    "pylib \<Rightarrow> 'w vapi_io \<Rightarrow> vapi_client \<Rightarrow> string \<Rightarrow> pystr \<Rightarrow> pydict \<Rightarrow> ('w, pydict) act" where
  "http_update lib io c resource rid payload =
     abind (alift (resource_id (VStr rid))) (\<lambda>rid.
     let patch = vapi_request lib io c ''PATCH'' (item_path resource rid) (Some payload) False;
         current = http_get lib io c resource rid
     in on_ambiguous (abind patch (expect_written io ''PATCH'' resource)) (\<lambda>_.
        abind current (\<lambda>d.
        if took_effect d payload then aret (the d)
        else
        abind (on_ambiguous (abind patch (\<lambda>v. aret (Inl v))) (\<lambda>e.
          abind current (\<lambda>d. if took_effect d payload then aret (Inr (the d)) else araise e))) (\<lambda>r.
        case r of
          Inr d \<Rightarrow> aret d
        | Inl (VDict d) \<Rightarrow> aret d
        | Inl _ \<Rightarrow> araise (VapiAmbiguousWriteError ''PATCH'' (lit resource) (Some 200))))))"

definition http_delete :: "pylib \<Rightarrow> 'w vapi_io \<Rightarrow> vapi_client \<Rightarrow> string \<Rightarrow> pystr \<Rightarrow> ('w, unit) act" where
  "http_delete lib io c resource rid =
     abind (alift (resource_id (VStr rid))) (\<lambda>rid.
     let remove = abind (vapi_request lib io c ''DELETE'' (item_path resource rid) None True) (\<lambda>_. aret ());
         current = http_get lib io c resource rid
     in on_ambiguous remove (\<lambda>_.
        abind current (\<lambda>d.
        if d = None then aret ()
        else on_ambiguous remove (\<lambda>e.
          abind current (\<lambda>d. if d = None then aret () else araise e)))))"

definition http_api :: "pylib \<Rightarrow> 'w vapi_io \<Rightarrow> vapi_client \<Rightarrow> 'w vapi_api" where
  "http_api lib io c =
     \<lparr>api_list = http_list lib io c, api_get = http_get lib io c, api_create = http_create lib io c,
      api_update = http_update lib io c, api_delete = http_delete lib io c\<rparr>"

section \<open>Creating with reconciliation\<close>

text \<open>The process's own \<open>print\<close> and \<open>time.sleep\<close>.\<close>

record 'w host =
  host_print :: "pystr \<Rightarrow> 'w \<Rightarrow> 'w"
  host_sleep :: "rat \<Rightarrow> ('w, unit) act"

text \<open>\<open>str(error).endswith("_ambiguous")\<close> for a provisioning error, its subclass included.\<close>

fun names_ambiguous :: "exn \<Rightarrow> bool" where
  "names_ambiguous (VapiProvisioningError m) = ends_with (lit m) (lit ''_ambiguous'')"
| "names_ambiguous (VapiAmbiguousWriteError _ _ _) = True"
| "names_ambiguous _ = False"

fun reconcile ::
    "'w host \<Rightarrow> string \<Rightarrow> ('w, pydict option) act \<Rightarrow> nat \<Rightarrow> rat list \<Rightarrow> ('w, pydict option) act" where
  "reconcile h resource find_owned attempt [] = aret None"
| "reconcile h resource find_owned attempt (delay # delays) =
     (let say = (\<lambda>n. emit_line (host_print h) (reconciliation_diagnostic resource attempt n)) in
      abind (acatch find_owned (\<lambda>e.
        if names_ambiguous e then abind (say 2) (\<lambda>_. araise e) else araise e)) (\<lambda>found.
      abind (say (if found = None then 0 else 1)) (\<lambda>_.
      if found \<noteq> None then aret found
      else
      abind (if attempt < MAX_RECONCILIATION_READS then host_sleep h delay else aret ()) (\<lambda>_.
      reconcile h resource find_owned (Suc attempt) delays))))"

definition reconciled ::
    "'w host \<Rightarrow> string \<Rightarrow> ('w, pydict option) act \<Rightarrow> ('w, pydict) act \<Rightarrow> ('w, pydict) act" where
  "reconciled h resource find_owned otherwise =
     abind (reconcile h resource find_owned 1 RECONCILIATION_DELAYS_SECONDS) (\<lambda>found.
     case found of Some d \<Rightarrow> aret d | None \<Rightarrow> otherwise)"

definition create_with_reconciliation ::
    "'w host \<Rightarrow> 'w vapi_api \<Rightarrow> string \<Rightarrow> pydict \<Rightarrow> ('w, pydict option) act \<Rightarrow> ('w, pydict) act" where
  "create_with_reconciliation h api resource payload find_owned =
     on_ambiguous (api_create api resource payload) (\<lambda>_.
     reconciled h resource find_owned
       (on_ambiguous (api_create api resource payload) (\<lambda>_.
        reconciled h resource find_owned (araise (vapi_error ''vapi_create_unresolved'')))))"

end
