(* ===== verification/Provision.thy ===== *)
theory Provision imports Vapi begin

text \<open>
  Provisioning of the recipe's Vapi objects, the rest of \<open>lambda/common/vapi_provisioning.py\<close>:
  the configuration, the physical identifier, the documents sent to Vapi, the checks of ownership,
  and \<open>provision_create\<close>, \<open>provision_update\<close> and \<open>provision_delete\<close> over any \<open>vapi_api\<close>.

  The asset directory is a record of whether it exists and what its files hold; a file that cannot
  be read, or lies outside, has no text.  A stack identifier is an ARN, which is ASCII: the
  encoding error of a lone surrogate in it is not modelled.
\<close>

section \<open>Configuration\<close>

definition RECIPE_ID :: pystr where "RECIPE_ID = lit ''vapi-amazon-connect-screen-pop@1''"
definition PENDING_PHYSICAL_ID :: pystr where "PENDING_PHYSICAL_ID = lit ''bridgefu-vapi-pending''"

definition is_vapi_value :: "pystr \<Rightarrow> bool" where
  "is_vapi_value s \<longleftrightarrow> class_match (\<lambda>c. id_char c \<or> c \<in> {46, 58, 47}) 1 128 s"

record asset_root =
  root_is_dir :: bool
  root_text :: "string \<Rightarrow> pystr option"

record provisioning_config =
  cfg_stack :: pystr
  cfg_deployment :: pystr
  cfg_prepare_url :: pystr
  cfg_transfer_url :: pystr
  cfg_model :: pystr
  cfg_voice :: pystr
  cfg_fields_json :: pyval
  cfg_webhook_token :: "pystr option"
  cfg_assets :: asset_root

definition https_url :: "pylib \<Rightarrow> pyval \<Rightarrow> pystr result" where
  "https_url lib v =
     (if \<not> is_str v \<or> 2048 < length (str_of v) then Inl (vapi_error ''vapi_endpoint_invalid'')
      else
      rbind (some_or (PyError ''ValueError'') (urlsplit lib (str_of v))) (\<lambda>u.
      if scheme u \<noteq> lit ''https'' \<or> hostname lib u = [] \<or> \<not> no_userinfo u \<or> query u \<noteq> [] \<or> fragment u \<noteq> []
      then Inl (vapi_error ''vapi_endpoint_invalid'')
      else Inr (str_of v)))"

text \<open>\<open>VALUE_PATTERN.fullmatch(v)\<close> raises on a value that is not a string.\<close>

definition check_value_pattern :: "string \<Rightarrow> pyval \<Rightarrow> pystr result" where
  "check_value_pattern e v =
     rbind (expect_str (PyError ''TypeError'') v) (\<lambda>s.
     if is_vapi_value s then Inr s else Inl (vapi_error e))"

text \<open>
  \<open>ProvisioningConfig\<close> and its \<open>__post_init__\<close>, from the values of the custom resource; the token is
  a secret that was loaded, or absent.
\<close>

definition provisioning_config_init ::
    "pylib \<Rightarrow> pyval \<Rightarrow> pyval \<Rightarrow> pyval \<Rightarrow> pyval \<Rightarrow> pyval \<Rightarrow> pyval \<Rightarrow> pyval \<Rightarrow> pystr option \<Rightarrow> asset_root \<Rightarrow>
     provisioning_config result" where
  "provisioning_config_init lib stack deployment prepare transfer model voice fj token assets =
     (if \<not> is_str stack \<or> \<not> starts_with (str_of stack) (lit ''arn:'') then Inl (vapi_error ''stack_identity_invalid'')
      else
      rbind (resource_id deployment) (\<lambda>d.
      rbind (https_url lib prepare) (\<lambda>p.
      rbind (https_url lib transfer) (\<lambda>t.
      rbind (check_value_pattern ''vapi_model_invalid'' model) (\<lambda>m.
      rbind (check_value_pattern ''vapi_voice_invalid'' voice) (\<lambda>v.
      rbind (map_error (\<lambda>_. vapi_error ''screen_pop_fields_invalid'') (parse_fields lib fj)) (\<lambda>_.
      if (case token of None \<Rightarrow> False | Some s \<Rightarrow> length s < 32)
      then Inl (vapi_error ''webhook_credential_invalid'')
      else if \<not> root_is_dir assets then Inl (vapi_error ''vapi_assets_missing'')
      else Inr \<lparr>cfg_stack = str_of stack, cfg_deployment = d, cfg_prepare_url = p, cfg_transfer_url = t,
                cfg_model = m, cfg_voice = v, cfg_fields_json = fj, cfg_webhook_token = token,
                cfg_assets = assets\<rparr>)))))))"

definition utf8_bytes :: "pystr \<Rightarrow> byte list" where
  "utf8_bytes s = map of_nat (concat (map utf8_char s))"

definition owner_token :: "provisioning_config \<Rightarrow> pystr" where
  "owner_token cfg = take 32 (hexdigest (sha256 (utf8_bytes (cfg_stack cfg))))"

definition assistant_name :: "provisioning_config \<Rightarrow> pystr" where
  "assistant_name cfg =
     (let prefix = take 17 (map (\<lambda>c. if is_ascii_alnum c \<or> c = 45 then c else 45) (cfg_deployment cfg))
      in take 40 (lit ''Bridgefu '' @ prefix @ lit '' '' @ take 10 (owner_token cfg)))"

definition credential_name :: "provisioning_config \<Rightarrow> pystr" where
  "credential_name cfg = lit ''Bridgefu '' @ take 30 (owner_token cfg)"

definition config_metadata :: "provisioning_config \<Rightarrow> pyval" where
  "config_metadata cfg = VDict (mk
     [(''bridgefu_recipe'', VStr RECIPE_ID), (''bridgefu_owner'', VStr (owner_token cfg)),
      (''bridgefu_deployment'', VStr (cfg_deployment cfg))])"

section \<open>Physical identifiers\<close>

record provisioned =
  prov_assistant :: pystr
  prov_tool :: pystr
  prov_credential :: pystr

definition physical_id :: "provisioned \<Rightarrow> pystr" where
  "physical_id p = lit ''bridgefu-vapi-v2:'' @ prov_assistant p @ lit '':'' @ prov_tool p @ lit '':'' @ prov_credential p"

definition parse_physical_id :: "pyval \<Rightarrow> (pystr \<times> pystr \<times> pystr option) result" where
  "parse_physical_id v =
     rbind (expect_str (vapi_error ''vapi_physical_id_invalid'') v) (\<lambda>s.
     case split_on 58 s of
       [p, a, t] \<Rightarrow>
         if p = lit ''bridgefu-vapi-v1''
         then rbind (resource_id (VStr a)) (\<lambda>a. rbind (resource_id (VStr t)) (\<lambda>t. Inr (a, t, None)))
         else Inl (vapi_error ''vapi_physical_id_invalid'')
     | [p, a, t, c] \<Rightarrow>
         if p = lit ''bridgefu-vapi-v2''
         then rbind (resource_id (VStr a)) (\<lambda>a. rbind (resource_id (VStr t)) (\<lambda>t.
              rbind (resource_id (VStr c)) (\<lambda>c. Inr (a, t, Some c))))
         else Inl (vapi_error ''vapi_physical_id_invalid'')
     | _ \<Rightarrow> Inl (vapi_error ''vapi_physical_id_invalid''))"

section \<open>Documents\<close>

definition load_asset :: "provisioning_config \<Rightarrow> string \<Rightarrow> pydict result" where
  "load_asset cfg name =
     (let bad = vapi_error ''vapi_asset_invalid'' in
      if name \<notin> {''assistant.json.tmpl'', ''prepare-handoff-tool.json.tmpl'', ''transfer-tool.json.tmpl''} then Inl bad
      else
      rbind (some_or bad (root_text (cfg_assets cfg) name)) (\<lambda>s.
      rbind (map_error (catch_as [json_error, PyError ''ValueError''] bad) (json_loads s)) (\<lambda>v.
      expect_dict bad v)))"

text \<open>\<open>_replace\<close>: string values that are placeholders, at any depth; keys stay.\<close>

fun replace_value :: "(string \<times> pystr) list \<Rightarrow> pyval \<Rightarrow> pyval" where
  "replace_value rs (VStr s) = VStr (case map_of (mk rs) s of Some t \<Rightarrow> t | None \<Rightarrow> s)"
| "replace_value rs (VList xs) = VList (map (replace_value rs) xs)"
| "replace_value rs (VDict d) = VDict (map (\<lambda>p. (fst p, replace_value rs (snd p))) d)"
| "replace_value rs v = v"

definition replace_document :: "(string \<times> pystr) list \<Rightarrow> pydict \<Rightarrow> pydict" where
  "replace_document rs d = dict_of (replace_value rs (VDict d))"

text \<open>
  \<open>document[k]\<close> as an object to change in place: a missing key, a list and any other value raise
  different exceptions, depending on the operation that follows.
\<close>

definition child :: "string \<Rightarrow> pydict \<Rightarrow> string \<Rightarrow> pydict result" where
  "child other d k =
     (case get_opt d k of
        None \<Rightarrow> Inl (PyError ''KeyError'')
      | Some (VDict x) \<Rightarrow> Inr x
      | Some (VList _) \<Rightarrow> Inl (PyError ''TypeError'')
      | Some _ \<Rightarrow> Inl (PyError other))"

definition put :: "pydict \<Rightarrow> string \<Rightarrow> pyval \<Rightarrow> pydict" where
  "put d k v = dict_set d (lit k) v"

definition pop :: "pydict \<Rightarrow> string \<Rightarrow> pydict" where
  "pop d k = dict_del d (lit k)"

definition preliminary_assistant :: "provisioning_config \<Rightarrow> pystr option \<Rightarrow> pydict result" where
  "preliminary_assistant cfg credential =
     rbind (load_asset cfg ''assistant.json.tmpl'') (\<lambda>template.
     rbind (load_asset cfg ''transfer-tool.json.tmpl'') (\<lambda>transfer.
     let a = replace_document [(''__MODEL__'', cfg_model cfg), (''__VOICE_ID__'', cfg_voice cfg),
               (''__TRANSFER_URL__'', cfg_transfer_url cfg)] template in
     rbind (child ''AttributeError'' a ''model'') (\<lambda>m.
     let a = put a ''model'' (VDict (put (pop m ''toolIds'') ''tools'' (VList [VDict transfer]))) in
     rbind (case credential of
         None \<Rightarrow> rbind (child ''AttributeError'' a ''server'') (\<lambda>s.
           Inr (pop (put a ''server'' (VDict (pop s ''credentialId''))) ''credentialIds''))
       | Some c \<Rightarrow> rbind (child ''TypeError'' a ''server'') (\<lambda>s.
           Inr (put (put a ''server'' (VDict (put s ''credentialId'' (VStr c)))) ''credentialIds'' (VList [VStr c])))) (\<lambda>a.
     Inr (put (put a ''name'' (VStr (assistant_name cfg))) ''metadata'' (config_metadata cfg))))))"

definition final_assistant :: "provisioning_config \<Rightarrow> pystr \<Rightarrow> pystr \<Rightarrow> pydict result" where
  "final_assistant cfg credential tool =
     rbind (load_asset cfg ''assistant.json.tmpl'') (\<lambda>template.
     let a = replace_document [(''__MODEL__'', cfg_model cfg), (''__VOICE_ID__'', cfg_voice cfg),
               (''__TRANSFER_URL__'', cfg_transfer_url cfg), (''__WEBHOOK_CREDENTIAL_ID__'', credential),
               (''__PREPARE_TOOL_ID__'', tool)] template
     in Inr (put (put (put a ''name'' (VStr (assistant_name cfg))) ''metadata'' (config_metadata cfg))
               ''credentialIds'' (VList [VStr credential])))"

definition prepare_tool_document :: "pylib \<Rightarrow> provisioning_config \<Rightarrow> pystr \<Rightarrow> pydict result" where
  "prepare_tool_document lib cfg credential =
     rbind (load_asset cfg ''prepare-handoff-tool.json.tmpl'') (\<lambda>template.
     let tool = replace_document [(''__PREPARE_URL__'', cfg_prepare_url cfg),
                  (''__WEBHOOK_CREDENTIAL_ID__'', credential)] template in
     rbind (parse_fields lib (cfg_fields_json cfg)) (\<lambda>fs.
     rbind (child ''TypeError'' tool ''function'') (\<lambda>f.
     Inr (put tool ''function'' (VDict (put f ''parameters'' (vapi_parameters fs)))))))"

definition credential_payload :: "provisioning_config \<Rightarrow> pydict result" where
  "credential_payload cfg =
     (case cfg_webhook_token cfg of
        Some token \<Rightarrow>
          if length token < 32 then Inl (vapi_error ''webhook_credential_invalid'')
          else Inr (mk
            [(''provider'', VStr (lit ''custom-credential'')), (''name'', VStr (credential_name cfg)),
             (''authenticationPlan'', VDict (mk
               [(''type'', VStr (lit ''bearer'')), (''token'', VStr token),
                (''headerName'', VStr (lit ''Authorization'')), (''bearerPrefixEnabled'', VBool True)]))])
      | None \<Rightarrow> Inl (vapi_error ''webhook_credential_invalid''))"

section \<open>Ownership\<close>

definition item_id :: "pydict \<Rightarrow> pystr result" where
  "item_id d = resource_id (get_key d ''id'')"

definition attached_credential :: "pydict \<Rightarrow> pystr option result" where
  "attached_credential assistant =
     (let bad = vapi_error ''vapi_credential_result_invalid'';
          listed = (case get_key assistant ''credentialIds'' of VNone \<Rightarrow> VList [] | v \<Rightarrow> v);
          server = safe_get (get_key assistant ''server'') ''credentialId''
      in if \<not> is_list listed \<or> 1 < length (list_of listed) then Inl bad
         else
         rbind (case list_of listed of [] \<Rightarrow> Inr None | v # _ \<Rightarrow> rbind (resource_id v) (\<lambda>i. Inr (Some i))) (\<lambda>l.
         rbind (if server = VNone then Inr None else rbind (resource_id server) (\<lambda>i. Inr (Some i))) (\<lambda>s.
         if l \<noteq> None \<and> s \<noteq> None \<and> l \<noteq> s then Inl bad
         else Inr (if l \<noteq> None then l else s))))"

definition owned_credential_shape :: "provisioning_config \<Rightarrow> pydict \<Rightarrow> bool" where
  "owned_credential_shape cfg d \<longleftrightarrow>
     (let plan = get_key d ''authenticationPlan'' in
      get_key d ''provider'' = VStr (lit ''custom-credential'') \<and>
      get_key d ''name'' = VStr (credential_name cfg) \<and>
      is_dict plan \<and> safe_get plan ''type'' = VStr (lit ''bearer'') \<and>
      get_or (dict_of plan) ''headerName'' (VStr (lit ''Authorization'')) = VStr (lit ''Authorization'') \<and>
      get_or (dict_of plan) ''bearerPrefixEnabled'' (VBool True) = VBool True)"

definition owned_assistant :: "provisioning_config \<Rightarrow> pydict \<Rightarrow> bool" where
  "owned_assistant cfg d \<longleftrightarrow>
     (let m = get_key d ''metadata'' in
      is_dict m \<and> safe_get m ''bridgefu_recipe'' = VStr RECIPE_ID \<and>
      safe_get m ''bridgefu_owner'' = VStr (owner_token cfg))"

definition is_prepare_tool :: "provisioning_config \<Rightarrow> pydict \<Rightarrow> bool" where
  "is_prepare_tool cfg d \<longleftrightarrow>
     (let f = get_key d ''function''; server = get_key d ''server'' in
      get_key d ''type'' = VStr (lit ''function'') \<and>
      is_dict f \<and> safe_get f ''name'' = VStr (lit ''prepare_handoff'') \<and>
      is_dict server \<and> safe_get server ''url'' = VStr (cfg_prepare_url cfg))"

definition tool_credential :: "pydict \<Rightarrow> pyval" where
  "tool_credential d = safe_get (get_key d ''server'') ''credentialId''"

definition find_assistant :: "'w vapi_api \<Rightarrow> provisioning_config \<Rightarrow> ('w, pydict option) act" where
  "find_assistant api cfg =
     abind (api_list api ''assistant'') (\<lambda>items.
     case filter (\<lambda>d. get_key d ''name'' = VStr (assistant_name cfg)) items of
       [] \<Rightarrow> aret None
     | [d] \<Rightarrow> if owned_assistant cfg d then aret (Some d) else araise (vapi_error ''vapi_assistant_ownership_conflict'')
     | _ \<Rightarrow> araise (vapi_error ''vapi_assistant_ambiguous''))"

definition credential_name_matches :: "'w vapi_api \<Rightarrow> provisioning_config \<Rightarrow> ('w, pydict list) act" where
  "credential_name_matches api cfg =
     abind (api_list api ''credential'') (\<lambda>items.
     aret (filter (\<lambda>d. get_key d ''name'' = VStr (credential_name cfg)) items))"

definition credential_conflict :: exn where
  "credential_conflict = vapi_error ''vapi_credential_ownership_conflict''"

text \<open>The credential an assistant is attached to, if any, is the given one.\<close>

definition check_attached :: "pydict \<Rightarrow> pystr \<Rightarrow> unit result" where
  "check_attached assistant credential =
     rbind (attached_credential assistant) (\<lambda>a.
     if a \<noteq> None \<and> a \<noteq> Some credential then Inl credential_conflict else Inr ())"

definition find_credential ::
    "'w vapi_api \<Rightarrow> provisioning_config \<Rightarrow> pydict \<Rightarrow> ('w, pydict option) act" where
  "find_credential api cfg assistant =
     abind (credential_name_matches api cfg) (\<lambda>matches.
     case matches of
       [] \<Rightarrow> aret None
     | [d] \<Rightarrow>
         if \<not> owned_credential_shape cfg d then araise credential_conflict
         else
         abind (alift (attached_credential assistant)) (\<lambda>a.
         if a = None then aret (Some d)
         else abind (alift (item_id d)) (\<lambda>i.
           if a \<noteq> Some i then araise credential_conflict else aret (Some d)))
     | _ \<Rightarrow> araise (vapi_error ''vapi_credential_ambiguous''))"

definition tool_conflict :: exn where
  "tool_conflict = vapi_error ''vapi_prepare_tool_ownership_conflict''"

definition find_prepare_tool ::
    "'w vapi_api \<Rightarrow> provisioning_config \<Rightarrow> pystr \<Rightarrow> ('w, pydict option) act" where
  "find_prepare_tool api cfg credential =
     abind (api_list api ''tool'') (\<lambda>items.
     case filter (is_prepare_tool cfg) items of
       [] \<Rightarrow> aret None
     | [d] \<Rightarrow> if tool_credential d \<noteq> VStr credential then araise tool_conflict else aret (Some d)
     | _ \<Rightarrow> araise (vapi_error ''vapi_prepare_tool_ambiguous''))"

section \<open>Creating\<close>

definition provision_create ::
    "pylib \<Rightarrow> 'w host \<Rightarrow> 'w vapi_api \<Rightarrow> provisioning_config \<Rightarrow> ('w, provisioned) act" where
  "provision_create lib h api cfg =
     abind (abind (find_assistant api cfg) (\<lambda>found.
       case found of
         Some a \<Rightarrow> aret a
       | None \<Rightarrow>
           abind (credential_name_matches api cfg) (\<lambda>ms.
           if ms \<noteq> [] then araise credential_conflict
           else abind (alift (preliminary_assistant cfg None)) (\<lambda>d.
             create_with_reconciliation h api ''assistant'' d (find_assistant api cfg))))) (\<lambda>assistant.
     if \<not> owned_assistant cfg assistant then araise (vapi_error ''vapi_assistant_ownership_conflict'')
     else
     abind (alift (item_id assistant)) (\<lambda>aid.
     abind (abind (find_credential api cfg assistant) (\<lambda>found.
       case found of
         Some c \<Rightarrow> aret c
       | None \<Rightarrow>
           abind (alift (credential_payload cfg)) (\<lambda>d.
           create_with_reconciliation h api ''credential'' d (find_credential api cfg assistant)))) (\<lambda>credential.
     if \<not> owned_credential_shape cfg credential then araise credential_conflict
     else
     abind (alift (item_id credential)) (\<lambda>cid.
     abind (alift (check_attached assistant cid)) (\<lambda>_.
     abind (alift (preliminary_assistant cfg (Some cid))) (\<lambda>d.
     abind (api_update api ''assistant'' aid d) (\<lambda>_.
     abind (find_prepare_tool api cfg cid) (\<lambda>found.
     abind (alift (prepare_tool_document lib cfg cid)) (\<lambda>desired.
     abind (case found of
         Some t \<Rightarrow> aret t
       | None \<Rightarrow> create_with_reconciliation h api ''tool'' desired (find_prepare_tool api cfg cid)) (\<lambda>tool.
     abind (alift (item_id tool)) (\<lambda>tid.
     abind (api_update api ''tool'' tid desired) (\<lambda>_.
     abind (alift (final_assistant cfg cid tid)) (\<lambda>d.
     abind (api_update api ''assistant'' aid d) (\<lambda>_.
     aret \<lparr>prov_assistant = aid, prov_tool = tid, prov_credential = cid\<rparr>))))))))))))))"

section \<open>Updating\<close>

definition missing :: exn where "missing = vapi_error ''vapi_owned_resource_missing''"
definition assistant_conflict :: exn where "assistant_conflict = vapi_error ''vapi_assistant_ownership_conflict''"

definition provision_update ::
    "pylib \<Rightarrow> 'w vapi_api \<Rightarrow> provisioning_config \<Rightarrow> provisioning_config \<Rightarrow> pyval \<Rightarrow> ('w, provisioned) act" where
  "provision_update lib api old new pid =
     (if cfg_transfer_url old \<noteq> cfg_transfer_url new
      then araise (vapi_error ''vapi_assistant_endpoint_change_requires_new_stack'')
      else
      abind (alift (parse_physical_id pid)) (\<lambda>(aid, tid, pcid).
      abind (api_get api ''assistant'' aid) (\<lambda>a.
      abind (api_get api ''tool'' tid) (\<lambda>t.
      case (a, t) of
        (Some assistant, Some tool) \<Rightarrow>
          if \<not> owned_assistant old assistant then araise assistant_conflict
          else if \<not> is_prepare_tool old tool then araise tool_conflict
          else
          abind (alift (attached_credential assistant)) (\<lambda>attached.
          case attached of
            None \<Rightarrow> araise missing
          | Some cid \<Rightarrow>
              if pcid \<noteq> None \<and> pcid \<noteq> Some cid then araise credential_conflict
              else
              abind (api_get api ''credential'' cid) (\<lambda>c.
              case c of
                None \<Rightarrow> araise missing
              | Some credential \<Rightarrow>
                  if \<not> owned_credential_shape old credential then araise credential_conflict
                  else if \<not> is_prepare_tool old tool \<or> tool_credential tool \<noteq> VStr cid then araise tool_conflict
                  else
                  abind (alift (credential_payload new)) (\<lambda>d.
                  abind (api_update api ''credential'' cid d) (\<lambda>_.
                  abind (alift (prepare_tool_document lib new cid)) (\<lambda>d.
                  abind (api_update api ''tool'' tid d) (\<lambda>_.
                  aret \<lparr>prov_assistant = aid, prov_tool = tid, prov_credential = cid\<rparr>))))))
      | _ \<Rightarrow> araise missing))))"

section \<open>Deleting\<close>

text \<open>\<open>for item in items: client.delete(resource, id(item))\<close>.\<close>

fun delete_all :: "'w vapi_api \<Rightarrow> string \<Rightarrow> pydict list \<Rightarrow> ('w, unit) act" where
  "delete_all api resource [] = aret ()"
| "delete_all api resource (d # ds) =
     abind (alift (item_id d)) (\<lambda>i. abind (api_delete api resource i) (\<lambda>_. delete_all api resource ds))"

text \<open>The tools of the scan; a list or an object cannot be looked up in the set of identifiers.\<close>

fun tools_of :: "provisioning_config \<Rightarrow> pystr list \<Rightarrow> pydict list \<Rightarrow> pydict list result" where
  "tools_of cfg cids [] = Inr []"
| "tools_of cfg cids (d # ds) =
     (if is_prepare_tool cfg d \<and> (is_list (tool_credential d) \<or> is_dict (tool_credential d))
      then Inl (PyError ''TypeError'')
      else
      rbind (tools_of cfg cids ds) (\<lambda>ts.
      Inr (if is_prepare_tool cfg d \<and> tool_credential d \<in> VStr ` set cids then d # ts else ts)))"

definition delete_pending :: "'w vapi_api \<Rightarrow> provisioning_config \<Rightarrow> ('w, unit) act" where
  "delete_pending api cfg =
     abind (api_list api ''assistant'') (\<lambda>items.
     let assistants = filter (\<lambda>d. get_key d ''name'' = VStr (assistant_name cfg) \<and> owned_assistant cfg d) items in
     abind (credential_name_matches api cfg) (\<lambda>ms.
     let credentials = filter (owned_credential_shape cfg) ms in
     abind (alift (rmap item_id credentials)) (\<lambda>cids.
     abind (api_list api ''tool'') (\<lambda>items.
     abind (alift (tools_of cfg cids items)) (\<lambda>tools.
     abind (delete_all api ''assistant'' assistants) (\<lambda>_.
     abind (delete_all api ''tool'' tools) (\<lambda>_.
     delete_all api ''credential'' credentials)))))))"

definition tool_ids_of :: "pydict \<Rightarrow> pyval" where
  "tool_ids_of assistant = safe_get (get_key assistant ''model'') ''toolIds''"

text \<open>The credential of a version 1 identifier: the one the assistant or the tool is attached to.\<close>

definition known_credential :: "pystr option \<Rightarrow> pydict option \<Rightarrow> pydict option \<Rightarrow> pystr option result" where
  "known_credential pcid assistant tool =
     (if pcid \<noteq> None then Inr pcid
      else
      rbind (case assistant of None \<Rightarrow> Inr None | Some a \<Rightarrow> attached_credential a) (\<lambda>c.
      if c \<noteq> None then Inr c
      else case tool of
        None \<Rightarrow> Inr None
      | Some t \<Rightarrow> if tool_credential t = VNone then Inr None
                  else rbind (resource_id (tool_credential t)) (\<lambda>i. Inr (Some i))))"

text \<open>Every check of \<open>provision_delete\<close> before its first deletion.\<close>

definition check_deletable ::
    "provisioning_config \<Rightarrow> pystr \<Rightarrow> pystr option \<Rightarrow> pydict option \<Rightarrow> pydict option \<Rightarrow> pydict option \<Rightarrow> unit result" where
  "check_deletable cfg tid cid assistant tool credential =
     (if (case assistant of None \<Rightarrow> False | Some a \<Rightarrow> \<not> owned_assistant cfg a) then Inl assistant_conflict
      else if (case credential of None \<Rightarrow> False | Some c \<Rightarrow> \<not> owned_credential_shape cfg c) then Inl credential_conflict
      else if (case tool of None \<Rightarrow> False | Some t \<Rightarrow>
                 \<not> is_prepare_tool cfg t \<or> cid = None \<or> tool_credential t \<noteq> VStr (the cid)) then Inl tool_conflict
      else case assistant of
        None \<Rightarrow> Inr ()
      | Some a \<Rightarrow>
          if tool \<noteq> None \<and> (\<not> is_list (tool_ids_of a) \<or> VStr tid \<notin> set (list_of (tool_ids_of a)))
          then Inl tool_conflict
          else
          rbind (attached_credential a) (\<lambda>attached.
          if credential \<noteq> None \<and> attached \<noteq> cid then Inl credential_conflict else Inr ()))"

definition delete_if :: "'w vapi_api \<Rightarrow> string \<Rightarrow> pystr \<Rightarrow> pydict option \<Rightarrow> ('w, unit) act" where
  "delete_if api resource i item = (if item = None then aret () else api_delete api resource i)"

definition provision_delete :: "'w vapi_api \<Rightarrow> provisioning_config \<Rightarrow> pyval \<Rightarrow> ('w, unit) act" where
  "provision_delete api cfg pid =
     (if pid = VStr PENDING_PHYSICAL_ID then delete_pending api cfg
      else
      abind (alift (parse_physical_id pid)) (\<lambda>(aid, tid, pcid).
      abind (api_get api ''assistant'' aid) (\<lambda>assistant.
      abind (api_get api ''tool'' tid) (\<lambda>tool.
      abind (alift (known_credential pcid assistant tool)) (\<lambda>cid.
      abind (case cid of None \<Rightarrow> aret None | Some c \<Rightarrow> api_get api ''credential'' c) (\<lambda>credential.
      abind (alift (check_deletable cfg tid cid assistant tool credential)) (\<lambda>_.
      abind (delete_if api ''assistant'' aid assistant) (\<lambda>_.
      abind (delete_if api ''tool'' tid tool) (\<lambda>_.
      abind (delete_if api ''credential'' (case cid of Some c \<Rightarrow> c | None \<Rightarrow> []) credential) (\<lambda>_.
      delete_pending api cfg))))))))))"

end
