(* ===== verification/ProvisionSafety.thy ===== *)
theory ProvisionSafety imports Provision begin

text \<open>
  What provisioning may touch.  A locale states the interface \<open>VapiApi\<close> with a log of what was
  seen and written; its lemmas show that \<open>provision_create\<close>, \<open>provision_update\<close> and
  \<open>provision_delete\<close> write only to objects whose ownership was established before, and it is
  interpreted on every client that records its calls.
\<close>

section \<open>Events\<close>

datatype api_event =
    Listed string pydict
  | Got string pystr pydict
  | Creating string
  | Created string pydict
  | Changing string pystr
  | Removing string pystr

definition owned_by :: "provisioning_config \<Rightarrow> string \<Rightarrow> pydict \<Rightarrow> bool" where
  "owned_by cfg resource d \<longleftrightarrow>
     (if resource = ''assistant'' then owned_assistant cfg d
      else if resource = ''credential'' then owned_credential_shape cfg d
      else is_prepare_tool cfg d)"

text \<open>
  What an event history allows to write: an object that was read under its identifier and is owned, or
  one that this run created.
\<close>

definition may_write :: "provisioning_config \<Rightarrow> api_event set \<Rightarrow> string \<Rightarrow> pystr \<Rightarrow> bool" where
  "may_write cfg E resource i \<longleftrightarrow>
     (\<exists>d. owned_by cfg resource d \<and>
        (Got resource i d \<in> E \<or> item_id d = Inr i \<and> (Listed resource d \<in> E \<or> Created resource d \<in> E))) \<or>
     (\<exists>d. Created resource d \<in> E \<and> item_id d = Inr i)"

text \<open>A history, latest event first, in which every event is of an allowed kind and every write is allowed.\<close>

fun justified :: "(api_event \<Rightarrow> bool) \<Rightarrow> provisioning_config \<Rightarrow> api_event list \<Rightarrow> bool" where
  "justified kind cfg [] = True"
| "justified kind cfg (ev # tr) =
     (kind ev \<and> (case ev of Changing r i \<Rightarrow> may_write cfg (set tr) r i | Removing r i \<Rightarrow> may_write cfg (set tr) r i
                  | _ \<Rightarrow> True) \<and> justified kind cfg tr)"

lemma may_write_mono: "may_write cfg E r i \<Longrightarrow> E \<subseteq> E' \<Longrightarrow> may_write cfg E' r i"
  unfolding may_write_def by blast

lemma justified_reads:
  "(\<And>d. kind (Listed r d)) \<Longrightarrow> justified kind cfg tr \<Longrightarrow> justified kind cfg (map (Listed r) ds @ tr)"
  by (induction ds) auto

section \<open>Runs that extend a justified history\<close>

text \<open>
  \<open>m\<close>, started when the events \<open>E\<close> have happened, keeps the history justified, and what it returns
  satisfies \<open>G\<close> with the events that have happened then.
\<close>

definition steps ::
    "('w \<Rightarrow> api_event list) \<Rightarrow> (api_event \<Rightarrow> bool) \<Rightarrow> provisioning_config \<Rightarrow> api_event set \<Rightarrow>
     ('w, 'a) act \<Rightarrow> ('a \<Rightarrow> api_event set \<Rightarrow> bool) \<Rightarrow> bool" where
  "steps lg kind cfg E m G \<longleftrightarrow>
     (\<forall>w r w'. m w = (r, w') \<longrightarrow> E \<subseteq> set (lg w) \<longrightarrow> justified kind cfg (lg w) \<longrightarrow>
        justified kind cfg (lg w') \<and> set (lg w) \<subseteq> set (lg w') \<and>
        (\<forall>x. r = Inr x \<longrightarrow> G x (set (lg w'))))"

lemma stepsD:
  "steps lg kind cfg E m G \<Longrightarrow> m w = (r, w') \<Longrightarrow> E \<subseteq> set (lg w) \<Longrightarrow> justified kind cfg (lg w) \<Longrightarrow>
     justified kind cfg (lg w') \<and> set (lg w) \<subseteq> set (lg w') \<and> (\<forall>x. r = Inr x \<longrightarrow> G x (set (lg w')))"
  unfolding steps_def by blast

lemma steps_aret: "(\<And>E'. E \<subseteq> E' \<Longrightarrow> G x E') \<Longrightarrow> steps lg kind cfg E (aret x) G"
  by (simp add: steps_def)

lemma steps_araise: "steps lg kind cfg E (araise e) G"
  by (simp add: steps_def)

lemma steps_alift: "(\<And>x E'. E \<subseteq> E' \<Longrightarrow> r = Inr x \<Longrightarrow> G x E') \<Longrightarrow> steps lg kind cfg E (alift r) G"
  by (simp add: steps_def)

lemma steps_abind:
  assumes m: "steps lg kind cfg E m G"
    and f: "\<And>x E'. E \<subseteq> E' \<Longrightarrow> G x E' \<Longrightarrow> steps lg kind cfg E' (f x) R"
  shows "steps lg kind cfg E (abind m f) R"
  unfolding steps_def
proof (intro allI impI)
  fix w r w'
  assume run: "abind m f w = (r, w')" and E: "E \<subseteq> set (lg w)" and j: "justified kind cfg (lg w)"
  show "justified kind cfg (lg w') \<and> set (lg w) \<subseteq> set (lg w') \<and> (\<forall>x. r = Inr x \<longrightarrow> R x (set (lg w')))"
  proof (cases "m w")
    case (Pair x w1)
    note one = stepsD [OF m Pair E j]
    show ?thesis
    proof (cases x)
      case (Inl e)
      with run Pair one show ?thesis by (auto simp: abind_def)
    next
      case (Inr y)
      with run Pair have "f y w1 = (r, w')" by (simp add: abind_def)
      moreover have "steps lg kind cfg (set (lg w1)) (f y) R" using f E one Inr by blast
      ultimately show ?thesis using stepsD [of lg kind cfg "set (lg w1)" "f y" R w1 r w'] one by blast
    qed
  qed
qed

lemma steps_acatch:
  assumes m: "steps lg kind cfg E m G"
    and h: "\<And>e. steps lg kind cfg E (h e) G"
  shows "steps lg kind cfg E (acatch m h) G"
  unfolding steps_def
proof (intro allI impI)
  fix w r w'
  assume run: "acatch m h w = (r, w')" and E: "E \<subseteq> set (lg w)" and j: "justified kind cfg (lg w)"
  show "justified kind cfg (lg w') \<and> set (lg w) \<subseteq> set (lg w') \<and> (\<forall>x. r = Inr x \<longrightarrow> G x (set (lg w')))"
  proof (cases "m w")
    case (Pair x w1)
    note one = stepsD [OF m Pair E j]
    show ?thesis
    proof (cases x)
      case (Inl e)
      with run Pair have "h e w1 = (r, w')" by (simp add: acatch_def)
      with stepsD [OF h, of e w1 r w'] E one show ?thesis by blast
    next
      case (Inr y)
      with run Pair one show ?thesis by (auto simp: acatch_def)
    qed
  qed
qed

lemma steps_if: "(b \<Longrightarrow> steps lg kind cfg E m G) \<Longrightarrow> (\<not> b \<Longrightarrow> steps lg kind cfg E m' G) \<Longrightarrow>
    steps lg kind cfg E (if b then m else m') G"
  by simp

lemma steps_option:
  "(x = None \<Longrightarrow> steps lg kind cfg E m G) \<Longrightarrow> (\<And>y. x = Some y \<Longrightarrow> steps lg kind cfg E (f y) G) \<Longrightarrow>
    steps lg kind cfg E (case x of None \<Rightarrow> m | Some y \<Rightarrow> f y) G"
  by (cases x) auto

lemma steps_prod: "(\<And>a b. x = (a, b) \<Longrightarrow> steps lg kind cfg E (f a b) G) \<Longrightarrow>
    steps lg kind cfg E (case x of (a, b) \<Rightarrow> f a b) G"
  by (cases x) auto

lemma steps_on_ambiguous:
  assumes "steps lg kind cfg E m G" and "\<And>e. steps lg kind cfg E (h e) G"
  shows "steps lg kind cfg E (on_ambiguous m h) G"
  unfolding on_ambiguous_def
proof (rule steps_acatch [OF assms(1)])
  fix e show "steps lg kind cfg E (if is_ambiguous e then h e else araise e) G"
    by (cases "is_ambiguous e") (simp_all only: if_True if_False assms(2) steps_araise)
qed

lemma steps_weaken:
  assumes "steps lg kind cfg E m G" and GR: "\<And>x E'. E \<subseteq> E' \<Longrightarrow> G x E' \<Longrightarrow> R x E'"
  shows "steps lg kind cfg E m R"
  unfolding steps_def
proof (intro allI impI)
  fix w r w'
  assume run: "m w = (r, w')" "E \<subseteq> set (lg w)" "justified kind cfg (lg w)"
  from stepsD [OF assms(1) this] GR [of "set (lg w')"] run(2)
  show "justified kind cfg (lg w') \<and> set (lg w) \<subseteq> set (lg w') \<and> (\<forall>x. r = Inr x \<longrightarrow> R x (set (lg w')))"
    by auto
qed

text \<open>After a pure step, the same events have happened.\<close>

lemma steps_abind_alift:
  "(\<And>x. r = Inr x \<Longrightarrow> steps lg kind cfg E (f x) R) \<Longrightarrow> steps lg kind cfg E (abind (alift r) f) R"
  by (cases r) (auto simp: steps_araise)

lemma filter_single: "filter P xs = [x] \<Longrightarrow> x \<in> set xs \<and> P x"
proof -
  assume "filter P xs = [x]"
  then have "x \<in> set (filter P xs)" by simp
  then show ?thesis by simp
qed

lemmas steps_intros = steps_aret steps_araise steps_alift steps_if steps_option steps_prod steps_on_ambiguous

section \<open>The interface, with its log\<close>

text \<open>Reading is allowed.\<close>

definition reads :: "(api_event \<Rightarrow> bool) \<Rightarrow> bool" where
  "reads kind \<longleftrightarrow> (\<forall>r d. kind (Listed r d)) \<and> (\<forall>r i d. kind (Got r i d))"

locale vapi_events =
  fixes api :: "'w vapi_api" and host :: "'w host" and lg :: "'w \<Rightarrow> api_event list"
  assumes list_log: "api_list api r w = (x, w') \<Longrightarrow>
      lg w' = (case x of Inr ds \<Rightarrow> map (Listed r) ds @ lg w | Inl e \<Rightarrow> lg w)"
    and get_log: "api_get api r i w = (y, w') \<Longrightarrow>
      lg w' = (case y of Inr (Some d) \<Rightarrow> Got r i d # lg w | _ \<Rightarrow> lg w)"
    and create_log: "api_create api r d w = (z, w') \<Longrightarrow>
      lg w' = (case z of Inr d' \<Rightarrow> [Created r d', Creating r] | Inl e \<Rightarrow> [Creating r]) @ lg w"
    and update_log: "api_update api r i d w = (z, w') \<Longrightarrow> lg w' = Changing r i # lg w"
    and delete_log: "api_delete api r i w = (u, w') \<Longrightarrow> lg w' = Removing r i # lg w"
    and print_log: "lg (host_print host line w) = lg w"
    and sleep_log: "host_sleep host t w = (u, w') \<Longrightarrow> lg w' = lg w"
begin

lemma steps_list:
  assumes "reads kind"
  shows "steps lg kind cfg E (api_list api r) (\<lambda>ds E'. \<forall>d \<in> set ds. Listed r d \<in> E')"
  using justified_reads [of kind r cfg] assms by (auto simp: steps_def reads_def dest!: list_log split: sum.splits)

lemma steps_get:
  assumes "reads kind"
  shows "steps lg kind cfg E (api_get api r i) (\<lambda>x E'. \<forall>d. x = Some d \<longrightarrow> Got r i d \<in> E')"
  using assms by (auto simp: steps_def reads_def dest!: get_log split: sum.splits option.splits)

lemma steps_create:
  assumes "kind (Creating r)" "\<And>d. kind (Created r d)"
  shows "steps lg kind cfg E (api_create api r d) (\<lambda>x E'. Created r x \<in> E')"
  using assms by (auto simp: steps_def dest!: create_log split: sum.splits)

lemma steps_update:
  assumes "kind (Changing r i)" "may_write cfg E r i"
  shows "steps lg kind cfg E (api_update api r i d) (\<lambda>x E'. True)"
  using assms may_write_mono [OF assms(2)] by (auto simp: steps_def dest!: update_log)

lemma steps_delete:
  assumes "kind (Removing r i)" "may_write cfg E r i"
  shows "steps lg kind cfg E (api_delete api r i) (\<lambda>x E'. True)"
  using assms may_write_mono [OF assms(2)] by (auto simp: steps_def dest!: delete_log)

lemma steps_print: "steps lg kind cfg E (emit_line (host_print host) line) (\<lambda>_ _. True)"
  by (simp add: steps_def emit_line_def print_log)

lemma steps_sleep: "steps lg kind cfg E (host_sleep host t) (\<lambda>_ _. True)"
  by (auto simp: steps_def dest!: sleep_log)

lemma steps_find_assistant:
  assumes "reads kind"
  shows "steps lg kind cfg E (find_assistant api cfg) (\<lambda>x E'. \<forall>d. x = Some d \<longrightarrow>
    Listed ''assistant'' d \<in> E' \<and> owned_assistant cfg d)"
  unfolding find_assistant_def
  by (rule steps_abind [OF steps_list [OF assms]])
    (auto intro!: steps_intros split: list.split dest!: filter_single; blast)

lemma steps_name_matches:
  assumes "reads kind"
  shows "steps lg kind cfg E (credential_name_matches api cfg) (\<lambda>ds E'. \<forall>d \<in> set ds. Listed ''credential'' d \<in> E')"
  unfolding credential_name_matches_def
  by (rule steps_abind [OF steps_list [OF assms]]) (auto intro!: steps_aret; blast)

lemma steps_find_credential:
  assumes "reads kind"
  shows "steps lg kind cfg E (find_credential api cfg a) (\<lambda>x E'. \<forall>d. x = Some d \<longrightarrow>
    Listed ''credential'' d \<in> E' \<and> owned_credential_shape cfg d)"
  unfolding find_credential_def
proof (rule steps_abind [OF steps_name_matches [OF assms]])
  fix ds :: "pydict list" and E'
  assume l: "\<forall>d \<in> set ds. Listed ''credential'' d \<in> E'"
  show "steps lg kind cfg E'
      (case ds of [] \<Rightarrow> aret None
       | [d] \<Rightarrow> if \<not> owned_credential_shape cfg d then araise credential_conflict
                else abind (alift (attached_credential a))
                  (\<lambda>a. if a = None then aret (Some d)
                       else abind (alift (item_id d))
                         (\<lambda>i. if a \<noteq> Some i then araise credential_conflict else aret (Some d)))
       | d # b # c \<Rightarrow> araise (vapi_error ''vapi_credential_ambiguous''))
      (\<lambda>x E'. \<forall>d. x = Some d \<longrightarrow> Listed ''credential'' d \<in> E' \<and> owned_credential_shape cfg d)"
    using l by (auto intro!: steps_intros steps_abind_alift split: list.split; blast)
qed

lemma steps_find_tool:
  assumes "reads kind"
  shows "steps lg kind cfg E (find_prepare_tool api cfg c) (\<lambda>x E'. \<forall>d. x = Some d \<longrightarrow>
    Listed ''tool'' d \<in> E' \<and> is_prepare_tool cfg d)"
  unfolding find_prepare_tool_def
  by (rule steps_abind [OF steps_list [OF assms]])
    (auto intro!: steps_intros split: list.split dest!: filter_single; blast)

lemma steps_reconcile:
  assumes find: "\<And>E'. E \<subseteq> E' \<Longrightarrow> steps lg kind cfg E' finder (\<lambda>x E'. \<forall>d. x = Some d \<longrightarrow> Q d E')"
    and mono: "\<And>d E E'. Q d E \<Longrightarrow> E \<subseteq> E' \<Longrightarrow> Q d E'"
  shows "steps lg kind cfg E (reconcile host r finder n delays) (\<lambda>x E'. \<forall>d. x = Some d \<longrightarrow> Q d E')"
  using find
proof (induction delays arbitrary: n E)
  case Nil
  show ?case unfolding reconcile.simps by (rule steps_aret) simp
next
  case (Cons t ts)
  have seek: "steps lg kind cfg E (acatch finder (\<lambda>e. if names_ambiguous e
        then abind (emit_line (host_print host) (reconciliation_diagnostic r n 2)) (\<lambda>_. araise e) else araise e))
      (\<lambda>x E'. \<forall>d. x = Some d \<longrightarrow> Q d E')"
    by (rule steps_acatch [OF Cons.prems]) (auto intro: steps_intros steps_abind [OF steps_print])
  have wait: "steps lg kind cfg E' (if n < MAX_RECONCILIATION_READS then host_sleep host t else aret ()) (\<lambda>_ _. True)"
    for E' by (auto intro: steps_sleep steps_aret)
  show ?case
    unfolding reconcile.simps Let_def
  proof (rule steps_abind [OF seek], rule steps_abind [OF steps_print], rule steps_if)
    fix x E1 and u :: unit and E2
    assume *: "E \<subseteq> E1" "\<forall>d. x = Some d \<longrightarrow> Q d E1" "E1 \<subseteq> E2"
    show "steps lg kind cfg E2 (aret x) (\<lambda>x E'. \<forall>d. x = Some d \<longrightarrow> Q d E')"
    proof (rule steps_aret, intro allI impI)
      fix E3 d
      assume "E2 \<subseteq> E3" "x = Some d"
      then show "Q d E3" using * mono [of d E1 E3] by auto
    qed
    show "steps lg kind cfg E2 (abind (if n < MAX_RECONCILIATION_READS then host_sleep host t else aret ())
        (\<lambda>_. reconcile host r finder (Suc n) ts)) (\<lambda>x E'. \<forall>d. x = Some d \<longrightarrow> Q d E')"
    proof (rule steps_abind [OF wait], rule Cons.IH)
      fix u :: unit and E3 E4
      assume "E2 \<subseteq> E3" "E3 \<subseteq> E4"
      then show "steps lg kind cfg E4 finder (\<lambda>x E'. \<forall>d. x = Some d \<longrightarrow> Q d E')"
        using * by (intro Cons.prems) auto
    qed
  qed
qed

lemma steps_created:
  assumes kind: "kind (Creating r)" "\<And>d. kind (Created r d)"
    and find: "\<And>E'. E \<subseteq> E' \<Longrightarrow> steps lg kind cfg E' finder (\<lambda>x E'. \<forall>d. x = Some d \<longrightarrow> Q d E')"
    and mono: "\<And>d E E'. Q d E \<Longrightarrow> E \<subseteq> E' \<Longrightarrow> Q d E'"
  shows "steps lg kind cfg E (create_with_reconciliation host api r p finder) (\<lambda>x E'. Created r x \<in> E' \<or> Q x E')"
proof -
  have post: "steps lg kind cfg E (api_create api r p) (\<lambda>x E'. Created r x \<in> E' \<or> Q x E')"
    by (rule steps_weaken [OF steps_create]) (auto simp: kind)
  have again: "steps lg kind cfg E' (api_create api r p) (\<lambda>x E'. Created r x \<in> E' \<or> Q x E')" for E'
    by (rule steps_weaken [OF steps_create]) (auto simp: kind)
  have rec: "steps lg kind cfg E' (reconciled host r finder m) (\<lambda>x E'. Created r x \<in> E' \<or> Q x E')"
    if "E \<subseteq> E'" and m: "\<And>E''. E' \<subseteq> E'' \<Longrightarrow> steps lg kind cfg E'' m (\<lambda>x E'. Created r x \<in> E' \<or> Q x E')" for E' m
  proof -
    have seek: "steps lg kind cfg E' (reconcile host r finder 1 RECONCILIATION_DELAYS_SECONDS)
        (\<lambda>x E'. \<forall>d. x = Some d \<longrightarrow> Q d E')"
    proof (rule steps_reconcile [where Q = Q])
      fix E1
      assume "E' \<subseteq> E1"
      then show "steps lg kind cfg E1 finder (\<lambda>x E'. \<forall>d. x = Some d \<longrightarrow> Q d E')"
        using that(1) by (intro find) auto
    qed (rule mono)
    show ?thesis unfolding reconciled_def
    proof (rule steps_abind [OF seek])
      fix x E1
      assume "E' \<subseteq> E1" "\<forall>d. x = Some d \<longrightarrow> Q d E1"
      then show "steps lg kind cfg E1 (case x of None \<Rightarrow> m | Some d \<Rightarrow> aret d) (\<lambda>x E'. Created r x \<in> E' \<or> Q x E')"
        using m mono by (auto intro!: steps_option steps_aret)
    qed
  qed
  show ?thesis
    unfolding create_with_reconciliation_def
    by (intro steps_on_ambiguous [OF again] rec) (auto intro: steps_araise)
qed

lemma update_then:
  assumes "kind (Changing r i)" "may_write cfg E r i"
    and "\<And>x E'. E \<subseteq> E' \<Longrightarrow> steps lg kind cfg E' (f x) R"
  shows "steps lg kind cfg E (abind (api_update api r i d) f) R"
  by (rule steps_abind [OF steps_update [where kind = kind, OF assms(1,2)]]) (rule assms(3))

lemma delete_then:
  assumes "kind (Removing r i)" "may_write cfg E r i"
    and "\<And>x E'. E \<subseteq> E' \<Longrightarrow> steps lg kind cfg E' (f x) R"
  shows "steps lg kind cfg E (abind (api_delete api r i) f) R"
  by (rule steps_abind [OF steps_delete [where kind = kind, OF assms(1,2)]]) (rule assms(3))

lemma steps_provision_update:
  assumes kind: "reads kind" "\<And>i. kind (Changing ''credential'' i)" "\<And>i. kind (Changing ''tool'' i)"
  shows "steps lg kind old E (provision_update lib api old new pid) (\<lambda>_ _. True)"
proof -
  have writes: "may_write old E' r i" if "Got r i d \<in> E'" "owned_by old r d" for E' r i d
    using that by (auto simp: may_write_def)
  have run: "steps lg kind old E'
      (abind (alift (credential_payload new)) (\<lambda>d.
       abind (api_update api ''credential'' cid d) (\<lambda>_.
       abind (alift (prepare_tool_document lib new cid)) (\<lambda>d.
       abind (api_update api ''tool'' tid d) (\<lambda>_. aret p))))) (\<lambda>_ _. True)"
    if "Got ''credential'' cid c \<in> E'" "owned_credential_shape old c" "Got ''tool'' tid t \<in> E'" "is_prepare_tool old t"
    for E' cid tid c t p
    using that writes [of "''credential''" cid c] writes [of "''tool''" tid t] kind
    by (intro steps_abind_alift update_then steps_aret) (auto simp: owned_by_def)
  show ?thesis
    unfolding provision_update_def
    by (intro steps_if steps_araise steps_abind_alift steps_prod steps_option steps_abind [OF steps_get] kind run)
      auto
qed

lemma steps_delete_all:
  assumes kind: "\<And>i. kind (Removing r i)"
    and owned: "\<And>d. d \<in> set ds \<Longrightarrow> Listed r d \<in> E \<and> owned_by cfg r d"
  shows "steps lg kind cfg E (delete_all api r ds) (\<lambda>_ _. True)"
  using owned
proof (induction ds arbitrary: E)
  case Nil
  show ?case unfolding delete_all.simps by (rule steps_aret) simp
next
  case (Cons d ds)
  show ?case
    unfolding delete_all.simps
  proof (rule steps_abind_alift, rule delete_then, rule kind)
    fix i
    assume i: "item_id d = Inr i"
    then show "may_write cfg E r i" using Cons.prems [of d] by (auto simp: may_write_def)
    fix x :: unit and E'
    assume "E \<subseteq> E'"
    then show "steps lg kind cfg E' (delete_all api r ds) (\<lambda>_ _. True)"
      using Cons.prems by (intro Cons.IH) auto
  qed
qed

lemma tools_of_owned: "tools_of cfg cids ds = Inr ts \<Longrightarrow> t \<in> set ts \<Longrightarrow> t \<in> set ds \<and> is_prepare_tool cfg t"
  by (induction ds arbitrary: ts) (auto simp: result_simps split: if_splits)

lemma steps_delete_pending:
  assumes kind: "reads kind" "\<And>r i. kind (Removing r i)"
  shows "steps lg kind cfg E (delete_pending api cfg) (\<lambda>_ _. True)"
  unfolding delete_pending_def Let_def
proof (rule steps_abind [OF steps_list [OF kind(1)]], rule steps_abind [OF steps_name_matches [OF kind(1)]],
    rule steps_abind_alift, rule steps_abind [OF steps_list [OF kind(1)]], rule steps_abind_alift)
  fix assistants E1 ms E2 cids items E3 tools
  assume *: "\<forall>d \<in> set assistants. Listed ''assistant'' d \<in> E1" "E1 \<subseteq> E2"
    "\<forall>d \<in> set ms. Listed ''credential'' d \<in> E2" "E2 \<subseteq> E3" "\<forall>d \<in> set items. Listed ''tool'' d \<in> E3"
    "tools_of cfg cids items = Inr tools"
  show "steps lg kind cfg E3
      (abind (delete_all api ''assistant''
          (filter (\<lambda>d. get_key d ''name'' = VStr (assistant_name cfg) \<and> owned_assistant cfg d) assistants)) (\<lambda>_.
       abind (delete_all api ''tool'' tools) (\<lambda>_.
       delete_all api ''credential'' (filter (owned_credential_shape cfg) ms)))) (\<lambda>_ _. True)"
  proof (rule steps_abind [OF steps_delete_all], goal_cases)
    case (3 x E4)
    show ?case
    proof (rule steps_abind [OF steps_delete_all], goal_cases)
      case (2 d)
      then show ?case using tools_of_owned [OF *(6), of d] * 3 by (auto simp: owned_by_def)
    next
      case (3 y E5)
      then have "E2 \<subseteq> E5" using *(4) \<open>E3 \<subseteq> E4\<close> by (meson subset_trans)
      with *(3) have l: "Listed ''credential'' d \<in> E5" if "d \<in> set ms" for d using that by (meson subsetD)
      show ?case by (rule steps_delete_all) (simp_all add: owned_by_def kind l)
    qed (rule kind)
  next
    case (2 d)
    then show ?case using * by (auto simp: owned_by_def)
  qed (rule kind)
qed

lemma deletable_owned:
  assumes "check_deletable cfg tid cid a t c = Inr ()"
  shows "\<And>d. a = Some d \<Longrightarrow> owned_by cfg ''assistant'' d" "\<And>d. t = Some d \<Longrightarrow> owned_by cfg ''tool'' d"
    "\<And>d. c = Some d \<Longrightarrow> owned_by cfg ''credential'' d"
  using assms by (auto simp: check_deletable_def owned_by_def result_simps split: if_splits)

lemma delete_if_then:
  assumes "kind (Removing r i)" "\<And>d. x = Some d \<Longrightarrow> may_write cfg E r i"
    and "\<And>u E'. E \<subseteq> E' \<Longrightarrow> steps lg kind cfg E' (f u) R"
  shows "steps lg kind cfg E (abind (delete_if api r i x) f) R"
proof (cases x)
  case None
  with assms(3) [of E "()"] show ?thesis by (simp add: delete_if_def)
next
  case (Some d)
  then show ?thesis using delete_then [where kind = kind and f = f, OF assms(1) assms(2)] assms(3)
    by (simp add: delete_if_def)
qed

lemma steps_provision_delete:
  assumes kind: "reads kind" "\<And>r i. kind (Removing r i)"
  shows "steps lg kind cfg E (provision_delete api cfg pid) (\<lambda>_ _. True)"
  unfolding provision_delete_def
proof (rule steps_if, rule steps_delete_pending [OF kind], rule steps_abind_alift, rule steps_prod,
    rule steps_prod, rule steps_abind [OF steps_get [OF kind(1)]], rule steps_abind [OF steps_get [OF kind(1)]],
    rule steps_abind_alift)
  fix aid tid pcid a E1 t E2 cid
  assume a: "\<forall>d. a = Some d \<longrightarrow> Got ''assistant'' aid d \<in> E1" "E1 \<subseteq> E2"
    and t: "\<forall>d. t = Some d \<longrightarrow> Got ''tool'' tid d \<in> E2"
  have look: "steps lg kind cfg E2 (case cid of None \<Rightarrow> aret None | Some c \<Rightarrow> api_get api ''credential'' c)
      (\<lambda>x E'. \<forall>d. x = Some d \<longrightarrow> cid \<noteq> None \<and> Got ''credential'' (case cid of Some c \<Rightarrow> c | None \<Rightarrow> []) d \<in> E')"
    by (cases cid) (auto intro!: steps_aret steps_weaken [OF steps_get] simp: kind)
  show "steps lg kind cfg E2
      (abind (case cid of None \<Rightarrow> aret None | Some c \<Rightarrow> api_get api ''credential'' c) (\<lambda>credential.
       abind (alift (check_deletable cfg tid cid a t credential)) (\<lambda>_.
       abind (delete_if api ''assistant'' aid a) (\<lambda>_.
       abind (delete_if api ''tool'' tid t) (\<lambda>_.
       abind (delete_if api ''credential'' (case cid of Some c \<Rightarrow> c | None \<Rightarrow> []) credential) (\<lambda>_.
       delete_pending api cfg)))))) (\<lambda>_ _. True)"
  proof (rule steps_abind [OF look], rule steps_abind_alift, rule delete_if_then, rule kind(2), goal_cases)
    case (1 c E3 u d)
    then show ?case using a t deletable_owned [of cfg tid cid a t c] by (auto simp: may_write_def)
  next
    case (2 c E3 u v E4)
    note found = this
    show ?case
    proof (rule delete_if_then, rule kind(2), goal_cases)
      case (1 d)
      then show ?case using found a t deletable_owned [of cfg tid cid a t c] by (auto simp: may_write_def)
    next
      case (2 w E5)
      show ?case
        by (rule delete_if_then, rule kind(2))
          (use 2 found deletable_owned [of cfg tid cid a t c] kind
            in \<open>auto simp: may_write_def intro: steps_delete_pending\<close>)
    qed
  qed
qed

lemma may_write_known:
  "Listed r d \<in> E \<and> owned_by cfg r d \<or> Created r d \<in> E \<Longrightarrow> item_id d = Inr i \<Longrightarrow> may_write cfg E r i"
  by (auto simp: may_write_def)

lemma steps_provision_create:
  assumes kind: "reads kind" "\<And>r. kind (Creating r)" "\<And>r d. kind (Created r d)" "\<And>r i. kind (Changing r i)"
  shows "steps lg kind cfg E (provision_create lib host api cfg) (\<lambda>_ _. True)"
proof -
  have assistant: "steps lg kind cfg E' (abind (find_assistant api cfg) (\<lambda>found. case found of
        Some a \<Rightarrow> aret a
      | None \<Rightarrow> abind (credential_name_matches api cfg) (\<lambda>ms.
          if ms \<noteq> [] then araise credential_conflict
          else abind (alift (preliminary_assistant cfg None)) (\<lambda>d.
            create_with_reconciliation host api ''assistant'' d (find_assistant api cfg)))))
      (\<lambda>a E'. Created ''assistant'' a \<in> E' \<or> Listed ''assistant'' a \<in> E' \<and> owned_assistant cfg a)" for E'
    by (rule steps_abind [OF steps_find_assistant [OF kind(1)]], rule steps_option,
        rule steps_abind [OF steps_name_matches [OF kind(1)]], rule steps_if, rule steps_araise,
        rule steps_abind_alift,
        rule steps_created [OF kind(2,3) steps_find_assistant [OF kind(1)]])
      (auto intro!: steps_aret)
  have credential: "steps lg kind cfg E' (abind (find_credential api cfg a) (\<lambda>found. case found of
        Some c \<Rightarrow> aret c
      | None \<Rightarrow> abind (alift (credential_payload cfg)) (\<lambda>d.
          create_with_reconciliation host api ''credential'' d (find_credential api cfg a))))
      (\<lambda>_ _. True)" for E' a
    by (rule steps_weaken, rule steps_abind [OF steps_find_credential [OF kind(1)]], rule steps_option,
        rule steps_abind_alift,
        rule steps_created [OF kind(2,3) steps_find_credential [OF kind(1)]])
      (auto intro!: steps_aret)
  have tool: "steps lg kind cfg E' (case found of
        Some t \<Rightarrow> aret t
      | None \<Rightarrow> create_with_reconciliation host api ''tool'' d (find_prepare_tool api cfg c))
      (\<lambda>t E'. Created ''tool'' t \<in> E' \<or> Listed ''tool'' t \<in> E' \<and> is_prepare_tool cfg t)"
    if "\<forall>t. found = Some t \<longrightarrow> Listed ''tool'' t \<in> E' \<and> is_prepare_tool cfg t" for E' found d c
    by (rule steps_option, rule steps_created [OF kind(2,3) steps_find_tool [OF kind(1)]])
      (use that in \<open>auto intro!: steps_aret\<close>)
  have update: "steps lg kind cfg E' (abind (api_update api r i d) f) (\<lambda>_ _. True)"
    if "may_write cfg E' r i" "\<And>x E''. E' \<subseteq> E'' \<Longrightarrow> steps lg kind cfg E'' (f x) (\<lambda>_ _. True)" for E' r i d f
    by (rule update_then, rule kind(4), rule that(1), rule that(2))
  show ?thesis
    unfolding provision_create_def
  proof (rule steps_abind [OF assistant], rule steps_if, rule steps_araise, rule steps_abind_alift,
      rule steps_abind [OF credential], rule steps_if, rule steps_araise, rule steps_abind_alift,
      rule steps_abind_alift, rule steps_abind_alift, rule update, goal_cases)
    case (1 a E1 aid c E2 cid u d)
    then show ?case
      by (intro may_write_known [of "''assistant''" a]) (auto simp: owned_by_def)
  next
    case (2 a E1 aid c E2 cid u d x E3)
    then have "E1 \<subseteq> E3" by (meson subset_trans)
    have aid: "may_write cfg E' ''assistant'' aid" if "E3 \<subseteq> E'" for E'
    proof (rule may_write_known [of "''assistant''" a])
      show "Listed ''assistant'' a \<in> E' \<and> owned_by cfg ''assistant'' a \<or> Created ''assistant'' a \<in> E'"
        using 2(2) \<open>E1 \<subseteq> E3\<close> that by (auto simp: owned_by_def)
    qed (use 2 in simp)
    show ?case
    proof (rule steps_abind [OF steps_find_tool [OF kind(1)]], rule steps_abind_alift, rule steps_abind [OF tool],
        assumption, rule steps_abind_alift, rule update, goal_cases)
      case (1 found E4 desired t E5 tid)
      then show ?case by (intro may_write_known [of "''tool''" t]) (auto simp: owned_by_def)
    next
      case (2 found E4 desired t E5 tid y E6)
      then have "E3 \<subseteq> E6" by blast
      then show ?case by (intro steps_abind_alift update aid steps_aret) auto
    qed
  qed
qed

end

section \<open>Recording the calls of any client\<close>

definition recorded :: "('w, 'a) act \<Rightarrow> ('a result \<Rightarrow> api_event list) \<Rightarrow> ('w \<times> api_event list, 'a) act" where
  "recorded m ev = (\<lambda>(w, tr). case m w of (r, w') \<Rightarrow> (r, (w', ev r @ tr)))"

definition traced :: "'w vapi_api \<Rightarrow> ('w \<times> api_event list) vapi_api" where
  "traced api =
     \<lparr>api_list = (\<lambda>r. recorded (api_list api r) (\<lambda>x. case x of Inr ds \<Rightarrow> map (Listed r) ds | Inl _ \<Rightarrow> [])),
      api_get = (\<lambda>r i. recorded (api_get api r i) (\<lambda>x. case x of Inr (Some d) \<Rightarrow> [Got r i d] | _ \<Rightarrow> [])),
      api_create = (\<lambda>r d. recorded (api_create api r d)
         (\<lambda>x. case x of Inr d' \<Rightarrow> [Created r d', Creating r] | Inl _ \<Rightarrow> [Creating r])),
      api_update = (\<lambda>r i d. recorded (api_update api r i d) (\<lambda>_. [Changing r i])),
      api_delete = (\<lambda>r i. recorded (api_delete api r i) (\<lambda>_. [Removing r i]))\<rparr>"

definition traced_host :: "'w host \<Rightarrow> ('w \<times> api_event list) host" where
  "traced_host h =
     \<lparr>host_print = (\<lambda>line (w, tr). (host_print h line w, tr)),
      host_sleep = (\<lambda>t. recorded (host_sleep h t) (\<lambda>_. []))\<rparr>"

interpretation traced: vapi_events "traced api" "traced_host h" snd for api :: "'w vapi_api" and h :: "'w host"
  by unfold_locales
    (auto simp: traced_def traced_host_def recorded_def split: prod.splits sum.splits option.splits)

text \<open>The kinds of events each operation may cause.\<close>

definition delete_kind :: "api_event \<Rightarrow> bool" where
  "delete_kind ev = (case ev of Listed _ _ \<Rightarrow> True | Got _ _ _ \<Rightarrow> True | Removing _ _ \<Rightarrow> True | _ \<Rightarrow> False)"

definition create_kind :: "api_event \<Rightarrow> bool" where
  "create_kind ev = (case ev of Removing _ _ \<Rightarrow> False | _ \<Rightarrow> True)"

definition update_kind :: "api_event \<Rightarrow> bool" where
  "update_kind ev = (case ev of Listed _ _ \<Rightarrow> True | Got _ _ _ \<Rightarrow> True
     | Changing r _ \<Rightarrow> r \<in> {''credential'', ''tool''} | _ \<Rightarrow> False)"

text \<open>The events of a run from an empty history.\<close>

definition history :: "('w \<times> api_event list, 'a) act \<Rightarrow> 'w \<Rightarrow> api_event list" where
  "history m w = snd (snd (m (w, [])))"

lemma steps_history:
  assumes "steps snd kind cfg {} m G"
  shows "justified kind cfg (history m w)"
proof -
  obtain r w' where run: "m (w, []) = (r, w')" by (rule prod.exhaust)
  from stepsD [OF assms run] show ?thesis by (simp add: history_def run)
qed

text \<open>
  C19.  Provisioning writes only to what it owns.  Whatever the service answers and whenever it fails,
  every object that \<open>provision_delete\<close> deletes was read before in the same run under its identifier
  and is owned by the stack: the assistant by its metadata, the credential by its name and shape,
  the tool by its endpoint.  \<open>provision_create\<close> deletes nothing and changes only owned objects or
  ones it created itself; \<open>provision_update\<close> creates and deletes nothing, and changes only the
  credential and the tool of the old configuration, never the assistant.
\<close>

theorem provisioning_writes_only_owned:
  "justified delete_kind cfg (history (provision_delete (traced api) cfg pid) w) \<and>
   justified create_kind cfg (history (provision_create lib (traced_host h) (traced api) cfg) w) \<and>
   justified update_kind cfg (history (provision_update lib (traced api) cfg new pid) w)"
proof (intro conjI steps_history)
  show "steps snd delete_kind cfg {} (provision_delete (traced api) cfg pid) (\<lambda>_ _. True)"
    by (rule traced.steps_provision_delete) (simp_all add: reads_def delete_kind_def)
  show "steps snd create_kind cfg {} (provision_create lib (traced_host h) (traced api) cfg) (\<lambda>_ _. True)"
    by (rule traced.steps_provision_create) (simp_all add: reads_def create_kind_def)
  show "steps snd update_kind cfg {} (provision_update lib (traced api) cfg new pid) (\<lambda>_ _. True)"
    by (rule traced.steps_provision_update) (simp_all add: reads_def update_kind_def)
qed

end
