(* ===== verification/ProvisionService.thy ===== *)
theory ProvisionService imports Provision begin

text \<open>
  What provisioning achieves against a service that keeps its word: the round trip of physical
  identifiers, the completeness of a deletion, and the duplicate that a deletion leaves behind.
  The last section bounds the requests of \<open>VapiHttpClient\<close>.
\<close>

section \<open>Physical identifiers\<close>

lemma resource_id_ok [simp]: "is_resource_id s \<Longrightarrow> resource_id (VStr s) = Inr s"
  by (simp add: resource_id_def)

lemma resource_id_no_colon: "is_resource_id s \<Longrightarrow> 58 \<notin> set s"
  by (auto simp: is_resource_id_def class_match_def list_all_iff id_char_def is_ascii_alnum_def
      is_upper_def is_lower_def is_digit_def)

definition good_ids :: "provisioned \<Rightarrow> bool" where
  "good_ids p \<longleftrightarrow> is_resource_id (prov_assistant p) \<and> is_resource_id (prov_tool p) \<and>
     is_resource_id (prov_credential p)"

lemma split_physical_id:
  assumes "good_ids p"
  shows "split_on 58 (physical_id p) =
    [lit ''bridgefu-vapi-v2'', prov_assistant p, prov_tool p, prov_credential p]"
proof -
  have "58 \<notin> set (lit ''bridgefu-vapi-v2'')" by (simp add: lit_def)
  moreover have "lit ''bridgefu-vapi-v2:'' = lit ''bridgefu-vapi-v2'' @ [58]" "lit '':'' = [58]"
    by (simp_all add: lit_def)
  ultimately show ?thesis
    using assms resource_id_no_colon by (simp add: physical_id_def good_ids_def split_on_append)
qed

lemma parse_physical_id_ok:
  "good_ids p \<Longrightarrow> parse_physical_id (VStr (physical_id p)) =
     Inr (prov_assistant p, prov_tool p, Some (prov_credential p))"
  by (simp add: parse_physical_id_def split_physical_id) (simp add: good_ids_def)

lemma item_id_good: "item_id d = Inr i \<Longrightarrow> is_resource_id i \<and> get_key d ''id'' = VStr i"
  by (auto simp: item_id_def resource_id_def is_str_conv split: if_splits)

section \<open>A service that keeps its word\<close>

text \<open>
  \<open>content w r\<close> is what the service stores under resource \<open>r\<close>.  A list that succeeds is all of it,
  reading changes nothing, and a deletion that succeeds has removed the object and nothing else.
  A failed deletion may have done anything.
\<close>

definition faithful :: "'w vapi_api \<Rightarrow> ('w \<Rightarrow> string \<Rightarrow> pydict list) \<Rightarrow> bool" where
  "faithful api content \<longleftrightarrow>
     (\<forall>r w x w'. api_list api r w = (x, w') \<longrightarrow> content w' = content w \<and> (\<forall>ds. x = Inr ds \<longrightarrow> ds = content w r)) \<and>
     (\<forall>r i w x w'. api_get api r i w = (x, w') \<longrightarrow> content w' = content w) \<and>
     (\<forall>r i w w'. api_delete api r i w = (Inr (), w') \<longrightarrow>
        content w' = (content w)(r := filter (\<lambda>d. get_key d ''id'' \<noteq> VStr i) (content w r)))"

lemma list_all_of_it:
  "faithful api content \<Longrightarrow> api_list api r w = (Inr ds, w') \<Longrightarrow> content w' = content w \<and> ds = content w r"
  unfolding faithful_def by blast

lemma got_unchanged: "faithful api content \<Longrightarrow> api_get api r i w = (x, w') \<Longrightarrow> content w' = content w"
  unfolding faithful_def by blast

lemma deleted: "faithful api content \<Longrightarrow> api_delete api r i w = (Inr (), w') \<Longrightarrow>
    content w' = (content w)(r := filter (\<lambda>d. get_key d ''id'' \<noteq> VStr i) (content w r))"
  unfolding faithful_def by blast

lemma deleted_all:
  assumes "faithful api content"
  shows "delete_all api r ds w = (Inr (), w') \<Longrightarrow>
     content w' = (content w)(r := filter (\<lambda>d. \<forall>e \<in> set ds. get_key d ''id'' \<noteq> get_key e ''id'') (content w r))"
proof (induction ds arbitrary: w)
  case Nil
  then show ?case by simp
next
  case (Cons e ds)
  then obtain i w1 where i: "item_id e = Inr i" and w1: "api_delete api r i w = (Inr (), w1)"
    and rest: "delete_all api r ds w1 = (Inr (), w')"
    by (auto simp: result_simps)
  from Cons.IH [OF rest] deleted [OF assms w1] item_id_good [OF i] show ?case
    by (auto simp: fun_eq_iff)
qed

lemma pending_runs:
  assumes "delete_pending api cfg w = (Inr (), w')"
  obtains as w1 cs w2 ts w3 tools w4 w5 where
    "api_list api ''assistant'' w = (Inr as, w1)" "api_list api ''credential'' w1 = (Inr cs, w2)"
    "api_list api ''tool'' w2 = (Inr ts, w3)"
    "delete_all api ''assistant'' (filter (\<lambda>d. get_key d ''name'' = VStr (assistant_name cfg) \<and>
        owned_assistant cfg d) as) w3 = (Inr (), w4)"
    "delete_all api ''tool'' tools w4 = (Inr (), w5)"
    "delete_all api ''credential'' (filter (\<lambda>d. get_key d ''name'' = VStr (credential_name cfg) \<and>
        owned_credential_shape cfg d) cs) w5 = (Inr (), w')"
  using assms
  by (auto simp: delete_pending_def credential_name_matches_def Let_def abind_split intro: that)

lemma pending_deleted:
  assumes f: "faithful api content" and run: "delete_pending api cfg w = (Inr (), w')"
  shows "(\<forall>d \<in> set (content w' ''assistant''). \<not> (get_key d ''name'' = VStr (assistant_name cfg) \<and> owned_assistant cfg d)) \<and>
    (\<forall>d \<in> set (content w' ''credential''). \<not> owned_credential_shape cfg d)"
  using run
proof (rule pending_runs)
  fix as w1 cs w2 ts w3 tools w4 w5
  assume l: "api_list api ''assistant'' w = (Inr as, w1)" "api_list api ''credential'' w1 = (Inr cs, w2)"
      "api_list api ''tool'' w2 = (Inr ts, w3)"
    and del: "delete_all api ''assistant'' (filter (\<lambda>d. get_key d ''name'' = VStr (assistant_name cfg) \<and>
        owned_assistant cfg d) as) w3 = (Inr (), w4)"
      "delete_all api ''tool'' tools w4 = (Inr (), w5)"
      "delete_all api ''credential'' (filter (\<lambda>d. get_key d ''name'' = VStr (credential_name cfg) \<and>
        owned_credential_shape cfg d) cs) w5 = (Inr (), w')"
  have c: "content w3 = content w" "as = content w ''assistant''" "cs = content w ''credential''"
    using list_all_of_it [OF f l(1)] list_all_of_it [OF f l(2)] list_all_of_it [OF f l(3)] by simp_all
  from deleted_all [OF f del(1)] deleted_all [OF f del(2)] deleted_all [OF f del(3)] c show ?thesis
    by (auto simp: owned_credential_shape_def Let_def)
qed

lemma delete_ends_pending:
  "provision_delete api cfg pid w = (Inr (), w') \<Longrightarrow> \<exists>w1. delete_pending api cfg w1 = (Inr (), w')"
  by (auto simp: provision_delete_def abind_split split: if_splits prod.splits)

section \<open>A service in memory\<close>

type_synonym vapi_world = "string \<Rightarrow> pydict list"

definition demo_vapi :: "vapi_world vapi_api" where
  "demo_vapi =
     \<lparr>api_list = (\<lambda>r w. (Inr (w r), w)),
      api_get = (\<lambda>r i w. (Inr (List.find (\<lambda>d. get_key d ''id'' = VStr i) (w r)), w)),
      api_create = (\<lambda>r d w. let d' = (lit ''id'', VStr (lit r @ dec_nat (length (w r)))) # d
         in (Inr d', w(r := w r @ [d']))),
      api_update = (\<lambda>r i d w. (Inr d, w(r := map (\<lambda>e. if get_key e ''id'' = VStr i then dict_update e d else e) (w r)))),
      api_delete = (\<lambda>r i w. (Inr (), w(r := filter (\<lambda>d. get_key d ''id'' \<noteq> VStr i) (w r))))\<rparr>"

lemma demo_vapi_steps [simp]:
  "api_list demo_vapi r w = (Inr (w r), w)"
  "api_get demo_vapi r i w = (Inr (List.find (\<lambda>d. get_key d ''id'' = VStr i) (w r)), w)"
  "api_delete demo_vapi r i w = (Inr (), w(r := filter (\<lambda>d. get_key d ''id'' \<noteq> VStr i) (w r)))"
  by (simp_all add: demo_vapi_def)

lemma demo_vapi_faithful: "faithful demo_vapi id"
  by (simp add: faithful_def demo_vapi_def)

definition demo_assistant :: "provisioning_config \<Rightarrow> pydict" where
  "demo_assistant cfg = mk
     [(''id'', VStr (lit ''a1'')), (''name'', VStr (assistant_name cfg)), (''metadata'', config_metadata cfg),
      (''model'', VDict (mk [(''toolIds'', VList [VStr (lit ''t1'')])])), (''credentialIds'', VList [VStr (lit ''c1'')])]"

definition demo_credential :: "provisioning_config \<Rightarrow> pydict" where
  "demo_credential cfg = mk
     [(''id'', VStr (lit ''c1'')), (''provider'', VStr (lit ''custom-credential'')),
      (''name'', VStr (credential_name cfg)), (''authenticationPlan'', VDict (mk [(''type'', VStr (lit ''bearer''))]))]"

definition demo_tool :: "provisioning_config \<Rightarrow> string \<Rightarrow> pydict" where
  "demo_tool cfg i = mk
     [(''id'', VStr (lit i)), (''type'', VStr (lit ''function'')),
      (''function'', VDict (mk [(''name'', VStr (lit ''prepare_handoff''))])),
      (''server'', VDict (mk [(''url'', VStr (cfg_prepare_url cfg)), (''credentialId'', VStr (lit ''c1''))]))]"

definition demo_objects :: "provisioning_config \<Rightarrow> vapi_world" where
  "demo_objects cfg = (\<lambda>_. [])(''assistant'' := [demo_assistant cfg], ''credential'' := [demo_credential cfg],
     ''tool'' := [demo_tool cfg ''t1'', demo_tool cfg ''t2''])"

definition demo_provisioned :: provisioned where
  "demo_provisioned = \<lparr>prov_assistant = lit ''a1'', prov_tool = lit ''t1'', prov_credential = lit ''c1''\<rparr>"

lemma demo_ids: "is_resource_id (lit ''a1'')" "is_resource_id (lit ''t1'')" "is_resource_id (lit ''c1'')"
    "is_resource_id (lit ''t2'')"
  by (simp_all add: is_resource_id_def eval_simps)

lemma demo_objects_owned:
  "owned_assistant cfg (demo_assistant cfg)" "owned_credential_shape cfg (demo_credential cfg)"
  "is_prepare_tool cfg (demo_tool cfg i)" "tool_credential (demo_tool cfg i) = VStr (lit ''c1'')"
  "attached_credential (demo_assistant cfg) = Inr (Some (lit ''c1''))"
  "tool_ids_of (demo_assistant cfg) = VList [VStr (lit ''t1'')]"
  by (simp_all add: demo_assistant_def demo_credential_def demo_tool_def owned_assistant_def config_metadata_def
      owned_credential_shape_def is_prepare_tool_def tool_credential_def attached_credential_def tool_ids_of_def
      demo_ids)

text \<open>
  C20.  A deletion that succeeds is complete for assistants and credentials: against a service that
  keeps its word, whatever the physical identifier, afterwards no assistant is left that has the
  name and the owner of the stack, and no credential that has its name and shape.
\<close>

theorem deletion_is_complete:
  assumes "faithful api content" and "provision_delete api cfg pid w = (Inr (), w')"
  shows "(\<forall>d \<in> set (content w' ''assistant''). \<not> (get_key d ''name'' = VStr (assistant_name cfg) \<and> owned_assistant cfg d)) \<and>
    (\<forall>d \<in> set (content w' ''credential''). \<not> owned_credential_shape cfg d)"
  using delete_ends_pending [OF assms(2)] pending_deleted [OF assms(1)] by blast

lemma demo_deletes:
  "provision_delete demo_vapi cfg (VStr (physical_id demo_provisioned)) (demo_objects cfg) =
     (Inr (), (\<lambda>_. [])(''tool'' := [demo_tool cfg ''t2'']))"
proof -
  have v2: "VStr (physical_id demo_provisioned) \<noteq> VStr PENDING_PHYSICAL_ID"
    by (simp add: physical_id_def PENDING_PHYSICAL_ID_def lit_def)
  have parse: "parse_physical_id (VStr (physical_id demo_provisioned)) = Inr (lit ''a1'', lit ''t1'', Some (lit ''c1''))"
    by (simp add: parse_physical_id_ok demo_provisioned_def good_ids_def demo_ids)
  have ids: "get_key (demo_assistant cfg) ''id'' = VStr (lit ''a1'')"
    "get_key (demo_credential cfg) ''id'' = VStr (lit ''c1'')" "get_key (demo_tool cfg i) ''id'' = VStr (lit i)" for i
    by (simp_all add: demo_assistant_def demo_credential_def demo_tool_def)
  have pending: "delete_pending demo_vapi cfg ((\<lambda>_. [])(''tool'' := [demo_tool cfg ''t2''])) =
      (Inr (), (\<lambda>_. [])(''tool'' := [demo_tool cfg ''t2'']))"
    by (simp add: delete_pending_def credential_name_matches_def abind_def demo_objects_owned)
  have check: "check_deletable cfg (lit ''t1'') (Some (lit ''c1'')) (Some (demo_assistant cfg))
      (Some (demo_tool cfg ''t1'')) (Some (demo_credential cfg)) = Inr ()"
    by (simp add: check_deletable_def demo_objects_owned)
  have w: "(demo_objects cfg)(''assistant'' := [], ''tool'' := [demo_tool cfg ''t2''], ''credential'' := []) =
      (\<lambda>_. [])(''tool'' := [demo_tool cfg ''t2''])"
    by (auto simp: demo_objects_def)
  have content: "demo_objects cfg ''assistant'' = [demo_assistant cfg]" "demo_objects cfg ''credential'' = [demo_credential cfg]"
    "demo_objects cfg ''tool'' = [demo_tool cfg ''t1'', demo_tool cfg ''t2'']"
    by (simp_all add: demo_objects_def)
  from v2 parse check show ?thesis
    by (simp add: provision_delete_def abind_def known_credential_def ids content delete_if_def w pending
        del: fun_upd_apply) (simp add: content ids w pending fun_upd_def [symmetric])
qed

definition demo_config :: provisioning_config where
  "demo_config = \<lparr>cfg_stack = lit ''arn:stack'', cfg_deployment = lit ''d1'', cfg_prepare_url = lit ''https://a.example/p'',
     cfg_transfer_url = lit ''https://a.example/t'', cfg_model = lit ''m'', cfg_voice = lit ''v'',
     cfg_fields_json = VNone, cfg_webhook_token = None,
     cfg_assets = \<lparr>root_is_dir = True, root_text = (\<lambda>_. None)\<rparr>\<rparr>"

theorem deletion_is_complete_witness:
  "\<exists>w'. provision_delete demo_vapi demo_config (VStr (physical_id demo_provisioned)) (demo_objects demo_config) =
     (Inr (), w') \<and> (\<forall>d \<in> set (w' ''credential''). \<not> owned_credential_shape demo_config d)"
  using deletion_is_complete [OF demo_vapi_faithful demo_deletes [of demo_config]] demo_deletes by auto

text \<open>
  It is not complete for tools: a second preparation tool of the same stack and credential, such
  as a repeated create leaves behind, survives.  The credential of the physical identifier is deleted
  before the scan, so the scan no longer knows it and takes the duplicate for someone else's.
\<close>

theorem duplicate_tool_survives:
  "\<exists>w'. provision_delete demo_vapi cfg (VStr (physical_id demo_provisioned)) (demo_objects cfg) = (Inr (), w') \<and>
     (\<exists>d \<in> set (w' ''tool''). is_prepare_tool cfg d \<and> tool_credential d = VStr (prov_credential demo_provisioned))"
  using demo_deletes [of cfg] by (simp add: demo_objects_owned) (simp add: demo_provisioned_def)

text \<open>
  Physical identifiers are exactly the printed ones: a text is read as a version 2 identifier
  with an assistant, a tool and a credential if and only if it is what the
  definition \<open>physical_id\<close> prints for these three well-formed identifiers.
\<close>

theorem physical_id_roundtrip:
  "parse_physical_id v = Inr (a, t, Some c) \<longleftrightarrow>
     (let p = \<lparr>prov_assistant = a, prov_tool = t, prov_credential = c\<rparr> in
      good_ids p \<and> v = VStr (physical_id p))"
proof
  assume parse: "parse_physical_id v = Inr (a, t, Some c)"
  then obtain u where u: "v = VStr u" by (auto simp: parse_physical_id_def result_simps)
  with parse have "split_on 58 u = [lit ''bridgefu-vapi-v2'', a, t, c] \<and>
      is_resource_id a \<and> is_resource_id t \<and> is_resource_id c"
    by (auto simp: parse_physical_id_def resource_id_def rbind_def
        split: list.split_asm if_split_asm sum.split_asm)
  with u obtain s where s: "v = VStr s" "split_on 58 s = [lit ''bridgefu-vapi-v2'', a, t, c]"
    and good: "is_resource_id a" "is_resource_id t" "is_resource_id c" by blast
  have "s = lit ''bridgefu-vapi-v2:'' @ a @ [58] @ t @ [58] @ c"
    using join_split_on [of 58 s] s(2) by (simp add: lit_def)
  with s good show "let p = \<lparr>prov_assistant = a, prov_tool = t, prov_credential = c\<rparr> in
      good_ids p \<and> v = VStr (physical_id p)"
    by (simp add: good_ids_def physical_id_def lit_def)
qed (auto simp: parse_physical_id_ok Let_def)

end
