(* ===== verification/VapiBounds.thy ===== *)
theory VapiBounds imports Vapi begin

text \<open>
  Bounds on \<open>VapiHttpClient\<close>: how many requests an operation sends and how long it waits, whatever
  the service does.  A write is sent at most once by \<open>_request\<close>, and at most twice by \<open>update\<close> and
  \<open>delete\<close>, the second time only after a read showed that the first did not take effect.
\<close>

text \<open>A world that logs the methods of the requests sent and adds up the seconds slept.\<close>

type_synonym 'w metered = "string list \<times> rat \<times> 'w"

definition beside :: "('w, 'a) act \<Rightarrow> ('w metered, 'a) act" where
  "beside m = (\<lambda>(ms, t, w). case m w of (r, w') \<Rightarrow> (r, (ms, t, w')))"

definition metered :: "'w vapi_io \<Rightarrow> 'w metered vapi_io" where
  "metered io =
     \<lparr>vapi_send = (\<lambda>req limit (ms, t, w).
         case vapi_send io req limit w of (r, w') \<Rightarrow> (r, (req_method req # ms, t, w'))),
      vapi_timeout = map_option beside (vapi_timeout io),
      vapi_sleep = (\<lambda>d (ms, t, w). case vapi_sleep io d w of (r, w') \<Rightarrow> (r, (ms, t + d, w'))),
      vapi_print = (\<lambda>line (ms, t, w). (ms, t, vapi_print io line w))\<rparr>"

text \<open>\<open>m\<close> sends requests of method \<open>g\<close> at most \<open>n\<close> times and no others, and waits at most \<open>s\<close> seconds.\<close>

definition sends :: "string \<Rightarrow> nat \<Rightarrow> rat \<Rightarrow> ('w metered, 'a) act \<Rightarrow> bool" where
  "sends g n s m \<longleftrightarrow>
     (\<forall>ms t w r ms' t' w'. m (ms, t, w) = (r, (ms', t', w')) \<longrightarrow>
        (\<exists>k \<le> n. ms' = replicate k g @ ms) \<and> t \<le> t' \<and> t' \<le> t + s)"

lemma sendsD:
  "sends g n s m \<Longrightarrow> m (ms, t, w) = (r, (ms', t', w')) \<Longrightarrow>
     (\<exists>k \<le> n. ms' = replicate k g @ ms) \<and> t \<le> t' \<and> t' \<le> t + s"
  unfolding sends_def by blast

lemma sendsI:
  "(\<And>ms t w r ms' t' w'. m (ms, t, w) = (r, (ms', t', w')) \<Longrightarrow>
     (\<exists>k \<le> n. ms' = replicate k g @ ms) \<and> t \<le> t' \<and> t' \<le> t + s) \<Longrightarrow> sends g n s m"
  unfolding sends_def by blast

lemma sends_mono: "sends g n s m \<Longrightarrow> n \<le> n' \<Longrightarrow> s \<le> s' \<Longrightarrow> sends g n' s' m"
  unfolding sends_def by (meson add_mono_thms_linordered_semiring(1) order_refl order_trans)

lemma sends_pure: "0 \<le> s \<Longrightarrow> sends g n s (aret x)" "0 \<le> s \<Longrightarrow> sends g n s (araise e)" "0 \<le> s \<Longrightarrow> sends g n s (alift r)"
  by (auto simp: sends_def)

lemma sends_abind:
  assumes "sends g n s m" and "\<And>x. sends g k u (f x)" and "0 \<le> u"
  shows "sends g (n + k) (s + u) (abind m f)"
proof (rule sendsI)
  fix ms t w r ms' t' w'
  assume run: "abind m f (ms, t, w) = (r, (ms', t', w'))"
  obtain x ms1 t1 w1 where m: "m (ms, t, w) = (x, (ms1, t1, w1))" by (metis prod_cases4)
  from sendsD [OF assms(1) m] obtain i where i: "i \<le> n" "ms1 = replicate i g @ ms" "t \<le> t1" "t1 \<le> t + s" by blast
  show "(\<exists>k' \<le> n + k. ms' = replicate k' g @ ms) \<and> t \<le> t' \<and> t' \<le> t + (s + u)"
  proof (cases x)
    case (Inl e)
    with run m i assms(3) show ?thesis by (auto simp: abind_def)
  next
    case (Inr y)
    with run m have "f y (ms1, t1, w1) = (r, (ms', t', w'))" by (simp add: abind_def)
    from sendsD [OF assms(2) this] obtain j where j: "j \<le> k" "ms' = replicate j g @ ms1" "t1 \<le> t'" "t' \<le> t1 + u"
      by blast
    then have "ms' = replicate (j + i) g @ ms" using i by (simp add: replicate_add)
    with i j show ?thesis by (intro conjI exI [of _ "j + i"]) auto
  qed
qed

lemma sends_then:
  "sends g 0 0 m \<Longrightarrow> (\<And>x. sends g n s (f x)) \<Longrightarrow> 0 \<le> s \<Longrightarrow> sends g n s (abind m f)"
  using sends_abind [of g 0 0 m n s f] by simp

lemma sends_last: "sends g n s m \<Longrightarrow> (\<And>x. sends g 0 0 (f x)) \<Longrightarrow> sends g n s (abind m f)"
  using sends_abind [of g n s m 0 0 f] by simp

lemma sends_acatch_silent:
  assumes "sends g n s m" and "\<And>e. sends g 0 0 (h e)"
  shows "sends g n s (acatch m h)"
proof (rule sendsI)
  fix ms t w r ms' t' w'
  assume run: "acatch m h (ms, t, w) = (r, (ms', t', w'))"
  obtain x ms1 t1 w1 where m: "m (ms, t, w) = (x, (ms1, t1, w1))" by (metis prod_cases4)
  note one = sendsD [OF assms(1) m]
  show "(\<exists>k \<le> n. ms' = replicate k g @ ms) \<and> t \<le> t' \<and> t' \<le> t + s"
  proof (cases x)
    case (Inl e)
    with run m have "h e (ms1, t1, w1) = (r, (ms', t', w'))" by (simp add: acatch_def)
    from sendsD [OF assms(2) this] one show ?thesis by auto
  next
    case (Inr y)
    with run m one show ?thesis by (simp add: acatch_def)
  qed
qed

lemma sends_emit: "sends g 0 0 (emit_line (vapi_print (metered io)) line)"
  by (auto simp: sends_def emit_line_def metered_def)

lemma sends_sleep: "0 \<le> d \<Longrightarrow> sends g 0 d (vapi_sleep (metered io) d)"
  by (auto simp: sends_def metered_def split: prod.splits)

lemma sends_timeout: "sends g 0 0 (timeout_seconds (metered io))"
proof (cases "vapi_timeout io")
  case None
  then show ?thesis by (simp add: timeout_seconds_def metered_def sends_pure)
next
  case (Some f)
  have "sends g 0 0 (beside f)" by (auto simp: sends_def beside_def split: prod.splits)
  then have "sends g 0 0 (abind (beside f) (\<lambda>v. alift
      (positive_number MAX_REQUEST_TIMEOUT_SECONDS (vapi_error ''vapi_request_timeout_invalid'') v)))"
    by (rule sends_then) (simp_all add: sends_pure)
  with Some show ?thesis by (simp add: timeout_seconds_def metered_def)
qed

lemma sends_open: "sends (req_method req) 1 0 (vapi_open (metered io) req)"
proof -
  have send: "sends (req_method req) 1 0 (vapi_send (metered io) req limit)" for limit
    by (rule sendsI) (auto simp: metered_def split: prod.splits intro!: exI [of _ 1])
  have rest: "sends (req_method req) 0 0 (case x of (r, header) \<Rightarrow> case r of
      Answer st body \<Rightarrow> abind (alift body) (\<lambda>bs. aret (Opened st (take 1048577 bs)))
    | HttpError code _ \<Rightarrow> aret (Refused code header))" for x :: "http_result \<times> pystr option"
  proof -
    obtain r header where x: "x = (r, header)" by (cases x)
    have "sends (req_method req) 0 0 (abind (alift body) (\<lambda>bs. aret (Opened st (take 1048577 bs))))" for body st
      by (rule sends_then) (simp_all add: sends_pure)
    with x show ?thesis by (cases r) (simp_all add: sends_pure)
  qed
  have "sends (req_method req) 1 0
      (abind (timeout_seconds (metered io)) (\<lambda>t. abind (vapi_send (metered io) req t) (\<lambda>(r, header). case r of
          Answer st body \<Rightarrow> abind (alift body) (\<lambda>bs. aret (Opened st (take 1048577 bs)))
        | HttpError code _ \<Rightarrow> aret (Refused code header))))"
    by (rule sends_then [OF sends_timeout], rule sends_last [OF send], rule rest) simp
  then show ?thesis unfolding vapi_open_def by (rule sends_acatch_silent) (simp add: sends_pure)
qed

lemma delay_bounded: "0 \<le> m \<Longrightarrow> 0 \<le> bounded_delay m x \<and> bounded_delay m x \<le> m"
  by (cases x) (auto simp: bounded_delay_def)

lemma sends_say:
  assumes "0 \<le> s"
  shows "sends g n s (abind (emit_line (vapi_print (metered io)) line) (\<lambda>_. aret x))"
    "sends g n s (abind (emit_line (vapi_print (metered io)) line) (\<lambda>_. araise e))"
  using assms by (auto intro!: sends_then [OF sends_emit] simp: sends_pure)

lemma sends_pause:
  assumes "sends g n s m" "0 \<le> d" "d \<le> u" "0 \<le> s"
  shows "sends g n (u + s) (abind (emit_line (vapi_print (metered io)) line) (\<lambda>_.
    abind (vapi_sleep (metered io) d) (\<lambda>_. m)))"
proof (rule sends_then [OF sends_emit])
  show "sends g n (u + s) (abind (vapi_sleep (metered io) d) (\<lambda>_. m))"
    using sends_abind [OF sends_mono [OF sends_sleep [OF assms(2)], of 0 u] assms(1,4)] assms by simp
qed (use assms in auto)

text \<open>The bounds of a read that may be repeated, and of a write.\<close>

lemma sends_read:
  assumes "0 \<le> vapi_max_retry_after c" and get: "req_method req = ''GET''"
  shows "sends ''GET'' (Suc left) (of_nat left * vapi_max_retry_after c)
    (vapi_attempts lib (metered io) c req resource allow left attempt)"
proof (induction left arbitrary: attempt)
  case 0
  show ?case
    unfolding vapi_attempts.simps [of _ _ _ _ _ _ 0] Let_def get
    by (rule sends_last [OF sends_open [where req = req, unfolded get], THEN sends_mono])
      (auto simp: sends_pure intro!: sends_say split: opened.split)
next
  case (Suc left)
  let ?m = "vapi_max_retry_after c"
  have pos: "0 \<le> of_nat left * ?m" using assms by simp
  have delay: "0 \<le> retry_after_seconds lib c h attempt" "retry_after_seconds lib c h attempt \<le> ?m"
      "0 \<le> min ?m (2 ^ (attempt - 1))" "min ?m (2 ^ (attempt - 1)) \<le> ?m" for h
    using assms delay_bounded by (auto simp: retry_after_seconds_def)
  have "sends ''GET'' (1 + Suc left) (0 + (?m + of_nat left * ?m))
      (vapi_attempts lib (metered io) c req resource allow (Suc left) attempt)"
    unfolding vapi_attempts.simps [of _ _ _ _ _ _ "Suc left"] Let_def get
    by (rule sends_abind [OF sends_open [where req = req, unfolded get]])
      (use assms(1) pos delay Suc.IH in
        \<open>auto simp: sends_pure intro!: sends_say sends_pause split: opened.split bool.split\<close>)
  then show ?case by (simp add: algebra_simps)
qed

lemma sends_one_write:
  assumes "req_method req \<noteq> ''GET''"
  shows "sends (req_method req) 1 0 (vapi_attempts lib (metered io) c req resource allow left attempt)"
  unfolding vapi_attempts.simps [of _ _ _ _ _ _ left] Let_def
  by (rule sends_last [OF sends_open])
    (use assms in \<open>auto simp: sends_pure intro!: sends_say split: opened.split nat.split bool.split\<close>)

lemma sends_given:
  "(\<And>x. r = Inr x \<Longrightarrow> sends g n s (f x)) \<Longrightarrow> 0 \<le> s \<Longrightarrow> sends g n s (abind (alift r) f)"
  by (cases r) (simp_all add: sends_pure)

lemma build_request_method: "build_request c meth target payload = Inr req \<Longrightarrow> req_method req = meth"
  by (auto simp: build_request_def result_simps split: if_splits)

lemma read_request:
  assumes "0 \<le> vapi_max_retry_after c"
  shows "sends ''GET'' (Suc (vapi_read_retries c)) (of_nat (vapi_read_retries c) * vapi_max_retry_after c)
    (vapi_request lib (metered io) c ''GET'' target payload allow)"
  unfolding vapi_request_def
  by (rule sends_given, rule sends_last)
    (use assms in \<open>auto simp: sends_pure dest: build_request_method intro: sends_read\<close>)

lemma write_request:
  assumes "meth \<noteq> ''GET''"
  shows "sends meth 1 0 (vapi_request lib (metered io) c meth target payload allow)"
  unfolding vapi_request_def
proof (rule sends_given, rule sends_last)
  fix req
  assume "build_request c meth target payload = Inr req"
  then show "sends meth 1 0 (vapi_attempts lib (metered io) c req (resource_from_path target) allow
      (if meth = ''GET'' then vapi_read_retries c else 0) 1)"
    using sends_one_write [of req] build_request_method assms by metis
qed (simp_all add: sends_pure)

section \<open>Operations\<close>

text \<open>
  A plan lists methods, each with the least number of times it must be sent before anything that comes
  later is, and the number of times it may be sent; \<open>follows\<close> says that a sequence of methods keeps to it.
  A sequence that is \<open>complete\<close> has every least number.
\<close>

type_synonym plan = "(string \<times> nat \<times> nat) list"

fun follows :: "plan \<Rightarrow> string list \<Rightarrow> bool" where
  "follows [] xs = (xs = [])"
| "follows ((g, lo, n) # ps) xs =
     (\<exists>k \<le> n. \<exists>ys. xs = replicate k g @ ys \<and> (if lo \<le> k then follows ps ys else ys = []))"

fun complete :: "plan \<Rightarrow> string list \<Rightarrow> bool" where
  "complete [] xs = (xs = [])"
| "complete ((g, lo, n) # ps) xs = (\<exists>k \<le> n. \<exists>ys. xs = replicate k g @ ys \<and> lo \<le> k \<and> complete ps ys)"

abbreviation loose :: "plan \<Rightarrow> bool" where
  "loose p \<equiv> list_all (\<lambda>(g, lo, n). lo = 0) p"

lemma follows_append: "complete p xs \<Longrightarrow> follows q ys \<Longrightarrow> follows (p @ q) (xs @ ys)"
proof (induction p arbitrary: xs)
  case Nil
  then show ?case by simp
next
  case (Cons a p)
  obtain g lo n where a: "a = (g, lo, n)" by (cases a)
  with Cons.prems obtain k zs where "k \<le> n" "xs = replicate k g @ zs" "lo \<le> k" "complete p zs" by auto
  with Cons.IH Cons.prems(2) a show ?case by (auto intro!: exI [of _ k] exI [of _ "zs @ ys"])
qed

lemma complete_loose: "loose p \<Longrightarrow> complete p xs = follows p xs"
  by (induction p arbitrary: xs) auto

lemma follows_nothing: "follows p []"
proof (induction p)
  case (Cons a p)
  then show ?case by (cases a) (auto intro: exI [of _ 0])
qed simp

lemma follows_prefix: "follows p xs \<Longrightarrow> follows (p @ q) xs"
proof (induction p arbitrary: xs)
  case (Cons a p)
  obtain g lo n where a: "a = (g, lo, n)" by (cases a)
  with Cons.prems obtain k zs where k: "k \<le> n" "xs = replicate k g @ zs" "if lo \<le> k then follows p zs else zs = []" by auto
  then have "if lo \<le> k then follows (p @ q) zs else zs = []" using Cons.IH by auto
  with k(1,2) a show ?case by (auto intro!: exI [of _ k])
qed (simp add: follows_nothing)

definition plans :: "plan \<Rightarrow> rat \<Rightarrow> ('w metered, 'a) act \<Rightarrow> bool" where
  "plans p s m \<longleftrightarrow>
     (\<forall>ms t w r ms' t' w'. m (ms, t, w) = (r, (ms', t', w')) \<longrightarrow>
        (\<exists>xs. follows p xs \<and> ms' = rev xs @ ms) \<and> t \<le> t' \<and> t' \<le> t + s)"

lemma planD:
  "plans p s m \<Longrightarrow> m (ms, t, w) = (r, (ms', t', w')) \<Longrightarrow>
     (\<exists>xs. follows p xs \<and> ms' = rev xs @ ms) \<and> t \<le> t' \<and> t' \<le> t + s"
  unfolding plans_def by blast

lemma plan_sends: "sends g n s m \<Longrightarrow> plans [(g, lo, n)] s m"
  unfolding plans_def sends_def by (auto; metis rev_replicate)

text \<open>\<open>delivers p m\<close>: when \<open>m\<close> returns it has sent what \<open>p\<close> asks for at least.\<close>

definition delivers :: "plan \<Rightarrow> ('w metered, 'a) act \<Rightarrow> bool" where
  "delivers p m \<longleftrightarrow>
     (\<forall>ms t w x ms' t' w'. m (ms, t, w) = (Inr x, (ms', t', w')) \<longrightarrow> (\<exists>xs. complete p xs \<and> ms' = rev xs @ ms))"

lemma delivers_loose: "loose p \<Longrightarrow> plans p s m \<Longrightarrow> delivers p m"
  using complete_loose unfolding plans_def delivers_def by blast

lemma plan_pure: "0 \<le> s \<Longrightarrow> plans p s (aret x)" "0 \<le> s \<Longrightarrow> plans p s (araise e)" "0 \<le> s \<Longrightarrow> plans p s (alift r)"
  by (auto simp: plans_def follows_nothing)

text \<open>After a first part that keeps to \<open>p\<close>, a second that keeps to \<open>q\<close>, if the first completed its part.\<close>

lemma plan_stop: "plans p s m \<Longrightarrow> m (ms, t, w) = (x, (ms', t', w')) \<Longrightarrow> 0 \<le> u \<Longrightarrow>
    (\<exists>xs. follows (p @ q) xs \<and> ms' = rev xs @ ms) \<and> t \<le> t' \<and> t' \<le> t + (s + u)"
  using planD [of p s m ms t w x ms' t' w'] follows_prefix by (auto intro: add_increasing2)

lemma plan_step:
  assumes m: "m (ms, t, w) = (x, (ms1, t1, w1))" "plans p s m"
    and first: "\<exists>xs. complete p xs \<and> ms1 = rev xs @ ms"
    and f: "f (ms1, t1, w1) = (r, (ms', t', w'))" "plans q u f"
  shows "(\<exists>xs. follows (p @ q) xs \<and> ms' = rev xs @ ms) \<and> t \<le> t' \<and> t' \<le> t + (s + u)"
proof -
  from first obtain xs where xs: "complete p xs" "ms1 = rev xs @ ms" by blast
  from planD [OF f(2,1)] obtain ys where ys: "follows q ys" "ms' = rev ys @ ms1" "t1 \<le> t'" "t' \<le> t1 + u" by blast
  have "follows (p @ q) (xs @ ys)" "ms' = rev (xs @ ys) @ ms" using follows_append xs ys by auto
  with planD [OF m(2,1)] ys show ?thesis by (intro conjI) (blast, auto)
qed

lemma plan_abind:
  assumes "plans p s m" "delivers p m" "\<And>x. plans q u (f x)" "0 \<le> u"
  shows "plans (p @ q) (s + u) (abind m f)"
  unfolding plans_def
proof (intro allI impI)
  fix ms t w r ms' t' w'
  assume run: "abind m f (ms, t, w) = (r, (ms', t', w'))"
  obtain x ms1 t1 w1 where m: "m (ms, t, w) = (x, (ms1, t1, w1))" by (metis prod_cases4)
  show "(\<exists>xs. follows (p @ q) xs \<and> ms' = rev xs @ ms) \<and> t \<le> t' \<and> t' \<le> t + (s + u)"
  proof (cases x)
    case (Inl e)
    with run m have "m (ms, t, w) = (x, (ms', t', w'))" by (simp add: abind_def)
    then show ?thesis by (rule plan_stop [OF assms(1) _ assms(4)])
  next
    case (Inr y)
    with m assms(2) have "\<exists>xs. complete p xs \<and> ms1 = rev xs @ ms" unfolding delivers_def by blast
    moreover from run m Inr have "f y (ms1, t1, w1) = (r, (ms', t', w'))" by (simp add: abind_def)
    ultimately show ?thesis by (rule plan_step [OF m assms(1) _ _ assms(3)])
  qed
qed

lemma plan_on_ambiguous:
  assumes "plans p s m" "loose p" "\<And>e. plans q u (h e)" "0 \<le> u"
  shows "plans (p @ q) (s + u) (on_ambiguous m h)"
  unfolding plans_def on_ambiguous_def
proof (intro allI impI)
  fix ms t w r ms' t' w'
  assume run: "acatch m (\<lambda>e. if is_ambiguous e then h e else araise e) (ms, t, w) = (r, (ms', t', w'))"
  obtain x ms1 t1 w1 where m: "m (ms, t, w) = (x, (ms1, t1, w1))" by (metis prod_cases4)
  have first: "\<exists>xs. complete p xs \<and> ms1 = rev xs @ ms"
    using planD [OF assms(1) m] complete_loose [OF assms(2)] by blast
  show "(\<exists>xs. follows (p @ q) xs \<and> ms' = rev xs @ ms) \<and> t \<le> t' \<and> t' \<le> t + (s + u)"
  proof (cases "\<exists>e. x = Inl e \<and> is_ambiguous e")
    case True
    then obtain e where "x = Inl e" "is_ambiguous e" by blast
    with run m have "h e (ms1, t1, w1) = (r, (ms', t', w'))" by (simp add: acatch_def)
    then show ?thesis by (rule plan_step [OF m assms(1) first _ assms(3)])
  next
    case False
    with run m have "m (ms, t, w) = (x, (ms', t', w'))" by (cases x) (auto simp: acatch_def)
    then show ?thesis by (rule plan_stop [OF assms(1) _ assms(4)])
  qed
qed

lemma plan_given:
  "(\<And>x. r = Inr x \<Longrightarrow> plans p s (f x)) \<Longrightarrow> 0 \<le> s \<Longrightarrow> plans p s (abind (alift r) f)"
  by (cases r) (simp_all add: plan_pure)

lemma plan_last:
  assumes "plans p s m" "\<And>x. plans [] 0 (f x)"
  shows "plans p s (abind m f)"
  unfolding plans_def
proof (intro allI impI)
  fix ms t w r ms' t' w'
  assume run: "abind m f (ms, t, w) = (r, (ms', t', w'))"
  obtain x ms1 t1 w1 where m: "m (ms, t, w) = (x, (ms1, t1, w1))" by (metis prod_cases4)
  note one = planD [OF assms(1) m]
  show "(\<exists>xs. follows p xs \<and> ms' = rev xs @ ms) \<and> t \<le> t' \<and> t' \<le> t + s"
  proof (cases x)
    case (Inl e)
    with run m one show ?thesis by (simp add: abind_def)
  next
    case (Inr y)
    with run m have "f y (ms1, t1, w1) = (r, (ms', t', w'))" by (simp add: abind_def)
    from planD [OF assms(2) this] one show ?thesis by auto
  qed
qed

text \<open>A read that returns was sent.\<close>

definition heard :: "('a \<Rightarrow> bool) \<Rightarrow> ('w metered, 'a) act \<Rightarrow> bool" where
  "heard P m \<longleftrightarrow> (\<forall>ms t w x ms' t' w'. m (ms, t, w) = (Inr x, (ms', t', w')) \<longrightarrow> P x \<longrightarrow> length ms < length ms')"

lemma heard_basic: "heard P (araise e)" "heard (\<lambda>_. False) m" "(\<And>x. r \<noteq> Inr x) \<Longrightarrow> heard P (alift r)"
  by (auto simp: heard_def)

definition swells :: "('w metered, 'a) act \<Rightarrow> bool" where
  "swells m \<longleftrightarrow> (\<forall>ms t w x ms' t' w'. m (ms, t, w) = (x, (ms', t', w')) \<longrightarrow> length ms \<le> length ms')"

lemma swells_sends: "sends g n s m \<Longrightarrow> swells m"
  unfolding swells_def by (auto dest: sendsD)

lemma swells_basic: "swells (aret x)" "swells (araise e)" "swells (alift r)"
    "swells (emit_line (vapi_print (metered io)) line)" "swells (vapi_sleep (metered io) d)"
  by (auto simp: swells_def metered_def emit_line_def split: prod.splits)

lemma swells_bind:
  assumes "swells m" "\<And>x. swells (f x)"
  shows "swells (abind m f)"
  unfolding swells_def
proof (intro allI impI)
  fix ms t w y ms' t' w'
  assume run: "abind m f (ms, t, w) = (y, (ms', t', w'))"
  obtain x ms1 t1 w1 where m: "m (ms, t, w) = (x, (ms1, t1, w1))" by (metis prod_cases4)
  with assms(1) have "length ms \<le> length ms1" unfolding swells_def by blast
  moreover have "length ms1 \<le> length ms'"
  proof (cases x)
    case (Inl e)
    with run m show ?thesis by (simp add: abind_def)
  next
    case (Inr z)
    with run m have "f z (ms1, t1, w1) = (y, (ms', t', w'))" by (simp add: abind_def)
    with assms(2) show ?thesis unfolding swells_def by blast
  qed
  ultimately show "length ms \<le> length ms'" by simp
qed

lemma heard_bind:
  assumes "heard P m" "swells m" "\<And>x. P x \<Longrightarrow> swells (f x)" "\<And>x. \<not> P x \<Longrightarrow> heard Q (f x)"
  shows "heard Q (abind m f)"
  unfolding heard_def
proof (intro allI impI)
  fix ms t w y ms' t' w'
  assume run: "abind m f (ms, t, w) = (Inr y, (ms', t', w'))" and y: "Q y"
  obtain x ms1 t1 w1 where m: "m (ms, t, w) = (x, (ms1, t1, w1))" by (metis prod_cases4)
  from run m obtain z where z: "x = Inr z" "f z (ms1, t1, w1) = (Inr y, (ms', t', w'))"
    by (cases x) (auto simp: abind_def)
  have le: "length ms \<le> length ms1" using assms(2) m unfolding swells_def by blast
  show "length ms < length ms'"
  proof (cases "P z")
    case True
    with assms(1) m z(1) have "length ms < length ms1" unfolding heard_def by blast
    moreover have "length ms1 \<le> length ms'" using assms(3) [OF True] z(2) unfolding swells_def by blast
    ultimately show ?thesis by simp
  next
    case False
    with assms(4) z(2) y have "length ms1 < length ms'" unfolding heard_def by blast
    with le show ?thesis by simp
  qed
qed

lemma heard_after: "swells m \<Longrightarrow> (\<And>x. heard Q (f x)) \<Longrightarrow> heard Q (abind m f)"
  by (rule heard_bind [where P = "\<lambda>_. False", OF heard_basic(2)]) simp_all

lemma heard_given: "(\<And>x. r = Inr x \<Longrightarrow> heard Q (f x)) \<Longrightarrow> heard Q (abind (alift r) f)"
  by (cases r) (simp_all add: heard_basic)

lemma heard_open: "heard (\<lambda>o'. o' \<noteq> Unreachable) (vapi_open (metered io) req)"
  unfolding heard_def
proof (intro allI impI)
  fix ms t w x ms' t' w'
  assume run: "vapi_open (metered io) req (ms, t, w) = (Inr x, (ms', t', w'))" and x: "x \<noteq> Unreachable"
  obtain d ms1 t1 w1 where d: "timeout_seconds (metered io) (ms, t, w) = (d, (ms1, t1, w1))" by (metis prod_cases4)
  have same: "ms1 = ms" using sendsD [OF sends_timeout d] by auto
  show "length ms < length ms'"
  proof (cases d)
    case (Inl e)
    with run x d show ?thesis
      by (auto simp: vapi_open_def acatch_def abind_def aret_def araise_def split: if_split_asm)
  next
    case (Inr limit)
    obtain r w2 where r: "vapi_send io req limit w1 = (r, w2)" by fastforce
    have "ms' = req_method req # ms1"
      using run x d Inr r
      by (cases r) (auto simp: vapi_open_def acatch_def abind_def aret_def araise_def alift_def metered_def
          split: if_split_asm prod.split_asm http_result.split_asm sum.split_asm)
    with same show ?thesis by simp
  qed
qed

lemma swells_attempts: "swells (vapi_attempts lib (metered io) c req resource allow left attempt)"
proof (induction left arbitrary: attempt)
  case 0
  show ?case unfolding vapi_attempts.simps [of _ _ _ _ _ _ 0] Let_def
    by (rule swells_bind [OF swells_sends [OF sends_open]])
      (auto intro!: swells_bind swells_basic split: opened.split)
next
  case (Suc left)
  show ?case unfolding vapi_attempts.simps [of _ _ _ _ _ _ "Suc left"] Let_def
    by (rule swells_bind [OF swells_sends [OF sends_open]])
      (auto intro!: swells_bind swells_basic Suc.IH split: opened.split bool.split)
qed

lemma heard_attempts: "heard (\<lambda>_. True) (vapi_attempts lib (metered io) c req resource allow left attempt)"
proof (induction left arbitrary: attempt)
  case 0
  show ?case unfolding vapi_attempts.simps [of _ _ _ _ _ _ 0] Let_def
    by (rule heard_bind [OF heard_open swells_sends [OF sends_open]])
      (auto intro!: swells_bind swells_basic heard_after heard_basic split: opened.split)
next
  case (Suc left)
  show ?case unfolding vapi_attempts.simps [of _ _ _ _ _ _ "Suc left"] Let_def
    by (rule heard_bind [OF heard_open swells_sends [OF sends_open]])
      (auto intro!: swells_bind swells_basic swells_attempts heard_after heard_basic Suc.IH split: opened.split bool.split)
qed

lemma heard_request: "heard (\<lambda>_. True) (vapi_request lib (metered io) c meth target payload allow)"
  unfolding vapi_request_def
  by (rule heard_given, rule heard_bind [OF heard_attempts swells_attempts]) (simp_all add: swells_basic)

lemma heard_get: "heard (\<lambda>_. True) (http_get lib (metered io) c resource rid)"
proof -
  have "swells (vapi_request lib (metered io) c meth target payload allow)" for meth target payload allow
    unfolding vapi_request_def by (intro swells_bind swells_basic swells_attempts)
  then show ?thesis unfolding http_get_def
    by (intro heard_given heard_bind [OF heard_request]) (auto simp: swells_basic split: pyval.split)
qed

abbreviation read_plan :: "nat \<Rightarrow> vapi_client \<Rightarrow> plan" where
  "read_plan lo c \<equiv> [(''GET'', lo, Suc (vapi_read_retries c))]"

abbreviation read_wait :: "vapi_client \<Rightarrow> rat" where
  "read_wait c \<equiv> of_nat (vapi_read_retries c) * vapi_max_retry_after c"

lemma plan_get:
  assumes "0 \<le> vapi_max_retry_after c"
  shows "plans (read_plan lo c) (read_wait c) (http_get lib (metered io) c resource rid)"
  unfolding http_get_def
  by (rule plan_given, rule plan_last [OF plan_sends [OF read_request [OF assms]]])
    (use assms in \<open>auto simp: plan_pure split: pyval.split\<close>)

text \<open>A resource is read at least once when its read returns.\<close>

lemma delivers_get:
  assumes "0 \<le> vapi_max_retry_after c"
  shows "delivers (read_plan 1 c) (http_get lib (metered io) c resource rid)"
  unfolding delivers_def
proof (intro allI impI)
  fix ms t w x ms' t' w'
  assume run: "http_get lib (metered io) c resource rid (ms, t, w) = (Inr x, (ms', t', w'))"
  from planD [OF plan_get [OF assms, of 0] run] obtain k
    where k: "k \<le> Suc (vapi_read_retries c)" "ms' = rev (replicate k ''GET'') @ ms" by auto
  have "length ms < length ms'"
    using heard_get [of lib io c resource rid] run unfolding heard_def by blast
  with k have "1 \<le> k" by simp
  with k show "\<exists>xs. complete (read_plan 1 c) xs \<and> ms' = rev xs @ ms"
    by (intro exI [of _ "replicate k ''GET''"]) auto
qed

lemma plan_remove:
  "plans [(''DELETE'', 0, 1)] 0 (abind (vapi_request lib (metered io) c ''DELETE'' target payload allow) (\<lambda>_. aret ()))"
  by (rule plan_last [OF plan_sends [OF write_request]]) (simp_all add: plan_pure)

lemma plan_delete:
  assumes "0 \<le> vapi_max_retry_after c"
  shows "plans ([(''DELETE'', 0, 1)] @ read_plan 1 c @ [(''DELETE'', 0, 1)] @ read_plan 0 c)
    (0 + (read_wait c + (0 + read_wait c))) (http_delete lib (metered io) c resource rid)"
proof -
  have pos: "0 \<le> read_wait c" using assms by simp
  have absent: "plans (read_plan 0 c) (read_wait c) (abind (http_get lib (metered io) c resource i)
      (\<lambda>d. if d = None then aret () else araise e))" for i e
    by (rule plan_last [OF plan_get [OF assms]]) (simp add: plan_pure)
  have again: "plans ([(''DELETE'', 0, 1)] @ read_plan 0 c) (0 + read_wait c)
      (if d = None then aret ()
       else on_ambiguous (abind (vapi_request lib (metered io) c ''DELETE'' target None True) (\<lambda>_. aret ()))
         (\<lambda>e. abind (http_get lib (metered io) c resource i) (\<lambda>d. if d = None then aret () else araise e)))"
    for d :: "pydict option" and i target
  proof (cases "d = None")
    case True
    with pos show ?thesis by (simp add: plan_pure)
  next
    case False
    then show ?thesis by (simp only: if_False) (rule plan_on_ambiguous [OF plan_remove _ absent pos], simp)
  qed
  show ?thesis
    unfolding http_delete_def Let_def
    by (rule plan_given, rule plan_on_ambiguous [OF plan_remove _ plan_abind [OF plan_get [OF assms] delivers_get [OF assms] again]])
      (use assms in simp_all)
qed

lemma plan_update:
  assumes "0 \<le> vapi_max_retry_after c"
  shows "plans ([(''PATCH'', 0, 1)] @ read_plan 1 c @ [(''PATCH'', 0, 1)] @ read_plan 0 c)
    (0 + (read_wait c + (0 + read_wait c))) (http_update lib (metered io) c resource rid payload)"
proof -
  have pos: "0 \<le> read_wait c" using assms by simp
  let ?patch = "\<lambda>target. vapi_request lib (metered io) c ''PATCH'' target (Some payload) False"
  have written: "plans [] 0 (expect_written (metered io) ''PATCH'' resource v)" for v
  proof -
    have "plans [] 0 (abind (emit_line (vapi_print (metered io)) line) (\<lambda>_. araise e))" for line e
      by (auto simp: plans_def emit_line_def metered_def abind_def)
    then show ?thesis by (auto simp: expect_written_def plan_pure split: pyval.split)
  qed
  have first: "plans [(''PATCH'', 0, 1)] 0 (abind (?patch target) (expect_written (metered io) ''PATCH'' resource))" for target
    by (rule plan_last [OF plan_sends [OF write_request]]) (simp_all add: written)
  have settled: "plans (read_plan 0 c) (read_wait c) (abind (http_get lib (metered io) c resource i)
      (\<lambda>d. if took_effect d payload then aret (Inr (the d)) else araise e))"
    for i e :: "_" 
    by (rule plan_last [OF plan_get [OF assms]]) (simp add: plan_pure)
  have second: "plans [(''PATCH'', 0, 1)] 0 (abind (?patch target) (\<lambda>v. aret (Inl v :: pyval + pydict)))" for target
    by (rule plan_last [OF plan_sends [OF write_request]]) (simp_all add: plan_pure)
  have again: "plans ([(''PATCH'', 0, 1)] @ read_plan 0 c) (0 + read_wait c)
      (if took_effect d payload then aret (the d)
       else abind (on_ambiguous (abind (?patch target) (\<lambda>v. aret (Inl v)))
         (\<lambda>e. abind (http_get lib (metered io) c resource i)
           (\<lambda>d. if took_effect d payload then aret (Inr (the d)) else araise e))) (\<lambda>r.
        case r of
          Inr d \<Rightarrow> aret d
        | Inl (VDict d) \<Rightarrow> aret d
        | Inl _ \<Rightarrow> araise (VapiAmbiguousWriteError ''PATCH'' (lit resource) (Some 200))))"
    for d target i
  proof (cases "took_effect d payload")
    case True
    with pos show ?thesis by (simp add: plan_pure)
  next
    case False
    then show ?thesis
      by (simp only: if_False, intro plan_last [OF plan_on_ambiguous [OF second _ settled pos]])
        (simp, simp add: plan_pure split: sum.split pyval.split)
  qed
  show ?thesis
    unfolding http_update_def Let_def
    by (rule plan_given, rule plan_on_ambiguous [OF first _ plan_abind [OF plan_get [OF assms] delivers_get [OF assms] again]])
      (use assms in simp_all)
qed

section \<open>The bounds of a client\<close>

lemma positive_number_bounds: "positive_number m e v = Inr r \<Longrightarrow> 0 < r \<and> r \<le> m"
  unfolding positive_number_def rbind_def by (auto split: if_split_asm sum.split_asm pyfloat.split_asm)

lemma client_init_bounds:
  assumes "vapi_client_init lib key base retries max_retry = Inr c"
  shows "vapi_read_retries c \<le> 6 \<and> 0 < vapi_max_retry_after c \<and> vapi_max_retry_after c \<le> 30"
  using assms
  by (auto simp: vapi_client_init_def result_simps MAX_READ_RETRIES_def MAX_RETRY_AFTER_SECONDS_def
      split: if_split_asm dest!: positive_number_bounds)

text \<open>A plan may be replaced by one that allows more.\<close>

lemma follows_weaken:
  "follows p xs \<Longrightarrow> list_all2 (\<lambda>(g, lo, n) (g', lo', n'). g = g' \<and> lo' \<le> lo \<and> n \<le> n') p q \<Longrightarrow> follows q xs"
proof (induction p arbitrary: q xs)
  case (Cons a p)
  obtain g lo n where a: "a = (g, lo, n)" by (cases a)
  with Cons.prems(2) obtain lo' n' q' where q: "q = (g, lo', n') # q'" "lo' \<le> lo" "n \<le> n'"
    "list_all2 (\<lambda>(g, lo, n) (g', lo', n'). g = g' \<and> lo' \<le> lo \<and> n \<le> n') p q'" by (auto simp: list_all2_Cons1)
  from Cons.prems(1) a obtain k ys where k: "k \<le> n" "xs = replicate k g @ ys" "if lo \<le> k then follows p ys else ys = []"
    by auto
  then have "if lo' \<le> k then follows q' ys else ys = []"
    using Cons.IH [OF _ q(4), of ys] q(2) follows_nothing by (auto split: if_split_asm)
  with k q show ?case by (auto intro!: exI [of _ k])
qed simp

text \<open>
  C21.  Every operation of a constructed client ends within bounds, whatever the service does, and never
  repeats a write before it has read back: deleting sends at most one DELETE, then at most seven GETs, and
  a second DELETE only after at least one of these, then at most seven GETs more, in this order, and an
  update the same with PATCH; a single request sends a write at most once and a read at most seven times.
  The time slept is at most 180 seconds for each round of reads, and none for a write.
\<close>

theorem vapi_operations_bounded:
  assumes "vapi_client_init lib key base retries max_retry = Inr c"
  shows "plans [(''DELETE'', 0, 1), (''GET'', 1, 7), (''DELETE'', 0, 1), (''GET'', 0, 7)] 360
      (http_delete lib (metered io) c resource rid) \<and>
    plans [(''PATCH'', 0, 1), (''GET'', 1, 7), (''PATCH'', 0, 1), (''GET'', 0, 7)] 360
      (http_update lib (metered io) c resource rid payload) \<and>
    plans [(''POST'', 0, 1)] 0 (vapi_request lib (metered io) c ''POST'' target body allow) \<and>
    plans [(''GET'', 0, 7)] 180 (vapi_request lib (metered io) c ''GET'' target body allow)"
proof -
  note c = client_init_bounds [OF assms]
  then have pos: "0 \<le> vapi_max_retry_after c" and n: "vapi_read_retries c \<le> 6" by simp_all
  have "of_nat (vapi_read_retries c) * vapi_max_retry_after c \<le> 6 * (30 :: rat)"
    using c n by (intro mult_mono) (auto simp: of_nat_le_iff [of _ 6, simplified])
  then have wait: "read_wait c \<le> 180" by simp
  have widen: "plans q u m" if "plans p s m" "list_all2 (\<lambda>(g, lo, n) (g', lo', n'). g = g' \<and> lo' \<le> lo \<and> n \<le> n') p q" "s \<le> u"
    for p q s u and m :: "('b metered, 'c) act"
    using that follows_weaken unfolding plans_def by (meson add_left_mono order_trans)
  show ?thesis
  proof (intro conjI)
    show "plans [(''DELETE'', 0, 1), (''GET'', 1, 7), (''DELETE'', 0, 1), (''GET'', 0, 7)] 360
        (http_delete lib (metered io) c resource rid)"
      by (rule widen [OF plan_delete [OF pos]]) (use n wait in \<open>auto simp: mult.commute\<close>)
    show "plans [(''PATCH'', 0, 1), (''GET'', 1, 7), (''PATCH'', 0, 1), (''GET'', 0, 7)] 360
        (http_update lib (metered io) c resource rid payload)"
      by (rule widen [OF plan_update [OF pos]]) (use n wait in \<open>auto simp: mult.commute\<close>)
    show "plans [(''POST'', 0, 1)] 0 (vapi_request lib (metered io) c ''POST'' target body allow)"
      by (rule plan_sends [OF write_request]) simp
    show "plans [(''GET'', 0, 7)] 180 (vapi_request lib (metered io) c ''GET'' target body allow)"
      by (rule widen [OF plan_sends [OF read_request [OF pos]]]) (use n wait in auto)
  qed
qed

definition demo_vapi_client :: vapi_client where
  "demo_vapi_client = \<lparr>vapi_key = replicate 24 97, vapi_base = lit ''https://api.vapi.ai'',
     vapi_read_retries = 3, vapi_max_retry_after = 5\<rparr>"

lemma demo_vapi_client_init:
  "vapi_client_init ascii_pylib (VStr (replicate 24 97)) (lit ''https://api.vapi.ai/'') (VInt 3) (VFloat (Fin 5)) =
     Inr demo_vapi_client"
proof -
  let ?u = "\<lparr>scheme = lit ''https'', netloc = lit ''api.vapi.ai'', path = lit ''/'', query = [], fragment = []\<rparr>"
  have u: "urlsplit ascii_pylib (lit ''https://api.vapi.ai/'') = Some ?u"
    by (simp add: urlsplit_def clean_url_def split_scheme_def split_netloc_def netloc_ok_def before_def after_def
        scheme_char_def lstrip_if_def ascii_lower_def Let_def eval_simps)
  have host: "hostname ascii_pylib ?u \<noteq> []" "no_userinfo ?u"
    by (simp_all add: no_userinfo_def username_def password_def userinfo_def hostname_def
        split_port_def host_part_def before_def py_lower_def ascii_lower_def eval_simps)
  have base: "rstrip_if (\<lambda>c. c = 47) (lit ''https://api.vapi.ai/'') = lit ''https://api.vapi.ai''"
    by (simp add: rstrip_if_def lstrip_if_def lit_def)
  from u host base show ?thesis
    by (simp add: vapi_client_init_def demo_vapi_client_def VAPI_API_BASE_URLS_def MAX_READ_RETRIES_def
        MAX_RETRY_AFTER_SECONDS_def positive_number_def number_float_def)
qed

definition down_io :: "unit vapi_io" where
  "down_io = \<lparr>vapi_send = (\<lambda>_ _. araise (PyError ''URLError'')), vapi_timeout = None,
     vapi_sleep = (\<lambda>_. aret ()), vapi_print = (\<lambda>_ w. w)\<rparr>"

theorem vapi_operations_bounded_witness:
  "plans [(''DELETE'', 0, 1), (''GET'', 1, 7), (''DELETE'', 0, 1), (''GET'', 0, 7)] 360
     (http_delete ascii_pylib (metered down_io) demo_vapi_client ''tool'' (lit ''t1''))"
  by (rule conjunct1 [OF vapi_operations_bounded [OF demo_vapi_client_init]])

end
