(* ===== verification/Custom.thy ===== *)
theory Custom imports Route begin

text \<open>
  What the two CloudFormation custom resources (\<open>lambda/vapi_provisioner/handler.py\<close> and
  \<open>lambda/configuration/handler.py\<close>) share: the response document, the \<open>PUT\<close> request that carries
  it to the URL of the event, and its delivery through the opener of \<open>urllib\<close>, which is a parameter.
\<close>

section \<open>The response\<close>

definition response_document ::
    "pydict \<Rightarrow> string \<Rightarrow> pyval \<Rightarrow> pydict \<Rightarrow> pystr \<Rightarrow> pyval result" where
  "response_document event status pid data reason =
     rbind (subscript (VDict event) ''StackId'') (\<lambda>stack.
     rbind (subscript (VDict event) ''RequestId'') (\<lambda>request.
     rbind (subscript (VDict event) ''LogicalResourceId'') (\<lambda>logical.
     Inr (VDict (mk
       [(''Status'', VStr (lit status)), (''Reason'', VStr (take 512 reason)),
        (''PhysicalResourceId'', pid), (''StackId'', stack), (''RequestId'', request),
        (''LogicalResourceId'', logical), (''NoEcho'', VBool False), (''Data'', VDict data)])))))"

text \<open>
  \<open>urllib.request.Request\<close> strips spaces, angle brackets and a leading \<open>URL:\<close>, and refuses a URL
  without a scheme.  The printed form of a value that is not a string has none.
\<close>

definition unwrap_url :: "pystr \<Rightarrow> pystr" where
  "unwrap_url s =
     (let t = strip_if is_space s;
          u = (if t \<noteq> [] \<and> hd t = 60 \<and> last t = 62 then strip_if is_space (butlast (tl t)) else t)
      in if take 4 u = lit ''URL:'' then strip_if is_space (drop 4 u) else u)"

definition has_scheme :: "pystr \<Rightarrow> bool" where
  "has_scheme u \<longleftrightarrow>
     (let p = takeWhile (\<lambda>c. c \<noteq> 47 \<and> c \<noteq> 58) u in p \<noteq> [] \<and> take 1 (drop (length p) u) = [58])"

definition request_url :: "pyval \<Rightarrow> pystr result" where
  "request_url v =
     (if is_str v \<and> has_scheme (unwrap_url (str_of v)) then Inr (unwrap_url (str_of v))
      else Inl (PyError ''ValueError''))"

definition response_request ::
    "pydict \<Rightarrow> string \<Rightarrow> pyval \<Rightarrow> pydict \<Rightarrow> pystr \<Rightarrow> http_request result" where
  "response_request event status pid data reason =
     rbind (response_document event status pid data reason) (\<lambda>doc.
     rbind (utf8_encode (json_dumps compact doc)) (\<lambda>body.
     rbind (rbind (subscript (VDict event) ''ResponseURL'') request_url) (\<lambda>u.
     Inr \<lparr>req_method = ''PUT'', req_url = u,
          req_headers = [(''content-type'', []), (''content-length'', dec_nat (length body))],
          req_body = body\<rparr>)))"

text \<open>One delivery: an HTTP error is a \<open>URLError\<close>, and reading the answer may fail as well.\<close>

definition deliver :: "(http_request \<Rightarrow> rat \<Rightarrow> ('w, http_result) act) \<Rightarrow> http_request \<Rightarrow> rat \<Rightarrow> ('w, unit) act" where
  "deliver opener req seconds =
     abind (opener req seconds) (\<lambda>r.
     case r of
       Answer _ body \<Rightarrow> abind (alift body) (\<lambda>_. aret ())
     | HttpError _ _ \<Rightarrow> araise (PyError ''URLError''))"

text \<open>\<open>v.get(k)\<close> on a value that need not be a dictionary.\<close>

definition attr_get :: "pyval \<Rightarrow> string \<Rightarrow> pyval result" where
  "attr_get v k = rbind (expect_dict (PyError ''AttributeError'') v) (\<lambda>d. Inr (get_key d k))"

end
