(* ===== verification/VapiResource.thy ===== *)
theory VapiResource imports Provision Custom Handlers begin

text \<open>
  \<open>lambda/vapi_provisioner/handler.py\<close>: the custom resource around \<open>provision_create\<close>,
  \<open>provision_update\<close> and \<open>provision_delete\<close>.  It reads its secrets, bounds every request by the
  time the invocation has left, binds the organization it finds to the deployment, and answers
  CloudFormation on every path.  Secrets Manager, the two openers, the context's clock, \<open>print\<close> and
  \<open>sleep\<close> are parameters; the state is the secret cache with the world.
\<close>

record 'w resource_services =
  rs_fetch :: "pystr \<Rightarrow> ('w, pyval) act"
  rs_put_secret :: "pyval \<Rightarrow> pystr \<Rightarrow> ('w, unit) act"
  rs_open :: "http_request \<Rightarrow> rat \<Rightarrow> ('w, http_result) act"
  rs_vapi :: "http_request \<Rightarrow> rat \<Rightarrow> ('w, http_result \<times> pystr option) act"
  rs_host :: "'w host"
  rs_remaining :: "('w, int) act option"
  rs_assets :: asset_root

type_synonym 'w cached = "secret_cache \<times> 'w"

definition on_rest :: "('w, 'a) act \<Rightarrow> ('w cached, 'a) act" where
  "on_rest m = (\<lambda>(cache, w). case m w of (r, w') \<Rightarrow> (r, (cache, w')))"

section \<open>Time\<close>

definition VAPI_REQUEST_TIMEOUT_SECONDS :: rat where "VAPI_REQUEST_TIMEOUT_SECONDS = 15"
definition CLOUDFORMATION_RESPONSE_RESERVE_SECONDS :: rat where "CLOUDFORMATION_RESPONSE_RESERVE_SECONDS = 15"
definition MIN_VAPI_REQUEST_TIMEOUT_SECONDS :: rat where "MIN_VAPI_REQUEST_TIMEOUT_SECONDS = 1"
definition CLOUDFORMATION_RESPONSE_TIMEOUT_SECONDS :: rat where "CLOUDFORMATION_RESPONSE_TIMEOUT_SECONDS = 6"
definition CLOUDFORMATION_RESPONSE_ATTEMPTS :: nat where "CLOUDFORMATION_RESPONSE_ATTEMPTS = 2"
definition CLOUDFORMATION_RESPONSE_MARGIN_SECONDS :: rat where "CLOUDFORMATION_RESPONSE_MARGIN_SECONDS = 2"

definition DEFAULT_SCREEN_POP_FIELDS_JSON :: pystr where
  "DEFAULT_SCREEN_POP_FIELDS_JSON = lit
     (''[{\"key\":\"customer_name\",\"label\":\"Customer\",\"description\":\"Caller name\",'' @
      ''\"type\":\"text\",\"required\":true,\"max_length\":256}]'')"

text \<open>Milliseconds to seconds and the differences are rounded to doubles.\<close>

definition remaining_seconds :: "int \<Rightarrow> rat" where
  "remaining_seconds ms = max 0 (float_rat (nearest_double (of_int ms / 1000)))"

definition time_left :: "'w resource_services \<Rightarrow> ('w, rat option) act" where
  "time_left sv =
     (case rs_remaining sv of
        None \<Rightarrow> aret None
      | Some ms \<Rightarrow> abind ms (\<lambda>i. aret (Some (remaining_seconds i))))"

definition vapi_request_timeout :: "'w resource_services \<Rightarrow> ('w, pyval) act" where
  "vapi_request_timeout sv =
     abind (time_left sv) (\<lambda>left.
     case left of
       None \<Rightarrow> aret (VFloat (Fin VAPI_REQUEST_TIMEOUT_SECONDS))
     | Some s \<Rightarrow>
         let available = float_rat (nearest_double (s - CLOUDFORMATION_RESPONSE_RESERVE_SECONDS)) in
         if available < MIN_VAPI_REQUEST_TIMEOUT_SECONDS
         then araise (vapi_error ''vapi_operation_budget_exhausted'')
         else aret (VFloat (Fin (min VAPI_REQUEST_TIMEOUT_SECONDS available))))"

definition response_request_timeout :: "'w resource_services \<Rightarrow> ('w, rat) act" where
  "response_request_timeout sv =
     abind (time_left sv) (\<lambda>left.
     case left of
       None \<Rightarrow> aret CLOUDFORMATION_RESPONSE_TIMEOUT_SECONDS
     | Some s \<Rightarrow>
         let available = float_rat (nearest_double (s - CLOUDFORMATION_RESPONSE_MARGIN_SECONDS)) in
         if available \<le> 0 then aret (1 / 4)
         else aret (max (1 / 4) (min CLOUDFORMATION_RESPONSE_TIMEOUT_SECONDS available)))"

section \<open>The answer\<close>

text \<open>At most two deliveries; only a network error is tried again.\<close>

fun send_attempts :: "'w resource_services \<Rightarrow> http_request \<Rightarrow> nat \<Rightarrow> ('w, unit) act" where
  "send_attempts sv req 0 = aret ()"
| "send_attempts sv req (Suc left) =
     acatch (abind (response_request_timeout sv) (deliver (rs_open sv) req))
       (\<lambda>e. if e \<in> set NETWORK_ERRORS \<and> left \<noteq> 0 then send_attempts sv req left else araise e)"

definition send_response ::
    "'w resource_services \<Rightarrow> pydict \<Rightarrow> string \<Rightarrow> pyval \<Rightarrow> pydict \<Rightarrow> pystr \<Rightarrow> ('w, unit) act" where
  "send_response sv event status pid data reason =
     abind (alift (response_request event status pid data reason)) (\<lambda>req.
     send_attempts sv req CLOUDFORMATION_RESPONSE_ATTEMPTS)"

section \<open>Configuration of one request\<close>

definition boolean_property :: "pyval \<Rightarrow> string \<Rightarrow> bool result" where
  "boolean_property v field =
     (if py_eq (VBool True) v \<or> v \<in> {VStr (lit ''true''), VStr (lit ''True'')} then Inr True
      else if py_eq (VBool False) v \<or> v \<in> {VStr (lit ''false''), VStr (lit ''False''), VNone} then Inr False
      else Inl (vapi_error (field @ ''_invalid'')))"

definition load_resource_secret :: "'w resource_services \<Rightarrow> moment \<Rightarrow> pyval \<Rightarrow> ('w cached, pystr) act" where
  "load_resource_secret sv mo v =
     (if is_str v then load_secret (rs_fetch sv) (str_of v) (at_start mo) True 32 else araise secret_invalid)"

definition resource_config ::
    "pylib \<Rightarrow> 'w resource_services \<Rightarrow> moment \<Rightarrow> pydict \<Rightarrow> pydict \<Rightarrow> bool \<Rightarrow> ('w cached, provisioning_config) act" where
  "resource_config lib sv mo event p load_token =
     abind (alift (subscript (VDict event) ''StackId'')) (\<lambda>stack.
     abind (alift (subscript (VDict p) ''DeploymentId'')) (\<lambda>dep.
     abind (alift (subscript (VDict p) ''PrepareUrl'')) (\<lambda>prepare.
     abind (alift (subscript (VDict p) ''TransferUrl'')) (\<lambda>transfer.
     abind (if load_token
            then abind (alift (subscript (VDict p) ''WebhookSecretArn'')) (\<lambda>arn.
                 abind (load_resource_secret sv mo arn) (\<lambda>t. aret (Some t)))
            else aret None) (\<lambda>token.
     alift (provisioning_config_init lib stack dep prepare transfer
       (get_or p ''Model'' (VStr (lit ''gpt-4.1-mini''))) (get_or p ''VoiceId'' (VStr (lit ''Elliot'')))
       (get_or p ''ScreenPopFieldsJson'' (VStr DEFAULT_SCREEN_POP_FIELDS_JSON)) token (rs_assets sv)))))))"

text \<open>\<open>VapiHttpClient(api_key, "https://api.vapi.ai", request_timeout=...)\<close>\<close>

definition resource_io :: "'w resource_services \<Rightarrow> 'w vapi_io" where
  "resource_io sv =
     \<lparr>vapi_send = rs_vapi sv, vapi_timeout = Some (vapi_request_timeout sv),
      vapi_sleep = host_sleep (rs_host sv), vapi_print = host_print (rs_host sv)\<rparr>"

definition resource_api ::
    "pylib \<Rightarrow> 'w resource_services \<Rightarrow> moment \<Rightarrow> pydict \<Rightarrow> ('w cached, 'w vapi_api) act" where
  "resource_api lib sv mo p =
     abind (alift (subscript (VDict p) ''VapiApiKeySecretArn'')) (\<lambda>arn.
     abind (load_resource_secret sv mo arn) (\<lambda>key.
     abind (alift (vapi_client_init lib (VStr key) (lit ''https://api.vapi.ai'') (VInt DEFAULT_READ_RETRIES)
       (VFloat (Fin DEFAULT_MAX_RETRY_AFTER_SECONDS)))) (\<lambda>c.
     aret (http_api lib (resource_io sv) c))))"

section \<open>Binding the organization\<close>

definition binding_text :: "pystr \<Rightarrow> provisioned \<Rightarrow> pystr" where
  "binding_text org result = json_dumps compact (VDict (mk
     [(''status'', VStr (lit ''bound'')), (''organization_id'', VStr org),
      (''assistant_id'', VStr (prov_assistant result))]))"

definition bind_identity ::
    "'w resource_services \<Rightarrow> 'w vapi_api \<Rightarrow> pydict \<Rightarrow> provisioned \<Rightarrow> ('w, unit) act" where
  "bind_identity sv api p result =
     abind (api_get api ''assistant'' (prov_assistant result)) (\<lambda>assistant.
     let org = (case assistant of None \<Rightarrow> VNone | Some d \<Rightarrow> get_key d ''orgId'') in
     if \<not> is_str org \<or> str_of org = [] \<or> 128 < length (str_of org)
     then araise (vapi_error ''vapi_organization_identity_invalid'')
     else
     abind (alift (subscript (VDict p) ''VapiIdentityBindingArn'')) (\<lambda>sid.
     rs_put_secret sv sid (binding_text (str_of org) result)))"

definition emit_resource_operation :: "'w resource_services \<Rightarrow> string \<Rightarrow> string \<Rightarrow> moment \<Rightarrow> ('w, unit) act" where
  "emit_resource_operation sv event result mo =
     emit_line (host_print (rs_host sv))
       (emit_operation (lit event) (lit result) (at_start mo) (at_finish mo) (at_wall mo))"

text \<open>A create that cannot be bound deletes what it created; the first error is raised again.\<close>

definition bind_or_clean_up ::
    "'w resource_services \<Rightarrow> moment \<Rightarrow> 'w vapi_api \<Rightarrow> provisioning_config \<Rightarrow> pydict \<Rightarrow> bool \<Rightarrow> provisioned \<Rightarrow> ('w, unit) act" where
  "bind_or_clean_up sv mo api cfg p creating result =
     acatch (bind_identity sv api p result) (\<lambda>e.
       abind (if creating
              then acatch (provision_delete api cfg (VStr (physical_id result)))
                (\<lambda>_. emit_resource_operation sv ''vapi_provisioner_cleanup'' ''cleanup_failed'' mo)
              else aret ()) (\<lambda>_.
       araise e))"

section \<open>The handler\<close>

definition resource_data :: "provisioned \<Rightarrow> pydict" where
  "resource_data result = mk
     [(''AssistantId'', VStr (prov_assistant result)), (''PrepareToolId'', VStr (prov_tool result)),
      (''TransferToolMode'', VStr (lit ''inline'')), (''WebhookCredentialId'', VStr (prov_credential result))]"

definition resource_physical_id :: "pydict \<Rightarrow> pyval" where
  "resource_physical_id event = get_or event ''PhysicalResourceId'' (VStr PENDING_PHYSICAL_ID)"

definition request_is :: "pydict \<Rightarrow> string \<Rightarrow> bool" where
  "request_is event ty \<longleftrightarrow> get_key event ''RequestType'' = VStr (lit ty)"

text \<open>What a create or an update provisions.\<close>

definition provision_requested ::
    "pylib \<Rightarrow> 'w resource_services \<Rightarrow> moment \<Rightarrow> pydict \<Rightarrow> 'w vapi_api \<Rightarrow> provisioning_config \<Rightarrow>
     ('w cached, provisioned) act" where
  "provision_requested lib sv mo event api cfg =
     (if request_is event ''Create'' then on_rest (provision_create lib (rs_host sv) api cfg)
      else if request_is event ''Update'' then
        abind (alift (expect_dict (vapi_error ''old_resource_properties_invalid'')
          (get_key event ''OldResourceProperties''))) (\<lambda>old.
        abind (resource_config lib sv mo event old True) (\<lambda>old_cfg.
        on_rest (provision_update lib api old_cfg cfg (resource_physical_id event))))
      else araise (vapi_error ''request_type_invalid''))"

text \<open>The body of the \<open>try\<close>, up to the result it logs.\<close>

definition resource_body ::
    "pylib \<Rightarrow> 'w resource_services \<Rightarrow> moment \<Rightarrow> pydict \<Rightarrow> ('w cached, string) act" where
  "resource_body lib sv mo event =
     abind (alift (expect_dict (vapi_error ''resource_properties_invalid'')
       (get_key event ''ResourceProperties''))) (\<lambda>p.
     abind (alift (boolean_property (get_key p ''RetainVapiResourcesOnDelete'') ''retain_vapi_resources'')) (\<lambda>retain.
     if request_is event ''Delete'' \<and> retain
     then abind (on_rest (send_response sv event ''SUCCESS'' (resource_physical_id event) []
            (lit ''resources retained by policy''))) (\<lambda>_. aret ''delete_retained'')
     else
     abind (resource_api lib sv mo p) (\<lambda>api.
     abind (resource_config lib sv mo event p (\<not> request_is event ''Delete'')) (\<lambda>cfg.
     if request_is event ''Delete''
     then abind (on_rest (provision_delete api cfg (resource_physical_id event))) (\<lambda>_.
          abind (on_rest (send_response sv event ''SUCCESS'' (resource_physical_id event) []
            (lit ''recipe-owned resources deleted''))) (\<lambda>_. aret ''delete_success''))
     else
     abind (provision_requested lib sv mo event api cfg) (\<lambda>result.
     abind (on_rest (bind_or_clean_up sv mo api cfg p (request_is event ''Create'') result)) (\<lambda>_.
     abind (on_rest (send_response sv event ''SUCCESS'' (VStr (physical_id result)) (resource_data result)
       (lit ''recipe-owned Vapi resources are ready''))) (\<lambda>_.
     aret (if request_is event ''Create'' then ''create_success'' else ''update_success''))))))))"

text \<open>\<open>str(error)\<close> of a provisioning error, and the logged result, by the exception.\<close>

definition resource_failure :: "exn \<Rightarrow> string \<times> string" where
  "resource_failure e =
     (case e of
        VapiProvisioningError m \<Rightarrow> (m, ''provisioning_failed'')
      | VapiAmbiguousWriteError _ _ _ \<Rightarrow> (''vapi_write_ambiguous'', ''provisioning_failed'')
      | _ \<Rightarrow> (''internal_error'', ''internal_error''))"

definition resource_lambda ::
    "pylib \<Rightarrow> 'w resource_services \<Rightarrow> moment \<Rightarrow> pydict \<Rightarrow> ('w cached, unit) act" where
  "resource_lambda lib sv mo event s =
     (case resource_body lib sv mo event s of
        (Inr code, s1) \<Rightarrow> on_rest (emit_resource_operation sv ''vapi_provisioner'' code mo) s1
      | (Inl e, s1) \<Rightarrow>
          (case on_rest (send_response sv event ''FAILED'' (resource_physical_id event) []
                  (lit (fst (resource_failure e)))) s1 of
             (r, s2) \<Rightarrow>
               (r, snd (on_rest (emit_resource_operation sv ''vapi_provisioner'' (snd (resource_failure e)) mo) s2))))"

end
