(* ===== verification/VapiResourceSafety.thy ===== *)
theory VapiResourceSafety imports VapiResource begin

text \<open>
  CloudFormation is always answered.  A locale states what the custom resource needs of its services,
  with a log of the deliveries of its answers, of what each met, and of the identities bound; inside it,
  every invocation delivers its success, after the binding, or a failure, with the retries of the code.
  It is interpreted on every set of services, whatever the opener of the answers does.
\<close>

section \<open>Frames\<close>

lemma keeps_if [intro]: "keeps P m \<Longrightarrow> keeps P m' \<Longrightarrow> keeps P (if b then m else m')"
  by simp

lemma keeps_option [intro]: "keeps P m \<Longrightarrow> (\<And>x. keeps P (f x)) \<Longrightarrow> keeps P (case v of None \<Rightarrow> m | Some x \<Rightarrow> f x)"
  by (cases v) auto

lemma keeps_prod [intro]: "(\<And>a b. keeps P (f a b)) \<Longrightarrow> keeps P (case v of (a, b) \<Rightarrow> f a b)"
  by (cases v) auto

lemma keeps_list [intro]: "keeps P m \<Longrightarrow> (\<And>x xs. keeps P (f x xs)) \<Longrightarrow> keeps P (case v of [] \<Rightarrow> m | x # xs \<Rightarrow> f x xs)"
  by (cases v) auto

lemma keeps_sum [intro]: "(\<And>x. keeps P (f x)) \<Longrightarrow> (\<And>x. keeps P (g x)) \<Longrightarrow> keeps P (case v of Inl x \<Rightarrow> f x | Inr x \<Rightarrow> g x)"
  by (cases v) auto

lemma keeps_nat [intro]: "keeps P m \<Longrightarrow> (\<And>x. keeps P (f x)) \<Longrightarrow> keeps P (case v of 0 \<Rightarrow> m | Suc x \<Rightarrow> f x)"
  by (cases v) auto

lemma keeps_pyval [intro]:
  "(\<And>d. keeps P (f d)) \<Longrightarrow> keeps P m \<Longrightarrow> keeps P (case v of VDict d \<Rightarrow> f d | _ \<Rightarrow> m)"
  by (cases v) auto

lemma keeps_line: "(\<And>w. P w \<Longrightarrow> P (pr line w)) \<Longrightarrow> keeps P (emit_line pr line)"
  by (simp add: keeps_def emit_line_def)

definition quiet_io :: "('w \<Rightarrow> bool) \<Rightarrow> 'w vapi_io \<Rightarrow> bool" where
  "quiet_io P io \<longleftrightarrow> (\<forall>req t. keeps P (vapi_send io req t)) \<and> (\<forall>f. vapi_timeout io = Some f \<longrightarrow> keeps P f) \<and>
     (\<forall>t. keeps P (vapi_sleep io t)) \<and> (\<forall>line. keeps P (emit_line (vapi_print io) line))"

lemma keeps_open:
  assumes "quiet_io P io"
  shows "keeps P (vapi_open io req)"
proof -
  have "keeps P (timeout_seconds io)"
    using assms by (auto simp: timeout_seconds_def quiet_io_def split: option.split)
  moreover have "keeps P (vapi_send io req t)" for t using assms by (simp add: quiet_io_def)
  ultimately show ?thesis unfolding vapi_open_def
    by (intro keeps_acatch keeps_abind keeps_prod keeps_if keeps_basic) (auto split: http_result.split)
qed

lemma keeps_attempts:
  assumes io: "quiet_io P io"
  shows "keeps P (vapi_attempts lib io c req resource allow left attempt)"
proof (induction left arbitrary: attempt)
  case 0
  have "keeps P (emit_line (vapi_print io) line)" for line using io by (simp add: quiet_io_def)
  then show ?case
    by (subst vapi_attempts.simps) (auto simp: Let_def intro!: keeps_abind keeps_open [OF io] split: opened.split)
next
  case (Suc n)
  have "keeps P (emit_line (vapi_print io) line)" "keeps P (vapi_sleep io t)" for line t
    using io by (simp_all add: quiet_io_def)
  with Suc show ?case
    by (subst vapi_attempts.simps)
      (auto simp: Let_def intro!: keeps_abind keeps_open [OF io] split: opened.split bool.split)
qed

lemma keeps_request: "quiet_io P io \<Longrightarrow> keeps P (vapi_request lib io c meth target payload allow)"
  unfolding vapi_request_def by (intro keeps_abind keeps_attempts keeps_basic)

definition quiet_api :: "('w \<Rightarrow> bool) \<Rightarrow> 'w vapi_api \<Rightarrow> bool" where
  "quiet_api P api \<longleftrightarrow> (\<forall>r. keeps P (api_list api r)) \<and> (\<forall>r i. keeps P (api_get api r i)) \<and>
     (\<forall>r d. keeps P (api_create api r d)) \<and> (\<forall>r i d. keeps P (api_update api r i d)) \<and>
     (\<forall>r i. keeps P (api_delete api r i))"

lemma keeps_ambiguous: "keeps P m \<Longrightarrow> (\<And>e. keeps P (h e)) \<Longrightarrow> keeps P (on_ambiguous m h)"
  unfolding on_ambiguous_def by (intro keeps_acatch keeps_if keeps_basic)

lemma quiet_http:
  assumes io: "quiet_io P io"
  shows "quiet_api P (http_api lib io c)"
proof -
  note req = keeps_request [OF io]
  have line: "keeps P (emit_line (vapi_print io) line)" for line using io by (simp add: quiet_io_def)
  have written: "keeps P (expect_written io op r v)" for op r v
    unfolding expect_written_def by (intro keeps_pyval keeps_basic keeps_abind line)
  have get: "keeps P (http_get lib io c r i)" for r i
    unfolding http_get_def by (intro keeps_abind keeps_basic req) (auto split: pyval.split)
  have "keeps P (http_list lib io c r)" for r
    unfolding http_list_def Let_def by (intro keeps_abind keeps_basic req keeps_if)
  moreover have "keeps P (http_create lib io c r d)" for r d
    unfolding http_create_def by (intro keeps_abind req written)
  moreover have "keeps P (http_update lib io c r i d)" for r i d
    unfolding http_update_def Let_def
    by (intro keeps_abind keeps_basic keeps_ambiguous req written get keeps_if)
      (auto split: sum.split pyval.split)
  moreover have "keeps P (http_delete lib io c r i)" for r i
    unfolding http_delete_def Let_def
    by (intro keeps_abind keeps_basic keeps_ambiguous req get keeps_if)
  ultimately show ?thesis using get by (simp add: quiet_api_def http_api_def)
qed

definition quiet_host :: "('w \<Rightarrow> bool) \<Rightarrow> 'w host \<Rightarrow> bool" where
  "quiet_host P h \<longleftrightarrow> (\<forall>line. keeps P (emit_line (host_print h) line)) \<and> (\<forall>t. keeps P (host_sleep h t))"

lemma keeps_reconcile:
  assumes "quiet_host P h" "keeps P f"
  shows "keeps P (reconcile h r f n ds)"
  using assms by (induction ds arbitrary: n) (auto simp: Let_def quiet_host_def intro!: keeps_abind keeps_acatch)

lemma keeps_reconciling:
  assumes h: "quiet_host P h" and api: "quiet_api P api" and f: "keeps P f"
  shows "keeps P (create_with_reconciliation h api r d f)"
proof -
  have rec: "keeps P (reconciled h r f m)" if "keeps P m" for m
    unfolding reconciled_def using that keeps_reconcile [OF h f] by (intro keeps_abind keeps_option keeps_basic)
  have "keeps P (api_create api r d)" using api by (simp add: quiet_api_def)
  then show ?thesis
    unfolding create_with_reconciliation_def by (intro keeps_ambiguous keeps_basic rec)
qed

lemma keeps_find:
  assumes "quiet_api P api"
  shows "keeps P (find_assistant api cfg)" "keeps P (credential_name_matches api cfg)"
    "keeps P (find_credential api cfg d)" "keeps P (find_prepare_tool api cfg i)"
proof -
  have l: "keeps P (api_list api r)" for r using assms by (simp add: quiet_api_def)
  show "keeps P (find_assistant api cfg)"
    unfolding find_assistant_def by (intro keeps_abind l keeps_list keeps_if keeps_basic)
  show names: "keeps P (credential_name_matches api cfg)"
    unfolding credential_name_matches_def by (intro keeps_abind l keeps_basic)
  show "keeps P (find_credential api cfg d)"
    unfolding find_credential_def by (intro keeps_abind names keeps_list keeps_if keeps_basic)
  show "keeps P (find_prepare_tool api cfg i)"
    unfolding find_prepare_tool_def by (intro keeps_abind l keeps_list keeps_if keeps_basic)
qed

lemma keeps_provision_create:
  assumes h: "quiet_host P h" and api: "quiet_api P api"
  shows "keeps P (provision_create lib h api cfg)"
proof -
  have up: "keeps P (api_update api r i d)" for r i d using api by (simp add: quiet_api_def)
  note steps = keeps_find [OF api] keeps_reconciling [OF h api] up
  show ?thesis unfolding provision_create_def
    by (intro keeps_abind keeps_option keeps_if keeps_basic steps)
qed

lemma keeps_provision_update:
  assumes api: "quiet_api P api"
  shows "keeps P (provision_update lib api old new pid)"
proof -
  have ops: "keeps P (api_update api r i d)" "keeps P (api_get api r i)" for r i d
    using api by (simp_all add: quiet_api_def)
  show ?thesis unfolding provision_update_def
    by (intro keeps_abind keeps_prod keeps_option keeps_if keeps_basic ops)
qed

lemma keeps_delete_pending:
  assumes api: "quiet_api P api"
  shows "keeps P (delete_pending api cfg)"
proof -
  have ops: "keeps P (api_list api r)" "keeps P (api_delete api r i)" for r i
    using api by (simp_all add: quiet_api_def)
  have "keeps P (delete_all api r ds)" for r ds
    by (induction ds) (simp_all only: delete_all.simps keeps_basic keeps_abind ops)
  then show ?thesis unfolding delete_pending_def Let_def
    by (intro keeps_abind keeps_basic keeps_find [OF api] ops)
qed

lemma keeps_provision_delete:
  assumes api: "quiet_api P api"
  shows "keeps P (provision_delete api cfg pid)"
proof -
  have ops: "keeps P (api_get api r i)" "keeps P (api_delete api r i)" for r i
    using api by (simp_all add: quiet_api_def)
  show ?thesis unfolding provision_delete_def delete_if_def
    by (intro keeps_abind keeps_prod keeps_option keeps_if keeps_basic ops keeps_delete_pending [OF api])
qed

section \<open>Answers and bindings\<close>

text \<open>A delivery with what the opener answered, and an identity bound.\<close>

datatype resource_event = Put http_request "http_result result" | Bound pystr

text \<open>An action that only extends the log, by events related to its result.\<close>

definition grows ::
    "('s \<Rightarrow> 'e list) \<Rightarrow> ('a result \<Rightarrow> 'e list \<Rightarrow> bool) \<Rightarrow> ('s, 'a) act \<Rightarrow> bool" where
  "grows lg Q m \<longleftrightarrow> (\<forall>s r s'. m s = (r, s') \<longrightarrow> (\<exists>tr. lg s' = lg s @ tr \<and> Q r tr))"

definition silent :: "('s \<Rightarrow> 'e list) \<Rightarrow> ('s, 'a) act \<Rightarrow> bool" where
  "silent lg m \<longleftrightarrow> (\<forall>L. keeps (\<lambda>s. lg s = L) m)"

lemma silentD: "silent lg m \<Longrightarrow> m s = (r, s') \<Longrightarrow> lg s' = lg s"
  unfolding silent_def using keepsD [of "\<lambda>x. lg x = lg s" m s r s'] by simp

lemma growsD: "grows lg Q m \<Longrightarrow> m s = (r, s') \<Longrightarrow> \<exists>tr. lg s' = lg s @ tr \<and> Q r tr"
  unfolding grows_def by blast

lemma grows_raise: "(\<And>e. Q (Inl e) []) \<Longrightarrow> grows lg Q (araise e)"
  by (simp add: grows_def)

lemma grows_silent:
  assumes m: "silent lg m" and f: "\<And>x. grows lg Q (f x)" and e: "\<And>e. Q (Inl e) []"
  shows "grows lg Q (abind m f)"
  unfolding grows_def
proof (intro allI impI)
  fix s r s'
  assume run: "abind m f s = (r, s')"
  obtain x s1 where one: "m s = (x, s1)" by (rule prod.exhaust)
  note same = silentD [OF m one]
  show "\<exists>tr. lg s' = lg s @ tr \<and> Q r tr"
  proof (cases x)
    case (Inl y)
    with run one same e show ?thesis by (auto simp: abind_def)
  next
    case (Inr y)
    with run one have "f y s1 = (r, s')" by (simp add: abind_def)
    from growsD [OF f this] same show ?thesis by simp
  qed
qed

lemma grows_then:
  assumes m: "grows lg R m" and e: "\<And>e tr. R (Inl e) tr \<Longrightarrow> Q (Inl e) tr"
    and f: "\<And>x tr. R (Inr x) tr \<Longrightarrow> grows lg (\<lambda>r tr'. Q r (tr @ tr')) (f x)"
  shows "grows lg Q (abind m f)"
  unfolding grows_def
proof (intro allI impI)
  fix s r s'
  assume run: "abind m f s = (r, s')"
  obtain x s1 where one: "m s = (x, s1)" by (rule prod.exhaust)
  from growsD [OF m one] obtain tr where tr: "lg s1 = lg s @ tr" "R x tr" by blast
  show "\<exists>tr. lg s' = lg s @ tr \<and> Q r tr"
  proof (cases x)
    case (Inl y)
    with run one tr e show ?thesis by (auto simp: abind_def)
  next
    case (Inr y)
    with run one have "f y s1 = (r, s')" by (simp add: abind_def)
    from growsD [OF f this] tr Inr show ?thesis by fastforce
  qed
qed

lemma silent_lift [simp]: "silent lg (alift r)" "silent lg (aret x)" "silent lg (araise e)"
  by (simp_all add: silent_def)

lemma silent_if: "silent lg m \<Longrightarrow> silent lg m' \<Longrightarrow> silent lg (if b then m else m')"
  by simp

lemma silent_abind: "silent lg m \<Longrightarrow> (\<And>x. silent lg (f x)) \<Longrightarrow> silent lg (abind m f)"
  by (simp add: silent_def keeps_abind)

lemma silent_rest: "silent lg m \<Longrightarrow> silent (\<lambda>s. lg (snd s)) (on_rest m)"
  unfolding silent_def
proof (intro allI keepsI)
  fix L s r s'
  assume m: "\<forall>L. keeps (\<lambda>s. lg s = L) m" and "lg (snd s) = L" "on_rest m s = (r, s')"
  then show "lg (snd s') = L"
    using silentD [of lg m "snd s" r "snd s'"] by (auto simp: on_rest_def silent_def split: prod.split_asm)
qed

lemma grows_rest: "grows lg Q m \<Longrightarrow> grows (\<lambda>s. lg (snd s)) Q (on_rest m)"
  by (auto simp: grows_def on_rest_def split: prod.split_asm)

lemma silent_secret:
  assumes "\<And>arn. silent lg (fetch arn)"
  shows "silent (\<lambda>s. lg (snd s)) (load_secret fetch arn t use_cache n)"
  unfolding silent_def
proof (intro allI keepsI)
  fix L :: "'b list" and s r s'
  assume "lg (snd s) = L" "load_secret fetch arn t use_cache n s = (r, s')"
  then show "lg (snd s') = L"
    using silentD [OF assms]
    by (auto simp: load_secret_def split: prod.split_asm if_split_asm option.split_asm sum.split_asm)
qed

text \<open>What a delivery comes to: \<open>deliver\<close> after its opener.\<close>

fun delivery :: "http_result result \<Rightarrow> unit result" where
  "delivery (Inl e) = Inl e"
| "delivery (Inr (Answer st body)) = map_sum id (\<lambda>_. ()) body"
| "delivery (Inr (HttpError code body)) = Inl (PyError ''URLError'')"

abbreviation acknowledged :: "http_result result \<Rightarrow> bool" where
  "acknowledged a \<equiv> delivery a = Inr ()"

definition network_failed :: "http_result result \<Rightarrow> bool" where
  "network_failed a \<longleftrightarrow> (\<exists>e\<in>set NETWORK_ERRORS. delivery a = Inl e)"

text \<open>
  The deliveries of one answer: at most \<open>n\<close>, none after one that was acknowledged, and fewer than \<open>n\<close> only
  if the last was acknowledged or met an error that is not of the network.
\<close>

definition tried :: "nat \<Rightarrow> http_result result list \<Rightarrow> bool" where
  "tried n as \<longleftrightarrow> as \<noteq> [] \<and> length as \<le> n \<and> list_all network_failed (butlast as) \<and>
     (length as = n \<or> \<not> network_failed (last as))"

definition answered_by :: "http_result result list \<Rightarrow> bool" where
  "answered_by as \<longleftrightarrow> as \<noteq> [] \<and> acknowledged (last as)"

lemma acknowledged_not_failed: "acknowledged a \<Longrightarrow> \<not> network_failed a"
  by (simp add: network_failed_def)

text \<open>The request of a success, and the identities bound before it.\<close>

definition success_request :: "pydict \<Rightarrow> pystr list \<Rightarrow> http_request \<Rightarrow> bool" where
  "success_request event bs req \<longleftrightarrow>
     (if request_is event ''Delete''
      then bs = [] \<and> (\<exists>reason. response_request event ''SUCCESS'' (resource_physical_id event) [] reason = Inr req)
      else \<exists>reason result org. bs = [binding_text org result] \<and>
             response_request event ''SUCCESS'' (VStr (physical_id result)) (resource_data result) reason = Inr req)"

text \<open>The log of the body: at most one binding, then the deliveries of a success, if it got so far.\<close>

definition body_history :: "pydict \<Rightarrow> bool \<Rightarrow> resource_event list \<Rightarrow> bool" where
  "body_history event ok tr \<longleftrightarrow>
     (\<exists>bs req as. tr = map Bound bs @ map (Put req) as \<and> length bs \<le> 1 \<and> answered_by as = ok \<and>
        (as = [] \<or> tried 2 as \<and> success_request event bs req))"

text \<open>The log of an invocation that answered, and of one that failed or tried to say so.\<close>

definition answer_history :: "pydict \<Rightarrow> bool \<Rightarrow> resource_event list \<Rightarrow> bool" where
  "answer_history event ok tr \<longleftrightarrow>
     body_history event True tr \<and> ok \<or>
     (\<exists>pre req reason as. tr = pre @ map (Put req) as \<and> body_history event False pre \<and>
        response_request event ''FAILED'' (resource_physical_id event) [] reason = Inr req \<and>
        tried 2 as \<and> answered_by as = ok)"

locale cloudformation =
  fixes sv :: "'w resource_services" and lg :: "'w \<Rightarrow> resource_event list"
  assumes posting: "rs_open sv req t w = (a, w') \<Longrightarrow> lg w' = lg w @ [Put req a]"
    and stored: "rs_put_secret sv i b w = (u, w') \<Longrightarrow> lg w' = lg w @ (case u of Inr _ \<Rightarrow> [Bound b] | Inl _ \<Rightarrow> [])"
    and fetching: "silent lg (rs_fetch sv arn)"
    and calling: "silent lg (rs_vapi sv req t)"
    and waiting: "silent lg (host_sleep (rs_host sv) t)"
    and printing: "silent lg (emit_line (host_print (rs_host sv)) line)"
    and clock: "rs_remaining sv = Some f \<Longrightarrow> \<exists>n w'. f w = (Inr n, w') \<and> lg w' = lg w"
begin

lemma time_left_ok: "\<exists>x w'. time_left sv w = (Inr x, w') \<and> lg w' = lg w"
proof (cases "rs_remaining sv")
  case (Some f)
  from clock [OF this, of w] obtain n w' where "f w = (Inr n, w')" "lg w' = lg w" by blast
  with Some show ?thesis by (simp add: time_left_def abind_def)
qed (simp add: time_left_def)

lemma silent_time: "silent lg (time_left sv)"
  unfolding silent_def
proof (intro allI keepsI)
  fix L w r w'
  assume "lg w = L" "time_left sv w = (r, w')"
  then show "lg w' = L" using time_left_ok [of w] by auto
qed

lemma response_timeout_ok: "\<exists>t w'. response_request_timeout sv w = (Inr t, w') \<and> lg w' = lg w"
proof -
  obtain x w' where x: "time_left sv w = (Inr x, w')" "lg w' = lg w" using time_left_ok by blast
  then show ?thesis
    by (cases x) (auto simp: response_request_timeout_def Let_def abind_def intro: exI [of _ "1 / 4"])
qed

text \<open>One delivery, and the loop over them.\<close>

lemma one_delivery:
  assumes "abind (response_request_timeout sv) (deliver (rs_open sv) req) w = (x, w')"
  shows "\<exists>a. lg w' = lg w @ [Put req a] \<and> x = delivery a"
proof -
  obtain t w1 where t: "response_request_timeout sv w = (Inr t, w1)" "lg w1 = lg w"
    using response_timeout_ok by blast
  obtain a w2 where a: "rs_open sv req t w1 = (a, w2)" by (rule prod.exhaust)
  have "w' = w2 \<and> x = delivery a"
    using assms t a by (cases a rule: delivery.cases) (auto simp: abind_def deliver_def alift_def aret_def araise_def split: sum.split_asm)
  with posting [OF a] t show ?thesis by auto
qed

lemma attempts_grow:
  "1 \<le> n \<Longrightarrow> grows lg (\<lambda>r tr. \<exists>as. tr = map (Put req) as \<and> tried n as \<and> (r = Inr ()) = answered_by as) (send_attempts sv req n)"
proof (induction n)
  case (Suc n)
  show ?case unfolding grows_def
  proof (intro allI impI)
    fix w r w'
    assume run: "send_attempts sv req (Suc n) w = (r, w')"
    obtain x w1 where one: "abind (response_request_timeout sv) (deliver (rs_open sv) req) w = (x, w1)" by (rule prod.exhaust)
    from one_delivery [OF one] obtain a where a: "lg w1 = lg w @ [Put req a]" "x = delivery a" by blast
    show "\<exists>tr. lg w' = lg w @ tr \<and> (\<exists>as. tr = map (Put req) as \<and> tried (Suc n) as \<and> (r = Inr ()) = answered_by as)"
    proof (cases "\<exists>e. x = Inl e \<and> e \<in> set NETWORK_ERRORS \<and> n \<noteq> 0")
      case True
      then have net: "network_failed a" using a(2) unfolding network_failed_def by auto
      from True run one have "send_attempts sv req n w1 = (r, w')" by (auto simp: acatch_def)
      with Suc.IH True obtain as where as: "lg w' = lg w1 @ map (Put req) as" "tried n as" "(r = Inr ()) = answered_by as"
        unfolding grows_def by fastforce
      have "tried (Suc n) (a # as)" using as(2) net by (auto simp: tried_def)
      moreover have "answered_by (a # as) = answered_by as" using as(2) by (auto simp: tried_def answered_by_def)
      ultimately show ?thesis using a(1) as by (intro exI [of _ "map (Put req) (a # as)"]) (auto intro!: exI [of _ "a # as"])
    next
      case False
      with run one have r: "r = x" "w' = w1" by (auto simp: acatch_def araise_def split: sum.split_asm if_split_asm)
      have "tried (Suc n) [a]" using False a(2) by (auto simp: tried_def network_failed_def)
      with a r show ?thesis by (intro exI [of _ "[Put req a]"]) (auto simp: answered_by_def intro!: exI [of _ "[a]"])
    qed
  qed
qed simp

definition sent :: "pydict \<Rightarrow> string \<Rightarrow> pyval \<Rightarrow> pydict \<Rightarrow> pystr \<Rightarrow> unit result \<Rightarrow> resource_event list \<Rightarrow> bool" where
  "sent event st pid data reason r tr \<longleftrightarrow>
     (case response_request event st pid data reason of
        Inl e \<Rightarrow> tr = [] \<and> r = Inl e
      | Inr req \<Rightarrow> \<exists>as. tr = map (Put req) as \<and> tried 2 as \<and> (r = Inr ()) = answered_by as)"

lemma send_grows: "grows lg (sent event st pid data reason) (send_response sv event st pid data reason)"
proof (cases "response_request event st pid data reason")
  case (Inl e)
  then show ?thesis by (simp add: grows_def send_response_def sent_def)
next
  case (Inr req)
  with attempts_grow [of 2 req] show ?thesis
    by (simp add: send_response_def sent_def [abs_def] grows_def CLOUDFORMATION_RESPONSE_ATTEMPTS_def)
qed

lemma silent_api: "quiet_api (\<lambda>w. lg w = L) (http_api lib (resource_io sv) c)"
proof (rule quiet_http)
  have "keeps (\<lambda>w. lg w = L) (vapi_request_timeout sv)"
    unfolding vapi_request_timeout_def Let_def
    by (intro keeps_abind keeps_option keeps_if keeps_basic) (use silent_time in \<open>simp add: silent_def\<close>)
  then show "quiet_io (\<lambda>w. lg w = L) (resource_io sv)"
    using calling waiting printing by (simp add: quiet_io_def resource_io_def silent_def)
qed

lemma silent_host: "quiet_host (\<lambda>w. lg w = L) (rs_host sv)"
  using waiting printing by (simp add: quiet_host_def silent_def)

lemma bind_grows:
  assumes api: "\<And>L. quiet_api (\<lambda>w. lg w = L) api"
  shows "grows lg (\<lambda>r tr. case r of Inl _ \<Rightarrow> tr = [] | Inr _ \<Rightarrow> \<exists>org. tr = [Bound (binding_text org result)])
     (bind_identity sv api p result)"
  unfolding bind_identity_def Let_def
proof (rule grows_silent)
  show "silent lg (api_get api ''assistant'' (prov_assistant result))"
    using api by (simp add: silent_def quiet_api_def)
next
  fix assistant
  let ?org = "case assistant of None \<Rightarrow> VNone | Some d \<Rightarrow> get_key d ''orgId''"
  have "grows lg (\<lambda>r tr. case r of Inl _ \<Rightarrow> tr = [] | Inr _ \<Rightarrow> \<exists>org. tr = [Bound (binding_text org result)])
      (rs_put_secret sv sid (binding_text (str_of ?org) result))" for sid
    unfolding grows_def using stored by (fastforce split: sum.split_asm sum.split)
  then show "grows lg (\<lambda>r tr. case r of Inl _ \<Rightarrow> tr = [] | Inr _ \<Rightarrow> \<exists>org. tr = [Bound (binding_text org result)])
      (if \<not> is_str ?org \<or> str_of ?org = [] \<or> 128 < length (str_of ?org)
       then araise (vapi_error ''vapi_organization_identity_invalid'')
       else abind (alift (subscript (VDict p) ''VapiIdentityBindingArn''))
              (\<lambda>sid. rs_put_secret sv sid (binding_text (str_of ?org) result)))"
    by (auto intro: grows_raise grows_silent)
qed simp

lemma silent_emit: "silent lg (emit_resource_operation sv event result mo)"
  using printing by (simp add: emit_resource_operation_def)

lemma bind_or_clean_up_grows:
  assumes api: "\<And>L. quiet_api (\<lambda>w. lg w = L) api"
  shows "grows lg (\<lambda>r tr. case r of Inl _ \<Rightarrow> tr = [] | Inr _ \<Rightarrow> \<exists>org. tr = [Bound (binding_text org result)])
     (bind_or_clean_up sv mo api cfg p creating result)"
  unfolding grows_def
proof (intro allI impI)
  fix w r w'
  assume run: "bind_or_clean_up sv mo api cfg p creating result w = (r, w')"
  obtain x w1 where one: "bind_identity sv api p result w = (x, w1)" by (rule prod.exhaust)
  from growsD [OF bind_grows [OF api] one] obtain tr where tr: "lg w1 = lg w @ tr"
    "case x of Inl _ \<Rightarrow> tr = [] | Inr _ \<Rightarrow> \<exists>org. tr = [Bound (binding_text org result)]" by blast
  show "\<exists>tr. lg w' = lg w @ tr \<and> (case r of Inl _ \<Rightarrow> tr = [] | Inr _ \<Rightarrow> \<exists>org. tr = [Bound (binding_text org result)])"
  proof (cases x)
    case (Inr u)
    with run one tr show ?thesis by (auto simp: bind_or_clean_up_def acatch_def)
  next
    case (Inl e)
    let ?clean = "if creating
              then acatch (provision_delete api cfg (VStr (physical_id result)))
                (\<lambda>_. emit_resource_operation sv ''vapi_provisioner_cleanup'' ''cleanup_failed'' mo)
              else aret ()"
    have "silent lg ?clean"
      using silent_emit keeps_provision_delete [OF api] unfolding silent_def
      by (intro allI keeps_if keeps_acatch keeps_basic) auto
    moreover from run one Inl have "abind ?clean (\<lambda>_. araise e) w1 = (r, w')"
      by (simp add: bind_or_clean_up_def acatch_def)
    then obtain y where "?clean w1 = (y, w')" "\<exists>e. r = Inl e" by (auto simp: abind_split)
    ultimately show ?thesis using tr Inl silentD [of lg ?clean w1 y w'] by auto
  qed
qed

lemma silent_load: "silent (\<lambda>s. lg (snd s)) (load_resource_secret sv mo v)"
  unfolding load_resource_secret_def using silent_secret [of lg "rs_fetch sv"] fetching by auto

lemma silent_config: "silent (\<lambda>s. lg (snd s)) (resource_config lib sv mo event p load_token)"
  unfolding resource_config_def
  by (intro silent_abind silent_lift silent_if silent_load)

lemma silent_requested:
  assumes api: "\<And>L. quiet_api (\<lambda>w. lg w = L) api"
  shows "silent (\<lambda>s. lg (snd s)) (provision_requested lib sv mo event api cfg)"
proof -
  have "silent lg (provision_create lib (rs_host sv) api cfg)"
    using keeps_provision_create [OF silent_host api] by (simp add: silent_def)
  moreover have "silent lg (provision_update lib api old cfg pid)" for old pid
    using keeps_provision_update [OF api] by (simp add: silent_def)
  ultimately show ?thesis unfolding provision_requested_def
    by (auto intro!: silent_abind silent_rest silent_config)
qed

lemma api_grows:
  "grows (\<lambda>s. lg (snd s)) (\<lambda>r tr. tr = [] \<and> (\<forall>api. r = Inr api \<longrightarrow> (\<forall>L. quiet_api (\<lambda>w. lg w = L) api)))
     (resource_api lib sv mo p)"
  unfolding resource_api_def
  by (intro grows_silent silent_lift silent_load) (auto simp: grows_def silent_api)

abbreviation body_ok :: "pydict \<Rightarrow> 'r result \<Rightarrow> resource_event list \<Rightarrow> bool" where
  "body_ok event r tr \<equiv> body_history event (\<not> isl r) tr"

lemma body_quiet: "length bs \<le> 1 \<Longrightarrow> body_history event False (map Bound bs)"
  unfolding body_history_def
  by (intro exI [of _ bs] exI [of _ undefined] exI [of _ "[]"]) (simp add: answered_by_def)

lemma body_nothing [simp]: "body_history event False []"
  using body_quiet [of "[]"] by simp

lemma body_none: "body_ok event (Inl e) []"
  by simp

lemma sent_grows: "grows (\<lambda>s. lg (snd s)) (sent event st pid data reason) (on_rest (send_response sv event st pid data reason))"
  by (rule grows_rest [OF send_grows])

text \<open>A success delivered, or not, is a history of the body.\<close>

lemma sent_body:
  assumes "sent event ''SUCCESS'' pid data reason r tr" "length bs \<le> 1"
    and "\<And>req. response_request event ''SUCCESS'' pid data reason = Inr req \<Longrightarrow> success_request event bs req"
  shows "body_history event (\<not> isl r) (map Bound bs @ tr)"
proof (cases "response_request event ''SUCCESS'' pid data reason")
  case (Inl e)
  with assms(1) body_quiet [OF assms(2)] show ?thesis by (simp add: sent_def)
next
  case (Inr req)
  with assms(1) obtain as where "tr = map (Put req) as" "tried 2 as" "(r = Inr ()) = answered_by as"
    by (auto simp: sent_def)
  moreover have "(r = Inr ()) = (\<not> isl r)" by (cases r) auto
  ultimately show ?thesis using assms(2) assms(3) [OF Inr] unfolding body_history_def by blast
qed

lemma deleted_grows:
  assumes "request_is event ''Delete''"
  shows "grows (\<lambda>s. lg (snd s)) (body_ok event)
     (abind (on_rest (send_response sv event ''SUCCESS'' (resource_physical_id event) [] reason)) (\<lambda>_. aret code))"
proof (rule grows_then [OF sent_grows])
  fix e tr
  assume "sent event ''SUCCESS'' (resource_physical_id event) [] reason (Inl e) tr"
  then show "body_ok event (Inl e) tr"
    using sent_body [of event "resource_physical_id event" "[]" reason "Inl e" tr "[]"] assms
    by (auto simp: success_request_def)
next
  fix x tr
  assume "sent event ''SUCCESS'' (resource_physical_id event) [] reason (Inr x) tr"
  then show "grows (\<lambda>s. lg (snd s)) (\<lambda>r tr'. body_ok event r (tr @ tr')) (aret code)"
    using sent_body [of event "resource_physical_id event" "[]" reason "Inr x" tr "[]"] assms
    by (auto simp: success_request_def grows_def)
qed

lemma provisioned_grows:
  assumes api: "\<And>L. quiet_api (\<lambda>w. lg w = L) api" and ty: "\<not> request_is event ''Delete''"
  shows "grows (\<lambda>s. lg (snd s)) (body_ok event)
     (abind (provision_requested lib sv mo event api cfg) (\<lambda>result.
      abind (on_rest (bind_or_clean_up sv mo api cfg p creating result)) (\<lambda>_.
      abind (on_rest (send_response sv event ''SUCCESS'' (VStr (physical_id result)) (resource_data result) reason)) (\<lambda>_.
      aret code))))"
proof (rule grows_silent [OF silent_requested [OF api]])
  fix result
  show "grows (\<lambda>s. lg (snd s)) (body_ok event)
     (abind (on_rest (bind_or_clean_up sv mo api cfg p creating result)) (\<lambda>_.
      abind (on_rest (send_response sv event ''SUCCESS'' (VStr (physical_id result)) (resource_data result) reason)) (\<lambda>_.
      aret code)))"
  proof (rule grows_then [OF grows_rest [OF bind_or_clean_up_grows [OF api]]], goal_cases)
    case (1 e tr)
    then show ?case using body_none by simp
  next
    case (2 x tr)
    then obtain org where org: "tr = [Bound (binding_text org result)]" by auto
    let ?bs = "[binding_text org result]"
    have ok: "success_request event ?bs req"
      if "response_request event ''SUCCESS'' (VStr (physical_id result)) (resource_data result) reason = Inr req" for req
      using that ty by (auto simp: success_request_def)
    show ?case
    proof (rule grows_then [OF sent_grows], goal_cases)
      case (1 e tr')
      from sent_body [OF 1 _ ok] org show ?case by simp
    next
      case (2 y tr')
      from sent_body [OF 2 _ ok] org show ?case by (simp add: grows_def)
    qed
  qed
qed (rule body_none)

lemma body_grows: "grows (\<lambda>s. lg (snd s)) (body_ok event) (resource_body lib sv mo event)"
proof -
  note none = body_none
  have del: "grows (\<lambda>s. lg (snd s)) (body_ok event) (abind (on_rest (provision_delete api cfg pid)) (\<lambda>_.
      abind (on_rest (send_response sv event ''SUCCESS'' (resource_physical_id event) [] reason)) (\<lambda>_. aret code)))"
    if "\<And>L. quiet_api (\<lambda>w. lg w = L) api" "request_is event ''Delete''" for api cfg pid reason code
    using keeps_provision_delete [OF that(1)] that(2) none
    by (intro grows_silent silent_rest deleted_grows) (simp_all add: silent_def)
  show ?thesis unfolding resource_body_def
  proof (intro grows_silent silent_lift none)
    fix p retain
    show "grows (\<lambda>s. lg (snd s)) (body_ok event)
        (if request_is event ''Delete'' \<and> retain
         then abind (on_rest (send_response sv event ''SUCCESS'' (resource_physical_id event) []
                (lit ''resources retained by policy''))) (\<lambda>_. aret ''delete_retained'')
         else
         abind (resource_api lib sv mo p) (\<lambda>api.
         abind (resource_config lib sv mo event p (\<not> request_is event ''Delete'')) (\<lambda>cfg.
         if request_is event ''Delete''
         then abind (on_rest (provision_delete api cfg (resource_physical_id event))) (\<lambda>_.
              abind (on_rest (send_response sv event ''SUCCESS'' (resource_physical_id event) []
                (lit ''recipe-owned resources deleted''))) (\<lambda>_. aret ''delete_success''))
         else
         abind (provision_requested lib sv mo event api cfg) (\<lambda>result.
         abind (on_rest (bind_or_clean_up sv mo api cfg p (request_is event ''Create'') result)) (\<lambda>_.
         abind (on_rest (send_response sv event ''SUCCESS'' (VStr (physical_id result)) (resource_data result)
           (lit ''recipe-owned Vapi resources are ready''))) (\<lambda>_.
         aret (if request_is event ''Create'' then ''create_success'' else ''update_success'')))))))"
    proof (cases "request_is event ''Delete'' \<and> retain")
      case True
      then have "request_is event ''Delete''" by simp
      show ?thesis unfolding if_P [OF True] by (rule deleted_grows) fact
    next
      case False
      show ?thesis unfolding if_not_P [OF False]
      proof (rule grows_then [OF api_grows], goal_cases)
        case (1 e tr)
        then show ?case using none [of event e] by simp
      next
        case (2 api tr)
        then have api: "quiet_api (\<lambda>w. lg w = L) api" and tr: "tr = []" for L by auto
        show ?case unfolding tr append_Nil
          by (intro grows_silent [OF silent_config]) (auto intro: del [OF api] provisioned_grows [OF api] none)
      qed
    qed
  qed
qed

lemma answered:
  assumes ok: "\<And>reason. \<exists>req. response_request event ''FAILED'' (resource_physical_id event) [] (lit reason) = Inr req"
    and run: "resource_lambda lib sv mo event s = (r, s')"
  shows "\<exists>tr. lg (snd s') = lg (snd s) @ tr \<and> answer_history event (r = Inr ()) tr"
proof -
  have emit: "lg (snd s2) = lg (snd s1) \<and> x = Inr ()"
    if "on_rest (emit_resource_operation sv ev code mo) s1 = (x, s2)" for ev code s1 x s2
    using silentD [OF silent_rest [OF silent_emit] that] that
    by (auto simp: on_rest_def emit_resource_operation_def emit_line_def split: prod.split_asm)
  obtain x s1 where one: "resource_body lib sv mo event s = (x, s1)" by (rule prod.exhaust)
  from growsD [OF body_grows one] obtain tr where tr: "lg (snd s1) = lg (snd s) @ tr" "body_ok event x tr" by blast
  show ?thesis
  proof (cases x)
    case (Inr code)
    with run one have "on_rest (emit_resource_operation sv ''vapi_provisioner'' code mo) s1 = (r, s')"
      by (simp add: resource_lambda_def)
    with emit [OF this] tr Inr show ?thesis by (auto simp: answer_history_def)
  next
    case (Inl e)
    let ?reason = "lit (fst (resource_failure e))"
    from ok obtain req where req: "response_request event ''FAILED'' (resource_physical_id event) [] ?reason = Inr req"
      by blast
    obtain y s2 where two: "on_rest (send_response sv event ''FAILED'' (resource_physical_id event) [] ?reason) s1 = (y, s2)"
      by (rule prod.exhaust)
    from growsD [OF sent_grows two] req obtain as where as: "lg (snd s2) = lg (snd s1) @ map (Put req) as" "tried 2 as"
      "(y = Inr ()) = answered_by as" by (auto simp: sent_def)
    from run one two Inl have r: "r = y"
      and s': "s' = snd (on_rest (emit_resource_operation sv ''vapi_provisioner'' (snd (resource_failure e)) mo) s2)"
      by (auto simp: resource_lambda_def)
    obtain z s3 where "on_rest (emit_resource_operation sv ''vapi_provisioner'' (snd (resource_failure e)) mo) s2 = (z, s3)"
      by (rule prod.exhaust)
    with emit [OF this] s' have "lg (snd s') = lg (snd s2)" by simp
    moreover have "answer_history event (r = Inr ()) (tr @ map (Put req) as)"
      using tr(2) Inl req as r unfolding answer_history_def by (intro disjI2) auto
    ultimately show ?thesis using tr(1) as(1) by auto
  qed
qed

end

section \<open>Services under observation\<close>

text \<open>
  Any services, with a log of the deliveries and of the identities bound.  The clock of the context, when
  there is one, always has a reading.
\<close>

definition logging ::
    "('w, 'a) act \<Rightarrow> ('a result \<Rightarrow> resource_event list) \<Rightarrow> ('w \<times> resource_event list, 'a) act" where
  "logging m ev = (\<lambda>(w, tr). case m w of (r, w') \<Rightarrow> (r, (w', tr @ ev r)))"

definition observed ::
    "'w resource_services \<Rightarrow> ('w \<Rightarrow> int \<times> 'w) option \<Rightarrow> ('w \<times> resource_event list) resource_services" where
  "observed sv ms =
     \<lparr>rs_fetch = (\<lambda>arn. logging (rs_fetch sv arn) (\<lambda>_. [])),
      rs_put_secret = (\<lambda>i b. logging (rs_put_secret sv i b) (\<lambda>r. case r of Inr _ \<Rightarrow> [Bound b] | Inl _ \<Rightarrow> [])),
      rs_open = (\<lambda>req t. logging (rs_open sv req t) (\<lambda>a. [Put req a])),
      rs_vapi = (\<lambda>req t. logging (rs_vapi sv req t) (\<lambda>_. [])),
      rs_host = \<lparr>host_print = (\<lambda>line (w, tr). (host_print (rs_host sv) line w, tr)),
                 host_sleep = (\<lambda>t. logging (host_sleep (rs_host sv) t) (\<lambda>_. []))\<rparr>,
      rs_remaining = map_option (\<lambda>f. logging (\<lambda>w. case f w of (n, w') \<Rightarrow> (Inr n, w')) (\<lambda>_. [])) ms,
      rs_assets = rs_assets sv\<rparr>"

lemma silent_logging: "silent snd (logging m (\<lambda>_. []))"
  by (auto simp: silent_def keeps_def logging_def split: prod.split)

interpretation observed: cloudformation "observed sv ms" snd
  for sv :: "'w resource_services" and ms :: "('w \<Rightarrow> int \<times> 'w) option"
proof (unfold_locales, goal_cases)
  case (6 line)
  then show ?case by (auto simp: observed_def silent_def keeps_def emit_line_def)
next
  case (3 arn)
  then show ?case by (simp add: observed_def silent_logging)
next
  case (4 req t)
  then show ?case by (simp add: observed_def silent_logging)
next
  case (5 t)
  then show ?case by (simp add: observed_def silent_logging)
qed (auto simp: observed_def logging_def split: prod.splits sum.splits)

text \<open>An event whose answer can be written: its identifiers are there and its URL has a scheme.\<close>

definition answerable :: "pydict \<Rightarrow> bool" where
  "answerable event \<longleftrightarrow>
     (\<forall>k\<in>{''StackId'', ''RequestId'', ''LogicalResourceId''}. \<exists>v. get_opt event k = Some v \<and> json_ok True v) \<and>
     json_ok True (resource_physical_id event) \<and>
     (\<exists>v u. get_opt event ''ResponseURL'' = Some v \<and> request_url v = Inr u)"

lemma char_ok_lit: "list_all (char_ok True) (lit s)"
  using lit_bound [of _ s] by (fastforce simp: list_all_iff char_ok_def is_surrogate_def)

lemma answerable_request:
  assumes "answerable event"
  shows "\<exists>req. response_request event status (resource_physical_id event) [] (lit reason) = Inr req"
proof -
  from assms obtain a b c v u where e: "get_opt event ''StackId'' = Some a" "get_opt event ''RequestId'' = Some b"
      "get_opt event ''LogicalResourceId'' = Some c" "get_opt event ''ResponseURL'' = Some v" "request_url v = Inr u"
    and ok: "json_ok True a" "json_ok True b" "json_ok True c" "json_ok True (resource_physical_id event)"
    by (auto simp: answerable_def)
  obtain doc where doc: "response_document event status (resource_physical_id event) [] (lit reason) = Inr doc"
    and json: "json_ok True doc"
    using e ok char_ok_lit
    by (simp add: response_document_def subscript_def list_all_iff) (meson in_set_takeD)
  have "list_all printable (dump compact doc)"
    using json by (intro dump_printable) (auto simp: compact_def good_opts_def intro: exI [of _ 0])
  then have "is_ascii (json_dumps compact doc)"
    by (auto simp: is_ascii_def json_dumps_def compact_def list_all_iff printable_def)
  then show ?thesis using doc e
    by (simp add: response_request_def utf8_encode_ascii subscript_def)
qed

text \<open>
  C22.  CloudFormation is always answered, and success means bound.  For an event whose answer can be
  written, and a clock of the context that has a reading, whatever the secrets, Vapi and the opener of the
  answer do: an invocation delivers a SUCCESS, after the organization of that assistant was bound if it is
  a create or an update, until a delivery is acknowledged; if none is, or if it never got so far, it
  delivers FAILED under the identifier the event came with.  Each answer is delivered once or, after a
  network error, twice, never again after an acknowledgement, and the invocation ends normally exactly if
  its last answer was acknowledged.
\<close>

theorem always_answered:
  assumes "answerable event"
    and "resource_lambda lib (observed sv ms) mo event (cache, (w, [])) = (r, (cache', (w', tr)))"
  shows "answer_history event (r = Inr ()) tr"
  using observed.answered [OF answerable_request [OF assms(1)] assms(2)] by simp

text \<open>A deletion without its properties: the failure is answered.\<close>

definition demo_delete :: pydict where
  "demo_delete = mk [(''RequestType'', VStr (lit ''Delete'')), (''StackId'', VStr (lit ''arn:stack'')),
     (''RequestId'', VStr (lit ''r1'')), (''LogicalResourceId'', VStr (lit ''Vapi'')),
     (''ResponseURL'', VStr (lit ''https://s3/x''))]"

definition demo_resource_services :: "unit resource_services" where
  "demo_resource_services = \<lparr>rs_fetch = (\<lambda>_. araise (ServiceError ''down'')), rs_put_secret = (\<lambda>_ _. aret ()),
     rs_open = (\<lambda>_ _. araise (PyError ''URLError'')), rs_vapi = (\<lambda>_ _. araise (PyError ''URLError'')),
     rs_host = \<lparr>host_print = (\<lambda>_ w. w), host_sleep = (\<lambda>_. aret ())\<rparr>, rs_remaining = None,
     rs_assets = \<lparr>root_is_dir = False, root_text = (\<lambda>_. None)\<rparr>\<rparr>"

lemma demo_answerable: "answerable demo_delete"
proof -
  have "request_url (VStr (lit ''https://s3/x'')) = Inr (lit ''https://s3/x'')"
    by (simp add: request_url_def unwrap_url_def has_scheme_def strip_if_def lstrip_if_def rstrip_if_def eval_simps)
  then show ?thesis using char_ok_lit
    by (simp add: answerable_def demo_delete_def get_opt_def resource_physical_id_def PENDING_PHYSICAL_ID_def)
qed

theorem always_answered_witness:
  "\<exists>r cache' w' tr. resource_lambda ascii_pylib (observed demo_resource_services None) demo_moment demo_delete
       (Map.empty, ((), [])) = (r, (cache', (w', tr))) \<and> answer_history demo_delete (r = Inr ()) tr"
proof -
  obtain r cache' w' tr where run: "resource_lambda ascii_pylib (observed demo_resource_services None) demo_moment
      demo_delete (Map.empty, ((), [])) = (r, (cache', (w', tr)))" by (metis prod.exhaust)
  from always_answered [OF demo_answerable run] run show ?thesis by blast
qed

end
