(* ===== verification/Configuration.thy ===== *)
theory Configuration imports Custom begin

text \<open>
  \<open>lambda/configuration/handler.py\<close>: the custom resource that validates one deployment's
  configuration and renders the contact flow from it.  The clients of Amazon Connect and Route 53
  and the opener of the response are parameters.
\<close>

section \<open>Resource names\<close>

definition dash_char :: "nat \<Rightarrow> bool" where "dash_char c \<longleftrightarrow> is_lower c \<or> is_digit c \<or> c = 45"
definition arn_id_char :: "nat \<Rightarrow> bool" where "arn_id_char c \<longleftrightarrow> is_ascii_alnum c \<or> c = 45"

definition some_of :: "(nat \<Rightarrow> bool) \<Rightarrow> pystr \<Rightarrow> bool" where
  "some_of f s \<longleftrightarrow> s \<noteq> [] \<and> list_all f s"

definition is_partition :: "pystr \<Rightarrow> bool" where
  "is_partition s \<longleftrightarrow> s = lit ''aws'' \<or> (starts_with s (lit ''aws-'') \<and> some_of dash_char (drop 4 s))"

definition is_account :: "pystr \<Rightarrow> bool" where
  "is_account s \<longleftrightarrow> class_match is_digit 12 12 s"

record arn =
  arn_partition :: pystr
  arn_region :: pystr
  arn_account :: pystr
  arn_resource :: pystr

text \<open>
  No class of the patterns contains a colon, so the six parts before the resource are those between
  colons.
\<close>

definition match_arn :: "string \<Rightarrow> pystr \<Rightarrow> arn option" where
  "match_arn service s =
     (case split_on 58 s of
        a # p # c # r # n # rest \<Rightarrow>
          if a = lit ''arn'' \<and> is_partition p \<and> c = lit service \<and> some_of dash_char r \<and> is_account n \<and> rest \<noteq> []
          then Some \<lparr>arn_partition = p, arn_region = r, arn_account = n, arn_resource = join [58] rest\<rparr>
          else None
      | _ \<Rightarrow> None)"

definition instance_of :: "pystr \<Rightarrow> pystr option" where
  "instance_of res =
     (case split_on 47 res of
        [k, i] \<Rightarrow> if k = lit ''instance'' \<and> some_of arn_id_char i then Some i else None
      | _ \<Rightarrow> None)"

definition flow_of :: "pystr \<Rightarrow> (pystr \<times> pystr) option" where
  "flow_of res =
     (case split_on 47 res of
        [k, i, m, f] \<Rightarrow>
          if k = lit ''instance'' \<and> some_of arn_id_char i \<and> m = lit ''contact-flow'' \<and> some_of arn_id_char f
          then Some (i, f) else None
      | _ \<Rightarrow> None)"

definition INSTANCE_ARN :: "pystr \<Rightarrow> (arn \<times> pystr) option" where
  "INSTANCE_ARN s =
     Option.bind (match_arn ''connect'' s) (\<lambda>a. map_option (Pair a) (instance_of (arn_resource a)))"

definition FLOW_ARN :: "pystr \<Rightarrow> (arn \<times> pystr \<times> pystr) option" where
  "FLOW_ARN s =
     Option.bind (match_arn ''connect'' s) (\<lambda>a. map_option (Pair a) (flow_of (arn_resource a)))"

definition secret_char :: "nat \<Rightarrow> bool" where
  "secret_char c \<longleftrightarrow> is_ascii_alnum c \<or> c \<in> set (lit ''/_+=.@-'')"

definition SECRET_ARN :: "pystr \<Rightarrow> arn option" where
  "SECRET_ARN s =
     Option.bind (match_arn ''secretsmanager'' s) (\<lambda>a.
     case split_on 58 (arn_resource a) of
       [k, n] \<Rightarrow> if k = lit ''secret'' \<and> some_of secret_char n then Some a else None
     | _ \<Rightarrow> None)"

definition RETENTION_MODES :: "pystr list" where
  "RETENTION_MODES = [lit ''ProductionRetain'', lit ''TestDelete'']"

definition SIP_SECURITY_MODES :: "pystr list" where
  "SIP_SECURITY_MODES = [lit ''sips_optional_srtp'', lit ''sips_srtp'', lit ''sip_rtp'']"

definition is_ami :: "pystr \<Rightarrow> bool" where
  "is_ami s \<longleftrightarrow> starts_with s (lit ''ami-'') \<and> class_match is_hex_lower 8 32 (drop 4 s)"

definition IMMUTABLE_PROPERTIES :: "(string \<times> string) list" where
  "IMMUTABLE_PROPERTIES =
     [(''DeploymentId'', ''deployment_id_immutable''),
      (''ConnectInstanceArn'', ''connect_instance_arn_immutable''),
      (''PublicHostedZoneId'', ''public_hosted_zone_id_immutable''),
      (''SipHostname'', ''sip_hostname_immutable''),
      (''SipSecurity'', ''sip_security_immutable''),
      (''MaxConcurrentCalls'', ''max_concurrent_calls_immutable''),
      (''DataRetentionMode'', ''data_retention_mode_immutable''),
      (''RuntimeImageId'', ''runtime_image_id_immutable'')]"

text \<open>\<open>PATTERN.fullmatch(v)\<close> raises on a value that is not a string.\<close>

definition full_match :: "(pystr \<Rightarrow> 'a option) \<Rightarrow> pyval \<Rightarrow> 'a option result" where
  "full_match pat v = rbind (expect_str (PyError ''TypeError'') v) (\<lambda>s. Inr (pat s))"

text \<open>\<open>v not in frozenset\<close> raises on a value without a hash.\<close>

definition member_of :: "pystr list \<Rightarrow> pyval \<Rightarrow> bool result" where
  "member_of xs v =
     (if is_list v \<or> is_dict v then Inl (PyError ''TypeError'') else Inr (v \<in> VStr ` set xs))"

definition refuse_if :: "bool \<Rightarrow> string \<Rightarrow> unit result" where
  "refuse_if b code = (if b then Inl (ConfigurationError code) else Inr ())"

section \<open>Clients\<close>

record 'w aws_clients =
  describe_instance :: "pystr \<Rightarrow> ('w, pyval) act"
  describe_flow :: "pystr \<Rightarrow> pystr \<Rightarrow> ('w, pyval) act"
  hosted_zone :: "pyval \<Rightarrow> ('w, pyval) act"

text \<open>\<open>connect.describe_contact_flow(...)["ContactFlow"]\<close> with its state and status.\<close>

definition flow_published :: "'w aws_clients \<Rightarrow> pystr \<Rightarrow> pystr \<Rightarrow> ('w, bool) act" where
  "flow_published cl i f =
     abind (describe_flow cl i f) (\<lambda>v.
     alift (rbind (subscript v ''ContactFlow'') (\<lambda>d.
       rbind (attr_get d ''State'') (\<lambda>st.
       if st \<noteq> VStr (lit ''ACTIVE'') then Inr False
       else rbind (attr_get d ''Status'') (\<lambda>s. Inr (s = VStr (lit ''PUBLISHED'')))))))"

section \<open>Routing\<close>

definition route_id :: "nat \<Rightarrow> pystr" where
  "route_id k = lit ''transfer-to-route-'' @ dec_nat k"

definition route_condition :: "nat \<Rightarrow> pystr \<Rightarrow> pyval" where
  "route_condition k choice = VDict (mk
     [(''NextAction'', VStr (route_id k)),
      (''Condition'', VDict (mk
         [(''Operator'', VStr (lit ''Equals'')), (''Operands'', VList [VStr choice])]))])"

definition fallback_error :: "string \<Rightarrow> pyval" where
  "fallback_error ty = VDict (mk
     [(''NextAction'', VStr (lit ''transfer-to-customer-flow'')), (''ErrorType'', VStr (lit ty))])"

definition route_action :: "nat \<Rightarrow> pystr \<Rightarrow> pyval" where
  "route_action k flow = VDict (mk
     [(''Identifier'', VStr (route_id k)), (''Type'', VStr (lit ''TransferToFlow'')),
      (''Parameters'', VDict (mk [(''ContactFlowId'', VStr flow)])),
      (''Transitions'', VDict (mk
         [(''NextAction'', VStr (lit ''disconnect'')),
          (''Errors'', VList [fallback_error ''NoMatchingError''])]))])"

definition route_decision :: "pyval list \<Rightarrow> pyval" where
  "route_decision conditions = VDict (mk
     [(''Identifier'', VStr (lit ''choose-reviewed-route'')), (''Type'', VStr (lit ''Compare'')),
      (''Parameters'', VDict (mk
         [(''ComparisonValue'', VStr (lit ''$.Attributes.bridgefu_routing_value''))])),
      (''Transitions'', VDict (mk
         [(''NextAction'', VStr (lit ''transfer-to-customer-flow'')), (''Conditions'', VList conditions),
          (''Errors'', VList [fallback_error ''NoMatchingCondition''])]))])"

text \<open>One route: its choice, its flow and whether the flow may be used.\<close>

definition check_route ::
    "'w aws_clients \<Rightarrow> screen_pop_field \<Rightarrow> pystr \<Rightarrow> pystr \<Rightarrow> pyval \<Rightarrow> pystr list \<Rightarrow> pyval \<Rightarrow> ('w, pystr \<times> pystr) act" where
  "check_route cl field instance_arn region account seen route =
     (if \<not> is_dict route \<or> keys (dict_of route) \<noteq> {lit ''value'', lit ''contactFlowArn''}
      then araise (ConfigurationError ''routing_route_invalid'')
      else
      let choice = get_key (dict_of route) ''value''; target = get_key (dict_of route) ''contactFlowArn'' in
      if choice \<notin> VStr ` set (field_choices field) \<or> choice \<in> VStr ` set seen
      then araise (ConfigurationError ''routing_value_invalid'')
      else
      abind (alift (full_match FLOW_ARN target)) (\<lambda>m.
      case m of
        None \<Rightarrow> araise (ConfigurationError ''routing_flow_scope_invalid'')
      | Some (a, i, f) \<Rightarrow>
          if arn_region a \<noteq> region \<or> VStr (arn_account a) \<noteq> account \<or>
             \<not> starts_with (str_of target) (instance_arn @ [47])
          then araise (ConfigurationError ''routing_flow_scope_invalid'')
          else
          abind (flow_published cl i f) (\<lambda>ok.
          if \<not> ok then araise (ConfigurationError ''routing_flow_not_published'')
          else aret (str_of choice, str_of target))))"

fun check_routes ::
    "'w aws_clients \<Rightarrow> screen_pop_field \<Rightarrow> pystr \<Rightarrow> pystr \<Rightarrow> pyval \<Rightarrow> pystr list \<Rightarrow> pyval list \<Rightarrow>
     ('w, (pystr \<times> pystr) list) act" where
  "check_routes cl field ia region account seen [] = aret []"
| "check_routes cl field ia region account seen (r # rs) =
     abind (check_route cl field ia region account seen r) (\<lambda>x.
     abind (check_routes cl field ia region account (fst x # seen) rs) (\<lambda>xs. aret (x # xs)))"

definition decision_json :: "(pystr \<times> pystr) list \<Rightarrow> pystr" where
  "decision_json table = 44 # json_dumps compact
     (route_decision (map (\<lambda>(k, c, _). route_condition k c) (enumerate 1 table)))"

definition actions_json :: "(pystr \<times> pystr) list \<Rightarrow> pystr" where
  "actions_json table = 44 # join [44]
     (map (\<lambda>(k, _, f). json_dumps compact (route_action k f)) (enumerate 1 table))"

record routing =
  routing_key :: pystr
  routing_next :: pystr
  routing_decision :: pystr
  routing_actions :: pystr

definition no_routing :: routing where
  "no_routing = \<lparr>routing_key = [], routing_next = lit ''transfer-to-customer-flow'',
     routing_decision = [], routing_actions = []\<rparr>"

definition load_routing :: "pyval \<Rightarrow> pydict result" where
  "load_routing v =
     rbind (expect_str (PyError ''TypeError'') v) (\<lambda>s.
     rbind (map_error (catch_as [json_error] (ConfigurationError ''routing_json_invalid'')) (json_loads s)) (\<lambda>r.
     if \<not> is_dict r \<or> keys (dict_of r) \<noteq> {lit ''fieldKey'', lit ''routes''}
     then Inl (ConfigurationError ''routing_shape_invalid'')
     else Inr (dict_of r)))"

definition routes_of ::
    "'w aws_clients \<Rightarrow> pydict \<Rightarrow> screen_pop_field list \<Rightarrow> pystr \<Rightarrow> pystr \<Rightarrow> pyval \<Rightarrow> ('w, routing) act" where
  "routes_of cl r fs instance_arn region account =
     (case find (\<lambda>f. VStr (field_key f) = get_key r ''fieldKey'') fs of
        None \<Rightarrow> araise (ConfigurationError ''routing_field_must_be_choice'')
      | Some field \<Rightarrow>
          if field_type field \<noteq> lit ''choice'' then araise (ConfigurationError ''routing_field_must_be_choice'')
          else
          let routes = get_key r ''routes'' in
          if \<not> is_list routes \<or> \<not> (1 \<le> length (list_of routes) \<and> length (list_of routes) \<le> 20)
          then araise (ConfigurationError ''routing_routes_invalid'')
          else
          abind (check_routes cl field instance_arn region account [] (list_of routes)) (\<lambda>table.
          if 4096 < length (decision_json table) \<or> 4096 < length (actions_json table)
          then araise (ConfigurationError ''routing_render_too_large'')
          else aret \<lparr>routing_key = field_key field, routing_next = lit ''choose-reviewed-route'',
                     routing_decision = decision_json table, routing_actions = actions_json table\<rparr>))"

definition routing_of ::
    "'w aws_clients \<Rightarrow> pyval \<Rightarrow> screen_pop_field list \<Rightarrow> pystr \<Rightarrow> pystr \<Rightarrow> pyval \<Rightarrow> ('w, routing) act" where
  "routing_of cl v fs instance_arn region account =
     (if v \<in> {VNone, VStr [], VStr (lit ''{}'')} then aret no_routing
      else abind (alift (load_routing v)) (\<lambda>r. routes_of cl r fs instance_arn region account))"

section \<open>The agent guide\<close>

definition html_char :: "nat \<Rightarrow> pystr" where
  "html_char c =
     (if c = 38 then lit ''&amp;'' else if c = 60 then lit ''&lt;'' else if c = 62 then lit ''&gt;''
      else if c = 34 then lit ''&quot;'' else if c = 39 then lit ''&#x27;'' else [c])"

definition html_escape :: "pystr \<Rightarrow> pystr" where
  "html_escape s = concat (map html_char s)"

definition guide_row :: "nat \<Rightarrow> screen_pop_field \<Rightarrow> pystr" where
  "guide_row k f =
     lit ''<p><strong>'' @ html_escape (field_label f) @ lit '':</strong> $.Attributes.screen_pop_value_''
       @ dec_nat k @ lit ''</p>''"

definition guide_rows :: "screen_pop_field list \<Rightarrow> pystr" where
  "guide_rows fs = concat (map (\<lambda>(k, f). guide_row k f) (enumerate 1 fs))"

text \<open>What \<open>json.dumps\<close> prints between its quotes.\<close>

definition encoded_rows :: "screen_pop_field list \<Rightarrow> pystr" where
  "encoded_rows fs = butlast (tl (json_dumps values_opts (VStr (guide_rows fs))))"

section \<open>Rendering\<close>

text \<open>The number of calls, as text: an integer or a text of decimal digits from 1 to 1000.\<close>

definition int_text :: "pyval \<Rightarrow> pystr result" where
  "int_text v =
     (case v of
        VInt i \<Rightarrow> if length (dec_nat (nat \<bar>i\<bar>)) > 4300 then Inl (PyError ''ValueError'') else Inr (dec_int i)
      | VStr s \<Rightarrow> Inr s
      | _ \<Rightarrow> Inl (ConfigurationError ''max_concurrent_calls_invalid''))"

definition call_limit :: "pylib \<Rightarrow> pyval \<Rightarrow> pystr result" where
  "call_limit lib v =
     rbind (int_text v) (\<lambda>s.
     if \<not> py_isdigit lib s then Inl (ConfigurationError ''max_concurrent_calls_invalid'')
     else rbind (some_or (PyError ''ValueError'') (parse_int lib s)) (\<lambda>i.
       if 1 \<le> i \<and> i \<le> 1000 then Inr s else Inl (ConfigurationError ''max_concurrent_calls_invalid'')))"

record checked =
  ck_fields :: "screen_pop_field list"
  ck_arn :: pystr
  ck_account :: pyval
  ck_instance :: pystr
  ck_flow :: pystr
  ck_calls :: pystr

text \<open>The checks before any client is called.\<close>

definition check_secret :: "pystr \<Rightarrow> pyval \<Rightarrow> pyval \<Rightarrow> unit result" where
  "check_secret region p account =
     rbind (subscript p ''VapiApiKeySecretArn'') (\<lambda>v.
     rbind (full_match SECRET_ARN v) (\<lambda>m.
     case m of
       None \<Rightarrow> Inl (ConfigurationError ''vapi_secret_arn_scope_invalid'')
     | Some a \<Rightarrow>
         rbind (subscript p ''Partition'') (\<lambda>part.
         refuse_if (VStr (arn_partition a) \<noteq> part \<or> arn_region a \<noteq> region \<or> VStr (arn_account a) \<noteq> account)
           ''vapi_secret_arn_scope_invalid'')))"

definition check_modes :: "pylib \<Rightarrow> pydict \<Rightarrow> pystr result" where
  "check_modes lib d =
     rbind (member_of RETENTION_MODES (get_key d ''DataRetentionMode'')) (\<lambda>ok.
     rbind (refuse_if (\<not> ok) ''data_retention_mode_invalid'') (\<lambda>_.
     rbind (member_of SIP_SECURITY_MODES (get_key d ''SipSecurity'')) (\<lambda>ok.
     rbind (refuse_if (\<not> ok) ''sip_security_invalid'') (\<lambda>_.
     rbind (call_limit lib (get_key d ''MaxConcurrentCalls'')) (\<lambda>calls.
     rbind (expect_str (PyError ''TypeError'') (get_or d ''RuntimeImageId'' (VStr []))) (\<lambda>image.
     rbind (refuse_if (\<not> is_ami image) ''runtime_image_id_invalid'') (\<lambda>_. Inr calls)))))))"

definition check_scope ::
    "pylib \<Rightarrow> pystr \<Rightarrow> pyval \<Rightarrow> screen_pop_field list \<Rightarrow> pystr \<Rightarrow> (arn \<times> pystr) option \<Rightarrow>
     (arn \<times> pystr \<times> pystr) option \<Rightarrow> checked result" where
  "check_scope lib region p fs arn im fm =
     (case (im, fm) of
       (Some (ia, i), Some (fa, fi, flow)) \<Rightarrow>
         rbind (subscript p ''AccountId'') (\<lambda>account.
         rbind (check_secret region p account) (\<lambda>_.
         rbind (check_modes lib (dict_of p)) (\<lambda>calls.
         rbind (refuse_if (arn_region ia \<noteq> region \<or> arn_region fa \<noteq> region \<or>
             VStr (arn_account ia) \<noteq> account \<or> VStr (arn_account fa) \<noteq> account \<or> i \<noteq> fi)
           ''connect_arn_scope_invalid'') (\<lambda>_.
         Inr \<lparr>ck_fields = fs, ck_arn = arn, ck_account = account, ck_instance = i,
              ck_flow = flow, ck_calls = calls\<rparr>))))
     | _ \<Rightarrow> Inl (ConfigurationError ''connect_arn_invalid''))"

definition check_static :: "pylib \<Rightarrow> pystr \<Rightarrow> pyval \<Rightarrow> checked result" where
  "check_static lib region p =
     rbind (map_error (\<lambda>_. ConfigurationError ''screen_pop_fields_invalid'')
       (rbind (subscript p ''ScreenPopFieldsJson'') (parse_fields lib))) (\<lambda>fs.
     rbind (subscript p ''ConnectInstanceArn'') (\<lambda>iv.
     rbind (full_match INSTANCE_ARN iv) (\<lambda>im.
     rbind (subscript p ''TargetContactFlowArn'') (\<lambda>fv.
     rbind (full_match FLOW_ARN fv) (\<lambda>fm.
     check_scope lib region p fs (str_of iv) im fm)))))"

definition instance_active :: "'w aws_clients \<Rightarrow> pystr \<Rightarrow> ('w, unit) act" where
  "instance_active cl i =
     abind (describe_instance cl i) (\<lambda>v.
     alift (rbind (subscript v ''Instance'') (\<lambda>d.
       rbind (attr_get d ''InstanceStatus'') (\<lambda>s.
       refuse_if (s \<noteq> VStr (lit ''ACTIVE'')) ''connect_instance_not_active''))))"

text \<open>\<open>v.rstrip(".").lower()\<close>\<close>

definition lowered :: "pylib \<Rightarrow> pyval \<Rightarrow> pystr result" where
  "lowered lib v =
     rbind (expect_str (PyError ''AttributeError'') v) (\<lambda>s. Inr (py_lower lib (rstrip_if (\<lambda>c. c = 46) s)))"

definition public_zone :: "pylib \<Rightarrow> pyval \<Rightarrow> pystr result" where
  "public_zone lib v =
     rbind (subscript v ''HostedZone'') (\<lambda>z.
     rbind (expect_dict (PyError ''AttributeError'') z) (\<lambda>d.
     rbind (attr_get (get_or d ''Config'' (VDict [])) ''PrivateZone'') (\<lambda>private.
     rbind (refuse_if (private \<noteq> VBool False) ''hosted_zone_not_public'') (\<lambda>_.
     rbind (subscript z ''Name'') (lowered lib)))))"

definition zone_of :: "pylib \<Rightarrow> 'w aws_clients \<Rightarrow> pyval \<Rightarrow> ('w, pystr) act" where
  "zone_of lib cl p =
     abind (alift (subscript p ''PublicHostedZoneId'')) (\<lambda>zid.
     abind (hosted_zone cl zid) (\<lambda>v.
     abind (alift (public_zone lib v)) (\<lambda>zone.
     abind (alift (rbind (subscript p ''SipHostname'') (lowered lib))) (\<lambda>host.
     if host = zone \<or> \<not> ends_with host (46 # zone)
     then araise (ConfigurationError ''sip_hostname_outside_zone'')
     else aret zone))))"

definition passed_on :: "pyval \<Rightarrow> string list \<Rightarrow> pydict result" where
  "passed_on p ks = rmap (\<lambda>k. rbind (subscript p k) (\<lambda>v. Inr (lit k, v))) ks"

definition rendered :: "checked \<Rightarrow> routing \<Rightarrow> pystr \<Rightarrow> pyval \<Rightarrow> pydict result" where
  "rendered ck rt zone p =
     (if 4096 < length (encoded_rows (ck_fields ck)) then Inl (ConfigurationError ''agent_guide_too_large'')
      else
      rbind (schema_hash (ck_fields ck)) (\<lambda>h.
      rbind (passed_on p [''DeploymentId'', ''ConnectInstanceArn'', ''PublicHostedZoneId'', ''SipHostname'',
        ''SipSecurity'']) (\<lambda>kept.
      rbind (passed_on p [''DataRetentionMode'', ''RuntimeImageId'']) (\<lambda>kept'.
      Inr (mk [(''AgentGuideTemplateString'', VStr (encoded_rows (ck_fields ck))),
               (''RoutingFieldKey'', VStr (routing_key rt)),
               (''RoutingNextAction'', VStr (routing_next rt)),
               (''RoutingDecisionActionJson'', VStr (routing_decision rt)),
               (''RoutingTransferActionsJson'', VStr (routing_actions rt)),
               (''SchemaHash'', VStr h),
               (''FieldCount'', VStr (dec_nat (length (ck_fields ck)))),
               (''HostedZoneName'', VStr (html_escape zone))] @ kept @
           mk [(''MaxConcurrentCalls'', VStr (ck_calls ck))] @ kept' @
           mk [(''RetainVapiResourcesOnDelete'', VStr (lit
                 (if safe_get p ''DataRetentionMode'' = VStr (lit ''ProductionRetain'') then ''true'' else ''false'')))])))))"

definition render :: "pylib \<Rightarrow> 'w aws_clients \<Rightarrow> pystr \<Rightarrow> pyval \<Rightarrow> ('w, pydict) act" where
  "render lib cl region p =
     abind (alift (check_static lib region p)) (\<lambda>ck.
     abind (instance_active cl (ck_instance ck)) (\<lambda>_.
     abind (flow_published cl (ck_instance ck) (ck_flow ck)) (\<lambda>ok.
     abind (alift (refuse_if (\<not> ok) ''target_flow_not_published'')) (\<lambda>_.
     abind (zone_of lib cl p) (\<lambda>zone.
     abind (routing_of cl (safe_get p ''RoutingJson'') (ck_fields ck) (ck_arn ck) region (ck_account ck)) (\<lambda>rt.
     alift (rendered ck rt zone p)))))))"

section \<open>The handler\<close>

definition configuration_response ::
    "(http_request \<Rightarrow> rat \<Rightarrow> ('w, http_result) act) \<Rightarrow> pydict \<Rightarrow> string \<Rightarrow> pydict \<Rightarrow> pystr \<Rightarrow> ('w, unit) act" where
  "configuration_response opener event status data reason =
     abind (alift (response_request event status
       (get_or event ''PhysicalResourceId'' (VStr (lit ''bridgefu-configuration-v1''))) data reason)) (\<lambda>req.
     deliver opener req 6)"

fun check_immutable :: "pydict \<Rightarrow> pyval \<Rightarrow> (string \<times> string) list \<Rightarrow> unit result" where
  "check_immutable old new [] = Inr ()"
| "check_immutable old new ((k, code) # ks) =
     rbind (attr_get new k) (\<lambda>v.
     if \<not> py_eq (get_key old k) v then Inl (ConfigurationError code) else check_immutable old new ks)"

definition check_update :: "pydict \<Rightarrow> unit result" where
  "check_update event =
     (if get_key event ''RequestType'' = VStr (lit ''Update'')
      then rbind (expect_dict (ConfigurationError ''old_resource_properties_invalid'')
             (get_key event ''OldResourceProperties'')) (\<lambda>old.
           rbind (subscript (VDict event) ''ResourceProperties'') (\<lambda>new.
           check_immutable old new IMMUTABLE_PROPERTIES))
      else Inr ())"

definition configuration_body ::
    "pylib \<Rightarrow> 'w aws_clients \<Rightarrow> (http_request \<Rightarrow> rat \<Rightarrow> ('w, http_result) act) \<Rightarrow> pystr \<Rightarrow> pydict \<Rightarrow> ('w, unit) act" where
  "configuration_body lib cl opener region event =
     (if get_key event ''RequestType'' = VStr (lit ''Delete'')
      then configuration_response opener event ''SUCCESS'' [] (lit ''configuration released'')
      else
      abind (alift (check_update event)) (\<lambda>_.
      abind (alift (subscript (VDict event) ''ResourceProperties'')) (\<lambda>p.
      abind (render lib cl region p) (\<lambda>data.
      configuration_response opener event ''SUCCESS'' data (lit ''configuration validated'')))))"

definition failure_reason :: "exn \<Rightarrow> string" where
  "failure_reason e =
     (case e of
        ConfigurationError code \<Rightarrow> code
      | _ \<Rightarrow> if e \<in> {PyError ''KeyError'', PyError ''TypeError'', PyError ''URLError''}
             then ''configuration_validation_failed'' else ''configuration_internal_error'')"

definition configuration_lambda ::
    "pylib \<Rightarrow> 'w aws_clients \<Rightarrow> (http_request \<Rightarrow> rat \<Rightarrow> ('w, http_result) act) \<Rightarrow> pystr \<Rightarrow> pydict \<Rightarrow> ('w, unit) act" where
  "configuration_lambda lib cl opener region event =
     acatch (configuration_body lib cl opener region event)
       (\<lambda>e. configuration_response opener event ''FAILED'' [] (lit (failure_reason e)))"

end
