(* ===== verification/ConfigurationSafety.thy ===== *)
theory ConfigurationSafety imports Configuration begin

text \<open>
  What an accepted configuration satisfies: every flow a contact can be sent to is a published flow
  of the configured Connect instance, the rendered agent guide survives the template that embeds
  it, and an update never changes an immutable property.
\<close>

section \<open>Flows of one instance\<close>

lemma split_join: "split_on x s = ps \<Longrightarrow> s = join [x] ps"
  using join_split_on by auto

lemma match_arn_text:
  "match_arn service s = Some a \<longleftrightarrow>
     (\<exists>rest. split_on 58 s = lit ''arn'' # arn_partition a # lit service # arn_region a # arn_account a # rest \<and>
        rest \<noteq> [] \<and> arn_resource a = join [58] rest \<and> is_partition (arn_partition a) \<and>
        some_of dash_char (arn_region a) \<and> is_account (arn_account a))"
  by (auto simp: match_arn_def split: list.splits if_splits)

text \<open>The text of an ARN is its parts between colons.\<close>

definition arn_text :: "string \<Rightarrow> arn \<Rightarrow> pystr" where
  "arn_text service a =
     lit ''arn:'' @ arn_partition a @ [58] @ lit service @ [58] @ arn_region a @ [58] @ arn_account a
       @ [58] @ arn_resource a"

lemma match_arn_is_text: "match_arn service s = Some a \<Longrightarrow> s = arn_text service a"
proof -
  assume "match_arn service s = Some a"
  then obtain rest where rest: "rest \<noteq> []" "arn_resource a = join [58] rest"
    and parts: "split_on 58 s = lit ''arn'' # arn_partition a # lit service # arn_region a # arn_account a # rest"
    by (auto simp: match_arn_text)
  have "s = join [58] (lit ''arn'' # arn_partition a # lit service # arn_region a # arn_account a # rest)"
    using join_split_on [of 58 s] parts by simp
  with rest show ?thesis by (simp add: join_Cons arn_text_def lit_def)
qed

lemma flow_of_text:
  assumes "flow_of res = Some (i, f)"
  shows "res = lit ''instance/'' @ i @ lit ''/contact-flow/'' @ f \<and> some_of arn_id_char i \<and> some_of arn_id_char f"
proof -
  have "split_on 47 res = [lit ''instance'', i, lit ''contact-flow'', f] \<and> some_of arn_id_char i \<and> some_of arn_id_char f"
    using assms by (auto simp: flow_of_def split: list.splits if_splits)
  then show ?thesis using split_join [of 47 res] by (auto simp: lit_def)
qed

lemma instance_of_text:
  assumes "instance_of res = Some i"
  shows "res = lit ''instance/'' @ i \<and> some_of arn_id_char i"
proof -
  have "split_on 47 res = [lit ''instance'', i] \<and> some_of arn_id_char i"
    using assms by (auto simp: instance_of_def split: list.splits if_splits)
  then show ?thesis using split_join [of 47 res] by (auto simp: lit_def)
qed

lemma arn_char_not_sep: "some_of arn_id_char s \<Longrightarrow> 47 \<notin> set s"
  by (auto simp: some_of_def arn_id_char_def char_class_defs list_all_iff)

lemma split_at_first:
  "47 \<notin> set i \<Longrightarrow> 47 \<notin> set j \<Longrightarrow> i @ (47::nat) # x = j @ 47 # y \<Longrightarrow> i = j \<and> x = y"
  by (metis split_on_append list.inject join_split_on)

text \<open>The resource is what follows the fifth colon, so a longer text with the same prefix only extends it.\<close>

lemma split_arn_text:
  assumes "match_arn service s = Some a"
  shows "split_on 58 (s @ u) = lit ''arn'' # arn_partition a # lit service # arn_region a # arn_account a
     # split_on 58 (arn_resource a @ u)"
proof -
  from assms obtain rest where parts:
      "split_on 58 s = lit ''arn'' # arn_partition a # lit service # arn_region a # arn_account a # rest"
    by (auto simp: match_arn_text)
  then have "58 \<notin> set (lit ''arn'')" "58 \<notin> set (arn_partition a)" "58 \<notin> set (lit service)"
      "58 \<notin> set (arn_region a)" "58 \<notin> set (arn_account a)"
    using split_on_parts_no_sep [of _ 58 s] by auto
  then show ?thesis
    by (subst match_arn_is_text [OF assms])
      (simp add: arn_text_def lit_append [of "''arn''" "'':''", simplified] lit_def [of "'':''"] split_on_append)
qed

lemma resource_extends:
  assumes "match_arn service s = Some a" "match_arn service (s @ u) = Some b"
  shows "arn_resource b = arn_resource a @ u"
proof -
  have "split_on 58 (arn_resource a @ u) = split_on 58 (arn_resource b)"
    using split_arn_text [OF assms(1), of u] split_arn_text [OF assms(2), of "[]"] by simp
  then show ?thesis by (metis join_split_on)
qed

text \<open>
  A flow whose ARN starts with an instance's ARN and a slash is a flow of that instance: nothing
  but \<open>contact-flow/\<close> and its identifier follows.
\<close>

lemma INSTANCE_ARN_parts:
  assumes "INSTANCE_ARN s = Some (a, i)"
  shows "match_arn ''connect'' s = Some a" "arn_resource a = lit ''instance/'' @ i" "47 \<notin> set i"
proof -
  have m: "match_arn ''connect'' s = Some a \<and> instance_of (arn_resource a) = Some i"
    using assms by (cases "match_arn ''connect'' s") (auto simp: INSTANCE_ARN_def)
  then show "match_arn ''connect'' s = Some a" by simp
  from m have "instance_of (arn_resource a) = Some i" by simp
  note instance_of_text [OF this]
  then show "arn_resource a = lit ''instance/'' @ i" "47 \<notin> set i" using arn_char_not_sep by simp_all
qed

lemma FLOW_ARN_parts:
  assumes "FLOW_ARN s = Some (a, i, f)"
  shows "match_arn ''connect'' s = Some a" "arn_resource a = lit ''instance/'' @ i @ lit ''/contact-flow/'' @ f"
    "47 \<notin> set i"
proof -
  have m: "match_arn ''connect'' s = Some a \<and> flow_of (arn_resource a) = Some (i, f)"
    using assms by (cases "match_arn ''connect'' s") (auto simp: FLOW_ARN_def)
  then show "match_arn ''connect'' s = Some a" by simp
  from m have "flow_of (arn_resource a) = Some (i, f)" by simp
  note flow_of_text [OF this]
  then show "arn_resource a = lit ''instance/'' @ i @ lit ''/contact-flow/'' @ f" "47 \<notin> set i"
    using arn_char_not_sep by simp_all
qed

lemma flow_of_instance:
  assumes inst: "INSTANCE_ARN ia = Some (a, i)" and flow: "FLOW_ARN s = Some (b, j, f)"
    and pre: "starts_with s (ia @ [47])"
  shows "j = i \<and> s = ia @ lit ''/contact-flow/'' @ f"
proof -
  note a = INSTANCE_ARN_parts [OF inst] and b = FLOW_ARN_parts [OF flow]
  from pre obtain t where t: "s = ia @ 47 # t" by (auto simp: starts_with_iff)
  have "arn_resource b = arn_resource a @ 47 # t"
    using resource_extends [OF a(1), of "47 # t"] b(1) t by simp
  then have "lit ''instance/'' @ j @ lit ''/contact-flow/'' @ f = lit ''instance/'' @ i @ 47 # t"
    by (simp only: a(2) b(2) append_assoc)
  then have eq: "j @ lit ''/contact-flow/'' @ f = i @ 47 # t" by simp
  have slash: "lit ''/contact-flow/'' = 47 # lit ''contact-flow/''"
    by (simp add: lit_append [of "''/''" "''contact-flow/''", simplified] lit_def [of "''/''"])
  have "j = i \<and> lit ''contact-flow/'' @ f = t"
    using eq a(3) b(3) split_at_first [of j i] unfolding slash by simp
  then show ?thesis using t slash by simp
qed

section \<open>The rendered configuration\<close>

text \<open>
  \<open>live\<close> says which flows are active and published; \<open>describe_contact_flow\<close> reports it.
\<close>

definition reports :: "'w aws_clients \<Rightarrow> (pystr \<Rightarrow> pystr \<Rightarrow> bool) \<Rightarrow> bool" where
  "reports cl live \<longleftrightarrow> (\<forall>i c w b w'. flow_published cl i c w = (Inr b, w') \<longrightarrow> b = live i c)"

lemma reportsD: "reports cl live \<Longrightarrow> flow_published cl i c w = (Inr b, w') \<Longrightarrow> b = live i c"
  unfolding reports_def by blast

definition usable_flow :: "(pystr \<Rightarrow> pystr \<Rightarrow> bool) \<Rightarrow> pystr \<Rightarrow> pystr \<Rightarrow> bool" where
  "usable_flow live ia f \<longleftrightarrow>
     (\<exists>a i c. INSTANCE_ARN ia = Some (a, i) \<and> f = ia @ lit ''/contact-flow/'' @ c \<and> live i c)"

lemma check_route_ok:
  assumes ok: "check_route cl field ia region account seen r w = (Inr (c, f), w')"
  obtains a j fl where "FLOW_ARN f = Some (a, j, fl)" "starts_with f (ia @ [47])"
    "flow_published cl j fl w = (Inr True, w')" "c \<in> set (field_choices field)" "c \<notin> set seen"
proof -
  let ?target = "get_key (dict_of r) ''contactFlowArn''"
  from ok obtain t where t: "?target = VStr t"
    by (auto simp: check_route_def Let_def full_match_def result_simps split: if_split_asm)
  show thesis
  proof (cases "FLOW_ARN t")
    case None
    with ok t show thesis by (auto simp: check_route_def Let_def full_match_def split: if_split_asm)
  next
    case (Some m)
    then obtain a j fl where m: "FLOW_ARN t = Some (a, j, fl)" by (cases m) auto
    with ok t have "abind (flow_published cl j fl) (\<lambda>b. if \<not> b then araise (ConfigurationError ''routing_flow_not_published'')
        else aret (str_of (get_key (dict_of r) ''value''), str_of (VStr t))) w = (Inr (c, f), w')"
      and "starts_with t (ia @ [47])"
      and choice: "get_key (dict_of r) ''value'' \<in> VStr ` set (field_choices field)"
        "get_key (dict_of r) ''value'' \<notin> VStr ` set seen"
      by (auto simp: check_route_def Let_def full_match_def split: if_split_asm)
    then show thesis using m
      by (auto simp: abind_split split: if_split_asm intro: that)
  qed
qed

lemma check_routes_usable:
  assumes "check_routes cl field ia region account seen rs w = (Inr table, w')"
    and "INSTANCE_ARN ia = Some (a, i)"
    and live: "reports cl live"
  shows "list_all (usable_flow live ia) (map snd table) \<and> distinct (map fst table) \<and>
     set (map fst table) \<subseteq> set (field_choices field) - set seen"
  using assms(1)
proof (induction rs arbitrary: seen w table)
  case Nil
  then show ?case by simp
next
  case (Cons r rs)
  then obtain c f w1 rest where one: "check_route cl field ia region account seen r w = (Inr (c, f), w1)"
    and more: "check_routes cl field ia region account (c # seen) rs w1 = (Inr rest, w')"
    and table: "table = (c, f) # rest"
    by (auto simp: abind_split)
  from one obtain b j fl where f: "FLOW_ARN f = Some (b, j, fl)" "starts_with f (ia @ [47])"
      "flow_published cl j fl w = (Inr True, w1)" and c: "c \<in> set (field_choices field)" "c \<notin> set seen"
    by (rule check_route_ok)
  have "usable_flow live ia f"
    using assms(2) flow_of_instance [OF assms(2) f(1,2)] reportsD [OF live f(3)] by (auto simp: usable_flow_def)
  with Cons.IH [OF more] table c show ?case by auto
qed

text \<open>The routing that goes with a table of choices and flows; no table is no routing.\<close>

definition routing_rendered :: "pystr \<Rightarrow> (pystr \<times> pystr) list \<Rightarrow> routing" where
  "routing_rendered key table =
     (if table = [] then no_routing
      else \<lparr>routing_key = key, routing_next = lit ''choose-reviewed-route'',
            routing_decision = decision_json table, routing_actions = actions_json table\<rparr>)"

lemma check_routes_length:
  "check_routes cl field ia region account seen rs w = (Inr table, w') \<Longrightarrow> length table = length rs"
  by (induction rs arbitrary: seen w table) (auto simp: abind_split)

lemma routes_of_ok:
  assumes ok: "routes_of cl r fs ia region account w = (Inr rt, w')"
    and inst: "INSTANCE_ARN ia = Some (a, i)"
    and live: "reports cl live"
  shows "\<exists>key table. rt = routing_rendered key table \<and> list_all (usable_flow live ia) (map snd table) \<and>
     distinct (map fst table) \<and> length table \<le> 20 \<and>
     (table \<noteq> [] \<longrightarrow> (\<exists>f\<in>set fs. field_key f = key \<and> set (map fst table) \<subseteq> set (field_choices f)))"
proof -
  obtain field where field: "find (\<lambda>f. VStr (field_key f) = get_key r ''fieldKey'') fs = Some field"
    using ok by (cases "find (\<lambda>f. VStr (field_key f) = get_key r ''fieldKey'') fs") (simp_all add: routes_of_def)
  define routes where "routes = list_of (get_key r ''routes'')"
  from ok field obtain table w1 where
      table: "check_routes cl field ia region account [] routes w = (Inr table, w1)"
    and len: "1 \<le> length routes" "length routes \<le> 20"
    and rt: "rt = \<lparr>routing_key = field_key field, routing_next = lit ''choose-reviewed-route'',
       routing_decision = decision_json table, routing_actions = actions_json table\<rparr>"
    by (auto simp: routes_of_def Let_def abind_split routes_def split: if_split_asm)
  have "field \<in> set fs" using field by (auto simp: find_Some_iff)
  moreover have "rt = routing_rendered (field_key field) table" "length table \<le> 20"
    using rt len check_routes_length [OF table] by (auto simp: routing_rendered_def)
  ultimately show ?thesis using check_routes_usable [OF table inst live] by auto
qed

lemma routing_of_ok:
  assumes ok: "routing_of cl v fs ia region account w = (Inr rt, w')"
    and inst: "INSTANCE_ARN ia = Some (a, i)"
    and live: "reports cl live"
  shows "\<exists>key table. rt = routing_rendered key table \<and> list_all (usable_flow live ia) (map snd table) \<and>
     distinct (map fst table) \<and> length table \<le> 20 \<and>
     (table \<noteq> [] \<longrightarrow> (\<exists>f\<in>set fs. field_key f = key \<and> set (map fst table) \<subseteq> set (field_choices f)))"
proof (cases "v \<in> {VNone, VStr [], VStr (lit ''{}'')}")
  case True
  then have "rt = routing_rendered [] []" using ok by (auto simp: routing_of_def routing_rendered_def)
  then show ?thesis by (intro exI [of _ "[]"] conjI) simp_all
next
  case False
  then obtain r where r: "routes_of cl r fs ia region account w = (Inr rt, w')"
    using ok by (cases "load_routing v") (simp_all add: routing_of_def)
  show ?thesis by (rule routes_of_ok [OF r inst live])
qed

lemma check_scope_ok:
  assumes ok: "check_scope lib region p fs ia (INSTANCE_ARN ia) fm = Inr ck"
  shows "\<exists>a. INSTANCE_ARN (ck_arn ck) = Some (a, ck_instance ck) \<and> arn_region a = region \<and>
     subscript p ''AccountId'' = Inr (VStr (arn_account a)) \<and> ck_arn ck = ia \<and> ck_fields ck = fs"
proof -
  from ok obtain a i fa fi flow where m: "INSTANCE_ARN ia = Some (a, i)" "fm = Some (fa, fi, flow)"
    by (auto simp: check_scope_def split: option.split_asm)
  with ok show ?thesis
    by (auto simp: check_scope_def rbind_eq_Inr refuse_if_def split: if_split_asm)
qed

lemma check_static_ok:
  assumes "check_static lib region p = Inr ck"
  shows "\<exists>a. INSTANCE_ARN (ck_arn ck) = Some (a, ck_instance ck) \<and> arn_region a = region \<and>
     subscript p ''AccountId'' = Inr (VStr (arn_account a)) \<and> subscript p ''ConnectInstanceArn'' = Inr (VStr (ck_arn ck)) \<and>
     rbind (subscript p ''ScreenPopFieldsJson'') (parse_fields lib) = Inr (ck_fields ck)"
proof -
  from assms obtain fs ia fm where fs: "rbind (subscript p ''ScreenPopFieldsJson'') (parse_fields lib) = Inr fs"
    and ia: "subscript p ''ConnectInstanceArn'' = Inr (VStr ia)"
    and rest: "check_scope lib region p fs ia (INSTANCE_ARN ia) fm = Inr ck"
    unfolding check_static_def full_match_def by (auto simp: rbind_eq_Inr expect_Inr)
  from check_scope_ok [OF rest] fs ia show ?thesis by auto
qed

text \<open>
  C23.  Contacts stay in the configured instance: whatever configuration \<open>render\<close> accepts, the flow
  that every rendered route transfers to is a published contact flow of the configured Connect
  instance, in the stack's region and account; the routes are at most 20, one for each of as many
  choices of one field, and the two routing documents are exactly the renderings of this table.
\<close>

theorem routes_stay_in_instance:
  assumes ok: "render lib cl region p w = (Inr data, w')" and live: "reports cl live"
  shows "\<exists>ia a i key table. subscript p ''ConnectInstanceArn'' = Inr (VStr ia) \<and>
     INSTANCE_ARN ia = Some (a, i) \<and> arn_region a = region \<and> subscript p ''AccountId'' = Inr (VStr (arn_account a)) \<and>
     list_all (usable_flow live ia) (map snd table) \<and> distinct (map fst table) \<and> length table \<le> 20 \<and>
     get_key data ''RoutingFieldKey'' = VStr (routing_key (routing_rendered key table)) \<and>
     get_key data ''RoutingDecisionActionJson'' = VStr (routing_decision (routing_rendered key table)) \<and>
     get_key data ''RoutingTransferActionsJson'' = VStr (routing_actions (routing_rendered key table))"
proof -
  from ok obtain ck rt zone w1 w2 where ck: "check_static lib region p = Inr ck"
    and rt: "routing_of cl (safe_get p ''RoutingJson'') (ck_fields ck) (ck_arn ck) region (ck_account ck) w1 = (Inr rt, w2)"
    and data: "rendered ck rt zone p = Inr data"
    by (auto simp: render_def abind_split)
  from check_static_ok [OF ck] obtain a where a: "INSTANCE_ARN (ck_arn ck) = Some (a, ck_instance ck)"
      "arn_region a = region" "subscript p ''AccountId'' = Inr (VStr (arn_account a))"
      "subscript p ''ConnectInstanceArn'' = Inr (VStr (ck_arn ck))" by blast
  from routing_of_ok [OF rt a(1) live] obtain key table where table: "rt = routing_rendered key table"
      "list_all (usable_flow live (ck_arn ck)) (map snd table)" "distinct (map fst table)" "length table \<le> 20"
    by blast
  have "get_key data ''RoutingFieldKey'' = VStr (routing_key rt) \<and>
      get_key data ''RoutingDecisionActionJson'' = VStr (routing_decision rt) \<and>
      get_key data ''RoutingTransferActionsJson'' = VStr (routing_actions rt)"
    using data by (auto simp: rendered_def rbind_eq_Inr get_key_def get_or_def split: if_split_asm)
  with a table show ?thesis by blast
qed

section \<open>An instance\<close>

definition demo_arn :: pystr where
  "demo_arn = lit ''arn:aws:connect:us-east-1:123456789012:instance/abc''"

definition demo_item :: pyval where
  "demo_item = VDict (mk [(''key'', VStr (lit ''team'')), (''label'', VStr (lit ''Team'')),
     (''description'', VStr (lit ''Team to route to.'')), (''type'', VStr (lit ''choice'')), (''required'', VBool True),
     (''choices'', VList [VStr (lit ''sales''), VStr (lit ''support'')])])"

definition demo_routing :: pyval where
  "demo_routing = VDict (mk [(''fieldKey'', VStr (lit ''team'')), (''routes'', VList [VDict (mk
     [(''value'', VStr (lit ''sales'')), (''contactFlowArn'', VStr (demo_arn @ lit ''/contact-flow/def''))])])])"

definition demo_properties :: pyval where
  "demo_properties = VDict (mk
     [(''ScreenPopFieldsJson'', VList [demo_item]), (''ConnectInstanceArn'', VStr demo_arn),
      (''TargetContactFlowArn'', VStr (demo_arn @ lit ''/contact-flow/main'')),
      (''AccountId'', VStr (lit ''123456789012'')), (''Partition'', VStr (lit ''aws'')),
      (''VapiApiKeySecretArn'', VStr (lit ''arn:aws:secretsmanager:us-east-1:123456789012:secret:k'')),
      (''DataRetentionMode'', VStr (lit ''TestDelete'')), (''SipSecurity'', VStr (lit ''sip_rtp'')),
      (''MaxConcurrentCalls'', VInt 4), (''RuntimeImageId'', VStr (lit ''ami-0123abcd'')),
      (''PublicHostedZoneId'', VStr (lit ''Z'')), (''SipHostname'', VStr (lit ''sip.x.io'')),
      (''DeploymentId'', VStr (lit ''demo'')), (''RoutingJson'', VStr (json_dumps compact demo_routing))])"

definition demo_clients :: "unit aws_clients" where
  "demo_clients = \<lparr>describe_instance = (\<lambda>_. aret (VDict (mk [(''Instance'', VDict (mk
       [(''InstanceStatus'', VStr (lit ''ACTIVE''))]))]))),
     describe_flow = (\<lambda>_ _. aret (VDict (mk [(''ContactFlow'', VDict (mk
       [(''State'', VStr (lit ''ACTIVE'')), (''Status'', VStr (lit ''PUBLISHED''))]))]))),
     hosted_zone = (\<lambda>_. aret (VDict (mk [(''HostedZone'', VDict (mk
       [(''Config'', VDict (mk [(''PrivateZone'', VBool False)])), (''Name'', VStr (lit ''x.io.''))]))])))\<rparr>"

lemma demo_published: "flow_published demo_clients i f = aret True"
  by (simp add: flow_published_def demo_clients_def subscript_def get_opt_def attr_get_def fun_eq_iff)

lemma demo_reports: "reports demo_clients (\<lambda>_ _. True)"
  by (simp add: reports_def demo_published)

lemma demo_arn_parts: "INSTANCE_ARN demo_arn = Some (\<lparr>arn_partition = lit ''aws'', arn_region = lit ''us-east-1'',
    arn_account = lit ''123456789012'', arn_resource = lit ''instance/abc''\<rparr>, lit ''abc'')"
  by (simp add: INSTANCE_ARN_def match_arn_def demo_arn_def is_partition_def is_account_def some_of_def
      dash_char_def arn_id_char_def instance_of_def eval_simps)

lemma demo_plain:
  "plain_text (VStr (lit ''Team'')) n 64 = Inr (lit ''Team'')"
  "plain_text (VStr (lit ''Team to route to.'')) n 256 = Inr (lit ''Team to route to.'')"
  "plain_text (VStr (lit ''sales'')) n 128 = Inr (lit ''sales'')"
  "plain_text (VStr (lit ''support'')) n 128 = Inr (lit ''support'')"
  "key_pattern (lit ''team'') \<and> lit ''team'' \<notin> set RESERVED_KEYS"
  by (simp_all add: plain_text_def field_eval eval_simps)

lemma demo_item_parses: "parse_fields ascii_pylib (VList [demo_item]) = Inr demo_choice_fields"
proof -
  have "parse_limits (dict_of demo_item) (VStr (lit ''choice'')) = Inr (7, [lit ''sales'', lit ''support''])"
    by (simp add: parse_limits_def demo_item_def demo_plain)
  then have "parse_field ascii_pylib [] [] demo_item = Inr (hd demo_choice_fields)"
    by (simp add: parse_field_def demo_item_def demo_plain keys_def ITEM_KEYS_def demo_choice_fields_def)
  then show ?thesis
    by (simp add: parse_fields_def decode_fields_def MAX_FIELDS_def MAX_TOTAL_VALUE_CHARACTERS_def demo_choice_fields_def)
qed

lemma demo_static: "check_static ascii_pylib (lit ''us-east-1'') demo_properties = Inr
   \<lparr>ck_fields = demo_choice_fields, ck_arn = demo_arn, ck_account = VStr (lit ''123456789012''),
    ck_instance = lit ''abc'', ck_flow = lit ''main'', ck_calls = [52]\<rparr>"
proof -
  have flow: "FLOW_ARN (demo_arn @ lit ''/contact-flow/main'') = Some (\<lparr>arn_partition = lit ''aws'', arn_region = lit ''us-east-1'',
    arn_account = lit ''123456789012'', arn_resource = lit ''instance/abc/contact-flow/main''\<rparr>, lit ''abc'', lit ''main'')"
    by (simp add: FLOW_ARN_def match_arn_def demo_arn_def is_partition_def is_account_def some_of_def
      dash_char_def arn_id_char_def flow_of_def eval_simps)
  have sec: "SECRET_ARN (lit ''arn:aws:secretsmanager:us-east-1:123456789012:secret:k'') = Some
     \<lparr>arn_partition = lit ''aws'', arn_region = lit ''us-east-1'', arn_account = lit ''123456789012'', arn_resource = lit ''secret:k''\<rparr>"
    by (simp add: SECRET_ARN_def match_arn_def is_partition_def is_account_def some_of_def
      dash_char_def secret_char_def eval_simps)
  have calls: "call_limit ascii_pylib (VInt 4) = Inr [52]"
    by (simp add: call_limit_def int_text_def py_isdigit_def parse_int_def strip_if_def lstrip_if_def rstrip_if_def
        digit_value_def eval_simps)
  have ami: "is_ami (lit ''ami-0123abcd'')" by (simp add: is_ami_def eval_simps)
  have modes: "check_modes ascii_pylib (dict_of demo_properties) = Inr [52]"
    by (simp add: check_modes_def demo_properties_def member_of_def RETENTION_MODES_def SIP_SECURITY_MODES_def
        refuse_if_def calls ami)
  show ?thesis
    using flow sec modes demo_arn_parts demo_item_parses
    by (simp add: check_static_def check_scope_def check_secret_def full_match_def subscript_def get_opt_def
        demo_properties_def refuse_if_def)
qed

definition demo_table :: "(pystr \<times> pystr) list" where
  "demo_table = [(lit ''sales'', demo_arn @ lit ''/contact-flow/def'')]"

lemma demo_lengths: "length (decision_json demo_table) \<le> 4096" "length (actions_json demo_table) \<le> 4096"
  by (simp_all add: decision_json_def actions_json_def demo_table_def route_decision_def route_condition_def
     fallback_error_def route_action_def route_id_def demo_arn_def eval_simps)

lemma demo_guide: "length (encoded_rows demo_choice_fields) \<le> 4096"
  by (simp add: encoded_rows_def demo_choice_fields_def guide_rows_def guide_row_def html_escape_def html_char_def
    values_opts_def eval_simps)

lemma demo_routes: "routing_of demo_clients (VStr (json_dumps compact demo_routing)) demo_choice_fields demo_arn
    (lit ''us-east-1'') (VStr (lit ''123456789012'')) () = (Inr (routing_rendered (lit ''team'') demo_table), ())"
proof -
  have flow: "FLOW_ARN (demo_arn @ lit ''/contact-flow/def'') = Some (\<lparr>arn_partition = lit ''aws'', arn_region = lit ''us-east-1'',
    arn_account = lit ''123456789012'', arn_resource = lit ''instance/abc/contact-flow/def''\<rparr>, lit ''abc'', lit ''def'')"
    by (simp add: FLOW_ARN_def match_arn_def demo_arn_def is_partition_def is_account_def some_of_def
      dash_char_def arn_id_char_def flow_of_def eval_simps)
  have "json_ok True demo_routing"
    by (simp add: demo_routing_def demo_arn_def char_ok_def eval_simps)
  then have "json_loads (json_dumps compact demo_routing) = Inr demo_routing"
    unfolding json_loads_def by (intro json_loads_dumps)
      (auto simp: good_opts_def compact_def any_hook_default intro: exI [of _ 0])
  then have "load_routing (VStr (json_dumps compact demo_routing)) = Inr (dict_of demo_routing)"
    by (simp add: load_routing_def demo_routing_def keys_def)
  moreover have "VStr (json_dumps compact demo_routing) \<notin> {VNone, VStr [], VStr (lit ''{}'')}"
    by (simp add: demo_routing_def json_dumps_def compact_def lit_def [of "''{}''"] dump_str_def)
  moreover have routes: "check_routes demo_clients (hd demo_choice_fields) demo_arn (lit ''us-east-1'') (VStr (lit ''123456789012'')) []
      (list_of (get_key (dict_of demo_routing) ''routes'')) () = (Inr demo_table, ())"
    using flow by (simp add: check_route_def demo_routing_def demo_table_def demo_choice_fields_def full_match_def
        keys_def demo_published starts_with_iff lit_append [of "''/''" "''contact-flow/def''", simplified] lit_def [of "''/''"] abind_def)
  have "find (\<lambda>f. VStr (field_key f) = get_key (dict_of demo_routing) ''fieldKey'') demo_choice_fields = Some (hd demo_choice_fields)"
    "field_type (hd demo_choice_fields) = lit ''choice''" "field_key (hd demo_choice_fields) = lit ''team''"
    "is_list (get_key (dict_of demo_routing) ''routes'')" "length (list_of (get_key (dict_of demo_routing) ''routes'')) = 1"
    by (simp_all add: demo_choice_fields_def demo_routing_def)
  then have "routes_of demo_clients (dict_of demo_routing) demo_choice_fields demo_arn (lit ''us-east-1'')
      (VStr (lit ''123456789012'')) () = (Inr (routing_rendered (lit ''team'') demo_table), ())"
    using demo_lengths by (simp add: routes_of_def Let_def abind_def routes)
      (simp add: routing_rendered_def demo_table_def)
  ultimately show ?thesis by (simp add: routing_of_def)
qed

lemma demo_renders: "\<exists>data. render ascii_pylib demo_clients (lit ''us-east-1'') demo_properties () = (Inr data, ())"
proof -
  have "zone_of ascii_pylib demo_clients demo_properties = aret (lit ''x.io'')"
    by (simp add: zone_of_def demo_properties_def subscript_def get_opt_def demo_clients_def public_zone_def attr_get_def
       lowered_def refuse_if_def) (simp add: rstrip_if_def eval_simps)
  moreover have "instance_active demo_clients i = aret ()" for i
    by (simp add: instance_active_def demo_clients_def subscript_def get_opt_def attr_get_def refuse_if_def fun_eq_iff)
  moreover have "safe_get demo_properties ''RoutingJson'' = VStr (json_dumps compact demo_routing)"
    by (simp add: demo_properties_def)
  moreover have "\<exists>h. schema_hash demo_choice_fields = Inr h"
    by (simp add: schema_hash_def demo_choice_fields_def fields_json_def field_value_def fields_opts_def dec_nat.simps eval_simps)
  moreover have "\<exists>k. passed_on demo_properties [''DeploymentId'', ''ConnectInstanceArn'', ''PublicHostedZoneId'', ''SipHostname'',
      ''SipSecurity''] = Inr k" "\<exists>k. passed_on demo_properties [''DataRetentionMode'', ''RuntimeImageId''] = Inr k"
    by (simp_all add: passed_on_def demo_properties_def subscript_def get_opt_def)
  ultimately show ?thesis
    using demo_guide demo_routes
    by (auto simp: render_def demo_static demo_published refuse_if_def abind_def rendered_def)
qed

theorem routes_stay_in_instance_witness:
  "\<exists>data a i key table. render ascii_pylib demo_clients (lit ''us-east-1'') demo_properties () = (Inr data, ()) \<and>
     INSTANCE_ARN demo_arn = Some (a, i) \<and> list_all (usable_flow (\<lambda>_ _. True) demo_arn) (map snd table) \<and>
     get_key data ''RoutingTransferActionsJson'' = VStr (routing_actions (routing_rendered key table))"
proof -
  obtain data where data: "render ascii_pylib demo_clients (lit ''us-east-1'') demo_properties () = (Inr data, ())"
    using demo_renders by blast
  have "subscript demo_properties ''ConnectInstanceArn'' = Inr (VStr demo_arn)"
    by (simp add: demo_properties_def subscript_def get_opt_def)
  with data routes_stay_in_instance [OF data demo_reports] show ?thesis by auto
qed

section \<open>The agent guide\<close>

text \<open>
  A reference reading of markup: what stands between angle brackets is a tag, the five entities are their
  characters, and any other character is itself.
\<close>

definition html_entity :: "pystr \<Rightarrow> nat \<times> nat" where
  "html_entity s =
     (if starts_with s (lit ''amp;'') then (38, 4) else if starts_with s (lit ''lt;'') then (60, 3)
      else if starts_with s (lit ''gt;'') then (62, 3) else if starts_with s (lit ''quot;'') then (34, 5)
      else if starts_with s (lit ''#x27;'') then (39, 5) else (38, 0))"

function html_tokens :: "pystr \<Rightarrow> (pystr + nat) list" where
  "html_tokens [] = []"
| "html_tokens (c # s) =
     (if c = 60 then Inl (takeWhile (\<lambda>x. x \<noteq> 62) s) # html_tokens (drop 1 (dropWhile (\<lambda>x. x \<noteq> 62) s))
      else if c = 38 then Inr (fst (html_entity s)) # html_tokens (drop (snd (html_entity s)) s)
      else Inr c # html_tokens s)"
  by pat_completeness auto
termination
  by (relation "measure length") (auto simp: less_Suc_eq_le intro: le_trans [OF diff_le_self length_dropWhile_le])

declare html_tokens.simps(2) [simp del]

lemma tokens_char: "c \<noteq> 60 \<Longrightarrow> c \<noteq> 38 \<Longrightarrow> html_tokens (c # s) = Inr c # html_tokens s"
  by (simp add: html_tokens.simps(2))

lemma tokens_plain: "{38, 60} \<inter> set s = {} \<Longrightarrow> html_tokens (s @ t) = map Inr s @ html_tokens t"
  by (induction s) (auto simp: tokens_char)

lemma tokens_tag: "62 \<notin> set g \<Longrightarrow> html_tokens (60 # g @ 62 # t) = Inl g # html_tokens t"
  by (simp add: html_tokens.simps(2) takeWhile_append dropWhile_append takeWhile_eq_all_conv)

lemma tokens_escape: "html_tokens (html_escape s @ t) = map Inr s @ html_tokens t"
proof (induction s)
  case (Cons c s)
  have "html_tokens (html_char c @ u) = Inr c # html_tokens u" for u
    by (auto simp: html_char_def html_tokens.simps(2) html_entity_def starts_with_def lit_def)
  with Cons.IH show ?case by (simp add: html_escape_def)
qed (simp add: html_escape_def)

text \<open>What an agent is to see of a field: its label in bold, and the attribute with its value.\<close>

definition shown_row :: "nat \<Rightarrow> screen_pop_field \<Rightarrow> (pystr + nat) list" where
  "shown_row k f =
     [Inl (lit ''p''), Inl (lit ''strong'')] @ map Inr (field_label f) @ map Inr (lit '':'') @ [Inl (lit ''/strong'')] @
     map Inr (lit '' $.Attributes.screen_pop_value_'' @ dec_nat k) @ [Inl (lit ''/p'')]"

lemma tokens_row: "html_tokens (guide_row k f @ t) = shown_row k f @ html_tokens t"
proof -
  have "{38, 60} \<inter> set (dec_nat k) = {}"
    using dec_nat_digits [of k] by (auto simp: list_all_iff is_digit_def)
  then have val: "html_tokens (lit '' $.Attributes.screen_pop_value_'' @ dec_nat k @ u) =
      map Inr (lit '' $.Attributes.screen_pop_value_'' @ dec_nat k) @ html_tokens u" for u
    using tokens_plain [of "lit '' $.Attributes.screen_pop_value_'' @ dec_nat k" u] by (auto simp: lit_def)
  have split: "guide_row k f @ t = 60 # lit ''p'' @ 62 # 60 # lit ''strong'' @ 62 # html_escape (field_label f) @
      58 # 60 # lit ''/strong'' @ 62 # lit '' $.Attributes.screen_pop_value_'' @ dec_nat k @ 60 # lit ''/p'' @ 62 # t"
    by (simp add: guide_row_def lit_def)
  have tags: "62 \<notin> set (lit ''p'')" "62 \<notin> set (lit ''strong'')" "62 \<notin> set (lit ''/strong'')" "62 \<notin> set (lit ''/p'')"
    by (simp_all add: lit_def)
  show ?thesis unfolding split
    by (simp add: tokens_tag [OF tags(1)] tokens_tag [OF tags(2)] tokens_tag [OF tags(3)] tokens_tag [OF tags(4)]
        tokens_escape tokens_char val shown_row_def)
      (simp add: lit_def)
qed

lemma tokens_rows: "html_tokens (guide_rows fs) = concat (map (\<lambda>(k, f). shown_row k f) (enumerate 1 fs))"
proof -
  have "html_tokens (concat (map (\<lambda>(k, f). guide_row k f) (enumerate n fs))) =
      concat (map (\<lambda>(k, f). shown_row k f) (enumerate n fs))" for n
    by (induction fs arbitrary: n) (simp_all add: tokens_row)
  then show ?thesis by (simp add: guide_rows_def)
qed

lemma quoted_rows:
  "34 # encoded_rows fs @ [34] = json_dumps values_opts (VStr (guide_rows fs))"
  by (simp add: encoded_rows_def json_dumps_def values_opts_def default_opts_def dump_str_def)

definition code_points :: "pystr \<Rightarrow> bool" where
  "code_points s \<longleftrightarrow> list_all (\<lambda>c. c < 1114112) s"

lemma code_points_ok: "list_all (char_ok False) s \<longleftrightarrow> code_points s"
  by (induction s) (simp_all add: code_points_def char_ok_def)

lemma code_points_lit: "code_points (lit s)"
  using lit_bound [of _ s] by (fastforce simp: code_points_def list_all_iff)

lemma code_points_append: "code_points (s @ t) \<longleftrightarrow> code_points s \<and> code_points t"
  by (simp add: code_points_def)

lemma code_points_escape: "code_points s \<Longrightarrow> code_points (html_escape s)"
  by (induction s) (auto simp: html_escape_def html_char_def code_points_append
      code_points_lit [unfolded code_points_def] code_points_def)

lemma code_points_decimal: "code_points (dec_nat n)"
  using dec_nat_digits [of n] by (auto simp: code_points_def list_all_iff is_digit_def)

lemma code_points_rows: "(\<forall>f\<in>set fs. code_points (field_label f)) \<Longrightarrow> code_points (guide_rows fs)"
proof -
  assume all: "\<forall>f\<in>set fs. code_points (field_label f)"
  have "list_all code_points (map (\<lambda>(k, f). guide_row k f) (enumerate n fs))" for n
    using all by (induction fs arbitrary: n)
      (auto simp: guide_row_def code_points_append code_points_lit code_points_escape code_points_decimal)
  then show ?thesis by (auto simp: guide_rows_def code_points_def list_all_iff)
qed

text \<open>
  C24.  The agent guide survives its template.  The string \<open>render\<close> returns is at most 4096 characters;
  put between quotes in a JSON document it is read back, and what it says as markup is one paragraph for
  each configured field, in order: the label in bold, exactly as it was configured, and the reference to
  the attribute with the field's value.  No label can open a tag or change what follows it.
\<close>

theorem guide_reads_back:
  assumes ok: "render lib cl region p w = (Inr data, w')"
    and fs: "rbind (subscript p ''ScreenPopFieldsJson'') (parse_fields lib) = Inr fs"
    and chars: "\<forall>f\<in>set fs. code_points (field_label f)"
  shows "\<exists>s guide. get_key data ''AgentGuideTemplateString'' = VStr s \<and> length s \<le> 4096 \<and>
     json_loads (34 # s @ [34]) = Inr (VStr guide) \<and>
     html_tokens guide = concat (map (\<lambda>(k, f). shown_row k f) (enumerate 1 fs))"
proof -
  from ok obtain ck rt zone where ck: "check_static lib region p = Inr ck" and data: "rendered ck rt zone p = Inr data"
    by (auto simp: render_def abind_split)
  have "ck_fields ck = fs" using check_static_ok [OF ck] fs by auto
  then have "get_key data ''AgentGuideTemplateString'' = VStr (encoded_rows fs) \<and> length (encoded_rows fs) \<le> 4096"
    using data by (auto simp: rendered_def rbind_eq_Inr get_key_def get_or_def split: if_split_asm)
  moreover have "json_loads (34 # encoded_rows fs @ [34]) = Inr (VStr (guide_rows fs))"
    unfolding json_loads_def quoted_rows using code_points_rows [OF chars]
    by (intro json_loads_dumps) (auto simp: good_opts_def values_opts_def default_opts_def any_hook_default code_points_ok
        intro: exI [of _ "0"] exI [of _ 1])
  ultimately show ?thesis using tokens_rows by blast
qed

theorem guide_reads_back_witness:
  "\<exists>data s guide. render ascii_pylib demo_clients (lit ''us-east-1'') demo_properties () = (Inr data, ()) \<and>
     get_key data ''AgentGuideTemplateString'' = VStr s \<and> json_loads (34 # s @ [34]) = Inr (VStr guide) \<and>
     html_tokens guide = concat (map (\<lambda>(k, f). shown_row k f) (enumerate 1 demo_choice_fields))"
proof -
  obtain data where data: "render ascii_pylib demo_clients (lit ''us-east-1'') demo_properties () = (Inr data, ())"
    using demo_renders by blast
  have fs: "rbind (subscript demo_properties ''ScreenPopFieldsJson'') (parse_fields ascii_pylib) = Inr demo_choice_fields"
    using demo_item_parses by (simp add: demo_properties_def subscript_def get_opt_def)
  have "\<forall>f\<in>set demo_choice_fields. code_points (field_label f)"
    by (simp add: demo_choice_fields_def code_points_lit)
  from guide_reads_back [OF data fs this] data show ?thesis by auto
qed

section \<open>Updates\<close>

text \<open>
  Immutable properties: when an update changes one of the eight immutable properties, all the
  handler does is to answer FAILED with the code of the first one that changed; no client is called
  and no success is sent.
\<close>

theorem immutable_change_refused:
  assumes update: "get_key event ''RequestType'' = VStr (lit ''Update'')"
    "get_key event ''OldResourceProperties'' = VDict old" "get_opt event ''ResourceProperties'' = Some (VDict new)"
    and first: "find (\<lambda>(k, code). \<not> py_eq (get_key old k) (get_key new k)) IMMUTABLE_PROPERTIES = Some (k, code)"
  shows "configuration_lambda lib cl opener region event =
     configuration_response opener event ''FAILED'' [] (lit code)"
proof -
  have "check_immutable old (VDict new) ks = Inl (ConfigurationError code)"
    if "find (\<lambda>(k, code). \<not> py_eq (get_key old k) (get_key new k)) ks = Some (k, code)" for ks
    using that by (induction ks) (auto simp: attr_get_def split: if_split_asm)
  then have "check_update event = Inl (ConfigurationError code)"
    using update first by (simp add: check_update_def subscript_def)
  then show ?thesis using update(1)
    by (simp add: configuration_lambda_def configuration_body_def acatch_def failure_reason_def fun_eq_iff)
qed

theorem immutable_change_refused_witness:
  "configuration_lambda ascii_pylib demo_clients (\<lambda>_ _. araise (PyError ''URLError'')) (lit ''us-east-1'')
     (mk [(''RequestType'', VStr (lit ''Update'')), (''OldResourceProperties'', VDict []),
          (''ResourceProperties'', VDict (mk [(''SipSecurity'', VStr (lit ''sip_rtp''))]))]) =
   configuration_response (\<lambda>_ _. araise (PyError ''URLError''))
     (mk [(''RequestType'', VStr (lit ''Update'')), (''OldResourceProperties'', VDict []),
          (''ResourceProperties'', VDict (mk [(''SipSecurity'', VStr (lit ''sip_rtp''))]))])
     ''FAILED'' [] (lit ''sip_security_immutable'')"
  by (rule immutable_change_refused [where old = "[]" and k = "''SipSecurity''"
        and new = "mk [(''SipSecurity'', VStr (lit ''sip_rtp''))]"])
    (simp_all add: get_opt_def IMMUTABLE_PROPERTIES_def)

end
