(* ===== verification/ZeroProof.thy ===== *)
theory ZeroProof imports Clock Digest begin

text \<open>
  The teardown proof of \<open>qualification/release_safeguards.py\<close>: observations of the resources that are
  left, and \<open>stable_zero_resource_proof\<close>, which asks for three empty ones in a row that span a
  minute.  The observer, \<open>sleep\<close> and the clocks are actions on the world.  Readings of the monotonic
  clock are rationals and their differences exact.
\<close>

definition MAX_INVENTORY_RESOURCES :: int where "MAX_INVENTORY_RESOURCES = 8000"
definition ZERO_PROOF_PRODUCER :: pystr where "ZERO_PROOF_PRODUCER = lit ''bridgefu-zero-resource-proof@1''"

definition ZERO_RESOURCE_CATEGORIES :: "string list" where
  "ZERO_RESOURCE_CATEGORIES =
     [''cloudformation_stacks'', ''ec2_instances'', ''ec2_volumes'', ''ec2_network_interfaces'', ''ec2_vpcs'',
      ''ec2_security_groups'', ''ec2_elastic_ips'', ''ec2_vpc_endpoints'', ''dynamodb_tables'',
      ''lambda_functions'', ''api_gateway_apis'', ''acm_certificates'', ''cloudwatch_log_groups'',
      ''cloudwatch_alarms'', ''cloudwatch_dashboards'', ''secrets'', ''connect_resources'',
      ''route53_private_zones'', ''route53_public_records'', ''s3_object_versions'', ''vapi_resources'',
      ''iam_resources'', ''sns_resources'', ''backup_resources'', ''execution_tagged_resources'',
      ''other_stack_resources'']"

section \<open>Times\<close>

text \<open>\<open>_parse_timestamp\<close>: microseconds since 1970 in UTC, within the years of the calendar.\<close>

definition parse_timestamp :: "pyval \<Rightarrow> string \<Rightarrow> int result" where
  "parse_timestamp v label =
     (let bad = SafeguardError (label @ '' timestamp is invalid'') in
      rbind (expect_str bad v) (\<lambda>s.
      case fromisoformat (zulu_replaced s) of
        Some (t, Some off) \<Rightarrow>
          let u = t - off in
          if (1 - int EPOCH) * 86400 * 1000000 \<le> u \<and> u < (3652060 - int EPOCH) * 86400 * 1000000
          then Inr u else Inl (PyError ''OverflowError'')
      | _ \<Rightarrow> Inl bad))"

text \<open>The day of an ordinal, by months.\<close>

function month_of :: "nat \<Rightarrow> nat \<Rightarrow> nat \<Rightarrow> nat \<times> nat" where
  "month_of y m n = (if n < month_days y m then (m, n + 1) else month_of y (m + 1) (n - month_days y m))"
  by pat_completeness auto
termination by (relation "measure (\<lambda>(y, m, n). n)") (auto simp: month_days_def)

definition civil :: "nat \<Rightarrow> nat \<times> nat \<times> nat" where
  "civil ord =
     (let n = ord - 1; n400 = n div 146097; n = n mod 146097; n100 = n div 36524; n = n mod 36524;
          n4 = n div 1461; n = n mod 1461; n1 = n div 365; n = n mod 365;
          y = n400 * 400 + 1 + n100 * 100 + n4 * 4 + n1
      in if n1 = 4 \<or> n100 = 4 then (y - 1, 12, 31) else (y, month_of y 1 n))"

definition padded :: "nat \<Rightarrow> nat \<Rightarrow> pystr" where
  "padded k n = replicate (k - length (dec_nat n)) 48 @ dec_nat n"

text \<open>\<open>isoformat(timespec="milliseconds")\<close> of a time in UTC, with its offset written \<open>Z\<close>.\<close>

definition utc_text :: "int \<Rightarrow> pystr" where
  "utc_text t =
     (let d = t div 86400000000; s = nat (t mod 86400000000) div 1000; (y, m, day) = civil (nat (d + int EPOCH))
      in padded 4 y @ [45] @ padded 2 m @ [45] @ padded 2 day @ [84] @ padded 2 (s div 3600000) @ [58] @
         padded 2 (s div 60000 mod 60) @ [58] @ padded 2 (s div 1000 mod 60) @ [46] @ padded 3 (s mod 1000) @ [90])"

section \<open>Observations\<close>

definition empty_resource_counts :: pydict where
  "empty_resource_counts = mk (map (\<lambda>k. (k, VInt 0)) ZERO_RESOURCE_CATEGORIES)"

definition normalize_zero_observation :: "pydict \<Rightarrow> pyval \<Rightarrow> pydict result" where
  "normalize_zero_observation counts observed_at =
     (if keys counts \<noteq> set (map lit ZERO_RESOURCE_CATEGORIES)
      then Inl (SafeguardError ''zero-resource inventory categories are not exact'')
      else
      rbind (rmap (\<lambda>k. case get_key counts k of
           VInt i \<Rightarrow> if 0 \<le> i \<and> i \<le> MAX_INVENTORY_RESOURCES then Inr (k, VInt i)
                     else Inl (SafeguardError ''zero-resource inventory count is invalid'')
         | _ \<Rightarrow> Inl (SafeguardError ''zero-resource inventory count is invalid'')) ZERO_RESOURCE_CATEGORIES) (\<lambda>cs.
      rbind (parse_timestamp observed_at ''zero-resource observation'') (\<lambda>_.
      Inr (mk [(''observed_at'', observed_at), (''resource_counts'', VDict (mk cs)), (''redacted'', VBool True)]))))"

definition observation_is_empty :: "pydict \<Rightarrow> bool" where
  "observation_is_empty d \<longleftrightarrow>
     keys d = set (map lit [''observed_at'', ''resource_counts'', ''redacted'']) \<and>
     get_key d ''redacted'' = VBool True \<and> is_str (get_key d ''observed_at'') \<and>
     (case get_key d ''resource_counts'' of
        VDict c \<Rightarrow> keys c = set (map lit ZERO_RESOURCE_CATEGORIES) \<and> (\<forall>v\<in>set (map snd c). v = VInt 0)
      | _ \<Rightarrow> False)"

definition empty_observation :: "pyval \<Rightarrow> bool" where
  "empty_observation v \<longleftrightarrow> is_dict v \<and> observation_is_empty (dict_of v)"

section \<open>Three stable observations\<close>

record 'w zero_io =
  zero_observe :: "('w, pyval) act"
  zero_sleep :: "rat \<Rightarrow> ('w, unit) act"
  zero_clock :: "('w, rat) act"
  zero_now :: "('w, int) act"

record stability =
  stable :: "pyval list"
  stable_started :: "rat option"
  projection :: "pyval option"

definition unstable :: stability where
  "unstable = \<lparr>stable = [], stable_started = None, projection = None\<rparr>"

text \<open>One empty observation: a changed projection starts over.\<close>

definition stable_step :: "'w zero_io \<Rightarrow> stability \<Rightarrow> pyval \<Rightarrow> ('w, stability) act" where
  "stable_step io s o' =
     (let counts = get_key (dict_of o') ''resource_counts'' in
      abind (if projection s \<noteq> None \<and> py_eq counts (the (projection s)) then aret s
             else abind (zero_clock io) (\<lambda>t.
               aret \<lparr>stable = [], stable_started = Some t, projection = Some counts\<rparr>)) (\<lambda>s.
      aret (s\<lparr>stable := stable s @ [o']\<rparr>)))"

definition long_enough :: "'w zero_io \<Rightarrow> int \<Rightarrow> stability \<Rightarrow> ('w, bool) act" where
  "long_enough io minimum s =
     (case stable_started s of
        Some t0 \<Rightarrow>
          if 3 \<le> length (stable s)
          then abind (zero_clock io) (\<lambda>t. aret (of_int minimum \<le> t - t0)) else aret False
      | None \<Rightarrow> aret False)"

text \<open>The last three, whose own times must be in order and span the minimum.\<close>

definition last_three :: "'a list \<Rightarrow> 'a list" where
  "last_three xs = drop (length xs - 3) xs"

definition check_span :: "int \<Rightarrow> pyval list \<Rightarrow> pyval list result" where
  "check_span minimum obs =
     rbind (rmap (\<lambda>v. parse_timestamp (get_key (dict_of v) ''observed_at'') ''zero-resource observation'') obs) (\<lambda>ts.
     if \<not> sorted ts \<or> (case nearest_double (of_int (last ts - hd ts) / 1000000) of Fin r \<Rightarrow> r < of_int minimum | _ \<Rightarrow> False)
     then Inl (SafeguardError ''zero-resource observations do not span one minute'') else Inr obs)"

definition not_converged :: exn where
  "not_converged = SafeguardError ''three stable zero-resource observations did not converge''"

text \<open>The end of a round: the time that is left, and a pause.\<close>

definition zero_again ::
    "'w zero_io \<Rightarrow> int \<Rightarrow> rat \<Rightarrow> (stability \<Rightarrow> ('w, pyval list) act) \<Rightarrow> stability \<Rightarrow> ('w, pyval list) act" where
  "zero_again io limit started rest s =
     abind (zero_clock io) (\<lambda>t.
     let remaining = of_int limit - (t - started) in
     if remaining \<le> 0 then araise not_converged
     else abind (zero_sleep io (min (if stable s \<noteq> [] then 30 else 5) remaining)) (\<lambda>_. rest s))"

fun zero_loop :: "nat \<Rightarrow> 'w zero_io \<Rightarrow> int \<Rightarrow> int \<Rightarrow> rat \<Rightarrow> stability \<Rightarrow> ('w, pyval list) act" where
  "zero_loop 0 io limit minimum started s = araise no_fuel"
| "zero_loop (Suc n) io limit minimum started s =
     (let again = zero_again io limit started (\<lambda>s. zero_loop n io limit minimum started s)
      in abind (zero_clock io) (\<lambda>t.
         if of_int limit < t - started then araise not_converged
         else
         abind (zero_observe io) (\<lambda>o'.
         if \<not> empty_observation o' then again unstable
         else
         abind (stable_step io s o') (\<lambda>s.
         abind (long_enough io minimum s) (\<lambda>ready.
         if ready then alift (check_span minimum (last_three (stable s))) else again s)))))"

declare zero_loop.simps(2) [simp del]

text \<open>Every round but the last two sleeps at least five seconds or to the end of the time.\<close>

definition zero_fuel :: "int \<Rightarrow> nat" where
  "zero_fuel limit = nat limit div 5 + 2"

definition stable_zero_resource_proof ::
    "'w zero_io \<Rightarrow> pystr \<Rightarrow> pystr \<Rightarrow> pyval \<Rightarrow> int \<Rightarrow> int \<Rightarrow> ('w, pydict) act" where
  "stable_zero_resource_proof io execution ownership owned limit minimum =
     (if \<not> class_match is_hex_lower 64 64 ownership
      then araise (SafeguardError ''resource ownership digest is invalid'')
      else if (case owned of VInt n \<Rightarrow> \<not> (0 \<le> n \<and> n \<le> MAX_INVENTORY_RESOURCES) | _ \<Rightarrow> True)
      then araise (SafeguardError ''owned resource count is invalid'')
      else
      abind (zero_clock io) (\<lambda>started.
      abind (zero_loop (zero_fuel limit) io limit minimum started unstable) (\<lambda>obs.
      abind (zero_now io) (\<lambda>t.
      aret (mk [(''schema_version'', VInt 1), (''producer'', VStr ZERO_PROOF_PRODUCER),
        (''execution_id'', VStr execution), (''ownership_sha256'', VStr ownership),
        (''owned_resource_count'', owned), (''required_observations'', VInt 3),
        (''minimum_span_seconds'', VInt minimum), (''observations'', VList obs),
        (''proven_at'', VStr (utc_text t)), (''passed'', VBool True), (''redacted'', VBool True)])))))"

section \<open>What a proof shows\<close>

text \<open>The observer with a log of what it saw.\<close>

definition watched :: "'w zero_io \<Rightarrow> ('w \<times> pyval list) zero_io" where
  "watched io =
     \<lparr>zero_observe = (\<lambda>(w, tr). case zero_observe io w of (r, w') \<Rightarrow> (r, (w', tr @ (case r of Inr v \<Rightarrow> [v] | Inl _ \<Rightarrow> [])))),
      zero_sleep = (\<lambda>t (w, tr). case zero_sleep io t w of (r, w') \<Rightarrow> (r, (w', tr))),
      zero_clock = (\<lambda>(w, tr). case zero_clock io w of (r, w') \<Rightarrow> (r, (w', tr))),
      zero_now = (\<lambda>(w, tr). case zero_now io w of (r, w') \<Rightarrow> (r, (w', tr)))\<rparr>"

definition in_log :: "stability \<Rightarrow> pyval list \<Rightarrow> bool" where
  "in_log s tr \<longleftrightarrow> (\<exists>pre. tr = pre @ stable s) \<and> list_all empty_observation (stable s)"

lemma in_log_unstable [simp]: "in_log unstable tr"
  by (simp add: in_log_def unstable_def)

lemma watched_clock: "zero_clock (watched io) (w, tr) = (r, (w', tr')) \<Longrightarrow> tr' = tr"
  by (auto simp: watched_def split: prod.split_asm)

lemma watched_now: "zero_now (watched io) (w, tr) = (r, (w', tr')) \<Longrightarrow> tr' = tr"
  by (auto simp: watched_def split: prod.split_asm)

lemma watched_observe:
  "zero_observe (watched io) (w, tr) = (Inr v, (w', tr')) \<Longrightarrow> tr' = tr @ [v]"
  by (auto simp: watched_def split: prod.split_asm)

lemma watched_sleep: "zero_sleep (watched io) t (w, tr) = (r, (w', tr')) \<Longrightarrow> tr' = tr"
  by (auto simp: watched_def split: prod.split_asm)

text \<open>The steps of a successful sequence over a world with a log.\<close>

lemma abind_InrE:
  assumes "abind m f w = (Inr y, w'')"
  obtains x w1 tr1 where "m w = (Inr x, (w1, tr1))" "f x (w1, tr1) = (Inr y, w'')"
  using assms by (auto simp: abind_split intro: that)

lemma again_ok:
  assumes "zero_again (watched io) limit started rest s (w, tr) = (Inr obs, (w', tr'))"
  obtains w1 where "rest s (w1, tr) = (Inr obs, (w', tr'))"
  using assms unfolding zero_again_def Let_def
  by (auto simp: abind_split split: if_split_asm dest!: watched_clock watched_sleep intro: that)

lemma step_ok:
  assumes "stable_step (watched io) s v (w, tr @ [v]) = (Inr s', (w', tr'))" "in_log s tr" "empty_observation v"
  shows "tr' = tr @ [v] \<and> in_log s' tr'"
  using assms unfolding stable_step_def Let_def
  by (auto simp: abind_split in_log_def split: if_split_asm dest!: watched_clock)

lemma long_enough_ok:
  assumes "long_enough (watched io) minimum s (w, tr) = (Inr b, (w', tr'))"
  shows "tr' = tr \<and> (b \<longrightarrow> 3 \<le> length (stable s))"
  using assms unfolding long_enough_def
  by (auto simp: abind_split split: if_split_asm option.split_asm dest!: watched_clock)

lemma check_span_same: "check_span minimum obs = Inr xs \<Longrightarrow> xs = obs"
  by (auto simp: check_span_def rbind_eq_Inr split: if_split_asm)

lemma last_three_of:
  assumes "in_log s tr" "3 \<le> length (stable s)"
  shows "\<exists>pre. tr = pre @ last_three (stable s) \<and> length (last_three (stable s)) = 3 \<and>
     list_all empty_observation (last_three (stable s))"
proof -
  from assms obtain pre where "tr = pre @ stable s" "list_all empty_observation (stable s)" by (auto simp: in_log_def)
  moreover have "stable s = take (length (stable s) - 3) (stable s) @ last_three (stable s)"
    by (simp add: last_three_def)
  moreover have "list_all empty_observation (last_three (stable s))"
    using calculation(2) by (auto simp: last_three_def list_all_iff dest: in_set_dropD)
  ultimately show ?thesis using assms(2)
    by (auto simp: last_three_def intro: exI [of _ "pre @ take (length (stable s) - 3) (stable s)"])
qed

lemma zero_loop_ok:
  "zero_loop n (watched io) limit minimum started s (w, tr) = (Inr obs, (w', tr')) \<Longrightarrow> in_log s tr \<Longrightarrow>
     \<exists>pre. tr' = pre @ obs \<and> length obs = 3 \<and> list_all empty_observation obs \<and> check_span minimum obs = Inr obs"
proof (induction n arbitrary: s w tr)
  case 0
  then show ?case by simp
next
  case (Suc n)
  let ?again = "zero_again (watched io) limit started (\<lambda>s. zero_loop n (watched io) limit minimum started s)"
  from Suc.prems(1) obtain t w1 tr1 where c: "zero_clock (watched io) (w, tr) = (Inr t, (w1, tr1))"
    and r1: "(if of_int limit < t - started then araise not_converged
         else
         abind (zero_observe (watched io)) (\<lambda>o'.
         if \<not> empty_observation o' then ?again unstable
         else
         abind (stable_step (watched io) s o') (\<lambda>s.
         abind (long_enough (watched io) minimum s) (\<lambda>ready.
         if ready then alift (check_span minimum (last_three (stable s))) else ?again s)))) (w1, tr1)
       = (Inr obs, (w', tr'))"
    unfolding zero_loop.simps(2) Let_def by (rule abind_InrE)
  from r1 have "abind (zero_observe (watched io)) (\<lambda>o'.
         if \<not> empty_observation o' then ?again unstable
         else
         abind (stable_step (watched io) s o') (\<lambda>s.
         abind (long_enough (watched io) minimum s) (\<lambda>ready.
         if ready then alift (check_span minimum (last_three (stable s))) else ?again s))) (w1, tr1)
       = (Inr obs, (w', tr'))" by (simp split: if_split_asm)
  then obtain v w2 tr2 where o': "zero_observe (watched io) (w1, tr1) = (Inr v, (w2, tr2))"
    and r2: "(if \<not> empty_observation v then ?again unstable
         else
         abind (stable_step (watched io) s v) (\<lambda>s.
         abind (long_enough (watched io) minimum s) (\<lambda>ready.
         if ready then alift (check_span minimum (last_three (stable s))) else ?again s))) (w2, tr2)
       = (Inr obs, (w', tr'))" by (rule abind_InrE)
  have rest: "(if \<not> empty_observation v then ?again unstable
         else
         abind (stable_step (watched io) s v) (\<lambda>s.
         abind (long_enough (watched io) minimum s) (\<lambda>ready.
         if ready then alift (check_span minimum (last_three (stable s))) else ?again s))) (w2, tr @ [v])
       = (Inr obs, (w', tr'))"
    using r2 watched_clock [OF c] watched_observe [OF o'] by simp
  show ?case
  proof (cases "empty_observation v")
    case False
    with rest obtain w3 where "zero_loop n (watched io) limit minimum started unstable (w3, tr @ [v]) = (Inr obs, (w', tr'))"
      by (auto elim: again_ok)
    from Suc.IH [OF this] show ?thesis by simp
  next
    case True
    with rest obtain s1 w3 tr3 where step: "stable_step (watched io) s v (w2, tr @ [v]) = (Inr s1, (w3, tr3))"
      and rest: "abind (long_enough (watched io) minimum s1) (\<lambda>ready.
         if ready then alift (check_span minimum (last_three (stable s1))) else ?again s1) (w3, tr3) = (Inr obs, (w', tr'))"
      by (auto simp: abind_split)
    note s1 = step_ok [OF step Suc.prems(2) True]
    from rest obtain b w4 tr4 where b: "long_enough (watched io) minimum s1 (w3, tr3) = (Inr b, (w4, tr4))"
      and rest: "(if b then alift (check_span minimum (last_three (stable s1))) else ?again s1) (w4, tr4) = (Inr obs, (w', tr'))"
      by (auto simp: abind_split)
    note b' = long_enough_ok [OF b]
    show ?thesis
    proof (cases b)
      case True
      with rest have obs: "check_span minimum (last_three (stable s1)) = Inr obs" and "tr' = tr4" by auto
      with check_span_same [OF obs] last_three_of [of s1 tr4] s1 b' True show ?thesis by auto
    next
      case False
      with rest obtain w5 where "zero_loop n (watched io) limit minimum started s1 (w5, tr4) = (Inr obs, (w', tr'))"
        by (auto elim: again_ok)
      moreover have "in_log s1 tr4" using s1 b' by auto
      ultimately obtain pre where "tr' = pre @ obs" "length obs = 3" "list_all empty_observation obs"
        "check_span minimum obs = Inr obs" using Suc.IH by blast
      moreover have "tr4 = tr @ [v]" using s1 b' by simp
      ultimately show ?thesis by auto
    qed
  qed
qed

text \<open>A run over a world that counts the pauses of thirty seconds.\<close>

definition demo_seen :: "nat \<Rightarrow> pyval" where
  "demo_seen w = VDict (mk [(''observed_at'', VStr (lit (if w = 0 then ''2026-01-01T10:00:00Z''
       else if w = 1 then ''2026-01-01T10:00:30Z'' else ''2026-01-01T10:01:00Z''))),
     (''resource_counts'', VDict empty_resource_counts), (''redacted'', VBool True)])"

definition demo_io :: "nat zero_io" where
  "demo_io = \<lparr>zero_observe = (\<lambda>w. (Inr (demo_seen w), w)), zero_sleep = (\<lambda>t w. (Inr (), w + 1)),
     zero_clock = (\<lambda>w. (Inr (30 * of_nat w), w)), zero_now = (\<lambda>w. (Inr 0, w))\<rparr>"

lemma demo_empty: "empty_observation (demo_seen w)"
  by (simp add: empty_observation_def observation_is_empty_def demo_seen_def empty_resource_counts_def
      ZERO_RESOURCE_CATEGORIES_def keys_def insert_commute)

lemma demo_counts: "get_key (dict_of (demo_seen w)) ''resource_counts'' = VDict empty_resource_counts"
  by (simp add: demo_seen_def)

lemma counts_refl: "py_eq_dict empty_resource_counts empty_resource_counts"
  by (simp add: empty_resource_counts_def ZERO_RESOURCE_CATEGORIES_def)

lemma scan_hms_numeral:
  "scan_hms f 3 = scan_hms f (Suc 2)" "scan_hms f 2 = scan_hms f (Suc 1)" "scan_hms f 1 = scan_hms f (Suc 0)"
  by (simp_all add: numeral_3_eq_3 numeral_2_eq_2)

lemmas scan_hms_eval = fun_cong [OF fun_cong [OF fun_cong [OF scan_hms_numeral(1)]], unfolded scan_hms.simps]
  fun_cong [OF fun_cong [OF fun_cong [OF scan_hms_numeral(2)]], unfolded scan_hms.simps]
  fun_cong [OF fun_cong [OF fun_cong [OF scan_hms_numeral(3)]], unfolded scan_hms.simps]

lemma demo_iso:
  "fromisoformat (zulu_replaced (lit ''2026-01-01T10:00:00Z'')) = Some (1767261600000000, Some 0)"
  "fromisoformat (zulu_replaced (lit ''2026-01-01T10:00:30Z'')) = Some (1767261630000000, Some 0)"
  "fromisoformat (zulu_replaced (lit ''2026-01-01T10:01:00Z'')) = Some (1767261660000000, Some 0)"
  by (simp add: zulu_replaced_def eval_simps, simp add: fromisoformat_def separator_fixed_def is_surrogate_def date_end_def
        scan_date_def digits_def valid_date_def month_days_def is_leap_def ordinal_def EPOCH_def nth_Cons'
        digits_val_def scan_time_def is_zone_def hms_valid_def scan_fraction_def hms_seconds_def
        scan_hms_eval Let_def eval_simps)+

lemma demo_seen_times:
  "parse_timestamp (get_key (dict_of (demo_seen 0)) ''observed_at'') l = Inr 1767261600000000"
  "parse_timestamp (get_key (dict_of (demo_seen 1)) ''observed_at'') l = Inr 1767261630000000"
  "parse_timestamp (get_key (dict_of (demo_seen 2)) ''observed_at'') l = Inr 1767261660000000"
  by (simp_all add: demo_seen_def parse_timestamp_def expect_str_def demo_iso EPOCH_def)

lemma watched_demo [simp]:
  "zero_observe (watched demo_io) (w, tr) = (Inr (demo_seen w), (w, tr @ [demo_seen w]))"
  "zero_sleep (watched demo_io) t (w, tr) = (Inr (), (w + 1, tr))"
  "zero_clock (watched demo_io) (w, tr) = (Inr (30 * of_nat w), (w, tr))"
  "zero_now (watched demo_io) (w, tr) = (Inr 0, (w, tr))"
  by (simp_all add: watched_def demo_io_def)

lemma demo_loop:
  "zero_loop (Suc (Suc (Suc k))) (watched demo_io) 900 60 0 unstable (0, []) =
     (Inr [demo_seen 0, demo_seen 1, demo_seen 2], (2, [demo_seen 0, demo_seen 1, demo_seen 2]))"
proof -
  have span: "check_span 60 [demo_seen 0, demo_seen 1, demo_seen 2] = Inr [demo_seen 0, demo_seen 1, demo_seen 2]"
    using nearest_double_int [of 60] by (simp add: check_span_def demo_seen_times rbind_def del: One_nat_def)
  show ?thesis
    by (simp add: zero_loop.simps(2) zero_again_def abind_def unstable_def stable_step_def demo_empty demo_counts counts_refl
       long_enough_def last_three_def span alift_def Let_def numeral_2_eq_2 [symmetric] del: One_nat_def)
qed

lemma demo_run:
  "\<exists>doc tr. stable_zero_resource_proof (watched demo_io) [] (replicate 64 97) (VInt 3) 900 60 (0, []) = (Inr doc, (2, tr))"
proof -
  have fuel: "zero_fuel 900 = Suc (Suc (Suc 179))" by (simp add: zero_fuel_def)
  have hex: "class_match is_hex_lower 64 64 (replicate 64 97)"
    by (simp add: class_match_def is_hex_lower_def list_all_iff)
  show ?thesis
    unfolding stable_zero_resource_proof_def fuel abind_def watched_demo
    by (simp add: hex MAX_INVENTORY_RESOURCES_def demo_loop [of 179, simplified])
qed
text \<open>The three times of a proof.\<close>

lemma check_span_times:
  assumes "check_span minimum [a, b, c] = Inr xs"
  shows "\<exists>t1 t2 t3. map (\<lambda>v. parse_timestamp (get_key (dict_of v) ''observed_at'') ''zero-resource observation'') [a, b, c]
         = [Inr t1, Inr t2, Inr t3] \<and> t1 \<le> t2 \<and> t2 \<le> t3 \<and>
       (\<forall>r. nearest_double (of_int (t3 - t1) / 1000000) = Fin r \<longrightarrow> of_int minimum \<le> r)"
  using assms by (auto simp: check_span_def rbind_eq_Inr split: if_split_asm)

text \<open>
  C25.  A teardown proof rests on three consecutive empty observations: the three in the document are
  the last three the observer gave, each of them shows no resource in any of the 26 categories, and
  their own times are in order and the last is at least the required seconds after the first.
\<close>

theorem proof_shows_three_empty:
  assumes "stable_zero_resource_proof (watched io) execution ownership owned limit minimum (w, []) = (Inr doc, (w', tr))"
  shows "\<exists>pre a b c t1 t2 t3. tr = pre @ [a, b, c] \<and> get_key doc ''observations'' = VList [a, b, c] \<and>
     list_all empty_observation [a, b, c] \<and>
     map (\<lambda>v. parse_timestamp (get_key (dict_of v) ''observed_at'') ''zero-resource observation'') [a, b, c]
       = [Inr t1, Inr t2, Inr t3] \<and> t1 \<le> t2 \<and> t2 \<le> t3 \<and>
     (\<forall>r. nearest_double (of_int (t3 - t1) / 1000000) = Fin r \<longrightarrow> of_int minimum \<le> r)"
proof -
  from assms obtain t w1 tr1 obs w2 tr2 u where
      clock: "zero_clock (watched io) (w, []) = (Inr t, (w1, tr1))"
    and run: "zero_loop (zero_fuel limit) (watched io) limit minimum t unstable (w1, tr1) = (Inr obs, (w2, tr2))"
    and now: "zero_now (watched io) (w2, tr2) = (Inr u, (w', tr))"
    and doc: "get_key doc ''observations'' = VList obs"
    unfolding stable_zero_resource_proof_def by (auto simp: abind_split split: if_split_asm)
  have loop: "zero_loop (zero_fuel limit) (watched io) limit minimum t unstable (w1, []) = (Inr obs, (w2, tr))"
    using run watched_clock [OF clock] watched_now [OF now] by simp
  from zero_loop_ok [OF loop] obtain pre where tr: "tr = pre @ obs" and "length obs = 3"
    and empty: "list_all empty_observation obs" and span: "check_span minimum obs = Inr obs" by auto
  then obtain a b c where obs: "obs = [a, b, c]"
    by (auto simp: numeral_3_eq_3 length_Suc_conv)
  obtain t1 t2 t3 where times:
      "map (\<lambda>v. parse_timestamp (get_key (dict_of v) ''observed_at'') ''zero-resource observation'') [a, b, c]
         = [Inr t1, Inr t2, Inr t3] \<and> t1 \<le> t2 \<and> t2 \<le> t3 \<and>
       (\<forall>r. nearest_double (of_int (t3 - t1) / 1000000) = Fin r \<longrightarrow> of_int minimum \<le> r)"
    using check_span_times [OF span [unfolded obs]] by (elim exE)
  from tr doc empty have "tr = pre @ [a, b, c] \<and> get_key doc ''observations'' = VList [a, b, c] \<and>
     list_all empty_observation [a, b, c]" unfolding obs by (intro conjI)
  with times show ?thesis unfolding conj_assoc [symmetric] by (intro exI conjI) (elim conjE, assumption)+
qed

theorem proof_shows_three_empty_witness:
  "\<exists>doc tr pre a b c. stable_zero_resource_proof (watched demo_io) [] (replicate 64 97) (VInt 3) 900 60 (0, []) = (Inr doc, (2, tr)) \<and>
     tr = pre @ [a, b, c] \<and> list_all empty_observation [a, b, c]"
proof -
  from demo_run obtain doc tr where
    run: "stable_zero_resource_proof (watched demo_io) [] (replicate 64 97) (VInt 3) 900 60 (0, []) = (Inr doc, (2, tr))" by blast
  from proof_shows_three_empty [OF run] show ?thesis using run by blast
qed

section \<open>It ends\<close>

text \<open>
  What the clocks promise: the reading \<open>clk\<close> never goes back, and a sleep of some seconds takes at
  least these seconds.  The fuel is the model's own, so nothing the code calls runs out of it.
\<close>

definition steady :: "'w zero_io \<Rightarrow> ('w \<Rightarrow> rat) \<Rightarrow> bool" where
  "steady io clk \<longleftrightarrow>
     (\<forall>w. fst (zero_clock io w) = Inr (clk w) \<and> clk w \<le> clk (snd (zero_clock io w))) \<and>
     (\<forall>w. fst (zero_observe io w) \<noteq> Inl no_fuel \<and> clk w \<le> clk (snd (zero_observe io w))) \<and>
     (\<forall>t w. 0 \<le> t \<longrightarrow> fst (zero_sleep io t w) \<noteq> Inl no_fuel \<and> clk w + t \<le> clk (snd (zero_sleep io t w))) \<and>
     (\<forall>w. fst (zero_now io w) \<noteq> Inl no_fuel)"

lemma steady_clock: "steady io clk \<Longrightarrow> zero_clock io w = (r, w') \<Longrightarrow> r = Inr (clk w) \<and> clk w \<le> clk w'"
  unfolding steady_def by (metis fst_conv snd_conv)

lemma steady_observe: "steady io clk \<Longrightarrow> zero_observe io w = (r, w') \<Longrightarrow> r \<noteq> Inl no_fuel \<and> clk w \<le> clk w'"
  unfolding steady_def by (metis fst_conv snd_conv)

lemma steady_sleep:
  "steady io clk \<Longrightarrow> zero_sleep io t w = (r, w') \<Longrightarrow> 0 \<le> t \<Longrightarrow> r \<noteq> Inl no_fuel \<and> clk w + t \<le> clk w'"
  unfolding steady_def by (metis fst_conv snd_conv)

lemma steady_now: "steady io clk \<Longrightarrow> zero_now io w = (r, w') \<Longrightarrow> r \<noteq> Inl no_fuel"
  unfolding steady_def by (metis fst_conv snd_conv)

lemma not_converged_fuel [simp]: "not_converged \<noteq> no_fuel"
  by (simp add: not_converged_def no_fuel_def)

lemma parse_timestamp_fuel: "parse_timestamp v label \<noteq> Inl no_fuel"
  by (cases v) (auto simp: parse_timestamp_def expect_str_def no_fuel_def Let_def split: option.split prod.split)

lemma rmap_fuel: "(\<And>x. f x \<noteq> Inl no_fuel) \<Longrightarrow> rmap f xs \<noteq> Inl no_fuel"
  by (induction xs) (auto simp: rbind_def split: sum.splits)

lemma check_span_fuel: "check_span minimum obs \<noteq> Inl no_fuel"
  using rmap_fuel [of "\<lambda>v. parse_timestamp (get_key (dict_of v) ''observed_at'') ''zero-resource observation''" obs]
    parse_timestamp_fuel
  by (auto simp: check_span_def rbind_def no_fuel_def split: sum.split)

text \<open>What an operation leaves behind: no lack of fuel, and a clock that has not gone back.\<close>

definition runs :: "('w \<Rightarrow> rat) \<Rightarrow> ('w, 'a) act \<Rightarrow> 'w \<Rightarrow> bool" where
  "runs clk m w \<longleftrightarrow> fst (m w) \<noteq> Inl no_fuel \<and> clk w \<le> clk (snd (m w))"

lemma runs_bind:
  assumes "runs clk m w" "\<And>x w'. m w = (Inr x, w') \<Longrightarrow> clk w \<le> clk w' \<Longrightarrow> runs clk (f x) w'"
  shows "runs clk (abind m f) w"
  using assms unfolding runs_def
  by (cases "m w"; cases "fst (m w)") (auto simp: abind_def intro: order_trans)

lemma runs_ret [simp]: "runs clk (aret x) w"
  by (simp add: runs_def aret_def)

lemma runs_pair [simp]: "runs clk (Pair (Inr x)) w"
  by (simp add: runs_def)

lemma runs_raise [simp]: "runs clk (araise e) w \<longleftrightarrow> e \<noteq> no_fuel"
  by (simp add: runs_def araise_def)

lemma runs_lift: "r \<noteq> Inl no_fuel \<Longrightarrow> runs clk (alift r) w"
  by (cases r) (auto simp: runs_def alift_def)

lemma runs_clock: "steady io clk \<Longrightarrow> runs clk (zero_clock io) w"
  by (cases "zero_clock io w") (auto simp: runs_def dest: steady_clock)

lemma runs_observe: "steady io clk \<Longrightarrow> runs clk (zero_observe io) w"
  by (cases "zero_observe io w") (auto simp: runs_def dest: steady_observe)

lemma runs_stable_step: "steady io clk \<Longrightarrow> runs clk (stable_step io s o') w"
  unfolding stable_step_def Let_def by (auto intro!: runs_bind simp: runs_clock)

lemma runs_long_enough: "steady io clk \<Longrightarrow> runs clk (long_enough io minimum s) w"
  unfolding long_enough_def by (auto intro!: runs_bind simp: runs_clock split: option.split)

lemma runs_again:
  assumes io: "steady io clk"
    and rest: "\<And>s w'. of_int limit - (clk w' - started) \<le> max 0 (of_int limit - (clk w - started) - 5) \<Longrightarrow>
         0 < of_int limit - (clk w - started) \<Longrightarrow> runs clk (rest s) w'"
  shows "runs clk (zero_again io limit started rest s) w"
  unfolding zero_again_def Let_def
proof (rule runs_bind [OF runs_clock [OF io]])
  fix t w1 assume c: "zero_clock io w = (Inr t, w1)" "clk w \<le> clk w1"
  hence t: "t = clk w" using steady_clock [OF io c(1)] by simp
  let ?r = "of_int limit - (t - started)"
  let ?d = "min (if stable s \<noteq> [] then 30 else 5) ?r"
  show "runs clk (if ?r \<le> 0 then araise not_converged else abind (zero_sleep io ?d) (\<lambda>_. rest s)) w1"
  proof (cases "?r \<le> 0")
    case False
    hence d: "0 \<le> ?d" "?d = ?r \<or> 5 \<le> ?d" by (auto simp: min_def)
    have "runs clk (abind (zero_sleep io ?d) (\<lambda>_. rest s)) w1"
    proof (rule runs_bind)
      show "runs clk (zero_sleep io ?d) w1"
        using steady_sleep [OF io surjective_pairing d(1), of w1] d(1) unfolding runs_def by linarith
    next
      fix x w2 assume "zero_sleep io ?d w1 = (Inr x, w2)"
      from steady_sleep [OF io this d(1)] have "clk w1 + ?d \<le> clk w2" by simp
      with d(2) c(2) t False show "runs clk (rest s) w2" by (intro rest) auto
    qed
    with False show ?thesis by simp
  qed simp
qed

text \<open>A round that slept uses up five seconds of the fuel, or all of the time.\<close>

lemma rounds_left:
  fixes c :: rat
  assumes "c \<le> c'" "l - (c - t) \<le> 5 * m" "1 \<le> m" "l - (c2 - t) \<le> 0 \<or> l - (c2 - t) \<le> l - (c' - t) - 5"
  shows "l - (c2 - t) \<le> 5 * (m - 1)"
  using assms unfolding right_diff_distrib by (elim disjE) linarith+

lemma runs_loop:
  assumes io: "steady io clk"
  shows "1 \<le> n \<Longrightarrow> of_int limit - (clk w - started) \<le> 5 * (of_nat n - 1) \<Longrightarrow>
     runs clk (zero_loop n io limit minimum started s) w"
proof (induction n arbitrary: s w)
  case (Suc n)
  let ?again = "zero_again io limit started (\<lambda>s. zero_loop n io limit minimum started s)"
  have again: "runs clk (?again s') w'" if "clk w \<le> clk w'" for s' w'
  proof (rule runs_again [OF io])
    fix s2 w2
    assume a: "of_int limit - (clk w2 - started) \<le> max 0 (of_int limit - (clk w' - started) - 5)"
      and b: "0 < of_int limit - (clk w' - started)"
    from b that Suc.prems(2) have "n \<noteq> 0" by (intro notI) simp
    moreover from this have "(1 :: rat) \<le> of_nat n" by simp
    moreover have "of_int limit - (clk w2 - started) \<le> 5 * (of_nat n - 1)"
    proof -
      from a consider "of_int limit - (clk w2 - started) \<le> 0"
        | "of_int limit - (clk w2 - started) \<le> of_int limit - (clk w' - started) - 5"
        by (auto simp: max_def split: if_split_asm)
      then show ?thesis using rounds_left [OF that _ calculation(2)] Suc.prems(2) by auto
    qed
    ultimately show "runs clk (zero_loop n io limit minimum started s2) w2" by (intro Suc.IH) simp_all
  qed
  show ?case unfolding zero_loop.simps(2) Let_def
    by (auto intro!: runs_bind runs_clock [OF io] runs_observe [OF io] runs_stable_step [OF io]
        runs_long_enough [OF io] runs_lift check_span_fuel again intro: order_trans)
qed simp

text \<open>
  C26.  Asking for the proof ends: with clocks that do not go back and a sleep that takes the seconds
  it was asked for, the loop is over within a fifth of its seconds and two rounds, whatever the
  observer reports, with a proof or with an error of the code's own.
\<close>

theorem proof_ends:
  assumes "steady io clk"
  shows "fst (stable_zero_resource_proof io execution ownership owned limit minimum w) \<noteq> Inl no_fuel"
proof -
  let ?finish = "\<lambda>obs. abind (zero_now io) (\<lambda>t. aret (mk [(''schema_version'', VInt 1), (''producer'', VStr ZERO_PROOF_PRODUCER),
        (''execution_id'', VStr execution), (''ownership_sha256'', VStr ownership),
        (''owned_resource_count'', owned), (''required_observations'', VInt 3),
        (''minimum_span_seconds'', VInt minimum), (''observations'', VList obs),
        (''proven_at'', VStr (utc_text t)), (''passed'', VBool True), (''redacted'', VBool True)]))"
  have finish: "fst (?finish obs v) \<noteq> Inl no_fuel" for obs v
    using steady_now [OF assms surjective_pairing, of v]
    by (cases "zero_now io v"; cases "fst (zero_now io v)") (auto simp: abind_def)
  have loop: "fst (abind (zero_clock io) (\<lambda>started. abind (zero_loop (zero_fuel limit) io limit minimum started unstable) ?finish) w)
     \<noteq> Inl no_fuel"
  proof -
    obtain w1 where c: "zero_clock io w = (Inr (clk w), w1)" "clk w \<le> clk w1"
      using steady_clock [OF assms] by (metis surj_pair)
    have "of_int limit \<le> (5 :: rat) * (of_nat (zero_fuel limit) - 1)"
    proof -
      have "limit \<le> 5 * (int (zero_fuel limit) - 1)" unfolding zero_fuel_def by simp
      hence "(of_int limit :: rat) \<le> of_int (5 * (int (zero_fuel limit) - 1))" by (simp only: of_int_le_iff)
      thus ?thesis by simp
    qed
    with c(2) have "of_int limit - (clk w1 - clk w) \<le> 5 * (of_nat (zero_fuel limit) - 1)" by linarith
    hence "runs clk (zero_loop (zero_fuel limit) io limit minimum (clk w) unstable) w1"
      by (intro runs_loop [OF assms]) (auto simp: zero_fuel_def)
    with c(1) finish show ?thesis
      by (cases "zero_loop (zero_fuel limit) io limit minimum (clk w) unstable w1")
         (auto simp: abind_def runs_def split: sum.split)
  qed
  show ?thesis
    unfolding stable_zero_resource_proof_def using loop by (auto simp: no_fuel_def)
qed

definition resting_io :: "rat zero_io" where
  "resting_io = \<lparr>zero_observe = (\<lambda>w. (Inr VNone, w)), zero_sleep = (\<lambda>t w. (Inr (), w + t)),
     zero_clock = (\<lambda>w. (Inr w, w)), zero_now = (\<lambda>w. (Inr 0, w))\<rparr>"

theorem proof_ends_witness:
  "steady resting_io (\<lambda>w. w) \<and> fst (stable_zero_resource_proof resting_io [] (replicate 64 97) (VInt 3) 900 60 0) \<noteq> Inl no_fuel"
proof -
  have "steady resting_io (\<lambda>w. w)" by (simp add: steady_def resting_io_def)
  with proof_ends [OF this] show ?thesis by blast
qed

end
