(* ===== verification/Inventory.thy ===== *)
theory Inventory imports ZeroProof WebToken begin

text \<open>
  The inventories of \<open>qualification/release_safeguards.py\<close>: what the stacks of a deployment own, and
  what carries its tag.  \<open>aws\<close> is the client's \<open>json\<close>, with the words of the command and its time
  limit; it is a parameter, and its answers are any JSON.
\<close>

type_synonym 'w aws = "pystr list \<Rightarrow> nat \<Rightarrow> ('w, pyval) act"

definition cmd :: "string list \<Rightarrow> pystr list" where
  "cmd ws = map lit ws"

text \<open>The client with a log of its commands and their answers.\<close>

type_synonym 'w with_log = "'w \<times> (pystr list \<times> pyval result) list"

definition aws_log :: "'w aws \<Rightarrow> 'w with_log aws" where
  "aws_log aws c t = (\<lambda>(w, tr). case aws c t w of (r, w') \<Rightarrow> (r, (w', tr @ [(c, r)])))"

lemma aws_log_run: "aws_log aws c t (w, tr) = (r, (w', tr')) \<Longrightarrow> tr' = tr @ [(c, r)]"
  by (auto simp: aws_log_def split: prod.split_asm)

text \<open>A loop that updates a state and may raise.\<close>

fun rfold :: "('a \<Rightarrow> 's \<Rightarrow> 's result) \<Rightarrow> 'a list \<Rightarrow> 's \<Rightarrow> 's result" where
  "rfold f [] s = Inr s"
| "rfold f (x # xs) s = rbind (f x s) (rfold f xs)"

lemma rfold_cong [fundef_cong]:
  "xs = ys \<Longrightarrow> s = t \<Longrightarrow> (\<And>x s. x \<in> set ys \<Longrightarrow> f x s = g x s) \<Longrightarrow> rfold f xs s = rfold g ys t"
proof (induction ys arbitrary: xs s t)
  case (Cons y ys)
  then have "f y t = g y t" "rfold f ys = rfold g ys" by auto
  with Cons.prems show ?case by simp
qed simp

section \<open>Bounded answers\<close>

definition bounded_list :: "pyval \<Rightarrow> string \<Rightarrow> string \<Rightarrow> nat \<Rightarrow> pyval list result" where
  "bounded_list doc k label maximum =
     (let bad = SafeguardError (label @ '' inventory is invalid'') in
      rbind (expect_list bad (safe_get doc k)) (\<lambda>vs.
      if maximum < length vs \<or>
         list_ex (\<lambda>t. safe_get doc t \<notin> {VNone, VStr []}) [''NextToken'', ''nextToken'', ''PaginationToken'', ''Marker'']
      then Inl bad else Inr vs))"

text \<open>No character of \<open>[\x00-\x1f\x7f]\<close>.\<close>

definition control_free :: "pystr \<Rightarrow> bool" where
  "control_free s \<longleftrightarrow> list_all (\<lambda>c. 32 \<le> c \<and> c \<noteq> 127) s"

section \<open>What a stack owns\<close>

definition RESOURCE_TYPE_CATEGORY :: "(string \<times> string) list" where
  "RESOURCE_TYPE_CATEGORY =
     [(''AWS::CloudFormation::Stack'', ''cloudformation_stacks''),
      (''AWS::EC2::Instance'', ''ec2_instances''),
      (''AWS::EC2::Volume'', ''ec2_volumes''),
      (''AWS::EC2::NetworkInterface'', ''ec2_network_interfaces''),
      (''AWS::EC2::VPC'', ''ec2_vpcs''),
      (''AWS::EC2::SecurityGroup'', ''ec2_security_groups''),
      (''AWS::EC2::EIP'', ''ec2_elastic_ips''),
      (''AWS::EC2::VPCEndpoint'', ''ec2_vpc_endpoints''),
      (''AWS::DynamoDB::Table'', ''dynamodb_tables''),
      (''AWS::Lambda::Function'', ''lambda_functions''),
      (''AWS::ApiGatewayV2::Api'', ''api_gateway_apis''),
      (''AWS::CertificateManager::Certificate'', ''acm_certificates''),
      (''AWS::Logs::LogGroup'', ''cloudwatch_log_groups''),
      (''AWS::CloudWatch::Alarm'', ''cloudwatch_alarms''),
      (''AWS::CloudWatch::Dashboard'', ''cloudwatch_dashboards''),
      (''AWS::SecretsManager::Secret'', ''secrets''),
      (''AWS::Route53::HostedZone'', ''route53_private_zones''),
      (''AWS::Route53::RecordSet'', ''route53_public_records''),
      (''AWS::IAM::Role'', ''iam_resources''),
      (''AWS::IAM::ManagedPolicy'', ''iam_resources''),
      (''AWS::IAM::Policy'', ''iam_resources''),
      (''AWS::IAM::InstanceProfile'', ''iam_resources''),
      (''AWS::SNS::Topic'', ''sns_resources''),
      (''AWS::SNS::Subscription'', ''sns_resources''),
      (''AWS::Backup::BackupVault'', ''backup_resources''),
      (''AWS::Backup::BackupPlan'', ''backup_resources''),
      (''AWS::Backup::BackupSelection'', ''backup_resources''),
      (''AWS::Connect::Instance'', ''connect_resources''),
      (''AWS::Connect::ContactFlow'', ''connect_resources''),
      (''AWS::Connect::HoursOfOperation'', ''connect_resources''),
      (''AWS::Connect::IntegrationAssociation'', ''connect_resources''),
      (''AWS::Connect::Queue'', ''connect_resources''),
      (''AWS::Connect::RoutingProfile'', ''connect_resources''),
      (''AWS::Connect::SecurityProfile'', ''connect_resources''),
      (''AWS::Connect::User'', ''connect_resources''),
      (''AWS::ApiGatewayV2::Integration'', ''api_gateway_apis''),
      (''AWS::ApiGatewayV2::Route'', ''api_gateway_apis''),
      (''AWS::ApiGatewayV2::Stage'', ''api_gateway_apis''),
      (''AWS::Lambda::Permission'', ''lambda_functions''),
      (''AWS::Logs::MetricFilter'', ''cloudwatch_log_groups''),
      (''AWS::EC2::EIPAssociation'', ''ec2_elastic_ips''),
      (''AWS::EC2::InternetGateway'', ''ec2_vpcs''),
      (''AWS::EC2::NatGateway'', ''ec2_vpcs''),
      (''AWS::EC2::Route'', ''ec2_vpcs''),
      (''AWS::EC2::RouteTable'', ''ec2_vpcs''),
      (''AWS::EC2::SecurityGroupEgress'', ''ec2_security_groups''),
      (''AWS::EC2::SecurityGroupIngress'', ''ec2_security_groups''),
      (''AWS::EC2::Subnet'', ''ec2_vpcs''),
      (''AWS::EC2::SubnetRouteTableAssociation'', ''ec2_vpcs''),
      (''AWS::EC2::VPCGatewayAttachment'', ''ec2_vpcs''),
      (''Custom::BridgefuVapiResources'', ''vapi_resources''),
      (''Custom::BridgefuConfiguration'', ''other_stack_resources'')]"

definition category_of :: "pystr \<Rightarrow> string option" where
  "category_of t = map_option snd (find (\<lambda>p. lit (fst p) = t) RESOURCE_TYPE_CATEGORY)"

definition STACK_TYPE :: pystr where "STACK_TYPE = lit ''AWS::CloudFormation::Stack''"

text \<open>
  The local variables of \<open>stack_ownership_inventory\<close>.  A set is the list of what was added to it, and
  a dictionary of sets the list of its pairs; of \<open>resource_types\<close> only the sum is read.
\<close>

record ownership =
  stack_queue :: "pystr list"
  seen_stacks :: "pystr list"
  stack_ids :: "pystr list"
  stack_logical_ids :: "(pystr \<times> pystr) list"
  owned :: "(string \<times> pystr) list"
  owned_by_type :: "(pystr \<times> pystr) list"
  resource_total :: nat

definition own_nothing :: "pystr \<Rightarrow> ownership" where
  "own_nothing stack =
     \<lparr>stack_queue = [stack], seen_stacks = [], stack_ids = [], stack_logical_ids = [], owned = [],
      owned_by_type = [], resource_total = 0\<rparr>"

definition note_owned :: "pystr \<Rightarrow> string \<Rightarrow> pystr \<Rightarrow> ownership \<Rightarrow> ownership" where
  "note_owned t c i st = st\<lparr>owned := owned st @ [(c, i)], owned_by_type := owned_by_type st @ [(t, i)]\<rparr>"

definition owned_identity :: "pyval \<Rightarrow> pystr result" where
  "owned_identity v =
     (let bad = SafeguardError ''qualification physical resource ID is invalid'' in
      rbind (expect_str bad v) (\<lambda>s.
      if \<not> (1 \<le> length s \<and> length s \<le> 2048) \<or> \<not> control_free s then Inl bad else Inr s))"

definition is_logical_id :: "pystr \<Rightarrow> bool" where
  "is_logical_id s \<longleftrightarrow> s \<noteq> [] \<and> length s \<le> 255 \<and> (is_upper (hd s) \<or> is_lower (hd s)) \<and> list_all is_ascii_alnum s"

text \<open>A nested stack is put in the queue, under its logical name.\<close>

definition nested_stack :: "pydict \<Rightarrow> pystr \<Rightarrow> ownership \<Rightarrow> ownership result" where
  "nested_stack d i st =
     (if \<not> starts_with i (lit ''arn:'') then Inl (SafeguardError ''qualification nested stack ID is invalid'')
      else
      (let bad = SafeguardError ''qualification nested stack logical identity is invalid'' in
       rbind (expect_str bad (get_key d ''LogicalResourceId'')) (\<lambda>l.
       if \<not> is_logical_id l \<or> i \<in> keys (stack_logical_ids st) then Inl bad
       else Inr (st\<lparr>stack_logical_ids := stack_logical_ids st @ [(i, l)], stack_queue := stack_queue st @ [i]\<rparr>))))"

definition own_physical :: "pydict \<Rightarrow> pystr \<Rightarrow> string \<Rightarrow> ownership \<Rightarrow> ownership result" where
  "own_physical d t c st =
     rbind (owned_identity (get_key d ''PhysicalResourceId'')) (\<lambda>i.
     rbind (if t = STACK_TYPE then nested_stack d i (note_owned t c i st) else Inr (note_owned t c i st)) (\<lambda>st.
     if MAX_INVENTORY_RESOURCES < int (resource_total st)
     then Inl (SafeguardError ''qualification stack resource bound was exceeded'') else Inr st))"

definition own_item :: "pyval \<Rightarrow> ownership \<Rightarrow> ownership result" where
  "own_item item st =
     rbind (expect_dict (SafeguardError ''qualification stack resource is invalid'') item) (\<lambda>d.
     let bad = SafeguardError ''qualification stack resource type is invalid'' in
     rbind (expect_str bad (get_key d ''ResourceType'')) (\<lambda>t.
     if 128 < length t then Inl bad
     else
     rbind (some_or (SafeguardError ''qualification contains an unmodeled resource type'') (category_of t)) (\<lambda>c.
     let st = st\<lparr>resource_total := resource_total st + 1\<rparr> in
     if get_key d ''PhysicalResourceId'' = VNone then Inr st else own_physical d t c st)))"

definition stack_id_of :: "pyval \<Rightarrow> pystr result" where
  "stack_id_of description =
     (case safe_get description ''Stacks'' of
        VList [VDict d] \<Rightarrow>
          (case get_key d ''StackId'' of
             VStr s \<Rightarrow> if starts_with s (lit ''arn:'') then Inr s
                      else Inl (SafeguardError ''qualification stack ID is invalid'')
           | _ \<Rightarrow> Inl (SafeguardError ''qualification stack ID is invalid''))
      | _ \<Rightarrow> Inl (SafeguardError ''qualification stack ownership is unavailable''))"

definition describe_stack :: "pystr \<Rightarrow> pystr list" where
  "describe_stack s = cmd [''cloudformation'', ''describe-stacks'', ''--stack-name''] @ [s]"

definition list_stack :: "pystr \<Rightarrow> pystr list" where
  "list_stack i = cmd [''cloudformation'', ''list-stack-resources'', ''--stack-name''] @ [i]"

definition own_listed :: "pystr \<Rightarrow> pyval \<Rightarrow> ownership \<Rightarrow> ownership result" where
  "own_listed i response st =
     rbind (bounded_list response ''StackResourceSummaries'' ''stack resource'' 500) (\<lambda>vs.
     rfold own_item vs (st\<lparr>stack_ids := stack_ids st @ [i]\<rparr>))"

definition own_stack :: "'w aws \<Rightarrow> pystr \<Rightarrow> ownership \<Rightarrow> ('w, ownership) act" where
  "own_stack aws s st =
     abind (aws (describe_stack s) 120) (\<lambda>description.
     abind (alift (stack_id_of description)) (\<lambda>i.
     abind (aws (list_stack i) 120) (\<lambda>response. alift (own_listed i response st))))"

text \<open>
  The queue.  Every round adds a stack to those seen, and there are at most so many of them: the
  number that may still come is all the recursion needs.
\<close>

definition nesting_error :: exn where
  "nesting_error = SafeguardError ''qualification nested-stack ownership is invalid''"

fun own_stacks :: "nat \<Rightarrow> 'w aws \<Rightarrow> ownership \<Rightarrow> ('w, ownership) act" where
  "own_stacks 0 aws st = (if stack_queue st = [] then aret st else araise nesting_error)"
| "own_stacks (Suc n) aws st =
     (case stack_queue st of
        [] \<Rightarrow> aret st
      | s # q \<Rightarrow>
          if s \<in> set (seen_stacks st) then araise nesting_error
          else abind (own_stack aws s (st\<lparr>stack_queue := q, seen_stacks := seen_stacks st @ [s]\<rparr>)) (own_stacks n aws))"

section \<open>What its instances have attached\<close>

text \<open>\<open>for x in v\<close>.\<close>

definition iter_of :: "pyval \<Rightarrow> pyval list result" where
  "iter_of v =
     (case v of VList xs \<Rightarrow> Inr xs | VDict d \<Rightarrow> Inr (map (\<lambda>p. VStr (fst p)) d)
      | VStr s \<Rightarrow> Inr (map (\<lambda>c. VStr [c]) s) | _ \<Rightarrow> Inl (PyError ''TypeError''))"

definition own_if_str :: "string \<Rightarrow> string \<Rightarrow> pyval \<Rightarrow> ownership \<Rightarrow> ownership" where
  "own_if_str t c v st = (case v of VStr i \<Rightarrow> note_owned (lit t) c i st | _ \<Rightarrow> st)"

definition own_attached ::
    "string \<Rightarrow> (pyval \<Rightarrow> pyval) \<Rightarrow> string \<Rightarrow> string \<Rightarrow> pydict \<Rightarrow> ownership \<Rightarrow> ownership result" where
  "own_attached k id_of t c d st =
     rbind (iter_of (get_or d k (VList []))) (\<lambda>xs. Inr (fold (\<lambda>x. own_if_str t c (id_of x)) xs st))"

definition own_instance :: "pystr list \<Rightarrow> pyval \<Rightarrow> ownership \<times> pystr list \<Rightarrow> (ownership \<times> pystr list) result" where
  "own_instance batch v s =
     rbind (expect_dict (SafeguardError ''runtime instance attachment is invalid'') v) (\<lambda>d.
     let bad = SafeguardError ''runtime instance attachment identity changed'' in
     rbind (expect_str bad (get_key d ''InstanceId'')) (\<lambda>i.
     if i \<notin> set batch then Inl bad
     else
     rbind (own_attached ''BlockDeviceMappings'' (\<lambda>x. safe_get (safe_get x ''Ebs'') ''VolumeId'')
              ''AWS::EC2::Volume'' ''ec2_volumes'' d (fst s)) (\<lambda>st.
     rbind (own_attached ''NetworkInterfaces'' (\<lambda>x. safe_get x ''NetworkInterfaceId'')
              ''AWS::EC2::NetworkInterface'' ''ec2_network_interfaces'' d st) (\<lambda>st.
     rbind (own_attached ''SecurityGroups'' (\<lambda>x. safe_get x ''GroupId'')
              ''AWS::EC2::SecurityGroup'' ''ec2_security_groups'' d st) (\<lambda>st.
     Inr (own_if_str ''AWS::EC2::VPC'' ''ec2_vpcs'' (get_key d ''VpcId'') st, snd s @ [i]))))))"

definition own_reservation ::
    "pystr list \<Rightarrow> pyval \<Rightarrow> ownership \<times> pystr list \<Rightarrow> (ownership \<times> pystr list) result" where
  "own_reservation batch r s =
     (let bad = SafeguardError ''runtime instance attachment inventory is invalid'' in
      rbind (expect_list bad (safe_get r ''Instances'')) (\<lambda>is.
      if 100 < length is then Inl bad else rfold (own_instance batch) is s))"

definition describe_instances :: "pystr list \<Rightarrow> pystr list" where
  "describe_instances ids = cmd [''ec2'', ''describe-instances'', ''--instance-ids''] @ ids"

definition own_batch :: "'w aws \<Rightarrow> pystr list \<Rightarrow> ownership \<Rightarrow> ('w, ownership) act" where
  "own_batch aws batch st =
     abind (aws (describe_instances batch) 120) (\<lambda>response.
     alift (rbind (bounded_list response ''Reservations'' ''runtime instance'' 100) (\<lambda>rs.
     rbind (rfold (own_reservation batch) rs (st, [])) (\<lambda>s.
     if set (snd s) \<noteq> set batch
     then Inl (SafeguardError ''runtime instance attachment inventory is incomplete'') else Inr (fst s)))))"

fun own_batches :: "'w aws \<Rightarrow> pystr list list \<Rightarrow> ownership \<Rightarrow> ('w, ownership) act" where
  "own_batches aws [] st = aret st"
| "own_batches aws (b # bs) st = abind (own_batch aws b st) (own_batches aws bs)"

text \<open>\<open>xs[offset:offset + 100] for offset in range(0, len(xs), 100)\<close>.\<close>

definition hundreds :: "'a list \<Rightarrow> 'a list list" where
  "hundreds xs = chunks ((length xs + 99) div 100) 100 xs"

section \<open>The document\<close>

definition ids_in :: "('c \<times> pystr) list \<Rightarrow> 'c \<Rightarrow> pystr list" where
  "ids_in ps c = sort (remdups (map snd (filter (\<lambda>p. fst p = c) ps)))"

definition strs :: "pystr list \<Rightarrow> pyval" where
  "strs ss = VList (map VStr ss)"

definition inventory_core :: "ownership \<Rightarrow> pydict" where
  "inventory_core st =
     mk [(''stack_ids'', strs (sort (remdups (stack_ids st)))),
       (''stack_logical_ids'', VDict (sort_key fst (map (\<lambda>p. (fst p, VStr (snd p))) (stack_logical_ids st)))),
       (''resources'', VDict (mk (map (\<lambda>c. (c, strs (ids_in (owned st) c))) ZERO_RESOURCE_CATEGORIES))),
       (''resources_by_type'',
         VDict (map (\<lambda>t. (t, strs (ids_in (owned_by_type st) t))) (sort (remdups (map fst (owned_by_type st))))))]"

definition canonical_sha256 :: "pyval \<Rightarrow> pystr result" where
  "canonical_sha256 v = rbind (utf8_encode (json_dumps sorted_compact v)) (\<lambda>bs. Inr (hexdigest (sha256 bs)))"

definition inventory_document :: "ownership \<Rightarrow> pydict result" where
  "inventory_document st =
     (let st = st\<lparr>owned := owned st @ map (Pair ''cloudformation_stacks'') (stack_ids st)\<rparr> in
      rbind (canonical_sha256 (VDict (inventory_core st))) (\<lambda>h.
      Inr (inventory_core st @
        mk [(''resource_count'',
              VInt (int (sum_list (map (\<lambda>c. length (ids_in (owned st) c)) ZERO_RESOURCE_CATEGORIES)))),
            (''ownership_sha256'', VStr h)])))"

definition stack_ownership_inventory :: "'w aws \<Rightarrow> pystr \<Rightarrow> nat \<Rightarrow> ('w, pydict) act" where
  "stack_ownership_inventory aws stack maximum =
     abind (own_stacks maximum aws (own_nothing stack)) (\<lambda>st.
     abind (own_batches aws (hundreds (ids_in (owned_by_type st) (lit ''AWS::EC2::Instance''))) st) (\<lambda>st.
     alift (inventory_document st)))"

section \<open>What carries the tag of an execution\<close>

definition MAX_TAGGED_RESOURCES :: nat where "MAX_TAGGED_RESOURCES = 2000"

definition tag_command :: "pystr \<Rightarrow> pystr option \<Rightarrow> pystr list" where
  "tag_command execution token =
     cmd [''resourcegroupstaggingapi'', ''get-resources'', ''--tag-filters''] @
     [lit ''Key=BridgefuExecutionId,Values='' @ execution] @
     cmd [''--resources-per-page'', ''100'', ''--no-paginate''] @
     (case token of None \<Rightarrow> [] | Some t \<Rightarrow> [lit ''--pagination-token'', t])"

definition tag_error :: exn where
  "tag_error = SafeguardError ''execution-tagged resource inventory is invalid''"

definition tagged_arn :: "pyval \<Rightarrow> pystr result" where
  "tagged_arn item =
     (let bad = SafeguardError ''execution-tagged resource identity is invalid'' in
      rbind (expect_str bad (safe_get item ''ResourceARN'')) (\<lambda>s.
      if \<not> starts_with s (lit ''arn:'') \<or> 2048 < length s then Inl bad else Inr s))"

text \<open>One page: its resources, and the token of the next page, which is a new one.\<close>

definition tag_token :: "pyval \<Rightarrow> pystr list \<Rightarrow> pystr option result" where
  "tag_token v seen =
     (if v \<in> {VNone, VStr []} then Inr None
      else
      rbind (expect_str tag_error v) (\<lambda>t.
      if \<not> (1 \<le> length t \<and> length t \<le> 2048) \<or> \<not> control_free t \<or> t \<in> set seen then Inl tag_error
      else Inr (Some t)))"

definition tag_page :: "pyval \<Rightarrow> pystr list \<Rightarrow> pystr list \<Rightarrow> (pystr list \<times> pystr option) result" where
  "tag_page response arns seen =
     rbind (expect_list tag_error (safe_get response ''ResourceTagMappingList'')) (\<lambda>vs.
     if 100 < length vs then Inl tag_error
     else
     rbind (rmap tagged_arn vs) (\<lambda>xs.
     if MAX_TAGGED_RESOURCES < length (arns @ xs) then Inl tag_error
     else rbind (tag_token (safe_get response ''PaginationToken'') seen) (\<lambda>t. Inr (arns @ xs, t))))"

text \<open>
  The loop has no bound of its own on the pages, so the recursion is given one.
\<close>

fun tag_pages ::
    "nat \<Rightarrow> 'w aws \<Rightarrow> pystr \<Rightarrow> pystr list \<Rightarrow> pystr option \<Rightarrow> pystr list \<Rightarrow> ('w, pystr list) act" where
  "tag_pages 0 aws execution arns token seen = araise no_fuel"
| "tag_pages (Suc n) aws execution arns token seen =
     abind (aws (tag_command execution token) 120) (\<lambda>response.
     abind (alift (tag_page response arns seen)) (\<lambda>(arns, token).
     case token of None \<Rightarrow> aret arns | Some t \<Rightarrow> tag_pages n aws execution arns (Some t) (seen @ [t])))"

definition tagged_resource_arns :: "nat \<Rightarrow> 'w aws \<Rightarrow> pystr \<Rightarrow> ('w, pystr list) act" where
  "tagged_resource_arns pages aws execution =
     abind (tag_pages pages aws execution [] None []) (\<lambda>arns.
     if \<not> distinct arns then araise (SafeguardError ''execution-tagged resource inventory is ambiguous'')
     else aret (sort arns))"

end
