(* ===== verification/InventorySafety.thy ===== *)
theory InventorySafety imports Inventory begin

text \<open>
  What the inventories promise: the stacks' inventory misses no resource that a stack lists and no
  nested stack, the tagged one gives every page's resources, and both only read.
\<close>

section \<open>The stacks' inventory is complete\<close>

text \<open>A resource is in_inventory when its identity is in its category and, if it is a stack, in the queue.\<close>

definition in_inventory :: "ownership \<Rightarrow> pyval \<Rightarrow> bool" where
  "in_inventory st item \<longleftrightarrow>
     (\<forall>i. safe_get item ''PhysicalResourceId'' = VStr i \<longrightarrow>
        (\<exists>t c. safe_get item ''ResourceType'' = VStr t \<and> category_of t = Some c \<and> (c, i) \<in> set (owned st) \<and>
           (t = STACK_TYPE \<longrightarrow> i \<in> set (stack_queue st) \<union> set (seen_stacks st))))"

definition all_recorded :: "ownership \<Rightarrow> (pystr list \<times> pyval result) list \<Rightarrow> bool" where
  "all_recorded st tr \<longleftrightarrow>
     (\<forall>i r. (list_stack i, Inr r) \<in> set tr \<longrightarrow>
        i \<in> set (stack_ids st) \<and> list_all (in_inventory st) (list_of (safe_get r ''StackResourceSummaries'')))"

text \<open>Nothing that was recorded is lost.\<close>

definition extends :: "ownership \<Rightarrow> ownership \<Rightarrow> bool" where
  "extends st st' \<longleftrightarrow>
     set (owned st) \<subseteq> set (owned st') \<and> set (stack_ids st) \<subseteq> set (stack_ids st') \<and>
     set (stack_queue st) \<union> set (seen_stacks st) \<subseteq> set (stack_queue st') \<union> set (seen_stacks st')"

lemma extends_refl [simp]: "extends st st"
  by (simp add: extends_def)

lemma extends_trans [trans]: "extends a b \<Longrightarrow> extends b c \<Longrightarrow> extends a c"
  unfolding extends_def by blast

lemma in_inventory_extends: "extends st st' \<Longrightarrow> in_inventory st item \<Longrightarrow> in_inventory st' item"
  unfolding extends_def in_inventory_def by fast

lemma all_recorded_extends: "extends st st' \<Longrightarrow> all_recorded st tr \<Longrightarrow> all_recorded st' tr"
  unfolding all_recorded_def list_all_iff using in_inventory_extends by (auto simp: extends_def)

lemma nested_stack_ok:
  "nested_stack d i st = Inr st' \<Longrightarrow> extends st st' \<and> i \<in> set (stack_queue st') \<and> seen_stacks st' = seen_stacks st"
  by (auto simp: nested_stack_def extends_def result_simps Let_def)

lemma own_physical_ok:
  assumes "own_physical d t c st = Inr st'"
  shows "extends st st' \<and> seen_stacks st' = seen_stacks st \<and>
     (\<exists>i. get_key d ''PhysicalResourceId'' = VStr i \<and> (c, i) \<in> set (owned st') \<and>
        (t = STACK_TYPE \<longrightarrow> i \<in> set (stack_queue st')))"
proof -
  from assms obtain i where i: "get_key d ''PhysicalResourceId'' = VStr i"
    and st': "(if t = STACK_TYPE then nested_stack d i (note_owned t c i st) else Inr (note_owned t c i st)) = Inr st'"
    by (auto simp: own_physical_def owned_identity_def result_simps Let_def)
  have noted: "extends st (note_owned t c i st)" "(c, i) \<in> set (owned (note_owned t c i st))"
    "seen_stacks (note_owned t c i st) = seen_stacks st"
    by (auto simp: note_owned_def extends_def)
  show ?thesis
  proof (cases "t = STACK_TYPE")
    case True
    with st' have "nested_stack d i (note_owned t c i st) = Inr st'" by simp
    from nested_stack_ok [OF this] noted i show ?thesis
      unfolding extends_def by auto
  next
    case False
    with st' noted i show ?thesis by auto
  qed
qed

lemma own_item_ok:
  assumes "own_item item st = Inr st'"
  shows "extends st st' \<and> seen_stacks st' = seen_stacks st \<and> in_inventory st' item"
proof -
  from assms obtain d t c where d: "item = VDict d" "get_key d ''ResourceType'' = VStr t" "category_of t = Some c"
    and r: "(if get_key d ''PhysicalResourceId'' = VNone then Inr (st\<lparr>resource_total := resource_total st + 1\<rparr>)
       else own_physical d t c (st\<lparr>resource_total := resource_total st + 1\<rparr>)) = Inr st'"
    unfolding own_item_def Let_def rbind_eq_Inr expect_Inr guard_eq some_or_simps
    by (elim exE conjE) (rule that)
  have more: "extends st (st\<lparr>resource_total := resource_total st + 1\<rparr>)" by (simp add: extends_def)
  show ?thesis
  proof (cases "get_key d ''PhysicalResourceId'' = VNone")
    case True
    with r d more show ?thesis by (auto simp: in_inventory_def)
  next
    case False
    with r have "own_physical d t c (st\<lparr>resource_total := resource_total st + 1\<rparr>) = Inr st'" by simp
    from own_physical_ok [OF this] d extends_trans [OF more] show ?thesis by (auto simp: in_inventory_def)
  qed
qed

lemma own_items_ok:
  "rfold own_item vs st = Inr st' \<Longrightarrow>
     extends st st' \<and> seen_stacks st' = seen_stacks st \<and> list_all (in_inventory st') vs"
proof (induction vs arbitrary: st)
  case (Cons v vs)
  then obtain s1 where s1: "own_item v st = Inr s1" and rest: "rfold own_item vs s1 = Inr st'"
    by (auto simp: result_simps)
  from own_item_ok [OF s1] Cons.IH [OF rest] show ?case
    by (auto intro: extends_trans in_inventory_extends)
qed simp

lemma own_stack_ok:
  assumes "own_stack (aws_log aws) s st (w, tr) = (Inr st', (w', tr'))" "all_recorded st tr"
  shows "extends st st' \<and> seen_stacks st' = seen_stacks st \<and> all_recorded st' tr' \<and>
     set tr \<subseteq> set tr' \<and> (\<exists>r. (describe_stack s, r) \<in> set tr')"
proof -
  from assms(1) obtain d w1 tr1 i w2 r where
      a: "aws_log aws (describe_stack s) 120 (w, tr) = (Inr d, (w1, tr1))"
    and b: "aws_log aws (list_stack i) 120 (w1, tr1) = (Inr r, (w2, tr'))"
    and l: "own_listed i r st = Inr st'"
    unfolding own_stack_def by (auto simp: abind_split)
  note tr = aws_log_run [OF a] aws_log_run [OF b]
  from l obtain vs where vs: "safe_get r ''StackResourceSummaries'' = VList vs"
    and f: "rfold own_item vs (st\<lparr>stack_ids := stack_ids st @ [i]\<rparr>) = Inr st'"
    by (auto simp: own_listed_def bounded_list_def result_simps Let_def)
  from own_items_ok [OF f] have e: "extends st st'" "seen_stacks st' = seen_stacks st" "list_all (in_inventory st') vs"
    "i \<in> set (stack_ids st')" by (auto simp: extends_def)
  from all_recorded_extends [OF e(1) assms(2)] vs e(3,4) tr have "all_recorded st' tr'"
    by (auto simp: all_recorded_def describe_stack_def list_stack_def cmd_def)
  with e tr show ?thesis by auto
qed

lemma own_stacks_ok:
  "own_stacks n (aws_log aws) st (w, tr) = (Inr st', (w', tr')) \<Longrightarrow> all_recorded st tr \<Longrightarrow>
     (\<forall>s\<in>set (seen_stacks st). \<exists>r. (describe_stack s, r) \<in> set tr) \<Longrightarrow>
     all_recorded st' tr' \<and> stack_queue st' = [] \<and> length (seen_stacks st') \<le> length (seen_stacks st) + n \<and>
     (\<forall>s\<in>set (seen_stacks st'). \<exists>r. (describe_stack s, r) \<in> set tr')"
proof (induction n arbitrary: st w tr)
  case 0
  then show ?case by (auto split: if_split_asm)
next
  case (Suc n)
  show ?case
  proof (cases "stack_queue st")
    case Nil
    with Suc.prems show ?thesis by auto
  next
    case (Cons s q)
    let ?st = "st\<lparr>stack_queue := q, seen_stacks := seen_stacks st @ [s]\<rparr>"
    from Cons Suc.prems(1) obtain s1 w1 tr1 where step: "own_stack (aws_log aws) s ?st (w, tr) = (Inr s1, (w1, tr1))"
      and rest: "own_stacks n (aws_log aws) s1 (w1, tr1) = (Inr st', (w', tr'))"
      by (auto simp: abind_split split: if_split_asm)
    have "extends st ?st" using Cons by (auto simp: extends_def)
    from own_stack_ok [OF step all_recorded_extends [OF this Suc.prems(2)]]
    have s1: "seen_stacks s1 = seen_stacks st @ [s]" "all_recorded s1 tr1" "set tr \<subseteq> set tr1"
      "\<exists>r. (describe_stack s, r) \<in> set tr1" by auto
    have "\<forall>s\<in>set (seen_stacks s1). \<exists>r. (describe_stack s, r) \<in> set tr1"
      unfolding s1(1) using s1(3,4) Suc.prems(3) by (simp add: ball_Un) blast
    from Suc.IH [OF rest s1(2) this] s1(1) show ?thesis by auto
  qed
qed

section \<open>The instances' attachments only add\<close>

definition adds :: "ownership \<Rightarrow> ownership \<Rightarrow> bool" where
  "adds st st' \<longleftrightarrow> set (owned st) \<subseteq> set (owned st') \<and> stack_ids st' = stack_ids st"

lemma adds_refl [simp]: "adds st st"
  by (simp add: adds_def)

lemma adds_trans: "adds a b \<Longrightarrow> adds b c \<Longrightarrow> adds a c"
  unfolding adds_def by auto

lemma adds_if_str: "adds st (own_if_str t c v st)"
  by (auto simp: adds_def own_if_str_def note_owned_def split: pyval.split)

lemma adds_fold: "adds st (fold (\<lambda>x. own_if_str t c (f x)) xs st)"
  by (induction xs arbitrary: st) (auto intro: adds_trans adds_if_str)

lemma adds_attached: "own_attached k f t c d st = Inr st' \<Longrightarrow> adds st st'"
  by (auto simp: own_attached_def result_simps adds_fold)

lemma adds_instance:
  assumes "own_instance batch v s = Inr s'"
  shows "adds (fst s) (fst s')"
proof -
  from assms obtain d s1 s2 s3 where "adds (fst s) s1" "adds s1 s2" "adds s2 s3"
    and s': "fst s' = own_if_str ''AWS::EC2::VPC'' ''ec2_vpcs'' (get_key d ''VpcId'') s3"
    unfolding own_instance_def Let_def rbind_eq_Inr expect_Inr guard_eq by (auto dest!: adds_attached)
  then have "adds (fst s) s3" by (blast intro: adds_trans)
  from adds_trans [OF this adds_if_str] show ?thesis by (simp add: s')
qed

lemma adds_rfold: "(\<And>x s s'. f x s = Inr s' \<Longrightarrow> adds (fst s) (fst s')) \<Longrightarrow> rfold f xs s = Inr s' \<Longrightarrow> adds (fst s) (fst s')"
proof (induction xs arbitrary: s)
  case (Cons x xs)
  then obtain s1 where "f x s = Inr s1" "rfold f xs s1 = Inr s'" by (auto simp: result_simps)
  from Cons.prems(1) [OF this(1)] Cons.IH [OF Cons.prems(1) this(2)] show ?case by (rule adds_trans)
qed simp

lemma adds_reservation: "own_reservation batch r s = Inr s' \<Longrightarrow> adds (fst s) (fst s')"
  by (auto simp: own_reservation_def result_simps Let_def intro: adds_rfold [OF adds_instance])

lemma own_batch_ok:
  assumes "own_batch (aws_log aws) batch st (w, tr) = (Inr st', (w', tr'))"
  shows "adds st st' \<and> (\<exists>r. tr' = tr @ [(describe_instances batch, r)])"
proof -
  from assms obtain r where a: "aws_log aws (describe_instances batch) 120 (w, tr) = (Inr r, (w', tr'))"
    and f: "\<exists>rs b. rfold (own_reservation batch) rs (st, []) = Inr (st', b)"
    unfolding own_batch_def by (auto simp: abind_split result_simps)
  from f adds_rfold [OF adds_reservation] have "adds st st'" by fastforce
  with aws_log_run [OF a] show ?thesis by auto
qed

lemma own_batches_ok:
  "own_batches (aws_log aws) bs st (w, tr) = (Inr st', (w', tr')) \<Longrightarrow>
     adds st st' \<and> (\<exists>us. tr' = tr @ us \<and> (\<forall>i r. (list_stack i, r) \<notin> set us))"
proof (induction bs arbitrary: st w tr)
  case (Cons b bs)
  then obtain s1 w1 tr1 where a: "own_batch (aws_log aws) b st (w, tr) = (Inr s1, (w1, tr1))"
    and rest: "own_batches (aws_log aws) bs s1 (w1, tr1) = (Inr st', (w', tr'))"
    by (auto simp: abind_split)
  have "list_stack i \<noteq> describe_instances b" for i by (simp add: list_stack_def describe_instances_def cmd_def)
  with own_batch_ok [OF a] Cons.IH [OF rest] show ?case by (auto intro: adds_trans)
qed simp

section \<open>The document shows what was recorded\<close>

lemma categories_known: "list_all (\<lambda>p. snd p \<in> set ZERO_RESOURCE_CATEGORIES) RESOURCE_TYPE_CATEGORY"
  by code_simp

lemma category_of_known: "category_of t = Some c \<Longrightarrow> c \<in> set ZERO_RESOURCE_CATEGORIES"
  using categories_known unfolding category_of_def list_all_iff
  by (metis (no_types, lifting) find_Some_iff map_option_eq_Some nth_mem)

lemma get_key_mk_map: "c \<in> set cs \<Longrightarrow> get_key (mk (map (\<lambda>c. (c, f c)) cs)) c = f c"
  by (induction cs) auto

lemma document_shows:
  assumes "inventory_document st = Inr doc" "(c, i) \<in> set (owned st)" "c \<in> set ZERO_RESOURCE_CATEGORIES"
  shows "VStr i \<in> set (list_of (safe_get (get_key doc ''resources'') c))"
proof -
  from assms(1) obtain os h where os: "set (owned st) \<subseteq> set os"
    and doc: "get_key doc ''resources'' = VDict (mk (map (\<lambda>c. (c, strs (ids_in os c))) ZERO_RESOURCE_CATEGORIES))"
    unfolding inventory_document_def inventory_core_def Let_def
    by (auto simp: result_simps intro!: that [of "owned st @ map (Pair ''cloudformation_stacks'') (stack_ids st)"])
  have "i \<in> set (ids_in os c)" using assms(2) os by (force simp: ids_in_def)
  then show ?thesis unfolding doc by (simp add: get_key_mk_map [OF assms(3)] strs_def)
qed

text \<open>
  C27.  The inventory that is taken before a teardown misses nothing: when it succeeds, every resource
  that any of its stack listings names by a physical identity is of a known type and in the
  inventory under that type's category, and when it is a stack, it was itself inspected.
\<close>

theorem inventory_misses_nothing:
  assumes run: "stack_ownership_inventory (aws_log aws) stack maximum (w, []) = (Inr doc, (w', tr))"
    and listed: "(list_stack s, Inr r) \<in> set tr" "item \<in> set (list_of (safe_get r ''StackResourceSummaries''))"
      "safe_get item ''PhysicalResourceId'' = VStr i"
  shows "\<exists>t c. safe_get item ''ResourceType'' = VStr t \<and> category_of t = Some c \<and>
     VStr i \<in> set (list_of (safe_get (get_key doc ''resources'') c)) \<and>
     (t = STACK_TYPE \<longrightarrow> (\<exists>r. (describe_stack i, r) \<in> set tr))"
proof -
  from run obtain s1 w1 tr1 bs s2 where
      a: "own_stacks maximum (aws_log aws) (own_nothing stack) (w, []) = (Inr s1, (w1, tr1))"
    and b: "own_batches (aws_log aws) bs s1 (w1, tr1) = (Inr s2, (w', tr))"
    and doc: "inventory_document s2 = Inr doc"
    unfolding stack_ownership_inventory_def by (auto simp: abind_split)
  from own_stacks_ok [OF a] have s1: "all_recorded s1 tr1" "stack_queue s1 = []"
    "\<forall>s\<in>set (seen_stacks s1). \<exists>r. (describe_stack s, r) \<in> set tr1"
    by (auto simp: all_recorded_def own_nothing_def)
  from own_batches_ok [OF b] listed(1) have s2: "set (owned s1) \<subseteq> set (owned s2)" "set tr1 \<subseteq> set tr"
    and "(list_stack s, Inr r) \<in> set tr1" by (auto simp: adds_def)
  with s1(1) listed(2) have "in_inventory s1 item" by (auto simp: all_recorded_def list_all_iff)
  with listed(3) obtain t c where t: "safe_get item ''ResourceType'' = VStr t" "category_of t = Some c"
    "(c, i) \<in> set (owned s1)" "t = STACK_TYPE \<longrightarrow> i \<in> set (seen_stacks s1)"
    using s1(2) by (auto simp: in_inventory_def)
  from document_shows [OF doc _ category_of_known [OF t(2)]] t(3) s2(1)
  have "VStr i \<in> set (list_of (safe_get (get_key doc ''resources'') c))" by blast
  with t s1(3) s2(2) show ?thesis by blast
qed


section \<open>A document is always made\<close>

lemma distinct_map_sort_key: "distinct (map f (sort_key g xs)) \<longleftrightarrow> distinct (map f xs)"
  by (simp add: distinct_map)

lemma sort_value_ok: "json_ok a v \<Longrightarrow> json_ok a (sort_value v)"
proof (induction v)
  case (VDict d)
  have "distinct (map fst (sort_key fst (map (\<lambda>p. (fst p, sort_value (snd p))) d)))"
    unfolding distinct_map_sort_key using VDict.prems by (simp add: comp_def)
  with VDict show ?case by (fastforce simp: list_all_iff)
qed (auto simp: list_all_iff)

lemma canonical_sha256_ok:
  assumes "json_ok True v"
  shows "\<exists>h. canonical_sha256 v = Inr h"
proof -
  have "dump sorted_compact (sort_value v) = dump compact (sort_value v)"
    using dump_sort_keys [of _ compact] by (simp add: sorted_compact_def)
  then have "is_ascii (json_dumps sorted_compact v)"
    using dump_printable [OF good_compact(1,2) sort_value_ok [OF assms]]
    by (auto simp: json_dumps_def sorted_compact_def is_ascii_def list_all_iff printable_def)
  then show ?thesis by (simp add: canonical_sha256_def utf8_encode_ascii)
qed

definition clean_text :: "pystr \<Rightarrow> bool" where
  "clean_text s \<longleftrightarrow> list_all (char_ok True) s"

lemma strs_ok: "list_all clean_text ss \<Longrightarrow> json_ok True (strs ss)"
  by (simp add: strs_def clean_text_def list_all_iff)

lemma ids_in_ok: "list_all (clean_text \<circ> snd) ps \<Longrightarrow> list_all clean_text (ids_in ps c)"
  by (auto simp: ids_in_def list_all_iff)

lemma categories_ok: "distinct (map lit ZERO_RESOURCE_CATEGORIES)" "list_all clean_text (map lit ZERO_RESOURCE_CATEGORIES)"
  by (simp_all add: ZERO_RESOURCE_CATEGORIES_def clean_text_def char_ok_def eval_simps)

definition plain_ownership :: "ownership \<Rightarrow> bool" where
  "plain_ownership st \<longleftrightarrow>
     list_all clean_text (stack_ids st) \<and> list_all (\<lambda>p. clean_text (fst p) \<and> clean_text (snd p)) (stack_logical_ids st) \<and>
     distinct (map fst (stack_logical_ids st)) \<and> list_all (clean_text \<circ> snd) (owned st) \<and>
     list_all (\<lambda>p. clean_text (fst p) \<and> clean_text (snd p)) (owned_by_type st)"

lemma logical_ids_ok:
  assumes "plain_ownership st"
  shows "json_ok True (VDict (sort_key fst (map (\<lambda>p. (fst p, VStr (snd p))) (stack_logical_ids st))))"
  using assms unfolding plain_ownership_def json_ok.simps distinct_map_sort_key
  by (auto simp: list_all_iff clean_text_def comp_def)

lemma resources_ok:
  assumes "plain_ownership st"
  shows "json_ok True (VDict (mk (map (\<lambda>c. (c, strs (ids_in (owned st) c))) ZERO_RESOURCE_CATEGORIES)))"
proof -
  have "map fst (mk (map (\<lambda>c. (c, strs (ids_in (owned st) c))) ZERO_RESOURCE_CATEGORIES)) = map lit ZERO_RESOURCE_CATEGORIES"
    by (simp add: mk_def comp_def)
  moreover have "json_ok True (strs (ids_in (owned st) c))" for c
    using assms by (intro strs_ok ids_in_ok) (simp add: plain_ownership_def)
  ultimately show ?thesis using categories_ok
    by (auto simp: mk_def list_all_iff clean_text_def comp_def)
qed

lemma by_type_ok:
  assumes "plain_ownership st"
  shows "json_ok True (VDict (map (\<lambda>t. (t, strs (ids_in (owned_by_type st) t))) (sort (remdups (map fst (owned_by_type st))))))"
proof -
  have "json_ok True (strs (ids_in (owned_by_type st) t))" for t
    using assms by (intro strs_ok ids_in_ok) (auto simp: plain_ownership_def list_all_iff)
  with assms show ?thesis by (auto simp: plain_ownership_def comp_def list_all_iff clean_text_def)
qed

lemma inventory_document_ok:
  assumes "plain_ownership st"
  shows "\<exists>doc. inventory_document st = Inr doc"
proof -
  let ?st = "st\<lparr>owned := owned st @ map (Pair ''cloudformation_stacks'') (stack_ids st)\<rparr>"
  have plain: "plain_ownership ?st"
    using assms by (auto simp: plain_ownership_def list_all_iff)
  have ids: "json_ok True (strs (sort (remdups (stack_ids ?st))))"
    using assms by (intro strs_ok) (auto simp: plain_ownership_def list_all_iff)
  have "json_ok True (VDict (inventory_core ?st))"
    unfolding inventory_core_def mk_simps
    using logical_ids_ok [OF plain] resources_ok [OF plain] by_type_ok [OF plain] ids
    by (simp del: json_ok.simps(5) add: json_ok.simps(5) [of _ "_ # _"] json_ok.simps(5) [of _ "[]"] char_ok_def eval_simps)
  from canonical_sha256_ok [OF this] show ?thesis by (auto simp: inventory_document_def Let_def)
qed

text \<open>A stack with one nested stack, which owns a log group.\<close>

definition demo_listing :: "(string \<times> string \<times> string) list \<Rightarrow> pyval" where
  "demo_listing rs = VDict (mk [(''StackResourceSummaries'', VList (map (\<lambda>(l, t, i). VDict (mk
     [(''LogicalResourceId'', VStr (lit l)), (''ResourceType'', VStr (lit t)), (''PhysicalResourceId'', VStr (lit i))])) rs))])"

definition demo_stack :: "pystr \<Rightarrow> pyval" where
  "demo_stack s = VDict (mk [(''Stacks'', VList [VDict (mk [(''StackId'', VStr s)])])])"

definition demo_aws :: "unit aws" where
  "demo_aws c t = aret
     (if c = describe_stack (lit ''base'') then demo_stack (lit ''arn:b'')
      else if c = describe_stack (lit ''arn:n'') then demo_stack (lit ''arn:n'')
      else if c = list_stack (lit ''arn:b'') then demo_listing [(''Runtime'', ''AWS::CloudFormation::Stack'', ''arn:n'')]
      else if c = list_stack (lit ''arn:n'') then demo_listing [(''Log'', ''AWS::Logs::LogGroup'', ''/b/r'')]
      else VNone)"

lemma demo_inventory:
  "\<exists>doc tr. stack_ownership_inventory (aws_log demo_aws) (lit ''base'') 16 ((), []) = (Inr doc, ((), tr)) \<and>
     (list_stack (lit ''arn:b''), Inr (demo_listing [(''Runtime'', ''AWS::CloudFormation::Stack'', ''arn:n'')])) \<in> set tr"
proof -
  have c: "category_of (lit ''AWS::CloudFormation::Stack'') = Some ''cloudformation_stacks''"
    "category_of (lit ''AWS::Logs::LogGroup'') = Some ''cloudwatch_log_groups''"
    by (simp_all add: category_of_def RESOURCE_TYPE_CATEGORY_def STACK_TYPE_def)
  have i: "owned_identity (VStr (lit ''arn:n'')) = Inr (lit ''arn:n'')" "owned_identity (VStr (lit ''/b/r'')) = Inr (lit ''/b/r'')"
    "is_logical_id (lit ''Runtime'')" "starts_with (lit ''arn:n'') (lit ''arn:'')" "starts_with (lit ''arn:b'') (lit ''arn:'')"
    by (simp_all add: owned_identity_def control_free_def is_logical_id_def eval_simps)
  have plain: "clean_text (lit ''arn:n'')" "clean_text (lit ''arn:b'')" "clean_text (lit ''/b/r'')" "clean_text (lit ''Runtime'')"
    "clean_text (lit ''AWS::CloudFormation::Stack'')" "clean_text (lit ''AWS::Logs::LogGroup'')"
    by (simp_all add: clean_text_def char_ok_def eval_simps)
  have apart [simp]: "list_stack a \<noteq> describe_stack b" "describe_stack b \<noteq> list_stack a"
    "describe_stack a = describe_stack b \<longleftrightarrow> a = b" "list_stack a = list_stack b \<longleftrightarrow> a = b" for a b
    by (simp_all add: list_stack_def describe_stack_def cmd_def)
  have bounded: "bounded_list (demo_listing rs) ''StackResourceSummaries'' ''stack resource'' 500 =
      Inr (list_of (safe_get (demo_listing rs) ''StackResourceSummaries''))" if "length rs \<le> 500" for rs
    using that by (simp add: bounded_list_def demo_listing_def Let_def)
  define s1 where "s1 = \<lparr>stack_queue = [lit ''arn:n''], seen_stacks = [lit ''base''], stack_ids = [lit ''arn:b''],
     stack_logical_ids = [(lit ''arn:n'', lit ''Runtime'')], owned = [(''cloudformation_stacks'', lit ''arn:n'')],
     owned_by_type = [(lit ''AWS::CloudFormation::Stack'', lit ''arn:n'')], resource_total = 1\<rparr>"
  have s1: "own_listed (lit ''arn:b'') (demo_listing [(''Runtime'', ''AWS::CloudFormation::Stack'', ''arn:n'')])
      ((own_nothing (lit ''base''))\<lparr>stack_queue := [], seen_stacks := [lit ''base'']\<rparr>) = Inr s1"
    by (simp add: own_listed_def bounded) (simp add: demo_listing_def own_item_def STACK_TYPE_def c own_physical_def
       nested_stack_def i note_owned_def own_nothing_def MAX_INVENTORY_RESOURCES_def s1_def Let_def)
  define s2 where "s2 = \<lparr>stack_queue = [], seen_stacks = [lit ''base'', lit ''arn:n''], stack_ids = [lit ''arn:b'', lit ''arn:n''],
     stack_logical_ids = [(lit ''arn:n'', lit ''Runtime'')],
     owned = [(''cloudformation_stacks'', lit ''arn:n''), (''cloudwatch_log_groups'', lit ''/b/r'')],
     owned_by_type = [(lit ''AWS::CloudFormation::Stack'', lit ''arn:n''), (lit ''AWS::Logs::LogGroup'', lit ''/b/r'')],
     resource_total = 2\<rparr>"
  have s2: "own_listed (lit ''arn:n'') (demo_listing [(''Log'', ''AWS::Logs::LogGroup'', ''/b/r'')])
      (s1\<lparr>stack_queue := [], seen_stacks := [lit ''base'', lit ''arn:n'']\<rparr>) = Inr s2"
    by (simp add: own_listed_def bounded) (simp add: demo_listing_def own_item_def c own_physical_def i note_owned_def
       MAX_INVENTORY_RESOURCES_def STACK_TYPE_def s1_def s2_def Let_def)
  have plain2: "plain_ownership s2" by (simp add: plain_ownership_def plain s2_def)
  have run1: "own_stack (aws_log demo_aws) (lit ''base'') ((own_nothing (lit ''base''))\<lparr>stack_queue := [], seen_stacks := [lit ''base'']\<rparr>) ((), []) =
      (Inr s1, ((), [(describe_stack (lit ''base''), Inr (demo_stack (lit ''arn:b''))), (list_stack (lit ''arn:b''),
        Inr (demo_listing [(''Runtime'', ''AWS::CloudFormation::Stack'', ''arn:n'')]))]))"
    by (simp add: own_stack_def abind_def aws_log_def demo_aws_def stack_id_of_def demo_stack_def i s1)
  have run2: "\<exists>us. own_stack (aws_log demo_aws) (lit ''arn:n'') (s1\<lparr>stack_queue := [], seen_stacks := [lit ''base'', lit ''arn:n'']\<rparr>) ((), tr) =
      (Inr s2, ((), tr @ us))" for tr
    by (simp add: own_stack_def abind_def aws_log_def demo_aws_def stack_id_of_def demo_stack_def i s2)
  define tr1 :: "(pystr list \<times> pyval result) list" where "tr1 = [(describe_stack (lit ''base''), Inr (demo_stack (lit ''arn:b''))), (list_stack (lit ''arn:b''),
        Inr (demo_listing [(''Runtime'', ''AWS::CloudFormation::Stack'', ''arn:n'')]))]"
  from run2 obtain us where run2': "own_stack (aws_log demo_aws) (lit ''arn:n'') (s1\<lparr>stack_queue := [], seen_stacks := [lit ''base'', lit ''arn:n'']\<rparr>) ((), tr1) =
      (Inr s2, ((), tr1 @ us))" by blast
  have "own_stacks (Suc (Suc (Suc n))) (aws_log demo_aws) (own_nothing (lit ''base'')) ((), []) = (Inr s2, ((), tr1 @ us))" for n
    using run1 run2' by (simp add: own_nothing_def abind_def tr1_def [symmetric] s1_def s2_def)
  from this [of 13] have stacks: "own_stacks 16 (aws_log demo_aws) (own_nothing (lit ''base'')) ((), []) = (Inr s2, ((), tr1 @ us))" by simp
  have none: "hundreds (ids_in (owned_by_type s2) (lit ''AWS::EC2::Instance'')) = []"
    by (simp add: s2_def ids_in_def hundreds_def)
  obtain doc where "inventory_document s2 = Inr doc"
    using inventory_document_ok [OF plain2] by blast
  with stacks none have "stack_ownership_inventory (aws_log demo_aws) (lit ''base'') 16 ((), []) = (Inr doc, ((), tr1 @ us))"
    by (simp add: stack_ownership_inventory_def abind_def)
  then show ?thesis by (auto simp: tr1_def)
qed

theorem inventory_misses_nothing_witness:
  "\<exists>doc tr. stack_ownership_inventory (aws_log demo_aws) (lit ''base'') 16 ((), []) = (Inr doc, ((), tr)) \<and>
     VStr (lit ''arn:n'') \<in> set (list_of (safe_get (get_key doc ''resources'') ''cloudformation_stacks'')) \<and>
     (\<exists>r. (describe_stack (lit ''arn:n''), r) \<in> set tr)"
proof -
  from demo_inventory obtain doc tr where
    run: "stack_ownership_inventory (aws_log demo_aws) (lit ''base'') 16 ((), []) = (Inr doc, ((), tr))"
    and l: "(list_stack (lit ''arn:b''), Inr (demo_listing [(''Runtime'', ''AWS::CloudFormation::Stack'', ''arn:n'')])) \<in> set tr"
    by blast
  have "category_of STACK_TYPE = Some ''cloudformation_stacks''"
    by (simp add: category_of_def RESOURCE_TYPE_CATEGORY_def STACK_TYPE_def)
  with inventory_misses_nothing [OF run l, of "VDict (mk [(''LogicalResourceId'', VStr (lit ''Runtime'')),
      (''ResourceType'', VStr (lit ''AWS::CloudFormation::Stack'')), (''PhysicalResourceId'', VStr (lit ''arn:n''))])" "lit ''arn:n''"]
  show ?thesis using run by (auto simp: demo_listing_def STACK_TYPE_def)
qed

section \<open>What carries the tag\<close>

definition page_arns :: "pyval \<Rightarrow> pyval list" where
  "page_arns r = map (\<lambda>v. safe_get v ''ResourceARN'') (list_of (safe_get r ''ResourceTagMappingList''))"

definition page_token :: "pyval \<Rightarrow> pystr option" where
  "page_token r = (case safe_get r ''PaginationToken'' of VStr (c # s) \<Rightarrow> Some (c # s) | _ \<Rightarrow> None)"

text \<open>The pages of a trace: each is asked for with the token of the one before, the last has none.\<close>

fun pages :: "pystr \<Rightarrow> pystr option \<Rightarrow> (pystr list \<times> pyval result) list \<Rightarrow> bool" where
  "pages execution token [] = False"
| "pages execution token ((c, r) # tr) \<longleftrightarrow>
     c = tag_command execution token \<and> (\<exists>v. r = Inr v \<and>
       (case page_token v of None \<Rightarrow> tr = [] | Some t \<Rightarrow> pages execution (Some t) tr))"

definition answer_arns :: "(pystr list \<times> pyval result) list \<Rightarrow> pyval list" where
  "answer_arns tr = concat (map (\<lambda>(c, r). case r of Inr v \<Rightarrow> page_arns v | Inl _ \<Rightarrow> []) tr)"

lemma tagged_arn_ok: "tagged_arn v = Inr s \<Longrightarrow> safe_get v ''ResourceARN'' = VStr s \<and> starts_with s (lit ''arn:'')"
  by (auto simp: tagged_arn_def result_simps Let_def)

lemma tagged_arns_ok:
  "list_all2 (\<lambda>v s. tagged_arn v = Inr s) vs xs \<Longrightarrow>
     map (\<lambda>v. safe_get v ''ResourceARN'') vs = map VStr xs \<and> list_all (\<lambda>s. starts_with s (lit ''arn:'')) xs"
  by (induction rule: list_all2_induct) (auto dest: tagged_arn_ok)

lemma tag_token_ok: "tag_token v seen = Inr t \<Longrightarrow> t = (case v of VStr (c # s) \<Rightarrow> Some (c # s) | _ \<Rightarrow> None)"
  by (cases v) (auto simp: tag_token_def result_simps split: if_split_asm list.split)

lemma tag_page_ok:
  assumes "tag_page r arns seen = Inr (arns', t)"
  obtains xs where "arns' = arns @ xs" "page_arns r = map VStr xs" "list_all (\<lambda>s. starts_with s (lit ''arn:'')) xs"
    "length arns' \<le> MAX_TAGGED_RESOURCES" "t = page_token r"
proof -
  from assms obtain vs xs where vs: "safe_get r ''ResourceTagMappingList'' = VList vs" "rmap tagged_arn vs = Inr xs"
    and rest: "length (arns @ xs) \<le> MAX_TAGGED_RESOURCES" "arns' = arns @ xs" "tag_token (safe_get r ''PaginationToken'') seen = Inr t"
    by (auto simp: tag_page_def result_simps)
  from vs(2) have "list_all2 (\<lambda>v s. tagged_arn v = Inr s) vs xs" by (simp add: rmap_eq_Inr)
  from tagged_arns_ok [OF this] rest tag_token_ok [OF rest(3)] vs(1) show thesis
    by (intro that [of xs]) (simp_all add: page_arns_def page_token_def)
qed

lemma tag_pages_ok:
  "tag_pages n (aws_log aws) execution arns token seen (w, tr) = (Inr out, (w', tr')) \<Longrightarrow>
     \<exists>us xs. tr' = tr @ us \<and> out = arns @ xs \<and> pages execution token us \<and> map VStr xs = answer_arns us \<and>
       list_all (\<lambda>s. starts_with s (lit ''arn:'')) xs \<and> length out \<le> MAX_TAGGED_RESOURCES"
proof (induction n arbitrary: arns token seen w tr)
  case (Suc n)
  from Suc.prems obtain r w1 tr1 arns1 t where a: "aws_log aws (tag_command execution token) 120 (w, tr) = (Inr r, (w1, tr1))"
    and p: "tag_page r arns seen = Inr (arns1, t)"
    and rest: "(case t of None \<Rightarrow> aret arns1 | Some t \<Rightarrow> tag_pages n (aws_log aws) execution arns1 (Some t) (seen @ [t])) (w1, tr1)
       = (Inr out, (w', tr'))"
    by (auto simp: abind_split)
  from p obtain xs where xs: "arns1 = arns @ xs" "page_arns r = map VStr xs" "list_all (\<lambda>s. starts_with s (lit ''arn:'')) xs"
    "length arns1 \<le> MAX_TAGGED_RESOURCES" "t = page_token r" by (rule tag_page_ok)
  note tr1 = aws_log_run [OF a]
  show ?case
  proof (cases t)
    case None
    with rest xs tr1 show ?thesis
      by (intro exI [of _ "[(tag_command execution token, Inr r)]"] exI [of _ xs]) (auto simp: answer_arns_def)
  next
    case (Some t')
    with rest have "tag_pages n (aws_log aws) execution arns1 (Some t') (seen @ [t']) (w1, tr1) = (Inr out, (w', tr'))" by simp
    from Suc.IH [OF this] obtain us ys where "tr' = tr1 @ us" "out = arns1 @ ys" "pages execution (Some t') us"
      "map VStr ys = answer_arns us" "list_all (\<lambda>s. starts_with s (lit ''arn:'')) ys" "length out \<le> MAX_TAGGED_RESOURCES" by blast
    moreover from xs(5) Some have "page_token r = Some t'" by simp
    ultimately show ?thesis using xs(1-4) tr1
      by (intro exI [of _ "(tag_command execution token, Inr r) # us"] exI [of _ "xs @ ys"]) (auto simp: answer_arns_def)
  qed
qed simp

text \<open>
  C28.  The tagged inventory is complete and exact: when it succeeds, it followed every page token to
  the page that has none, and its ARNs are those of all pages, each once, in order, at most 2000.
\<close>

theorem tagged_arns_exact:
  assumes "tagged_resource_arns n (aws_log aws) execution (w, []) = (Inr arns, (w', tr))"
  shows "pages execution None tr \<and> map VStr arns = map VStr (sort (map str_of (answer_arns tr))) \<and>
     set (map VStr arns) = set (answer_arns tr) \<and> distinct arns \<and> length arns \<le> 2000"
proof -
  from assms obtain xs where a: "tag_pages n (aws_log aws) execution [] None [] (w, []) = (Inr xs, (w', tr))"
    and xs: "distinct xs" "arns = sort xs"
    unfolding tagged_resource_arns_def by (auto simp: abind_split split: if_split_asm)
  from tag_pages_ok [OF a] have "pages execution None tr" "answer_arns tr = map VStr xs" "length xs \<le> 2000"
    by (auto simp: MAX_TAGGED_RESOURCES_def)
  moreover from this(2) have "map str_of (answer_arns tr) = xs" by (simp add: comp_def)
  ultimately show ?thesis using xs by simp
qed

definition demo_tags :: "unit aws" where
  "demo_tags c t = aret (VDict (mk
     ((''ResourceTagMappingList'', VList [VDict (mk [(''ResourceARN'', VStr (lit (if c = tag_command (lit ''e'') None then ''arn:b'' else ''arn:a'')))])])
      # (if c = tag_command (lit ''e'') None then [(''PaginationToken'', VStr (lit ''t''))] else []))))"

theorem tagged_arns_exact_witness:
  "\<exists>tr. tagged_resource_arns 2001 (aws_log demo_tags) (lit ''e'') ((), []) = (Inr [lit ''arn:a'', lit ''arn:b''], ((), tr)) \<and>
     pages (lit ''e'') None tr"
proof -
  have n: "2001 = Suc (Suc 1999)" by simp
  have t: "tag_command (lit ''e'') (Some (lit ''t'')) \<noteq> tag_command (lit ''e'') None" by (simp add: tag_command_def)
  have arn: "starts_with (lit ''arn:a'') (lit ''arn:'')" "starts_with (lit ''arn:b'') (lit ''arn:'')" "control_free (lit ''t'')"
    by (simp_all add: control_free_def eval_simps)
  have run: "tag_pages (Suc (Suc k)) (aws_log demo_tags) (lit ''e'') [] None [] ((), []) =
      (Inr [lit ''arn:b'', lit ''arn:a''], ((), snd (snd (tag_pages (Suc (Suc k)) (aws_log demo_tags) (lit ''e'') [] None [] ((), [])))))" for k
    by (simp add: abind_def aws_log_def demo_tags_def t tag_page_def tagged_arn_def arn tag_token_def MAX_TAGGED_RESOURCES_def Let_def)
  have "sort [lit ''arn:b'', lit ''arn:a''] = [lit ''arn:a'', lit ''arn:b'']" by (simp add: lit_def)
  with run [of 1999] have "\<exists>tr. tagged_resource_arns 2001 (aws_log demo_tags) (lit ''e'') ((), []) =
      (Inr [lit ''arn:a'', lit ''arn:b''], ((), tr))"
    unfolding tagged_resource_arns_def n [symmetric] by (intro exI) (subst abind_ok, assumption, simp)
  then obtain tr where r: "tagged_resource_arns 2001 (aws_log demo_tags) (lit ''e'') ((), []) =
      (Inr [lit ''arn:a'', lit ''arn:b''], ((), tr))" by (elim exE)
  from tagged_arns_exact [OF r] have "pages (lit ''e'') None tr" by (elim conjE)
  with r show ?thesis by (intro exI conjI)
qed

text \<open>The loop ends within 2001 pages if a page that is followed by another is not empty.\<close>

definition nonempty_pages :: "'w aws \<Rightarrow> bool" where
  "nonempty_pages aws \<longleftrightarrow> (\<forall>c t w r w'. aws c t w = (r, w') \<longrightarrow> r \<noteq> Inl no_fuel \<and>
     (\<forall>v. r = Inr v \<longrightarrow> page_token v \<noteq> None \<longrightarrow> page_arns v \<noteq> []))"

lemma tag_page_fuel: "tag_page r arns seen \<noteq> Inl no_fuel"
proof -
  have "tagged_arn v \<noteq> Inl no_fuel" for v
    by (auto simp: tagged_arn_def result_simps no_fuel_def Let_def)
  then have "rmap tagged_arn vs \<noteq> Inl no_fuel" for vs by (rule rmap_fuel)
  then show ?thesis
    by (auto simp: tag_page_def tag_token_def tag_error_def no_fuel_def result_simps)
qed

lemma tag_pages_end:
  assumes "nonempty_pages aws"
  shows "MAX_TAGGED_RESOURCES < n + length arns \<Longrightarrow> length arns \<le> MAX_TAGGED_RESOURCES \<Longrightarrow>
     fst (tag_pages n aws execution arns token seen w) \<noteq> Inl no_fuel"
proof (induction n arbitrary: arns token seen w)
  case (Suc n)
  obtain r w1 where a: "aws (tag_command execution token) 120 w = (r, w1)" by (metis surj_pair)
  show ?case
  proof (cases r)
    case (Inl e)
    moreover from a assms have "r \<noteq> Inl no_fuel" unfolding nonempty_pages_def by blast
    ultimately show ?thesis using a by (simp add: abind_def)
  next
    case (Inr v)
    show ?thesis
    proof (cases "tag_page v arns seen")
      case (Inl e)
      with a Inr tag_page_fuel [of v arns seen] show ?thesis by (auto simp: abind_def)
    next
      case p: (Inr z)
      obtain arns1 t where z: "z = (arns1, t)" by (metis surj_pair)
      from p z obtain xs where xs: "arns1 = arns @ xs" "page_arns v = map VStr xs" "length arns1 \<le> MAX_TAGGED_RESOURCES"
        "t = page_token v" by (auto elim: tag_page_ok)
      show ?thesis
      proof (cases t)
        case None
        with a Inr p z show ?thesis by (simp add: abind_def)
      next
        case (Some t')
        with xs a Inr assms have "xs \<noteq> []" by (fastforce simp: nonempty_pages_def)
        with xs Suc.prems have "fst (tag_pages n aws execution arns1 (Some t') (seen @ [t']) w1) \<noteq> Inl no_fuel"
          by (intro Suc.IH) (auto simp: Suc_le_eq length_greater_0_conv [symmetric] simp del: length_greater_0_conv)
        with a Inr p z Some show ?thesis by (simp add: abind_def)
      qed
    qed
  qed
qed simp

lemma tagged_arns_end:
  assumes "nonempty_pages aws"
  shows "fst (tagged_resource_arns 2001 aws execution w) \<noteq> Inl no_fuel"
  using tag_pages_end [OF assms, of 2001 "[]" execution None "[]" w]
  by (cases "tag_pages 2001 aws execution [] None [] w"; cases "fst (tag_pages 2001 aws execution [] None [] w)")
     (auto simp: tagged_resource_arns_def abind_def MAX_TAGGED_RESOURCES_def no_fuel_def split: if_splits)

end
