(* ===== verification/Preflight.thy ===== *)
theory Preflight imports Inventory begin

text \<open>
  The checks of \<open>qualification/release_safeguards.py\<close> before a qualification run changes anything: DNS
  names, service quotas, \<open>validate_preflight\<close>, and \<open>validate_deployed_runtime\<close> for the host that was
  deployed.  The AWS client and the resolver are parameters.
\<close>

section \<open>Names\<close>

definition lower_alnum :: "nat \<Rightarrow> bool" where "lower_alnum c \<longleftrightarrow> is_lower c \<or> is_digit c"
definition lower_dash :: "nat \<Rightarrow> bool" where "lower_dash c \<longleftrightarrow> lower_alnum c \<or> c = 45"

text \<open>\<open>[a-z0-9](?:[a-z0-9-]{0,61}[a-z0-9])?\<close>.\<close>

definition dns_label :: "pystr \<Rightarrow> bool" where
  "dns_label s \<longleftrightarrow> class_match lower_dash 1 63 s \<and> lower_alnum (hd s) \<and> lower_alnum (last s)"

text \<open>The labels, each followed by a full stop.\<close>

definition dns_labels :: "pystr \<Rightarrow> pystr list option" where
  "dns_labels s = (if ends_with s [46] then Some (butlast (split_on 46 s)) else None)"

definition full_name :: "pylib \<Rightarrow> pystr \<Rightarrow> pystr" where
  "full_name lib s = py_lower lib (rstrip_if (\<lambda>c. c = 46) s) @ [46]"

definition dns_name :: "pylib \<Rightarrow> pyval \<Rightarrow> pystr result" where
  "dns_name lib v =
     (let bad = SafeguardError ''DNS name is invalid'' in
      rbind (expect_str bad v) (\<lambda>s.
      let n = full_name lib s in
      if 254 < length n \<or> (case dns_labels n of None \<Rightarrow> True | Some ls \<Rightarrow> ls = [] \<or> \<not> list_all dns_label ls)
      then Inl bad else Inr n))"

text \<open>One leading label may be an underscore and up to 64 letters or digits.\<close>

definition validation_label :: "pystr \<Rightarrow> bool" where
  "validation_label s \<longleftrightarrow> s \<noteq> [] \<and> hd s = 95 \<and> class_match lower_alnum 1 64 (tl s)"

definition route53_record_name :: "pylib \<Rightarrow> pyval \<Rightarrow> pystr result" where
  "route53_record_name lib v =
     (let bad = SafeguardError ''Route53 record name is invalid'' in
      rbind (expect_str bad v) (\<lambda>s.
      let n = full_name lib s in
      if 254 < length n \<or>
         (case dns_labels n of
            None \<Rightarrow> True
          | Some ls \<Rightarrow> (let hosts = (if ls \<noteq> [] \<and> validation_label (hd ls) then tl ls else ls)
                        in hosts = [] \<or> \<not> list_all dns_label hosts))
      then Inl bad else Inr n))"

text \<open>\<open>public_ns_records\<close>: \<open>resolve\<close> stands for the resolver and the texts of its answer.\<close>

definition sorted_set :: "pystr list \<Rightarrow> pystr list" where
  "sorted_set xs = sort (remdups xs)"

definition public_ns_records :: "pylib \<Rightarrow> (pystr \<Rightarrow> ('w, pystr list) act) \<Rightarrow> pystr \<Rightarrow> ('w, pystr list) act" where
  "public_ns_records lib resolve name =
     abind (acatch (resolve (rstrip_if (\<lambda>c. c = 46) name))
         (\<lambda>e. araise (SafeguardError ''public DNS delegation lookup failed''))) (\<lambda>answer.
     abind (alift (rmap (dns_name lib \<circ> VStr) answer)) (\<lambda>names.
     let vs = sorted_set names in
     if \<not> (2 \<le> length vs \<and> length vs \<le> 8)
     then araise (SafeguardError ''public DNS delegation result is invalid'') else aret vs))"

section \<open>Records of a zone\<close>

definition list_records :: "pystr \<Rightarrow> pystr \<Rightarrow> pystr list" where
  "list_records zone name =
     cmd [''route53'', ''list-resource-record-sets'', ''--hosted-zone-id''] @ [zone] @
     cmd [''--start-record-name''] @ [name] @ cmd [''--max-items'', ''1'']"

definition record_type_text :: "pystr \<Rightarrow> bool" where
  "record_type_text s \<longleftrightarrow> class_match (\<lambda>c. is_upper c \<or> is_digit c) 1 16 s"

definition exact_record :: "pylib \<Rightarrow> pystr \<Rightarrow> pyval \<Rightarrow> pyval option result" where
  "exact_record lib name v =
     (let bad = SafeguardError ''Route53 record inventory is invalid'';
          bad_type = SafeguardError ''Route53 record type is invalid'' in
      rbind (expect_dict bad v) (\<lambda>d.
      rbind (expect_str bad (get_key d ''Name'')) (\<lambda>raw.
      if 1024 < length raw then Inl bad
      else if full_name lib raw \<noteq> name then Inr None
      else
      rbind (route53_record_name lib (VStr raw)) (\<lambda>candidate.
      rbind (expect_str bad_type (get_key d ''Type'')) (\<lambda>ty.
      if \<not> record_type_text ty then Inl bad_type
      else Inr (Some (VDict (mk [(''name'', VStr candidate), (''type'', VStr ty)]))))))))"

definition exact_records :: "pylib \<Rightarrow> pystr \<Rightarrow> pyval \<Rightarrow> pyval list result" where
  "exact_records lib name response =
     (let bad = SafeguardError ''Route53 record inventory is invalid'' in
      rbind (expect_list bad (safe_get response ''ResourceRecordSets'')) (\<lambda>vs.
      if 1 < length vs then Inl bad
      else rbind (rmap (exact_record lib name) vs) (\<lambda>rs. Inr (List.map_filter id rs))))"

definition exact_route53_records :: "pylib \<Rightarrow> 'w aws \<Rightarrow> pystr \<Rightarrow> pystr \<Rightarrow> ('w, pyval list) act" where
  "exact_route53_records lib aws zone name =
     abind (alift (route53_record_name lib (VStr name))) (\<lambda>n.
     abind (aws (list_records zone n) 120) (\<lambda>response. alift (exact_records lib n response)))"

section \<open>Quotas\<close>

text \<open>A finite positive number without a fraction; \<open>float\<close> of an integer that is too large raises.\<close>

definition quota_value :: "pyval \<Rightarrow> int result" where
  "quota_value v =
     (let bad = SafeguardError ''AWS service quota is invalid'' in
      case v of
        VInt i \<Rightarrow>
          (case nearest_double (of_int i) of
             Fin _ \<Rightarrow> if i \<le> 0 then Inl bad else Inr i
           | _ \<Rightarrow> Inl (PyError ''OverflowError''))
      | VFloat (Fin r) \<Rightarrow> if r \<le> 0 \<or> of_int \<lfloor>r\<rfloor> \<noteq> r then Inl bad else Inr \<lfloor>r\<rfloor>
      | _ \<Rightarrow> Inl bad)"

definition get_quota :: "string \<Rightarrow> string \<Rightarrow> pystr list" where
  "get_quota service code =
     cmd [''service-quotas'', ''get-service-quota'', ''--service-code'', service, ''--quota-code'', code]"

definition service_quota :: "'w aws \<Rightarrow> string \<Rightarrow> string \<Rightarrow> ('w, int) act" where
  "service_quota aws service code =
     abind (aws (get_quota service code) 120) (\<lambda>response.
     alift (quota_value (safe_get (safe_get response ''Quota'') ''Value'')))"

definition VPC_QUOTA_CODE :: string where "VPC_QUOTA_CODE = ''L-F678F1CE''"
definition INTERNET_GATEWAY_QUOTA_CODE :: string where "INTERNET_GATEWAY_QUOTA_CODE = ''L-A4707A72''"
definition EIP_QUOTA_CODE :: string where "EIP_QUOTA_CODE = ''L-0263D0A3''"
definition CONNECT_INSTANCE_QUOTA_CODE :: string where "CONNECT_INSTANCE_QUOTA_CODE = ''L-AA17A6B9''"
definition STANDARD_VCPU_QUOTA_CODE :: string where "STANDARD_VCPU_QUOTA_CODE = ''L-1216C47A''"
definition CAPACITY_RESERVE :: int where "CAPACITY_RESERVE = 1"

definition capacity_check :: "int \<Rightarrow> int \<Rightarrow> int \<Rightarrow> bool" where
  "capacity_check used required limit \<longleftrightarrow>
     0 \<le> used \<and> 0 \<le> required \<and> 0 \<le> limit \<and> CAPACITY_RESERVE \<le> limit - used - required"

section \<open>Identity\<close>

text \<open>\<open>arn:aws[-a-z0-9]*:iam::([0-9]{12}):role/...\<close>; no class of the patterns contains a colon.\<close>

definition aws_partition :: "pystr \<Rightarrow> bool" where
  "aws_partition s \<longleftrightarrow> starts_with s (lit ''aws'') \<and> list_all lower_dash (drop 3 s)"

definition role_char :: "nat \<Rightarrow> bool" where
  "role_char c \<longleftrightarrow> is_ascii_alnum c \<or> c \<in> set (lit ''+=,.@_/-'')"

definition role_account :: "pystr \<Rightarrow> pystr option" where
  "role_account s =
     (case split_on 58 s of
        [a, p, i, e, n, r] \<Rightarrow>
          if a = lit ''arn'' \<and> aws_partition p \<and> i = lit ''iam'' \<and> e = [] \<and> class_match is_digit 12 12 n \<and>
             starts_with r (lit ''role/'') \<and> class_match role_char 1 512 (drop 5 r)
          then Some n else None
      | _ \<Rightarrow> None)"

definition secret_name_char :: "nat \<Rightarrow> bool" where
  "secret_name_char c \<longleftrightarrow> is_ascii_alnum c \<or> c \<in> set (lit ''/_+=.@-'')"

definition secret_scope :: "pystr \<Rightarrow> (pystr \<times> pystr) option" where
  "secret_scope s =
     (case split_on 58 s of
        [a, p, i, r, n, k, m] \<Rightarrow>
          if a = lit ''arn'' \<and> aws_partition p \<and> i = lit ''secretsmanager'' \<and> r \<noteq> [] \<and> list_all lower_dash r \<and>
             class_match is_digit 12 12 n \<and> k = lit ''secret'' \<and> m \<noteq> [] \<and> list_all secret_name_char m
          then Some (r, n) else None
      | _ \<Rightarrow> None)"

text \<open>The inputs of \<open>validate_preflight\<close>, and the host it describes.\<close>

record preflight_input =
  pf_execution :: pystr
  pf_account :: pystr
  pf_region :: pystr
  pf_role :: pystr
  pf_secret :: pystr
  pf_zone :: pystr
  pf_zone_name :: pystr
  pf_sip :: pystr
  pf_image :: pystr
  pf_release :: pystr
  pf_type :: pystr

definition refuse :: "bool \<Rightarrow> string \<Rightarrow> unit result" where
  "refuse b code = (if b then Inl (SafeguardError code) else Inr ())"

lemma refuse_eq [result_simps]: "refuse b code = Inr u \<longleftrightarrow> \<not> b" "refuse b code = Inl e \<longleftrightarrow> b \<and> e = SafeguardError code"
  by (auto simp: refuse_def)

definition check_scopes :: "preflight_input \<Rightarrow> unit result" where
  "check_scopes pf =
     rbind (refuse (role_account (pf_role pf) \<noteq> Some (pf_account pf)) ''CloudFormation service role account is not exact'') (\<lambda>_.
     refuse (secret_scope (pf_secret pf) \<noteq> Some (pf_region pf, pf_account pf)) ''Vapi secret account or region is not exact'')"

definition check_identity :: "'w aws \<Rightarrow> preflight_input \<Rightarrow> ('w, unit) act" where
  "check_identity aws pf =
     abind (aws (cmd [''sts'', ''get-caller-identity'']) 60) (\<lambda>identity.
     abind (alift (refuse (safe_get identity ''Account'' \<noteq> VStr (pf_account pf))
        ''active AWS account does not match the protected account'')) (\<lambda>_.
     abind (alift (check_scopes pf)) (\<lambda>_.
     abind (aws (cmd [''iam'', ''get-role'', ''--role-name''] @ [last (split_on 47 (pf_role pf))]) 120) (\<lambda>role.
     abind (alift (refuse (safe_get (safe_get role ''Role'') ''Arn'' \<noteq> VStr (pf_role pf))
        ''CloudFormation service role identity is not exact'')) (\<lambda>_.
     abind (aws (cmd [''secretsmanager'', ''describe-secret'', ''--secret-id''] @ [pf_secret pf]) 120) (\<lambda>secret.
     alift (refuse (safe_get secret ''ARN'' \<noteq> VStr (pf_secret pf) \<or> safe_get secret ''DeletedDate'' \<noteq> VNone)
        ''Vapi secret identity is not exact'')))))))"

section \<open>Zone and delegation\<close>

text \<open>The name and the sorted name servers of the zone.\<close>

definition check_zone :: "pylib \<Rightarrow> preflight_input \<Rightarrow> pyval \<Rightarrow> pystr result" where
  "check_zone lib pf zone =
     (let bad = SafeguardError ''qualification hosted zone is not the exact public zone'' in
      rbind (dns_name lib (VStr (pf_zone_name pf))) (\<lambda>expected.
      rbind (expect_dict bad (safe_get zone ''HostedZone'')) (\<lambda>hosted.
      rbind (expect_str bad (get_key hosted ''Id'')) (\<lambda>i.
      if last (split_on 47 i) \<noteq> pf_zone pf then Inl bad
      else
      rbind (dns_name lib (get_key hosted ''Name'')) (\<lambda>n.
      if n \<noteq> expected \<or> safe_get (get_key hosted ''Config'') ''PrivateZone'' \<noteq> VBool False
      then Inl bad else Inr expected)))))"

definition zone_servers :: "pylib \<Rightarrow> pyval \<Rightarrow> pystr list result" where
  "zone_servers lib zone =
     (let bad = SafeguardError ''Route53 delegation set is invalid'' in
      rbind (expect_list bad (safe_get (safe_get zone ''DelegationSet'') ''NameServers'')) (\<lambda>vs.
      if \<not> (2 \<le> length vs \<and> length vs \<le> 8) then Inl bad
      else
      rbind (rmap (dns_name lib) vs) (\<lambda>ns.
      if length (sorted_set ns) \<noteq> length vs
      then Inl (SafeguardError ''Route53 delegation set is ambiguous'') else Inr (sorted_set ns))))"

fun check_vacant :: "pylib \<Rightarrow> 'w aws \<Rightarrow> pystr \<Rightarrow> pystr list \<Rightarrow> ('w, unit) act" where
  "check_vacant lib aws zone [] = aret ()"
| "check_vacant lib aws zone (n # ns) =
     abind (exact_route53_records lib aws zone n) (\<lambda>rs.
     if rs \<noteq> [] then araise (SafeguardError ''qualification DNS record name is not vacant'')
     else check_vacant lib aws zone ns)"

definition check_dns ::
    "pylib \<Rightarrow> 'w aws \<Rightarrow> (pystr \<Rightarrow> ('w, pystr list) act) \<Rightarrow> preflight_input \<Rightarrow> ('w, unit) act" where
  "check_dns lib aws resolve_ns pf =
     abind (aws (cmd [''route53'', ''get-hosted-zone'', ''--id''] @ [pf_zone pf]) 120) (\<lambda>zone.
     abind (alift (check_zone lib pf zone)) (\<lambda>expected.
     abind (alift (zone_servers lib zone)) (\<lambda>servers.
     abind (resolve_ns (pf_zone_name pf)) (\<lambda>seen.
     abind (alift (rmap (dns_name lib \<circ> VStr) seen)) (\<lambda>seen.
     abind (alift (refuse (sorted_set seen \<noteq> servers) ''public parent DNS delegation is not exact'')) (\<lambda>_.
     abind (alift (dns_name lib (VStr (pf_sip pf)))) (\<lambda>host.
     abind (alift (refuse (\<not> ends_with host ([46] @ expected)) ''qualification SIP hostname is outside the hosted zone'')) (\<lambda>_.
     check_vacant lib aws (pf_zone pf) [host, lit ''control.'' @ host]))))))))"

section \<open>Image and instance type\<close>

text \<open>The tags as a dictionary: the last value of a key counts.\<close>

definition image_tags :: "pyval list \<Rightarrow> pydict" where
  "image_tags items =
     dict_update [] (List.map_filter (\<lambda>v. case (safe_get v ''Key'', safe_get v ''Value'') of
       (VStr k, VStr x) \<Rightarrow> Some (k, VStr x) | _ \<Rightarrow> None) items)"

definition check_image :: "preflight_input \<Rightarrow> pyval \<Rightarrow> unit result" where
  "check_image pf images =
     rbind (bounded_list images ''Images'' ''AMI'' 2) (\<lambda>vs.
     case vs of
       [VDict d] \<Rightarrow>
         rbind (iter_of (get_or d ''Tags'' (VList []))) (\<lambda>items.
         refuse (get_key d ''ImageId'' \<noteq> VStr (pf_image pf) \<or> get_key d ''OwnerId'' \<noteq> VStr (pf_account pf) \<or>
           get_key d ''State'' \<noteq> VStr (lit ''available'') \<or> get_key d ''Architecture'' \<noteq> VStr (lit ''arm64'') \<or>
           get_key d ''RootDeviceType'' \<noteq> VStr (lit ''ebs'') \<or>
           get_key (image_tags items) ''ManagedBy'' \<noteq> VStr (lit ''bridgefu-vapi-awsconnect'') \<or>
           get_key (image_tags items) ''BridgefuRelease'' \<noteq> VStr (pf_release pf))
           ''candidate AMI ownership or runtime contract is invalid'')
     | _ \<Rightarrow> Inl (SafeguardError ''candidate AMI identity is not exact''))"

definition positive_int :: "exn \<Rightarrow> pyval \<Rightarrow> int result" where
  "positive_int e v = (case v of VInt n \<Rightarrow> if n < 1 then Inl e else Inr n | _ \<Rightarrow> Inl e)"

definition type_shape :: "pyval \<Rightarrow> (int \<times> int) result" where
  "type_shape response =
     rbind (bounded_list response ''InstanceTypes'' ''instance type'' 2) (\<lambda>vs.
     case vs of
       [VDict d] \<Rightarrow>
         (let bad = SafeguardError ''runtime instance type is not a valid ARM64 host'' in
          rbind (expect_dict (PyError ''AttributeError'') (get_or d ''ProcessorInfo'' (VDict []))) (\<lambda>p.
          rbind (positive_int bad (safe_get (get_key d ''VCpuInfo'') ''DefaultVCpus'')) (\<lambda>vcpus.
          rbind (positive_int bad (safe_get (get_key d ''MemoryInfo'') ''SizeInMiB'')) (\<lambda>memory.
          rbind (expect_list bad (get_key p ''SupportedArchitectures'')) (\<lambda>archs.
          if VStr (lit ''arm64'') \<notin> set archs then Inl bad else Inr (vcpus, memory))))))
     | _ \<Rightarrow> Inl (SafeguardError ''runtime instance type description is invalid''))"

section \<open>Zones that offer the type\<close>

definition zone_names :: "pyval list \<Rightarrow> pystr list" where
  "zone_names items =
     sort (List.map_filter (\<lambda>v. case v of
       VDict d \<Rightarrow>
         if get_or d ''ZoneType'' (VStr (lit ''availability-zone'')) = VStr (lit ''availability-zone'')
         then (case get_key d ''ZoneName'' of VStr s \<Rightarrow> Some s | _ \<Rightarrow> None) else None
     | _ \<Rightarrow> None) items)"

definition selected_zones :: "pyval \<Rightarrow> pystr list result" where
  "selected_zones response =
     rbind (bounded_list response ''AvailabilityZones'' ''availability-zone'' 100) (\<lambda>items.
     let names = zone_names items in
     if length names < 2 \<or> \<not> distinct names
     then Inl (SafeguardError ''two exact availability zones are not available'') else Inr (take 2 names))"

definition offered_zone :: "preflight_input \<Rightarrow> pystr list \<Rightarrow> pyval \<Rightarrow> pystr result" where
  "offered_zone pf zones v =
     (case (safe_get v ''InstanceType'', safe_get v ''LocationType'', safe_get v ''Location'') of
        (VStr t, VStr l, VStr z) \<Rightarrow>
          if t = pf_type pf \<and> l = lit ''availability-zone'' \<and> z \<in> set zones then Inr z
          else Inl (SafeguardError ''runtime instance offering inventory is invalid'')
      | _ \<Rightarrow> Inl (SafeguardError ''runtime instance offering inventory is invalid''))"

definition check_offerings :: "preflight_input \<Rightarrow> pystr list \<Rightarrow> pyval \<Rightarrow> unit result" where
  "check_offerings pf zones response =
     rbind (bounded_list response ''InstanceTypeOfferings'' ''instance offering'' 10) (\<lambda>vs.
     rbind (rmap (offered_zone pf zones) vs) (\<lambda>zs.
     refuse (set zs \<noteq> set zones) ''runtime instance type is not offered in every selected availability zone''))"

definition check_zones :: "'w aws \<Rightarrow> preflight_input \<Rightarrow> ('w, unit) act" where
  "check_zones aws pf =
     abind (aws (cmd [''ec2'', ''describe-availability-zones'', ''--filters'', ''Name=state,Values=available'']) 120) (\<lambda>r.
     abind (alift (selected_zones r)) (\<lambda>zones.
     abind (aws (cmd [''ec2'', ''describe-instance-type-offerings'', ''--location-type'', ''availability-zone'', ''--filters''] @
         [lit ''Name=instance-type,Values='' @ pf_type pf, lit ''Name=location,Values='' @ join [44] zones]) 120) (\<lambda>r.
     alift (check_offerings pf zones r))))"

section \<open>Capacity\<close>

definition DEFAULT_TIMEOUT :: nat where "DEFAULT_TIMEOUT = 900"

definition count_of :: "'w aws \<Rightarrow> string list \<Rightarrow> string \<Rightarrow> string \<Rightarrow> ('w, int) act" where
  "count_of aws c k label =
     abind (aws (cmd c) DEFAULT_TIMEOUT) (\<lambda>r.
     alift (rbind (bounded_list r k label 5000) (\<lambda>vs. Inr (int (length vs)))))"

text \<open>The types of the instances that run, one for each instance.\<close>

definition active_type :: "pyval \<Rightarrow> pystr result" where
  "active_type v =
     (let bad = SafeguardError ''active EC2 instance type is invalid'' in
      rbind (expect_str bad (safe_get v ''InstanceType'')) (\<lambda>s. if 64 < length s then Inl bad else Inr s))"

definition reservation_types :: "pyval \<Rightarrow> pystr list result" where
  "reservation_types r =
     (let bad = SafeguardError ''active EC2 inventory is invalid'' in
      rbind (expect_list bad (safe_get r ''Instances'')) (\<lambda>is.
      if 1000 < length is then Inl bad else rmap active_type is))"

definition active_types :: "'w aws \<Rightarrow> ('w, pystr list) act" where
  "active_types aws =
     abind (aws (cmd [''ec2'', ''describe-instances'', ''--filters'',
         ''Name=instance-state-name,Values=pending,running,stopping'']) 120) (\<lambda>r.
     alift (rbind (bounded_list r ''Reservations'' ''active EC2'' 5000) (\<lambda>rs.
     rbind (rmap reservation_types rs) (\<lambda>ts. Inr (concat ts)))))"

definition type_vcpus :: "pystr list \<Rightarrow> pyval \<Rightarrow> (pystr \<times> int) result" where
  "type_vcpus batch v =
     (let bad = SafeguardError ''active EC2 vCPU inventory is invalid'' in
      rbind (expect_str bad (safe_get v ''InstanceType'')) (\<lambda>name.
      if name \<notin> set batch then Inl bad
      else rbind (positive_int bad (safe_get (safe_get v ''VCpuInfo'') ''DefaultVCpus'')) (\<lambda>n. Inr (name, n))))"

fun batch_vcpus :: "'w aws \<Rightarrow> pystr list list \<Rightarrow> (pystr \<times> int) list \<Rightarrow> ('w, (pystr \<times> int) list) act" where
  "batch_vcpus aws [] table = aret table"
| "batch_vcpus aws (b # bs) table =
     abind (aws (cmd [''ec2'', ''describe-instance-types'', ''--instance-types''] @ b) DEFAULT_TIMEOUT) (\<lambda>r.
     abind (alift (rbind (bounded_list r ''InstanceTypes'' ''active EC2 instance type'' 100) (rmap (type_vcpus b)))) (\<lambda>ps.
     batch_vcpus aws bs (dict_update table ps)))"

text \<open>The virtual CPUs in use.\<close>

definition active_vcpus :: "'w aws \<Rightarrow> ('w, int) act" where
  "active_vcpus aws =
     abind (active_types aws) (\<lambda>types.
     abind (batch_vcpus aws (hundreds (sorted_set types)) []) (\<lambda>table.
     if keys table \<noteq> set types then araise (SafeguardError ''active EC2 vCPU inventory is incomplete'')
     else aret (sum_list (map (\<lambda>t. case map_of table t of Some n \<Rightarrow> n | None \<Rightarrow> 0) types))))"

definition capacity_checks :: "'w aws \<Rightarrow> int \<Rightarrow> ('w, (string \<times> bool) list) act" where
  "capacity_checks aws vcpus =
     abind (count_of aws [''ec2'', ''describe-vpcs''] ''Vpcs'' ''VPC'') (\<lambda>vpcs.
     abind (count_of aws [''ec2'', ''describe-internet-gateways''] ''InternetGateways'' ''internet gateway'') (\<lambda>gateways.
     abind (count_of aws [''ec2'', ''describe-addresses''] ''Addresses'' ''EIP'') (\<lambda>addresses.
     abind (count_of aws [''connect'', ''list-instances''] ''InstanceSummaryList'' ''Connect'') (\<lambda>connects.
     abind (service_quota aws ''vpc'' VPC_QUOTA_CODE) (\<lambda>vpc_limit.
     abind (service_quota aws ''vpc'' INTERNET_GATEWAY_QUOTA_CODE) (\<lambda>gateway_limit.
     abind (service_quota aws ''ec2'' EIP_QUOTA_CODE) (\<lambda>eip_limit.
     abind (service_quota aws ''connect'' CONNECT_INSTANCE_QUOTA_CODE) (\<lambda>connect_limit.
     abind (service_quota aws ''ec2'' STANDARD_VCPU_QUOTA_CODE) (\<lambda>vcpu_limit.
     abind (active_vcpus aws) (\<lambda>used.
     aret [(''vpcs'', capacity_check vpcs 1 vpc_limit),
       (''internet_gateways'', capacity_check gateways 1 gateway_limit),
       (''elastic_ips'', capacity_check addresses 1 eip_limit),
       (''connect_instances'', capacity_check connects 1 connect_limit),
       (''standard_vcpus'', capacity_check used vcpus vcpu_limit)]))))))))))"

text \<open>\<open>", ".join(sorted(...))\<close> of the checks that fail; the names in their order.\<close>

fun comma_separated :: "string list \<Rightarrow> string" where
  "comma_separated [] = []"
| "comma_separated [s] = s"
| "comma_separated (s # t # ss) = s @ '', '' @ comma_separated (t # ss)"

definition blocked_checks :: "(string \<times> bool) list \<Rightarrow> string list" where
  "blocked_checks checks =
     filter (\<lambda>k. map_of checks k = Some False)
       [''connect_instances'', ''elastic_ips'', ''internet_gateways'', ''standard_vcpus'', ''vpcs'']"

section \<open>The preflight\<close>

definition PREFLIGHT_PRODUCER :: pystr where "PREFLIGHT_PRODUCER = lit ''bridgefu-qualification-preflight@1''"

definition ascii_sha256 :: "pystr \<Rightarrow> pystr result" where
  "ascii_sha256 s = rbind (ascii_encode s) (\<lambda>bs. Inr (hexdigest (sha256 bs)))"

definition preflight_report :: "preflight_input \<Rightarrow> int \<times> int \<Rightarrow> (string \<times> bool) list \<Rightarrow> pydict result" where
  "preflight_report pf host checks =
     rbind (ascii_sha256 (pf_image pf)) (\<lambda>h.
     Inr (mk [(''schema_version'', VInt 1), (''producer'', VStr PREFLIGHT_PRODUCER),
       (''execution_id'', VStr (pf_execution pf)), (''region'', VStr (pf_region pf)),
       (''runtime_image_fingerprint'', VStr (take 12 h)), (''runtime_image_sha256'', VStr h),
       (''instance_type'', VStr (pf_type pf)), (''vcpus'', VInt (fst host)), (''memory_mib'', VInt (snd host)),
       (''checks'', VDict (mk (map (\<lambda>k. (k, VBool True))
          [''active_account_exact'', ''cloudformation_role_account_exact'', ''vapi_secret_account_region_exact'',
           ''public_hosted_zone_exact'', ''public_delegation_exact'', ''dns_names_vacant'', ''candidate_ami_exact'',
           ''instance_offering_available''] @ map (\<lambda>p. (fst p, VBool (snd p))) checks))),
       (''passed'', VBool True), (''redacted'', VBool True)]))"

definition check_host :: "'w aws \<Rightarrow> preflight_input \<Rightarrow> ('w, int \<times> int) act" where
  "check_host aws pf =
     abind (aws (cmd [''ec2'', ''describe-images'', ''--image-ids''] @ [pf_image pf]) 120) (\<lambda>images.
     abind (alift (check_image pf images)) (\<lambda>_.
     abind (aws (cmd [''ec2'', ''describe-instance-types'', ''--instance-types''] @ [pf_type pf]) 120) (\<lambda>types.
     abind (alift (type_shape types)) (\<lambda>host.
     abind (check_zones aws pf) (\<lambda>_. aret host)))))"

definition validate_preflight ::
    "pylib \<Rightarrow> 'w aws \<Rightarrow> (pystr \<Rightarrow> ('w, pystr list) act) \<Rightarrow> preflight_input \<Rightarrow> ('w, pydict) act" where
  "validate_preflight lib aws resolve_ns pf =
     abind (check_identity aws pf) (\<lambda>_.
     abind (check_dns lib aws resolve_ns pf) (\<lambda>_.
     abind (check_host aws pf) (\<lambda>host.
     abind (capacity_checks aws (fst host)) (\<lambda>checks.
     if blocked_checks checks \<noteq> []
     then araise (SafeguardError (''AWS capacity reserve is insufficient for: '' @ comma_separated (blocked_checks checks)))
     else alift (preflight_report pf host checks)))))"

section \<open>The deployed host\<close>

record deployed_input =
  dp_execution :: pystr
  dp_region :: pystr
  dp_account :: pystr
  dp_instance :: pystr
  dp_image :: pystr
  dp_type :: pystr
  dp_recipe :: pystr

definition hex_name :: "string \<Rightarrow> pystr \<Rightarrow> bool" where
  "hex_name prefix s \<longleftrightarrow> starts_with s (lit prefix) \<and> class_match is_hex_lower 8 17 (drop (length prefix) s)"

definition deployed_expectation :: "deployed_input \<Rightarrow> bool" where
  "deployed_expectation dp \<longleftrightarrow>
     dp_region dp \<in> {lit ''us-west-2'', lit ''us-east-1''} \<and> class_match is_digit 12 12 (dp_account dp) \<and>
     hex_name ''i-'' (dp_instance dp) \<and> hex_name ''ami-'' (dp_image dp) \<and>
     class_match (\<lambda>c. lower_alnum c \<or> c = 46) 3 32 (dp_type dp) \<and> dp_recipe dp \<noteq> []"

definition deployed_reservation :: "pyval \<Rightarrow> pyval list result" where
  "deployed_reservation r =
     (let bad = SafeguardError ''deployed runtime inventory is invalid'' in
      rbind (expect_list bad (safe_get r ''Instances'')) (\<lambda>vs.
      if 2 < length vs \<or> \<not> list_all is_dict vs then Inl bad else Inr vs))"

definition deployed_instance :: "pyval \<Rightarrow> pydict result" where
  "deployed_instance response =
     rbind (bounded_list response ''Reservations'' ''deployed runtime'' 2) (\<lambda>rs.
     rbind (rmap deployed_reservation rs) (\<lambda>is.
     case concat is of
       [v] \<Rightarrow> Inr (dict_of v)
     | _ \<Rightarrow> Inl (SafeguardError ''deployed runtime identity is not exact'')))"

definition deployed_tag :: "pyval \<Rightarrow> (pystr \<times> pystr) list \<Rightarrow> (pystr \<times> pystr) list result" where
  "deployed_tag item tags =
     (let bad = SafeguardError ''deployed runtime tags are invalid'' in
      rbind (expect_str bad (safe_get item ''Key'')) (\<lambda>k.
      rbind (expect_str bad (safe_get item ''Value'')) (\<lambda>v.
      if k \<in> keys tags then Inl bad else Inr (tags @ [(k, v)]))))"

definition deployed_tags :: "pydict \<Rightarrow> (pystr \<times> pystr) list result" where
  "deployed_tags d =
     (let bad = SafeguardError ''deployed runtime tags are invalid'' in
      rbind (expect_list bad (get_key d ''Tags'')) (\<lambda>ts.
      if 64 < length ts then Inl bad else rfold deployed_tag ts []))"

definition expected_tags :: "deployed_input \<Rightarrow> (pystr \<times> pystr) list" where
  "expected_tags dp =
     mk [(''Project'', lit ''bridgefu-vapi-awsconnect''), (''ManagedBy'', lit ''bridgefu-cloudformation''),
       (''BridgefuExecutionId'', dp_execution dp), (''BridgefuRecipe'', dp_recipe dp)]"

text \<open>The zone of a host that is the one expected.\<close>

definition check_deployed :: "deployed_input \<Rightarrow> pydict \<Rightarrow> pystr result" where
  "check_deployed dp d =
     (let bad = SafeguardError ''deployed runtime differs from the candidate contract'' in
      rbind (deployed_tags d) (\<lambda>tags.
      if get_key d ''InstanceId'' \<noteq> VStr (dp_instance dp) \<or> get_key d ''ImageId'' \<noteq> VStr (dp_image dp) \<or>
         get_key d ''InstanceType'' \<noteq> VStr (dp_type dp) \<or> get_key d ''Architecture'' \<noteq> VStr (lit ''arm64'') \<or>
         safe_get (get_key d ''State'') ''Name'' \<noteq> VStr (lit ''running'')
      then Inl bad
      else
      rbind (expect_str bad (safe_get (get_key d ''Placement'') ''AvailabilityZone'')) (\<lambda>z.
      if \<not> starts_with z (dp_region dp) \<or> \<not> list_all (\<lambda>p. map_of tags (fst p) = Some (snd p)) (expected_tags dp)
      then Inl bad else Inr z)))"

definition RUNTIME_DEPLOYMENT_PRODUCER :: pystr where
  "RUNTIME_DEPLOYMENT_PRODUCER = lit ''bridgefu-runtime-deployment@1''"

definition deployed_report :: "deployed_input \<Rightarrow> pystr \<Rightarrow> pydict result" where
  "deployed_report dp z =
     rbind (ascii_sha256 (dp_image dp)) (\<lambda>h.
     rbind (ascii_sha256 (dp_instance dp)) (\<lambda>i.
     Inr (mk [(''schema_version'', VInt 1), (''producer'', VStr RUNTIME_DEPLOYMENT_PRODUCER),
       (''execution_id'', VStr (dp_execution dp)), (''region'', VStr (dp_region dp)),
       (''runtime_image_sha256'', VStr h), (''instance_id_fingerprint'', VStr (take 16 i)),
       (''instance_type'', VStr (dp_type dp)), (''architecture'', VStr (lit ''arm64'')),
       (''availability_zone'', VStr z),
       (''checks'', VDict (mk (map (\<lambda>k. (k, VBool True))
          [''instance_id_exact'', ''candidate_ami_exact'', ''instance_type_exact'', ''architecture_arm64'',
           ''running'', ''ownership_tags_exact'']))),
       (''passed'', VBool True), (''redacted'', VBool True)])))"

definition validate_deployed_runtime :: "'w aws \<Rightarrow> deployed_input \<Rightarrow> ('w, pydict) act" where
  "validate_deployed_runtime aws dp =
     (if \<not> deployed_expectation dp then araise (SafeguardError ''deployed runtime expectation is invalid'')
      else
      abind (aws (describe_instances [dp_instance dp]) 120) (\<lambda>response.
      alift (rbind (deployed_instance response) (\<lambda>d. rbind (check_deployed dp d) (deployed_report dp)))))"

end
