(* ===== verification/PreflightSafety.thy ===== *)
theory PreflightSafety imports Preflight begin

text \<open>
  What the safeguards promise before a run: they only read, and a preflight that passes rests on
  answers that show the account, the vacant names and the room for every resource.
\<close>

section \<open>Commands that only read\<close>

definition read_only :: "pystr list \<Rightarrow> bool" where
  "read_only c \<longleftrightarrow>
     (case c of
        s # v # _ \<Rightarrow> starts_with v (lit ''get-'') \<or> starts_with v (lit ''list-'') \<or> starts_with v (lit ''describe-'') \<or>
          starts_with v (lit ''filter-'')
      | _ \<Rightarrow> False)"

lemma starts_with_lit: "starts_with (lit v) (lit p) \<longleftrightarrow> take (length p) v = p"
  by (metis lit_eq_iff length_lit lit_def starts_with_def take_map)

lemma read_only_cmd [simp]:
  "read_only (cmd (s # v # ws) @ xs) \<longleftrightarrow>
     take 4 v = ''get-'' \<or> take 5 v = ''list-'' \<or> take 9 v = ''describe-'' \<or> take 7 v = ''filter-''"
  "read_only (cmd (s # v # ws)) \<longleftrightarrow>
     take 4 v = ''get-'' \<or> take 5 v = ''list-'' \<or> take 9 v = ''describe-'' \<or> take 7 v = ''filter-''"
  by (simp_all add: read_only_def cmd_def starts_with_lit eval_nat_numeral)

lemma read_only_commands [simp]:
  "read_only (describe_stack s)" "read_only (list_stack s)" "read_only (describe_instances ids)"
  "read_only (tag_command execution token)" "read_only (list_records zone name)" "read_only (get_quota v q)"
  by (simp_all add: describe_stack_def list_stack_def describe_instances_def tag_command_def list_records_def get_quota_def)

text \<open>A resolver beside the log.\<close>

definition unlogged :: "('a \<Rightarrow> ('w, 'b) act) \<Rightarrow> 'a \<Rightarrow> ('w with_log, 'b) act" where
  "unlogged f x = (\<lambda>(w, tr). case f x w of (r, w') \<Rightarrow> (r, (w', tr)))"

section \<open>What reading keeps\<close>

text \<open>A property of the log that no reading command breaks.\<close>

locale reading =
  fixes P :: "(pystr list \<times> pyval result) list \<Rightarrow> bool"
  assumes step: "read_only c \<Longrightarrow> P tr \<Longrightarrow> P (tr @ [(c, r)])"
begin

definition keeping :: "('w with_log, 'a) act \<Rightarrow> bool" where
  "keeping m \<longleftrightarrow> keeps (\<lambda>s. P (snd s)) m"

lemma aws [intro]: "read_only c \<Longrightarrow> keeping (aws_log aws c t)"
  unfolding keeping_def keeps_def aws_log_def by (auto intro: step split: prod.split)

lemma beside [intro]: "keeping (unlogged f x)"
  unfolding keeping_def keeps_def unlogged_def by (auto split: prod.split)

lemma basic [simp, intro]: "keeping (aret x)" "keeping (araise e)" "keeping (alift r)" "keeping (Pair (Inr x))" "keeping (Pair (Inl e))"
  by (simp_all add: keeping_def keeps_def)

lemma bind [intro]: "keeping m \<Longrightarrow> (\<And>x. keeping (f x)) \<Longrightarrow> keeping (abind m f)"
  unfolding keeping_def by (rule keeps_abind)

lemma branch [intro]: "keeping m \<Longrightarrow> keeping n \<Longrightarrow> keeping (if b then m else n)"
  by simp

lemma records: "keeping (exact_route53_records lib (aws_log aws) zone n)"
  unfolding exact_route53_records_def by (intro bind basic aws) simp

lemma vacant: "keeping (check_vacant lib (aws_log aws) zone ns)"
  by (induction ns) (auto intro: records)

lemma identity: "keeping (check_identity (aws_log aws) pf)"
  unfolding check_identity_def by (intro bind basic aws) simp_all

lemma dns: "keeping (check_dns lib (aws_log aws) (unlogged resolve) pf)"
  unfolding check_dns_def by (intro bind basic aws beside vacant) simp

lemma host: "keeping (check_host (aws_log aws) pf)"
  unfolding check_host_def check_zones_def by (intro bind basic aws) simp_all

lemma counted: "read_only (cmd c) \<Longrightarrow> keeping (count_of (aws_log aws) c k label)"
  unfolding count_of_def by (intro bind basic aws)

lemma quota: "keeping (service_quota (aws_log aws) s q)"
  unfolding service_quota_def by (intro bind basic aws) simp

lemma batches: "keeping (batch_vcpus (aws_log aws) bs table)"
  by (induction bs arbitrary: table) (auto intro!: bind basic aws)

lemma vcpus: "keeping (active_vcpus (aws_log aws))"
  unfolding active_vcpus_def active_types_def by (intro bind basic aws batches branch) simp

lemma capacity: "keeping (capacity_checks (aws_log aws) n)"
  unfolding capacity_checks_def by (intro bind basic counted quota vcpus) simp_all

lemma preflight: "keeping (validate_preflight lib (aws_log aws) (unlogged resolve) pf)"
  unfolding validate_preflight_def by (intro bind basic identity dns host capacity branch)

lemma deployed: "keeping (validate_deployed_runtime (aws_log aws) dp)"
  unfolding validate_deployed_runtime_def by (intro bind basic aws branch) simp

lemma stack: "keeping (own_stack (aws_log aws) s st)"
  unfolding own_stack_def by (intro bind basic aws) simp_all

lemma stacks: "keeping (own_stacks n (aws_log aws) st)"
  by (induction n arbitrary: st) (auto intro!: bind basic stack split: list.split)

lemma attachments: "keeping (own_batches (aws_log aws) bs st)"
  by (induction bs arbitrary: st) (auto simp: own_batch_def intro!: bind basic aws)

lemma inventory: "keeping (stack_ownership_inventory (aws_log aws) s n)"
  unfolding stack_ownership_inventory_def by (intro bind basic stacks attachments)

lemma tag_pages: "keeping (tag_pages n (aws_log aws) execution arns token seen)"
  by (induction n arbitrary: arns token seen) (auto intro!: bind basic aws split: prod.split option.split)

lemma tagged: "keeping (tagged_resource_arns n (aws_log aws) execution)"
  unfolding tagged_resource_arns_def by (intro bind basic tag_pages branch)

end

definition only_read :: "(pystr list \<times> pyval result) list \<Rightarrow> bool" where
  "only_read tr \<longleftrightarrow> list_all (\<lambda>e. read_only (fst e)) tr"

interpretation quiet: reading only_read
  by unfold_locales (simp add: only_read_def)

lemma quietD: "quiet.keeping m \<Longrightarrow> only_read (snd (snd (m (w, []))))"
  unfolding quiet.keeping_def keeps_def by (auto simp: only_read_def)

section \<open>What a preflight that passes has seen\<close>

interpretation holding: reading "\<lambda>tr. S \<subseteq> set tr" for S
  by unfold_locales auto

text \<open>The steps of a success, whose logs are part of the last one.\<close>

definition growing :: "('w with_log, 'a) act \<Rightarrow> bool" where
  "growing m \<longleftrightarrow> (\<forall>S. holding.keeping S m)"

lemma growingD: "growing m \<Longrightarrow> m s = (r, s') \<Longrightarrow> set (snd s) \<subseteq> set (snd s')"
  unfolding growing_def holding.keeping_def keeps_def by (metis order_refl snd_conv)

lemma growing_steps:
  "growing (exact_route53_records lib (aws_log aws) zone n)" "growing (check_vacant lib (aws_log aws) zone ns)"
  "growing (check_dns lib (aws_log aws) (unlogged resolve) pf)" "growing (check_host (aws_log aws) pf)"
  "growing (service_quota (aws_log aws) v q)" "growing (active_vcpus (aws_log aws))"
  "growing (capacity_checks (aws_log aws) k)"
  unfolding growing_def
  by (intro allI holding.records holding.vacant holding.dns holding.host holding.quota holding.vcpus holding.capacity)+

lemma growing_counted: "read_only (cmd c) \<Longrightarrow> growing (count_of (aws_log aws) c k label)"
  unfolding growing_def by (intro allI holding.counted)

lemma growing_bind: "growing m \<Longrightarrow> (\<And>x. growing (f x)) \<Longrightarrow> growing (abind m f)"
  unfolding growing_def by (intro allI holding.bind) simp_all

lemma growing_basic: "growing (aret x)" "growing (alift r)" "growing (if b then araise e else alift r)"
  unfolding growing_def by simp_all

lemma abind_logE:
  assumes "abind m f s = (Inr y, s')" "\<And>x. growing (f x)"
  obtains x s1 where "m s = (Inr x, s1)" "f x s1 = (Inr y, s')" "set (snd s1) \<subseteq> set (snd s')"
proof -
  from assms(1) obtain x s1 where m: "m s = (Inr x, s1)" and f: "f x s1 = (Inr y, s')" by (auto simp: abind_split)
  from that [OF m f growingD [OF assms(2) f]] show thesis .
qed

lemma logged: "aws_log aws c t s = (Inr r, s') \<Longrightarrow> (c, Inr r) \<in> set (snd s')"
  by (cases s) (auto simp: aws_log_def split: prod.split_asm)

lemma counted_ok:
  assumes "count_of (aws_log aws) c k label s = (Inr n, s')"
  shows "\<exists>r vs. (cmd c, Inr r) \<in> set (snd s') \<and> safe_get r k = VList vs \<and> n = int (length vs)"
proof -
  from assms obtain r where "aws_log aws (cmd c) DEFAULT_TIMEOUT s = (Inr r, s')"
    and "\<exists>vs. bounded_list r k label 5000 = Inr vs \<and> n = int (length vs)"
    unfolding count_of_def by (auto simp: abind_split result_simps)
  with logged show ?thesis by (fastforce simp: bounded_list_def result_simps Let_def)
qed

lemma quota_ok:
  assumes "service_quota (aws_log aws) v q s = (Inr n, s')"
  shows "\<exists>r. (get_quota v q, Inr r) \<in> set (snd s') \<and> quota_value (safe_get (safe_get r ''Quota'') ''Value'') = Inr n"
  using assms logged unfolding service_quota_def by (fastforce simp: abind_split)

text \<open>Room for one more resource under a quota, with one in reserve, by two answers in the log.\<close>

definition room :: "(pystr list \<times> pyval result) list \<Rightarrow> string list \<Rightarrow> string \<Rightarrow> string \<Rightarrow> string \<Rightarrow> bool" where
  "room tr c k v q \<longleftrightarrow>
     (\<exists>r vs u limit. (cmd c, Inr r) \<in> set tr \<and> safe_get r k = VList vs \<and> (get_quota v q, Inr u) \<in> set tr \<and>
        quota_value (safe_get (safe_get u ''Quota'') ''Value'') = Inr limit \<and> int (length vs) + 1 < limit)"

lemma roomI:
  assumes "count_of (aws_log aws) c k label s = (Inr n, s1)" "set (snd s1) \<subseteq> set tr"
    and "service_quota (aws_log aws) v q s2 = (Inr limit, s3)" "set (snd s3) \<subseteq> set tr"
    and "capacity_check n 1 limit"
  shows "room tr c k v q"
  using counted_ok [OF assms(1)] quota_ok [OF assms(3)] assms(2,4,5)
  unfolding room_def capacity_check_def CAPACITY_RESERVE_def by fastforce

lemma capacity_room:
  assumes "capacity_checks (aws_log aws) k s = (Inr checks, s')" "blocked_checks checks = []"
  shows "room (snd s') [''ec2'', ''describe-vpcs''] ''Vpcs'' ''vpc'' VPC_QUOTA_CODE"
    and "room (snd s') [''ec2'', ''describe-internet-gateways''] ''InternetGateways'' ''vpc'' INTERNET_GATEWAY_QUOTA_CODE"
    and "room (snd s') [''ec2'', ''describe-addresses''] ''Addresses'' ''ec2'' EIP_QUOTA_CODE"
    and "room (snd s') [''connect'', ''list-instances''] ''InstanceSummaryList'' ''connect'' CONNECT_INSTANCE_QUOTA_CODE"
    and "\<exists>used limit u s1 s2. active_vcpus (aws_log aws) s1 = (Inr used, s2) \<and> (get_quota ''ec2'' STANDARD_VCPU_QUOTA_CODE, Inr u) \<in> set (snd s') \<and>
       quota_value (safe_get (safe_get u ''Quota'') ''Value'') = Inr limit \<and> used + k < limit"
proof -
  note g = growing_bind growing_counted growing_steps growing_basic
  from assms(1) obtain vpcs s1 gateways s2 addresses s3 connects s4 l1 s5 l2 s6 l3 s7 l4 s8 l5 s9 used s10 where
      c1: "count_of (aws_log aws) [''ec2'', ''describe-vpcs''] ''Vpcs'' ''VPC'' s = (Inr vpcs, s1)" "set (snd s1) \<subseteq> set (snd s')"
    and c2: "count_of (aws_log aws) [''ec2'', ''describe-internet-gateways''] ''InternetGateways'' ''internet gateway'' s1 = (Inr gateways, s2)" "set (snd s2) \<subseteq> set (snd s')"
    and c3: "count_of (aws_log aws) [''ec2'', ''describe-addresses''] ''Addresses'' ''EIP'' s2 = (Inr addresses, s3)" "set (snd s3) \<subseteq> set (snd s')"
    and c4: "count_of (aws_log aws) [''connect'', ''list-instances''] ''InstanceSummaryList'' ''Connect'' s3 = (Inr connects, s4)" "set (snd s4) \<subseteq> set (snd s')"
    and q1: "service_quota (aws_log aws) ''vpc'' VPC_QUOTA_CODE s4 = (Inr l1, s5)" "set (snd s5) \<subseteq> set (snd s')"
    and q2: "service_quota (aws_log aws) ''vpc'' INTERNET_GATEWAY_QUOTA_CODE s5 = (Inr l2, s6)" "set (snd s6) \<subseteq> set (snd s')"
    and q3: "service_quota (aws_log aws) ''ec2'' EIP_QUOTA_CODE s6 = (Inr l3, s7)" "set (snd s7) \<subseteq> set (snd s')"
    and q4: "service_quota (aws_log aws) ''connect'' CONNECT_INSTANCE_QUOTA_CODE s7 = (Inr l4, s8)" "set (snd s8) \<subseteq> set (snd s')"
    and q5: "service_quota (aws_log aws) ''ec2'' STANDARD_VCPU_QUOTA_CODE s8 = (Inr l5, s9)" "set (snd s9) \<subseteq> set (snd s')"
    and v: "active_vcpus (aws_log aws) s9 = (Inr used, s10)"
    and checks: "checks = [(''vpcs'', capacity_check vpcs 1 l1), (''internet_gateways'', capacity_check gateways 1 l2),
       (''elastic_ips'', capacity_check addresses 1 l3), (''connect_instances'', capacity_check connects 1 l4),
       (''standard_vcpus'', capacity_check used k l5)]"
    unfolding capacity_checks_def
    by (elim abind_logE) (use g in \<open>auto intro!: g\<close>)
  from assms(2) checks have ok: "capacity_check vpcs 1 l1" "capacity_check gateways 1 l2" "capacity_check addresses 1 l3"
    "capacity_check connects 1 l4" "capacity_check used k l5"
    by (simp_all add: blocked_checks_def split: if_split_asm)
  show "room (snd s') [''ec2'', ''describe-vpcs''] ''Vpcs'' ''vpc'' VPC_QUOTA_CODE" by (rule roomI [OF c1 q1 ok(1)])
  show "room (snd s') [''ec2'', ''describe-internet-gateways''] ''InternetGateways'' ''vpc'' INTERNET_GATEWAY_QUOTA_CODE"
    by (rule roomI [OF c2 q2 ok(2)])
  show "room (snd s') [''ec2'', ''describe-addresses''] ''Addresses'' ''ec2'' EIP_QUOTA_CODE" by (rule roomI [OF c3 q3 ok(3)])
  show "room (snd s') [''connect'', ''list-instances''] ''InstanceSummaryList'' ''connect'' CONNECT_INSTANCE_QUOTA_CODE"
    by (rule roomI [OF c4 q4 ok(4)])
  from quota_ok [OF q5(1)] q5(2) ok(5) v
  show "\<exists>used limit u s1 s2. active_vcpus (aws_log aws) s1 = (Inr used, s2) \<and> (get_quota ''ec2'' STANDARD_VCPU_QUOTA_CODE, Inr u) \<in> set (snd s') \<and>
       quota_value (safe_get (safe_get u ''Quota'') ''Value'') = Inr limit \<and> used + k < limit"
    unfolding capacity_check_def CAPACITY_RESERVE_def by fastforce
qed

text \<open>A name is vacant by an answer in the log whose records do not have it.\<close>

definition vacant :: "pylib \<Rightarrow> (pystr list \<times> pyval result) list \<Rightarrow> pystr \<Rightarrow> pystr \<Rightarrow> bool" where
  "vacant lib tr zone n \<longleftrightarrow>
     (\<exists>r vs. (list_records zone n, Inr r) \<in> set tr \<and> safe_get r ''ResourceRecordSets'' = VList vs \<and>
        (\<forall>v\<in>set vs. full_name lib (str_of (safe_get v ''Name'')) \<noteq> n))"

lemma vacant_mono: "vacant lib tr zone n \<Longrightarrow> set tr \<subseteq> set tr' \<Longrightarrow> vacant lib tr' zone n"
  unfolding vacant_def by blast

lemma route53_record_name_eq: "route53_record_name lib (VStr n) = Inr m \<Longrightarrow> m = full_name lib n"
  by (auto simp: route53_record_name_def result_simps Let_def)

lemma exact_record_None:
  assumes "exact_record lib n v = Inr None"
  shows "full_name lib (str_of (safe_get v ''Name'')) \<noteq> n"
  using assms by (auto simp: exact_record_def result_simps Let_def split: if_split_asm)

lemma rmap_in_set: "rmap f xs = Inr ys \<Longrightarrow> x \<in> set xs \<Longrightarrow> \<exists>y\<in>set ys. f x = Inr y"
  by (induction xs arbitrary: ys) (auto simp: result_simps)

lemma map_filter_id_Nil: "List.map_filter id rs = [] \<longleftrightarrow> (\<forall>y\<in>set rs. y = None)"
  by (induction rs) (auto simp: List.map_filter_simps split: option.split)

lemma exact_records_none:
  assumes "exact_records lib n r = Inr []"
  shows "\<exists>vs. safe_get r ''ResourceRecordSets'' = VList vs \<and> (\<forall>v\<in>set vs. full_name lib (str_of (safe_get v ''Name'')) \<noteq> n)"
proof -
  from assms obtain vs rs where vs: "safe_get r ''ResourceRecordSets'' = VList vs" "rmap (exact_record lib n) vs = Inr rs"
    and "List.map_filter id rs = []"
    by (auto simp: exact_records_def result_simps Let_def)
  then have "\<forall>y\<in>set rs. y = None" by (simp add: map_filter_id_Nil)
  with rmap_in_set [OF vs(2)] exact_record_None vs(1) show ?thesis by fastforce
qed

lemma vacant_step:
  assumes "exact_route53_records lib (aws_log aws) zone n s = (Inr [], s')"
  shows "vacant lib (snd s') zone (full_name lib n)"
proof -
  from assms obtain m r where m: "route53_record_name lib (VStr n) = Inr m"
    and r: "aws_log aws (list_records zone m) 120 s = (Inr r, s')" "exact_records lib m r = Inr []"
    unfolding exact_route53_records_def by (auto simp: abind_split)
  from exact_records_none [OF r(2)] logged [OF r(1)] route53_record_name_eq [OF m] show ?thesis
    unfolding vacant_def by blast
qed

lemma check_vacant_ok:
  "check_vacant lib (aws_log aws) zone ns s = (Inr u, s') \<Longrightarrow> \<forall>n\<in>set ns. vacant lib (snd s') zone (full_name lib n)"
proof (induction ns arbitrary: s)
  case (Cons n ns)
  then obtain s1 where a: "exact_route53_records lib (aws_log aws) zone n s = (Inr [], s1)"
    and rest: "check_vacant lib (aws_log aws) zone ns s1 = (Inr u, s')"
    by (auto simp: abind_split split: if_split_asm)
  from vacant_mono [OF vacant_step [OF a] growingD [OF growing_steps(2) rest]] Cons.IH [OF rest] show ?case by simp
qed simp

lemma check_dns_ok:
  assumes "check_dns lib (aws_log aws) (unlogged resolve) pf s = (Inr u, s')"
  shows "\<exists>host zone. dns_name lib (VStr (pf_sip pf)) = Inr host \<and> dns_name lib (VStr (pf_zone_name pf)) = Inr zone \<and>
     ends_with host ([46] @ zone) \<and> vacant lib (snd s') (pf_zone pf) (full_name lib host) \<and>
     vacant lib (snd s') (pf_zone pf) (full_name lib (lit ''control.'' @ host))"
proof -
  from assms obtain z zone host s1 where "check_zone lib pf z = Inr zone" "dns_name lib (VStr (pf_sip pf)) = Inr host"
    "ends_with host ([46] @ zone)" "check_vacant lib (aws_log aws) (pf_zone pf) [host, lit ''control.'' @ host] s1 = (Inr u, s')"
    unfolding check_dns_def by (auto simp: abind_split refuse_eq simp del: check_vacant.simps)
  moreover from this(1) have "dns_name lib (VStr (pf_zone_name pf)) = Inr zone"
    by (auto simp: check_zone_def result_simps Let_def)
  ultimately show ?thesis using check_vacant_ok by fastforce
qed

text \<open>
  C29.  A preflight that passes has proved room and vacancy: in the log of its answers, every counted
  kind of resource has room for one more under its quota with one in reserve, and the names of the
  SIP host and of its control host, inside the hosted zone, have no record in it.
\<close>

theorem preflight_proves_room:
  assumes "validate_preflight lib (aws_log aws) (unlogged resolve) pf (w, []) = (Inr doc, (w', tr))"
  shows "room tr [''ec2'', ''describe-vpcs''] ''Vpcs'' ''vpc'' VPC_QUOTA_CODE \<and>
     room tr [''ec2'', ''describe-internet-gateways''] ''InternetGateways'' ''vpc'' INTERNET_GATEWAY_QUOTA_CODE \<and>
     room tr [''ec2'', ''describe-addresses''] ''Addresses'' ''ec2'' EIP_QUOTA_CODE \<and>
     room tr [''connect'', ''list-instances''] ''InstanceSummaryList'' ''connect'' CONNECT_INSTANCE_QUOTA_CODE \<and>
     (\<exists>host zone. dns_name lib (VStr (pf_sip pf)) = Inr host \<and> dns_name lib (VStr (pf_zone_name pf)) = Inr zone \<and>
        ends_with host ([46] @ zone) \<and> vacant lib tr (pf_zone pf) (full_name lib host) \<and>
        vacant lib tr (pf_zone pf) (full_name lib (lit ''control.'' @ host)))"
proof -
  from assms obtain s1 s2 h s3 checks where
      dns: "check_dns lib (aws_log aws) (unlogged resolve) pf s1 = (Inr (), s2)"
    and host: "check_host (aws_log aws) pf s2 = (Inr h, s3)"
    and caps: "capacity_checks (aws_log aws) (fst h) s3 = (Inr checks, (w', tr))"
    and free: "blocked_checks checks = []"
    unfolding validate_preflight_def by (auto simp: abind_split split: if_split_asm)
  have "set (snd s2) \<subseteq> set (snd s3)" by (rule growingD [OF growing_steps(4) host])
  moreover have "set (snd s3) \<subseteq> set tr" using growingD [OF growing_steps(7) caps] by simp
  ultimately have sub: "set (snd s2) \<subseteq> set tr" by blast
  from check_dns_ok [OF dns] obtain host zone where n: "dns_name lib (VStr (pf_sip pf)) = Inr host"
    "dns_name lib (VStr (pf_zone_name pf)) = Inr zone" "ends_with host ([46] @ zone)"
    and v: "vacant lib (snd s2) (pf_zone pf) (full_name lib host)"
      "vacant lib (snd s2) (pf_zone pf) (full_name lib (lit ''control.'' @ host))" by (elim exE conjE)
  from capacity_room(1-4) [OF caps free] n vacant_mono [OF v(1) sub] vacant_mono [OF v(2) sub] show ?thesis
    by (intro conjI exI [of _ host] exI [of _ zone]) simp_all
qed

text \<open>A run against a client that gives its answers in turn.\<close>

fun in_turn :: "pyval list aws" where
  "in_turn c t [] = (Inl (PyError ''IndexError''), [])"
| "in_turn c t (x # xs) = (Inr x, xs)"

definition demo_pf :: preflight_input where
  "demo_pf = \<lparr>pf_execution = lit ''e'', pf_account = lit ''123456789012'', pf_region = lit ''us-west-2'',
     pf_role = lit ''arn:aws:iam::123456789012:role/d'', pf_secret = lit ''arn:aws:secretsmanager:us-west-2:123456789012:secret:v'',
     pf_zone = lit ''Z1'', pf_zone_name = lit ''q.io'', pf_sip = lit ''s.q.io'', pf_image = lit ''ami-1'', pf_release = lit ''r1'',
     pf_type = lit ''t4g.small''\<rparr>"

definition obj :: "(string \<times> pyval) list \<Rightarrow> pyval" where "obj xs = VDict (mk xs)"
definition text_val :: "string \<Rightarrow> pyval" where "text_val s = VStr (lit s)"

lemma log_step: "aws_log in_turn c t (x # xs, tr) = (Inr x, (xs, tr @ [(c, Inr x)]))"
  by (simp add: aws_log_def)

lemma demo_identity:
  "\<exists>us. check_identity (aws_log in_turn) demo_pf
     (obj [(''Account'', text_val ''123456789012'')] # obj [(''Role'', obj [(''Arn'', VStr (pf_role demo_pf))])] #
      obj [(''ARN'', VStr (pf_secret demo_pf))] # xs, tr) = (Inr (), (xs, tr @ us))"
proof -
  have "check_scopes demo_pf = Inr ()"
    by (simp add: check_scopes_def refuse_def role_account_def secret_scope_def aws_partition_def lower_dash_def lower_alnum_def
        role_char_def secret_name_char_def demo_pf_def eval_simps)
  then show ?thesis
    by (simp add: check_identity_def abind_def log_step refuse_def obj_def text_val_def demo_pf_def)
qed

lemma demo_names:
  "dns_name ascii_pylib (text_val ''q.io'') = Inr (lit ''q.io.'')" "dns_name ascii_pylib (text_val ''s.q.io'') = Inr (lit ''s.q.io.'')"
  "dns_name ascii_pylib (text_val ''n.io'') = Inr (lit ''n.io.'')" "dns_name ascii_pylib (text_val ''m.io'') = Inr (lit ''m.io.'')"
  "route53_record_name ascii_pylib (VStr (lit ''s.q.io.'')) = Inr (lit ''s.q.io.'')"
  "route53_record_name ascii_pylib (VStr (lit ''control.s.q.io.'')) = Inr (lit ''control.s.q.io.'')"
  by (simp_all add: text_val_def dns_name_def route53_record_name_def full_name_def dns_labels_def dns_label_def validation_label_def
      rstrip_if_def lower_dash_def lower_alnum_def Let_def eval_simps)

definition demo_resolver :: "pystr \<Rightarrow> (pyval list, pystr list) act" where
  "demo_resolver n = aret [lit ''n.io'', lit ''m.io'']"

definition demo_zone :: pyval where
  "demo_zone = obj [(''HostedZone'', obj [(''Id'', text_val ''/hostedzone/Z1''), (''Name'', text_val ''q.io''),
       (''Config'', obj [(''PrivateZone'', VBool False)])]),
     (''DelegationSet'', obj [(''NameServers'', VList [text_val ''n.io'', text_val ''m.io''])])]"

definition no_records :: pyval where "no_records = obj [(''ResourceRecordSets'', VList [])]"

lemma demo_zone_ok:
  "check_zone ascii_pylib demo_pf demo_zone = Inr (lit ''q.io.'')"
  "zone_servers ascii_pylib demo_zone = Inr [lit ''m.io.'', lit ''n.io.'']"
proof -
  have "last (split_on 47 (lit ''/hostedzone/Z1'')) = lit ''Z1''" by (simp add: lit_def)
  then show "check_zone ascii_pylib demo_pf demo_zone = Inr (lit ''q.io.'')"
    using demo_names(1) by (simp add: check_zone_def demo_zone_def obj_def demo_pf_def text_val_def)
  have "sorted_set [lit ''n.io.'', lit ''m.io.''] = [lit ''m.io.'', lit ''n.io.'']" by (simp add: sorted_set_def lit_def)
  then show "zone_servers ascii_pylib demo_zone = Inr [lit ''m.io.'', lit ''n.io.'']"
    using demo_names(3,4) by (simp add: zone_servers_def demo_zone_def obj_def)
qed

lemma no_records_ok:
  "exact_route53_records ascii_pylib (aws_log in_turn) zone (lit ''s.q.io.'') (no_records # xs, tr) =
     (Inr [], (xs, tr @ [(list_records zone (lit ''s.q.io.''), Inr no_records)]))"
  "exact_route53_records ascii_pylib (aws_log in_turn) zone (lit ''control.s.q.io.'') (no_records # xs, tr) =
     (Inr [], (xs, tr @ [(list_records zone (lit ''control.s.q.io.''), Inr no_records)]))"
  using demo_names(5,6) by (simp_all add: exact_route53_records_def abind_def log_step exact_records_def no_records_def obj_def
      List.map_filter_simps Let_def)

lemma demo_dns:
  "\<exists>us. check_dns ascii_pylib (aws_log in_turn) (unlogged demo_resolver) demo_pf
     (demo_zone # no_records # no_records # xs, tr) = (Inr (), (xs, tr @ us))"
proof -
  have "sorted_set [lit ''n.io.'', lit ''m.io.''] = [lit ''m.io.'', lit ''n.io.'']" by (simp add: sorted_set_def lit_def)
  moreover have "ends_with (lit ''s.q.io.'') (46 # lit ''q.io.'')" by (simp add: eval_simps)
  moreover have "lit ''control.'' @ lit ''s.q.io.'' = lit ''control.s.q.io.''" by (simp add: lit_def)
  ultimately show ?thesis using demo_names [unfolded text_val_def]
    by (simp add: check_dns_def abind_def log_step demo_zone_ok unlogged_def demo_resolver_def refuse_def
        no_records_ok) (simp add: demo_pf_def no_records_ok abind_def)
qed

definition demo_image :: pyval where
  "demo_image = obj [(''Images'', VList [obj [(''ImageId'', text_val ''ami-1''), (''OwnerId'', text_val ''123456789012''),
     (''State'', text_val ''available''), (''Architecture'', text_val ''arm64''), (''RootDeviceType'', text_val ''ebs''),
     (''Tags'', VList [obj [(''Key'', text_val ''ManagedBy''), (''Value'', text_val ''bridgefu-vapi-awsconnect'')],
        obj [(''Key'', text_val ''BridgefuRelease''), (''Value'', text_val ''r1'')]])]])]"

definition demo_type :: pyval where
  "demo_type = obj [(''InstanceTypes'', VList [obj [(''ProcessorInfo'', obj [(''SupportedArchitectures'', VList [text_val ''arm64''])]),
     (''VCpuInfo'', obj [(''DefaultVCpus'', VInt 2)]), (''MemoryInfo'', obj [(''SizeInMiB'', VInt 2048)])]])]"

definition demo_zones :: pyval where
  "demo_zones = obj [(''AvailabilityZones'', VList [obj [(''ZoneName'', text_val ''a'')], obj [(''ZoneName'', text_val ''b'')]])]"

definition demo_offers :: pyval where
  "demo_offers = obj [(''InstanceTypeOfferings'', VList (map (\<lambda>z. obj [(''InstanceType'', text_val ''t4g.small''),
     (''LocationType'', text_val ''availability-zone''), (''Location'', text_val z)]) [''a'', ''b'']))]"

lemma demo_host:
  "\<exists>us. check_host (aws_log in_turn) demo_pf (demo_image # demo_type # demo_zones # demo_offers # xs, tr) =
     (Inr (2, 2048), (xs, tr @ us))"
proof -
  have i: "check_image demo_pf demo_image = Inr ()"
    by (simp add: check_image_def demo_image_def bounded_list_def obj_def text_val_def iter_of_def image_tags_def refuse_def
        List.map_filter_simps demo_pf_def Let_def)
  have t: "type_shape demo_type = Inr (2, 2048)"
    by (simp add: type_shape_def demo_type_def bounded_list_def obj_def text_val_def positive_int_def Let_def)
  have "sort [lit ''a'', lit ''b''] = [lit ''a'', lit ''b'']" by (simp add: lit_def)
  then have z: "selected_zones demo_zones = Inr [lit ''a'', lit ''b'']"
    by (simp add: selected_zones_def demo_zones_def bounded_list_def obj_def text_val_def zone_names_def List.map_filter_simps Let_def)
  have o: "check_offerings demo_pf [lit ''a'', lit ''b''] demo_offers = Inr ()"
    by (simp add: check_offerings_def demo_offers_def bounded_list_def obj_def text_val_def offered_zone_def refuse_def demo_pf_def
        insert_commute Let_def)
  from i t z o show ?thesis by (simp add: check_host_def check_zones_def abind_def log_step)
qed

definition demo_count :: "string \<Rightarrow> pyval" where "demo_count k = obj [(k, VList [])]"
definition demo_quota :: pyval where "demo_quota = obj [(''Quota'', obj [(''Value'', VInt 5)])]"

lemma demo_counted: "count_of (aws_log in_turn) c k label (demo_count k # xs, tr) = (Inr 0, (xs, tr @ [(cmd c, Inr (demo_count k))]))"
  if "k \<notin> {''NextToken'', ''nextToken'', ''PaginationToken'', ''Marker''}"
  using that by (simp add: count_of_def abind_def log_step demo_count_def obj_def bounded_list_def Let_def)

lemma demo_quoted: "service_quota (aws_log in_turn) v q (demo_quota # xs, tr) = (Inr 5, (xs, tr @ [(get_quota v q, Inr demo_quota)]))"
  using nearest_double_int [of 5] by (simp add: service_quota_def abind_def log_step demo_quota_def obj_def quota_value_def Let_def)

lemma demo_active: "\<exists>us. active_vcpus (aws_log in_turn) (demo_count ''Reservations'' # xs, tr) = (Inr 0, (xs, tr @ us))"
  by (simp add: active_vcpus_def active_types_def abind_def log_step demo_count_def obj_def bounded_list_def sorted_set_def
      hundreds_def Let_def)

lemma demo_capacity:
  "\<exists>us checks. capacity_checks (aws_log in_turn) 2
     (demo_count ''Vpcs'' # demo_count ''InternetGateways'' # demo_count ''Addresses'' # demo_count ''InstanceSummaryList'' #
      demo_quota # demo_quota # demo_quota # demo_quota # demo_quota # demo_count ''Reservations'' # xs, tr) =
     (Inr checks, (xs, tr @ us)) \<and> blocked_checks checks = []"
proof -
  obtain us where "active_vcpus (aws_log in_turn) (demo_count ''Reservations'' # xs, tr') = (Inr 0, (xs, tr' @ us tr'))" for tr'
    using demo_active by metis
  then show ?thesis
    by (simp add: capacity_checks_def abind_def demo_counted demo_quoted capacity_check_def CAPACITY_RESERVE_def blocked_checks_def)
qed

lemma demo_preflight:
  "\<exists>answers doc w tr. validate_preflight ascii_pylib (aws_log in_turn) (unlogged demo_resolver) demo_pf (answers, []) = (Inr doc, (w, tr))"
proof -
  define a4 where "a4 = demo_count ''Vpcs'' # demo_count ''InternetGateways'' # demo_count ''Addresses'' # demo_count ''InstanceSummaryList'' #
      demo_quota # demo_quota # demo_quota # demo_quota # demo_quota # demo_count ''Reservations'' # []"
  define a3 where "a3 = demo_image # demo_type # demo_zones # demo_offers # a4"
  define a2 where "a2 = demo_zone # no_records # no_records # a3"
  define a1 where "a1 = obj [(''Account'', text_val ''123456789012'')] # obj [(''Role'', obj [(''Arn'', VStr (pf_role demo_pf))])] #
      obj [(''ARN'', VStr (pf_secret demo_pf))] # a2"
  obtain t1 where 1: "check_identity (aws_log in_turn) demo_pf (a1, []) = (Inr (), (a2, t1))"
    using demo_identity [of a2 "[]"] by (auto simp: a1_def)
  obtain t2 where 2: "check_dns ascii_pylib (aws_log in_turn) (unlogged demo_resolver) demo_pf (a2, t1) = (Inr (), (a3, t2))"
    using demo_dns [of a3 t1] by (auto simp: a2_def)
  obtain t3 where 3: "check_host (aws_log in_turn) demo_pf (a3, t2) = (Inr (2, 2048), (a4, t3))"
    using demo_host [of a4 t2] by (auto simp: a3_def)
  obtain t4 checks where 4: "capacity_checks (aws_log in_turn) 2 (a4, t3) = (Inr checks, ([], t4))" "blocked_checks checks = []"
    using demo_capacity [of "[]" t3] by (auto simp: a4_def)
  have "\<exists>doc. preflight_report demo_pf (2, 2048) checks = Inr doc"
    by (simp add: preflight_report_def ascii_sha256_def ascii_encode_def demo_pf_def eval_simps)
  with 1 2 3 4 show ?thesis by (auto simp: validate_preflight_def abind_def intro!: exI [of _ a1])
qed

theorem preflight_proves_room_witness:
  "\<exists>answers doc w tr. validate_preflight ascii_pylib (aws_log in_turn) (unlogged demo_resolver) demo_pf (answers, []) = (Inr doc, (w, tr)) \<and>
     room tr [''ec2'', ''describe-vpcs''] ''Vpcs'' ''vpc'' VPC_QUOTA_CODE"
proof -
  from demo_preflight obtain answers doc w tr where
    run: "validate_preflight ascii_pylib (aws_log in_turn) (unlogged demo_resolver) demo_pf (answers, []) = (Inr doc, (w, tr))"
    by (elim exE)
  from preflight_proves_room [OF run] have "room tr [''ec2'', ''describe-vpcs''] ''Vpcs'' ''vpc'' VPC_QUOTA_CODE" by (elim conjE)
  with run show ?thesis by (intro exI conjI)
qed

end
