(* ===== verification/Telemetry.thy ===== *)
theory Telemetry imports Preflight begin

text \<open>
  \<open>collect_active_call_telemetry\<close> of \<open>qualification/release_safeguards.py\<close>: the load of the host during a
  call, from CloudWatch.  Doubles are rounded where the code's arithmetic rounds; the readings of the
  monotonic clock are rationals with exact sums.
\<close>

definition TELEMETRY_PRODUCER :: pystr where "TELEMETRY_PRODUCER = lit ''bridgefu-cloudwatch-capacity-observation@1''"
definition MAX_CLOUDWATCH_DATAPOINTS :: nat where "MAX_CLOUDWATCH_DATAPOINTS = 512"

section \<open>Times\<close>

text \<open>\<open>isoformat()\<close> of a time in UTC.\<close>

definition iso_text :: "int \<Rightarrow> pystr" where
  "iso_text t =
     (let d = t div 86400000000; u = nat (t mod 86400000000); s = u div 1000000; f = u mod 1000000;
          (y, m, day) = civil (nat (d + int EPOCH))
      in padded 4 y @ [45] @ padded 2 m @ [45] @ padded 2 day @ [84] @ padded 2 (s div 3600) @ [58] @
         padded 2 (s div 60 mod 60) @ [58] @ padded 2 (s mod 60) @ (if f = 0 then [] else [46] @ padded 6 f) @ lit ''+00:00'')"

text \<open>A sum with some seconds, within the years of the calendar.\<close>

definition seconds_later :: "int \<Rightarrow> int \<Rightarrow> int result" where
  "seconds_later t s =
     (let u = t + s * 1000000 in
      if (1 - int EPOCH) * 86400 * 1000000 \<le> u \<and> u < (3652060 - int EPOCH) * 86400 * 1000000
      then Inr u else Inl (PyError ''OverflowError''))"

text \<open>The value of a rounded double; those that occur here are finite.\<close>

definition rounded :: "rat \<Rightarrow> rat" where
  "rounded r = (case nearest_double r of Fin x \<Rightarrow> x | _ \<Rightarrow> 0)"

definition total_seconds :: "int \<Rightarrow> rat" where
  "total_seconds u = rounded (of_int u / 1000000)"

definition milliseconds :: "int \<Rightarrow> int" where
  "milliseconds t = truncate_float (nearest_double (total_seconds t * 1000))"

text \<open>\<open>round(x, 3)\<close>: the exact value to three decimals, and the double next to these.\<close>

definition three_decimals :: "rat \<Rightarrow> pyval" where
  "three_decimals r = VFloat (nearest_double (of_int (round_half_even (r * 1000)) / 1000))"

section \<open>Data points\<close>

record point =
  point_time :: int
  point_minimum :: rat
  point_maximum :: rat

definition finite_number :: "exn \<Rightarrow> pyval \<Rightarrow> rat result" where
  "finite_number e v =
     (case v of
        VInt i \<Rightarrow> (case nearest_double (of_int i) of Fin r \<Rightarrow> Inr r | _ \<Rightarrow> Inl (PyError ''OverflowError''))
      | VFloat (Fin r) \<Rightarrow> Inr r
      | _ \<Rightarrow> Inl e)"

definition metric_point :: "pyval \<Rightarrow> point result" where
  "metric_point v =
     (let bad = SafeguardError ''CloudWatch capacity datapoint value is invalid'' in
      rbind (expect_dict (SafeguardError ''CloudWatch capacity datapoint is invalid'') v) (\<lambda>d.
      rbind (parse_timestamp (get_key d ''Timestamp'') ''CloudWatch metric'') (\<lambda>t.
      rbind (finite_number bad (get_key d ''Minimum'')) (\<lambda>lo.
      rbind (finite_number bad (get_key d ''Maximum'')) (\<lambda>hi.
      Inr \<lparr>point_time = t, point_minimum = lo, point_maximum = hi\<rparr>)))))"

definition points_of :: "pyval \<Rightarrow> point list result" where
  "points_of response =
     (let bad = SafeguardError ''CloudWatch capacity datapoints are invalid'' in
      rbind (expect_list bad (safe_get response ''Datapoints'')) (\<lambda>vs.
      if MAX_CLOUDWATCH_DATAPOINTS < length vs then Inl bad
      else rbind (rmap metric_point vs) (\<lambda>ps. Inr (sort_key point_time ps))))"

definition metric_command :: "string \<Rightarrow> pystr \<Rightarrow> int \<Rightarrow> int \<Rightarrow> pystr list" where
  "metric_command metric instance_id start stop =
     cmd [''cloudwatch'', ''get-metric-statistics'', ''--namespace'', ''Bridgefu/Runtime'', ''--metric-name'', metric,
       ''--dimensions''] @ [lit ''Name=InstanceId,Value='' @ instance_id] @
     cmd [''--start-time''] @ [iso_text start] @ cmd [''--end-time''] @ [iso_text stop] @
     cmd [''--period'', ''10'', ''--statistics'', ''Minimum'', ''Maximum'']"

definition metric_points :: "'w aws \<Rightarrow> string \<Rightarrow> pystr \<Rightarrow> int \<Rightarrow> int \<Rightarrow> ('w, point list) act" where
  "metric_points aws metric instance_id start stop =
     abind (alift (seconds_later start (- 10))) (\<lambda>a.
     abind (alift (seconds_later stop 10)) (\<lambda>b.
     abind (aws (metric_command metric instance_id a b) 120) (\<lambda>r. alift (points_of r))))"

section \<open>Waiting for the samples\<close>

definition covers :: "int \<Rightarrow> int \<Rightarrow> nat \<Rightarrow> point list \<Rightarrow> bool" where
  "covers start stop required ps \<longleftrightarrow>
     required \<le> length ps \<and> point_time (hd ps) \<le> start + 10000000 \<and> stop - 10000000 \<le> point_time (last ps)"

fun sample_loop ::
    "nat \<Rightarrow> 'w aws \<Rightarrow> (rat \<Rightarrow> ('w, unit) act) \<Rightarrow> ('w, rat) act \<Rightarrow> pystr \<Rightarrow> int \<Rightarrow> int \<Rightarrow> nat \<Rightarrow> rat \<Rightarrow>
     ('w, point list \<times> point list) act" where
  "sample_loop 0 aws sleep clock i start stop required deadline = araise no_fuel"
| "sample_loop (Suc n) aws sleep clock i start stop required deadline =
     abind (metric_points aws ''cpu_usage_idle'' i start stop) (\<lambda>idle.
     abind (metric_points aws ''mem_used_percent'' i start stop) (\<lambda>memory.
     if covers start stop required idle \<and> covers start stop required memory then aret (idle, memory)
     else
     abind clock (\<lambda>t.
     if deadline \<le> t then araise (SafeguardError ''CloudWatch active-call samples did not converge'')
     else abind (sleep 10) (\<lambda>_. sample_loop n aws sleep clock i start stop required deadline))))"

text \<open>Every round but the last waits ten seconds of the deadline.\<close>

definition sample_fuel :: "int \<Rightarrow> nat" where
  "sample_fuel seconds = nat seconds div 10 + 2"

section \<open>The observation\<close>

record telemetry_input =
  tm_execution :: pystr
  tm_instance :: pystr
  tm_type :: pystr
  tm_vcpus :: int
  tm_memory :: int
  tm_log_group :: pystr
  tm_started :: pystr
  tm_ended :: pystr
  tm_seconds :: int

definition required_samples :: "rat \<Rightarrow> nat" where
  "required_samples duration = nat (max 2 (\<lceil>rounded (duration / 10)\<rceil> - 1))"

definition start_events_command :: "telemetry_input \<Rightarrow> int \<Rightarrow> int \<Rightarrow> pystr list" where
  "start_events_command tm start stop =
     cmd [''logs'', ''filter-log-events'', ''--log-group-name''] @ [tm_log_group tm] @
     cmd [''--start-time''] @ [dec_int (milliseconds start)] @ cmd [''--end-time''] @ [dec_int (milliseconds stop + 1)] @
     cmd [''--filter-pattern''] @ [[34] @ lit ''starting bridgefu process'' @ [34]]"

definition start_events :: "pyval \<Rightarrow> nat result" where
  "start_events response =
     (let bad = SafeguardError ''Bridgefu startup-event inventory is invalid'' in
      rbind (expect_list bad (safe_get response ''events'')) (\<lambda>es.
      if 100 < length es \<or> safe_get response ''nextToken'' \<notin> {VNone, VStr []} then Inl bad else Inr (length es)))"

definition cpu_peak :: "point list \<Rightarrow> rat" where
  "cpu_peak ps = rounded (100 - foldr min (map point_minimum (tl ps)) (point_minimum (hd ps)))"

definition memory_peak :: "point list \<Rightarrow> rat" where
  "memory_peak ps = foldr max (map point_maximum (tl ps)) (point_maximum (hd ps))"

definition telemetry_value ::
    "telemetry_input \<Rightarrow> rat \<Rightarrow> point list \<Rightarrow> point list \<Rightarrow> nat \<Rightarrow> pydict result" where
  "telemetry_value tm duration idle memory events =
     (let cpu = cpu_peak idle; mem = memory_peak memory in
      if \<not> (0 \<le> cpu \<and> cpu \<le> 100) \<or> \<not> (0 \<le> mem \<and> mem \<le> 100)
      then Inl (SafeguardError ''host utilization datapoints are invalid'')
      else if \<not> (cpu < 60 \<and> mem < 60 \<and> events = 0)
      then Inl (SafeguardError ''active-call capacity or restart gate failed'')
      else Inr (mk [(''schema_version'', VInt 1), (''producer'', VStr TELEMETRY_PRODUCER),
        (''execution_id'', VStr (tm_execution tm)), (''instance_type'', VStr (tm_type tm)),
        (''vcpus'', VInt (tm_vcpus tm)), (''memory_mib'', VInt (tm_memory tm)),
        (''window_duration_seconds'', three_decimals duration), (''minimum_required_samples'', VInt (int (required_samples duration))),
        (''cpu_sample_count'', VInt (int (length idle))), (''memory_sample_count'', VInt (int (length memory))),
        (''host_cpu_peak_percent'', three_decimals cpu), (''host_memory_peak_percent'', three_decimals mem),
        (''bridgefu_start_events_during_smoke'', VInt (int events)),
        (''cpu_strictly_under_60_percent'', VBool True), (''memory_strictly_under_60_percent'', VBool True),
        (''bridgefu_restart_free'', VBool True), (''compile_excluded'', VBool True),
        (''passed'', VBool True), (''redacted'', VBool True)]))"

definition collect_active_call_telemetry ::
    "'w aws \<Rightarrow> (rat \<Rightarrow> ('w, unit) act) \<Rightarrow> ('w, rat) act \<Rightarrow> telemetry_input \<Rightarrow> ('w, pydict) act" where
  "collect_active_call_telemetry aws sleep clock tm =
     abind (alift (parse_timestamp (VStr (tm_started tm)) ''active-call start'')) (\<lambda>start.
     abind (alift (parse_timestamp (VStr (tm_ended tm)) ''active-call end'')) (\<lambda>stop.
     let duration = total_seconds (stop - start) in
     if \<not> (10 \<le> duration \<and> duration \<le> 600)
     then araise (SafeguardError ''active-call telemetry window is outside its bounds'')
     else
     abind clock (\<lambda>t.
     abind (sample_loop (sample_fuel (tm_seconds tm)) aws sleep clock (tm_instance tm) start stop
        (required_samples duration) (t + of_int (tm_seconds tm))) (\<lambda>(idle, memory).
     abind (aws (start_events_command tm start stop) 120) (\<lambda>r.
     alift (rbind (start_events r) (telemetry_value tm duration idle memory)))))))"

end
