(* ===== verification/TelemetrySafety.thy ===== *)
theory TelemetrySafety imports PreflightSafety Telemetry begin

text \<open>
  What a telemetry observation that passes rests on, that the wait for it ends, and that none of the
  safeguards changes anything.
\<close>

section \<open>Only reading\<close>

lemma read_only_telemetry [simp]:
  "read_only (metric_command metric i a b)" "read_only (start_events_command tm a b)"
  by (simp_all add: metric_command_def start_events_command_def)

context reading begin

lemma metric: "keeping (metric_points (aws_log aws) metric i a b)"
  unfolding metric_points_def by (intro bind basic aws) simp

lemma samples: "keeping (sample_loop n (aws_log aws) (unlogged sleep) (unlogged clock u) i a b required deadline)"
  by (induction n) (auto intro!: bind metric)

lemma telemetry: "keeping (collect_active_call_telemetry (aws_log aws) (unlogged sleep) (unlogged clock u) tm)"
proof -
  have rest: "keeping (if bad then araise e else abind (unlogged clock u) (\<lambda>t.
      abind (sample_loop n (aws_log aws) (unlogged sleep) (unlogged clock u) i a b required (t + d)) (\<lambda>(idle, memory).
      abind (aws_log aws (start_events_command tm a b) 120) (\<lambda>r. alift (f r idle memory)))))"
    for bad e n i a b required d f
    by (auto intro!: bind samples split: prod.split)
  show ?thesis
    unfolding collect_active_call_telemetry_def Let_def by (intro bind basic) (rule rest)
qed

end

text \<open>
  C30.  The safeguards only read: every command of the preflight, of the check of the deployed host,
  of the two inventories and of the telemetry, whether they succeed or not, is one of the get, list,
  describe and filter operations of a service.
\<close>

theorem safeguards_only_read:
  "only_read (snd (snd (validate_preflight lib (aws_log aws) (unlogged resolve) pf (w, [])))) \<and>
   only_read (snd (snd (validate_deployed_runtime (aws_log aws) dp (w, [])))) \<and>
   only_read (snd (snd (stack_ownership_inventory (aws_log aws) stack maximum (w, [])))) \<and>
   only_read (snd (snd (tagged_resource_arns n (aws_log aws) execution (w, [])))) \<and>
   only_read (snd (snd (collect_active_call_telemetry (aws_log aws) (unlogged sleep) (unlogged clock u) tm (w, []))))"
  by (intro conjI quietD quiet.preflight quiet.deployed quiet.inventory quiet.tagged quiet.telemetry)

section \<open>What an observation rests on\<close>

text \<open>Data points that an answer in the log gives.\<close>

definition measured :: "(pystr list \<times> pyval result) list \<Rightarrow> string \<Rightarrow> pystr \<Rightarrow> int \<Rightarrow> int \<Rightarrow> point list \<Rightarrow> bool" where
  "measured tr metric i start stop ps \<longleftrightarrow>
     (\<exists>a b r. seconds_later start (- 10) = Inr a \<and> seconds_later stop 10 = Inr b \<and>
        (metric_command metric i a b, Inr r) \<in> set tr \<and> points_of r = Inr ps)"

lemma measured_mono: "measured tr metric i a b ps \<Longrightarrow> set tr \<subseteq> set tr' \<Longrightarrow> measured tr' metric i a b ps"
  unfolding measured_def by blast

lemma metric_ok:
  assumes "metric_points (aws_log aws) metric i a b s = (Inr ps, s')"
  shows "measured (snd s') metric i a b ps"
proof -
  from assms obtain c d r where "seconds_later a (- 10) = Inr c" "seconds_later b 10 = Inr d"
    and r: "aws_log aws (metric_command metric i c d) 120 s = (Inr r, s')" and "points_of r = Inr ps"
    unfolding metric_points_def by (auto simp: abind_split)
  with logged [OF r] show ?thesis unfolding measured_def by blast
qed

lemma growing_metric: "growing (metric_points (aws_log aws) metric i a b)"
  unfolding growing_def by (intro allI holding.metric)

lemma growing_samples: "growing (sample_loop n (aws_log aws) (unlogged sleep) (unlogged clock u) i a b required deadline)"
  unfolding growing_def by (intro allI holding.samples)

lemma unlogged_same: "unlogged f x s = (r, s') \<Longrightarrow> snd s' = snd s"
  by (cases s) (auto simp: unlogged_def split: prod.split_asm)

lemma sample_loop_ok:
  "sample_loop n (aws_log aws) (unlogged sleep) (unlogged clock u) i a b required deadline s = (Inr (idle, memory), s') \<Longrightarrow>
     covers a b required idle \<and> covers a b required memory \<and>
     measured (snd s') ''cpu_usage_idle'' i a b idle \<and> measured (snd s') ''mem_used_percent'' i a b memory"
proof (induction n arbitrary: s)
  case (Suc n)
  from Suc.prems obtain ps s1 qs s2 where p: "metric_points (aws_log aws) ''cpu_usage_idle'' i a b s = (Inr ps, s1)"
    and q: "metric_points (aws_log aws) ''mem_used_percent'' i a b s1 = (Inr qs, s2)"
    and rest: "(if covers a b required ps \<and> covers a b required qs then aret (ps, qs)
       else abind (unlogged clock u) (\<lambda>t.
         if deadline \<le> t then araise (SafeguardError ''CloudWatch active-call samples did not converge'')
         else abind (unlogged sleep 10) (\<lambda>_. sample_loop n (aws_log aws) (unlogged sleep) (unlogged clock u) i a b required deadline))) s2
       = (Inr (idle, memory), s')"
    by (auto simp: abind_split)
  show ?case
  proof (cases "covers a b required ps \<and> covers a b required qs")
    case True
    with rest have "idle = ps" "memory = qs" "s' = s2" by auto
    with True measured_mono [OF metric_ok [OF p] growingD [OF growing_metric q]] metric_ok [OF q] show ?thesis by simp
  next
    case False
    with rest obtain s3 where
      "sample_loop n (aws_log aws) (unlogged sleep) (unlogged clock u) i a b required deadline s3 = (Inr (idle, memory), s')"
      by (auto simp: abind_split split: if_split_asm)
    from Suc.IH [OF this] show ?thesis .
  qed
qed simp

lemma foldr_min_le: "x \<in> insert a (set xs) \<Longrightarrow> foldr min xs a \<le> (x :: rat)"
  by (induction xs arbitrary: x) (auto simp: min_le_iff_disj)

lemma foldr_max_ge: "x \<in> insert a (set xs) \<Longrightarrow> (x :: rat) \<le> foldr max xs a"
  by (induction xs arbitrary: x) (auto simp: le_max_iff_disj)

lemma telemetry_value_ok:
  assumes "telemetry_value tm duration idle memory events = Inr doc" "idle \<noteq> []" "memory \<noteq> []"
  shows "events = 0 \<and> (\<exists>lo. rounded (100 - lo) < 60 \<and> (\<forall>p\<in>set idle. lo \<le> point_minimum p)) \<and>
     (\<forall>p\<in>set memory. point_maximum p < 60)"
proof -
  from assms(1) have "events = 0" "cpu_peak idle < 60" "memory_peak memory < 60"
    by (auto simp: telemetry_value_def Let_def split: if_split_asm)
  moreover have "\<forall>p\<in>set idle. foldr min (map point_minimum (tl idle)) (point_minimum (hd idle)) \<le> point_minimum p"
    using assms(2) by (cases idle) (auto intro!: foldr_min_le)
  moreover have "\<forall>p\<in>set memory. point_maximum p \<le> memory_peak memory"
    using assms(3) unfolding memory_peak_def by (cases memory) (auto intro!: foldr_max_ge)
  ultimately show ?thesis unfolding cpu_peak_def by fastforce
qed

lemma covers_nonempty: "covers a b (required_samples d) ps \<Longrightarrow> ps \<noteq> []"
  by (auto simp: covers_def required_samples_def)

text \<open>
  C31.  An observation that passes was measured: answers in its log give at least the required data
  points from the start to the end of the call, all of them show a processor that is busy, and a
  memory that is used, for less than 60 percent, and no start of the process is in the window.
\<close>

theorem telemetry_was_measured:
  assumes "collect_active_call_telemetry (aws_log aws) (unlogged sleep) (unlogged clock u) tm (w, []) = (Inr doc, (w', tr))"
  shows "\<exists>start stop idle memory r lo.
     parse_timestamp (VStr (tm_started tm)) ''active-call start'' = Inr start \<and>
     parse_timestamp (VStr (tm_ended tm)) ''active-call end'' = Inr stop \<and>
     covers start stop (required_samples (total_seconds (stop - start))) idle \<and>
     covers start stop (required_samples (total_seconds (stop - start))) memory \<and>
     measured tr ''cpu_usage_idle'' (tm_instance tm) start stop idle \<and> measured tr ''mem_used_percent'' (tm_instance tm) start stop memory \<and>
     rounded (100 - lo) < 60 \<and> (\<forall>p\<in>set idle. lo \<le> point_minimum p) \<and> (\<forall>p\<in>set memory. point_maximum p < 60) \<and>
     (start_events_command tm start stop, Inr r) \<in> set tr \<and> start_events r = Inr 0"
proof -
  from assms obtain start stop t s1 idle memory s2 r events where
      parsed: "parse_timestamp (VStr (tm_started tm)) ''active-call start'' = Inr start"
        "parse_timestamp (VStr (tm_ended tm)) ''active-call end'' = Inr stop"
    and loop: "sample_loop (sample_fuel (tm_seconds tm)) (aws_log aws) (unlogged sleep) (unlogged clock u) (tm_instance tm) start stop
        (required_samples (total_seconds (stop - start))) (t + of_int (tm_seconds tm)) s1 = (Inr (idle, memory), s2)"
    and ev: "aws_log aws (start_events_command tm start stop) 120 s2 = (Inr r, (w', tr))"
    and events: "start_events r = Inr events"
    and doc: "telemetry_value tm (total_seconds (stop - start)) idle memory events = Inr doc"
    unfolding collect_active_call_telemetry_def Let_def
    by (auto simp: abind_split result_simps split: if_split_asm)
  note l = sample_loop_ok [OF loop]
  have sub: "set (snd s2) \<subseteq> set tr"
    using ev by (cases s2) (auto simp: aws_log_def split: prod.split_asm)
  from telemetry_value_ok [OF doc] covers_nonempty l obtain lo where
    v: "events = 0" "rounded (100 - lo) < 60" "\<forall>p\<in>set idle. lo \<le> point_minimum p" "\<forall>p\<in>set memory. point_maximum p < 60" by metis
  have e: "(start_events_command tm start stop, Inr r) \<in> set tr" using logged [OF ev] by simp
  from l have c: "covers start stop (required_samples (total_seconds (stop - start))) idle"
    "covers start stop (required_samples (total_seconds (stop - start))) memory"
    and m: "measured tr ''cpu_usage_idle'' (tm_instance tm) start stop idle" "measured tr ''mem_used_percent'' (tm_instance tm) start stop memory"
    using measured_mono [OF _ sub] by blast+
  from events v(1) have "start_events r = Inr 0" by simp
  with parsed c m v(2-4) e show ?thesis by (intro exI conjI)
qed

section \<open>The wait ends\<close>

text \<open>The clock does not go back, and a sleep takes its time; nothing that is called lacks fuel.\<close>

definition patient :: "'w aws \<Rightarrow> (rat \<Rightarrow> ('w, unit) act) \<Rightarrow> ('w, rat) act \<Rightarrow> ('w \<Rightarrow> rat) \<Rightarrow> bool" where
  "patient aws sleep clock clk \<longleftrightarrow>
     (\<forall>c t w. runs clk (aws c t) w) \<and> (\<forall>w. fst (clock w) = Inr (clk w)) \<and> (\<forall>w. runs clk clock w) \<and>
     (\<forall>w. fst (sleep 10 w) \<noteq> Inl no_fuel \<and> clk w + 10 \<le> clk (snd (sleep 10 w)))"

lemma metric_point_fuel: "metric_point v \<noteq> Inl no_fuel"
  using parse_timestamp_fuel
  by (auto simp: metric_point_def finite_number_def result_simps no_fuel_def Let_def split: pyval.splits pyfloat.splits)

lemma points_of_fuel: "points_of r \<noteq> Inl no_fuel"
proof -
  have "rmap metric_point vs \<noteq> Inl no_fuel" for vs using metric_point_fuel by (rule rmap_fuel)
  then show ?thesis by (auto simp: points_of_def result_simps no_fuel_def Let_def)
qed

lemma runs_metric: "patient aws sleep clock clk \<Longrightarrow> runs clk (metric_points aws metric i a b) w"
  unfolding metric_points_def patient_def
  by (intro runs_bind runs_lift points_of_fuel) (auto simp: seconds_later_def no_fuel_def Let_def)

lemma runs_samples:
  assumes p: "patient aws sleep clock clk"
  shows "1 \<le> n \<Longrightarrow> deadline - clk w \<le> 10 * (of_nat n - 1) \<Longrightarrow>
     runs clk (sample_loop n aws sleep clock i a b required deadline) w"
proof (induction n arbitrary: w)
  case (Suc n)
  let ?rest = "\<lambda>_. sample_loop n aws sleep clock i a b required deadline"
  have again: "runs clk (abind clock (\<lambda>t. if deadline \<le> t
      then araise (SafeguardError ''CloudWatch active-call samples did not converge'') else abind (sleep 10) ?rest)) v"
    if v: "clk w \<le> clk v" for v
  proof (rule runs_bind)
    show "runs clk clock v" using p by (simp add: patient_def)
  next
    fix t v1 assume c: "clock v = (Inr t, v1)" "clk v \<le> clk v1"
    have t: "t = clk v" using p c(1) unfolding patient_def by (metis Inr_inject fst_conv)
    show "runs clk (if deadline \<le> t then araise (SafeguardError ''CloudWatch active-call samples did not converge'')
        else abind (sleep 10) ?rest) v1"
    proof (cases "deadline \<le> t")
      case True
      then show ?thesis by (simp add: no_fuel_def)
    next
      case False
      have s: "fst (sleep 10 v1) \<noteq> Inl no_fuel" "clk v1 + 10 \<le> clk (snd (sleep 10 v1))" using p by (simp_all add: patient_def)
      have "runs clk (abind (sleep 10) ?rest) v1"
      proof (rule runs_bind)
        show "runs clk (sleep 10) v1" using s unfolding runs_def by simp
      next
        fix x v2 assume "sleep 10 v1 = (Inr x, v2)"
        with s(2) have v2: "clk v1 + 10 \<le> clk v2" by simp
        from False t v Suc.prems(2) have "n \<noteq> 0" by (intro notI) simp
        moreover have "deadline - clk v2 \<le> 10 * (of_nat n - 1)"
          using v2 c(2) v Suc.prems(2) unfolding right_diff_distrib by simp
        ultimately show "runs clk (sample_loop n aws sleep clock i a b required deadline) v2" by (intro Suc.IH) simp_all
      qed
      with False show ?thesis by simp
    qed
  qed
  show ?case
    unfolding sample_loop.simps(2)
    by (intro runs_bind runs_metric [OF p]) (auto intro: again order_trans)
qed simp

text \<open>With the fuel of the definition the wait is over before it lacks any, whatever CloudWatch answers.\<close>

lemma samples_end:
  assumes p: "patient aws sleep clock clk" and t: "t \<le> clk w"
  shows "fst (sample_loop (sample_fuel seconds) aws sleep clock i a b required (t + of_int seconds) w) \<noteq> Inl no_fuel"
proof -
  have "seconds \<le> 10 * (int (sample_fuel seconds) - 1)" unfolding sample_fuel_def by simp
  hence "(of_int seconds :: rat) \<le> of_int (10 * (int (sample_fuel seconds) - 1))" by (simp only: of_int_le_iff)
  with t have "t + of_int seconds - clk w \<le> 10 * (of_nat (sample_fuel seconds) - 1)" by simp
  from runs_samples [OF p _ this] show ?thesis by (simp add: runs_def sample_fuel_def)
qed

text \<open>A call of half a minute.\<close>

definition demo_tm :: telemetry_input where
  "demo_tm = \<lparr>tm_execution = lit ''e'', tm_instance = lit ''i-1'', tm_type = lit ''t4g.small'', tm_vcpus = 2, tm_memory = 2048,
     tm_log_group = lit ''g'', tm_started = lit ''2026-01-01T10:00:00Z'', tm_ended = lit ''2026-01-01T10:00:30Z'', tm_seconds = 180\<rparr>"

definition demo_point :: "string \<Rightarrow> int \<Rightarrow> int \<Rightarrow> pyval" where
  "demo_point t lo hi = obj [(''Timestamp'', text_val t), (''Minimum'', VInt lo), (''Maximum'', VInt hi)]"

definition demo_metric :: "int \<Rightarrow> int \<Rightarrow> pyval" where
  "demo_metric lo hi = obj [(''Datapoints'', VList [demo_point ''2026-01-01T10:00:00Z'' lo hi, demo_point ''2026-01-01T10:00:30Z'' lo hi])]"

definition no_events :: pyval where "no_events = obj [(''events'', VList [])]"

lemma demo_bounds:
  "parse_timestamp (VStr (lit ''2026-01-01T10:00:00Z'')) l = Inr 1767261600000000"
  "parse_timestamp (VStr (lit ''2026-01-01T10:00:30Z'')) l = Inr 1767261630000000"
  by (simp_all add: parse_timestamp_def demo_iso EPOCH_def)

lemma demo_points:
  assumes "0 < lo" "lo < 1000" "0 < hi" "hi < 1000"
  shows "points_of (demo_metric lo hi) = Inr
    [\<lparr>point_time = 1767261600000000, point_minimum = of_int lo, point_maximum = of_int hi\<rparr>,
     \<lparr>point_time = 1767261630000000, point_minimum = of_int lo, point_maximum = of_int hi\<rparr>]"
proof -
  have "nearest_double (of_int lo) = Fin (of_int lo)" "nearest_double (of_int hi) = Fin (of_int hi)"
    using assms by (simp_all add: nearest_double_int)
  then show ?thesis
    by (simp add: points_of_def demo_metric_def demo_point_def obj_def text_val_def metric_point_def finite_number_def demo_bounds
        MAX_CLOUDWATCH_DATAPOINTS_def Let_def)
qed

lemma demo_metric_points:
  assumes "0 < lo" "lo < 1000" "0 < hi" "hi < 1000"
  shows "\<exists>us. metric_points (aws_log in_turn) metric i 1767261600000000 1767261630000000 (demo_metric lo hi # xs, tr) = (Inr
    [\<lparr>point_time = 1767261600000000, point_minimum = of_int lo, point_maximum = of_int hi\<rparr>,
     \<lparr>point_time = 1767261630000000, point_minimum = of_int lo, point_maximum = of_int hi\<rparr>], (xs, tr @ us))"
  by (simp add: metric_points_def abind_def log_step demo_points [OF assms] seconds_later_def EPOCH_def)

lemma demo_telemetry:
  "\<exists>doc tr. collect_active_call_telemetry (aws_log in_turn) (unlogged (\<lambda>_. aret ())) (unlogged (\<lambda>_. aret 0) ()) demo_tm
     ([demo_metric 90 95, demo_metric 20 30, no_events], []) = (Inr doc, ([], tr))"
proof -
  have secs: "total_seconds 30000000 = 30" "rounded 3 = 3" "rounded 10 = 10"
    using nearest_double_int [of 30] nearest_double_int [of 3] nearest_double_int [of 10]
    by (simp_all add: total_seconds_def rounded_def)
  have req: "required_samples 30 = 2" using secs by (simp add: required_samples_def)
  obtain us where m1: "metric_points (aws_log in_turn) ''cpu_usage_idle'' (tm_instance demo_tm) 1767261600000000 1767261630000000
       (demo_metric 90 95 # [demo_metric 20 30, no_events], []) = (Inr
    [\<lparr>point_time = 1767261600000000, point_minimum = 90, point_maximum = 95\<rparr>,
     \<lparr>point_time = 1767261630000000, point_minimum = 90, point_maximum = 95\<rparr>], ([demo_metric 20 30, no_events], us))"
    using demo_metric_points [of 90 95] by force
  obtain vs where m2: "metric_points (aws_log in_turn) ''mem_used_percent'' (tm_instance demo_tm) 1767261600000000 1767261630000000
       (demo_metric 20 30 # [no_events], us) = (Inr
    [\<lparr>point_time = 1767261600000000, point_minimum = 20, point_maximum = 30\<rparr>,
     \<lparr>point_time = 1767261630000000, point_minimum = 20, point_maximum = 30\<rparr>], ([no_events], us @ vs))"
    using demo_metric_points [of 20 30] by force
  have fuel: "sample_fuel 180 = Suc 19" by (simp add: sample_fuel_def)
  have loop: "sample_loop (Suc n) (aws_log in_turn) (unlogged (\<lambda>_. aret ())) (unlogged (\<lambda>_. aret 0) ()) (tm_instance demo_tm)
      1767261600000000 1767261630000000 2 deadline ([demo_metric 90 95, demo_metric 20 30, no_events], []) =
     (Inr ([\<lparr>point_time = 1767261600000000, point_minimum = 90, point_maximum = 95\<rparr>,
        \<lparr>point_time = 1767261630000000, point_minimum = 90, point_maximum = 95\<rparr>],
       [\<lparr>point_time = 1767261600000000, point_minimum = 20, point_maximum = 30\<rparr>,
        \<lparr>point_time = 1767261630000000, point_minimum = 20, point_maximum = 30\<rparr>]), ([no_events], us @ vs))" for n deadline
    using m1 m2 by (simp add: abind_def covers_def)
  have ev: "start_events no_events = Inr 0"
    by (simp add: start_events_def no_events_def obj_def Let_def)
  have s: "tm_started demo_tm = lit ''2026-01-01T10:00:00Z''" "tm_ended demo_tm = lit ''2026-01-01T10:00:30Z''" "tm_seconds demo_tm = 180"
    by (simp_all add: demo_tm_def)
  have clock: "unlogged (\<lambda>_. aret 0) () (xs, tr) = (Inr 0, (xs, tr))" for xs :: "pyval list" and tr
    by (simp add: unlogged_def)
  show ?thesis
    unfolding collect_active_call_telemetry_def s demo_bounds fuel abind_def
    by (simp add: secs req clock) (simp add: loop [of 19, simplified] log_step ev telemetry_value_def cpu_peak_def memory_peak_def secs Let_def)
qed

theorem telemetry_was_measured_witness:
  "\<exists>doc tr idle. collect_active_call_telemetry (aws_log in_turn) (unlogged (\<lambda>_. aret ())) (unlogged (\<lambda>_. aret 0) ()) demo_tm
     ([demo_metric 90 95, demo_metric 20 30, no_events], []) = (Inr doc, ([], tr)) \<and>
     measured tr ''cpu_usage_idle'' (tm_instance demo_tm) 1767261600000000 1767261630000000 idle"
proof -
  from demo_telemetry obtain doc tr where run: "collect_active_call_telemetry (aws_log in_turn) (unlogged (\<lambda>_. aret ()))
     (unlogged (\<lambda>_. aret 0) ()) demo_tm ([demo_metric 90 95, demo_metric 20 30, no_events], []) = (Inr doc, ([], tr))"
    by (elim exE)
  from telemetry_was_measured [OF run] obtain start stop idle where
    "parse_timestamp (VStr (tm_started demo_tm)) ''active-call start'' = Inr start"
    "parse_timestamp (VStr (tm_ended demo_tm)) ''active-call end'' = Inr stop"
    "measured tr ''cpu_usage_idle'' (tm_instance demo_tm) start stop idle" by (elim exE conjE)
  moreover from this(1,2) have "start = 1767261600000000" "stop = 1767261630000000"
    by (simp_all add: demo_tm_def demo_bounds)
  ultimately show ?thesis using run by blast
qed

end
