(* ===== verification/Journal.thy ===== *)
theory Journal imports DirectWeb InventorySafety begin

text \<open>
  The sealed records of \<open>qualification/controller.py\<close>: what a run intends to create at Vapi, that it was
  authorized to send the request, and what it owns afterwards.  Each carries the SHA-256 of its
  identity fields.  The clock's text is an argument.
\<close>

section \<open>Names and digests\<close>

definition qualification_error :: "string \<Rightarrow> exn" where
  "qualification_error m = QualificationError ''QualificationError'' m"

definition REGIONS :: "pystr list" where "REGIONS = [lit ''us-west-2'', lit ''us-east-1'']"

text \<open>\<open>region in REGIONS\<close> hashes the value.\<close>

definition known_region :: "pyval \<Rightarrow> bool result" where
  "known_region v = (if is_list v \<or> is_dict v then Inl (PyError ''TypeError'') else Inr (v \<in> VStr ` set REGIONS))"

definition EXECUTION_ID :: "pystr \<Rightarrow> bool" where
  "EXECUTION_ID s \<longleftrightarrow> starts_with s (lit ''bfq-'') \<and>
     class_match (\<lambda>c. is_lower c \<or> is_digit c \<or> c = 45) 4 20 (drop 4 s)"

definition RESOURCE_ID :: "pystr \<Rightarrow> bool" where
  "RESOURCE_ID s \<longleftrightarrow> class_match id_char 1 128 s"

definition SHA256 :: "pystr \<Rightarrow> bool" where
  "SHA256 s \<longleftrightarrow> class_match is_hex_lower 64 64 s"

definition sip_username :: "pystr \<Rightarrow> bool" where
  "sip_username s \<longleftrightarrow> starts_with s (lit ''bfq_'') \<and> class_match is_hex_lower 16 16 (drop 4 s)"

text \<open>\<open>[0-9]{4}-[0-9]{2}-[0-9]{2}T[0-9:.]+Z\<close>.\<close>

definition time_text :: "pystr \<Rightarrow> bool" where
  "time_text s \<longleftrightarrow>
     13 \<le> length s \<and> list_all is_digit (take 4 s @ take 2 (drop 5 s) @ take 2 (drop 8 s)) \<and>
     s ! 4 = 45 \<and> s ! 7 = 45 \<and> s ! 10 = 84 \<and> last s = 90 \<and>
     list_all (\<lambda>c. is_digit c \<or> c = 58 \<or> c = 46) (butlast (drop 11 s))"

definition utc_now :: "int \<Rightarrow> pystr" where
  "utc_now t = utc_text t"

text \<open>\<open>created_at or utc_now()\<close>.\<close>

definition stamp_or :: "pystr option \<Rightarrow> pystr \<Rightarrow> pystr" where
  "stamp_or given now = (case given of Some s \<Rightarrow> (if s \<noteq> [] then s else now) | None \<Rightarrow> now)"

definition sealed_sha256 :: "pydict \<Rightarrow> pystr result" where
  "sealed_sha256 d = rbind (utf8_encode (json_dumps sorted_compact (VDict d))) (\<lambda>bs. Inr (hexdigest (sha256 bs)))"

section \<open>Comparing documents\<close>

text \<open>Every value that is desired is there, with more keys at any depth of objects.\<close>

function desired_payload_present :: "pyval \<Rightarrow> pyval \<Rightarrow> bool" where
  "desired_payload_present actual desired =
     (case desired of
        VDict e \<Rightarrow>
          (case actual of
             VDict d \<Rightarrow> list_all (\<lambda>p. case map_of d (fst p) of
                 None \<Rightarrow> False | Some v \<Rightarrow> desired_payload_present v (snd p)) e
           | _ \<Rightarrow> False)
      | VList ys \<Rightarrow> is_list actual \<and> py_eq actual (VList ys)
      | _ \<Rightarrow> py_eq actual desired)"
  by pat_completeness auto
termination
proof (relation "measure (\<lambda>(a, b). size b)", simp, clarify)
  fix e :: pydict and k v
  assume "(k, v) \<in> set e"
  then show "((x, snd (k, v)), actual, VDict e) \<in> measure (\<lambda>(a, b). size b)" for x actual
    by (induction e) auto
qed

declare desired_payload_present.simps [simp del]

definition TOOL_SURFACE :: "string list" where
  "TOOL_SURFACE = [''type'', ''function'', ''server'', ''parameters'']"

definition TOOL_KEYS :: "string list" where
  "TOOL_KEYS = [''id'', ''orgId'', ''createdAt'', ''updatedAt'', ''latestVersion''] @ TOOL_SURFACE"

definition empty_or_id :: "pyval \<Rightarrow> bool" where
  "empty_or_id v \<longleftrightarrow> v \<in> {VNone, VStr []} \<or> (\<exists>s\<in>set [str_of v]. v = VStr s \<and> RESOURCE_ID s)"

definition direct_tool_surface_matches :: "pydict \<Rightarrow> pydict \<Rightarrow> bool" where
  "direct_tool_surface_matches actual desired \<longleftrightarrow>
     keys desired = set (map lit TOOL_SURFACE) \<and> keys actual \<subseteq> set (map lit TOOL_KEYS) \<and>
     empty_or_id (get_key actual ''orgId'') \<and> empty_or_id (get_key actual ''latestVersion'') \<and>
     list_all (\<lambda>k. get_key actual k = VNone \<or> is_str (get_key actual k)) [''createdAt'', ''updatedAt''] \<and>
     list_all (\<lambda>p. py_eq (case map_of actual (fst p) of None \<Rightarrow> VNone | Some v \<Rightarrow> v) (snd p)) desired"

section \<open>The temporary endpoint\<close>

definition vapi_phone_owned_name :: "pystr \<Rightarrow> pystr result" where
  "vapi_phone_owned_name execution =
     (if \<not> EXECUTION_ID execution then Inl (qualification_error ''execution ID is invalid'')
      else
      (let name = lit ''BFQ '' @ execution @ lit '' SIP smoke'' in
       if 40 < length name then Inl (qualification_error ''temporary Vapi endpoint name is invalid'') else Inr name))"

text \<open>The authentication is a mapping of texts.\<close>

definition vapi_phone_intent :: "pystr \<Rightarrow> pystr \<Rightarrow> (pystr \<times> pystr) list \<Rightarrow> pydict result" where
  "vapi_phone_intent execution assistant auth =
     (if keys auth \<noteq> set (map lit [''realm'', ''username'', ''password''])
      then Inl (qualification_error ''Vapi SIP authentication has an invalid shape'')
      else
      (let field = (\<lambda>k. case map_of auth (lit k) of Some s \<Rightarrow> s | None \<Rightarrow> []);
           user = field ''username''; secret = field ''password'' in
       if \<not> RESOURCE_ID assistant \<or> field ''realm'' \<noteq> lit ''sip.vapi.ai'' \<or> \<not> sip_username user \<or>
          \<not> (16 \<le> length secret \<and> length secret \<le> 40) \<or> list_ex (\<lambda>c. c \<le> 32 \<or> c = 127) secret
       then Inl (qualification_error ''Vapi SIP authentication is invalid'')
       else
       rbind (vapi_phone_owned_name execution) (\<lambda>name.
       Inr (mk [(''name'', VStr name), (''assistant_id'', VStr assistant),
         (''sip_uri'', VStr (lit ''sip:'' @ user @ lit ''@sip.vapi.ai'')),
         (''authentication_realm'', VStr (field ''realm'')), (''authentication_username'', VStr user)]))))"

definition vapi_phone_matches_intent :: "pydict \<Rightarrow> pydict \<Rightarrow> bool" where
  "vapi_phone_matches_intent phone intent \<longleftrightarrow>
     is_str (get_key phone ''id'') \<and> RESOURCE_ID (str_of (get_key phone ''id'')) \<and>
     get_key phone ''provider'' = VStr (lit ''vapi'') \<and>
     py_eq (get_key phone ''name'') (get_key intent ''name'') \<and>
     py_eq (get_key phone ''assistantId'') (get_key intent ''assistant_id'') \<and>
     py_eq (get_key phone ''sipUri'') (get_key intent ''sip_uri'') \<and>
     (case get_key phone ''authentication'' of
        VNone \<Rightarrow> True
      | VDict a \<Rightarrow>
          list_all (\<lambda>(k, j). \<not> has_key a k \<or> py_eq (get_key a k) (get_key intent j))
            [(''realm'', ''authentication_realm''), (''username'', ''authentication_username'')]
      | _ \<Rightarrow> False)"

section \<open>Sealed records of the endpoint\<close>

definition PHONE_INTENT_PRODUCER :: pystr where "PHONE_INTENT_PRODUCER = lit ''bridgefu-vapi-phone-intent@1''"
definition PHONE_OWNERSHIP_PRODUCER :: pystr where "PHONE_OWNERSHIP_PRODUCER = lit ''bridgefu-vapi-phone-ownership@1''"
definition PHONE_REQUEST_PRODUCER :: pystr where "PHONE_REQUEST_PRODUCER = lit ''bridgefu-vapi-phone-request@1''"

text \<open>A record: its identity fields between a head and a seal.\<close>

definition sealed :: "pystr \<Rightarrow> pydict \<Rightarrow> pydict \<Rightarrow> string \<Rightarrow> pystr \<Rightarrow> string \<Rightarrow> pystr \<Rightarrow> pydict" where
  "sealed producer own others digest_key digest time_key time =
     mk [(''schema_version'', VInt 1), (''producer'', VStr producer)] @ own @ others @
     mk [(digest_key, VStr digest), (time_key, VStr time), (''redacted'', VBool True)]"

definition phone_intent_fields :: "pyval \<Rightarrow> pyval \<Rightarrow> pyval \<Rightarrow> pyval \<Rightarrow> pyval \<Rightarrow> pyval \<Rightarrow> pyval \<Rightarrow> pydict" where
  "phone_intent_fields execution region name assistant sip_at realm user =
     mk [(''execution_id'', execution), (''region'', region), (''resource_type'', VStr (lit ''phone-number'')),
       (''owned_name'', name), (''assistant_id'', assistant), (''sip_uri'', sip_at),
       (''authentication_realm'', realm), (''authentication_username'', user)]"

definition PHONE_INTENT_KEYS :: "string list" where
  "PHONE_INTENT_KEYS =
     [''schema_version'', ''producer'', ''execution_id'', ''region'', ''resource_type'', ''owned_name'', ''assistant_id'',
      ''sip_uri'', ''authentication_realm'', ''authentication_username'', ''intent_sha256'', ''created_at'', ''redacted'']"

text \<open>\<open>isinstance(v, str) and p(v)\<close>.\<close>

definition text_with :: "(pystr \<Rightarrow> bool) \<Rightarrow> pyval \<Rightarrow> bool" where
  "text_with p v \<longleftrightarrow> is_str v \<and> p (str_of v)"

text \<open>The conditions in front of the region, which may raise, and those behind it.\<close>

definition record_head :: "pydict \<Rightarrow> pystr \<Rightarrow> bool" where
  "record_head d producer \<longleftrightarrow>
     py_eq (get_key d ''schema_version'') (VInt 1) \<and> get_key d ''producer'' = VStr producer \<and>
     get_key d ''resource_type'' = VStr (lit ''phone-number'') \<and> get_key d ''redacted'' = VBool True \<and>
     text_with EXECUTION_ID (get_key d ''execution_id'')"

definition phone_intent_ok :: "pydict \<Rightarrow> pystr \<Rightarrow> bool" where
  "phone_intent_ok d name \<longleftrightarrow>
     get_key d ''owned_name'' = VStr name \<and> text_with RESOURCE_ID (get_key d ''assistant_id'') \<and>
     get_key d ''authentication_realm'' = VStr (lit ''sip.vapi.ai'') \<and>
     text_with sip_username (get_key d ''authentication_username'') \<and>
     get_key d ''sip_uri'' = VStr (lit ''sip:'' @ str_of (get_key d ''authentication_username'') @ lit ''@sip.vapi.ai'') \<and>
     text_with time_text (get_key d ''created_at'')"

definition validate_vapi_phone_intent_journal :: "pyval \<Rightarrow> pydict result" where
  "validate_vapi_phone_intent_journal v =
     (let shape = qualification_error ''temporary Vapi endpoint intent shape is invalid'';
          bad = qualification_error ''temporary Vapi endpoint intent is invalid'' in
      rbind (expect_dict shape v) (\<lambda>d.
      if keys d \<noteq> set (map lit PHONE_INTENT_KEYS) then Inl shape
      else if \<not> record_head d PHONE_INTENT_PRODUCER then Inl bad
      else
      rbind (known_region (get_key d ''region'')) (\<lambda>known.
      if \<not> known then Inl bad
      else
      rbind (vapi_phone_owned_name (str_of (get_key d ''execution_id''))) (\<lambda>name.
      if \<not> phone_intent_ok d name then Inl bad
      else
      rbind (sealed_sha256 (phone_intent_fields (get_key d ''execution_id'') (get_key d ''region'') (get_key d ''owned_name'')
          (get_key d ''assistant_id'') (get_key d ''sip_uri'') (get_key d ''authentication_realm'')
          (get_key d ''authentication_username''))) (\<lambda>h.
      if get_key d ''intent_sha256'' \<noteq> VStr h
      then Inl (qualification_error ''temporary Vapi endpoint intent hash is invalid'') else Inr d)))))"

definition vapi_phone_intent_journal :: "pystr \<Rightarrow> pystr \<Rightarrow> pydict \<Rightarrow> pystr option \<Rightarrow> pystr \<Rightarrow> pydict result" where
  "vapi_phone_intent_journal execution region intent created now =
     (let own = phone_intent_fields (VStr execution) (VStr region) (get_key intent ''name'') (get_key intent ''assistant_id'')
          (get_key intent ''sip_uri'') (get_key intent ''authentication_realm'') (get_key intent ''authentication_username'') in
      rbind (sealed_sha256 own) (\<lambda>h.
      validate_vapi_phone_intent_journal
        (VDict (sealed PHONE_INTENT_PRODUCER own [] ''intent_sha256'' h ''created_at'' (stamp_or created now)))))"

text \<open>What a run owns: the endpoint's identifier as Vapi gave it.\<close>

definition phone_owned_fields :: "pyval \<Rightarrow> pyval \<Rightarrow> pyval \<Rightarrow> pyval \<Rightarrow> pyval \<Rightarrow> pydict" where
  "phone_owned_fields execution region phone assistant name =
     mk [(''execution_id'', execution), (''region'', region), (''resource_type'', VStr (lit ''phone-number'')),
       (''phone_id'', phone), (''assistant_id'', assistant), (''owned_name'', name)]"

definition PHONE_OWNERSHIP_KEYS :: "string list" where
  "PHONE_OWNERSHIP_KEYS =
     [''schema_version'', ''producer'', ''execution_id'', ''region'', ''resource_type'', ''phone_id'', ''assistant_id'',
      ''owned_name'', ''ownership_sha256'', ''created_at'', ''redacted'']"

definition phone_ownership_ok :: "pydict \<Rightarrow> pystr \<Rightarrow> bool" where
  "phone_ownership_ok d name \<longleftrightarrow>
     text_with RESOURCE_ID (get_key d ''phone_id'') \<and> text_with RESOURCE_ID (get_key d ''assistant_id'') \<and>
     get_key d ''owned_name'' = VStr name \<and> text_with time_text (get_key d ''created_at'')"

definition validate_vapi_phone_ownership_journal :: "pyval \<Rightarrow> pydict result" where
  "validate_vapi_phone_ownership_journal v =
     (let shape = qualification_error ''temporary Vapi endpoint journal shape is invalid'';
          bad = qualification_error ''temporary Vapi endpoint journal is invalid'' in
      rbind (expect_dict shape v) (\<lambda>d.
      if keys d \<noteq> set (map lit PHONE_OWNERSHIP_KEYS) then Inl shape
      else if \<not> record_head d PHONE_OWNERSHIP_PRODUCER then Inl bad
      else
      rbind (known_region (get_key d ''region'')) (\<lambda>known.
      if \<not> known then Inl bad
      else
      rbind (vapi_phone_owned_name (str_of (get_key d ''execution_id''))) (\<lambda>name.
      if \<not> phone_ownership_ok d name then Inl bad
      else
      rbind (sealed_sha256 (phone_owned_fields (get_key d ''execution_id'') (get_key d ''region'')
          (get_key d ''phone_id'') (get_key d ''assistant_id'') (get_key d ''owned_name''))) (\<lambda>h.
      if get_key d ''ownership_sha256'' \<noteq> VStr h
      then Inl (qualification_error ''temporary Vapi endpoint journal hash is invalid'') else Inr d)))))"

definition vapi_phone_ownership_journal :: "pystr \<Rightarrow> pystr \<Rightarrow> pystr \<Rightarrow> pystr \<Rightarrow> pystr option \<Rightarrow> pystr \<Rightarrow> pydict result" where
  "vapi_phone_ownership_journal execution region phone assistant created now =
     (if \<not> EXECUTION_ID execution \<or> region \<notin> set REGIONS \<or> \<not> RESOURCE_ID phone \<or> \<not> RESOURCE_ID assistant
      then Inl (qualification_error ''temporary Vapi endpoint ownership is invalid'')
      else
      rbind (vapi_phone_owned_name execution) (\<lambda>name.
      let own = phone_owned_fields (VStr execution) (VStr region) (VStr phone) (VStr assistant) (VStr name) in
      rbind (sealed_sha256 own) (\<lambda>h.
      validate_vapi_phone_ownership_journal
        (VDict (sealed PHONE_OWNERSHIP_PRODUCER own [] ''ownership_sha256'' h ''created_at'' (stamp_or created now))))))"

text \<open>The authorization of one request: its nonce is 32 hexadecimal digits.\<close>

definition request_fields :: "pydict \<Rightarrow> pyval \<Rightarrow> pystr \<Rightarrow> pydict" where
  "request_fields intent kind nonce =
     mk [(''execution_id'', get_key intent ''execution_id''), (''region'', get_key intent ''region''),
       (''resource_type'', kind), (''intent_sha256'', get_key intent ''intent_sha256''),
       (''request_nonce'', VStr nonce), (''attempt_state'', VStr (lit ''authorized''))]"

definition request_nonce :: "pystr \<Rightarrow> bool" where
  "request_nonce s \<longleftrightarrow> class_match is_hex_lower 32 32 s"

definition vapi_phone_request_journal :: "pydict \<Rightarrow> pystr \<Rightarrow> pystr option \<Rightarrow> pystr \<Rightarrow> pydict result" where
  "vapi_phone_request_journal intent nonce authorized now =
     rbind (validate_vapi_phone_intent_journal (VDict intent)) (\<lambda>_.
     if \<not> request_nonce nonce then Inl (qualification_error ''temporary Vapi endpoint request is invalid'')
     else
     (let own = request_fields intent (VStr (lit ''phone-number'')) nonce in
      rbind (sealed_sha256 own) (\<lambda>h.
      Inr (sealed PHONE_REQUEST_PRODUCER own [] ''request_sha256'' h ''authorized_at'' (stamp_or authorized now)))))"

section \<open>Sealed records of the direct tool and assistant\<close>

definition DIRECT_TOOL_INTENT_PRODUCER :: pystr where
  "DIRECT_TOOL_INTENT_PRODUCER = lit ''bridgefu-vapi-direct-tool-intent@1''"
definition DIRECT_TOOL_REQUEST_PRODUCER :: pystr where
  "DIRECT_TOOL_REQUEST_PRODUCER = lit ''bridgefu-vapi-direct-tool-request@1''"
definition DIRECT_TOOL_OWNERSHIP_PRODUCER :: pystr where
  "DIRECT_TOOL_OWNERSHIP_PRODUCER = lit ''bridgefu-vapi-direct-tool-ownership@1''"
definition DIRECT_ASSISTANT_INTENT_PRODUCER :: pystr where
  "DIRECT_ASSISTANT_INTENT_PRODUCER = lit ''bridgefu-vapi-direct-assistant-intent@1''"
definition DIRECT_ASSISTANT_REQUEST_PRODUCER :: pystr where
  "DIRECT_ASSISTANT_REQUEST_PRODUCER = lit ''bridgefu-vapi-direct-assistant-request@1''"
definition DIRECT_ASSISTANT_OWNERSHIP_PRODUCER :: pystr where
  "DIRECT_ASSISTANT_OWNERSHIP_PRODUCER = lit ''bridgefu-vapi-direct-assistant-ownership@1''"

text \<open>\<open>json.loads(json.dumps(desired))\<close> and its digest.\<close>

definition desired_copy :: "pydict \<Rightarrow> (pyval \<times> pystr) result" where
  "desired_copy d =
     rbind (json_loads (json_dumps default_opts (VDict d))) (\<lambda>v.
     rbind (canonical_sha256 v) (\<lambda>h. Inr (v, h)))"

definition direct_tool_intent_journal ::
    "pystr \<Rightarrow> pystr \<Rightarrow> pystr \<Rightarrow> pystr \<Rightarrow> pydict \<Rightarrow> pystr option \<Rightarrow> pystr \<Rightarrow> pydict result" where
  "direct_tool_intent_journal execution region endpoint credential desired created now =
     (if \<not> EXECUTION_ID execution \<or> region \<notin> set REGIONS \<or> \<not> RESOURCE_ID credential \<or>
         \<not> direct_tool_owned desired execution endpoint credential
      then Inl (qualification_error ''direct Vapi tool intent is invalid'')
      else
      rbind (desired_copy desired) (\<lambda>(copy, digest).
      let own = mk [(''execution_id'', VStr execution), (''region'', VStr region), (''resource_type'', VStr (lit ''tool'')),
            (''endpoint_url'', VStr endpoint), (''credential_id'', VStr credential), (''desired_sha256'', VStr digest)] in
      rbind (sealed_sha256 own) (\<lambda>h.
      Inr (sealed DIRECT_TOOL_INTENT_PRODUCER own (mk [(''desired'', copy)]) ''intent_sha256'' h ''created_at''
        (stamp_or created now)))))"

text \<open>\<open>intent[k]\<close> for each key, and a constant between them.\<close>

definition intent_items :: "pydict \<Rightarrow> string list \<Rightarrow> pydict result" where
  "intent_items d ks =
     (if list_all (has_key d) ks then Inr (mk (map (\<lambda>k. (k, get_key d k)) ks)) else Inl (PyError ''KeyError''))"

definition owned_items :: "pydict \<Rightarrow> string list \<Rightarrow> pydict \<Rightarrow> string list \<Rightarrow> pydict result" where
  "owned_items intent front middle back =
     rbind (intent_items intent front) (\<lambda>a. rbind (intent_items intent back) (\<lambda>b. Inr (a @ middle @ b)))"

definition direct_tool_ownership_journal :: "pydict \<Rightarrow> pyval \<Rightarrow> pystr option \<Rightarrow> pystr \<Rightarrow> pydict result" where
  "direct_tool_ownership_journal intent tool created now =
     (if get_key intent ''producer'' \<noteq> VStr DIRECT_TOOL_INTENT_PRODUCER \<or> \<not> text_with RESOURCE_ID tool
      then Inl (qualification_error ''direct Vapi tool ownership is invalid'')
      else
      rbind (owned_items intent [''execution_id'', ''region'']
          (mk [(''resource_type'', VStr (lit ''tool'')), (''tool_id'', tool)])
          [''endpoint_url'', ''credential_id'', ''desired_sha256'', ''intent_sha256'']) (\<lambda>own.
      rbind (sealed_sha256 own) (\<lambda>h.
      Inr (sealed DIRECT_TOOL_OWNERSHIP_PRODUCER own [] ''ownership_sha256'' h ''created_at'' (stamp_or created now)))))"

text \<open>\<open>{"tool": ..., "assistant": ...}.get(resource_type)\<close> hashes the value.\<close>

definition request_producers :: "pyval \<Rightarrow> (pystr \<times> pystr) option result" where
  "request_producers kind =
     (if is_list kind \<or> is_dict kind then Inl (PyError ''TypeError'')
      else Inr
        (if kind = VStr (lit ''tool'') then Some (DIRECT_TOOL_REQUEST_PRODUCER, DIRECT_TOOL_INTENT_PRODUCER)
         else if kind = VStr (lit ''assistant'')
         then Some (DIRECT_ASSISTANT_REQUEST_PRODUCER, DIRECT_ASSISTANT_INTENT_PRODUCER) else None))"

definition direct_vapi_request_journal :: "pydict \<Rightarrow> pyval \<Rightarrow> pystr option \<Rightarrow> pystr \<Rightarrow> pydict result" where
  "direct_vapi_request_journal intent nonce authorized now =
     (let kind = get_key intent ''resource_type'';
          bad = qualification_error ''direct Vapi request authorization is invalid'' in
      rbind (request_producers kind) (\<lambda>named.
      case named of None \<Rightarrow> Inl bad
      | Some (producer, expected) \<Rightarrow>
          if get_key intent ''producer'' \<noteq> VStr expected \<or> \<not> text_with EXECUTION_ID (get_key intent ''execution_id'')
          then Inl bad
          else
          rbind (known_region (get_key intent ''region'')) (\<lambda>known.
          if \<not> known \<or> \<not> text_with SHA256 (get_key intent ''intent_sha256'') \<or> \<not> text_with request_nonce nonce
          then Inl bad
          else
          (let own = request_fields intent kind (str_of nonce) in
           rbind (sealed_sha256 own) (\<lambda>h.
           Inr (sealed producer own [] ''request_sha256'' h ''authorized_at'' (stamp_or authorized now)))))))"

definition direct_assistant_intent_journal ::
    "pystr \<Rightarrow> pystr \<Rightarrow> pystr \<Rightarrow> pystr \<Rightarrow> pystr \<Rightarrow> pystr \<Rightarrow> pystr \<Rightarrow> pydict \<Rightarrow> pystr option \<Rightarrow> pystr \<Rightarrow> pydict result" where
  "direct_assistant_intent_journal execution region organization tool model voice prompt desired created now =
     (let bad = qualification_error ''direct Vapi assistant intent is invalid'' in
      if \<not> EXECUTION_ID execution \<or> region \<notin> set REGIONS \<or> \<not> RESOURCE_ID organization \<or> \<not> RESOURCE_ID tool \<or>
         \<not> SHA256 prompt
      then Inl bad
      else
      rbind (direct_assistant_owned desired execution tool prompt model voice) (\<lambda>owned.
      if \<not> owned then Inl bad
      else
      rbind (desired_copy desired) (\<lambda>(copy, digest).
      let own = mk [(''execution_id'', VStr execution), (''region'', VStr region),
            (''resource_type'', VStr (lit ''assistant'')), (''owned_name'', VStr (lit ''BFQ direct '' @ execution)),
            (''owner_marker'', VStr DIRECT_ASSISTANT_OWNER), (''tool_id'', VStr tool),
            (''organization_id'', VStr organization), (''model_name'', VStr model), (''voice_id'', VStr voice),
            (''prompt_sha256'', VStr prompt), (''desired_sha256'', VStr digest)] in
      rbind (sealed_sha256 own) (\<lambda>h.
      Inr (sealed DIRECT_ASSISTANT_INTENT_PRODUCER own (mk [(''desired'', copy)]) ''intent_sha256'' h ''created_at''
        (stamp_or created now))))))"

definition direct_assistant_ownership_journal :: "pydict \<Rightarrow> pyval \<Rightarrow> pystr option \<Rightarrow> pystr \<Rightarrow> pydict result" where
  "direct_assistant_ownership_journal intent assistant created now =
     (if get_key intent ''producer'' \<noteq> VStr DIRECT_ASSISTANT_INTENT_PRODUCER \<or> \<not> text_with RESOURCE_ID assistant
      then Inl (qualification_error ''direct Vapi assistant ownership is invalid'')
      else
      rbind (owned_items intent [''execution_id'', ''region'']
          (mk [(''resource_type'', VStr (lit ''assistant'')), (''assistant_id'', assistant)])
          [''owned_name'', ''owner_marker'', ''tool_id'', ''organization_id'', ''model_name'', ''voice_id'',
           ''prompt_sha256'', ''desired_sha256'', ''intent_sha256'']) (\<lambda>own.
      rbind (sealed_sha256 own) (\<lambda>h.
      Inr (sealed DIRECT_ASSISTANT_OWNERSHIP_PRODUCER own [] ''ownership_sha256'' h ''created_at''
        (stamp_or created now)))))"

end
