(* ===== verification/QualVapi.thy ===== *)
theory QualVapi imports Journal Telemetry begin

text \<open>
  The class \<open>Vapi\<close> of \<open>qualification/controller.py\<close>: requests, reading and listing, the exact deletion
  of an owned object with proof that it stays away, and the creation of the direct tool, the direct
  assistant and the SIP endpoint with reconciliation of a write that may have committed.  The opener and
  the clock are a record of actions on the world; seconds are rational numbers.
\<close>

section \<open>Requests\<close>

record 'w qv_io =
  qv_open :: "http_request \<Rightarrow> ('w, http_result) act"
  qv_clock :: "('w, rat) act"
  qv_sleep :: "rat \<Rightarrow> ('w, unit) act"

record qv_client =
  qv_key :: pystr
  qv_base :: pystr

definition VAPI_BASE_URL :: pystr where "VAPI_BASE_URL = lit ''https://api.vapi.ai''"

definition qv_client_init :: "pyval \<Rightarrow> pystr \<Rightarrow> qv_client result" where
  "qv_client_init key base =
     (if \<not> is_str key \<or> \<not> (8 \<le> length (str_of key) \<and> length (str_of key) \<le> 1024)
      then Inl (qualification_error ''Vapi private key is invalid'')
      else Inr \<lparr>qv_key = str_of key, qv_base = rstrip_if (\<lambda>c. c = 47) base\<rparr>)"

definition qv_writes :: "string \<Rightarrow> bool" where
  "qv_writes m \<longleftrightarrow> m \<in> set [''POST'', ''PUT'', ''PATCH'']"

definition ambiguous_write :: "string \<Rightarrow> exn" where
  "ambiguous_write m =
     QualificationError ''VapiAmbiguousWriteError'' (''Vapi API '' @ m @ '' write outcome is ambiguous'')"

definition qv_ambiguous :: "exn \<Rightarrow> bool" where
  "qv_ambiguous e = (case e of QualificationError k _ \<Rightarrow> k = ''VapiAmbiguousWriteError'' | _ \<Rightarrow> False)"

definition MAX_VAPI_RESPONSE :: nat where "MAX_VAPI_RESPONSE = 4194304"

definition qv_headers :: "qv_client \<Rightarrow> bool \<Rightarrow> (string \<times> pystr) list" where
  "qv_headers c with_body =
     [(''Authorization'', lit ''Bearer '' @ qv_key c), (''Accept'', lit ''application/json''),
      (''User-Agent'', lit ''bridgefu-release-qualification/1'')] @
     (if with_body then [(''Content-Type'', lit ''application/json'')] else [])"

definition qv_build :: "qv_client \<Rightarrow> string \<Rightarrow> pystr \<Rightarrow> pydict option \<Rightarrow> http_request result" where
  "qv_build c m target payload =
     (if \<not> starts_with target (lit ''/'') \<or> contains target (lit ''..'')
      then Inl (qualification_error ''Vapi API path is invalid'')
      else
      rbind (case payload of None \<Rightarrow> Inr [] | Some d \<Rightarrow> utf8_encode (json_dumps compact (VDict d))) (\<lambda>body.
      Inr \<lparr>req_method = m, req_url = qv_base c @ target, req_headers = qv_headers c (payload \<noteq> None), req_body = body\<rparr>))"

text \<open>An HTTP error's status, or the bytes read of the response.\<close>

definition qv_exchange :: "'w qv_io \<Rightarrow> http_request \<Rightarrow> ('w, int + byte list) act" where
  "qv_exchange io req =
     abind (qv_open io req) (\<lambda>r.
     case r of
       Answer _ body \<Rightarrow> abind (alift body) (\<lambda>bs. aret (Inr (take (MAX_VAPI_RESPONSE + 1) bs)))
     | HttpError code _ \<Rightarrow> aret (Inl code))"

definition unreachable :: "string \<Rightarrow> exn" where
  "unreachable m =
     (if qv_writes m then ambiguous_write m else qualification_error (''Vapi API '' @ m @ '' request failed''))"

definition qv_refused :: "string \<Rightarrow> int \<Rightarrow> exn" where
  "qv_refused m code =
     (if qv_writes m \<and> 500 \<le> code then ambiguous_write m
      else qualification_error (''Vapi API '' @ m @ '' failed with HTTP '' @ dec_string code))"

definition qv_json :: "string \<Rightarrow> byte list \<Rightarrow> pyval result" where
  "qv_json m raw =
     (if MAX_VAPI_RESPONSE < length raw
      then Inl (if qv_writes m then ambiguous_write m else qualification_error ''Vapi API response exceeded its bound'')
      else if raw = [] then Inr VNone
      else map_error (catch_as [json_error]
          (if qv_writes m then ambiguous_write m else qualification_error ''Vapi API returned invalid JSON''))
        (json_loads_bytes raw))"

definition qv_request :: "'w qv_io \<Rightarrow> qv_client \<Rightarrow> string \<Rightarrow> pystr \<Rightarrow> pydict option \<Rightarrow> bool \<Rightarrow> ('w, pyval) act" where
  "qv_request io c m target payload allow_missing =
     abind (alift (qv_build c m target payload)) (\<lambda>req.
     abind (acatch (qv_exchange io req) (\<lambda>e. araise (catch_as NETWORK_ERRORS (unreachable m) e))) (\<lambda>r.
     case r of
       Inl code \<Rightarrow> if allow_missing \<and> code = 404 then aret VNone else araise (qv_refused m code)
     | Inr raw \<Rightarrow> alift (qv_json m raw)))"

section \<open>Reading\<close>

definition qv_path :: "string \<Rightarrow> pystr \<Rightarrow> pystr" where
  "qv_path resource rid = lit (''/'' @ resource @ ''/'') @ rid"

definition qv_get :: "'w qv_io \<Rightarrow> qv_client \<Rightarrow> string \<Rightarrow> pystr \<Rightarrow> ('w, pydict option) act" where
  "qv_get io c resource rid =
     (if \<not> RESOURCE_ID rid then araise (qualification_error ''Vapi resource ID is invalid'')
      else
      abind (qv_request io c ''GET'' (qv_path resource rid) None True) (\<lambda>v.
      case v of
        VNone \<Rightarrow> aret None
      | VDict d \<Rightarrow> aret (Some d)
      | _ \<Rightarrow> araise (qualification_error ''Vapi API resource has an invalid shape'')))"

definition qv_objects :: "string \<Rightarrow> pyval \<Rightarrow> pydict list result" where
  "qv_objects message v =
     (if \<not> is_list v \<or> \<not> list_all is_dict (list_of v) then Inl (qualification_error message)
      else Inr (map dict_of (list_of v)))"

definition qv_list :: "'w qv_io \<Rightarrow> qv_client \<Rightarrow> string \<Rightarrow> int \<Rightarrow> ('w, pydict list) act" where
  "qv_list io c resource most =
     (if \<not> (1 \<le> most \<and> most \<le> 100) then araise (qualification_error ''Vapi API list limit is invalid'')
      else
      abind (qv_request io c ''GET'' (lit (''/'' @ resource @ ''?limit='' @ dec_string most)) None False) (\<lambda>v.
      alift (qv_objects ''Vapi API list has an invalid shape'' v)))"

text \<open>
  The filter of calls.  The time is an aware one in microseconds, \<open>None\<close> a naive one.  \<open>urlencode\<close> quotes
  a space as a plus sign.
\<close>

definition plus_byte :: "byte \<Rightarrow> pystr" where
  "plus_byte b = (if unat b = 32 then [43] else quote_byte b)"

definition quote_plus :: "pystr \<Rightarrow> pystr result" where
  "quote_plus s = rbind (utf8_encode s) (\<lambda>bs. Inr (concat (map plus_byte bs)))"

fun url_pairs :: "(string \<times> pystr) list \<Rightarrow> pystr list result" where
  "url_pairs [] = Inr []"
| "url_pairs ((k, v) # q) =
     rbind (quote_plus (lit k)) (\<lambda>a. rbind (quote_plus v) (\<lambda>b. rbind (url_pairs q) (\<lambda>r. Inr ((a @ [61] @ b) # r))))"

definition zulu :: "int \<Rightarrow> pystr" where
  "zulu t = take (length (iso_text t) - 6) (iso_text t) @ lit ''Z''"

definition call_query :: "pystr \<Rightarrow> int \<Rightarrow> pystr option \<Rightarrow> pystr option \<Rightarrow> int \<Rightarrow> (string \<times> pystr) list" where
  "call_query assistant t phone call most =
     [(''limit'', lit (dec_string most)), (''assistantId'', assistant), (''createdAtGe'', zulu t)] @
     (case phone of None \<Rightarrow> [] | Some p \<Rightarrow> [(''phoneNumberId'', p)]) @
     (case call of None \<Rightarrow> [] | Some i \<Rightarrow> [(''id'', i)])"

definition qv_list_calls ::
    "'w qv_io \<Rightarrow> qv_client \<Rightarrow> pystr \<Rightarrow> int option \<Rightarrow> pystr option \<Rightarrow> pystr option \<Rightarrow> int \<Rightarrow> ('w, pydict list) act" where
  "qv_list_calls io c assistant created phone call most =
     (let bad = qualification_error ''Vapi call filter is invalid'' in
      if \<not> RESOURCE_ID assistant \<or> \<not> pred_option RESOURCE_ID phone \<or> \<not> pred_option RESOURCE_ID call then araise bad
      else
      case created of
        None \<Rightarrow> araise bad
      | Some t \<Rightarrow>
          if \<not> (1 \<le> most \<and> most \<le> 100) then araise bad
          else
          abind (alift (url_pairs (call_query assistant t phone call most))) (\<lambda>ps.
          abind (qv_request io c ''GET'' (lit ''/call?'' @ join [38] ps) None False) (\<lambda>v.
          alift (qv_objects ''Vapi API call list has an invalid shape'' v))))"

section \<open>Deletion\<close>

definition VAPI_DELETE_TIMEOUT_SECONDS :: int where "VAPI_DELETE_TIMEOUT_SECONDS = 240"
definition VAPI_DELETE_STABLE_SECONDS :: rat where "VAPI_DELETE_STABLE_SECONDS = 90"

text \<open>\<open>remaining = deadline - time.monotonic()\<close>: give up, or sleep and go on.\<close>

definition qv_again :: "'w qv_io \<Rightarrow> rat \<Rightarrow> rat \<Rightarrow> ('w, 'a) act \<Rightarrow> ('w, 'a) act \<Rightarrow> ('w, 'a) act" where
  "qv_again io deadline poll over rest =
     abind (qv_clock io) (\<lambda>t.
     let remaining = deadline - t in
     if remaining \<le> 0 then over
     else abind (qv_sleep io (min poll remaining)) (\<lambda>_. rest))"

definition not_owned :: exn where "not_owned = qualification_error ''Vapi deletion target is not owned''"

text \<open>The loop, with the time since which the object has been absent; the fuel counts its rounds.\<close>

fun absence_loop ::
    "nat \<Rightarrow> 'w qv_io \<Rightarrow> qv_client \<Rightarrow> string \<Rightarrow> pystr \<Rightarrow> (pydict \<Rightarrow> bool result) \<Rightarrow> rat \<Rightarrow> rat \<Rightarrow> rat \<Rightarrow> rat option \<Rightarrow>
     ('w, unit) act" where
  "absence_loop 0 io c resource rid own deadline poll settle since = araise no_fuel"
| "absence_loop (Suc n) io c resource rid own deadline poll settle since =
     (let again = (\<lambda>s. qv_again io deadline poll
            (araise (qualification_error ''Vapi exact-resource deletion timed out''))
            (absence_loop n io c resource rid own deadline poll settle s))
      in
      abind (qv_get io c resource rid) (\<lambda>current.
      abind (qv_clock io) (\<lambda>now.
      case current of
        None \<Rightarrow>
          (let absent = (case since of None \<Rightarrow> now | Some s \<Rightarrow> s) in
           if settle \<le> now - absent then aret () else again (Some absent))
      | Some d \<Rightarrow>
          if get_key d ''id'' \<noteq> VStr rid then araise not_owned
          else
          abind (alift (own d)) (\<lambda>mine.
          if \<not> mine then araise not_owned
          else
          abind (qv_request io c ''DELETE'' (qv_path resource rid) None True) (\<lambda>_. again None)))))"

declare absence_loop.simps(2) [simp del]

definition delete_owned ::
    "nat \<Rightarrow> 'w qv_io \<Rightarrow> qv_client \<Rightarrow> string \<Rightarrow> pystr \<Rightarrow> (pydict \<Rightarrow> bool result) \<Rightarrow> int \<Rightarrow> rat \<Rightarrow> rat \<Rightarrow> ('w, unit) act" where
  "delete_owned n io c resource rid own timeout poll settle =
     (if \<not> RESOURCE_ID rid \<or> timeout \<le> 0 \<or> poll < 0 \<or> settle < 0 \<or> of_int timeout \<le> settle
      then araise (qualification_error ''Vapi deletion bound is invalid'')
      else
      abind (qv_clock io) (\<lambda>t.
      absence_loop n io c resource rid own (t + of_int timeout) poll settle None))"

section \<open>The direct tool\<close>

definition related_tool :: "pystr \<Rightarrow> pystr \<Rightarrow> pydict \<Rightarrow> bool" where
  "related_tool endpoint credential tool \<longleftrightarrow>
     (let server = get_key tool ''server''; f = get_key tool ''function'' in
      is_dict server \<and> safe_get server ''url'' = VStr endpoint \<or>
      is_dict server \<and> safe_get server ''credentialId'' = VStr credential \<and>
      is_dict f \<and> safe_get f ''name'' = VStr DIRECT_TOOL_NAME)"

definition tool_mine :: "pystr \<Rightarrow> pystr \<Rightarrow> pystr \<Rightarrow> pydict \<Rightarrow> pydict \<Rightarrow> bool" where
  "tool_mine execution endpoint credential desired d \<longleftrightarrow>
     direct_tool_owned d execution endpoint credential \<and> direct_tool_surface_matches d desired"

text \<open>The one related object of a list that is not full, when it is owned.\<close>

definition the_related :: "string \<Rightarrow> (pydict \<Rightarrow> bool) \<Rightarrow> (pydict \<Rightarrow> bool result) \<Rightarrow> pydict list \<Rightarrow> pydict option result" where
  "the_related kind related mine items =
     (if length items = 100
      then Inl (qualification_error (''direct Vapi '' @ kind @ '' reconciliation exceeded its safe bound''))
      else
      case filter related items of
        [] \<Rightarrow> Inr None
      | [d] \<Rightarrow> rbind (mine d) (\<lambda>ok.
          if \<not> ok then Inl (qualification_error (''direct Vapi '' @ kind @ '' ownership conflicts'')) else Inr (Some d))
      | _ \<Rightarrow> Inl (qualification_error (''direct Vapi '' @ kind @ '' ownership is ambiguous'')))"

definition find_direct_tool ::
    "'w qv_io \<Rightarrow> qv_client \<Rightarrow> pystr \<Rightarrow> pystr \<Rightarrow> pystr \<Rightarrow> pydict \<Rightarrow> ('w, pydict option) act" where
  "find_direct_tool io c execution endpoint credential desired =
     abind (qv_list io c ''tool'' 100) (\<lambda>tools.
     alift (the_related ''tool'' (related_tool endpoint credential)
       (\<lambda>d. Inr (tool_mine execution endpoint credential desired d)) tools))"

text \<open>After a write that may have committed: look until the object is there or the time is over.\<close>

fun reconcile_loop :: "nat \<Rightarrow> 'w qv_io \<Rightarrow> ('w, pydict option) act \<Rightarrow> rat \<Rightarrow> exn \<Rightarrow> ('w, pydict) act" where
  "reconcile_loop 0 io look deadline failed = araise no_fuel"
| "reconcile_loop (Suc n) io look deadline failed =
     abind look (\<lambda>found.
     case found of
       Some d \<Rightarrow> aret d
     | None \<Rightarrow>
         abind (qv_clock io) (\<lambda>t.
         if deadline \<le> t then araise failed
         else abind (qv_sleep io (1 / 2)) (\<lambda>_. reconcile_loop n io look deadline failed)))"

declare reconcile_loop.simps(2) [simp del]

text \<open>\<open>POST\<close> with its response, or the object that reconciliation finds.\<close>

definition post_or_reconcile ::
    "nat \<Rightarrow> 'w qv_io \<Rightarrow> qv_client \<Rightarrow> string \<Rightarrow> pydict \<Rightarrow> ('w, pydict option) act \<Rightarrow> int \<Rightarrow> ('w, pyval + pydict) act" where
  "post_or_reconcile n io c kind desired look timeout =
     acatch (abind (qv_request io c ''POST'' (lit (''/'' @ kind)) (Some desired) False) (\<lambda>v. aret (Inl v)))
       (\<lambda>e. if qv_ambiguous e
            then abind (qv_clock io) (\<lambda>t.
              abind (reconcile_loop n io look (t + of_int timeout)
                (qualification_error (''direct Vapi '' @ kind @ '' creation could not be reconciled''))) (\<lambda>d. aret (Inr d)))
            else araise e)"

definition created_id :: "string \<Rightarrow> pyval \<Rightarrow> pystr result" where
  "created_id kind v =
     (if text_with RESOURCE_ID (safe_get v ''id'') then Inr (str_of (safe_get v ''id''))
      else Inl (qualification_error (''direct Vapi '' @ kind @ '' creation returned no identity'')))"

definition not_verified :: "string \<Rightarrow> exn" where
  "not_verified kind = qualification_error (''direct Vapi '' @ kind @ '' creation was not verified'')"

definition create_direct_tool ::
    "nat \<Rightarrow> 'w qv_io \<Rightarrow> qv_client \<Rightarrow> pystr \<Rightarrow> pystr \<Rightarrow> pystr \<Rightarrow> pydict \<Rightarrow> int \<Rightarrow> ('w, pydict) act" where
  "create_direct_tool n io c execution endpoint credential desired timeout =
     (let look = find_direct_tool io c execution endpoint credential desired in
      abind look (\<lambda>existing.
      case existing of
        Some d \<Rightarrow> aret d
      | None \<Rightarrow>
          abind (post_or_reconcile n io c ''tool'' desired look timeout) (\<lambda>r.
          case r of
            Inr d \<Rightarrow> aret d
          | Inl created \<Rightarrow>
              abind (alift (created_id ''tool'' created)) (\<lambda>rid.
              abind (qv_get io c ''tool'' rid) (\<lambda>exact.
              abind look (\<lambda>owned.
              case (exact, owned) of
                (Some x, Some d) \<Rightarrow>
                  if direct_tool_surface_matches x desired \<and> get_key d ''id'' = VStr rid then aret d
                  else araise (not_verified ''tool'')
              | _ \<Rightarrow> araise (not_verified ''tool'')))))))"

definition delete_direct_tool ::
    "nat \<Rightarrow> 'w qv_io \<Rightarrow> qv_client \<Rightarrow> pystr \<Rightarrow> pystr \<Rightarrow> pystr \<Rightarrow> pystr \<Rightarrow> pydict \<Rightarrow> int \<Rightarrow> rat \<Rightarrow> rat \<Rightarrow> ('w, unit) act" where
  "delete_direct_tool n io c rid execution endpoint credential desired timeout poll settle =
     delete_owned n io c ''tool'' rid (\<lambda>d. Inr (tool_mine execution endpoint credential desired d)) timeout poll settle"

section \<open>The direct assistant\<close>

text \<open>The names a direct assistant is looked for by.\<close>

record assistant_identity =
  as_execution :: pystr
  as_tool :: pystr
  as_prompt :: pystr
  as_model :: pystr
  as_voice :: pystr

definition related_assistant :: "assistant_identity \<Rightarrow> pydict \<Rightarrow> bool" where
  "related_assistant a item \<longleftrightarrow>
     (let metadata = get_key item ''metadata'';
          tool_ids = safe_get (get_key item ''model'') ''toolIds'' in
      get_key item ''name'' = VStr (lit ''BFQ direct '' @ as_execution a) \<or>
      is_dict metadata \<and> safe_get metadata ''bridgefu_qualification'' = VStr (as_execution a) \<or>
      is_dict metadata \<and> safe_get metadata ''bridgefu_owner'' = VStr DIRECT_ASSISTANT_OWNER \<and>
      is_list tool_ids \<and> py_in (VStr (as_tool a)) (list_of tool_ids))"

definition assistant_owned :: "assistant_identity \<Rightarrow> pydict \<Rightarrow> bool result" where
  "assistant_owned a d = direct_assistant_owned d (as_execution a) (as_tool a) (as_prompt a) (as_model a) (as_voice a)"

definition assistant_mine :: "assistant_identity \<Rightarrow> pydict \<Rightarrow> pydict \<Rightarrow> bool result" where
  "assistant_mine a desired d =
     rbind (assistant_owned a d) (\<lambda>own. Inr (own \<and> desired_payload_present (VDict d) (VDict desired)))"

definition find_direct_assistant ::
    "'w qv_io \<Rightarrow> qv_client \<Rightarrow> assistant_identity \<Rightarrow> pydict \<Rightarrow> ('w, pydict option) act" where
  "find_direct_assistant io c a desired =
     abind (qv_list io c ''assistant'' 100) (\<lambda>items.
     alift (the_related ''assistant'' (related_assistant a) (assistant_mine a desired) items))"

definition create_direct_assistant ::
    "nat \<Rightarrow> 'w qv_io \<Rightarrow> qv_client \<Rightarrow> assistant_identity \<Rightarrow> pydict \<Rightarrow> int \<Rightarrow> ('w, pydict) act" where
  "create_direct_assistant n io c a desired timeout =
     (let look = find_direct_assistant io c a desired in
      abind look (\<lambda>existing.
      case existing of
        Some d \<Rightarrow> aret d
      | None \<Rightarrow>
          abind (post_or_reconcile n io c ''assistant'' desired look timeout) (\<lambda>r.
          case r of
            Inr d \<Rightarrow> aret d
          | Inl created \<Rightarrow>
              abind (alift (created_id ''assistant'' created)) (\<lambda>rid.
              abind (qv_get io c ''assistant'' rid) (\<lambda>exact.
              abind look (\<lambda>owned.
              case exact of
                None \<Rightarrow> araise (not_verified ''assistant'')
              | Some x \<Rightarrow>
                  abind (alift (assistant_mine a desired x)) (\<lambda>mine.
                  if mine \<and> (case owned of None \<Rightarrow> False | Some d \<Rightarrow> get_key d ''id'' = VStr rid) then aret x
                  else araise (not_verified ''assistant''))))))))"

definition delete_direct_assistant ::
    "nat \<Rightarrow> 'w qv_io \<Rightarrow> qv_client \<Rightarrow> pystr \<Rightarrow> assistant_identity \<Rightarrow> int \<Rightarrow> rat \<Rightarrow> rat \<Rightarrow> ('w, unit) act" where
  "delete_direct_assistant n io c rid a timeout poll settle =
     delete_owned n io c ''assistant'' rid (assistant_owned a) timeout poll settle"

section \<open>The SIP endpoint\<close>

definition phone_among :: "pydict \<Rightarrow> pydict list \<Rightarrow> pydict option result" where
  "phone_among intent phones =
     (if length phones = 100
      then Inl (qualification_error ''Vapi SIP endpoint reconciliation exceeded its safe bound'')
      else
      case filter (\<lambda>p. py_eq (get_key p ''name'') (get_key intent ''name'')) phones of
        [] \<Rightarrow> Inr None
      | [p] \<Rightarrow>
          if \<not> vapi_phone_matches_intent p intent
          then Inl (qualification_error ''Vapi SIP endpoint name is already in use'') else Inr (Some p)
      | _ \<Rightarrow> Inl (qualification_error ''Vapi SIP endpoint ownership is ambiguous''))"

definition find_phone_for_intent :: "'w qv_io \<Rightarrow> qv_client \<Rightarrow> pydict \<Rightarrow> ('w, pydict option) act" where
  "find_phone_for_intent io c intent =
     abind (qv_list io c ''phone-number'' 100) (\<lambda>phones. alift (phone_among intent phones))"

fun phone_wait_loop :: "nat \<Rightarrow> 'w qv_io \<Rightarrow> qv_client \<Rightarrow> pydict \<Rightarrow> rat \<Rightarrow> rat \<Rightarrow> ('w, pydict option) act" where
  "phone_wait_loop 0 io c intent deadline poll = araise no_fuel"
| "phone_wait_loop (Suc n) io c intent deadline poll =
     abind (find_phone_for_intent io c intent) (\<lambda>phone.
     case phone of
       Some p \<Rightarrow> aret (Some p)
     | None \<Rightarrow> qv_again io deadline poll (aret None) (phone_wait_loop n io c intent deadline poll))"

declare phone_wait_loop.simps(2) [simp del]

definition wait_for_phone_intent :: "nat \<Rightarrow> 'w qv_io \<Rightarrow> qv_client \<Rightarrow> pydict \<Rightarrow> int \<Rightarrow> rat \<Rightarrow> ('w, pydict option) act" where
  "wait_for_phone_intent n io c intent timeout poll =
     abind (qv_clock io) (\<lambda>t. phone_wait_loop n io c intent (t + of_int timeout) poll)"

definition reconciliation_error :: "string \<Rightarrow> exn" where
  "reconciliation_error m = QualificationError ''VapiPhoneReconciliationError'' m"

definition unreconciled :: exn where
  "unreconciled = reconciliation_error ''Vapi SIP endpoint creation could not be safely reconciled''"

text \<open>\<open>except QualificationError\<close>, with its subclasses.\<close>

definition qualification_failure :: "exn \<Rightarrow> bool" where
  "qualification_failure e = (case e of QualificationError _ _ \<Rightarrow> True | _ \<Rightarrow> False)"

definition safely :: "('w, 'a) act \<Rightarrow> ('w, 'a) act" where
  "safely m = acatch m (\<lambda>e. araise (if qualification_failure e then unreconciled else e))"

text \<open>Waiting for the endpoint after a write, with the error when it does not appear.\<close>

definition reconcile_phone :: "nat \<Rightarrow> 'w qv_io \<Rightarrow> qv_client \<Rightarrow> pydict \<Rightarrow> int \<Rightarrow> rat \<Rightarrow> exn \<Rightarrow> ('w, pydict) act" where
  "reconcile_phone n io c intent timeout poll failed =
     abind (safely (wait_for_phone_intent n io c intent timeout poll)) (\<lambda>found.
     case found of None \<Rightarrow> araise failed | Some p \<Rightarrow> aret p)"

definition phone_payload :: "pydict \<Rightarrow> pystr \<Rightarrow> (pystr \<times> pystr) list \<Rightarrow> pydict" where
  "phone_payload intent assistant auth =
     mk [(''provider'', VStr (lit ''vapi'')), (''name'', get_key intent ''name''),
       (''sipUri'', get_key intent ''sip_uri''), (''assistantId'', VStr assistant),
       (''authentication'', VDict (strvals auth))]"

text \<open>The response of the request, or the ambiguity as \<open>None\<close>.\<close>

definition post_phone :: "'w qv_io \<Rightarrow> qv_client \<Rightarrow> pydict \<Rightarrow> ('w, pyval option) act" where
  "post_phone io c payload =
     acatch (abind (qv_request io c ''POST'' (lit ''/phone-number'') (Some payload) False) (\<lambda>v. aret (Some v)))
       (\<lambda>e. if qv_ambiguous e then aret None else araise e)"

definition create_phone ::
    "nat \<Rightarrow> 'w qv_io \<Rightarrow> qv_client \<Rightarrow> pystr \<Rightarrow> pystr \<Rightarrow> (pystr \<times> pystr) list \<Rightarrow> int \<Rightarrow> rat \<Rightarrow> ('w, pydict) act" where
  "create_phone n io c execution assistant auth timeout poll =
     (if timeout < 0 \<or> poll < 0 then araise (qualification_error ''Vapi SIP reconciliation bound is invalid'')
      else
      abind (alift (vapi_phone_intent execution assistant auth)) (\<lambda>intent.
      abind (find_phone_for_intent io c intent) (\<lambda>existing.
      case existing of
        Some p \<Rightarrow> aret p
      | None \<Rightarrow>
          abind (post_phone io c (phone_payload intent assistant auth)) (\<lambda>r.
          case r of
            None \<Rightarrow> reconcile_phone n io c intent timeout poll unreconciled
          | Some v \<Rightarrow>
              (let later = reconcile_phone n io c intent timeout poll
                     (reconciliation_error ''Vapi SIP endpoint creation returned an invalid shape'') in
               if is_dict v \<and> vapi_phone_matches_intent (dict_of v) intent then aret (dict_of v)
               else if \<not> text_with RESOURCE_ID (safe_get v ''id'') then later
               else
               abind (safely (qv_get io c ''phone-number'' (str_of (safe_get v ''id'')))) (\<lambda>exact.
               case exact of
                 None \<Rightarrow> later
               | Some p \<Rightarrow>
                   if vapi_phone_matches_intent p intent then aret p
                   else araise (reconciliation_error ''Vapi SIP endpoint creation returned a foreign identity'')))))))"

definition delete_phone ::
    "nat \<Rightarrow> 'w qv_io \<Rightarrow> qv_client \<Rightarrow> pystr \<Rightarrow> pydict \<Rightarrow> int \<Rightarrow> rat \<Rightarrow> rat \<Rightarrow> ('w, unit) act" where
  "delete_phone n io c rid intent timeout poll settle =
     delete_owned n io c ''phone-number'' rid (\<lambda>d. Inr (vapi_phone_matches_intent d intent)) timeout poll settle"

definition qv_delete :: "nat \<Rightarrow> 'w qv_io \<Rightarrow> qv_client \<Rightarrow> string \<Rightarrow> pystr \<Rightarrow> int \<Rightarrow> rat \<Rightarrow> rat \<Rightarrow> ('w, unit) act" where
  "qv_delete n io c resource rid timeout poll settle =
     (if resource = ''phone-number''
      then araise (qualification_error ''Vapi phone deletion requires an exact ownership intent'')
      else delete_owned n io c resource rid (\<lambda>d. Inr (get_key d ''id'' = VStr rid)) timeout poll settle)"

end
