(* ===== verification/JournalSafety.thy ===== *)
theory JournalSafety imports Journal "HOL-Library.Multiset" begin

text \<open>
  What the sealed records promise: the digest of a record determines its identity fields up to
  a collision of SHA-256, an endpoint belongs to one run at most, and the records of a run follow
  from each other without an error.
\<close>

section \<open>Digests\<close>

lemma hex_nibble_inj: "a < 16 \<Longrightarrow> b < 16 \<Longrightarrow> hex_nibble a = hex_nibble b \<longleftrightarrow> a = b"
  by (auto simp: hex_nibble_def split: if_splits)

lemma hex_byte_inj:
  fixes a b :: byte
  assumes "hex_nibble (unat a div 16) = hex_nibble (unat b div 16)"
    and "hex_nibble (unat a mod 16) = hex_nibble (unat b mod 16)"
  shows "a = b"
proof -
  have "unat x div 16 < 16" for x :: byte using unat_byte [of x] by (simp add: less_mult_imp_div_less)
  with assms have "unat a div 16 = unat b div 16" "unat a mod 16 = unat b mod 16"
    by (simp_all add: hex_nibble_inj)
  then have "unat a = unat b" by (metis div_mult_mod_eq)
  then show ?thesis by (simp add: word_unat_eq_iff)
qed

lemma hexdigest_inj [simp]: "hexdigest a = hexdigest b \<longleftrightarrow> a = b"
proof
  assume "hexdigest a = hexdigest b"
  then show "a = b"
  proof (induction a arbitrary: b)
    case Nil
    then show ?case by (cases b) (auto simp: hexdigest_def)
  next
    case (Cons x a)
    then obtain y c where b: "b = y # c" by (cases b) (auto simp: hexdigest_def)
    with Cons.prems have "x = y" by (intro hex_byte_inj) (auto simp: hexdigest_def)
    moreover have "a = c" using Cons b by (intro Cons.IH) (auto simp: hexdigest_def)
    ultimately show ?case using b by simp
  qed
qed simp

text \<open>The bytes a seal hashes.\<close>

definition seal_bytes :: "pydict \<Rightarrow> byte list" where
  "seal_bytes d = map of_nat (json_dumps sorted_compact (VDict d))"

lemma sealed_dumps: "json_dumps sorted_compact v = dump compact (sort_value v)"
  using dump_sort_keys [of _ compact] by (simp add: json_dumps_def sorted_compact_def)

lemma sealed_dumps_ascii: "json_ok True v \<Longrightarrow> is_ascii (json_dumps sorted_compact v)"
  unfolding sealed_dumps using dump_printable [OF good_compact(1,2) sort_value_ok [of True v]]
  by (auto simp: is_ascii_def list_all_iff printable_def)

lemma sealed_sha256_ok:
  assumes "json_ok True (VDict d)"
  shows "sealed_sha256 d = Inr (hexdigest (sha256 (seal_bytes d)))"
  using sealed_dumps_ascii [OF assms] by (simp add: sealed_sha256_def utf8_encode_ascii seal_bytes_def)

lemma sealed_canonical: "sealed_sha256 d = canonical_sha256 (VDict d)"
  by (simp add: sealed_sha256_def canonical_sha256_def)

lemma seal_bytes_inj:
  assumes "json_ok True (VDict d)" "json_ok True (VDict e)" "seal_bytes d = seal_bytes e"
  shows "sort_value (VDict d) = sort_value (VDict e)"
proof -
  have "json_dumps sorted_compact (VDict d) = json_dumps sorted_compact (VDict e)"
    using assms by (intro map_of_nat_ascii_inj sealed_dumps_ascii) (simp_all add: seal_bytes_def)
  then have eq: "json_dumps compact (sort_value (VDict d)) = json_dumps compact (sort_value (VDict e))"
    by (simp only: sealed_dumps) (simp add: json_dumps_def good_compact)
  have reads: "json_loads_hook default_hook (json_dumps compact (sort_value v)) = Inr (sort_value v)"
    if "json_ok True v" for v
    using json_loads_dumps [OF good_compact(1) any_hook_default _ good_compact(3)] sort_value_ok [OF that]
    by (simp only: good_compact)
  have "Inr (sort_value (VDict d)) = (Inr (sort_value (VDict e)) :: pyval result)"
    unfolding reads [OF assms(1), symmetric] reads [OF assms(2), symmetric] by (simp only: eq)
  then show ?thesis by (rule Inr_inject)
qed

text \<open>A record of texts.\<close>

definition text_record :: "pydict \<Rightarrow> bool" where
  "text_record d \<longleftrightarrow> distinct (map fst d) \<and> list_all (\<lambda>p. clean_text (fst p) \<and> is_str (snd p) \<and> clean_text (str_of (snd p))) d"

lemma clean_str_ok: "is_str v \<Longrightarrow> clean_text (str_of v) \<Longrightarrow> json_ok True v"
  by (auto simp: is_str_conv clean_text_def)

lemma text_record_ok: "text_record d \<Longrightarrow> json_ok True (VDict d)"
  using clean_str_ok by (auto simp: text_record_def list_all_iff clean_text_def)

lemma sort_text_record: "text_record d \<Longrightarrow> sort_value (VDict d) = VDict (sort_key fst d)"
proof -
  assume "text_record d"
  then have "map (\<lambda>p. (fst p, sort_value (snd p))) d = d"
    by (intro map_idI) (auto simp: text_record_def list_all_iff is_str_conv dest!: bspec)
  then show ?thesis by simp
qed

lemma text_record_seal:
  assumes "text_record d" "text_record e"
  shows "seal_bytes d = seal_bytes e \<longleftrightarrow> map_of d = map_of e"
proof
  assume "seal_bytes d = seal_bytes e"
  from seal_bytes_inj [OF text_record_ok [OF assms(1)] text_record_ok [OF assms(2)] this]
  have "sort_key fst d = sort_key fst e"
    using sort_text_record [OF assms(1)] sort_text_record [OF assms(2)] by simp
  then have "set d = set e" by (metis set_sort)
  with assms show "map_of d = map_of e" by (simp add: text_record_def map_of_inject_set)
next
  assume "map_of d = map_of e"
  with assms have same: "set d = set e" by (simp add: text_record_def map_of_inject_set)
  have "mset d = mset e"
    using assms same by (intro set_eq_iff_mset_eq_distinct [THEN iffD1])
      (auto simp: text_record_def distinct_map)
  moreover have "inj_on fst (set d)" using assms by (simp add: text_record_def distinct_map)
  ultimately have "sort_key fst d = sort_key fst e"
    by (intro sort_key_inj_key_eq) simp_all
  then have "sort_value (VDict d) = sort_value (VDict e)"
    by (simp only: sort_text_record [OF assms(1)] sort_text_record [OF assms(2)])
  then show "seal_bytes d = seal_bytes e" by (simp only: seal_bytes_def sealed_dumps)
qed

section \<open>The identity of an endpoint\<close>

lemma ascii_clean: "is_ascii s \<Longrightarrow> clean_text s"
  by (auto simp: is_ascii_def clean_text_def list_all_iff char_ok_def is_surrogate_def)

lemma clean_lit: "clean_text (lit s)"
  using lit_bound by (auto simp: clean_text_def list_all_iff char_ok_def is_surrogate_def dest!: lit_bound)

lemma class_match_ascii: "class_match p a b s \<Longrightarrow> (\<And>c. p c \<Longrightarrow> c < 128) \<Longrightarrow> is_ascii s"
  by (auto simp: class_match_def is_ascii_def list_all_iff)

lemma prefix_class_ascii:
  assumes "starts_with s (lit p)" "class_match c a b (drop n s)" "n = length p" "is_ascii (lit p)"
    and "\<And>x. c x \<Longrightarrow> x < 128"
  shows "is_ascii s"
  using assms class_match_ascii [OF assms(2,5)] by (auto simp: starts_with_iff is_ascii_def)

lemma is_hex_ascii: "is_hex_lower c \<Longrightarrow> c < 128"
  by (auto simp: is_hex_lower_def is_digit_def)

lemma execution_ascii: "EXECUTION_ID s \<Longrightarrow> is_ascii s"
  unfolding EXECUTION_ID_def
  by (elim conjE, erule (1) prefix_class_ascii) (auto simp: is_ascii_def lit_def is_lower_def is_digit_def)

lemma resource_ascii: "RESOURCE_ID s \<Longrightarrow> is_ascii s"
  using class_match_ascii [of id_char] id_char_ascii by (simp add: RESOURCE_ID_def)

lemma sip_username_ascii: "sip_username s \<Longrightarrow> is_ascii s"
  unfolding sip_username_def
  by (elim conjE, erule (1) prefix_class_ascii) (auto simp: is_ascii_def lit_def is_hex_ascii)

lemma region_ascii: "s \<in> set REGIONS \<Longrightarrow> is_ascii s"
  by (auto simp: REGIONS_def is_ascii_def eval_simps)

text \<open>An owned name always fits.\<close>

definition owned_name :: "pystr \<Rightarrow> pystr" where
  "owned_name execution = lit ''BFQ '' @ execution @ lit '' SIP smoke''"

lemma owned_name_ok: "vapi_phone_owned_name e = Inr n \<longleftrightarrow> EXECUTION_ID e \<and> n = owned_name e"
proof -
  have "length e \<le> 24" if "EXECUTION_ID e"
    using that by (auto simp: EXECUTION_ID_def class_match_def)
  then show ?thesis by (auto simp: vapi_phone_owned_name_def owned_name_def Let_def)
qed

lemma owned_name_inj [simp]: "owned_name a = owned_name b \<longleftrightarrow> a = b"
  by (simp add: owned_name_def)

lemma owned_name_ascii: "EXECUTION_ID e \<Longrightarrow> is_ascii (owned_name e)"
  using execution_ascii [of e] by (auto simp: owned_name_def is_ascii_def eval_simps)

definition sip_address :: "pystr \<Rightarrow> pystr" where
  "sip_address user = lit ''sip:'' @ user @ lit ''@sip.vapi.ai''"

lemma sip_address_inj [simp]: "sip_address a = sip_address b \<longleftrightarrow> a = b"
  by (simp add: sip_address_def)

lemma sip_address_ascii: "sip_username u \<Longrightarrow> is_ascii (sip_address u)"
  using sip_username_ascii [of u] by (auto simp: sip_address_def is_ascii_def eval_simps)

text \<open>The identity fields of a valid record.\<close>

definition endpoint_identity :: "pystr \<Rightarrow> pystr \<Rightarrow> pystr \<Rightarrow> pystr \<Rightarrow> pydict" where
  "endpoint_identity execution region assistant user =
     phone_intent_fields (VStr execution) (VStr region) (VStr (owned_name execution)) (VStr assistant)
       (VStr (sip_address user)) (VStr (lit ''sip.vapi.ai'')) (VStr user)"

lemma endpoint_identity_record:
  assumes "EXECUTION_ID e" "r \<in> set REGIONS" "RESOURCE_ID a" "sip_username u"
  shows "text_record (endpoint_identity e r a u)"
proof -
  have "clean_text e" "clean_text r" "clean_text a" "clean_text u" "clean_text (owned_name e)"
    "clean_text (sip_address u)"
    using assms execution_ascii region_ascii resource_ascii sip_username_ascii owned_name_ascii sip_address_ascii
    by (blast intro: ascii_clean)+
  then show ?thesis
    by (simp add: text_record_def endpoint_identity_def phone_intent_fields_def clean_lit)
qed

lemma endpoint_identity_inj:
  "map_of (endpoint_identity e r a u) = map_of (endpoint_identity e' r' a' u') \<longleftrightarrow>
     e = e' \<and> r = r' \<and> a = a' \<and> u = u'"
proof
  assume eq: "map_of (endpoint_identity e r a u) = map_of (endpoint_identity e' r' a' u')"
  have "map_of (endpoint_identity e r a u) (lit k) = map_of (endpoint_identity e' r' a' u') (lit k)" for k
    by (simp only: eq)
  from this [of "''execution_id''"] this [of "''region''"] this [of "''assistant_id''"]
    this [of "''authentication_username''"]
  show "e = e' \<and> r = r' \<and> a = a' \<and> u = u'"
    by (simp add: endpoint_identity_def phone_intent_fields_def)
qed simp

definition phone_identity :: "pydict \<Rightarrow> pydict" where
  "phone_identity d =
     phone_intent_fields (get_key d ''execution_id'') (get_key d ''region'') (get_key d ''owned_name'')
       (get_key d ''assistant_id'') (get_key d ''sip_uri'') (get_key d ''authentication_realm'')
       (get_key d ''authentication_username'')"

lemma known_region_ok: "known_region v = Inr True \<longleftrightarrow> (\<exists>r\<in>set REGIONS. v = VStr r)"
  by (auto simp: known_region_def)

lemma text_with_conv: "text_with p v \<longleftrightarrow> (\<exists>s. v = VStr s \<and> p s)"
  by (cases v) (auto simp: text_with_def)

lemma intent_valid:
  assumes "validate_vapi_phone_intent_journal v = Inr d"
  obtains e r a u where "v = VDict d" "EXECUTION_ID e" "r \<in> set REGIONS" "RESOURCE_ID a" "sip_username u"
    "phone_identity d = endpoint_identity e r a u"
    "get_key d ''intent_sha256'' = VStr (hexdigest (sha256 (seal_bytes (endpoint_identity e r a u))))"
proof -
  from assms obtain name h where v: "v = VDict d" and head: "record_head d PHONE_INTENT_PRODUCER"
    and known: "known_region (get_key d ''region'') = Inr True"
    and name: "vapi_phone_owned_name (str_of (get_key d ''execution_id'')) = Inr name"
    and ok: "phone_intent_ok d name"
    and h: "sealed_sha256 (phone_identity d) = Inr h" "get_key d ''intent_sha256'' = VStr h"
    by (auto simp: validate_vapi_phone_intent_journal_def Let_def result_simps expect_dict_def phone_identity_def
        split: if_split_asm pyval.split_asm)
  from head obtain e where e: "get_key d ''execution_id'' = VStr e" "EXECUTION_ID e"
    by (auto simp: record_head_def text_with_conv)
  from known obtain r where r: "get_key d ''region'' = VStr r" "r \<in> set REGIONS" by (auto simp: known_region_ok)
  from ok obtain a u where au: "get_key d ''assistant_id'' = VStr a" "RESOURCE_ID a"
      "get_key d ''authentication_username'' = VStr u" "sip_username u"
      "get_key d ''authentication_realm'' = VStr (lit ''sip.vapi.ai'')" "get_key d ''sip_uri'' = VStr (sip_address u)"
      "get_key d ''owned_name'' = VStr name"
    by (auto simp: phone_intent_ok_def text_with_conv sip_address_def)
  from name e have "name = owned_name e" by (simp add: owned_name_ok)
  with e r au have id: "phone_identity d = endpoint_identity e r a u"
    by (simp add: phone_identity_def endpoint_identity_def)
  from h(1) have "h = hexdigest (sha256 (seal_bytes (endpoint_identity e r a u)))"
    using sealed_sha256_ok [OF text_record_ok [OF endpoint_identity_record [OF e(2) r(2) au(2,4)]]] id by simp
  with h(2) v e r au id show ?thesis by (intro that) simp_all
qed

text \<open>
  C32.  A sealed intent binds what it names: two records of an endpoint that pass their check carry
  the same digest exactly when SHA-256 gives the same value on the bytes of their identity fields, and
  these bytes are equal exactly when every identity field (execution, region, name, assistant, SIP
  address and account) is.
\<close>

theorem sealed_intents_bind:
  assumes "validate_vapi_phone_intent_journal v = Inr d" "validate_vapi_phone_intent_journal w = Inr e"
  shows "(get_key d ''intent_sha256'' = get_key e ''intent_sha256'' \<longleftrightarrow>
      sha256 (seal_bytes (phone_identity d)) = sha256 (seal_bytes (phone_identity e))) \<and>
    (seal_bytes (phone_identity d) = seal_bytes (phone_identity e) \<longleftrightarrow> phone_identity d = phone_identity e)"
proof -
  from intent_valid [OF assms(1)] obtain x r a u where
    d: "EXECUTION_ID x" "r \<in> set REGIONS" "RESOURCE_ID a" "sip_username u" "phone_identity d = endpoint_identity x r a u"
      "get_key d ''intent_sha256'' = VStr (hexdigest (sha256 (seal_bytes (endpoint_identity x r a u))))" .
  from intent_valid [OF assms(2)] obtain x' r' a' u' where
    e: "EXECUTION_ID x'" "r' \<in> set REGIONS" "RESOURCE_ID a'" "sip_username u'"
      "phone_identity e = endpoint_identity x' r' a' u'"
      "get_key e ''intent_sha256'' = VStr (hexdigest (sha256 (seal_bytes (endpoint_identity x' r' a' u'))))" .
  from text_record_seal [OF endpoint_identity_record [OF d(1-4)] endpoint_identity_record [OF e(1-4)]]
  have "seal_bytes (phone_identity d) = seal_bytes (phone_identity e) \<longleftrightarrow> phone_identity d = phone_identity e"
    by (auto simp: d(5) e(5) endpoint_identity_inj)
  then show ?thesis by (simp add: d(5,6) e(5,6))
qed

section \<open>The records of an endpoint\<close>

definition intent_record :: "pystr \<Rightarrow> pystr \<Rightarrow> pystr \<Rightarrow> pystr \<Rightarrow> pystr \<Rightarrow> pydict" where
  "intent_record e r a u t =
     sealed PHONE_INTENT_PRODUCER (endpoint_identity e r a u) [] ''intent_sha256''
       (hexdigest (sha256 (seal_bytes (endpoint_identity e r a u)))) ''created_at'' t"

lemma intent_record_valid:
  assumes "EXECUTION_ID e" "r \<in> set REGIONS" "RESOURCE_ID a" "sip_username u" "time_text t"
  shows "validate_vapi_phone_intent_journal (VDict (intent_record e r a u t)) = Inr (intent_record e r a u t)"
proof -
  let ?d = "intent_record e r a u t"
  note seal = sealed_sha256_ok [OF text_record_ok [OF endpoint_identity_record [OF assms(1-4)]]]
  note unfold = intent_record_def endpoint_identity_def phone_intent_fields_def sealed_def
  have key: "get_key ?d ''execution_id'' = VStr e" "get_key ?d ''region'' = VStr r"
      "get_key ?d ''owned_name'' = VStr (owned_name e)" "get_key ?d ''assistant_id'' = VStr a"
      "get_key ?d ''sip_uri'' = VStr (sip_address u)" "get_key ?d ''authentication_realm'' = VStr (lit ''sip.vapi.ai'')"
      "get_key ?d ''authentication_username'' = VStr u"
      "get_key ?d ''intent_sha256'' = VStr (hexdigest (sha256 (seal_bytes (endpoint_identity e r a u))))"
      "get_key ?d ''created_at'' = VStr t" "get_key ?d ''schema_version'' = VInt 1"
      "get_key ?d ''producer'' = VStr PHONE_INTENT_PRODUCER"
      "get_key ?d ''resource_type'' = VStr (lit ''phone-number'')" "get_key ?d ''redacted'' = VBool True"
    by (simp_all add: unfold)
  have "keys ?d = set (map lit PHONE_INTENT_KEYS)" by (auto simp: unfold PHONE_INTENT_KEYS_def)
  moreover have "record_head ?d PHONE_INTENT_PRODUCER"
    using assms(1) by (simp add: record_head_def key text_with_def)
  moreover have "known_region (VStr r) = Inr True" using assms(2) by (auto simp: known_region_ok)
  moreover have "vapi_phone_owned_name e = Inr (owned_name e)" using assms(1) by (simp add: owned_name_ok)
  moreover have "phone_intent_ok ?d (owned_name e)"
    using assms(3-5) by (simp add: phone_intent_ok_def key text_with_def sip_address_def)
  ultimately show ?thesis
    using seal [unfolded endpoint_identity_def]
    by (simp add: validate_vapi_phone_intent_journal_def expect_dict_def key endpoint_identity_def)
qed

definition built_intent :: "pystr \<Rightarrow> pystr \<Rightarrow> pystr \<Rightarrow> pydict" where
  "built_intent e a u =
     mk [(''name'', VStr (owned_name e)), (''assistant_id'', VStr a), (''sip_uri'', VStr (sip_address u)),
       (''authentication_realm'', VStr (lit ''sip.vapi.ai'')), (''authentication_username'', VStr u)]"

lemma intent_built:
  assumes "vapi_phone_intent e a auth = Inr i"
  obtains u where "EXECUTION_ID e" "RESOURCE_ID a" "sip_username u" "map_of auth (lit ''username'') = Some u"
    "i = built_intent e a u"
proof -
  from assms have "lit ''username'' \<in> keys auth"
    by (auto simp: vapi_phone_intent_def split: if_split_asm)
  then obtain u where u: "map_of auth (lit ''username'') = Some u"
    by (metis keys_dom domIff not_None_eq)
  with assms have "RESOURCE_ID a \<and> sip_username u \<and>
      (\<exists>n. vapi_phone_owned_name e = Inr n \<and> i = mk [(''name'', VStr n), (''assistant_id'', VStr a),
        (''sip_uri'', VStr (sip_address u)), (''authentication_realm'', VStr (lit ''sip.vapi.ai'')),
        (''authentication_username'', VStr u)])"
    by (auto simp: vapi_phone_intent_def Let_def result_simps sip_address_def split: if_split_asm)
  with u show ?thesis by (intro that [of u]) (auto simp: owned_name_ok built_intent_def)
qed

lemma intent_journal_built:
  assumes "EXECUTION_ID e" "r \<in> set REGIONS" "RESOURCE_ID a" "sip_username u" "time_text (stamp_or created now)"
  shows "vapi_phone_intent_journal e r (built_intent e a u) created now = Inr (intent_record e r a u (stamp_or created now))"
  using intent_record_valid [OF assms] sealed_sha256_ok [OF text_record_ok [OF endpoint_identity_record [OF assms(1-4)]]]
  by (simp add: vapi_phone_intent_journal_def built_intent_def Let_def intent_record_def
      endpoint_identity_def [symmetric])

definition ownership_identity :: "pystr \<Rightarrow> pystr \<Rightarrow> pystr \<Rightarrow> pystr \<Rightarrow> pydict" where
  "ownership_identity e r p a =
     phone_owned_fields (VStr e) (VStr r) (VStr p) (VStr a) (VStr (owned_name e))"

lemma ownership_identity_record:
  assumes "EXECUTION_ID e" "r \<in> set REGIONS" "RESOURCE_ID p" "RESOURCE_ID a"
  shows "text_record (ownership_identity e r p a)"
proof -
  have "clean_text e" "clean_text r" "clean_text p" "clean_text a" "clean_text (owned_name e)"
    using assms execution_ascii region_ascii resource_ascii owned_name_ascii by (blast intro: ascii_clean)+
  then show ?thesis
    by (simp add: text_record_def ownership_identity_def phone_owned_fields_def clean_lit)
qed

definition ownership_record :: "pystr \<Rightarrow> pystr \<Rightarrow> pystr \<Rightarrow> pystr \<Rightarrow> pystr \<Rightarrow> pydict" where
  "ownership_record e r p a t =
     sealed PHONE_OWNERSHIP_PRODUCER (ownership_identity e r p a) [] ''ownership_sha256''
       (hexdigest (sha256 (seal_bytes (ownership_identity e r p a)))) ''created_at'' t"

lemma ownership_record_valid:
  assumes "EXECUTION_ID e" "r \<in> set REGIONS" "RESOURCE_ID p" "RESOURCE_ID a" "time_text t"
  shows "validate_vapi_phone_ownership_journal (VDict (ownership_record e r p a t)) = Inr (ownership_record e r p a t)"
proof -
  let ?d = "ownership_record e r p a t"
  note seal = sealed_sha256_ok [OF text_record_ok [OF ownership_identity_record [OF assms(1-4)]]]
  note unfold = ownership_record_def ownership_identity_def phone_owned_fields_def sealed_def
  have key: "get_key ?d ''execution_id'' = VStr e" "get_key ?d ''region'' = VStr r"
      "get_key ?d ''phone_id'' = VStr p" "get_key ?d ''assistant_id'' = VStr a"
      "get_key ?d ''owned_name'' = VStr (owned_name e)"
      "get_key ?d ''ownership_sha256'' = VStr (hexdigest (sha256 (seal_bytes (ownership_identity e r p a))))"
      "get_key ?d ''created_at'' = VStr t" "get_key ?d ''schema_version'' = VInt 1"
      "get_key ?d ''producer'' = VStr PHONE_OWNERSHIP_PRODUCER"
      "get_key ?d ''resource_type'' = VStr (lit ''phone-number'')" "get_key ?d ''redacted'' = VBool True"
    by (simp_all add: unfold)
  have "keys ?d = set (map lit PHONE_OWNERSHIP_KEYS)" by (auto simp: unfold PHONE_OWNERSHIP_KEYS_def)
  moreover have "record_head ?d PHONE_OWNERSHIP_PRODUCER"
    using assms(1) by (simp add: record_head_def key text_with_def)
  moreover have "known_region (VStr r) = Inr True" using assms(2) by (auto simp: known_region_ok)
  moreover have "vapi_phone_owned_name e = Inr (owned_name e)" using assms(1) by (simp add: owned_name_ok)
  moreover have "phone_ownership_ok ?d (owned_name e)"
    using assms(3-5) by (simp add: phone_ownership_ok_def key text_with_def)
  ultimately show ?thesis
    using seal [unfolded ownership_identity_def]
    by (simp add: validate_vapi_phone_ownership_journal_def expect_dict_def key ownership_identity_def)
qed

lemma ownership_journal_built:
  assumes "EXECUTION_ID e" "r \<in> set REGIONS" "RESOURCE_ID p" "RESOURCE_ID a" "time_text (stamp_or created now)"
  shows "vapi_phone_ownership_journal e r p a created now = Inr (ownership_record e r p a (stamp_or created now))"
proof -
  have "vapi_phone_owned_name e = Inr (owned_name e)" using assms(1) by (simp add: owned_name_ok)
  with assms show ?thesis
    using ownership_record_valid [OF assms]
      sealed_sha256_ok [OF text_record_ok [OF ownership_identity_record [OF assms(1-4)]]]
    by (simp add: vapi_phone_ownership_journal_def Let_def ownership_record_def ownership_identity_def [symmetric])
qed

lemma request_journal_built:
  assumes "EXECUTION_ID e" "r \<in> set REGIONS" "RESOURCE_ID a" "sip_username u" "time_text t" "request_nonce n"
  obtains q where "vapi_phone_request_journal (intent_record e r a u t) n authorized now = Inr q"
    "get_key q ''intent_sha256'' = get_key (intent_record e r a u t) ''intent_sha256''"
    "get_key q ''request_nonce'' = VStr n"
proof -
  let ?d = "intent_record e r a u t"
  let ?own = "request_fields ?d (VStr (lit ''phone-number'')) n"
  note unfold = intent_record_def endpoint_identity_def phone_intent_fields_def sealed_def request_fields_def
  have "clean_text n" using assms(6) class_match_ascii is_hex_ascii
    by (auto simp: request_nonce_def intro!: ascii_clean)
  moreover have "clean_text e" "clean_text r"
    using assms execution_ascii region_ascii by (blast intro: ascii_clean)+
  moreover have "clean_text (hexdigest bs)" for bs
    using hexdigest_hex [of bs] is_hex_ascii by (auto simp: list_all_iff is_ascii_def intro!: ascii_clean)
  ultimately have "text_record ?own" by (simp add: text_record_def unfold clean_lit)
  from sealed_sha256_ok [OF text_record_ok [OF this]] intent_record_valid [OF assms(1-5)] assms(6)
  have "vapi_phone_request_journal ?d n authorized now =
      Inr (sealed PHONE_REQUEST_PRODUCER ?own [] ''request_sha256'' (hexdigest (sha256 (seal_bytes ?own)))
        ''authorized_at'' (stamp_or authorized now))"
    by (simp add: vapi_phone_request_journal_def Let_def)
  then show ?thesis by (rule that) (simp_all add: unfold)
qed

lemma ownership_follows_intent:
  "get_key (ownership_record e r p a t) ''phone_id'' = VStr p"
  "list_all (\<lambda>k. get_key (ownership_record e r p a t) k = get_key (intent_record e r a u t') k)
     [''execution_id'', ''region'', ''assistant_id'', ''owned_name'']"
  by (simp_all add: ownership_record_def intent_record_def ownership_identity_def endpoint_identity_def
      phone_intent_fields_def phone_owned_fields_def sealed_def)

section \<open>Properties of the endpoint's records\<close>

text \<open>
  C33.  The records of an endpoint follow from each other: whenever the intent of an endpoint can be
  built, its sealed record is produced and passes its own check; a request on it is authorized for
  every nonce of the right form, with that nonce and the digest of the intent; and the identifier that
  Vapi then returns gets an ownership record that passes its check too, with that identifier and with the
  execution, the region, the assistant and the name of the intent.
\<close>

theorem phone_records_follow:
  assumes "vapi_phone_intent e a auth = Inr i" "r \<in> set REGIONS" "time_text now" "request_nonce n" "RESOURCE_ID p"
  shows "\<exists>d q o'. vapi_phone_intent_journal e r i None now = Inr d \<and>
    validate_vapi_phone_intent_journal (VDict d) = Inr d \<and>
    vapi_phone_request_journal d n None now = Inr q \<and>
    get_key q ''intent_sha256'' = get_key d ''intent_sha256'' \<and> get_key q ''request_nonce'' = VStr n \<and>
    vapi_phone_ownership_journal e r p a None now = Inr o' \<and>
    validate_vapi_phone_ownership_journal (VDict o') = Inr o' \<and> get_key o' ''phone_id'' = VStr p \<and>
    list_all (\<lambda>k. get_key o' k = get_key d k) [''execution_id'', ''region'', ''assistant_id'', ''owned_name'']"
proof -
  from intent_built [OF assms(1)] obtain u where b: "EXECUTION_ID e" "RESOURCE_ID a" "sip_username u"
    and i: "i = built_intent e a u" .
  have t: "stamp_or None now = now" by (simp add: stamp_or_def)
  with assms(3) have now: "time_text (stamp_or None now)" by simp
  from request_journal_built [OF b(1) assms(2) b(2,3) assms(3,4)] obtain q where
    "vapi_phone_request_journal (intent_record e r a u now) n None now = Inr q"
    "get_key q ''intent_sha256'' = get_key (intent_record e r a u now) ''intent_sha256''"
    "get_key q ''request_nonce'' = VStr n" .
  with intent_journal_built [OF b(1) assms(2) b(2,3) now] intent_record_valid [OF b(1) assms(2) b(2,3) assms(3)]
    ownership_journal_built [OF b(1) assms(2,5) b(2) now]
    ownership_record_valid [OF b(1) assms(2,5) b(2) assms(3)] ownership_follows_intent
  show ?thesis by (simp add: i t)
qed

definition demo_execution :: pystr where "demo_execution = lit ''bfq-run1''"
definition demo_authentication :: "(pystr \<times> pystr) list" where
  "demo_authentication = mk [(''realm'', lit ''sip.vapi.ai''), (''username'', lit ''bfq_0123456789abcdef''),
     (''password'', lit ''0123456789abcdef'')]"

lemma demo_intent_for:
  assumes "RESOURCE_ID a"
  shows "vapi_phone_intent demo_execution a demo_authentication =
     Inr (built_intent demo_execution a (lit ''bfq_0123456789abcdef''))"
proof -
  have "vapi_phone_owned_name demo_execution = Inr (owned_name demo_execution)"
    by (simp add: owned_name_ok demo_execution_def EXECUTION_ID_def eval_simps class_match_def is_lower_def is_digit_def)
  moreover have "sip_username (lit ''bfq_0123456789abcdef'')"
    by (simp add: sip_username_def eval_simps class_match_def char_class_defs is_hex_lower_def)
  moreover have "\<not> list_ex (\<lambda>c. c \<le> 32 \<or> c = 127) (lit ''0123456789abcdef'')" by (simp add: lit_def)
  ultimately show ?thesis using assms
    by (simp add: vapi_phone_intent_def demo_authentication_def Let_def built_intent_def sip_address_def insert_commute)
qed

lemma demo_assistants [simp]: "RESOURCE_ID (lit ''asst-1'')" "RESOURCE_ID (lit ''asst-2'')"
  by (simp_all add: RESOURCE_ID_def eval_simps class_match_def char_class_defs)

lemmas demo_intent = demo_intent_for [OF demo_assistants(1)]

theorem phone_records_follow_witness:
  "\<exists>d q o'. vapi_phone_intent_journal demo_execution (lit ''us-west-2'')
      (built_intent demo_execution (lit ''asst-1'') (lit ''bfq_0123456789abcdef'')) None
      (lit ''2025-01-02T03:04:05.678Z'') = Inr d \<and>
    validate_vapi_phone_intent_journal (VDict d) = Inr d \<and>
    vapi_phone_request_journal d (lit ''0123456789abcdef0123456789abcdef'') None (lit ''2025-01-02T03:04:05.678Z'') = Inr q \<and>
    vapi_phone_ownership_journal demo_execution (lit ''us-west-2'') (lit ''phone-1'') (lit ''asst-1'') None
      (lit ''2025-01-02T03:04:05.678Z'') = Inr o'"
proof -
  have "lit ''us-west-2'' \<in> set REGIONS" by (simp add: REGIONS_def)
  moreover have "time_text (lit ''2025-01-02T03:04:05.678Z'')"
    by (simp add: time_text_def eval_simps is_digit_def)
  moreover have "request_nonce (lit ''0123456789abcdef0123456789abcdef'')"
    by (simp add: request_nonce_def eval_simps class_match_def is_hex_lower_def is_digit_def)
  moreover have "RESOURCE_ID (lit ''phone-1'')"
    by (simp add: RESOURCE_ID_def eval_simps class_match_def char_class_defs)
  ultimately show ?thesis using phone_records_follow [OF demo_intent] by blast
qed

theorem sealed_intents_bind_witness:
  "\<exists>d e. validate_vapi_phone_intent_journal (VDict d) = Inr d \<and> validate_vapi_phone_intent_journal (VDict e) = Inr e \<and>
     seal_bytes (phone_identity d) \<noteq> seal_bytes (phone_identity e)"
proof -
  let ?r = "\<lambda>r. intent_record demo_execution r (lit ''asst-1'') (lit ''bfq_0123456789abcdef'') (lit ''2025-01-02T03:04:05.678Z'')"
  obtain "EXECUTION_ID demo_execution" "RESOURCE_ID (lit ''asst-1'')" "sip_username (lit ''bfq_0123456789abcdef'')"
    using intent_built [OF demo_intent] by (auto simp: demo_authentication_def)
  moreover have "time_text (lit ''2025-01-02T03:04:05.678Z'')"
    by (simp add: time_text_def eval_simps is_digit_def)
  ultimately have ok: "validate_vapi_phone_intent_journal (VDict (?r r)) = Inr (?r r)" if "r \<in> set REGIONS" for r
    using that by (intro intent_record_valid)
  have "validate_vapi_phone_intent_journal (VDict (?r (lit ''us-west-2''))) = Inr (?r (lit ''us-west-2''))"
    "validate_vapi_phone_intent_journal (VDict (?r (lit ''us-east-1''))) = Inr (?r (lit ''us-east-1''))"
    using ok by (simp_all add: REGIONS_def)
  moreover have "phone_identity (?r (lit ''us-west-2'')) \<noteq> phone_identity (?r (lit ''us-east-1''))"
    by (simp add: phone_identity_def intent_record_def endpoint_identity_def phone_intent_fields_def sealed_def)
  ultimately show ?thesis using sealed_intents_bind by blast
qed

text \<open>
  C34.  An endpoint belongs to one run: an endpoint that matches the intent of one execution, assistant
  and account matches the intent of another exactly when all three are the same, so reconciliation
  never adopts the endpoint of another run.
\<close>

theorem endpoint_of_one_run:
  assumes "vapi_phone_intent e a auth = Inr i" "vapi_phone_intent e' a' auth' = Inr i'"
    and "vapi_phone_matches_intent phone i"
  shows "vapi_phone_matches_intent phone i' \<longleftrightarrow>
    e' = e \<and> a' = a \<and> map_of auth' (lit ''username'') = map_of auth (lit ''username'')"
proof -
  from intent_built [OF assms(1)] obtain u where u: "map_of auth (lit ''username'') = Some u" "i = built_intent e a u" .
  from intent_built [OF assms(2)] obtain u' where u': "map_of auth' (lit ''username'') = Some u'"
    "i' = built_intent e' a' u'" .
  show ?thesis
    using assms(3) unfolding u u' by (auto simp: vapi_phone_matches_intent_def built_intent_def)
qed

theorem endpoint_of_one_run_witness:
  "\<exists>phone i i'. vapi_phone_intent demo_execution (lit ''asst-1'') demo_authentication = Inr i \<and>
     vapi_phone_intent demo_execution (lit ''asst-2'') demo_authentication = Inr i' \<and>
     vapi_phone_matches_intent phone i \<and> \<not> vapi_phone_matches_intent phone i'"
proof -
  let ?u = "lit ''bfq_0123456789abcdef''"
  let ?phone = "mk [(''id'', VStr (lit ''p-1'')), (''provider'', VStr (lit ''vapi'')),
    (''name'', VStr (owned_name demo_execution)), (''assistantId'', VStr (lit ''asst-1'')),
    (''sipUri'', VStr (sip_address ?u))]"
  have m: "vapi_phone_matches_intent ?phone (built_intent demo_execution (lit ''asst-1'') ?u)"
    by (simp add: vapi_phone_matches_intent_def built_intent_def)
      (simp add: RESOURCE_ID_def eval_simps class_match_def char_class_defs)
  have "\<not> vapi_phone_matches_intent ?phone (built_intent demo_execution (lit ''asst-2'') ?u)"
    using endpoint_of_one_run [OF demo_intent demo_intent_for [OF demo_assistants(2)] m] by simp
  with demo_intent demo_intent_for [OF demo_assistants(2)] m show ?thesis by blast
qed

section \<open>The records of the direct assistant\<close>

lemma clean_hexdigest: "clean_text (hexdigest bs)"
  using hexdigest_hex [of bs] is_hex_ascii by (auto simp: list_all_iff is_ascii_def intro!: ascii_clean)

lemma desired_copy_ok:
  assumes "json_ok True (VDict d)"
  obtains h where "desired_copy d = Inr (VDict d, h)" "clean_text h" "is_sha256 h"
proof -
  have "good_opts default_opts" "ensure_ascii default_opts" "\<not> sort_keys default_opts"
    by (auto simp: good_opts_def eval_simps intro: exI [of _ 1])
  with assms have "json_loads (json_dumps default_opts (VDict d)) = Inr (VDict d)"
    unfolding json_loads_def by (intro json_loads_dumps any_hook_default) simp_all
  moreover have "canonical_sha256 (VDict d) = Inr (hexdigest (sha256 (seal_bytes d)))"
    using sealed_sha256_ok [OF assms] by (simp add: sealed_canonical)
  ultimately show ?thesis by (intro that [OF _ clean_hexdigest hexdigest_sha256]) (simp add: desired_copy_def)
qed

lemma assistant_document_ok:
  assumes "is_ascii e" "is_ascii t" "clean_text m" "clean_text v"
  shows "json_ok True (VDict (assistant_document e t m v))"
proof -
  have lits: "list_all (char_ok True) (lit s)" for s using clean_lit by (simp add: clean_text_def)
  have "list_all (char_ok True) direct_prompt"
    by (simp add: direct_prompt_def prompt_marker_def DIRECT_PROMPT_MARKER_def lits del: list_all_append)
      (simp add: lits)
  moreover have "list_all (char_ok True) e" "list_all (char_ok True) t" "list_all (char_ok True) m"
    "list_all (char_ok True) v"
    using assms ascii_clean by (auto simp: clean_text_def)
  ultimately show ?thesis
    by (simp add: assistant_document_def assistant_model_def DIRECT_ASSISTANT_OWNER_def lits dec_nat.simps)
qed

lemma built_assistant_owned:
  assumes "direct_assistant_payload e t m v = Inr (d, digest)"
  shows "direct_assistant_owned d e t digest m v = Inr True" "d = assistant_document e t m v" "is_sha256 digest"
proof -
  from assms obtain bs where ok: "is_identifier e" "is_identifier t"
    and bs: "utf8_encode direct_prompt = Inr bs" and d: "d = assistant_document e t m v"
    and digest: "digest = hexdigest (sha256 bs)"
    by (auto simp: direct_assistant_payload_def result_simps split: if_split_asm)
  have "served SERVICE_KEYS (assistant_document e t m v) d" by (auto simp: d served_def)
  from served_assistant [OF this] ok bs digest hexdigest_sha256 [of bs]
  show "direct_assistant_owned d e t digest m v = Inr True"
    by (auto simp: direct_assistant_owned_def Let_def built_model direct_prompt_def)
  show "d = assistant_document e t m v" "is_sha256 digest" using d digest by (simp_all add: hexdigest_sha256)
qed

lemma assistant_intent_built:
  assumes "direct_assistant_payload e tool model voice = Inr (d, digest)"
    and "EXECUTION_ID e" "r \<in> set REGIONS" "RESOURCE_ID org" "clean_text model" "clean_text voice"
  obtains i h where
    "direct_assistant_intent_journal e r org tool model voice digest d created now = Inr i"
    "get_key i ''desired'' = VDict d" "get_key i ''producer'' = VStr DIRECT_ASSISTANT_INTENT_PRODUCER"
    "get_key i ''resource_type'' = VStr (lit ''assistant'')" "get_key i ''execution_id'' = VStr e"
    "get_key i ''region'' = VStr r" "get_key i ''intent_sha256'' = VStr h" "is_sha256 h"
    "list_all (\<lambda>k. has_key i k \<and> is_str (get_key i k) \<and> clean_text (str_of (get_key i k)))
      [''execution_id'', ''region'', ''owned_name'', ''owner_marker'', ''tool_id'', ''organization_id'', ''model_name'',
       ''voice_id'', ''prompt_sha256'', ''desired_sha256'', ''intent_sha256'']"
proof -
  note built = built_assistant_owned [OF assms(1)]
  from assms(1) have tool: "RESOURCE_ID tool"
    by (auto simp: direct_assistant_payload_def RESOURCE_ID_def is_identifier_def split: if_split_asm)
  have ascii: "is_ascii e" "is_ascii tool" using assms(2) tool execution_ascii resource_ascii by blast+
  with built(2) assms(5,6) have "json_ok True (VDict d)" using assistant_document_ok by simp
  from desired_copy_ok [OF this] obtain c where c: "desired_copy d = Inr (VDict d, c)" "clean_text c" .
  let ?own = "mk [(''execution_id'', VStr e), (''region'', VStr r),
            (''resource_type'', VStr (lit ''assistant'')), (''owned_name'', VStr (lit ''BFQ direct '' @ e)),
            (''owner_marker'', VStr DIRECT_ASSISTANT_OWNER), (''tool_id'', VStr tool),
            (''organization_id'', VStr org), (''model_name'', VStr model), (''voice_id'', VStr voice),
            (''prompt_sha256'', VStr digest), (''desired_sha256'', VStr c)]"
  have clean: "clean_text e" "clean_text tool" "clean_text r" "clean_text org" "clean_text digest"
    using ascii assms(3,4) region_ascii resource_ascii built(3) class_match_ascii is_hex_ascii
    by (auto simp: is_sha256_def intro: ascii_clean)
  then have named: "clean_text (lit ''BFQ direct '' @ e)"
    using clean_lit by (simp add: clean_text_def)
  have "text_record ?own"
    using clean named c(2) assms(5,6) by (simp add: text_record_def clean_lit DIRECT_ASSISTANT_OWNER_def)
  note seal = sealed_sha256_ok [OF text_record_ok [OF this]]
  let ?h = "hexdigest (sha256 (seal_bytes ?own))"
  let ?i = "sealed DIRECT_ASSISTANT_INTENT_PRODUCER ?own (mk [(''desired'', VDict d)]) ''intent_sha256'' ?h
    ''created_at'' (stamp_or created now)"
  have "direct_assistant_intent_journal e r org tool model voice digest d created now = Inr ?i"
    using assms tool built(1,3) c(1) seal
    by (simp add: direct_assistant_intent_journal_def Let_def SHA256_def is_sha256_def)
  then show ?thesis
    by (rule that [of _ ?h])
      (simp_all add: sealed_def hexdigest_sha256 clean_hexdigest clean named c assms(5,6) clean_lit
        DIRECT_ASSISTANT_OWNER_def)
qed

lemma direct_request_built:
  assumes "get_key i ''producer'' = VStr DIRECT_ASSISTANT_INTENT_PRODUCER"
    and "get_key i ''resource_type'' = VStr (lit ''assistant'')"
    and "get_key i ''execution_id'' = VStr e" "EXECUTION_ID e" "get_key i ''region'' = VStr r" "r \<in> set REGIONS"
    and "get_key i ''intent_sha256'' = VStr h" "is_sha256 h" "request_nonce n"
  obtains q where "direct_vapi_request_journal i (VStr n) authorized now = Inr q"
    "get_key q ''intent_sha256'' = VStr h" "get_key q ''producer'' = VStr DIRECT_ASSISTANT_REQUEST_PRODUCER"
proof -
  let ?own = "request_fields i (VStr (lit ''assistant'')) n"
  have "clean_text n" "clean_text h" "clean_text e" "clean_text r"
    using assms class_match_ascii is_hex_ascii execution_ascii region_ascii
    by (auto simp: request_nonce_def is_sha256_def intro: ascii_clean)
  then have "text_record ?own"
    by (simp add: text_record_def request_fields_def assms clean_lit)
  note seal = sealed_sha256_ok [OF text_record_ok [OF this]]
  have "known_region (VStr r) = Inr True" using assms(6) by (auto simp: known_region_ok)
  moreover have "request_producers (VStr (lit ''assistant'')) =
      Inr (Some (DIRECT_ASSISTANT_REQUEST_PRODUCER, DIRECT_ASSISTANT_INTENT_PRODUCER))"
    by (simp add: request_producers_def)
  ultimately have "direct_vapi_request_journal i (VStr n) authorized now =
      Inr (sealed DIRECT_ASSISTANT_REQUEST_PRODUCER ?own [] ''request_sha256'' (hexdigest (sha256 (seal_bytes ?own)))
        ''authorized_at'' (stamp_or authorized now))"
    using assms seal
    by (simp add: direct_vapi_request_journal_def Let_def text_with_def SHA256_def is_sha256_def)
  then show ?thesis by (rule that) (simp_all add: sealed_def request_fields_def assms)
qed

lemma direct_ownership_built:
  assumes "get_key i ''producer'' = VStr DIRECT_ASSISTANT_INTENT_PRODUCER" "RESOURCE_ID a"
    and "list_all (\<lambda>k. has_key i k \<and> is_str (get_key i k) \<and> clean_text (str_of (get_key i k)))
      [''execution_id'', ''region'', ''owned_name'', ''owner_marker'', ''tool_id'', ''organization_id'', ''model_name'',
       ''voice_id'', ''prompt_sha256'', ''desired_sha256'', ''intent_sha256'']"
  obtains q where "direct_assistant_ownership_journal i (VStr a) created now = Inr q"
    "get_key q ''assistant_id'' = VStr a" "get_key q ''intent_sha256'' = get_key i ''intent_sha256''"
proof -
  let ?own = "mk (map (\<lambda>k. (k, get_key i k)) [''execution_id'', ''region'']) @
    mk [(''resource_type'', VStr (lit ''assistant'')), (''assistant_id'', VStr a)] @
    mk (map (\<lambda>k. (k, get_key i k)) [''owned_name'', ''owner_marker'', ''tool_id'', ''organization_id'', ''model_name'',
      ''voice_id'', ''prompt_sha256'', ''desired_sha256'', ''intent_sha256''])"
  have own: "owned_items i [''execution_id'', ''region'']
          (mk [(''resource_type'', VStr (lit ''assistant'')), (''assistant_id'', VStr a)])
          [''owned_name'', ''owner_marker'', ''tool_id'', ''organization_id'', ''model_name'', ''voice_id'',
           ''prompt_sha256'', ''desired_sha256'', ''intent_sha256''] = Inr ?own"
    using assms(3) by (simp add: owned_items_def intent_items_def)
  have "clean_text a" using assms(2) resource_ascii by (blast intro: ascii_clean)
  with assms(3) have "text_record ?own" by (simp add: text_record_def clean_lit)
  note seal = sealed_sha256_ok [OF text_record_ok [OF this]]
  have "direct_assistant_ownership_journal i (VStr a) created now =
      Inr (sealed DIRECT_ASSISTANT_OWNERSHIP_PRODUCER ?own [] ''ownership_sha256'' (hexdigest (sha256 (seal_bytes ?own)))
        ''created_at'' (stamp_or created now))"
    using assms(1,2) own seal by (simp add: direct_assistant_ownership_journal_def text_with_def)
  then show ?thesis by (rule that) (simp_all add: sealed_def)
qed

text \<open>
  C35.  The records of the disposable assistant follow from each other: the assistant that
  \<open>direct_assistant_payload\<close> builds gets an intent that holds it unchanged, a request on that intent is
  authorized with its digest, and the identifier Vapi returns gets an ownership record bound to the same
  intent.
\<close>

theorem direct_assistant_records_follow:
  assumes "direct_assistant_payload e tool model voice = Inr (d, digest)"
    and "EXECUTION_ID e" "r \<in> set REGIONS" "RESOURCE_ID org" "clean_text model" "clean_text voice"
    and "request_nonce n" "RESOURCE_ID a"
  shows "\<exists>i q o'. direct_assistant_intent_journal e r org tool model voice digest d created now = Inr i \<and>
    get_key i ''desired'' = VDict d \<and>
    direct_vapi_request_journal i (VStr n) created now = Inr q \<and>
    get_key q ''intent_sha256'' = get_key i ''intent_sha256'' \<and>
    direct_assistant_ownership_journal i (VStr a) created now = Inr o' \<and>
    get_key o' ''assistant_id'' = VStr a \<and> get_key o' ''intent_sha256'' = get_key i ''intent_sha256''"
proof -
  from assistant_intent_built [OF assms(1-6)] obtain i h where
    run: "direct_assistant_intent_journal e r org tool model voice digest d created now = Inr i" and
    i: "get_key i ''desired'' = VDict d" "get_key i ''producer'' = VStr DIRECT_ASSISTANT_INTENT_PRODUCER"
    "get_key i ''resource_type'' = VStr (lit ''assistant'')" "get_key i ''execution_id'' = VStr e"
    "get_key i ''region'' = VStr r" "get_key i ''intent_sha256'' = VStr h" "is_sha256 h" and
    all: "list_all (\<lambda>k. has_key i k \<and> is_str (get_key i k) \<and> clean_text (str_of (get_key i k)))
      [''execution_id'', ''region'', ''owned_name'', ''owner_marker'', ''tool_id'', ''organization_id'', ''model_name'',
       ''voice_id'', ''prompt_sha256'', ''desired_sha256'', ''intent_sha256'']" .
  from direct_request_built [OF i(2-4) assms(2) i(5) assms(3) i(6,7) assms(7)] obtain q where
    "direct_vapi_request_journal i (VStr n) created now = Inr q" "get_key q ''intent_sha256'' = VStr h" .
  moreover from direct_ownership_built [OF i(2) assms(8) all] obtain o' where
    "direct_assistant_ownership_journal i (VStr a) created now = Inr o'" "get_key o' ''assistant_id'' = VStr a"
    "get_key o' ''intent_sha256'' = get_key i ''intent_sha256''" .
  ultimately show ?thesis using run i by simp
qed

theorem direct_assistant_records_follow_witness:
  "\<exists>d digest i q.
     direct_assistant_payload demo_execution (lit ''t1'') (lit ''m'') (lit ''v'') = Inr (d, digest) \<and>
     direct_assistant_intent_journal demo_execution (lit ''us-east-1'') (lit ''asst-2'') (lit ''t1'') (lit ''m'') (lit ''v'')
       digest d None [] = Inr i \<and>
     direct_vapi_request_journal i (VStr (lit ''0123456789abcdef0123456789abcdef'')) None [] = Inr q"
proof -
  have "is_ascii direct_prompt"
    by (simp add: direct_prompt_def prompt_marker_def DIRECT_PROMPT_MARKER_def is_ascii_def lit_def)
  then obtain bs where bs: "utf8_encode direct_prompt = Inr bs" by (auto simp: utf8_encode_ascii)
  have run: "direct_assistant_payload demo_execution (lit ''t1'') (lit ''m'') (lit ''v'') =
      Inr (assistant_document demo_execution (lit ''t1'') (lit ''m'') (lit ''v''), hexdigest (sha256 bs))"
    by (simp add: direct_assistant_payload_def bs)
      (simp add: is_identifier_def model_text_def demo_execution_def eval_simps)
  obtain "EXECUTION_ID demo_execution" using intent_built [OF demo_intent] by blast
  moreover have "lit ''us-east-1'' \<in> set REGIONS" by (simp add: REGIONS_def)
  moreover have "request_nonce (lit ''0123456789abcdef0123456789abcdef'')"
    by (simp add: request_nonce_def eval_simps class_match_def is_hex_lower_def is_digit_def)
  ultimately show ?thesis
    using direct_assistant_records_follow [OF run _ _ demo_assistants(2) clean_lit clean_lit _ demo_assistants(1)] run
    by blast
qed

end
