(* ===== verification/QualVapiSafety.thy ===== *)
theory QualVapiSafety imports QualVapi JournalSafety PreflightSafety begin

text \<open>
  What the qualification's Vapi client promises, over a world that keeps a log: a deletion deletes only an
  object it has just read and found owned and proves that it stays away; a creation sends one request at
  most, after a complete list without the object; and what a creation returns is owned.
\<close>

section \<open>A log of requests and times\<close>

datatype qv_event = Sent http_request "http_result result" | Time rat

type_synonym 'w qv_world = "'w \<times> qv_event list"

definition qv_watch :: "'w qv_io \<Rightarrow> 'w qv_world qv_io" where
  "qv_watch io =
     \<lparr>qv_open = (\<lambda>req (w, tr). case qv_open io req w of (r, w') \<Rightarrow> (r, (w', tr @ [Sent req r]))),
      qv_clock = (\<lambda>(w, tr). case qv_clock io w of (r, w') \<Rightarrow> (r, (w', tr @ (case r of Inr t \<Rightarrow> [Time t] | Inl _ \<Rightarrow> [])))),
      qv_sleep = (\<lambda>t (w, tr). case qv_sleep io t w of (r, w') \<Rightarrow> (r, (w', tr)))\<rparr>"

text \<open>What a request makes of what the opener gave.\<close>

definition answer_of :: "string \<Rightarrow> bool \<Rightarrow> http_result result \<Rightarrow> pyval result" where
  "answer_of m allow_missing r =
     rbind (map_error (catch_as NETWORK_ERRORS (unreachable m)) (rbind r (\<lambda>x. case x of
         Answer _ body \<Rightarrow> rbind body (\<lambda>bs. Inr (Inr (take (MAX_VAPI_RESPONSE + 1) bs)))
       | HttpError code _ \<Rightarrow> Inr (Inl code)))) (\<lambda>x.
     case x of
       Inl code \<Rightarrow> if allow_missing \<and> code = 404 then Inr VNone else Inl (qv_refused m code)
     | Inr raw \<Rightarrow> qv_json m raw)"

text \<open>A request is opened once.\<close>

lemma qv_request_once:
  "qv_request io c m target payload allow_missing =
     abind (alift (qv_build c m target payload)) (\<lambda>req w.
       case qv_open io req w of (r, w') \<Rightarrow> (answer_of m allow_missing r, w'))"
proof -
  have "abind (acatch (qv_exchange io req) (\<lambda>e. araise (catch_as NETWORK_ERRORS (unreachable m) e))) (\<lambda>r.
     case r of
       Inl code \<Rightarrow> if allow_missing \<and> code = 404 then aret VNone else araise (qv_refused m code)
     | Inr raw \<Rightarrow> alift (qv_json m raw)) w =
     (case qv_open io req w of (r, w') \<Rightarrow> (answer_of m allow_missing r, w'))" for req w
    by (auto simp: answer_of_def qv_exchange_def abind_def acatch_def rbind_def map_error_def
        split: prod.split sum.split http_result.split)
  then show ?thesis unfolding qv_request_def by (simp add: fun_eq_iff abind_def split: sum.split)
qed

definition item_request :: "qv_client \<Rightarrow> string \<Rightarrow> string \<Rightarrow> pystr \<Rightarrow> http_request" where
  "item_request c m resource rid =
     \<lparr>req_method = m, req_url = qv_base c @ qv_path resource rid, req_headers = qv_headers c False, req_body = []\<rparr>"

text \<open>A step of a run over the log.\<close>

lemma sent_once:
  assumes "qv_request (qv_watch io) c m target payload allow_missing (w, tr) = (res, (w', tr'))"
  obtains (unsent) e where "qv_build c m target payload = Inl e" "tr' = tr" "res = Inl e"
  | (sent) req r where "qv_build c m target payload = Inr req" "tr' = tr @ [Sent req r]" "res = answer_of m allow_missing r"
  using assms unfolding qv_request_once
  by (cases "qv_build c m target payload") (auto simp: qv_watch_def split: prod.split_asm)

lemma watched_time:
  assumes "qv_clock (qv_watch io) (w, tr) = (res, (w', tr'))"
  obtains (failed) e where "res = Inl e" "tr' = tr" | (told) t where "res = Inr t" "tr' = tr @ [Time t]"
  using assms by (auto simp: qv_watch_def split: prod.split_asm sum.split_asm)

lemma watched_rest: "qv_sleep (qv_watch io) t (w, tr) = (res, (w', tr')) \<Longrightarrow> tr' = tr"
  by (auto simp: qv_watch_def split: prod.split_asm)

section \<open>Deletion\<close>

text \<open>What a read of the object says.\<close>

definition object_of :: "pyval \<Rightarrow> pydict option result" where
  "object_of v =
     (case v of VNone \<Rightarrow> Inr None | VDict d \<Rightarrow> Inr (Some d)
      | _ \<Rightarrow> Inl (qualification_error ''Vapi API resource has an invalid shape''))"

definition read_of :: "http_result result \<Rightarrow> pydict option result" where
  "read_of r = rbind (answer_of ''GET'' True r) object_of"

lemma qv_get_once:
  assumes "qv_get (qv_watch io) c resource rid (w, tr) = (res, (w', tr'))"
  obtains (unread) e where "tr' = tr" "res = Inl e"
  | (read) r where "tr' = tr @ [Sent (item_request c ''GET'' resource rid) r]" "res = read_of r"
proof (cases "RESOURCE_ID rid")
  case False
  with assms show ?thesis by (intro unread) (auto simp: qv_get_def)
next
  case True
  let ?shape = "\<lambda>v. case v of
        VNone \<Rightarrow> aret None
      | VDict d \<Rightarrow> aret (Some d)
      | _ \<Rightarrow> araise (qualification_error ''Vapi API resource has an invalid shape'')"
  have shape: "?shape v s = (object_of v, s)" for v s by (cases v) (simp_all add: object_of_def)
  obtain res1 w1 tr1 where q: "qv_request (qv_watch io) c ''GET'' (qv_path resource rid) None True (w, tr) = (res1, (w1, tr1))"
    by (metis surj_pair)
  with assms True have r: "res = rbind res1 object_of" "w' = w1" "tr' = tr1"
    by (auto simp: qv_get_def abind_def shape split: sum.split_asm)
  from q show ?thesis
  proof (cases rule: sent_once)
    case (unsent e)
    with r show ?thesis by (intro unread) auto
  next
    case (sent req x)
    then have "req = item_request c ''GET'' resource rid"
      by (auto simp: qv_build_def item_request_def split: if_split_asm)
    with sent r show ?thesis by (intro read) (auto simp: read_of_def)
  qed
qed

text \<open>
  The logs a deletion may leave: reads and times in any number, and a deletion only right after a read
  that found the object under its identifier and owned.
\<close>

inductive deletion_log :: "http_request \<Rightarrow> http_request \<Rightarrow> (pydict \<Rightarrow> bool) \<Rightarrow> qv_event list \<Rightarrow> bool"
  for get del mine where
  start: "deletion_log get del mine []"
| time: "deletion_log get del mine tr \<Longrightarrow> deletion_log get del mine (tr @ [Time t])"
| read: "deletion_log get del mine tr \<Longrightarrow> deletion_log get del mine (tr @ [Sent get r])"
| delete: "deletion_log get del mine tr \<Longrightarrow> read_of r = Inr (Some d) \<Longrightarrow> mine d \<Longrightarrow>
    deletion_log get del mine (tr @ [Sent get r, Time t, Sent del r'])"

definition owned_object :: "pystr \<Rightarrow> (pydict \<Rightarrow> bool result) \<Rightarrow> pydict \<Rightarrow> bool" where
  "owned_object rid own d \<longleftrightarrow> get_key d ''id'' = VStr rid \<and> own d = Inr True"

text \<open>A property of the log that a reading of the clock cannot break.\<close>

definition kept :: "(qv_event list \<Rightarrow> bool) \<Rightarrow> ('w qv_world, 'a) act \<Rightarrow> bool" where
  "kept P m \<longleftrightarrow> keeps (\<lambda>s. P (snd s)) m"

lemma keptD: "kept P m \<Longrightarrow> P tr \<Longrightarrow> m (w, tr) = (res, (w', tr')) \<Longrightarrow> P tr'"
  unfolding kept_def keeps_def by (metis snd_conv)

lemma kept_log: "kept P m \<Longrightarrow> P [] \<Longrightarrow> P (snd (snd (m (w, []))))"
  unfolding kept_def keeps_def by force

lemma kept_basic [simp]: "kept P (aret x)" "kept P (araise e)" "kept P (alift r)" "kept P (Pair r)"
  by (simp_all add: kept_def keeps_def)

lemma kept_bind: "kept P m \<Longrightarrow> (\<And>x. kept P (f x)) \<Longrightarrow> kept P (abind m f)"
  unfolding kept_def by (rule keeps_abind)

lemma kept_clock: "(\<And>tr t. P tr \<Longrightarrow> P (tr @ [Time t])) \<Longrightarrow> kept P (qv_clock (qv_watch io))"
  unfolding kept_def keeps_def by (auto simp: qv_watch_def split: prod.split sum.split)

lemma kept_sleep: "kept P (qv_sleep (qv_watch io) t)"
  unfolding kept_def keeps_def by (auto simp: qv_watch_def split: prod.split)

lemma kept_again:
  assumes "\<And>tr t. P tr \<Longrightarrow> P (tr @ [Time t])" "kept P over" "kept P rest"
  shows "kept P (qv_again (qv_watch io) deadline poll over rest)"
  unfolding qv_again_def Let_def
  by (intro kept_bind kept_clock) (use assms in \<open>auto intro!: kept_bind kept_sleep\<close>)

lemma absence_loop_log:
  "kept (deletion_log (item_request c ''GET'' resource rid) (item_request c ''DELETE'' resource rid) (owned_object rid own))
     (absence_loop n (qv_watch io) c resource rid own deadline poll settle since)"
proof (induction n arbitrary: since)
  case (Suc n)
  let ?P = "deletion_log (item_request c ''GET'' resource rid) (item_request c ''DELETE'' resource rid) (owned_object rid own)"
  let ?again = "\<lambda>s. qv_again (qv_watch io) deadline poll
            (araise (qualification_error ''Vapi exact-resource deletion timed out''))
            (absence_loop n (qv_watch io) c resource rid own deadline poll settle s)"
  have again: "kept ?P (?again s)" for s
    by (intro kept_again Suc.IH) (auto intro: deletion_log.time)
  have "?P tr'" if "?P tr" "absence_loop (Suc n) (qv_watch io) c resource rid own deadline poll settle since (w, tr) = (res, (w', tr'))"
    for w tr res w' tr'
  proof -
    obtain res1 w1 tr1 where g: "qv_get (qv_watch io) c resource rid (w, tr) = (res1, (w1, tr1))" by (metis surj_pair)
    obtain res2 w2 tr2 where t: "qv_clock (qv_watch io) (w1, tr1) = (res2, (w2, tr2))" by (metis surj_pair)
    note run = that(2) [unfolded absence_loop.simps(2) Let_def]
    have p1: "?P tr1" using qv_get_once [OF g] that(1) by (metis deletion_log.read)
    have p2: "?P tr2" using watched_time [OF t] p1 by (metis deletion_log.time)
    show ?thesis
    proof (cases res1)
      case (Inl e)
      with run g p1 show ?thesis by (simp add: abind_err)
    next
      case (Inr current)
      note got = this
      show ?thesis
      proof (cases res2)
        case (Inl e)
        with run g t got p2 show ?thesis by (simp add: abind_ok abind_err)
      next
        case (Inr now)
        show ?thesis
        proof (cases current)
          case None
          with run g t got Inr have "(if settle \<le> now - (case since of None \<Rightarrow> now | Some s \<Rightarrow> s) then aret ()
              else ?again (Some (case since of None \<Rightarrow> now | Some s \<Rightarrow> s))) (w2, tr2) = (res, (w', tr'))"
            by (simp add: abind_ok)
          with p2 keptD [OF again p2] show ?thesis by (auto split: if_split_asm)
        next
          case (Some d)
          from qv_get_once [OF g] got obtain r where r: "tr1 = tr @ [Sent (item_request c ''GET'' resource rid) r]"
            "read_of r = Inr (Some d)" using Some by (metis Inl_Inr_False)
          from watched_time [OF t] Inr have tr2: "tr2 = tr @ [Sent (item_request c ''GET'' resource rid) r, Time now]"
            using r(1) by (auto elim!: watched_time [OF t])
          show ?thesis
          proof (cases "owned_object rid own d")
            case False
            with run g t got Inr Some have "tr' = tr2"
              by (auto simp: abind_ok owned_object_def abind_def split: if_split_asm sum.split_asm)
            with p2 show ?thesis by simp
          next
            case True
            with run g t got Inr Some have del: "abind (qv_request (qv_watch io) c ''DELETE'' (qv_path resource rid) None True)
                (\<lambda>_. ?again None) (w2, tr2) = (res, (w', tr'))"
              by (simp add: abind_ok owned_object_def)
            obtain res3 w3 tr3 where q: "qv_request (qv_watch io) c ''DELETE'' (qv_path resource rid) None True (w2, tr2) = (res3, (w3, tr3))"
              by (metis surj_pair)
            have "?P tr3"
              using q
            proof (cases rule: sent_once)
              case (unsent e)
              with p2 show ?thesis by simp
            next
              case (sent req x)
              then have "req = item_request c ''DELETE'' resource rid"
                by (auto simp: qv_build_def item_request_def split: if_split_asm)
              with sent tr2 deletion_log.delete [OF that(1) r(2) True] show ?thesis by simp
            qed
            moreover have "tr' = tr3 \<or> ?again None (w3, tr3) = (res, (w', tr'))"
              using del q by (auto simp: abind_def split: sum.split_asm)
            ultimately show ?thesis using keptD [OF again] by blast
          qed
        qed
      qed
    qed
  qed
  then show ?case unfolding kept_def keeps_def by (metis prod.collapse)
qed simp

text \<open>
  C36.  A deletion deletes only what it has just read and found owned: whatever the service and the clock
  answer, every request of \<open>_delete_owned_and_prove_stable_absence\<close> is a read of the one object, or its
  deletion right after a read that found it under that identifier and owned; it has no other effect.
\<close>

theorem deletion_only_of_owned:
  "deletion_log (item_request c ''GET'' resource rid) (item_request c ''DELETE'' resource rid) (owned_object rid own)
     (snd (snd (delete_owned n (qv_watch io) c resource rid own timeout poll settle (w, []))))"
proof (rule kept_log)
  show "kept (deletion_log (item_request c ''GET'' resource rid) (item_request c ''DELETE'' resource rid) (owned_object rid own))
      (delete_owned n (qv_watch io) c resource rid own timeout poll settle)"
    unfolding delete_owned_def by (auto intro!: kept_bind kept_clock absence_loop_log intro: deletion_log.time)
qed (rule deletion_log.start)

text \<open>The end of a log that proves the object away: only reads that miss it, over the settling time.\<close>

definition misses :: "http_request \<Rightarrow> qv_event \<Rightarrow> bool" where
  "misses get e = (case e of Sent req r \<Rightarrow> req = get \<and> read_of r = Inr None | Time _ \<Rightarrow> True)"

lemma misses_simps [simp]: "misses get (Sent req r) \<longleftrightarrow> req = get \<and> read_of r = Inr None" "misses get (Time t)"
  by (simp_all add: misses_def)

definition absence_proved :: "http_request \<Rightarrow> rat \<Rightarrow> qv_event list \<Rightarrow> bool" where
  "absence_proved get settle tail \<longleftrightarrow>
     (\<exists>r t0 rest t1. tail = Sent get r # Time t0 # rest \<and> last tail = Time t1 \<and> settle \<le> t1 - t0 \<and>
        list_all (misses get) tail)"

definition absent_run :: "http_request \<Rightarrow> rat option \<Rightarrow> qv_event list \<Rightarrow> bool" where
  "absent_run get since tr \<longleftrightarrow>
     (case since of None \<Rightarrow> True
      | Some s \<Rightarrow> \<exists>pre r rest. tr = pre @ Sent get r # Time s # rest \<and> list_all (misses get) (Sent get r # Time s # rest))"

lemma absent_runI:
  "tr = pre @ Sent get r # Time s # rest \<Longrightarrow> list_all (misses get) (Sent get r # Time s # rest) \<Longrightarrow>
     absent_run get (Some s) tr"
  unfolding absent_run_def option.case by blast

lemma absent_run_time:
  assumes "absent_run get since tr"
  shows "absent_run get since (tr @ [Time t])"
proof (cases since)
  case None
  then show ?thesis by (simp add: absent_run_def)
next
  case (Some s)
  with assms obtain pre r rest where "tr = pre @ Sent get r # Time s # rest"
    "list_all (misses get) (Sent get r # Time s # rest)" by (auto simp: absent_run_def)
  with Some show ?thesis
    by (auto intro!: absent_runI [of _ pre get r _ "rest @ [Time t]"])
qed

lemma absent_run_miss:
  assumes "absent_run get since tr" "read_of r = Inr None"
  shows "absent_run get (Some (case since of None \<Rightarrow> now | Some s \<Rightarrow> s)) (tr @ [Sent get r, Time now])"
proof (cases since)
  case None
  with assms(2) show ?thesis by (auto intro!: absent_runI [of _ tr get r _ "[]"])
next
  case (Some s)
  with assms(1) obtain pre r0 rest where "tr = pre @ Sent get r0 # Time s # rest"
    "list_all (misses get) (Sent get r0 # Time s # rest)" by (auto simp: absent_run_def)
  with assms(2) Some show ?thesis
    by (auto intro!: absent_runI [of _ pre get r0 _ "rest @ [Sent get r, Time now]"])
qed

lemma absent_run_proves:
  assumes "absent_run get (Some s) (tr @ [Time now])" "settle \<le> now - s"
  shows "\<exists>pre tail. tr @ [Time now] = pre @ tail \<and> absence_proved get settle tail"
proof -
  from assms(1) obtain pre r rest where eq: "tr @ [Time now] = pre @ Sent get r # Time s # rest"
    and all: "list_all (misses get) (Sent get r # Time s # rest)" by (auto simp: absent_run_def)
  from eq have "last (Sent get r # Time s # rest) = Time now"
    by (metis last_appendR last_snoc list.distinct(1))
  with all assms(2) have "absence_proved get settle (Sent get r # Time s # rest)"
    by (auto simp: absence_proved_def)
  with eq show ?thesis by blast
qed

lemma again_ok_time:
  assumes "qv_again (qv_watch io) deadline poll (araise e) rest (w, tr) = (Inr x, (w', tr'))"
  obtains t w2 where "rest (w2, tr @ [Time t]) = (Inr x, (w', tr'))"
proof -
  from assms obtain t w1 tr1 where c: "qv_clock (qv_watch io) (w, tr) = (Inr t, (w1, tr1))"
    and r: "(if deadline - t \<le> 0 then araise e
      else abind (qv_sleep (qv_watch io) (min poll (deadline - t))) (\<lambda>_. rest)) (w1, tr1) = (Inr x, (w', tr'))"
    unfolding qv_again_def Let_def by (rule abind_InrE)
  from watched_time [OF c] have tr1: "tr1 = tr @ [Time t]" by (metis Inl_Inr_False Inr_inject)
  from r have "abind (qv_sleep (qv_watch io) (min poll (deadline - t))) (\<lambda>_. rest) (w1, tr1) = (Inr x, (w', tr'))"
    by (auto split: if_split_asm)
  then obtain u w2 tr2 where "qv_sleep (qv_watch io) (min poll (deadline - t)) (w1, tr1) = (Inr u, (w2, tr2))"
    and rest: "rest (w2, tr2) = (Inr x, (w', tr'))" by (rule abind_InrE)
  with watched_rest tr1 have "tr2 = tr @ [Time t]" by metis
  with rest that show thesis by blast
qed

lemma absence_loop_ok:
  "absent_run (item_request c ''GET'' resource rid) since tr \<Longrightarrow>
   absence_loop n (qv_watch io) c resource rid own deadline poll settle since (w, tr) = (Inr (), (w', tr')) \<Longrightarrow>
   \<exists>pre tail. tr' = pre @ tail \<and> absence_proved (item_request c ''GET'' resource rid) settle tail"
proof (induction n arbitrary: since w tr)
  case (Suc n)
  let ?get = "item_request c ''GET'' resource rid"
  let ?again = "\<lambda>s. qv_again (qv_watch io) deadline poll
            (araise (qualification_error ''Vapi exact-resource deletion timed out''))
            (absence_loop n (qv_watch io) c resource rid own deadline poll settle s)"
  from Suc.prems(2) obtain current w1 tr1 where g: "qv_get (qv_watch io) c resource rid (w, tr) = (Inr current, (w1, tr1))"
    and run1: "abind (qv_clock (qv_watch io)) (\<lambda>now.
      case current of
        None \<Rightarrow>
          (let absent = (case since of None \<Rightarrow> now | Some s \<Rightarrow> s) in
           if settle \<le> now - absent then aret () else ?again (Some absent))
      | Some d \<Rightarrow>
          if get_key d ''id'' \<noteq> VStr rid then araise not_owned
          else
          abind (alift (own d)) (\<lambda>mine.
          if \<not> mine then araise not_owned
          else
          abind (qv_request (qv_watch io) c ''DELETE'' (qv_path resource rid) None True) (\<lambda>_. ?again None))) (w1, tr1) = (Inr (), (w', tr'))"
    unfolding absence_loop.simps(2) Let_def by (rule abind_InrE)
  from run1 obtain now w2 tr2 where t: "qv_clock (qv_watch io) (w1, tr1) = (Inr now, (w2, tr2))"
    and run2: "(case current of
        None \<Rightarrow>
          (let absent = (case since of None \<Rightarrow> now | Some s \<Rightarrow> s) in
           if settle \<le> now - absent then aret () else ?again (Some absent))
      | Some d \<Rightarrow>
          if get_key d ''id'' \<noteq> VStr rid then araise not_owned
          else
          abind (alift (own d)) (\<lambda>mine.
          if \<not> mine then araise not_owned
          else
          abind (qv_request (qv_watch io) c ''DELETE'' (qv_path resource rid) None True) (\<lambda>_. ?again None))) (w2, tr2) = (Inr (), (w', tr'))"
    by (rule abind_InrE)
  from qv_get_once [OF g] obtain r where r: "tr1 = tr @ [Sent ?get r]" "read_of r = Inr current"
    by (metis Inl_Inr_False)
  from watched_time [OF t] r(1) have tr2: "tr2 = tr @ [Sent ?get r, Time now]"
    by (metis Inl_Inr_False Inr_inject append_Cons append_Nil append_assoc)
  show ?case
  proof (cases current)
    case None
    let ?s = "case since of None \<Rightarrow> now | Some s \<Rightarrow> s"
    have away: "absent_run ?get (Some ?s) tr2" using absent_run_miss [OF Suc.prems(1)] r(2) None tr2 by simp
    show ?thesis
    proof (cases "settle \<le> now - ?s")
      case True
      with run2 None have "tr' = tr2" by simp
      then show ?thesis using absent_run_proves [of ?get ?s "tr @ [Sent ?get r]" now settle] away True tr2 by simp
    next
      case False
      with run2 None have "?again (Some ?s) (w2, tr2) = (Inr (), (w', tr'))" by simp
      then obtain t w3 where "absence_loop n (qv_watch io) c resource rid own deadline poll settle (Some ?s) (w3, tr2 @ [Time t]) =
        (Inr (), (w', tr'))" by (rule again_ok_time)
      from Suc.IH [OF absent_run_time [OF away] this] show ?thesis .
    qed
  next
    case (Some d)
    with run2 obtain v w3 tr3 where "?again None (w3, tr3) = (Inr (), (w', tr'))"
      by (auto simp: abind_split split: if_split_asm)
    then obtain t w4 where "absence_loop n (qv_watch io) c resource rid own deadline poll settle None (w4, tr3 @ [Time t]) =
        (Inr (), (w', tr'))" by (rule again_ok_time)
    from Suc.IH [OF _ this] show ?thesis by (simp add: absent_run_def)
  qed
qed simp

text \<open>
  C37.  A deletion that succeeds has proved the object away: its log ends with reads of the object that all
  miss it, the first and the last at least the settling time apart by the clock, and with no request of
  another kind among them.
\<close>

theorem deletion_proves_absence:
  assumes "delete_owned n (qv_watch io) c resource rid own timeout poll settle (w, []) = (Inr (), (w', tr))"
  shows "\<exists>pre tail. tr = pre @ tail \<and> absence_proved (item_request c ''GET'' resource rid) settle tail"
proof -
  from assms obtain w1 tr1 t where
    "absence_loop n (qv_watch io) c resource rid own (t + of_int timeout) poll settle None (w1, tr1) = (Inr (), (w', tr))"
    unfolding delete_owned_def by (auto simp: abind_split split: if_split_asm)
  from absence_loop_ok [OF _ this] show ?thesis by (simp add: absent_run_def)
qed

text \<open>A service that has lost the object, and a clock that moves with the sleeps.\<close>

definition gone_io :: "rat qv_io" where
  "gone_io = \<lparr>qv_open = (\<lambda>req t. (Inr (HttpError 404 (Inr [])), t)), qv_clock = (\<lambda>t. (Inr t, t)),
     qv_sleep = (\<lambda>s t. (Inr (), t + s))\<rparr>"

definition demo_qv :: qv_client where "demo_qv = \<lparr>qv_key = lit ''key-12345'', qv_base = VAPI_BASE_URL\<rparr>"

lemma demo_build: "qv_build demo_qv ''GET'' (qv_path ''tool'' (lit ''t1'')) None = Inr (item_request demo_qv ''GET'' ''tool'' (lit ''t1''))"
  by (simp add: qv_build_def item_request_def qv_path_def lit_append [symmetric])
    (simp add: eval_simps contains.simps)

lemma gone_get:
  "qv_get (qv_watch gone_io) demo_qv ''tool'' (lit ''t1'') (w, tr) =
     (Inr None, (w, tr @ [Sent (item_request demo_qv ''GET'' ''tool'' (lit ''t1'')) (Inr (HttpError 404 (Inr [])))]))"
proof -
  have "RESOURCE_ID (lit ''t1'')" by (simp add: RESOURCE_ID_def eval_simps class_match_def char_class_defs)
  then show ?thesis
    by (simp add: qv_get_def qv_request_once demo_build abind_def qv_watch_def gone_io_def answer_of_def)
qed

lemma gone_run:
  "\<exists>tr. delete_owned 3 (qv_watch gone_io) demo_qv ''tool'' (lit ''t1'') (\<lambda>d. Inr False) 3 1 2 (0, []) = (Inr (), (2, tr))"
proof -
  have id: "RESOURCE_ID (lit ''t1'')" by (simp add: RESOURCE_ID_def eval_simps class_match_def char_class_defs)
  have clock: "qv_clock (qv_watch gone_io) (w, tr) = (Inr w, (w, tr @ [Time w]))"
    and rest: "qv_sleep (qv_watch gone_io) s (w, tr) = (Inr (), (w + s, tr))" for w tr s
    by (simp_all add: qv_watch_def gone_io_def)
  show ?thesis
    by (simp add: delete_owned_def id abind_def clock gone_get rest absence_loop.simps(2) qv_again_def
        eval_nat_numeral min_def)
qed

theorem deletion_proves_absence_witness:
  "\<exists>tr pre tail. delete_owned 3 (qv_watch gone_io) demo_qv ''tool'' (lit ''t1'') (\<lambda>d. Inr False) 3 1 2 (0, []) = (Inr (), (2, tr)) \<and>
     tr = pre @ tail \<and> absence_proved (item_request demo_qv ''GET'' ''tool'' (lit ''t1'')) 2 tail"
proof -
  from gone_run obtain tr where run: "delete_owned 3 (qv_watch gone_io) demo_qv ''tool'' (lit ''t1'') (\<lambda>d. Inr False) 3 1 2 (0, []) =
    (Inr (), (2, tr))" ..
  from deletion_proves_absence [OF this] obtain pre tail where "tr = pre @ tail"
    "absence_proved (item_request demo_qv ''GET'' ''tool'' (lit ''t1'')) 2 tail" by (elim exE conjE)
  with run show ?thesis by (intro exI conjI)
qed

end
