(* ===== verification/QualVapiCreate.thy ===== *)
theory QualVapiCreate imports QualVapiSafety begin

text \<open>
  Creation by the qualification's Vapi client: one request at most and only after a complete list without
  the object, and what is returned is owned.
\<close>

section \<open>Reading\<close>

definition only_gets :: "qv_event list \<Rightarrow> bool" where
  "only_gets tr \<longleftrightarrow> list_all (\<lambda>e. case e of Sent req _ \<Rightarrow> req_method req = ''GET'' | Time _ \<Rightarrow> True) tr"

lemma only_gets_simps [simp]:
  "only_gets []" "only_gets (tr @ tr') \<longleftrightarrow> only_gets tr \<and> only_gets tr'"
  "only_gets (Sent req r # tr) \<longleftrightarrow> req_method req = ''GET'' \<and> only_gets tr" "only_gets (Time t # tr) \<longleftrightarrow> only_gets tr"
  by (simp_all add: only_gets_def)

text \<open>A property of the log that neither a read nor the clock breaks.\<close>

locale watching =
  fixes P :: "qv_event list \<Rightarrow> bool"
  assumes time: "P tr \<Longrightarrow> P (tr @ [Time t])"
    and gets: "req_method req = ''GET'' \<Longrightarrow> P tr \<Longrightarrow> P (tr @ [Sent req r])"
begin

lemma request: "kept P (qv_request (qv_watch io) c ''GET'' target payload missing)"
  unfolding kept_def
proof (rule keepsI)
  fix s res s' assume p: "P (snd s)" and run: "qv_request (qv_watch io) c ''GET'' target payload missing s = (res, s')"
  obtain w tr w' tr' where s: "s = (w, tr)" "s' = (w', tr')" by (metis surj_pair)
  from run [unfolded s] show "P (snd s')"
  proof (cases rule: sent_once)
    case (unsent e)
    with p s show ?thesis by simp
  next
    case (sent req r)
    then have "req_method req = ''GET''" by (auto simp: qv_build_def rbind_eq_Inr split: if_split_asm)
    from gets [OF this, of tr r] p s sent show ?thesis by simp
  qed
qed

lemma get: "kept P (qv_get (qv_watch io) c resource rid)"
  unfolding qv_get_def by (auto intro!: kept_bind request split: pyval.split)

lemma listing: "kept P (qv_list (qv_watch io) c resource most)"
  unfolding qv_list_def by (auto intro!: kept_bind request)

lemma clock: "kept P (qv_clock (qv_watch io))"
  by (rule kept_clock) (rule time)

lemma again: "kept P over \<Longrightarrow> kept P rest \<Longrightarrow> kept P (qv_again (qv_watch io) deadline poll over rest)"
  by (intro kept_again time)

lemma tool: "kept P (find_direct_tool (qv_watch io) c e url cr desired)"
  unfolding find_direct_tool_def by (intro kept_bind listing kept_basic)

lemma assistant: "kept P (find_direct_assistant (qv_watch io) c a desired)"
  unfolding find_direct_assistant_def by (intro kept_bind listing kept_basic)

lemma phone: "kept P (find_phone_for_intent (qv_watch io) c intent)"
  unfolding find_phone_for_intent_def by (intro kept_bind listing kept_basic)

lemma caught: "kept P m \<Longrightarrow> (\<And>e. kept P (h e)) \<Longrightarrow> kept P (acatch m h)"
  unfolding kept_def keeps_def acatch_def by (auto split: prod.split sum.split) (metis snd_conv)+

lemma reconcile: "kept P look \<Longrightarrow> kept P (reconcile_loop n (qv_watch io) look deadline failed)"
  by (induction n) (auto simp: reconcile_loop.simps(2) intro!: kept_bind clock kept_sleep split: option.split)

lemma waiting: "kept P (phone_wait_loop n (qv_watch io) c intent deadline poll)"
  by (induction n) (auto simp: phone_wait_loop.simps(2) intro!: kept_bind phone again split: option.split)

lemma reconcile_endpoint: "kept P (reconcile_phone n (qv_watch io) c intent timeout poll failed)"
  unfolding reconcile_phone_def safely_def wait_for_phone_intent_def
  by (auto intro!: kept_bind caught clock waiting split: option.split)

end

text \<open>The log after some start.\<close>

interpretation after: watching "\<lambda>tr. \<exists>rest. tr = start @ rest \<and> only_gets rest" for start
  by unfold_locales auto

section \<open>One request\<close>

text \<open>What a list says.\<close>

definition list_request :: "qv_client \<Rightarrow> string \<Rightarrow> http_request" where
  "list_request c resource =
     \<lparr>req_method = ''GET'', req_url = qv_base c @ lit (''/'' @ resource @ ''?limit=100''),
      req_headers = qv_headers c False, req_body = []\<rparr>"

lemma list_request_get [simp]: "req_method (list_request c resource) = ''GET''"
  by (simp add: list_request_def)

definition listed_of :: "http_result result \<Rightarrow> pydict list result" where
  "listed_of r = rbind (answer_of ''GET'' False r) (qv_objects ''Vapi API list has an invalid shape'')"

lemma dec_100: "dec_string 100 = ''100''"
  by code_simp

lemma qv_list_once:
  assumes "qv_list (qv_watch io) c resource 100 (w, tr) = (res, (w', tr'))"
  obtains (unread) e where "tr' = tr" "res = Inl e"
  | (read) r where "tr' = tr @ [Sent (list_request c resource) r]" "res = listed_of r"
proof -
  let ?target = "lit (''/'' @ resource @ ''?limit=100'')"
  obtain res1 w1 tr1 where q: "qv_request (qv_watch io) c ''GET'' ?target None False (w, tr) = (res1, (w1, tr1))"
    by (metis surj_pair)
  with assms have r: "res = rbind res1 (qv_objects ''Vapi API list has an invalid shape'')" "tr' = tr1"
    by (auto simp: qv_list_def dec_100 abind_def split: sum.split_asm)
  from q show ?thesis
  proof (cases rule: sent_once)
    case (unsent e)
    with r show ?thesis by (intro unread) auto
  next
    case (sent req x)
    then have "req = list_request c resource" by (auto simp: qv_build_def list_request_def split: if_split_asm)
    with sent r show ?thesis by (intro read) (auto simp: listed_of_def)
  qed
qed

text \<open>
  The logs a creation may leave: reads only, or the list without the object, then the one request, then
  reads only.
\<close>

definition creation_log :: "http_request \<Rightarrow> (pydict list \<Rightarrow> bool) \<Rightarrow> http_request result \<Rightarrow> qv_event list \<Rightarrow> bool" where
  "creation_log listing free post tr \<longleftrightarrow>
     only_gets tr \<or>
     (\<exists>r ps req r' rest. tr = Sent listing r # Sent req r' # rest \<and> listed_of r = Inr ps \<and> free ps \<and>
        post = Inr req \<and> only_gets rest)"

text \<open>An action that sends a request and then reads.\<close>

definition posting :: "http_request result \<Rightarrow> ('w qv_world, 'a) act \<Rightarrow> bool" where
  "posting post m \<longleftrightarrow>
     (\<forall>w tr res w' tr'. m (w, tr) = (res, (w', tr')) \<longrightarrow>
        (\<exists>rest. only_gets rest \<and> (tr' = tr @ rest \<or> (\<exists>req r'. post = Inr req \<and> tr' = tr @ Sent req r' # rest))))"

lemma reads_after:
  assumes "\<And>start. kept (\<lambda>tr. \<exists>rest. tr = start @ rest \<and> only_gets rest) m" "m (w, tr) = (res, (w', tr'))"
  shows "\<exists>rest. tr' = tr @ rest \<and> only_gets rest"
  using keptD [OF assms(1) _ assms(2), of tr] by (auto intro: exI [of _ "[]"])

lemma posting_request:
  "posting (qv_build c m target payload) (qv_request (qv_watch io) c m target payload missing)"
  unfolding posting_def
  by (intro allI impI, erule sent_once) (auto intro: exI [of _ "[]"])

lemma posting_bind:
  assumes "posting post m" "\<And>x start. kept (\<lambda>tr. \<exists>rest. tr = start @ rest \<and> only_gets rest) (f x)"
  shows "posting post (abind m f)"
  unfolding posting_def
proof (intro allI impI)
  fix w tr res w' tr' assume run: "abind m f (w, tr) = (res, (w', tr'))"
  obtain res1 w1 tr1 where m: "m (w, tr) = (res1, (w1, tr1))" by (metis surj_pair)
  with assms(1) obtain rest where r: "only_gets rest" "tr1 = tr @ rest \<or> (\<exists>req r'. post = Inr req \<and> tr1 = tr @ Sent req r' # rest)"
    unfolding posting_def by blast
  from run m have "tr' = tr1 \<or> (\<exists>x. f x (w1, tr1) = (res, (w', tr')))" by (auto simp: abind_def split: sum.split_asm)
  then obtain rest' where "tr' = tr1 @ rest'" "only_gets rest'"
    using reads_after [OF assms(2)] by (metis append_Nil2 only_gets_simps(1))
  with r show "\<exists>rest. only_gets rest \<and> (tr' = tr @ rest \<or> (\<exists>req r'. post = Inr req \<and> tr' = tr @ Sent req r' # rest))"
    by (intro exI [of _ "rest @ rest'"]) auto
qed

lemma posting_catch:
  assumes "posting post m" "\<And>x start. kept (\<lambda>tr. \<exists>rest. tr = start @ rest \<and> only_gets rest) (h x)"
  shows "posting post (acatch m h)"
  unfolding posting_def
proof (intro allI impI)
  fix w tr res w' tr' assume run: "acatch m h (w, tr) = (res, (w', tr'))"
  obtain res1 w1 tr1 where m: "m (w, tr) = (res1, (w1, tr1))" by (metis surj_pair)
  with assms(1) obtain rest where r: "only_gets rest" "tr1 = tr @ rest \<or> (\<exists>req r'. post = Inr req \<and> tr1 = tr @ Sent req r' # rest)"
    unfolding posting_def by blast
  from run m have "tr' = tr1 \<or> (\<exists>x. h x (w1, tr1) = (res, (w', tr')))" by (auto simp: acatch_def split: sum.split_asm)
  then obtain rest' where "tr' = tr1 @ rest'" "only_gets rest'"
    using reads_after [OF assms(2)] by (metis append_Nil2 only_gets_simps(1))
  with r show "\<exists>rest. only_gets rest \<and> (tr' = tr @ rest \<or> (\<exists>req r'. post = Inr req \<and> tr' = tr @ Sent req r' # rest))"
    by (intro exI [of _ "rest @ rest'"]) auto
qed

text \<open>Looking in the list, and posting when the object is not there.\<close>

lemma look_then_post:
  assumes "posting post (rest)"
  shows "creation_log (list_request c resource) (\<lambda>ps. pick ps = Inr None) post
    (snd (snd (abind (abind (qv_list (qv_watch io) c resource 100) (\<lambda>ps. alift (pick ps)))
      (\<lambda>found. case found of Some d \<Rightarrow> aret d | None \<Rightarrow> rest) (w, []))))"
    (is "creation_log _ _ _ (snd (snd (?m (w, []))))")
proof -
  obtain res1 w1 tr1 where l: "qv_list (qv_watch io) c resource 100 (w, []) = (res1, (w1, tr1))" by (metis surj_pair)
  then show ?thesis
  proof (cases rule: qv_list_once)
    case (unread e)
    with l show ?thesis by (simp add: abind_def creation_log_def)
  next
    case (read r)
    show ?thesis
    proof (cases "\<exists>ps. res1 = Inr ps \<and> pick ps = Inr None")
      case False
      with l have same: "snd (snd (?m (w, []))) = tr1" by (auto simp: abind_def split: sum.split option.split)
      from read show ?thesis unfolding same by (simp add: creation_log_def)
    next
      case True
      then obtain ps where ps: "res1 = Inr ps" "pick ps = Inr None" by blast
      obtain res2 w2 tr2 where m: "rest (w1, tr1) = (res2, (w2, tr2))" by (metis surj_pair)
      with l ps have whole: "?m (w, []) = (res2, (w2, tr2))" by (simp add: abind_def)
      from assms m obtain more where "only_gets more" "tr2 = tr1 @ more \<or> (\<exists>req r'. post = Inr req \<and> tr2 = tr1 @ Sent req r' # more)"
        unfolding posting_def by blast
      with read ps have "creation_log (list_request c resource) (\<lambda>ps. pick ps = Inr None) post tr2"
        by (auto simp: creation_log_def)
      then show ?thesis unfolding whole by simp
    qed
  qed
qed

text \<open>The requests of the three creations.\<close>

lemma posting_post:
  assumes "\<And>start. kept (\<lambda>tr. \<exists>rest. tr = start @ rest \<and> only_gets rest) look"
  shows "posting (qv_build c ''POST'' (lit (''/'' @ kind)) (Some desired)) (post_or_reconcile n (qv_watch io) c kind desired look timeout)"
  unfolding post_or_reconcile_def
  by (intro posting_catch posting_bind posting_request)
    (auto intro!: kept_bind after.clock after.reconcile assms)

lemma create_tool_log:
  "creation_log (list_request c ''tool'')
     (\<lambda>ps. the_related ''tool'' (related_tool url cr) (\<lambda>d. Inr (tool_mine e url cr desired d)) ps = Inr None)
     (qv_build c ''POST'' (lit ''/tool'') (Some desired))
     (snd (snd (create_direct_tool n (qv_watch io) c e url cr desired timeout (w, []))))"
  unfolding create_direct_tool_def Let_def find_direct_tool_def
  by (intro look_then_post posting_bind posting_post [where kind = "''tool''", simplified])
    (auto intro!: kept_bind after.listing after.get split: sum.split option.split)

lemma create_assistant_log:
  "creation_log (list_request c ''assistant'')
     (\<lambda>ps. the_related ''assistant'' (related_assistant a) (assistant_mine a desired) ps = Inr None)
     (qv_build c ''POST'' (lit ''/assistant'') (Some desired))
     (snd (snd (create_direct_assistant n (qv_watch io) c a desired timeout (w, []))))"
  unfolding create_direct_assistant_def Let_def find_direct_assistant_def
  by (intro look_then_post posting_bind posting_post [where kind = "''assistant''", simplified])
    (auto intro!: kept_bind after.listing after.get split: sum.split option.split)

definition intent_of :: "pystr \<Rightarrow> pystr \<Rightarrow> (pystr \<times> pystr) list \<Rightarrow> pydict" where
  "intent_of e assistant auth = (case vapi_phone_intent e assistant auth of Inr i \<Rightarrow> i | Inl _ \<Rightarrow> [])"

lemma posting_phone: "posting (qv_build c ''POST'' (lit ''/phone-number'') (Some payload)) (post_phone (qv_watch io) c payload)"
  unfolding post_phone_def by (intro posting_catch posting_bind posting_request) auto

lemma create_phone_log:
  "creation_log (list_request c ''phone-number'') (\<lambda>ps. phone_among (intent_of e assistant auth) ps = Inr None)
     (qv_build c ''POST'' (lit ''/phone-number'') (Some (phone_payload (intent_of e assistant auth) assistant auth)))
     (snd (snd (create_phone n (qv_watch io) c e assistant auth timeout poll (w, []))))"
proof (cases "vapi_phone_intent e assistant auth")
  case (Inl x)
  then show ?thesis by (simp add: create_phone_def creation_log_def abind_def)
next
  case (Inr i)
  then have i: "intent_of e assistant auth = i" by (simp add: intent_of_def)
  show ?thesis
  proof (cases "timeout < 0 \<or> poll < 0")
    case True
    then show ?thesis by (simp add: create_phone_def creation_log_def)
  next
    case False
    with Inr show ?thesis
      unfolding create_phone_def Let_def i if_not_P [OF False] Inr abind_unit find_phone_for_intent_def
      by (intro look_then_post posting_bind posting_phone)
        (auto intro!: kept_bind after.reconcile_endpoint after.get after.caught simp: safely_def split: option.split)
  qed
qed

text \<open>
  C38.  A creation sends at most one request that changes anything, and only after a list, complete by its
  length, that shows no object of the run: this holds for the direct tool, the direct assistant and the SIP
  endpoint, whatever the service answers, an ambiguous answer and its reconciliation included.
\<close>

theorem creation_posts_once:
  "creation_log (list_request c ''tool'')
     (\<lambda>ps. the_related ''tool'' (related_tool url cr) (\<lambda>d. Inr (tool_mine e url cr desired d)) ps = Inr None)
     (qv_build c ''POST'' (lit ''/tool'') (Some desired))
     (snd (snd (create_direct_tool n (qv_watch io) c e url cr desired timeout (w, [])))) \<and>
   creation_log (list_request c ''assistant'')
     (\<lambda>ps. the_related ''assistant'' (related_assistant a) (assistant_mine a desired) ps = Inr None)
     (qv_build c ''POST'' (lit ''/assistant'') (Some desired))
     (snd (snd (create_direct_assistant n (qv_watch io) c a desired timeout (w, [])))) \<and>
   creation_log (list_request c ''phone-number'') (\<lambda>ps. phone_among (intent_of e assistant auth) ps = Inr None)
     (qv_build c ''POST'' (lit ''/phone-number'') (Some (phone_payload (intent_of e assistant auth) assistant auth)))
     (snd (snd (create_phone n (qv_watch io) c e assistant auth timeout poll (w, []))))"
  by (intro conjI create_tool_log create_assistant_log create_phone_log)

section \<open>What a creation returns\<close>

text \<open>An action that gives only what has a property.\<close>

definition gives :: "('a \<Rightarrow> bool) \<Rightarrow> ('w, 'a) act \<Rightarrow> bool" where
  "gives Q m \<longleftrightarrow> (\<forall>w x w'. m w = (Inr x, w') \<longrightarrow> Q x)"

lemma givesD: "gives Q m \<Longrightarrow> m w = (Inr x, w') \<Longrightarrow> Q x"
  unfolding gives_def by blast

lemma gives_basic [simp]:
  "gives Q (aret x) \<longleftrightarrow> Q x" "gives Q (araise e)" "gives Q (alift r) \<longleftrightarrow> (\<forall>x. r = Inr x \<longrightarrow> Q x)"
  "gives Q (Pair r) \<longleftrightarrow> (\<forall>x. r = Inr x \<longrightarrow> Q x)" "gives (\<lambda>x. True) m"
  by (auto simp: gives_def)

lemma gives_bind: "gives Q m \<Longrightarrow> (\<And>x. Q x \<Longrightarrow> gives R (f x)) \<Longrightarrow> gives R (abind m f)"
  unfolding gives_def by (simp add: abind_split) blast

lemma gives_bind_any: "(\<And>x. gives R (f x)) \<Longrightarrow> gives R (abind m f)"
  by (rule gives_bind [of "\<lambda>x. True"]) simp_all

lemma gives_catch: "gives Q m \<Longrightarrow> (\<And>e. gives Q (h e)) \<Longrightarrow> gives Q (acatch m h)"
  unfolding gives_def acatch_def by (auto split: prod.splits sum.splits)

definition found :: "('a \<Rightarrow> bool) \<Rightarrow> 'a option \<Rightarrow> bool" where
  "found Q x \<longleftrightarrow> (case x of None \<Rightarrow> True | Some d \<Rightarrow> Q d)"

lemma found_simps [simp]: "found Q None" "found Q (Some d) \<longleftrightarrow> Q d"
  by (simp_all add: found_def)

lemma the_related_mine: "the_related kind related mine items = Inr x \<Longrightarrow> found (\<lambda>d. mine d = Inr True) x"
  by (auto simp: the_related_def found_def rbind_eq_Inr split: if_split_asm list.split_asm option.split)

lemma phone_among_matches: "phone_among intent phones = Inr x \<Longrightarrow> found (\<lambda>p. vapi_phone_matches_intent p intent) x"
  by (auto simp: phone_among_def found_def split: if_split_asm list.split_asm option.split)

lemma gives_tool: "gives (found (tool_mine e url cr desired)) (find_direct_tool io c e url cr desired)"
  unfolding find_direct_tool_def by (rule gives_bind_any) (auto dest: the_related_mine)

lemma gives_assistant: "gives (found (\<lambda>d. assistant_mine a desired d = Inr True)) (find_direct_assistant io c a desired)"
  unfolding find_direct_assistant_def by (rule gives_bind_any) (auto dest: the_related_mine)

lemma gives_phone: "gives (found (\<lambda>p. vapi_phone_matches_intent p intent)) (find_phone_for_intent io c intent)"
  unfolding find_phone_for_intent_def by (rule gives_bind_any) (auto dest: phone_among_matches)

lemma gives_reconcile: "gives (found Q) look \<Longrightarrow> gives Q (reconcile_loop n io look deadline failed)"
proof (induction n)
  case (Suc n)
  then show ?case unfolding reconcile_loop.simps(2)
    by (intro gives_bind [of "found Q"]) (auto intro!: gives_bind_any split: option.split)
qed simp

lemma gives_find:
  assumes "gives (found Q) look" "\<And>d. Q d \<Longrightarrow> gives R (g d)" "gives R absent"
  shows "gives R (abind look (\<lambda>x. case x of None \<Rightarrow> absent | Some d \<Rightarrow> g d))"
  by (rule gives_bind [OF assms(1)]) (use assms(2,3) in \<open>auto split: option.split\<close>)

lemma gives_post:
  assumes "gives (found Q) look" "\<And>d. Q d \<Longrightarrow> gives R (f (Inr d))" "\<And>v. gives R (f (Inl v))"
  shows "gives R (abind (post_or_reconcile n io c kind desired look timeout) f)"
proof (rule gives_bind [of "\<lambda>r. case r of Inl _ \<Rightarrow> True | Inr d \<Rightarrow> Q d"])
  have "gives (\<lambda>r. case r of Inl _ \<Rightarrow> True | Inr d \<Rightarrow> Q d)
      (abind (reconcile_loop n io look t failed) (\<lambda>d. aret (Inr d)))" for t failed
    by (rule gives_bind [OF gives_reconcile [OF assms(1)]]) simp
  then show "gives (\<lambda>r. case r of Inl _ \<Rightarrow> True | Inr d \<Rightarrow> Q d) (post_or_reconcile n io c kind desired look timeout)"
    unfolding post_or_reconcile_def by (intro gives_catch) (auto intro: gives_bind_any)
  show "\<And>x. (case x of Inl _ \<Rightarrow> True | Inr d \<Rightarrow> Q d) \<Longrightarrow> gives R (f x)"
    using assms(2,3) by (auto split: sum.splits)
qed

lemma gives_create_tool: "gives (tool_mine e url cr desired) (create_direct_tool n io c e url cr desired timeout)"
proof -
  have rest: "gives (tool_mine e url cr desired)
      (abind (alift (created_id ''tool'' v)) (\<lambda>rid. abind (qv_get io c ''tool'' rid) (\<lambda>exact.
       abind (find_direct_tool io c e url cr desired) (\<lambda>owned.
       case (exact, owned) of
         (Some x, Some d) \<Rightarrow> if direct_tool_surface_matches x desired \<and> get_key d ''id'' = VStr rid then aret d
            else araise (not_verified ''tool'')
       | _ \<Rightarrow> araise (not_verified ''tool'')))))" for v
    by (rule gives_bind_any, rule gives_bind_any, rule gives_bind [OF gives_tool]) (auto split: option.split)
  show ?thesis
    unfolding create_direct_tool_def Let_def
    by (rule gives_find [OF gives_tool], simp, rule gives_post [OF gives_tool]) (simp_all add: rest [unfolded split])
qed

lemma gives_create_assistant:
  "gives (\<lambda>d. assistant_mine a desired d = Inr True) (create_direct_assistant n io c a desired timeout)"
proof -
  have rest: "gives (\<lambda>d. assistant_mine a desired d = Inr True)
      (abind (alift (created_id ''assistant'' v)) (\<lambda>rid. abind (qv_get io c ''assistant'' rid) (\<lambda>exact.
       abind (find_direct_assistant io c a desired) (\<lambda>owned.
       case exact of None \<Rightarrow> araise (not_verified ''assistant'')
       | Some x \<Rightarrow> abind (alift (assistant_mine a desired x)) (\<lambda>mine.
           if mine \<and> (case owned of None \<Rightarrow> False | Some d \<Rightarrow> get_key d ''id'' = VStr rid) then aret x
           else araise (not_verified ''assistant''))))))" for v
    by (rule gives_bind_any, rule gives_bind_any, rule gives_bind_any) (auto simp: gives_def abind_split split: option.split)
  show ?thesis
    unfolding create_direct_assistant_def Let_def
    by (rule gives_find [OF gives_assistant], simp, rule gives_post [OF gives_assistant]) (simp_all add: rest)
qed

lemma gives_safely: "gives Q m \<Longrightarrow> gives Q (safely m)"
  unfolding safely_def by (rule gives_catch) simp_all

lemma gives_wait: "gives (found (\<lambda>p. vapi_phone_matches_intent p intent)) (phone_wait_loop n io c intent deadline poll)"
proof (induction n)
  case (Suc n)
  then show ?case unfolding phone_wait_loop.simps(2) qv_again_def Let_def
    by (intro gives_bind [OF gives_phone]) (auto intro!: gives_bind_any split: option.split)
qed simp

lemma gives_reconcile_phone:
  "gives (\<lambda>p. vapi_phone_matches_intent p intent) (reconcile_phone n io c intent timeout poll failed)"
  unfolding reconcile_phone_def wait_for_phone_intent_def
  by (rule gives_bind [OF gives_safely [OF gives_bind_any [OF gives_wait]]]) (auto split: option.split)

lemma gives_create_phone:
  "gives (\<lambda>p. \<exists>i. vapi_phone_intent e assistant auth = Inr i \<and> vapi_phone_matches_intent p i)
     (create_phone n io c e assistant auth timeout poll)"
proof (cases "vapi_phone_intent e assistant auth")
  case (Inl x)
  then show ?thesis by (simp add: create_phone_def)
next
  case (Inr i)
  have "gives (\<lambda>p. vapi_phone_matches_intent p i) (create_phone n io c e assistant auth timeout poll)"
  proof (cases "timeout < 0 \<or> poll < 0")
    case False
    show ?thesis
      unfolding create_phone_def Inr abind_unit Let_def if_not_P [OF False]
      by (rule gives_find [OF gives_phone], simp, rule gives_bind_any)
        (auto intro!: gives_bind_any gives_reconcile_phone split: option.split)
  qed (simp add: create_phone_def)
  with Inr show ?thesis by simp
qed

text \<open>
  C39.  What a creation returns is the run's own: an endpoint that matches the intent, a tool and an
  assistant that pass the ownership check and hold what was asked for, whichever way they were obtained,
  found before, created, or found again after an ambiguous answer.
\<close>

theorem created_objects_are_owned:
  assumes "create_phone n io c e assistant auth timeout poll w = (Inr p, w')"
    and "create_direct_tool n io2 c e url cr tool timeout v = (Inr t, v')"
    and "create_direct_assistant n io3 c a document timeout u = (Inr d, u')"
  shows "(\<exists>i. vapi_phone_intent e assistant auth = Inr i \<and> vapi_phone_matches_intent p i) \<and>
    tool_mine e url cr tool t \<and> assistant_owned a d = Inr True \<and> desired_payload_present (VDict d) (VDict document)"
  using givesD [OF gives_create_phone assms(1)] givesD [OF gives_create_tool assms(2)]
    givesD [OF gives_create_assistant assms(3)]
  by (auto simp: assistant_mine_def rbind_eq_Inr)

text \<open>A service whose lists hold one object.\<close>

definition holding_io :: "pydict \<Rightarrow> unit qv_io" where
  "holding_io d = \<lparr>qv_open = (\<lambda>req w. (Inr (Answer 200 (Inr (map of_nat (json_dumps compact (VList [VDict d]))))), w)),
     qv_clock = (\<lambda>w. (Inr 0, w)), qv_sleep = (\<lambda>s w. (Inr (), w))\<rparr>"

lemma holding_list:
  assumes "json_ok True (VDict d)" "length (json_dumps compact (VList [VDict d])) \<le> 2000"
    and "resource \<in> set [''tool'', ''assistant'', ''phone-number'']"
  shows "qv_list (holding_io d) demo_qv resource 100 w = (Inr [d], w)"
proof -
  have ok: "json_ok True (VList [VDict d])" using assms(1) by simp
  have small: "take (MAX_VAPI_RESPONSE + 1) (map of_nat (json_dumps compact (VList [VDict d]))) =
      (map of_nat (json_dumps compact (VList [VDict d])) :: byte list)" "length (json_dumps compact (VList [VDict d])) \<le> MAX_VAPI_RESPONSE"
    using assms(2) by (simp_all add: MAX_VAPI_RESPONSE_def)
  have ne: "json_dumps compact (VList [VDict d]) \<noteq> []"
    using dump_head [OF ok, of compact] by (simp add: json_dumps_def good_compact)
  have b: "qv_build demo_qv ''GET'' (lit (''/'' @ resource @ ''?limit=100'')) None = Inr (list_request demo_qv resource)"
    using assms(3) by (auto simp: qv_build_def list_request_def starts_with_def eval_simps contains.simps)
  show ?thesis
    using json_loads_bytes_dumps [OF good_compact ok] small ne
    by (simp add: qv_list_def dec_100 qv_request_once b [simplified] abind_def holding_io_def answer_of_def qv_json_def qv_objects_def)
qed

definition demo_phone_doc :: pydict where
  "demo_phone_doc = mk [(''id'', VStr (lit ''p-1'')), (''provider'', VStr (lit ''vapi'')),
    (''name'', VStr (owned_name demo_execution)), (''assistantId'', VStr (lit ''asst-1'')),
    (''sipUri'', VStr (sip_address (lit ''bfq_0123456789abcdef'')))]"

definition demo_direct_tool :: pydict where
  "demo_direct_tool = direct_tool_document (lit ''https://a.example/x'') (lit ''c1'') (dict_of demo_schema)"

definition demo_names :: assistant_identity where
  "demo_names = \<lparr>as_execution = demo_execution, as_tool = lit ''t1'',
     as_prompt = hexdigest (sha256 (map of_nat direct_prompt)), as_model = lit ''m'', as_voice = lit ''v''\<rparr>"

definition demo_assistant_doc :: pydict where
  "demo_assistant_doc = assistant_document demo_execution (lit ''t1'') (lit ''m'') (lit ''v'')"

lemma demo_dump_lengths:
  "length (json_dumps compact (VList [VDict demo_phone_doc])) \<le> 2000"
  "length (json_dumps compact (VList [VDict demo_direct_tool])) \<le> 2000"
  "length (json_dumps compact (VList [VDict demo_assistant_doc])) \<le> 2000"
  by code_simp+

lemma demo_documents_ok: "json_ok True (VDict demo_phone_doc)" "json_ok True (VDict demo_direct_tool)" "json_ok True (VDict demo_assistant_doc)"
proof -
  have lits: "list_all (char_ok True) (lit s)" for s using clean_lit by (simp add: clean_text_def)
  show "json_ok True (VDict demo_phone_doc)"
    by (simp add: demo_phone_doc_def lits owned_name_def sip_address_def demo_execution_def)
  show "json_ok True (VDict demo_direct_tool)"
    by (simp add: demo_direct_tool_def direct_tool_document_def demo_schema_def DIRECT_TOOL_NAME_def lits dec_nat.simps)
  have "is_ascii demo_execution" "is_ascii (lit ''t1'')" by (simp_all add: demo_execution_def is_ascii_def lit_def)
  then show "json_ok True (VDict demo_assistant_doc)"
    unfolding demo_assistant_doc_def by (intro assistant_document_ok clean_lit)
qed

lemma demo_phone_found:
  "create_phone 5 (holding_io demo_phone_doc) demo_qv demo_execution (lit ''asst-1'') demo_authentication 10 1 () = (Inr demo_phone_doc, ())"
proof -
  have "vapi_phone_matches_intent demo_phone_doc (built_intent demo_execution (lit ''asst-1'') (lit ''bfq_0123456789abcdef''))"
    by (simp add: demo_phone_doc_def vapi_phone_matches_intent_def built_intent_def)
      (simp add: RESOURCE_ID_def eval_simps class_match_def char_class_defs)
  moreover have "get_key demo_phone_doc ''name'' = VStr (owned_name demo_execution)" by (simp add: demo_phone_doc_def)
  ultimately have "phone_among (built_intent demo_execution (lit ''asst-1'') (lit ''bfq_0123456789abcdef'')) [demo_phone_doc] = Inr (Some demo_phone_doc)"
    by (simp add: phone_among_def built_intent_def)
  then show ?thesis
    by (simp add: create_phone_def demo_intent find_phone_for_intent_def abind_def
        holding_list [OF demo_documents_ok(1) demo_dump_lengths(1)])
qed

lemma demo_tool_found:
  "create_direct_tool 5 (holding_io demo_direct_tool) demo_qv demo_execution (lit ''https://a.example/x'') (lit ''c1'')
     demo_direct_tool 10 () = (Inr demo_direct_tool, ())"
proof -
  have "is_identifier demo_execution" "is_identifier (lit ''c1'')"
    by (simp_all add: is_identifier_def demo_execution_def eval_simps)
  then have "tool_mine demo_execution (lit ''https://a.example/x'') (lit ''c1'') demo_direct_tool demo_direct_tool"
    by (auto simp: tool_mine_def direct_tool_owned_def direct_tool_surface_matches_def demo_direct_tool_def
        direct_tool_document_def demo_schema_def TOOL_SURFACE_def TOOL_KEYS_def empty_or_id_def)
  moreover have "related_tool (lit ''https://a.example/x'') (lit ''c1'') demo_direct_tool"
    by (simp add: related_tool_def demo_direct_tool_def direct_tool_document_def)
  ultimately show ?thesis
    by (simp add: create_direct_tool_def find_direct_tool_def abind_def the_related_def
        holding_list [OF demo_documents_ok(2) demo_dump_lengths(2)])
qed

lemma demo_assistant_found:
  "create_direct_assistant 5 (holding_io demo_assistant_doc) demo_qv demo_names [] 10 () = (Inr demo_assistant_doc, ())"
proof -
  have "is_ascii direct_prompt"
    by (simp add: direct_prompt_def prompt_marker_def DIRECT_PROMPT_MARKER_def is_ascii_def lit_def)
  then have bs: "utf8_encode direct_prompt = Inr (map of_nat direct_prompt)" by (rule utf8_encode_ascii)
  have "direct_assistant_payload demo_execution (lit ''t1'') (lit ''m'') (lit ''v'') =
      Inr (demo_assistant_doc, hexdigest (sha256 (map of_nat direct_prompt)))"
    by (simp add: direct_assistant_payload_def bs demo_assistant_doc_def)
      (simp add: is_identifier_def model_text_def demo_execution_def eval_simps)
  from built_assistant_owned(1) [OF this] have "assistant_mine demo_names [] demo_assistant_doc = Inr True"
    by (simp add: assistant_mine_def assistant_owned_def demo_names_def desired_payload_present.simps)
  moreover have "related_assistant demo_names demo_assistant_doc"
    by (simp add: related_assistant_def demo_assistant_doc_def assistant_document_def demo_names_def)
  ultimately show ?thesis
    by (simp add: create_direct_assistant_def find_direct_assistant_def abind_def the_related_def
        holding_list [OF demo_documents_ok(3) demo_dump_lengths(3)])
qed

theorem created_objects_are_owned_witness:
  "vapi_phone_matches_intent demo_phone_doc (built_intent demo_execution (lit ''asst-1'') (lit ''bfq_0123456789abcdef'')) \<and>
   tool_mine demo_execution (lit ''https://a.example/x'') (lit ''c1'') demo_direct_tool demo_direct_tool \<and>
   assistant_owned demo_names demo_assistant_doc = Inr True"
  using created_objects_are_owned [OF demo_phone_found demo_tool_found demo_assistant_found] demo_intent by auto

end
