(* ===== verification/QualVapiBounds.thy ===== *)
theory QualVapiBounds imports QualVapiCreate begin

text \<open>
  A deletion by the client of the qualification ends, and within how many rounds.
\<close>

section \<open>The rounds of a deletion\<close>

text \<open>
  A service and a clock that do not go back; the fuel's own error is not theirs.
\<close>

definition qv_steady :: "'w qv_io \<Rightarrow> ('w \<Rightarrow> rat) \<Rightarrow> bool" where
  "qv_steady io clk \<longleftrightarrow>
     (\<forall>req w. fst (qv_open io req w) \<noteq> Inl no_fuel \<and> (\<forall>st. fst (qv_open io req w) \<noteq> Inr (Answer st (Inl no_fuel))) \<and>
        clk w \<le> clk (snd (qv_open io req w))) \<and>
     (\<forall>w. fst (qv_clock io w) = Inr (clk w) \<and> clk w \<le> clk (snd (qv_clock io w))) \<and>
     (\<forall>t w. 0 \<le> t \<longrightarrow> fst (qv_sleep io t w) \<noteq> Inl no_fuel \<and> clk w + t \<le> clk (snd (qv_sleep io t w)))"

lemma qualification_fuel [simp]: "qualification_error m \<noteq> no_fuel" "ambiguous_write m \<noteq> no_fuel" "not_owned \<noteq> no_fuel"
  "unreachable m \<noteq> no_fuel" "qv_refused m code \<noteq> no_fuel"
  by (simp_all add: qualification_error_def ambiguous_write_def not_owned_def no_fuel_def unreachable_def qv_refused_def)

lemmas qualification_not_fuel [simp] = qualification_fuel [symmetric]

lemma catch_fuel: "e \<noteq> no_fuel \<Longrightarrow> e' \<noteq> no_fuel \<Longrightarrow> catch_as es e' e \<noteq> no_fuel"
  by (simp add: catch_as_def)

lemma json_bytes_fuel: "json_loads_bytes bs \<noteq> Inl no_fuel"
proof (cases "decode_json_bytes (map unat bs)")
  case None
  then show ?thesis by (simp add: json_loads_bytes_def no_fuel_def)
next
  case (Some s)
  have "2 * length (skip_ws s) < 2 * length s + 1" using skip_ws_shorter [of s] by simp
  then have "json_value default_hook (2 * length s + 1) (skip_ws s) \<noteq> Inl no_fuel"
    by (intro json_parse_enough) (simp_all add: fuel_free_def default_hook_def)
  moreover have "json_error \<noteq> no_fuel" by (simp add: json_error_def no_fuel_def)
  ultimately show ?thesis using Some by (auto simp: json_loads_bytes_def rbind_eq_Inl split: if_split_asm)
qed

lemma qv_json_fuel: "qv_json m raw \<noteq> Inl no_fuel"
  using json_bytes_fuel [of raw] by (auto simp: qv_json_def catch_as_def)

lemma answer_fuel: "r \<noteq> Inl no_fuel \<Longrightarrow> (\<forall>st. r \<noteq> Inr (Answer st (Inl no_fuel))) \<Longrightarrow> answer_of m missing r \<noteq> Inl no_fuel"
  using qv_json_fuel
  by (auto simp: answer_of_def rbind_eq_Inl catch_as_def split: sum.splits http_result.splits if_split_asm)

lemma build_fuel: "qv_build c m target payload \<noteq> Inl no_fuel"
  by (auto simp: qv_build_def rbind_eq_Inl utf8_encode_def no_fuel_def qualification_error_def split: option.split_asm if_split_asm)

lemma runs_request:
  assumes "qv_steady io clk"
  shows "runs clk (qv_request io c m target payload missing) w"
proof (cases "qv_build c m target payload")
  case (Inl e)
  with build_fuel [of c m target payload] show ?thesis by (simp add: qv_request_once)
next
  case (Inr req)
  from assms have "fst (qv_open io req w) \<noteq> Inl no_fuel" "\<forall>st. fst (qv_open io req w) \<noteq> Inr (Answer st (Inl no_fuel))"
    "clk w \<le> clk (snd (qv_open io req w))" unfolding qv_steady_def by blast+
  with answer_fuel [of "fst (qv_open io req w)"] Inr show ?thesis
    by (simp add: qv_request_once runs_def case_prod_beta)
qed

lemma runs_get: "qv_steady io clk \<Longrightarrow> runs clk (qv_get io c resource rid) w"
  unfolding qv_get_def by (auto intro!: runs_bind [OF runs_request] split: pyval.split)

lemma runs_qv_clock: "qv_steady io clk \<Longrightarrow> runs clk (qv_clock io) w"
  unfolding qv_steady_def runs_def by auto

lemma runs_qv_again:
  assumes io: "qv_steady io clk" and poll: "0 < poll" and n: "deadline - clk w \<le> poll * of_nat n"
    and over: "e \<noteq> no_fuel"
    and rest: "\<And>w'. 1 \<le> n \<Longrightarrow> deadline - clk w' \<le> poll * (of_nat n - 1) \<Longrightarrow> runs clk rest w'"
  shows "runs clk (qv_again io deadline poll (araise e) rest) w"
  unfolding qv_again_def Let_def
proof (rule runs_bind [OF runs_qv_clock [OF io]])
  fix t w1 assume "qv_clock io w = (Inr t, w1)" "clk w \<le> clk w1"
  then have t: "t = clk w" using io unfolding qv_steady_def by (metis Inr_inject fst_conv)
  show "runs clk (if deadline - t \<le> 0 then araise e else abind (qv_sleep io (min poll (deadline - t))) (\<lambda>_. rest)) w1"
  proof (cases "deadline - t \<le> 0")
    case True
    with over show ?thesis by simp
  next
    case False
    let ?d = "min poll (deadline - t)"
    have d: "0 \<le> ?d" using poll False by simp
    then have sleep: "fst (qv_sleep io ?d w1) \<noteq> Inl no_fuel" "clk w1 + ?d \<le> clk (snd (qv_sleep io ?d w1))"
      using io unfolding qv_steady_def by blast+
    have ge: "1 \<le> n" using False n t poll by (cases n) auto
    then have one: "(0 :: rat) \<le> of_nat n - 1" by simp
    have "runs clk (abind (qv_sleep io ?d) (\<lambda>_. rest)) w1"
    proof (rule runs_bind)
      show "runs clk (qv_sleep io ?d) w1" using sleep d unfolding runs_def by linarith
    next
      fix x w2 assume "qv_sleep io ?d w1 = (Inr x, w2)"
      with sleep \<open>clk w \<le> clk w1\<close> t have later: "t + ?d \<le> clk w2" by simp
      have "deadline - clk w2 \<le> poll * (of_nat n - 1)"
      proof (cases "poll \<le> deadline - t")
        case True
        with later n t show ?thesis unfolding right_diff_distrib by simp
      next
        case False
        with later have "deadline - clk w2 \<le> 0" by simp
        moreover have "0 \<le> poll * (of_nat n - 1)" using poll one by (intro mult_nonneg_nonneg) simp_all
        ultimately show ?thesis by linarith
      qed
      with ge show "runs clk rest w2" by (rule rest)
    qed
    with False show ?thesis by simp
  qed
qed

lemma runs_absence:
  assumes io: "qv_steady io clk" and poll: "0 < poll" and own: "\<And>d. own d \<noteq> Inl no_fuel"
  shows "1 \<le> n \<Longrightarrow> deadline - clk w \<le> poll * (of_nat n - 1) \<Longrightarrow>
     runs clk (absence_loop n io c resource rid own deadline poll settle since) w"
proof (induction n arbitrary: since w)
  case (Suc n)
  let ?again = "\<lambda>s. qv_again io deadline poll
            (araise (qualification_error ''Vapi exact-resource deletion timed out''))
            (absence_loop n io c resource rid own deadline poll settle s)"
  have again: "runs clk (?again s) w'" if "clk w \<le> clk w'" for s w'
  proof (rule runs_qv_again [OF io poll, where n = n])
    show "deadline - clk w' \<le> poll * of_nat n" using that Suc.prems(2) by simp
  qed (use Suc.IH in simp_all)
  show ?case unfolding absence_loop.simps(2) Let_def
    by (auto intro!: runs_bind runs_get [OF io] runs_qv_clock [OF io] runs_lift own runs_request [OF io] again
        split: option.split intro: order_trans)
qed simp

text \<open>
  C40.  A deletion ends: with a service and a clock that do not go back and sleeps that take their time, its
  loop is over within two rounds more than its timeout holds polls, whatever the service answers; with the
  default timeout of 240 seconds and polls of half a second, 482 rounds are enough.
\<close>

theorem deletion_ends:
  assumes "qv_steady io clk" "\<And>d. own d \<noteq> Inl no_fuel" "0 < poll" "of_int timeout \<le> poll * (of_nat n - 1)"
  shows "fst (delete_owned n io c resource rid own timeout poll settle w) \<noteq> Inl no_fuel"
proof (cases "\<not> RESOURCE_ID rid \<or> timeout \<le> 0 \<or> poll < 0 \<or> settle < 0 \<or> of_int timeout \<le> settle")
  case True
  then show ?thesis unfolding delete_owned_def by simp
next
  case False
  have "1 \<le> n" using False assms(3,4) by (cases n) (auto simp: not_le dest: order_trans)
  obtain w1 where c: "qv_clock io w = (Inr (clk w), w1)" "clk w \<le> clk w1"
    using assms(1) unfolding qv_steady_def by (metis prod.collapse)
  have "runs clk (absence_loop n io c resource rid own (clk w + of_int timeout) poll settle None) w1"
    using c(2) assms(4) by (intro runs_absence [OF assms(1,3,2) \<open>1 \<le> n\<close>]) linarith
  then show ?thesis using False c(1) unfolding delete_owned_def runs_def by (simp add: abind_def)
qed

theorem deletion_ends_witness:
  "fst (delete_owned 482 gone_io demo_qv ''tool'' (lit ''t1'') (\<lambda>d. Inr True) VAPI_DELETE_TIMEOUT_SECONDS (1 / 2)
     VAPI_DELETE_STABLE_SECONDS 0) \<noteq> Inl no_fuel"
proof -
  have "qv_steady gone_io (\<lambda>t. t)" by (simp add: qv_steady_def gone_io_def)
  from deletion_ends [OF this, of "\<lambda>d. Inr True" "1 / 2" VAPI_DELETE_TIMEOUT_SECONDS 482] show ?thesis
    by (simp add: VAPI_DELETE_TIMEOUT_SECONDS_def)
qed

end
