(* ===== verification/Review.thy ===== *)
theory Review imports Preflight begin

text \<open>
  \<open>qualification/deployment_review.py\<close>: the review of a nested \<open>CREATE\<close> change set against a sealed
  catalog of ten templates.  The AWS client and the YAML loader are parameters; what the loader returns
  is a value that may hold more than JSON.
\<close>

section \<open>Errors and constants\<close>

definition review_error :: "string \<Rightarrow> exn" where
  "review_error m = DeploymentReviewError m"

definition SAFE_REASON_CODES :: "(string \<times> string) list" where
  "SAFE_REASON_CODES =
     [(''CREATE change set contains an unsafe Dynamic action'', ''unsafe_dynamic_action''),
      (''CREATE change set contains an unsafe action'', ''unsafe_resource_action''),
      (''CloudFormation template differs from sealed catalog'', ''template_catalog_mismatch''),
      (''change set references an unsealed template'', ''unsealed_template_reference''),
      (''root change-set invocation differs from request'', ''root_invocation_mismatch''),
      (''sealed template catalog is missing or orphaned'', ''template_hierarchy_mismatch'')]"

text \<open>The attribute of the error that leaves the review: a fixed code, or a fingerprint of the message.\<close>

definition safe_reason :: "string \<Rightarrow> pystr" where
  "safe_reason m =
     (case map_of SAFE_REASON_CODES m of
        Some c \<Rightarrow> lit c
      | None \<Rightarrow> lit ''review_'' @ take 16 (hexdigest (sha256 (map of_nat (lit m)))))"

definition REVIEW_PRODUCER :: pystr where "REVIEW_PRODUCER = lit ''bridgefu-cloudformation-deployment-review@1''"
definition CATALOG_SIZE :: nat where "CATALOG_SIZE = 10"
definition MAX_TEMPLATE_BYTES :: nat where "MAX_TEMPLATE_BYTES = 1048576"
definition MAX_TEMPLATE_NODES :: nat where "MAX_TEMPLATE_NODES = 50000"
definition MAX_TEMPLATE_DEPTH :: nat where "MAX_TEMPLATE_DEPTH = 64"
definition MAX_CHANGE_RECORDS :: nat where "MAX_CHANGE_RECORDS = 2000"
definition MAX_HIERARCHY_DEPTH :: nat where "MAX_HIERARCHY_DEPTH = 8"

text \<open>The region and the account of an ARN \<open>arn:aws:cloudformation:REGION:ACCOUNT:KIND/NAME/ID\<close>.\<close>

definition us_region :: "pystr \<Rightarrow> bool" where
  "us_region s \<longleftrightarrow>
     (starts_with s (lit ''us-east-'') \<or> starts_with s (lit ''us-west-'')) \<and>
     (let n = drop 8 s in n \<noteq> [] \<and> list_all is_digit n \<and> hd n \<noteq> 48)"

definition dash_alnum :: "nat \<Rightarrow> bool" where
  "dash_alnum c \<longleftrightarrow> is_ascii_alnum c \<or> c = 45"

definition cfn_arn :: "string \<Rightarrow> pystr \<Rightarrow> (pystr \<times> pystr) option" where
  "cfn_arn kind s =
     (let head = lit ''arn:aws:cloudformation:''; r1 = drop (length head) s; region = before 58 r1;
          r2 = drop (Suc (length region)) r1; account = before 58 r2; r3 = drop (Suc (length account)) r2 in
      if starts_with s head \<and> us_region region \<and> class_match is_digit 12 12 account then
        case split_on 47 r3 of
          [k, n, i] \<Rightarrow>
            if k = lit kind \<and> 58 \<in> set r1 \<and> 58 \<in> set r2 \<and> 1 \<le> length n \<and> length n \<le> 128 \<and> class_match dash_alnum 1 128 i
            then Some (region, account) else None
        | _ \<Rightarrow> None
      else None)"

definition change_set_identity :: "pyval \<Rightarrow> (pystr \<times> pystr) result" where
  "change_set_identity v =
     some_or (review_error ''change-set identity is invalid'')
       (if is_str v then cfn_arn ''changeSet'' (str_of v) else None)"

definition stack_identity :: "pyval \<Rightarrow> (pystr \<times> pystr) result" where
  "stack_identity v =
     some_or (review_error ''stack identity is invalid'')
       (if is_str v then cfn_arn ''stack'' (str_of v) else None)"

section \<open>Templates\<close>

text \<open>What the YAML loader may return; the last constructor stands for any other Python object.\<close>

datatype yaml =
    YNone
  | YBool bool
  | YInt int
  | YFloat pyfloat
  | YStr pystr
  | YSeq "yaml list"
  | YMap "(yaml \<times> yaml) list"
  | YObject

fun yaml_of :: "pyval \<Rightarrow> yaml" where
  "yaml_of VNone = YNone" | "yaml_of (VBool b) = YBool b" | "yaml_of (VInt i) = YInt i"
| "yaml_of (VFloat f) = YFloat f" | "yaml_of (VStr s) = YStr s" | "yaml_of (VList xs) = YSeq (map yaml_of xs)"
| "yaml_of (VDict d) = YMap (map (\<lambda>p. (YStr (fst p), yaml_of (snd p))) d)"

text \<open>\<open>visit\<close>: the value and the number of nodes visited so far.\<close>

fun visit :: "yaml \<Rightarrow> nat \<Rightarrow> nat \<Rightarrow> (pyval \<times> nat) result"
  and visit_items :: "yaml list \<Rightarrow> nat \<Rightarrow> nat \<Rightarrow> (pyval list \<times> nat) result"
  and visit_pairs :: "(yaml \<times> yaml) list \<Rightarrow> pydict \<Rightarrow> nat \<Rightarrow> nat \<Rightarrow> (pydict \<times> nat) result" where
  "visit v depth seen =
     (let nodes = Suc seen in
      if MAX_TEMPLATE_NODES < nodes \<or> MAX_TEMPLATE_DEPTH < depth
      then Inl (review_error ''template semantic structure exceeds bounds'')
      else
      case v of
        YMap ps \<Rightarrow> rbind (visit_pairs ps [] (Suc depth) nodes) (\<lambda>(d, n). Inr (VDict d, n))
      | YSeq xs \<Rightarrow> rbind (visit_items xs (Suc depth) nodes) (\<lambda>(ys, n). Inr (VList ys, n))
      | YNone \<Rightarrow> Inr (VNone, nodes)
      | YStr s \<Rightarrow> Inr (VStr s, nodes)
      | YBool b \<Rightarrow> Inr (VBool b, nodes)
      | YInt i \<Rightarrow> Inr (VInt i, nodes)
      | YFloat (Fin r) \<Rightarrow> Inr (VFloat (Fin r), nodes)
      | _ \<Rightarrow> Inl (review_error ''template contains a non-JSON semantic value''))"
| "visit_items [] depth nodes = Inr ([], nodes)"
| "visit_items (x # xs) depth nodes =
     rbind (visit x depth nodes) (\<lambda>(y, n). rbind (visit_items xs depth n) (\<lambda>(ys, n). Inr (y # ys, n)))"
| "visit_pairs [] d depth nodes = Inr (d, nodes)"
| "visit_pairs (p # ps) d depth nodes =
     (case fst p of
        YStr k \<Rightarrow>
          if k \<in> keys d then Inl (review_error ''template contains an invalid mapping key'')
          else rbind (visit (snd p) depth nodes) (\<lambda>(y, n). visit_pairs ps (d @ [(k, y)]) depth n)
      | _ \<Rightarrow> Inl (review_error ''template contains an invalid mapping key''))"

declare visit.simps [simp del]

definition normalize_template :: "yaml \<Rightarrow> pydict result" where
  "normalize_template v =
     rbind (visit v 0 0) (\<lambda>(x, n). expect_dict (review_error ''CloudFormation template must be a mapping'') x)"

definition parse_template_body :: "(pystr \<Rightarrow> yaml result) \<Rightarrow> pyval \<Rightarrow> pydict result" where
  "parse_template_body load v =
     (case v of
        VStr s \<Rightarrow>
          if s = [] then Inl (review_error ''template body size is invalid'')
          else
          rbind (utf8_encode s) (\<lambda>bs.
          if MAX_TEMPLATE_BYTES < length bs then Inl (review_error ''template body size is invalid'')
          else
          rbind (map_error (catch_as [PyError ''YAMLError''] (review_error ''template body is not valid YAML or JSON''))
            (load s)) normalize_template)
      | VDict d \<Rightarrow> normalize_template (yaml_of v)
      | _ \<Rightarrow> Inl (review_error ''template body has an invalid type''))"

definition text_fingerprint :: "pystr \<Rightarrow> pystr result" where
  "text_fingerprint s = rbind (utf8_encode s) (\<lambda>bs. Inr (take 16 (hexdigest (sha256 bs))))"

section \<open>The invocation of the root\<close>

record root_invocation =
  ri_change_set :: pystr
  ri_stack :: pystr
  ri_parameters :: "(pystr \<times> pystr) list"
  ri_role :: pystr
  ri_capabilities :: "pystr list"
  ri_tags :: "(pystr \<times> pystr) list"
  ri_on_failure :: pystr
  ri_nested :: bool
  ri_notifications :: "pystr list"
  ri_import :: bool

definition control_char :: "nat \<Rightarrow> bool" where
  "control_char c \<longleftrightarrow> c < 32 \<or> c = 127"

fun pairs_dict :: "exn \<Rightarrow> (pystr \<Rightarrow> bool) \<Rightarrow> (pystr \<times> pystr) list \<Rightarrow> (pystr \<times> pystr) list \<Rightarrow> (pystr \<times> pystr) list result" where
  "pairs_dict bad key_ok [] d = Inr d"
| "pairs_dict bad key_ok ((k, v) # ps) d =
     (if \<not> key_ok k then Inl bad
      else
      rbind (utf8_encode v) (\<lambda>bs.
      if \<not> (1 \<le> length bs \<and> length bs \<le> 4096) \<or> list_ex control_char v \<or> k \<in> keys d then Inl bad
      else pairs_dict bad key_ok ps (d @ [(k, v)])))"

text \<open>\<open>[{"key": key, "value": d[key]} for key in sorted(d)]\<close>.\<close>

definition pair_list :: "(pystr \<times> pystr) list \<Rightarrow> pyval" where
  "pair_list d = VList (map (\<lambda>p. VDict (mk [(''key'', VStr (fst p)), (''value'', VStr (snd p))])) (sort_key fst d))"

definition bounded_pairs :: "(pystr \<times> pystr) list \<Rightarrow> string \<Rightarrow> (pystr \<Rightarrow> bool) \<Rightarrow> nat \<Rightarrow> pyval result" where
  "bounded_pairs ps label key_ok most =
     (let bad = review_error (''root '' @ label @ '' contract is invalid'') in
      if \<not> (1 \<le> length ps \<and> length ps \<le> most) then Inl bad
      else rbind (pairs_dict bad key_ok ps []) (\<lambda>d. Inr (pair_list d)))"

definition stack_name_ok :: "pystr \<Rightarrow> bool" where
  "stack_name_ok s \<longleftrightarrow> s \<noteq> [] \<and> (is_upper (hd s) \<or> is_lower (hd s)) \<and> class_match dash_alnum 0 127 (tl s)"

definition tag_key_char :: "nat \<Rightarrow> bool" where
  "tag_key_char c \<longleftrightarrow> is_ascii_alnum c \<or> c \<in> set (lit ''+-=._:/@ '')"

definition invocation_ok :: "root_invocation \<Rightarrow> bool" where
  "invocation_ok ri \<longleftrightarrow>
     stack_name_ok (ri_change_set ri) \<and> stack_name_ok (ri_stack ri) \<and> role_account (ri_role ri) \<noteq> None \<and>
     ri_on_failure ri \<in> set (map lit [''DO_NOTHING'', ''DELETE'', ''ROLLBACK'']) \<and> ri_nested ri \<and> \<not> ri_import ri \<and>
     ri_notifications ri = [] \<and> ri_capabilities ri = [lit ''CAPABILITY_NAMED_IAM'']"

definition root_invocation_contract :: "root_invocation \<Rightarrow> pydict result" where
  "root_invocation_contract ri =
     (if \<not> invocation_ok ri then Inl (review_error ''root invocation contract is invalid'')
      else
      rbind (bounded_pairs (ri_parameters ri) ''parameter'' (class_match is_ascii_alnum 1 255) 200) (\<lambda>parameters.
      rbind (bounded_pairs (ri_tags ri) ''tag'' (class_match tag_key_char 1 128) 50) (\<lambda>tags.
      Inr (mk [(''change_set_name'', VStr (ri_change_set ri)), (''stack_name'', VStr (ri_stack ri)), (''parameters'', parameters),
        (''role_arn'', VStr (ri_role ri)), (''capabilities'', VList (map VStr (sort (ri_capabilities ri)))), (''tags'', tags),
        (''on_stack_failure'', VStr (ri_on_failure ri)), (''include_nested_stacks'', VBool True),
        (''notification_arns'', VList []), (''import_existing_resources'', VBool False)]))))"

fun actual_dict :: "exn \<Rightarrow> string \<Rightarrow> string \<Rightarrow> string list \<Rightarrow> pyval list \<Rightarrow> (pystr \<times> pystr) list \<Rightarrow> (pystr \<times> pystr) list result" where
  "actual_dict bad kf vf optional [] d = Inr d"
| "actual_dict bad kf vf optional (v # vs) d =
     rbind (expect_dict bad v) (\<lambda>item.
     let k = get_key item kf; x = get_key item vf in
     if \<not> (set (map lit [kf, vf]) \<subseteq> keys item \<and> keys item \<subseteq> set (map lit ([kf, vf] @ optional))) \<or>
        \<not> is_str k \<or> \<not> is_str x \<or> str_of k \<in> keys d
     then Inl bad
     else actual_dict bad kf vf optional vs (d @ [(str_of k, str_of x)]))"

definition actual_pairs :: "pyval \<Rightarrow> string \<Rightarrow> string \<Rightarrow> string \<Rightarrow> string list \<Rightarrow> pyval result" where
  "actual_pairs v label kf vf optional =
     (let bad = review_error (''root change-set '' @ label @ '' are invalid'') in
      if \<not> is_list v \<or> 200 < length (list_of v) then Inl bad
      else rbind (actual_dict bad kf vf optional (list_of v) []) (\<lambda>d. Inr (pair_list d)))"

definition absent_or_empty :: "pyval \<Rightarrow> bool" where
  "absent_or_empty v \<longleftrightarrow> v = VNone \<or> v = VStr []"

definition rollback_empty :: "pyval \<Rightarrow> bool" where
  "rollback_empty v \<longleftrightarrow> v = VNone \<or> v = VDict [] \<or>
     py_eq v (VDict (mk [(''RollbackTriggers'', VList []), (''MonitoringTimeInMinutes'', VInt 0)]))"

text \<open>\<open>get(k, default)\<close> is \<open>get_or\<close>; the capabilities are a list of distinct texts.\<close>

definition verify_root_invocation :: "pydict \<Rightarrow> pydict \<Rightarrow> pydict \<Rightarrow> unit result" where
  "verify_root_invocation d stack expected =
     rbind (actual_pairs (get_key d ''Parameters'') ''parameters'' ''ParameterKey'' ''ParameterValue'' [''ResolvedValue'']) (\<lambda>parameters.
     rbind (actual_pairs (get_key d ''Tags'') ''tags'' ''Key'' ''Value'' []) (\<lambda>tags.
     let capabilities = get_key d ''Capabilities''; cs = list_of capabilities in
     if \<not> py_eq (get_key d ''ChangeSetName'') (get_key expected ''change_set_name'') \<or>
        \<not> py_eq (get_key d ''StackName'') (get_key expected ''stack_name'') \<or>
        \<not> py_eq parameters (get_key expected ''parameters'') \<or>
        \<not> py_eq (get_key stack ''RoleARN'') (get_key expected ''role_arn'') \<or>
        \<not> is_list capabilities \<or> \<not> list_all is_str cs \<or> \<not> distinct (map str_of cs) \<or>
        \<not> py_eq (VList (map VStr (sort (map str_of cs)))) (get_key expected ''capabilities'') \<or>
        \<not> py_eq tags (get_key expected ''tags'') \<or>
        \<not> py_eq (get_key d ''OnStackFailure'') (get_key expected ''on_stack_failure'') \<or>
        \<not> py_eq (get_key d ''IncludeNestedStacks'') (get_key expected ''include_nested_stacks'') \<or>
        \<not> py_eq (get_or d ''NotificationARNs'' (VList [])) (get_key expected ''notification_arns'') \<or>
        (get_key d ''ImportExistingResources'' \<noteq> VNone \<and> get_key d ''ImportExistingResources'' \<noteq> VBool False) \<or>
        get_key expected ''import_existing_resources'' \<noteq> VBool False \<or>
        \<not> rollback_empty (get_or d ''RollbackConfiguration'' (VDict [])) \<or>
        \<not> absent_or_empty (get_key d ''Description'')
     then Inl (review_error ''root change-set invocation differs from request'') else Inr ()))"

section \<open>Template URLs\<close>

text \<open>\<open>bytes.decode("utf-8", "replace")\<close>: a maximal part of a broken sequence becomes U+FFFD.\<close>

definition utf8_need :: "nat \<Rightarrow> nat" where
  "utf8_need b = (if 194 \<le> b \<and> b \<le> 223 then 1 else if 224 \<le> b \<and> b \<le> 239 then 2 else if 240 \<le> b \<and> b \<le> 244 then 3 else 0)"

definition second_ok :: "nat \<Rightarrow> nat \<Rightarrow> bool" where
  "second_ok b c \<longleftrightarrow> (if b = 224 then 160 else if b = 240 then 144 else 128) \<le> c \<and>
     c \<le> (if b = 237 then 159 else if b = 244 then 143 else 191)"

definition good_tail :: "nat \<Rightarrow> nat list \<Rightarrow> nat" where
  "good_tail b s =
     (case take (utf8_need b) s of
        [] \<Rightarrow> 0
      | c # r \<Rightarrow> if second_ok b c then Suc (length (takeWhile (\<lambda>x. 128 \<le> x \<and> x \<le> 191) r)) else 0)"

function utf8_replace :: "nat list \<Rightarrow> pystr" where
  "utf8_replace [] = []"
| "utf8_replace (b # s) =
     (if b < 128 then b # utf8_replace s
      else if utf8_need b \<noteq> 0 \<and> good_tail b s = utf8_need b
      then (case utf8_decode (b # take (utf8_need b) s) of Some [c] \<Rightarrow> c | _ \<Rightarrow> 65533) # utf8_replace (drop (utf8_need b) s)
      else 65533 # utf8_replace (drop (good_tail b s) s))"
  by pat_completeness auto
termination
  by (relation "measure length") auto

declare utf8_replace.simps(2) [simp del]

text \<open>\<open>unquote\<close>: runs of percent-encoded bytes are decoded, other characters stay; \<open>+\<close> is a space before.\<close>

fun unquote_runs :: "pystr \<Rightarrow> nat list \<Rightarrow> pystr" where
  "unquote_runs [] run = utf8_replace (rev run)"
| "unquote_runs (c # s) run =
     (case (c = 37, s) of
        (True, a # b # r) \<Rightarrow>
          (case (hex_val a, hex_val b) of
             (Some x, Some y) \<Rightarrow> unquote_runs r ((16 * x + y) # run)
           | _ \<Rightarrow> utf8_replace (rev run) @ c # unquote_runs s [])
      | _ \<Rightarrow> utf8_replace (rev run) @ c # unquote_runs s [])"

definition unquote_plus :: "pystr \<Rightarrow> pystr" where
  "unquote_plus s = unquote_runs (map (\<lambda>c. if c = 43 then 32 else c) s) []"

text \<open>\<open>parse_qsl(query, keep_blank_values=True, strict_parsing=True)\<close>; \<open>None\<close> is the \<open>ValueError\<close>.\<close>

definition query_pair :: "pystr \<Rightarrow> (pystr \<times> pystr) option" where
  "query_pair s = (if 61 \<in> set s then Some (unquote_plus (before 61 s), unquote_plus (after 61 s)) else None)"

definition parse_qsl :: "pystr \<Rightarrow> (pystr \<times> pystr) list option" where
  "parse_qsl q =
     (let ps = map query_pair (split_on 38 q) in
      if q \<noteq> [] \<and> None \<in> set ps then None else Some (if q = [] then [] else map the ps))"

definition version_char :: "nat \<Rightarrow> bool" where
  "version_char c \<longleftrightarrow> is_ascii_alnum c \<or> c \<in> set (lit ''._+/=-'')"

definition lower_alnum_char :: "nat \<Rightarrow> bool" where
  "lower_alnum_char c \<longleftrightarrow> is_lower c \<or> is_digit c"

definition S3_SUFFIX :: pystr where "S3_SUFFIX = lit ''.s3.us-east-1.amazonaws.com''"

definition s3_host :: "pystr \<Rightarrow> bool" where
  "s3_host n \<longleftrightarrow>
     (let b = take (length n - length S3_SUFFIX) n in
      n = b @ S3_SUFFIX \<and> 3 \<le> length b \<and> length b \<le> 63 \<and> lower_alnum_char (hd b) \<and> lower_alnum_char (last b) \<and>
      list_all (\<lambda>c. lower_alnum_char c \<or> c = 46 \<or> c = 45) b)"

text \<open>\<open>urlunsplit\<close> of what passed the conditions in front of it.\<close>

definition urlunsplit :: "url \<Rightarrow> pystr" where
  "urlunsplit u =
     scheme u @ lit ''://'' @ netloc u @ path u @ (if query u \<noteq> [] then [63] @ query u else []) @
     (if fragment u \<noteq> [] then [35] @ fragment u else [])"

definition template_url :: "pylib \<Rightarrow> pyval \<Rightarrow> pystr result" where
  "template_url lib v =
     (let bad = review_error ''sealed template URL is invalid'' in
      if \<not> is_str v \<or> 2048 < length (str_of v) then Inl bad
      else
      rbind (some_or (PyError ''ValueError'') (urlsplit lib (str_of v))) (\<lambda>u.
      case parse_qsl (query u) of
        None \<Rightarrow> Inl bad
      | Some q \<Rightarrow>
          if scheme u \<noteq> lit ''https'' \<or> \<not> s3_host (netloc u) \<or> \<not> starts_with (path u) [47] \<or> path u = [47] \<or>
             fragment u \<noteq> [] \<or> username u \<noteq> None \<or> password u \<noteq> None \<or>
             (case q of [(k, x)] \<Rightarrow> k \<noteq> lit ''versionId'' \<or> \<not> class_match version_char 1 1024 x | _ \<Rightarrow> True)
          then Inl bad
          else if urlunsplit u \<noteq> str_of v then Inl bad else Inr (str_of v)))"

section \<open>Reading the account\<close>

definition review_json :: "'w aws \<Rightarrow> pystr list \<Rightarrow> ('w, pydict) act" where
  "review_json aws c =
     abind (aws c 180) (\<lambda>v. alift (expect_dict (review_error ''AWS returned invalid deployment review data'') v))"

definition describe_change_set_command :: "pystr \<Rightarrow> pystr list" where
  "describe_change_set_command arn = cmd [''cloudformation'', ''describe-change-set'', ''--change-set-name''] @ [arn]"

definition changes_of :: "pydict \<Rightarrow> pydict result" where
  "changes_of d =
     (if \<not> absent_or_empty (get_key d ''NextToken'')
      then Inl (review_error ''change-set review exceeds pagination bounds'')
      else if \<not> is_list (get_key d ''Changes'') \<or> MAX_CHANGE_RECORDS < length (list_of (get_key d ''Changes''))
      then Inl (review_error ''change-set resource inventory is invalid'')
      else Inr d)"

definition describe_change_set :: "'w aws \<Rightarrow> pystr \<Rightarrow> ('w, pydict) act" where
  "describe_change_set aws arn =
     abind (review_json aws (describe_change_set_command arn)) (\<lambda>d. alift (changes_of d))"

definition get_template_command :: "pystr \<Rightarrow> pystr list" where
  "get_template_command arn =
     cmd [''cloudformation'', ''get-template'', ''--change-set-name''] @ [arn] @ cmd [''--template-stage'', ''Original'']"

text \<open>\<open>set(stages)\<close> hashes the elements.\<close>

definition original_template :: "(pystr \<Rightarrow> yaml result) \<Rightarrow> pydict \<Rightarrow> pydict result" where
  "original_template load d =
     (let bad = review_error ''GetTemplate returned an invalid response''; stages = get_key d ''StagesAvailable'';
          vs = list_of stages in
      if keys d \<noteq> set (map lit [''TemplateBody'', ''StagesAvailable'']) \<or> \<not> is_list stages \<or>
         \<not> (1 \<le> length vs \<and> length vs \<le> 2)
      then Inl bad
      else if list_ex (\<lambda>v. is_list v \<or> is_dict v) vs then Inl (PyError ''TypeError'')
      else if \<not> distinct (map str_of vs) \<or> VStr (lit ''Original'') \<notin> set vs \<or>
         \<not> set vs \<subseteq> {VStr (lit ''Original''), VStr (lit ''Processed'')}
      then Inl bad
      else parse_template_body load (get_key d ''TemplateBody''))"

definition get_original_template :: "(pystr \<Rightarrow> yaml result) \<Rightarrow> 'w aws \<Rightarrow> pystr \<Rightarrow> ('w, pydict) act" where
  "get_original_template load aws arn =
     abind (review_json aws (get_template_command arn)) (\<lambda>d. alift (original_template load d))"

definition review_stack :: "pydict \<Rightarrow> pystr \<Rightarrow> pystr option \<Rightarrow> pystr \<Rightarrow> pydict result" where
  "review_stack d stack_id parent root_id =
     (let stacks = get_key d ''Stacks'' in
      if \<not> is_list stacks \<or> length (list_of stacks) \<noteq> 1
      then Inl (review_error ''CREATE review stack identity is ambiguous'')
      else
      rbind (expect_dict (review_error ''CREATE review stack data is invalid'') (hd (list_of stacks))) (\<lambda>stack.
      if get_key stack ''StackId'' \<noteq> VStr stack_id \<or> get_key stack ''StackStatus'' \<noteq> VStr (lit ''REVIEW_IN_PROGRESS'')
      then Inl (review_error ''stack is not an exact CREATE review stack'')
      else
      case parent of
        None \<Rightarrow>
          if \<not> absent_or_empty (get_key stack ''ParentId'') \<or> \<not> absent_or_empty (get_key stack ''RootId'')
          then Inl (review_error ''root CREATE review stack linkage is invalid'') else Inr stack
      | Some p \<Rightarrow>
          if get_key stack ''ParentId'' \<noteq> VStr p \<or> get_key stack ''RootId'' \<noteq> VStr root_id
          then Inl (review_error ''nested CREATE review stack linkage is invalid'') else Inr stack))"

definition describe_review_stack :: "'w aws \<Rightarrow> pystr \<Rightarrow> pystr option \<Rightarrow> pystr \<Rightarrow> ('w, pydict) act" where
  "describe_review_stack aws stack_id parent root_id =
     abind (review_json aws (cmd [''cloudformation'', ''describe-stacks'', ''--stack-name''] @ [stack_id])) (\<lambda>d.
     alift (review_stack d stack_id parent root_id))"

section \<open>Nested change sets\<close>

definition STACK_RESOURCE :: pyval where "STACK_RESOURCE = VStr (lit ''AWS::CloudFormation::Stack'')"

definition inventory_error :: exn where "inventory_error = review_error ''template resource inventory is invalid''"

fun nested_urls_of :: "pydict \<Rightarrow> (pystr \<times> pystr) list result" where
  "nested_urls_of [] = Inr []"
| "nested_urls_of ((k, v) # rs) =
     rbind (expect_dict inventory_error v) (\<lambda>resource.
     if get_key resource ''Type'' \<noteq> STACK_RESOURCE then nested_urls_of rs
     else
     rbind (expect_str (review_error ''nested-stack TemplateURL must be literal'')
         (safe_get (get_key resource ''Properties'') ''TemplateURL'')) (\<lambda>u.
     rbind (nested_urls_of rs) (\<lambda>us. Inr ((k, u) # us))))"

definition nested_template_urls :: "pydict \<Rightarrow> (pystr \<times> pystr) list result" where
  "nested_template_urls t = rbind (expect_dict inventory_error (get_key t ''Resources'')) nested_urls_of"

type_synonym selection = "(pystr \<times> pystr \<times> pystr option) list"

definition changes_error :: exn where "changes_error = review_error ''change-set resource inventory is invalid''"
definition change_identity_error :: exn where "change_identity_error = review_error ''change-set resource identity is invalid''"
definition orphan_error :: exn where "orphan_error = review_error ''change set contains an orphan nested-stack edge''"

text \<open>A conditional resource that execution can only add or leave out.\<close>

definition safe_dynamic :: "pydict \<Rightarrow> pydict \<Rightarrow> pydict \<Rightarrow> bool" where
  "safe_dynamic conditions resource change \<longleftrightarrow>
     (let condition = get_key resource ''Condition'' in
      is_str condition \<and> str_of condition \<noteq> [] \<and> str_of condition \<in> keys conditions \<and>
      list_all (\<lambda>k. absent_or_empty (get_key change k)) [''ChangeSetId'', ''PhysicalResourceId'', ''Replacement'', ''PolicyAction''] \<and>
      get_key change ''Scope'' = VList [] \<and> get_key change ''Details'' = VList [])"

text \<open>The identity of one change: its logical identifier, its type and its resource in the template.\<close>

definition change_resource :: "pydict \<Rightarrow> pystr set \<Rightarrow> pydict \<Rightarrow> (pystr \<times> pydict) result" where
  "change_resource resources observed change =
     (let l = get_key change ''LogicalResourceId''; t = get_key change ''ResourceType'' in
      if \<not> is_str l \<or> \<not> is_str t \<or> str_of l \<in> observed then Inl change_identity_error
      else
      case map_of resources (str_of l) of
        Some (VDict resource) \<Rightarrow>
          if get_key resource ''Type'' \<noteq> t then Inl change_identity_error else Inr (str_of l, resource)
      | _ \<Rightarrow>
          if t = STACK_RESOURCE \<or> \<not> absent_or_empty (get_key change ''ChangeSetId'') then Inl orphan_error
          else Inl change_identity_error)"

text \<open>What one change adds to the selection of nested stacks.\<close>

definition select_change ::
    "(pystr \<times> pystr) list \<Rightarrow> pydict \<Rightarrow> selection \<Rightarrow> pystr \<Rightarrow> pydict \<Rightarrow> pydict \<Rightarrow> selection result" where
  "select_change urls conditions sel l resource change =
     (let action = get_key change ''Action''; t = get_key change ''ResourceType''; physical = get_key change ''PhysicalResourceId'' in
      if action = VStr (lit ''Dynamic'')
      then
        if l \<in> keys urls \<or> \<not> safe_dynamic conditions resource change
        then Inl (review_error ''CREATE change set contains an unsafe Dynamic action'') else Inr sel
      else if action \<noteq> VStr (lit ''Add'') then Inl (review_error ''CREATE change set contains an unsafe action'')
      else if l \<notin> keys urls
      then
        if t = STACK_RESOURCE \<or> \<not> absent_or_empty (get_key change ''ChangeSetId'') \<or> \<not> absent_or_empty physical
        then Inl orphan_error else Inr sel
      else if t \<noteq> STACK_RESOURCE \<or> l \<in> keys sel
      then Inl (review_error ''nested-stack resource change is ambiguous'')
      else
      rbind (change_set_identity (get_key change ''ChangeSetId'')) (\<lambda>_.
      if physical \<noteq> VNone \<and> \<not> is_str physical then Inl (review_error ''nested-stack physical identity is invalid'')
      else Inr (sel @ [(l, str_of (get_key change ''ChangeSetId''), if physical = VNone then None else Some (str_of physical))])))"

fun select_changes ::
    "(pystr \<times> pystr) list \<Rightarrow> pydict \<Rightarrow> pydict \<Rightarrow> pyval list \<Rightarrow> selection \<Rightarrow> pystr set \<Rightarrow> selection result" where
  "select_changes urls resources conditions [] sel observed = Inr sel"
| "select_changes urls resources conditions (item # items) sel observed =
     (if safe_get item ''Type'' \<noteq> VStr (lit ''Resource'') then Inl changes_error
      else
      rbind (expect_dict changes_error (safe_get item ''ResourceChange'')) (\<lambda>change.
      rbind (change_resource resources observed change) (\<lambda>(l, resource).
      rbind (select_change urls conditions sel l resource change) (\<lambda>sel.
      select_changes urls resources conditions items sel (insert l observed)))))"

definition nested_change_sets :: "pydict \<Rightarrow> pydict \<Rightarrow> (pystr \<times> pystr) list \<Rightarrow> selection result" where
  "nested_change_sets d t urls =
     rbind (expect_list changes_error (get_key d ''Changes'')) (\<lambda>changes.
     rbind (expect_dict inventory_error (get_key t ''Resources'')) (\<lambda>resources.
     rbind (expect_dict inventory_error (get_or t ''Conditions'' (VDict []))) (\<lambda>conditions.
     rbind (select_changes urls resources conditions changes [] {}) (\<lambda>sel.
     if keys sel \<noteq> keys urls then Inl (review_error ''nested stack is missing its child ChangeSetId'')
     else if \<not> distinct (map (\<lambda>p. fst (snd p)) sel) then Inl (review_error ''nested child ChangeSetId is duplicated'')
     else Inr sel))))"

section \<open>The review\<close>

record review_item =
  it_change_set :: pystr
  it_stack :: pystr
  it_url :: pystr
  it_parent :: "pystr option"
  it_depth :: nat

text \<open>The inputs that do not change, and the state of the traversal; \<open>seen_items\<close> is \<open>hierarchy\<close>.\<close>

record review_input =
  rv_change_set :: pystr
  rv_stack :: pystr
  rv_identity :: "pystr \<times> pystr"
  rv_catalog :: "(pystr \<times> pydict) list"
  rv_invocation :: pydict
  rv_description :: pydict

definition review_duplicate :: "review_item list \<Rightarrow> review_item \<Rightarrow> bool" where
  "review_duplicate done_items it \<longleftrightarrow>
     it_url it \<in> it_url ` set done_items \<or> it_change_set it \<in> it_change_set ` set done_items \<or>
     it_stack it \<in> it_stack ` set done_items"

text \<open>The guards in front of the reads.\<close>

definition check_item :: "review_input \<Rightarrow> review_item list \<Rightarrow> review_item \<Rightarrow> pydict result" where
  "check_item rv done_items it =
     (if MAX_HIERARCHY_DEPTH < it_depth it then Inl (review_error ''nested change-set hierarchy exceeds bounds'')
      else if review_duplicate done_items it then Inl (review_error ''nested change-set hierarchy is duplicated'')
      else
      case map_of (rv_catalog rv) (it_url it) of
        None \<Rightarrow> Inl (review_error ''change set references an unsealed template'')
      | Some t \<Rightarrow>
          rbind (change_set_identity (VStr (it_change_set it))) (\<lambda>a.
          rbind (stack_identity (VStr (it_stack it))) (\<lambda>b.
          if a \<noteq> rv_identity rv \<or> b \<noteq> rv_identity rv
          then Inl (review_error ''nested AWS identity differs from root'') else Inr t)))"

text \<open>The identity, the status and the linkage of a described change set.\<close>

definition check_description :: "review_input \<Rightarrow> review_item \<Rightarrow> pydict \<Rightarrow> unit result" where
  "check_description rv it d =
     (if get_key d ''ChangeSetId'' \<noteq> VStr (it_change_set it) \<or> get_key d ''StackId'' \<noteq> VStr (it_stack it) \<or>
         get_key d ''Status'' \<noteq> VStr (lit ''CREATE_COMPLETE'') \<or> get_key d ''IncludeNestedStacks'' \<noteq> VBool True
      then Inl (review_error ''change-set identity or status is invalid'')
      else
      case it_parent it of
        None \<Rightarrow>
          if get_key d ''ExecutionStatus'' \<noteq> VStr (lit ''AVAILABLE'') \<or> \<not> absent_or_empty (get_key d ''ParentChangeSetId'') \<or>
             \<not> absent_or_empty (get_key d ''RootChangeSetId'')
          then Inl (review_error ''root change-set linkage is invalid'')
          else verify_root_invocation d (rv_description rv) (rv_invocation rv)
      | Some p \<Rightarrow>
          if get_key d ''ExecutionStatus'' \<noteq> VStr (lit ''UNAVAILABLE'') \<or> get_key d ''ParentChangeSetId'' \<noteq> VStr p \<or>
             get_key d ''RootChangeSetId'' \<noteq> VStr (rv_change_set rv)
          then Inl (review_error ''nested change-set linkage is invalid'') else Inr ())"

text \<open>The children of an item, in the order of their logical identifiers.\<close>

fun review_children ::
    "'w aws \<Rightarrow> review_input \<Rightarrow> review_item \<Rightarrow> selection \<Rightarrow> (pystr \<times> pystr) list \<Rightarrow> ('w, review_item list) act" where
  "review_children aws rv it sel [] = aret []"
| "review_children aws rv it sel ((l, child_url) # urls) =
     (if child_url \<notin> keys (rv_catalog rv) then araise (review_error ''nested stack references an unsealed template'')
      else
      case map_of sel l of
        None \<Rightarrow> araise (PyError ''KeyError'')
      | Some (child, physical) \<Rightarrow>
          abind (describe_change_set aws child) (\<lambda>d.
          abind (alift (stack_identity (get_key d ''StackId''))) (\<lambda>_.
          let child_stack = str_of (get_key d ''StackId'') in
          if physical \<noteq> None \<and> physical \<noteq> Some [] \<and> physical \<noteq> Some child_stack
          then araise (review_error ''nested stack physical linkage is invalid'')
          else
          abind (describe_review_stack aws child_stack (Some (it_stack it)) (rv_stack rv)) (\<lambda>_.
          abind (review_children aws rv it sel urls) (\<lambda>rest.
          aret (\<lparr>it_change_set = child, it_stack = child_stack, it_url = child_url, it_parent = Some (it_change_set it),
                 it_depth = Suc (it_depth it)\<rparr> # rest))))))"

text \<open>One round: the checks of an item and its children.\<close>

definition review_round ::
    "(pystr \<Rightarrow> yaml result) \<Rightarrow> 'w aws \<Rightarrow> review_input \<Rightarrow> review_item list \<Rightarrow> review_item \<Rightarrow> ('w, review_item list) act" where
  "review_round load aws rv done_items it =
     abind (alift (check_item rv done_items it)) (\<lambda>sealed_template.
     abind (describe_change_set aws (it_change_set it)) (\<lambda>d.
     abind (alift (check_description rv it d)) (\<lambda>_.
     abind (get_original_template load aws (it_change_set it)) (\<lambda>proposed.
     if \<not> py_eq (VDict proposed) (VDict sealed_template)
     then araise (review_error ''CloudFormation template differs from sealed catalog'')
     else
     abind (alift (nested_template_urls proposed)) (\<lambda>urls.
     abind (alift (nested_change_sets d proposed urls)) (\<lambda>sel.
     review_children aws rv it sel (sort_key fst urls)))))))"

fun review_queue ::
    "nat \<Rightarrow> (pystr \<Rightarrow> yaml result) \<Rightarrow> 'w aws \<Rightarrow> review_input \<Rightarrow> review_item list \<Rightarrow> review_item list \<Rightarrow> ('w, review_item list) act" where
  "review_queue n load aws rv [] done_items = aret done_items"
| "review_queue 0 load aws rv (it # queue) done_items = araise no_fuel"
| "review_queue (Suc n) load aws rv (it # queue) done_items =
     abind (review_round load aws rv done_items it) (\<lambda>children.
     review_queue n load aws rv (queue @ children) (done_items @ [it]))"

declare review_queue.simps(3) [simp del]

record sealed_template_record =
  st_url :: pystr
  st_template :: yaml

fun catalog_of :: "pylib \<Rightarrow> sealed_template_record list \<Rightarrow> (pystr \<times> pydict) list \<Rightarrow> (pystr \<times> pydict) list result" where
  "catalog_of lib [] d = Inr d"
| "catalog_of lib (r # rs) d =
     rbind (template_url lib (VStr (st_url r))) (\<lambda>u.
     if u \<in> keys d then Inl (review_error ''sealed catalog contains a duplicate template'')
     else rbind (normalize_template (st_template r)) (\<lambda>t. catalog_of lib rs (d @ [(u, t)])))"

definition item_document :: "review_item \<Rightarrow> pyval" where
  "item_document it = VDict (mk
     [(''change_set'', VStr (it_change_set it)), (''stack'', VStr (it_stack it)), (''template_url'', VStr (it_url it)),
      (''parent'', case it_parent it of None \<Rightarrow> VNone | Some p \<Rightarrow> VStr p), (''depth'', VInt (int (it_depth it)))])"

record deployment_review =
  dr_change_set :: pystr
  dr_stack :: pystr
  dr_proof :: pydict
  dr_change_sets :: "pystr list"
  dr_stacks :: "pystr list"

definition review_proof :: "review_input \<Rightarrow> review_item list \<Rightarrow> pydict result" where
  "review_proof rv items =
     rbind (canonical_sha256 (VList (map (\<lambda>p. VDict (mk [(''url'', VStr (fst p)), (''template'', VDict (snd p))]))
       (sort_key fst (rv_catalog rv))))) (\<lambda>catalog.
     rbind (canonical_sha256 (VList (map item_document (sort_key it_url items)))) (\<lambda>hierarchy.
     rbind (canonical_sha256 (VDict (rv_invocation rv))) (\<lambda>invocation.
     rbind (text_fingerprint (rv_change_set rv)) (\<lambda>a.
     rbind (text_fingerprint (rv_stack rv)) (\<lambda>b.
     let proof = mk [(''producer'', VStr REVIEW_PRODUCER), (''version'', VInt 1), (''result'', VStr (lit ''pass'')),
           (''change_set_type'', VStr (lit ''CREATE'')), (''template_count'', VInt (int CATALOG_SIZE)),
           (''nested_change_set_count'', VInt (int (CATALOG_SIZE - 1))), (''max_depth'', VInt (int (Max (it_depth ` set items)))),
           (''catalog_sha256'', VStr catalog), (''hierarchy_sha256'', VStr hierarchy),
           (''root_invocation_sha256'', VStr invocation), (''root_change_set_fingerprint'', VStr a),
           (''root_stack_fingerprint'', VStr b)] in
     if 1024 < length (json_dumps compact (VDict proof)) then Inl (review_error ''deployment review proof exceeds bounds'')
     else Inr proof)))))"

definition review_result :: "review_input \<Rightarrow> review_item list \<Rightarrow> deployment_review result" where
  "review_result rv items =
     (if it_url ` set items \<noteq> keys (rv_catalog rv) \<or> length items \<noteq> CATALOG_SIZE
      then Inl (review_error ''sealed template catalog is missing or orphaned'')
      else
      rbind (review_proof rv items) (\<lambda>p.
      Inr \<lparr>dr_change_set = rv_change_set rv, dr_stack = rv_stack rv, dr_proof = p,
           dr_change_sets = sort (map it_change_set items), dr_stacks = sort (map it_stack items)\<rparr>))"

record review_request =
  rq_change_set :: pystr
  rq_stack :: pystr
  rq_url :: pystr
  rq_catalog :: "sealed_template_record list"
  rq_type :: pystr
  rq_region :: pystr
  rq_account :: pystr
  rq_invocation :: root_invocation

text \<open>Everything in front of the first read.\<close>

definition review_inputs :: "pylib \<Rightarrow> review_request \<Rightarrow> (pydict \<Rightarrow> review_input) result" where
  "review_inputs lib rq =
     (if rq_type rq \<noteq> lit ''CREATE'' then Inl (review_error ''deployment review is restricted to CREATE'')
      else if rq_region rq \<notin> set (map lit [''us-west-2'', ''us-east-1'']) \<or> \<not> class_match is_digit 12 12 (rq_account rq)
      then Inl (review_error ''expected AWS deployment coordinates are invalid'')
      else
      rbind (change_set_identity (VStr (rq_change_set rq))) (\<lambda>a.
      rbind (stack_identity (VStr (rq_stack rq))) (\<lambda>b.
      if a \<noteq> (rq_region rq, rq_account rq) \<or> b \<noteq> (rq_region rq, rq_account rq)
      then Inl (review_error ''root change-set and stack identities differ'')
      else
      rbind (template_url lib (VStr (rq_url rq))) (\<lambda>u.
      rbind (root_invocation_contract (rq_invocation rq)) (\<lambda>invocation.
      if length (rq_catalog rq) \<noteq> CATALOG_SIZE
      then Inl (review_error ''sealed catalog must contain exactly ten templates'')
      else
      rbind (catalog_of lib (rq_catalog rq) []) (\<lambda>catalog.
      if u \<notin> keys catalog then Inl (review_error ''root template is missing from sealed catalog'')
      else
      Inr (\<lambda>d. \<lparr>rv_change_set = rq_change_set rq, rv_stack = rq_stack rq, rv_identity = a, rv_catalog = catalog,
                 rv_invocation = invocation, rv_description = d\<rparr>)))))))"

definition root_item :: "review_request \<Rightarrow> review_item" where
  "root_item rq = \<lparr>it_change_set = rq_change_set rq, it_stack = rq_stack rq, it_url = rq_url rq, it_parent = None, it_depth = 0\<rparr>"

definition review_create_change_set ::
    "pylib \<Rightarrow> (pystr \<Rightarrow> yaml result) \<Rightarrow> 'w aws \<Rightarrow> review_request \<Rightarrow> ('w, deployment_review) act" where
  "review_create_change_set lib load aws rq =
     abind (alift (review_inputs lib rq)) (\<lambda>input.
     abind (describe_review_stack aws (rq_stack rq) None (rq_stack rq)) (\<lambda>d.
     abind (review_queue (Suc CATALOG_SIZE) load aws (input d) [root_item rq] []) (\<lambda>items.
     alift (review_result (input d) items))))"

end
