(* ===== verification/ReviewSafety.thy ===== *)
theory ReviewSafety imports Review PreflightSafety WebToken begin

text \<open>
  What the review of a deployment promises: it only reads, it ends, and a change set that passes is the
  sealed catalog, template by template, with changes that can only add.
\<close>

section \<open>Reading\<close>

lemma read_only_review [simp]:
  "read_only (describe_change_set_command arn)" "read_only (get_template_command arn)"
  by (simp_all add: describe_change_set_command_def get_template_command_def)

context reading begin

lemma review_json: "read_only c \<Longrightarrow> keeping (review_json (aws_log aws) c)"
  unfolding review_json_def by (intro bind basic aws)

lemma change_set: "keeping (describe_change_set (aws_log aws) arn)"
  unfolding describe_change_set_def by (intro bind basic review_json) simp

lemma template: "keeping (get_original_template load (aws_log aws) arn)"
  unfolding get_original_template_def by (intro bind basic review_json) simp

lemma stack_review: "keeping (describe_review_stack (aws_log aws) s p r)"
  unfolding describe_review_stack_def by (intro bind basic review_json) simp

lemma children: "keeping (review_children (aws_log aws) rv it sel urls)"
  by (induction urls) (auto simp: Let_def intro!: bind basic change_set stack_review split: option.split)

lemma round: "keeping (review_round load (aws_log aws) rv done_items it)"
  unfolding review_round_def by (intro bind basic change_set template children branch)

lemma queue: "keeping (review_queue n load (aws_log aws) rv queue done_items)"
  by (induction n load "aws_log aws" rv queue done_items rule: review_queue.induct)
    (auto simp: review_queue.simps(3) intro!: bind round)

lemma review: "keeping (review_create_change_set lib load (aws_log aws) rq)"
  unfolding review_create_change_set_def by (intro bind basic stack_review queue)

end

text \<open>
  The review only reads: whatever the account answers, each of its commands describes or gets.
\<close>

lemma review_only_reads:
  "only_read (snd (snd (review_create_change_set lib load (aws_log aws) rq (w, []))))"
  by (intro quietD quiet.review)

section \<open>What a review that passes has seen\<close>

text \<open>
  A change that can only add: it names a resource of the template with its type, and adds it, or adds it
  under a condition of the template.
\<close>

definition adding :: "pydict \<Rightarrow> pyval \<Rightarrow> bool" where
  "adding t item \<longleftrightarrow>
     (\<exists>change resource. safe_get item ''ResourceChange'' = VDict change \<and>
        map_of (dict_of (get_key t ''Resources'')) (str_of (get_key change ''LogicalResourceId'')) = Some (VDict resource) \<and>
        get_key change ''ResourceType'' = get_key resource ''Type'' \<and>
        (get_key change ''Action'' = VStr (lit ''Add'') \<or>
         get_key change ''Action'' = VStr (lit ''Dynamic'') \<and>
           safe_dynamic (dict_of (get_or t ''Conditions'' (VDict []))) resource change))"

lemma select_changes_adding:
  assumes "select_changes urls (dict_of (get_key t ''Resources'')) (dict_of (get_or t ''Conditions'' (VDict []))) items sel obs = Inr sel'"
  shows "list_all (adding t) items"
  using assms
proof (induction items arbitrary: sel obs)
  case (Cons item items)
  from Cons.prems obtain change l resource sel1 where c: "safe_get item ''ResourceChange'' = VDict change"
    and r: "change_resource (dict_of (get_key t ''Resources'')) obs change = Inr (l, resource)"
    and s: "select_change urls (dict_of (get_or t ''Conditions'' (VDict []))) sel l resource change = Inr sel1"
    and rest: "select_changes urls (dict_of (get_key t ''Resources'')) (dict_of (get_or t ''Conditions'' (VDict []))) items sel1 (insert l obs) = Inr sel'"
    by (auto simp: result_simps expect_dict_def split: if_split_asm pyval.split_asm prod.split_asm)
  from r have "map_of (dict_of (get_key t ''Resources'')) (str_of (get_key change ''LogicalResourceId'')) = Some (VDict resource)"
    "get_key change ''ResourceType'' = get_key resource ''Type''"
    by (auto simp: change_resource_def Let_def split: if_split_asm option.split_asm pyval.split_asm)
  moreover from s have "get_key change ''Action'' = VStr (lit ''Add'') \<or>
         get_key change ''Action'' = VStr (lit ''Dynamic'') \<and>
           safe_dynamic (dict_of (get_or t ''Conditions'' (VDict []))) resource change"
    by (auto simp: select_change_def Let_def split: if_split_asm)
  ultimately have "adding t item" using c unfolding adding_def by blast
  with Cons.IH [OF rest] show ?case by simp
qed simp

lemma nested_change_sets_adding:
  "nested_change_sets d t urls = Inr sel \<Longrightarrow> list_all (adding t) (list_of (get_key d ''Changes''))"
  by (auto simp: nested_change_sets_def result_simps expect_list_def expect_dict_def
      split: pyval.split_asm if_split_asm intro!: select_changes_adding)

definition reviewed :: "(pystr \<Rightarrow> yaml result) \<Rightarrow> review_input \<Rightarrow> (pystr list \<times> pyval result) set \<Rightarrow> review_item \<Rightarrow> bool" where
  "reviewed load rv tr it \<longleftrightarrow>
     (\<exists>d b t s. (describe_change_set_command (it_change_set it), Inr (VDict d)) \<in> tr \<and>
        (get_template_command (it_change_set it), Inr (VDict b)) \<in> tr \<and>
        check_description rv it d = Inr () \<and> original_template load b = Inr t \<and>
        map_of (rv_catalog rv) (it_url it) = Some s \<and> py_eq (VDict t) (VDict s) \<and>
        list_all (adding t) (list_of (get_key d ''Changes'')))"

lemma reviewed_mono: "reviewed load rv tr it \<Longrightarrow> tr \<subseteq> tr' \<Longrightarrow> reviewed load rv tr' it"
  unfolding reviewed_def by blast

lemma growing_review:
  "growing (describe_change_set (aws_log aws) arn)" "growing (get_original_template load (aws_log aws) arn)"
  "growing (review_children (aws_log aws) rv it sel urls)" "growing (review_round load (aws_log aws) rv done_items it)"
  unfolding growing_def by (intro allI holding.change_set holding.template holding.children holding.round)+

lemma json_logged:
  assumes "review_json (aws_log aws) c s = (Inr d, s')"
  shows "(c, Inr (VDict d)) \<in> set (snd s')"
proof -
  from assms obtain v s1 where a: "aws_log aws c 180 s = (Inr v, s1)"
    and v: "expect_dict (review_error ''AWS returned invalid deployment review data'') v = Inr d" "s' = s1"
    unfolding review_json_def by (auto simp: abind_split)
  from logged [OF a] v show ?thesis by (simp add: result_simps)
qed

lemma described:
  assumes "describe_change_set (aws_log aws) arn s = (Inr d, s')"
  shows "(describe_change_set_command arn, Inr (VDict d)) \<in> set (snd s')"
proof -
  from assms obtain d1 s1 where j: "review_json (aws_log aws) (describe_change_set_command arn) s = (Inr d1, s1)"
    and c: "changes_of d1 = Inr d" "s' = s1"
    unfolding describe_change_set_def by (auto simp: abind_split)
  from c have "d1 = d" by (auto simp: changes_of_def split: if_split_asm)
  with json_logged [OF j] c show ?thesis by simp
qed

lemma templated:
  assumes "get_original_template load (aws_log aws) arn s = (Inr t, s')"
  shows "\<exists>b. (get_template_command arn, Inr (VDict b)) \<in> set (snd s') \<and> original_template load b = Inr t"
proof -
  from assms obtain b s1 where j: "review_json (aws_log aws) (get_template_command arn) s = (Inr b, s1)"
    and c: "original_template load b = Inr t" "s' = s1"
    unfolding get_original_template_def by (auto simp: abind_split)
  with json_logged [OF j] show ?thesis by blast
qed

lemma round_reviewed:
  assumes "review_round load (aws_log aws) rv done_items it s = (Inr children, s')"
  shows "reviewed load rv (set (snd s')) it \<and> \<not> review_duplicate done_items it"
proof -
  from assms obtain sealed_template s1 where c: "check_item rv done_items it = Inr sealed_template"
    and r1: "abind (describe_change_set (aws_log aws) (it_change_set it)) (\<lambda>d.
     abind (alift (check_description rv it d)) (\<lambda>_.
     abind (get_original_template load (aws_log aws) (it_change_set it)) (\<lambda>proposed.
     if \<not> py_eq (VDict proposed) (VDict sealed_template)
     then araise (review_error ''CloudFormation template differs from sealed catalog'')
     else
     abind (alift (nested_template_urls proposed)) (\<lambda>urls.
     abind (alift (nested_change_sets d proposed urls)) (\<lambda>sel.
     review_children (aws_log aws) rv it sel (sort_key fst urls)))))) s = (Inr children, s')"
    unfolding review_round_def by (auto simp: abind_split)
  from r1 obtain d s2 where d: "describe_change_set (aws_log aws) (it_change_set it) s = (Inr d, s2)"
    and r2: "abind (alift (check_description rv it d)) (\<lambda>_.
     abind (get_original_template load (aws_log aws) (it_change_set it)) (\<lambda>proposed.
     if \<not> py_eq (VDict proposed) (VDict sealed_template)
     then araise (review_error ''CloudFormation template differs from sealed catalog'')
     else
     abind (alift (nested_template_urls proposed)) (\<lambda>urls.
     abind (alift (nested_change_sets d proposed urls)) (\<lambda>sel.
     review_children (aws_log aws) rv it sel (sort_key fst urls))))) s2 = (Inr children, s')"
    by (auto simp: abind_split)
  from r2 obtain t s3 where cd: "check_description rv it d = Inr ()"
    and t: "get_original_template load (aws_log aws) (it_change_set it) s2 = (Inr t, s3)"
    and r3: "(if \<not> py_eq (VDict t) (VDict sealed_template)
     then araise (review_error ''CloudFormation template differs from sealed catalog'')
     else
     abind (alift (nested_template_urls t)) (\<lambda>urls.
     abind (alift (nested_change_sets d t urls)) (\<lambda>sel.
     review_children (aws_log aws) rv it sel (sort_key fst urls)))) s3 = (Inr children, s')"
    by (auto simp: abind_split)
  from r3 obtain urls sel where eq: "py_eq (VDict t) (VDict sealed_template)"
    and n: "nested_change_sets d t urls = Inr sel"
    and ch: "review_children (aws_log aws) rv it sel (sort_key fst urls) s3 = (Inr children, s')"
    by (auto simp: abind_split split: if_split_asm)
  have "set (snd s2) \<subseteq> set (snd s3)" "set (snd s3) \<subseteq> set (snd s')"
    using growingD [OF growing_review(2) t] growingD [OF growing_review(3) ch] by simp_all
  with described [OF d] templated [OF t] have "(describe_change_set_command (it_change_set it), Inr (VDict d)) \<in> set (snd s')"
    "\<exists>b. (get_template_command (it_change_set it), Inr (VDict b)) \<in> set (snd s') \<and> original_template load b = Inr t"
    by blast+
  moreover from c have "map_of (rv_catalog rv) (it_url it) = Some sealed_template" "\<not> review_duplicate done_items it"
    by (auto simp: check_item_def result_simps split: if_split_asm option.split_asm)
  ultimately show ?thesis using cd eq nested_change_sets_adding [OF n] unfolding reviewed_def by blast
qed

lemma queue_reviewed:
  assumes "review_queue n load (aws_log aws) rv queue done_items s = (Inr items, s')"
    and "\<And>it. it \<in> set done_items \<Longrightarrow> reviewed load rv (set (snd s)) it" "distinct (map it_url done_items)"
  shows "(\<forall>it\<in>set items. reviewed load rv (set (snd s')) it) \<and> distinct (map it_url items)"
  using assms
proof (induction n arbitrary: queue done_items s)
  case 0
  then show ?case by (cases queue) auto
next
  case (Suc n)
  show ?case
  proof (cases queue)
    case Nil
    with Suc.prems show ?thesis by auto
  next
    case (Cons it rest)
    with Suc.prems(1) obtain children s1 where r: "review_round load (aws_log aws) rv done_items it s = (Inr children, s1)"
      and q: "review_queue n load (aws_log aws) rv (rest @ children) (done_items @ [it]) s1 = (Inr items, s')"
      by (auto simp: review_queue.simps(3) abind_split)
    have "set (snd s) \<subseteq> set (snd s1)"
      by (rule growingD [OF growing_review(4) r])
    have "reviewed load rv (set (snd s1)) x" if "x \<in> set (done_items @ [it])" for x
    proof (cases "x = it")
      case False
      with that Suc.prems(2) have "reviewed load rv (set (snd s)) x" by simp
      then show ?thesis using \<open>set (snd s) \<subseteq> set (snd s1)\<close> by (rule reviewed_mono)
    qed (use round_reviewed [OF r] in simp)
    moreover have "distinct (map it_url (done_items @ [it]))"
      using Suc.prems(3) round_reviewed [OF r] by (auto simp: review_duplicate_def)
    ultimately show ?thesis by (rule Suc.IH [OF q])
  qed
qed

text \<open>The pair of a catalog: its template, normalized.\<close>

lemma catalog_of_sealed:
  "catalog_of lib rs d = Inr c \<Longrightarrow> map fst c = map fst d @ map st_url rs \<and>
     (\<forall>(u, t)\<in>set c. (u, t) \<in> set d \<or> (\<exists>r\<in>set rs. st_url r = u \<and> normalize_template (st_template r) = Inr t))"
proof (induction rs arbitrary: d)
  case (Cons r rs)
  from Cons.prems obtain u t where u: "template_url lib (VStr (st_url r)) = Inr u"
    and t: "normalize_template (st_template r) = Inr t" and c: "catalog_of lib rs (d @ [(u, t)]) = Inr c"
    by (auto simp: result_simps split: if_split_asm)
  from u have "u = st_url r"
    by (auto simp: template_url_def Let_def result_simps split: if_split_asm option.split_asm)
  with Cons.IH [OF c] t show ?case by auto
qed simp

text \<open>
  An item of the hierarchy is sealed: its change set, which is complete and only adds, and its original
  template, which is that of the catalog, were read.
\<close>

definition sealed_item ::
    "(pystr \<Rightarrow> yaml result) \<Rightarrow> sealed_template_record list \<Rightarrow> (pystr list \<times> pyval result) set \<Rightarrow> review_item \<Rightarrow> bool" where
  "sealed_item load catalog tr it \<longleftrightarrow>
     (\<exists>r d b t s. r \<in> set catalog \<and> st_url r = it_url it \<and>
        (describe_change_set_command (it_change_set it), Inr (VDict d)) \<in> tr \<and>
        (get_template_command (it_change_set it), Inr (VDict b)) \<in> tr \<and>
        get_key d ''ChangeSetId'' = VStr (it_change_set it) \<and> get_key d ''StackId'' = VStr (it_stack it) \<and>
        get_key d ''Status'' = VStr (lit ''CREATE_COMPLETE'') \<and>
        original_template load b = Inr t \<and> normalize_template (st_template r) = Inr s \<and> py_eq (VDict t) (VDict s) \<and>
        list_all (adding t) (list_of (get_key d ''Changes'')))"

lemma reviewed_sealed:
  assumes "reviewed load rv tr it" "catalog_of lib rs [] = Inr (rv_catalog rv)"
  shows "sealed_item load rs tr it"
proof -
  from assms(1) obtain d b t s where d: "(describe_change_set_command (it_change_set it), Inr (VDict d)) \<in> tr"
      "(get_template_command (it_change_set it), Inr (VDict b)) \<in> tr" "original_template load b = Inr t"
      "py_eq (VDict t) (VDict s)" "list_all (adding t) (list_of (get_key d ''Changes''))"
    and c: "check_description rv it d = Inr ()" and m: "map_of (rv_catalog rv) (it_url it) = Some s"
    unfolding reviewed_def by blast
  from catalog_of_sealed [OF assms(2)] map_of_SomeD [OF m]
  obtain r where r: "r \<in> set rs" "st_url r = it_url it" "normalize_template (st_template r) = Inr s" by force
  from c have "get_key d ''ChangeSetId'' = VStr (it_change_set it) \<and> get_key d ''StackId'' = VStr (it_stack it) \<and>
      get_key d ''Status'' = VStr (lit ''CREATE_COMPLETE'')"
    by (simp add: check_description_def split: if_split_asm)
  with d r show ?thesis unfolding sealed_item_def by blast
qed

text \<open>
  A review that passes has seen the whole sealed catalog and nothing else: the ten change sets it
  reports were each described, complete and with no change but an addition, and the original template
  that the account holds for each is the sealed one, with each of the ten templates deployed once.
\<close>

lemma review_is_exact:
  assumes "review_create_change_set lib load (aws_log aws) rq (w, []) = (Inr passed, (w', tr))"
  shows "\<exists>items. dr_change_sets passed = sort (map it_change_set items) \<and> dr_stacks passed = sort (map it_stack items) \<and>
    length items = 10 \<and> distinct (map it_url items) \<and> set (map it_url items) = set (map st_url (rq_catalog rq)) \<and>
    list_all (sealed_item load (rq_catalog rq) (set tr)) items"
proof -
  from assms obtain inp d items s1 where i: "review_inputs lib rq = Inr inp"
    and q: "review_queue (Suc CATALOG_SIZE) load (aws_log aws) (inp d) [root_item rq] [] s1 = (Inr items, (w', tr))"
    and r: "review_result (inp d) items = Inr passed"
    unfolding review_create_change_set_def by (auto simp: abind_split)
  have c: "catalog_of lib (rq_catalog rq) [] = Inr (rv_catalog (inp d))"
    using i by (auto simp: review_inputs_def result_simps split: if_split_asm)
  have "(\<forall>it\<in>set items. reviewed load (inp d) (set tr) it) \<and> distinct (map it_url items)"
    using queue_reviewed [OF q] by simp
  moreover have "keys (rv_catalog (inp d)) = st_url ` set (rq_catalog rq)"
    by (simp only: keys_def set_map [symmetric] conjunct1 [OF catalog_of_sealed [OF c]] list.map append_Nil)
  then have "it_url ` set items = st_url ` set (rq_catalog rq)" "length items = 10"
      "dr_change_sets passed = sort (map it_change_set items)" "dr_stacks passed = sort (map it_stack items)"
    using r by (auto simp: review_result_def CATALOG_SIZE_def result_simps split: if_split_asm)
  ultimately show ?thesis using reviewed_sealed [OF _ c] by (intro exI [of _ items]) (auto simp: list_all_iff)
qed

section \<open>The review ends\<close>

text \<open>The fuel's own error is neither the account's nor the loader's.\<close>

definition answers :: "(pystr \<Rightarrow> yaml result) \<Rightarrow> 'w aws \<Rightarrow> bool" where
  "answers load aws \<longleftrightarrow> (\<forall>s. load s \<noteq> Inl no_fuel) \<and> (\<forall>c t w. fst (aws c t w) \<noteq> Inl no_fuel)"

named_theorems fuel_free_rules

lemma review_error_fuel [simp]: "review_error m \<noteq> no_fuel" "PyError ''KeyError'' \<noteq> no_fuel" "PyError ''TypeError'' \<noteq> no_fuel"
    "PyError ''ValueError'' \<noteq> no_fuel" "inventory_error \<noteq> no_fuel" "changes_error \<noteq> no_fuel" "orphan_error \<noteq> no_fuel"
    "change_identity_error \<noteq> no_fuel"
  by (simp_all add: review_error_def no_fuel_def inventory_error_def changes_error_def orphan_error_def change_identity_error_def)

lemmas review_error_not_fuel [simp] = review_error_fuel [symmetric]

lemma expect_fuel [simp]: "e \<noteq> no_fuel \<Longrightarrow> expect_dict e v \<noteq> Inl no_fuel" "e \<noteq> no_fuel \<Longrightarrow> expect_list e v \<noteq> Inl no_fuel"
    "e \<noteq> no_fuel \<Longrightarrow> expect_str e v \<noteq> Inl no_fuel" "e \<noteq> no_fuel \<Longrightarrow> some_or e r \<noteq> Inl no_fuel"
  by (auto simp: expect_dict_def expect_list_def expect_str_def some_or_def split: pyval.split option.split)

lemma rbind_fuel: "r \<noteq> Inl no_fuel \<Longrightarrow> (\<And>x. f x \<noteq> Inl no_fuel) \<Longrightarrow> rbind r f \<noteq> Inl no_fuel"
  by (auto simp: rbind_eq_Inl)

lemma fuel_if: "r \<noteq> Inl no_fuel \<Longrightarrow> r' \<noteq> Inl no_fuel \<Longrightarrow> (if b then r else r') \<noteq> Inl no_fuel"
  by simp

lemma utf8_fuel [simp]: "utf8_encode s \<noteq> Inl no_fuel"
  by (auto simp: utf8_encode_def no_fuel_def split: option.split)

lemma visit_fuel:
  "visit v depth n \<noteq> Inl no_fuel" "visit_items vs depth n \<noteq> Inl no_fuel" "visit_pairs ps d depth n \<noteq> Inl no_fuel"
  by (induction v depth n and vs depth n and ps d depth n rule: visit_visit_items_visit_pairs.induct)
    (auto simp: visit.simps Let_def rbind_eq_Inl split: yaml.split pyfloat.split if_split_asm)

lemma normalize_fuel: "normalize_template v \<noteq> Inl no_fuel"
  unfolding normalize_template_def by (intro rbind_fuel visit_fuel) (simp add: case_prod_beta)

lemma template_fuel: "answers load aws \<Longrightarrow> original_template load b \<noteq> Inl no_fuel"
  using normalize_fuel
  by (auto simp: original_template_def parse_template_body_def Let_def rbind_eq_Inl answers_def map_error_def catch_as_def
      split: if_split_asm pyval.split_asm sum.split_asm)

lemma url_fuel: "template_url lib v \<noteq> Inl no_fuel"
  unfolding template_url_def Let_def
  by (intro fuel_if rbind_fuel) (simp_all split: option.split)

lemma identity_fuel: "change_set_identity v \<noteq> Inl no_fuel" "stack_identity v \<noteq> Inl no_fuel"
  by (simp_all add: change_set_identity_def stack_identity_def)

lemma nested_urls_fuel: "nested_template_urls t \<noteq> Inl no_fuel"
proof -
  have "nested_urls_of d \<noteq> Inl no_fuel" for d
    by (induction d rule: nested_urls_of.induct) (auto simp: rbind_eq_Inl split: if_split_asm)
  then show ?thesis unfolding nested_template_urls_def by (intro rbind_fuel) simp_all
qed

lemma change_sets_fuel: "nested_change_sets d t urls \<noteq> Inl no_fuel"
proof -
  have "change_resource resources obs change \<noteq> Inl no_fuel" for resources obs change
    by (auto simp: change_resource_def Let_def split: option.split pyval.split)
  moreover have "select_change urls conditions sel l resource change \<noteq> Inl no_fuel" for conditions sel l resource change
    using identity_fuel by (auto simp: select_change_def Let_def rbind_eq_Inl split: if_split_asm)
  ultimately have "select_changes urls resources conditions items sel obs \<noteq> Inl no_fuel" for resources conditions items sel obs
    by (induction items arbitrary: sel obs) (auto simp: rbind_eq_Inl split: if_split_asm)
  then show ?thesis unfolding nested_change_sets_def by (intro rbind_fuel) simp_all
qed

lemma pairs_fuel: "bad \<noteq> no_fuel \<Longrightarrow> pairs_dict bad key_ok ps d \<noteq> Inl no_fuel"
  by (induction bad key_ok ps d rule: pairs_dict.induct) (auto simp: rbind_eq_Inl split: if_split_asm)

lemma invocation_fuel: "root_invocation_contract ri \<noteq> Inl no_fuel"
  unfolding root_invocation_contract_def bounded_pairs_def Let_def
  by (intro fuel_if rbind_fuel pairs_fuel) simp_all

lemma catalog_fuel: "catalog_of lib rs d \<noteq> Inl no_fuel"
  by (induction lib rs d rule: catalog_of.induct) (auto simp: rbind_eq_Inl url_fuel normalize_fuel split: if_split_asm)

lemma inputs_fuel: "review_inputs lib rq \<noteq> Inl no_fuel"
  unfolding review_inputs_def by (intro fuel_if rbind_fuel) (simp_all add: identity_fuel url_fuel invocation_fuel catalog_fuel)

lemma actual_fuel: "actual_pairs v label kf vf optional \<noteq> Inl no_fuel"
proof -
  have "bad \<noteq> no_fuel \<Longrightarrow> actual_dict bad kf vf optional vs d \<noteq> Inl no_fuel" for bad vs d
    by (induction bad kf vf optional vs d rule: actual_dict.induct) (auto simp: rbind_eq_Inl Let_def split: if_split_asm)
  then show ?thesis unfolding actual_pairs_def Let_def by (intro fuel_if rbind_fuel) simp_all
qed

lemma description_fuel: "check_description rv it d \<noteq> Inl no_fuel"
  unfolding check_description_def verify_root_invocation_def Let_def
  by (auto simp: rbind_eq_Inl actual_fuel split: option.split)

lemma item_fuel: "check_item rv done_items it \<noteq> Inl no_fuel"
  unfolding check_item_def by (auto simp: rbind_eq_Inl identity_fuel split: option.split)

text \<open>Actions whose result is not the fuel's error.\<close>

definition fuelled :: "('w, 'a) act \<Rightarrow> bool" where
  "fuelled m \<longleftrightarrow> (\<forall>s. fst (m s) \<noteq> Inl no_fuel)"

lemma fuelled_basic:
  "fuelled (aret x)" "e \<noteq> no_fuel \<Longrightarrow> fuelled (araise e)" "r \<noteq> Inl no_fuel \<Longrightarrow> fuelled (alift r)"
  by (auto simp: fuelled_def aret_def araise_def alift_def)

lemma fuelled_bind: "fuelled m \<Longrightarrow> (\<And>x. fuelled (f x)) \<Longrightarrow> fuelled (abind m f)"
  by (auto simp: fuelled_def abind_def split: prod.split sum.split) (metis fst_conv)

lemma fuelled_if: "fuelled m \<Longrightarrow> fuelled m' \<Longrightarrow> fuelled (if b then m else m')"
  by simp

lemma fuelled_json: "answers load aws \<Longrightarrow> fuelled (review_json aws c)"
  unfolding review_json_def
  by (intro fuelled_bind fuelled_basic) (simp_all add: fuelled_def answers_def)

lemma fuelled_reads:
  assumes "answers load aws"
  shows "fuelled (describe_change_set aws arn)" "fuelled (get_original_template load aws arn)"
    "fuelled (describe_review_stack aws s p r)"
proof -
  have "changes_of d \<noteq> Inl no_fuel" for d by (auto simp: changes_of_def)
  then show "fuelled (describe_change_set aws arn)"
    unfolding describe_change_set_def using fuelled_json [OF assms] by (intro fuelled_bind fuelled_basic)
  show "fuelled (get_original_template load aws arn)"
    unfolding get_original_template_def using fuelled_json [OF assms] template_fuel [OF assms]
    by (intro fuelled_bind fuelled_basic)
  have "review_stack d s p r \<noteq> Inl no_fuel" for d
    by (auto simp: review_stack_def Let_def rbind_eq_Inl split: if_split_asm option.split_asm)
  then show "fuelled (describe_review_stack aws s p r)"
    unfolding describe_review_stack_def using fuelled_json [OF assms] by (intro fuelled_bind fuelled_basic)
qed

lemma fuelled_children:
  assumes "answers load aws"
  shows "fuelled (review_children aws rv it sel urls)"
proof (induction urls)
  case Nil
  show ?case by (simp add: fuelled_def aret_def)
next
  case (Cons p urls)
  show ?case
  proof (cases p)
    case (Pair l u)
    with Cons fuelled_reads [OF assms] show ?thesis
      by (auto simp: Let_def identity_fuel split: option.split intro!: fuelled_bind fuelled_basic)
  qed
qed

lemma fuelled_round: "answers load aws \<Longrightarrow> fuelled (review_round load aws rv done_items it)"
  unfolding review_round_def
  by (intro fuelled_bind fuelled_if fuelled_basic item_fuel description_fuel nested_urls_fuel change_sets_fuel
      fuelled_reads [where load = load] fuelled_children) simp_all

lemma round_new:
  assumes "review_round load aws rv done_items it s = (Inr children, s')"
  shows "it_url it \<in> keys (rv_catalog rv) \<and> it_url it \<notin> it_url ` set done_items"
proof -
  from assms obtain t where "check_item rv done_items it = Inr t"
    unfolding review_round_def by (auto simp: abind_split)
  then show ?thesis
    by (auto simp: check_item_def review_duplicate_def keys_def dest: map_of_SomeD split: if_split_asm option.split_asm)
       (force dest: map_of_SomeD)
qed

lemma queue_ends:
  assumes "answers load aws" "length (rv_catalog rv) < n + length done_items"
    and "distinct (map it_url done_items)" "it_url ` set done_items \<subseteq> keys (rv_catalog rv)"
  shows "fst (review_queue n load aws rv queue done_items s) \<noteq> Inl no_fuel"
  using assms(2-)
proof (induction n arbitrary: queue done_items s)
  case 0
  have "length done_items = card (it_url ` set done_items)" using 0 by (metis distinct_card length_map set_map)
  also have "\<dots> \<le> card (keys (rv_catalog rv))" using 0 by (intro card_mono) (simp_all add: keys_def)
  also have "\<dots> \<le> length (rv_catalog rv)" using card_length [of "map fst (rv_catalog rv)"] by (simp add: keys_def)
  finally show ?case using 0 by simp
next
  case (Suc n)
  show ?case
  proof (cases queue)
    case (Cons it rest)
    obtain r s1 where run: "review_round load aws rv done_items it s = (r, s1)" by (rule prod.exhaust)
    show ?thesis
    proof (cases r)
      case (Inl e)
      with run fuelled_round [OF assms(1)] Cons show ?thesis
        by (auto simp: review_queue.simps(3) abind_def fuelled_def) (metis fst_conv)
    next
      case (Inr children)
      with run have "it_url it \<in> keys (rv_catalog rv) \<and> it_url it \<notin> it_url ` set done_items"
        by (intro round_new) simp
      with Suc.prems have "fst (review_queue n load aws rv (rest @ children) (done_items @ [it]) s1) \<noteq> Inl no_fuel"
        by (intro Suc.IH) auto
      with run Inr Cons show ?thesis by (simp add: review_queue.simps(3) abind_def)
    qed
  qed (simp add: aret_def)
qed

text \<open>
  Eleven rounds are enough: each round that goes on has reviewed another of the ten templates.  The review
  ends with its own result for every account whose answers and loader are not the fuel's error.
\<close>

lemma review_ends:
  assumes "answers load aws"
  shows "fst (review_create_change_set lib load aws rq s) \<noteq> Inl no_fuel"
proof -
  have queue: "fuelled (review_queue (Suc CATALOG_SIZE) load aws (input d) [root_item rq] [])"
    if i: "review_inputs lib rq = Inr input" for input d
  proof -
    from i have c: "catalog_of lib (rq_catalog rq) [] = Inr (rv_catalog (input d))" "length (rq_catalog rq) = CATALOG_SIZE"
      by (auto simp: review_inputs_def result_simps split: if_split_asm)
    then have "length (rv_catalog (input d)) = CATALOG_SIZE"
      using arg_cong [OF conjunct1 [OF catalog_of_sealed [OF c(1)]], of length] by simp
    then show ?thesis unfolding fuelled_def by (intro allI queue_ends [OF assms]) simp_all
  qed
  have result: "review_result rv items \<noteq> Inl no_fuel" for rv items
    by (auto simp: review_result_def review_proof_def text_fingerprint_def Let_def rbind_eq_Inl canonical_sha256_def split: if_split_asm)
  show ?thesis
  proof (cases "review_inputs lib rq")
    case (Inl e)
    with inputs_fuel [of lib rq] show ?thesis
      by (simp add: review_create_change_set_def abind_def alift_def)
  next
    case (Inr input)
    have "fuelled (abind (describe_review_stack aws (rq_stack rq) None (rq_stack rq)) (\<lambda>d.
       abind (review_queue (Suc CATALOG_SIZE) load aws (input d) [root_item rq] []) (\<lambda>items.
       alift (review_result (input d) items))))"
      by (intro fuelled_bind fuelled_basic fuelled_reads(3) [OF assms] queue [OF Inr] result)
    with Inr show ?thesis by (simp add: review_create_change_set_def abind_def alift_def fuelled_def)
  qed
qed

end
