(* ===== verification/Spec2Isabelle.thy ===== *)
theory Spec2Isabelle imports ScreenPop Url Handoff WebToken Store Flow Ledger Route Handlers DirectWeb ProvisionSafety ProvisionService VapiBounds VapiResourceSafety ConfigurationSafety ZeroProof InventorySafety TelemetrySafety QualVapiBounds ReviewSafety begin

text \<open>
  Verification of the Bridgefu handoff recipe for Vapi and Amazon Connect.

  \<^bold>\<open>The program.\<close>  A caller talks to a Vapi assistant and asks for a person.  The assistant calls the
  prepare function (\<open>lambda/prepare_handoff/handler.py\<close>), which authenticates the request, checks that it
  comes from the bound organisation and assistant, derives a correlation identifier and stores the
  caller's screen-pop values in a DynamoDB table.  The transfer function
  (\<open>lambda/transfer_destination/handler.py\<close>) reserves a SIP destination with the Bridgefu route service, or
  replaces the leg of a direct browser call, and marks the stored record as reserved.  When the call
  reaches Amazon Connect, the lookup function (\<open>lambda/connect_lookup/handler.py\<close>) gives the agent the
  stored values.  All three share \<open>lambda/common\<close>: \<open>screen_pop.py\<close> (which fields there are and which values
  they accept), \<open>bridgefu_handoff.py\<close> (events, identities, records and the three operations over an abstract
  store), \<open>aws_runtime.py\<close> (the store over DynamoDB, secrets, the route client, log records) and
  \<open>vapi_provisioning.py\<close> (the Vapi objects of a stack).  Two CloudFormation custom resources configure a
  deployment: \<open>lambda/vapi_provisioner\<close> creates, updates and deletes the Vapi objects,
  \<open>lambda/configuration\<close> checks the deployment's inputs and renders routes and the agent's guide.  The
  qualification (\<open>qualification/\<close>) proves a release on a live account: it checks the account before, owns
  every object it creates by sealed records, measures the call and proves afterwards that nothing is left.
  \<open>image/runtime/render.py\<close> writes the configuration of the SIP host.

  \<^bold>\<open>The model.\<close>  Python values are the datatype \<open>pyval\<close>, strings are lists of code points, dictionaries are
  association lists in insertion order.  An exception is a value: a pure function that may raise has type
  \<open>'a result\<close>, the sum of \<open>exn\<close> and \<open>'a\<close>; code with effects is an action, a function from a world to a
  result and the next world, so that the effects before a \<open>raise\<close> remain.  Everything outside the
  repository is a parameter: boto3's clients, the HTTP opener, clocks, random bytes, the Unicode tables
  (\<open>pylib\<close>) are records of actions or functions, and a theorem that relies on one says so in a premise.
  The world is a type variable, so that a property holds for every service; logging worlds record the
  requests, commands and times that a property speaks of.  Times and sleeps are rational or whole numbers.

  \<^bold>\<open>Theories.\<close>
  \<^item> Prelude, Text, Json, Digest, Url, Clock: the language and what the code uses of its library.  Strings,
    bytes, values, dictionaries, exceptions and actions; case folding, stripping, splitting; \<open>json.dumps\<close>
    and \<open>json.loads\<close>; SHA-256, HMAC, base64; \<open>urlsplit\<close>; ISO times.
  \<^item> ScreenPop is \<open>lambda/common/screen_pop.py\<close>.
  \<^item> Handoff, Flow are \<open>lambda/common/bridgefu_handoff.py\<close>: the contract of one event, the operations that
    prepare, transfer and look up a call and hand over a browser session, and the locale of the store.
  \<^item> DirectStore, Ledger are the contract of the table the operations share: the locale of the writes of a
    browser session, and the life of the entries under every operation, their expiry in the table included.
  \<^item> Store, Runtime, Route are \<open>lambda/common/aws_runtime.py\<close>: the wire format and the conditional writes
    over DynamoDB, an instance of the locales of Flow and DirectStore; secrets and log records; the route
    client.
  \<^item> WebToken, DirectWeb are \<open>qualification/bridgefu_web_handoff.py\<close>: the signed tokens, the disposable tool
    and assistant with their ownership checks, the binding of the two legs.
  \<^item> Handlers is the three functions as they are entered.
  \<^item> Vapi, Provision, ProvisionSafety, ProvisionService, VapiBounds are \<open>lambda/common/vapi_provisioning.py\<close>:
    the client with its retries and reconciliation, the provisioning of a stack, what it writes, what a
    deletion leaves over a service with a state, and the bounds on requests and sleeps.
  \<^item> Custom, Configuration, ConfigurationSafety are \<open>lambda/configuration/handler.py\<close>; VapiResource,
    VapiResourceSafety are \<open>lambda/vapi_provisioner/handler.py\<close>.
  \<^item> ZeroProof, Inventory, InventorySafety, Preflight, PreflightSafety, Telemetry, TelemetrySafety are
    \<open>qualification/release_safeguards.py\<close>.
  \<^item> Journal, JournalSafety, QualVapi, QualVapiSafety, QualVapiCreate, QualVapiBounds are the sealed records
    and the class \<open>Vapi\<close> of \<open>qualification/controller.py\<close>.
  \<^item> Review, ReviewSafety are \<open>qualification/deployment_review.py\<close>.

  \<^bold>\<open>What is shown.\<close>  The properties are the theorems whose text begins with a number.
  \<^item> Screen pop: an accepted configuration is well formed; printing and parsing are inverse for text
    fields, and are not for choice fields; accepted values are within their fields and the limits.
  \<^item> Calls: identifiers of different calls collide only if HMAC-SHA-256 does; only an authorized request of
    the bound identity changes anything; the first stored context wins, is what every later lookup gives,
    and is never given after its expiry or in a status that is not live; along every mix of operations,
    browser sessions and removals of expired entries, an entry that has not expired stays and keeps its
    content; a transfer over DynamoDB is the abstract operation on the entry.
  \<^item> Tokens: what is issued verifies, the two checks agree but for two limits of length and form that are
    stated exactly, and acceptance is bounded in time.
  \<^item> Requests: every request of the route client goes to the configured base URL with a path appended and
    stays on its origin; secrets are fresh; every operation of the Vapi client ends within a number of
    requests and seconds, and writes a second time only after a read.
  \<^item> Vapi objects: provisioning writes only objects it found or made to be the stack's; a deletion leaves
    no assistant and no credential; an invocation of the custom resource whose answer can be written delivers
    it, whatever the opener does, and ends normally exactly if the last answer was acknowledged.
  \<^item> Configuration: routes stay in the configured Connect instance; the guide reads back, and as markup it is
    one paragraph for each field with the configured label.
  \<^item> Safeguards: a teardown proof rests on three consecutive empty observations over its span and ends;
    an inventory misses nothing; the checks only read; a preflight and a telemetry that pass rest on logged
    answers.  The review of a deployment only reads, ends, and passes only on the sealed catalog with changes
    that can only add (\<open>review_only_reads\<close>, \<open>review_ends\<close>, \<open>review_is_exact\<close>, lemmas without a number).
  \<^item> The qualification's Vapi objects: a sealed record binds its identity; an endpoint belongs to one run; a
    deletion deletes only what it has just read and found owned, proves the object away over the settling
    time, and ends; a creation sends one request at most and returns only what is owned.

  \<^bold>\<open>Bounds and fuel.\<close>  Loops that the source bounds by data are structural recursion.  The parser of JSON takes
  fuel \<open>2 * length s + 1\<close>, proved enough for every text (\<open>json_loads_no_fuel\<close>).  The nested stacks of an
  inventory recurse at most as often as the maximum the code itself counts.  The pages of a tagged inventory
  take 2001 rounds at most when every page adds a resource (\<open>tagged_arns_end\<close>); the code has no bound of its own
  on empty pages.  Loops that wait for a clock have fuel in rounds: \<open>zero_fuel\<close>, a fifth of the
  seconds and two (the last theorem of ZeroProof), \<open>sample_fuel\<close> (\<open>samples_end\<close>), and for a deletion any number above the
  polls in its timeout (theory QualVapiBounds; 482 with the defaults).  The review of a deployment has eleven
  rounds for its ten templates (\<open>review_ends\<close>).  Without fuel a loop gives the error
  \<open>no_fuel\<close>, which no operation of the code raises, so that no theorem about a success rests on it.  Integers are
  unbounded as in Python; bytes are 8-bit words and SHA-256 works on 32-bit words.

  \<^bold>\<open>Not modelled.\<close>  Of \<open>qualification/controller.py\<close> the driver of live runs: its command line, CloudFormation
  stacks, browsers and SIP clients, whose result is what those services did.  \<open>direct_secure_preflight.py\<close>
  and \<open>bridgefu_web_runtime.py\<close> emit Python, shell and configuration text for a host and check fixed results;
  \<open>diagnostics/\<close> observes live calls; \<open>image/runtime/render.py\<close> fills files of the machine image, with guards
  of the \<open>ipaddress\<close> module whose tables differ between versions of Python;
  \<open>build_demo_site.py\<close> and \<open>test_database_reset.py\<close> are file and SQL input and output; \<open>release/\<close> builds and
  verifies archives with git and AWS.  Templates, JavaScript, shell and Packer sources are of other
  languages.  Floating-point arithmetic is exact except where a text or a number is converted, which rounds to the
  nearest double.  Recursion depth, memory and threads are not modelled.
\<close>

end
